(* ===== verification/Chiaki_Prelude.thy ===== *)
theory Chiaki_Prelude
  imports Main "HOL-Library.Word" "HOL-Library.Monad_Syntax"
begin

text \<open>
  Shared vocabulary of the development: the machine integers of the C code, the error codes
  of \<^verbatim>\<open>lib/include/chiaki/common.h\<close>, byte buffers with checked accesses, and the generic
  lemmas on words, lists and buffers that the component theories use.

  A C expression whose value the language does not define (an access outside a buffer, a
  failed \<^verbatim>\<open>assert\<close>, a null pointer that is dereferenced) is the value \<^term>\<open>None\<close> of an
  option; a computation that returns normally is \<^term>\<open>Some r\<close>. Error codes are ordinary
  results. So a theorem of the form \<open>f x = Some r\<close> says that the code runs to its end
  without undefined behaviour.
\<close>

unbundle bit_operations_syntax

named_theorems buf_simps \<open>reading back what was written to a byte buffer\<close>
named_theorems msg_simps \<open>reading from the concatenation of the fields of a message\<close>

section \<open>Machine integers and error codes\<close>

type_synonym u8 = "8 word"
type_synonym u16 = "16 word"
type_synonym u32 = "32 word"
type_synonym u64 = "64 word"
type_synonym bytes = "8 word list"

datatype ChiakiErrorCode =
    CHIAKI_ERR_SUCCESS
  | CHIAKI_ERR_UNKNOWN
  | CHIAKI_ERR_PARSE_ADDR
  | CHIAKI_ERR_THREAD
  | CHIAKI_ERR_MEMORY
  | CHIAKI_ERR_OVERFLOW
  | CHIAKI_ERR_NETWORK
  | CHIAKI_ERR_CONNECTION_REFUSED
  | CHIAKI_ERR_HOST_DOWN
  | CHIAKI_ERR_HOST_UNREACH
  | CHIAKI_ERR_DISCONNECTED
  | CHIAKI_ERR_INVALID_DATA
  | CHIAKI_ERR_BUF_TOO_SMALL
  | CHIAKI_ERR_MUTEX_LOCKED
  | CHIAKI_ERR_CANCELED
  | CHIAKI_ERR_TIMEOUT
  | CHIAKI_ERR_INVALID_RESPONSE
  | CHIAKI_ERR_INVALID_MAC
  | CHIAKI_ERR_UNINITIALIZED
  | CHIAKI_ERR_FEC_FAILED
  | CHIAKI_ERR_VERSION_MISMATCH
  | CHIAKI_ERR_HTTP_NONOK

fun chiaki_error_string :: "ChiakiErrorCode \<Rightarrow> string" where
  "chiaki_error_string CHIAKI_ERR_SUCCESS = ''Success''"
| "chiaki_error_string CHIAKI_ERR_PARSE_ADDR = ''Failed to parse host address''"
| "chiaki_error_string CHIAKI_ERR_THREAD = ''Thread error''"
| "chiaki_error_string CHIAKI_ERR_MEMORY = ''Memory error''"
| "chiaki_error_string CHIAKI_ERR_NETWORK = ''Network error''"
| "chiaki_error_string CHIAKI_ERR_CONNECTION_REFUSED = ''Connection Refused''"
| "chiaki_error_string CHIAKI_ERR_HOST_DOWN = ''Host is down''"
| "chiaki_error_string CHIAKI_ERR_HOST_UNREACH = ''No route to host''"
| "chiaki_error_string CHIAKI_ERR_DISCONNECTED = ''Disconnected''"
| "chiaki_error_string CHIAKI_ERR_INVALID_DATA = ''Invalid data''"
| "chiaki_error_string CHIAKI_ERR_BUF_TOO_SMALL = ''Buffer too small''"
| "chiaki_error_string CHIAKI_ERR_MUTEX_LOCKED = ''Mutex is locked''"
| "chiaki_error_string CHIAKI_ERR_CANCELED = ''Canceled''"
| "chiaki_error_string CHIAKI_ERR_TIMEOUT = ''Timeout''"
| "chiaki_error_string CHIAKI_ERR_INVALID_RESPONSE = ''Invalid Response''"
| "chiaki_error_string CHIAKI_ERR_INVALID_MAC = ''Invalid MAC''"
| "chiaki_error_string CHIAKI_ERR_UNINITIALIZED = ''Uninitialized''"
| "chiaki_error_string CHIAKI_ERR_FEC_FAILED = ''FEC failed''"
| "chiaki_error_string _ = ''Unknown''"

section \<open>Words\<close>

lemma unat_lt_exp: "unat (x :: 'a::len word) < 2 ^ LENGTH('a)"
  by (rule unsigned_less)

lemma unat_of_nat_small: "n < 2 ^ LENGTH('a) \<Longrightarrow> unat (of_nat n :: 'a::len word) = n"
  by (simp add: unat_of_nat take_bit_nat_eq_self)

lemma unat_plus_small:
  "unat a + unat b < 2 ^ LENGTH('a) \<Longrightarrow> unat (a + b :: 'a::len word) = unat a + unat b"
  by (simp add: unat_word_ariths)

lemma unat_plus1_small:
  "unat a + 1 < 2 ^ LENGTH('a) \<Longrightarrow> unat (a + 1 :: 'a::len word) = unat a + 1"
  by (simp add: unat_word_ariths)

lemma unat_minus_small: "unat b \<le> unat a \<Longrightarrow> unat (a - b :: 'a::len word) = unat a - unat b"
  by (simp add: unat_sub word_le_nat_alt)

lemma word_minus_one_small: "0 < unat a \<Longrightarrow> unat (a - 1 :: 'a::len word) = unat a - 1"
  by (metis One_nat_def Suc_leI unat_1 unat_minus_small)

lemma circular_inj:
  assumes "(i::nat) < m" "j < m"
  shows "(a + i) mod m = (a + j) mod m \<longleftrightarrow> i = j"
proof
  assume "(a + i) mod m = (a + j) mod m"
  then obtain k l where "a + i + m * k = a + j + m * l" by (auto simp: nat_mod_eq_iff)
  then have "i + m * k = j + m * l" by simp
  then have "i mod m = j mod m" by (auto simp: nat_mod_eq_iff)
  then show "i = j" using assms by simp
qed simp

section \<open>Byte buffers\<close>

definition rd8 :: "bytes \<Rightarrow> nat \<Rightarrow> u8 option" where
  "rd8 b i = (if i < length b then Some (b ! i) else None)"

definition join16 :: "u8 \<Rightarrow> u8 \<Rightarrow> u16" where
  "join16 h l = push_bit 8 (ucast h) OR ucast l"

definition join32 :: "u16 \<Rightarrow> u16 \<Rightarrow> u32" where
  "join32 h l = push_bit 16 (ucast h) OR ucast l"

text \<open>\<^verbatim>\<open>ntohs\<close> and \<^verbatim>\<open>ntohl\<close> of an unaligned integer at an offset: big-endian reads.\<close>

definition rd16 :: "bytes \<Rightarrow> nat \<Rightarrow> u16 option" where
  "rd16 b i = do { h \<leftarrow> rd8 b i; l \<leftarrow> rd8 b (i + 1); Some (join16 h l) }"

definition rd32 :: "bytes \<Rightarrow> nat \<Rightarrow> u32 option" where
  "rd32 b i = do { h \<leftarrow> rd16 b i; l \<leftarrow> rd16 b (i + 2); Some (join32 h l) }"

text \<open>\<^verbatim>\<open>htons\<close> and \<^verbatim>\<open>htonl\<close>: the bytes of an integer in network order.\<close>

definition be16 :: "u16 \<Rightarrow> bytes" where
  "be16 w = [ucast (drop_bit 8 w), ucast w]"

definition be32 :: "u32 \<Rightarrow> bytes" where
  "be32 w = be16 (ucast (drop_bit 16 w)) @ be16 (ucast w)"

text \<open>The bytes of an integer as a little-endian machine stores it (no conversion).\<close>

definition le32 :: "u32 \<Rightarrow> bytes" where
  "le32 w = rev (be32 w)"

text \<open>\<^verbatim>\<open>memcpy(b + i, s, n)\<close> where \<open>n\<close> is the length of \<open>s\<close>.\<close>

definition wr :: "bytes \<Rightarrow> nat \<Rightarrow> bytes \<Rightarrow> bytes option" where
  "wr b i s = (if i + length s \<le> length b
     then Some (take i b @ s @ drop (i + length s) b) else None)"

text \<open>\<^verbatim>\<open>memcpy(d, b + i, n)\<close>: the bytes read.\<close>

definition rd_n :: "bytes \<Rightarrow> nat \<Rightarrow> nat \<Rightarrow> bytes option" where
  "rd_n b i n = (if i + n \<le> length b then Some (take n (drop i b)) else None)"

text \<open>The pure result of a write, used to name written buffers in lemmas.\<close>

definition upd :: "bytes \<Rightarrow> nat \<Rightarrow> bytes \<Rightarrow> bytes" where
  "upd b i s = take i b @ s @ drop (i + length s) b"

lemma wr_Some [buf_simps]: "i + length s \<le> length b \<Longrightarrow> wr b i s = Some (upd b i s)"
  by (simp add: wr_def upd_def)

lemma wr_eq_Some_iff: "wr b i s = Some b' \<longleftrightarrow> i + length s \<le> length b \<and> b' = upd b i s"
  by (auto simp: wr_def upd_def)

lemma length_upd [simp]: "i + length s \<le> length b \<Longrightarrow> length (upd b i s) = length b"
  by (simp add: upd_def)

lemma length_wr: "wr b i s = Some b' \<Longrightarrow> length b' = length b"
  by (auto simp: wr_eq_Some_iff)

lemma nth_upd:
  "i + length s \<le> length b \<Longrightarrow> k < length b \<Longrightarrow>
   upd b i s ! k = (if i \<le> k \<and> k < i + length s then s ! (k - i) else b ! k)"
  by (auto simp: upd_def nth_append min_def)

lemma rd8_Some [buf_simps]: "i < length b \<Longrightarrow> rd8 b i = Some (b ! i)"
  by (simp add: rd8_def)

lemma rd16_Some [buf_simps]: "i + 1 < length b \<Longrightarrow> rd16 b i = Some (join16 (b ! i) (b ! (i + 1)))"
  by (simp add: rd16_def rd8_def)

lemma rd32_Some [buf_simps]:
  "i + 3 < length b \<Longrightarrow>
   rd32 b i = Some (join32 (join16 (b ! i) (b ! (i + 1))) (join16 (b ! (i + 2)) (b ! (i + 3))))"
  by (simp add: rd32_def rd16_def rd8_def numeral_3_eq_3)

lemma rd_n_Some [buf_simps]: "i + n \<le> length b \<Longrightarrow> rd_n b i n = Some (take n (drop i b))"
  by (simp add: rd_n_def)

lemma length_be16 [simp]: "length (be16 w) = 2"
  by (simp add: be16_def)

lemma length_be32 [simp]: "length (be32 w) = 4"
  by (simp add: be32_def)

lemma length_le32 [simp]: "length (le32 w) = 4"
  by (simp add: le32_def)

lemma join16_split [simp]: "join16 (ucast (drop_bit 8 w)) (ucast w) = w"
  unfolding join16_def by (rule bit_word_eqI) (auto simp: bit_simps)

lemma join32_split [simp]: "join32 (ucast (drop_bit 16 w)) (ucast w) = w"
  unfolding join32_def by (rule bit_word_eqI) (auto simp: bit_simps)

lemma split_join16 [simp]:
  "ucast (drop_bit 8 (join16 h l)) = h" "ucast (join16 h l) = l"
  unfolding join16_def
  by (rule bit_word_eqI, auto simp: bit_simps dest: bit_imp_le_length)+

lemma split_join32 [simp]:
  "ucast (drop_bit 16 (join32 h l)) = h" "ucast (join32 h l) = l"
  unfolding join32_def
  by (rule bit_word_eqI, auto simp: bit_simps dest: bit_imp_le_length)+

lemma be16_nth [simp]: "be16 w ! 0 = ucast (drop_bit 8 w)" "be16 w ! Suc 0 = ucast w"
  by (simp_all add: be16_def)

lemma be32_nth [simp]:
  "be32 w ! 0 = ucast (drop_bit 8 (ucast (drop_bit 16 w) :: u16))"
  "be32 w ! Suc 0 = ucast (ucast (drop_bit 16 w) :: u16)"
  "be32 w ! 2 = ucast (drop_bit 8 (ucast w :: u16))"
  "be32 w ! 3 = ucast (ucast w :: u16)"
  by (simp_all add: be32_def be16_def)

lemma be16_join16 [simp]: "be16 (join16 h l) = [h, l]"
  by (simp add: be16_def)

lemma rd16_upd_same [buf_simps]: "i + 2 \<le> length b \<Longrightarrow> rd16 (upd b i (be16 w)) i = Some w"
  by (simp add: rd16_Some nth_upd)

lemma rd32_upd_same [buf_simps]: "i + 4 \<le> length b \<Longrightarrow> rd32 (upd b i (be32 w)) i = Some w"
  by (simp add: rd32_Some nth_upd)

lemma rd8_upd_same [buf_simps]: "i < length b \<Longrightarrow> rd8 (upd b i [x]) i = Some x"
  by (simp add: rd8_Some nth_upd)

lemma rd8_upd_other [buf_simps]:
  "i + length s \<le> length b \<Longrightarrow> j < i \<or> i + length s \<le> j \<Longrightarrow> rd8 (upd b i s) j = rd8 b j"
  by (auto simp: rd8_def nth_upd)

lemma rd16_upd_other [buf_simps]:
  "i + length s \<le> length b \<Longrightarrow> j + 2 \<le> i \<or> i + length s \<le> j \<Longrightarrow> rd16 (upd b i s) j = rd16 b j"
  by (auto simp: rd16_def rd8_upd_other)

lemma rd32_upd_other [buf_simps]:
  "i + length s \<le> length b \<Longrightarrow> j + 4 \<le> i \<or> i + length s \<le> j \<Longrightarrow> rd32 (upd b i s) j = rd32 b j"
  by (auto simp: rd32_def rd16_upd_other)

text \<open>Reading from a concatenation, as a message is composed.\<close>

lemma rd_append_skip [msg_simps]:
  "length xs \<le> i \<Longrightarrow> rd8 (xs @ ys) i = rd8 ys (i - length xs)"
  "length xs \<le> i \<Longrightarrow> rd16 (xs @ ys) i = rd16 ys (i - length xs)"
  "length xs \<le> i \<Longrightarrow> rd32 (xs @ ys) i = rd32 ys (i - length xs)"
  by (auto simp: rd8_def rd16_def rd32_def nth_append Suc_diff_le)

lemma rd_Cons_skip [msg_simps]:
  "0 < i \<Longrightarrow> rd8 (x # ys) i = rd8 ys (i - 1)"
  "0 < i \<Longrightarrow> rd16 (x # ys) i = rd16 ys (i - 1)"
  "0 < i \<Longrightarrow> rd32 (x # ys) i = rd32 ys (i - 1)"
  using rd_append_skip [of "[x]"] by simp_all

lemma rd_append_here [msg_simps]:
  "rd8 (x # ys) 0 = Some x" "rd16 (be16 w @ ys) 0 = Some w" "rd32 (be32 v @ ys) 0 = Some v"
  "rd16 (be16 w) 0 = Some w" "rd32 (be32 v) 0 = Some v"
  by (simp_all add: rd8_def rd16_def rd32_def be32_def nth_append)

section \<open>Lists\<close>

lemma take_drop_eq: "i \<le> j \<Longrightarrow> take (j - i) (drop i xs) @ drop j xs = drop i xs"
  by (metis append_take_drop_id drop_drop le_add_diff_inverse2)

lemma list_update_same_conv2: "i < length xs \<Longrightarrow> xs[i := x] = take i xs @ x # drop (Suc i) xs"
  by (rule upd_conv_take_nth_drop)

end
