(* ===== verification/Seq_Num.thy ===== *)
theory Seq_Num
  imports Chiaki_Prelude
begin

text \<open>
  Serial numbers that wrap around (\<^verbatim>\<open>lib/include/chiaki/seqnum.h\<close>, after RFC 1982). The
  header defines the comparisons once, in a macro over the width; here the width is the
  length of the word type. The differences are computed in a wider signed integer, in which
  they cannot overflow: they are integers.

  The lemmas show that the two-branch comparisons of the macro are the textbook ones: \<open>a\<close>
  is before \<open>b\<close> exactly when \<open>b - a\<close>, taken modulo \<open>2 ^ n\<close>, is not zero and less than half
  of the number space.
\<close>

section \<open>The comparisons\<close>

definition seq_num_lt :: "'a::len word \<Rightarrow> 'a word \<Rightarrow> bool" where
  "seq_num_lt a b =
     (if a = b then False
      else let d = uint b - uint a
           in a < b \<and> d < 2 ^ (LENGTH('a) - 1) \<or> a > b \<and> - d > 2 ^ (LENGTH('a) - 1))"

definition seq_num_gt :: "'a::len word \<Rightarrow> 'a word \<Rightarrow> bool" where
  "seq_num_gt a b =
     (if a = b then False
      else let d = uint b - uint a
           in a < b \<and> d > 2 ^ (LENGTH('a) - 1) \<or> a > b \<and> - d < 2 ^ (LENGTH('a) - 1))"

abbreviation chiaki_seq_num_16_lt :: "u16 \<Rightarrow> u16 \<Rightarrow> bool" where
  "chiaki_seq_num_16_lt \<equiv> seq_num_lt"

abbreviation chiaki_seq_num_16_gt :: "u16 \<Rightarrow> u16 \<Rightarrow> bool" where
  "chiaki_seq_num_16_gt \<equiv> seq_num_gt"

abbreviation chiaki_seq_num_32_lt :: "u32 \<Rightarrow> u32 \<Rightarrow> bool" where
  "chiaki_seq_num_32_lt \<equiv> seq_num_lt"

abbreviation chiaki_seq_num_32_gt :: "u32 \<Rightarrow> u32 \<Rightarrow> bool" where
  "chiaki_seq_num_32_gt \<equiv> seq_num_gt"

section \<open>The distance between two serial numbers\<close>

definition seq_dist :: "'a::len word \<Rightarrow> 'a word \<Rightarrow> nat" where
  "seq_dist a b = unat (b - a)"

lemma two_exp_half: "(2::nat) ^ LENGTH('a::len) = 2 * 2 ^ (LENGTH('a) - 1)"
  by (metis len_gt_0 power_minus_mult mult.commute)

lemma two_exp_half_int: "(2::int) ^ LENGTH('a::len) = 2 * 2 ^ (LENGTH('a) - 1)"
  by (metis len_gt_0 power_minus_mult mult.commute)

lemma seq_dist_bound: "seq_dist a (b :: 'a::len word) < 2 ^ LENGTH('a)"
  unfolding seq_dist_def by (rule unat_lt_exp)

lemma seq_dist_self [simp]: "seq_dist a a = 0"
  by (simp add: seq_dist_def)

lemma seq_dist_eq_0 [simp]: "seq_dist a b = 0 \<longleftrightarrow> a = b"
  by (auto simp: seq_dist_def unat_eq_0)

lemma seq_dist_pos: "0 < seq_dist a b \<longleftrightarrow> a \<noteq> b"
  by (metis neq0_conv seq_dist_eq_0)

lemma seq_dist_int:
  "int (seq_dist a (b :: 'a::len word)) =
     (if uint a \<le> uint b then uint b - uint a else uint b - uint a + 2 ^ LENGTH('a))"
  by (simp add: seq_dist_def uint_sub_if_size word_size)

lemma seq_dist_swap:
  "a \<noteq> b \<Longrightarrow> seq_dist a (b :: 'a::len word) + seq_dist b a = 2 ^ LENGTH('a)"
proof -
  assume "a \<noteq> b"
  then have "uint a \<noteq> uint b" by (simp add: word_uint_eq_iff)
  then have "int (seq_dist a b + seq_dist b a) = 2 ^ LENGTH('a)"
    by (auto simp: seq_dist_int)
  also have "\<dots> = int (2 ^ LENGTH('a))" by simp
  finally show ?thesis by (simp only: of_nat_eq_iff)
qed

lemma half_int: "(d::nat) < 2 ^ k \<longleftrightarrow> int d < 2 ^ k"
  by (metis of_nat_less_iff of_nat_numeral of_nat_power)

lemma seq_num_lt_dist:
  "seq_num_lt a (b :: 'a::len word) \<longleftrightarrow> a \<noteq> b \<and> seq_dist a b < 2 ^ (LENGTH('a) - 1)"
  using two_exp_half_int [where 'a = 'a]
  by (auto simp: seq_num_lt_def Let_def half_int seq_dist_int word_less_def word_uint_eq_iff)

lemma seq_num_gt_dist:
  "seq_num_gt a (b :: 'a::len word) \<longleftrightarrow> a \<noteq> b \<and> seq_dist b a < 2 ^ (LENGTH('a) - 1)"
  using two_exp_half_int [where 'a = 'a]
  by (auto simp: seq_num_gt_def Let_def half_int seq_dist_int word_less_def word_uint_eq_iff)

section \<open>Order laws\<close>

lemma seq_num_gt_lt: "seq_num_gt a b = seq_num_lt b a"
  by (auto simp: seq_num_lt_dist seq_num_gt_dist)

lemma seq_num_lt_irrefl [simp]: "\<not> seq_num_lt a a"
  by (simp add: seq_num_lt_def)

lemma seq_num_lt_asym: "seq_num_lt a b \<Longrightarrow> \<not> seq_num_lt b a"
  using seq_dist_swap [of a b] two_exp_half [where 'a = 'a]
  by (auto simp: seq_num_lt_dist)

lemma seq_num_lt_cases:
  fixes a b :: "'a::len word"
  obtains "a = b" | "seq_num_lt a b" | "seq_num_lt b a" | "seq_dist a b = 2 ^ (LENGTH('a) - 1)"
proof (cases "a = b")
  case False
  then show ?thesis
    using that seq_dist_swap [OF False] two_exp_half [where 'a = 'a]
    by (auto simp: seq_num_lt_dist not_less) linarith
qed (use that in blast)

lemma seq_num_lt_shift: "seq_num_lt (a + c) (b + c) = seq_num_lt a b"
  by (simp add: seq_num_lt_dist seq_dist_def)

lemma seq_dist_add: "seq_dist a (a + of_nat k :: 'a::len word) = k mod 2 ^ LENGTH('a)"
  by (simp add: seq_dist_def unat_of_nat take_bit_eq_mod)

lemma seq_num_lt_add:
  fixes a :: "'a::len word"
  assumes "0 < k" "k < 2 ^ (LENGTH('a) - 1)"
  shows "seq_num_lt a (a + of_nat k)"
proof -
  have "k mod 2 ^ LENGTH('a) = k"
    using assms two_exp_half [where 'a = 'a] by simp
  then have d: "seq_dist a (a + of_nat k) = k" by (simp add: seq_dist_add)
  then have "a \<noteq> a + of_nat k" using assms(1) by (metis seq_dist_self less_numeral_extra(3))
  then show ?thesis using d assms(2) by (simp add: seq_num_lt_dist)
qed

lemma seq_dist_trans:
  fixes a b c :: "'a::len word"
  assumes "seq_dist a b + seq_dist b c < 2 ^ LENGTH('a)"
  shows "seq_dist a c = seq_dist a b + seq_dist b c"
proof -
  have "c - a = (b - a) + (c - b)" by simp
  then show ?thesis
    using assms unat_plus_small [of "b - a" "c - b"] by (simp add: seq_dist_def)
qed

text \<open>Serial numbers are not ordered transitively in general, but they are inside a window of half the space.\<close>

lemma seq_num_lt_trans:
  fixes a b c :: "'a::len word"
  assumes "seq_num_lt a b" "seq_num_lt b c"
    and "seq_dist a b + seq_dist b c < 2 ^ (LENGTH('a) - 1)"
  shows "seq_num_lt a c"
proof -
  have "seq_dist a c = seq_dist a b + seq_dist b c"
    using assms(3) two_exp_half [where 'a = 'a] by (intro seq_dist_trans) simp
  moreover have "seq_dist a b \<noteq> 0" using assms(1) by (auto simp: seq_num_lt_dist)
  ultimately show ?thesis using assms(3) by (auto simp: seq_num_lt_dist)
qed

text \<open>Numbers less than half the space ahead of a common base compare as their distances do.\<close>

lemma seq_num_lt_window:
  fixes m a c :: "'a::len word"
  assumes "seq_dist m a < 2 ^ (LENGTH('a) - 1)" "seq_dist m c < 2 ^ (LENGTH('a) - 1)"
  shows "seq_num_lt a c \<longleftrightarrow> seq_dist m a < seq_dist m c"
proof -
  have diff: "seq_dist x y = seq_dist m y - seq_dist m x" if "seq_dist m x \<le> seq_dist m y" for x y
  proof -
    have "y - x = (y - m) - (x - m)" by simp
    then show ?thesis using that unat_minus_small [of "x - m" "y - m"] by (simp add: seq_dist_def)
  qed
  show ?thesis
  proof (cases "seq_dist m a \<le> seq_dist m c")
    case True
    then show ?thesis using diff [OF True] assms(2) by (auto simp: seq_num_lt_dist) (metis seq_dist_eq_0 diff_is_0_eq le_antisym nat_less_le)
  next
    case False
    then have "seq_num_lt c a"
      using diff [of c a] assms(1) by (auto simp: seq_num_lt_dist)
    then show ?thesis using seq_num_lt_asym False by auto
  qed
qed

text \<open>
  The comparison of serial numbers is that of RFC 1982: \<open>a\<close> is before \<open>b\<close> exactly when the
  step from \<open>a\<close> forward to \<open>b\<close>, modulo the number space, is positive and less than half the
  space; \<open>gt\<close> is the converse of \<open>lt\<close>, and two different numbers are comparable exactly when
  they are not half the space apart.
\<close>

theorem seq_num_rfc1982:
  fixes a b :: "'a::len word"
  shows "(seq_num_lt a b \<longleftrightarrow> (0 < unat (b - a) \<and> unat (b - a) < 2 ^ (LENGTH('a) - 1))) \<and>
    (seq_num_gt a b \<longleftrightarrow> seq_num_lt b a) \<and> \<not> (seq_num_lt a b \<and> seq_num_lt b a) \<and>
    (a \<noteq> b \<and> \<not> seq_num_lt a b \<and> \<not> seq_num_lt b a \<longleftrightarrow> unat (b - a) = 2 ^ (LENGTH('a) - 1))"
proof -
  have lt: "seq_num_lt x y \<longleftrightarrow> 0 < unat (y - x) \<and> unat (y - x) < 2 ^ (LENGTH('a) - 1)" for x y :: "'a word"
    using seq_dist_pos [of x y] by (simp add: seq_num_lt_dist seq_dist_def)
  have "a \<noteq> b \<and> \<not> seq_num_lt a b \<and> \<not> seq_num_lt b a \<longleftrightarrow> seq_dist a b = 2 ^ (LENGTH('a) - 1)"
  proof (cases "a = b")
    case False
    then have "seq_dist a b + seq_dist b a = 2 * 2 ^ (LENGTH('a) - 1)"
      using seq_dist_swap [OF False] two_exp_half [where 'a = 'a] by simp
    then show ?thesis using False by (auto simp: seq_num_lt_dist)
  qed (simp add: seq_num_lt_dist)
  then have "a \<noteq> b \<and> \<not> seq_num_lt a b \<and> \<not> seq_num_lt b a \<longleftrightarrow> unat (b - a) = 2 ^ (LENGTH('a) - 1)"
    by (simp only: seq_dist_def)
  then show ?thesis using lt [of a b] seq_num_gt_lt [of a b] seq_num_lt_asym [of a b] by blast
qed

end
