(* ===== verification/Utils.thy ===== *)
theory Utils
  imports Chiaki_Prelude
begin

text \<open>
  The inline helpers of \<^verbatim>\<open>lib/src/utils.h\<close> that do not touch sockets: the exclusive or of two
  buffers and the conversion between bytes and hexadecimal text. Text is a list of bytes.
\<close>

abbreviation chr :: "char \<Rightarrow> u8" where
  "chr c \<equiv> of_char c"

abbreviation ascii :: "string \<Rightarrow> bytes" where
  "ascii s \<equiv> map of_char s"

section \<open>xor\<close>

text \<open>\<^verbatim>\<open>xor_bytes(dst, src, sz)\<close>: the bytes of \<open>dst\<close> afterwards; \<open>None\<close> when a buffer is too short.\<close>

fun xor_bytes :: "bytes \<Rightarrow> bytes \<Rightarrow> nat \<Rightarrow> bytes option" where
  "xor_bytes dst src 0 = Some dst"
| "xor_bytes (d # dst) (s # src) (Suc sz) = do { r \<leftarrow> xor_bytes dst src sz; Some ((d XOR s) # r) }"
| "xor_bytes _ _ (Suc sz) = None"

lemma xor_bytes_Some:
  "sz \<le> length dst \<Longrightarrow> sz \<le> length src \<Longrightarrow>
   xor_bytes dst src sz = Some (map2 (XOR) (take sz dst) (take sz src) @ drop sz dst)"
  by (induction dst src sz rule: xor_bytes.induct) auto

lemma xor_bytes_Some_iff:
  "(\<exists>r. xor_bytes dst src sz = Some r) \<longleftrightarrow> sz \<le> length dst \<and> sz \<le> length src"
  by (induction dst src sz rule: xor_bytes.induct) (auto split: bind_splits)

lemma map2_xor_cancel: "length xs \<le> length ks \<Longrightarrow> map2 (XOR) (map2 (XOR) xs ks) ks = (xs :: bytes)"
  by (induction xs ks rule: list_induct2') (auto simp: xor.assoc)

section \<open>Hexadecimal text\<close>

definition nibble_value :: "u8 \<Rightarrow> int" where
  "nibble_value c =
     (if c \<ge> chr CHR ''0'' \<and> c \<le> chr CHR ''9'' then uint c - of_char CHR ''0''
      else if c \<ge> chr CHR ''a'' \<and> c \<le> chr CHR ''f'' then uint c - of_char CHR ''a'' + 10
      else if c \<ge> chr CHR ''A'' \<and> c \<le> chr CHR ''F'' then uint c - of_char CHR ''A'' + 10
      else - 1)"

fun parse_hex_loop :: "bytes \<Rightarrow> (ChiakiErrorCode + bytes)" where
  "parse_hex_loop (c # d # hex) =
     (let h = nibble_value c
      in if h < 0 then Inl CHIAKI_ERR_INVALID_DATA
         else let l = nibble_value d
           in if l < 0 then Inl CHIAKI_ERR_INVALID_DATA
              else (case parse_hex_loop hex of Inl e \<Rightarrow> Inl e
                | Inr bs \<Rightarrow> Inr (of_int (push_bit 4 h OR l) # bs)))"
| "parse_hex_loop _ = Inr []"

text \<open>\<open>cap\<close>: the capacity of the output buffer. The result is the bytes written, whose number is the new size.\<close>

definition parse_hex :: "nat \<Rightarrow> bytes \<Rightarrow> (ChiakiErrorCode + bytes)" where
  "parse_hex cap hex =
     (if length hex mod 2 \<noteq> 0 then Inl CHIAKI_ERR_INVALID_DATA
      else if length hex div 2 > cap then Inl CHIAKI_ERR_BUF_TOO_SMALL
      else parse_hex_loop hex)"

definition nibble_char :: "u8 \<Rightarrow> u8" where
  "nibble_char v =
     (if v > 0xf then chr CHR ''0'' else if v < 0xa then chr CHR ''0'' + v else chr CHR ''a'' + v)"

text \<open>The text without its terminating zero, for which there is one more byte.\<close>

definition format_hex :: "nat \<Rightarrow> bytes \<Rightarrow> (ChiakiErrorCode + bytes)" where
  "format_hex hex_buf_size buf =
     (if hex_buf_size < length buf * 2 + 1 then Inl CHIAKI_ERR_BUF_TOO_SMALL
      else Inr (concat (map (\<lambda>v. [nibble_char (drop_bit 4 v), nibble_char (v AND 0xf)]) buf)))"

section \<open>Properties of the hexadecimal text\<close>

text \<open>The digit that \<^verbatim>\<open>nibble_value\<close> reads.\<close>

definition hex_digit :: "u8 \<Rightarrow> u8" where
  "hex_digit v = (if v < 0xa then chr CHR ''0'' + v else chr CHR ''a'' + (v - 0xa))"

definition hex_text :: "bytes \<Rightarrow> bytes" where
  "hex_text bs = concat (map (\<lambda>v. [hex_digit (drop_bit 4 v), hex_digit (v AND 0xf)]) bs)"

lemma nibble_tables:
  "\<forall>n \<in> set [0..<16]. nibble_value (hex_digit (word_of_nat n)) = int n"
  "\<forall>n \<in> set [0..<16]. nibble_value (nibble_char (word_of_nat n)) = (if n < 10 then int n else - 1)"
  by code_simp+

lemma nibble_value_hex_digit: "v < 16 \<Longrightarrow> nibble_value (hex_digit v) = uint v"
  using bspec [OF nibble_tables(1), of "unat v"] by (simp add: word_less_nat_alt)

lemma nibble_value_nibble_char:
  "v < 16 \<Longrightarrow> nibble_value (nibble_char v) = (if v < 10 then uint v else - 1)"
  using bspec [OF nibble_tables(2), of "unat v"] by (simp add: word_less_nat_alt)

lemma high_nibble: "drop_bit 4 (v :: u8) < 16"
proof -
  have "unat (drop_bit 4 v) = drop_bit 4 (unat v)"
    by (simp only: unsigned_drop_bit_eq take_bit_nat_eq_self [OF unat_lt_exp])
  then have "unat (drop_bit 4 v) < 16" using unat_lt_exp [of v] by (simp only:) (simp add: drop_bit_eq_div)
  then show ?thesis by (simp only: word_less_nat_alt) simp
qed

lemma low_nibble: "(v :: u8) AND 0xf < 16"
proof -
  have "v AND 0xf = take_bit 4 v" by (simp add: take_bit_eq_mask mask_eq_exp_minus_1)
  moreover have "unat (take_bit 4 v) = take_bit 4 (unat v)" by (simp add: unsigned_take_bit_eq)
  ultimately have "unat (v AND 0xf) < 16" by (simp only:) (simp add: take_bit_eq_mod)
  then show ?thesis by (simp only: word_less_nat_alt) simp
qed

lemma join_nibbles: "of_int (push_bit 4 (uint (drop_bit 4 v)) OR uint (v AND 0xf)) = (v :: u8)"
proof -
  have "v AND 0xf = take_bit 4 v" by (simp add: take_bit_eq_mask mask_eq_exp_minus_1)
  moreover have "push_bit 4 (uint (drop_bit 4 v)) OR uint (take_bit 4 v) = uint v"
    by (rule bit_eqI) (auto simp: bit_simps dest: bit_imp_le_length)
  ultimately show ?thesis by simp
qed

lemma parse_hex_loop_text: "parse_hex_loop (hex_text bs) = Inr bs"
proof (induction bs)
  case (Cons b bs)
  then show ?case
    using nibble_value_hex_digit [OF high_nibble [of b]] nibble_value_hex_digit [OF low_nibble [of b]]
      join_nibbles [of b]
    by (simp add: hex_text_def Let_def)
qed (simp add: hex_text_def)

lemma length_hex_text [simp]: "length (hex_text bs) = 2 * length bs"
  by (induction bs) (simp_all add: hex_text_def)

text \<open>
  \<^verbatim>\<open>parse_hex\<close> reads back the bytes of their hexadecimal text when the output buffer holds
  them and reports \<^verbatim>\<open>CHIAKI_ERR_BUF_TOO_SMALL\<close> otherwise.
\<close>

theorem parse_hex_text:
  "parse_hex cap (hex_text bs) = (if length bs \<le> cap then Inr bs else Inl CHIAKI_ERR_BUF_TOO_SMALL)"
  by (simp add: parse_hex_def parse_hex_loop_text)

text \<open>
  What \<^verbatim>\<open>format_hex\<close> writes is read back by \<^verbatim>\<open>parse_hex\<close> exactly when no digit of the
  bytes exceeds 9: the digits from 10 on are written as the letters from \<open>k\<close> to \<open>p\<close>, which no
  hexadecimal parser accepts.
\<close>

theorem format_hex_parse_hex:
  assumes "2 * length bs < n"
  shows "\<exists>hex. format_hex n bs = Inr hex \<and> length hex = 2 * length bs \<and>
    parse_hex (length bs) hex =
      (if \<forall>b \<in> set bs. drop_bit 4 b < 10 \<and> b AND 0xf < 10 then Inr bs else Inl CHIAKI_ERR_INVALID_DATA)"
proof -
  let ?hex = "\<lambda>bs. concat (map (\<lambda>v. [nibble_char (drop_bit 4 v), nibble_char (v AND 0xf)]) bs)"
  have len: "length (?hex bs) = 2 * length bs" by (induction bs) simp_all
  have "parse_hex_loop (?hex bs) =
      (if \<forall>b \<in> set bs. drop_bit 4 b < 10 \<and> b AND 0xf < 10 then Inr bs else Inl CHIAKI_ERR_INVALID_DATA)"
  proof (induction bs)
    case (Cons b bs)
    then show ?case
      using nibble_value_nibble_char [OF high_nibble [of b]] nibble_value_nibble_char [OF low_nibble [of b]]
        join_nibbles [of b]
      by (simp add: Let_def)
  qed simp
  then show ?thesis using assms len by (simp add: format_hex_def parse_hex_def)
qed

theorem format_hex_parse_hex_witness:
  "format_hex 5 [0x12, 0x3f] = Inr (ascii ''123p'') \<and> parse_hex 2 (ascii ''123p'') = Inl CHIAKI_ERR_INVALID_DATA"
proof -
  let ?bs = "[0x12, 0x3f :: u8]"
  have f: "format_hex 5 ?bs = Inr (ascii ''123p'')" by code_simp
  have bad: "\<not> (\<forall>b \<in> set ?bs. drop_bit 4 b < 10 \<and> b AND 0xf < 10)" by code_simp
  have len: "length ?bs = 2" "2 * length ?bs < 5" by simp_all
  obtain hex where "format_hex 5 ?bs = Inr hex" "parse_hex (length ?bs) hex = Inl CHIAKI_ERR_INVALID_DATA"
    using format_hex_parse_hex [OF len(2)] unfolding if_not_P [OF bad] by blast
  then show ?thesis unfolding f len(1) by (metis sum.inject(2))
qed

end
