(* ===== verification/GK_Crypt.thy ===== *)
theory GK_Crypt
  imports Seq_Num Utils
begin

text \<open>
  The packet encryption (\<^verbatim>\<open>lib/include/chiaki/gkcrypt.h\<close>, \<^verbatim>\<open>lib/src/gkcrypt.c\<close>): a key stream in
  counter mode, the ring buffer in which a thread prepares it, the keys of the packet
  authentication code, and the 64 bit key position that is recovered from the 32 bits a packet
  carries. AES on one block, SHA-256, HMAC and GCM are library calls and are parameters.
\<close>

section \<open>Key positions\<close>

record key_state =
  key_prev :: u64

definition chiaki_key_state_init :: key_state where
  "chiaki_key_state_init = \<lparr>key_prev = 0\<rparr>"

definition chiaki_key_state_request_pos :: "key_state \<Rightarrow> u32 \<Rightarrow> bool \<Rightarrow> key_state \<times> u64" where
  "chiaki_key_state_request_pos state low commit =
     (let prev_low = ucast (key_prev state) :: u32;
          high = ucast (drop_bit 32 (key_prev state)) :: u32;
          high = (if chiaki_seq_num_32_gt low prev_low \<and> low < prev_low then high + 1
                  else if chiaki_seq_num_32_lt low prev_low \<and> low > prev_low \<and> high \<noteq> 0 then high - 1
                  else high);
          res = push_bit 32 (ucast high) OR ucast low
      in (if commit then state\<lparr>key_prev := res\<rparr> else state, res))"

definition chiaki_key_state_commit :: "key_state \<Rightarrow> u64 \<Rightarrow> key_state" where
  "chiaki_key_state_commit state prev = state\<lparr>key_prev := prev\<rparr>"

section \<open>The counter blocks and the key stream\<close>

abbreviation (input) CHIAKI_GKCRYPT_BLOCK_SIZE :: nat where "CHIAKI_GKCRYPT_BLOCK_SIZE \<equiv> 16"
abbreviation (input) KEY_BUF_CHUNK_SIZE :: nat where "KEY_BUF_CHUNK_SIZE \<equiv> 4096"

definition CHIAKI_GKCRYPT_GMAC_KEY_REFRESH_KEY_POS :: u64 where
  "CHIAKI_GKCRYPT_GMAC_KEY_REFRESH_KEY_POS = 45000"

definition CHIAKI_GKCRYPT_GMAC_KEY_REFRESH_IV_OFFSET :: u64 where
  "CHIAKI_GKCRYPT_GMAC_KEY_REFRESH_IV_OFFSET = 44910"

record gkcrypt =
  gk_index :: u8
  key_buf :: "bytes option" \<comment> \<open>\<open>None\<close>: the null pointer\<close>
  key_buf_size :: u64
  key_buf_populated :: u64
  key_buf_key_pos_min :: u64
  key_buf_start_offset :: u64
  last_key_pos :: u64
  key_buf_thread_stop :: bool
  gk_iv :: bytes
  key_base :: bytes
  key_gmac_base :: bytes
  key_gmac_current :: bytes
  key_gmac_index_current :: u64

text \<open>\<^verbatim>\<open>counter_add\<close> on the remaining bytes of the block, in the order of the loop.\<close>

fun counter_add :: "bytes \<Rightarrow> u64 \<Rightarrow> bytes" where
  "counter_add [] v = []"
| "counter_add (b # base) v =
     (let r = ucast b + v; v' = drop_bit 8 r
      in ucast (r AND 0xff) # (if v' \<noteq> 0 then counter_add base v' else base))"

text \<open>
  The loop over the blocks. The counter is an \<^verbatim>\<open>int\<close>; its increment overflows at the largest
  value.
\<close>

fun gen_counters :: "bytes \<Rightarrow> int \<Rightarrow> nat \<Rightarrow> bytes list option" where
  "gen_counters iv c 0 = Some []"
| "gen_counters iv c (Suc n) =
     (if c = 2 ^ 31 - 1 then None
      else do { rest \<leftarrow> gen_counters iv (c + 1) n; Some (counter_add iv (of_int c) # rest) })"

text \<open>\<open>aes\<close>: AES on a block under a key; \<open>ok\<close>: whether the library calls succeed.\<close>

definition chiaki_gkcrypt_gen_key_stream ::
  "(bytes \<Rightarrow> bytes \<Rightarrow> bytes) \<Rightarrow> bool \<Rightarrow> gkcrypt \<Rightarrow> u64 \<Rightarrow> nat \<Rightarrow> (ChiakiErrorCode + bytes) option" where
  "chiaki_gkcrypt_gen_key_stream aes ok gk key_pos buf_size =
     (if key_pos mod 16 \<noteq> 0 \<or> buf_size mod 16 \<noteq> 0 then None
      else if \<not> ok then Some (Inl CHIAKI_ERR_UNKNOWN)
      else do {
        blocks \<leftarrow> gen_counters (gk_iv gk) (sint (ucast (key_pos div 16) :: 32 word)) (buf_size div 16);
        Some (Inr (concat (map (aes (key_base gk)) blocks)))
      })"

definition gkcrypt_key_buf_should_generate :: "gkcrypt \<Rightarrow> bool" where
  "gkcrypt_key_buf_should_generate gk \<longleftrightarrow>
     last_key_pos gk > key_buf_key_pos_min gk + key_buf_populated gk div 2"

text \<open>
  The part of \<^verbatim>\<open>chiaki_gkcrypt_get_key_stream\<close> after the last position is noted: from the
  buffer \<open>kb\<close> when the range is in it, generated otherwise.
\<close>

definition gkcrypt_read_key_stream ::
  "(bytes \<Rightarrow> bytes \<Rightarrow> bytes) \<Rightarrow> bool \<Rightarrow> gkcrypt \<Rightarrow> bytes \<Rightarrow> u64 \<Rightarrow> nat \<Rightarrow> (ChiakiErrorCode + bytes) option" where
  "gkcrypt_read_key_stream aes ok gk kb key_pos n =
     (let buf_size = of_nat n
      in if key_pos < key_buf_key_pos_min gk \<or>
            key_pos + buf_size \<ge> key_buf_key_pos_min gk + key_buf_populated gk
         then chiaki_gkcrypt_gen_key_stream aes ok gk key_pos n
         else
           let offset_in_buf = (key_pos - key_buf_key_pos_min gk + key_buf_start_offset gk) mod key_buf_size gk;
               end_in_buf = offset_in_buf + buf_size
           in if end_in_buf > key_buf_size gk
              then let excess = end_in_buf - key_buf_size gk in do {
                a \<leftarrow> rd_n kb (unat offset_in_buf) (unat (buf_size - excess));
                b \<leftarrow> rd_n kb 0 (unat excess);
                Some (Inr (a @ b))
              }
              else do { a \<leftarrow> rd_n kb (unat offset_in_buf) n; Some (Inr a) })"

text \<open>The result has the new state, the key stream or an error, and whether the thread is signalled.\<close>

definition chiaki_gkcrypt_get_key_stream ::
  "(bytes \<Rightarrow> bytes \<Rightarrow> bytes) \<Rightarrow> bool \<Rightarrow> gkcrypt \<Rightarrow> u64 \<Rightarrow> nat \<Rightarrow>
   (gkcrypt \<times> (ChiakiErrorCode + bytes) \<times> bool) option" where
  "chiaki_gkcrypt_get_key_stream aes ok gk key_pos n =
     (case key_buf gk of
        None \<Rightarrow> do { r \<leftarrow> chiaki_gkcrypt_gen_key_stream aes ok gk key_pos n; Some (gk, r, False) }
      | Some kb \<Rightarrow>
          let buf_size = of_nat n;
              gk = (if key_pos + buf_size > last_key_pos gk then gk\<lparr>last_key_pos := key_pos + buf_size\<rparr> else gk);
              signal = gkcrypt_key_buf_should_generate gk
          in do { r \<leftarrow> gkcrypt_read_key_stream aes ok gk kb key_pos n; Some (gk, r, signal) })"

text \<open>\<open>alloc\<close>: whether \<^verbatim>\<open>malloc\<close> succeeds. \<^verbatim>\<open>chiaki_gkcrypt_encrypt\<close> is the same function.\<close>

definition chiaki_gkcrypt_decrypt ::
  "(bytes \<Rightarrow> bytes \<Rightarrow> bytes) \<Rightarrow> bool \<Rightarrow> bool \<Rightarrow> gkcrypt \<Rightarrow> u64 \<Rightarrow> bytes \<Rightarrow>
   (gkcrypt \<times> (ChiakiErrorCode + bytes)) option" where
  "chiaki_gkcrypt_decrypt aes ok alloc gk key_pos buf =
     (let padding_pre = key_pos mod 16;
          full_size = ((unat padding_pre + length buf + 16 - 1) div 16) * 16
      in if \<not> alloc then Some (gk, Inl CHIAKI_ERR_MEMORY)
         else do {
           (gk, r, signal) \<leftarrow> chiaki_gkcrypt_get_key_stream aes ok gk (key_pos - padding_pre) full_size;
           (case r of Inl err \<Rightarrow> Some (gk, Inl err)
            | Inr key_stream \<Rightarrow> do {
                buf \<leftarrow> xor_bytes buf (drop (unat padding_pre) key_stream) (length buf);
                Some (gk, Inr buf)
              })
         })"

definition chiaki_gkcrypt_encrypt ::
  "(bytes \<Rightarrow> bytes \<Rightarrow> bytes) \<Rightarrow> bool \<Rightarrow> bool \<Rightarrow> gkcrypt \<Rightarrow> u64 \<Rightarrow> bytes \<Rightarrow>
   (gkcrypt \<times> (ChiakiErrorCode + bytes)) option" where
  "chiaki_gkcrypt_encrypt = chiaki_gkcrypt_decrypt"

section \<open>The keys of the authentication code\<close>

text \<open>\<open>sha\<close>: SHA-256, 32 bytes. The first half of the digest is combined with the second.\<close>

definition chiaki_gkcrypt_gen_gmac_key :: "(bytes \<Rightarrow> bytes) \<Rightarrow> u64 \<Rightarrow> bytes \<Rightarrow> bytes \<Rightarrow> bytes option" where
  "chiaki_gkcrypt_gen_gmac_key sha index key iv =
     (let md = sha (take 16 key @ counter_add iv (index * CHIAKI_GKCRYPT_GMAC_KEY_REFRESH_IV_OFFSET))
      in do { md' \<leftarrow> xor_bytes md (drop 16 md) 16; Some (take 16 md') })"

definition chiaki_gkcrypt_gen_new_gmac_key :: "(bytes \<Rightarrow> bytes) \<Rightarrow> gkcrypt \<Rightarrow> u64 \<Rightarrow> gkcrypt option" where
  "chiaki_gkcrypt_gen_new_gmac_key sha gk index =
     (if \<not> index > 0 then None
      else do {
        key \<leftarrow> chiaki_gkcrypt_gen_gmac_key sha index (key_gmac_base gk) (gk_iv gk);
        Some (gk\<lparr>key_gmac_current := key, key_gmac_index_current := index\<rparr>)
      })"

definition chiaki_gkcrypt_gen_tmp_gmac_key :: "(bytes \<Rightarrow> bytes) \<Rightarrow> gkcrypt \<Rightarrow> u64 \<Rightarrow> bytes option" where
  "chiaki_gkcrypt_gen_tmp_gmac_key sha gk index =
     (if index \<noteq> 0 then chiaki_gkcrypt_gen_gmac_key sha index (key_gmac_base gk) (gk_iv gk)
      else Some (key_gmac_base gk))"

text \<open>\<open>gcm\<close>: the 4 byte tag of AES-GCM for a key, an initialisation vector and a text, or an error.\<close>

definition chiaki_gkcrypt_gmac ::
  "(bytes \<Rightarrow> bytes) \<Rightarrow> (bytes \<Rightarrow> bytes \<Rightarrow> bytes \<Rightarrow> ChiakiErrorCode + bytes) \<Rightarrow> gkcrypt \<Rightarrow> u64 \<Rightarrow> bytes \<Rightarrow>
   (gkcrypt \<times> (ChiakiErrorCode + bytes)) option" where
  "chiaki_gkcrypt_gmac sha gcm gk key_pos buf =
     (let iv = counter_add (gk_iv gk) (key_pos div 0x10);
          key_index = (if key_pos > 0 then key_pos - 1 else 0) div CHIAKI_GKCRYPT_GMAC_KEY_REFRESH_KEY_POS
      in if key_index > key_gmac_index_current gk then do {
           gk \<leftarrow> chiaki_gkcrypt_gen_new_gmac_key sha gk key_index;
           Some (gk, gcm (key_gmac_current gk) iv buf)
         }
         else if key_index < key_gmac_index_current gk then do {
           gmac_key_tmp \<leftarrow> chiaki_gkcrypt_gen_tmp_gmac_key sha gk key_index;
           Some (gk, gcm gmac_key_tmp iv buf)
         }
         else Some (gk, gcm (key_gmac_current gk) iv buf))"

section \<open>The thread that fills the ring buffer\<close>

definition key_buf_mutex_pred :: "gkcrypt \<Rightarrow> bool" where
  "key_buf_mutex_pred gk \<longleftrightarrow> key_buf_thread_stop gk \<or> key_buf_populated gk < key_buf_size gk \<or>
     gkcrypt_key_buf_should_generate gk"

text \<open>The first part of the body of the loop: make room for a chunk.\<close>

definition gkcrypt_thread_make_room :: "gkcrypt \<Rightarrow> gkcrypt" where
  "gkcrypt_thread_make_room gk =
     (if last_key_pos gk > key_buf_key_pos_min gk + key_buf_populated gk
      then gk\<lparr>key_buf_key_pos_min := (last_key_pos gk div 4096) * 4096, key_buf_start_offset := 0,
              key_buf_populated := 0\<rparr>
      else if key_buf_populated gk = key_buf_size gk
      then gk\<lparr>key_buf_start_offset := (key_buf_start_offset gk + 4096) mod key_buf_size gk,
              key_buf_key_pos_min := key_buf_key_pos_min gk + 4096,
              key_buf_populated := key_buf_populated gk - 4096\<rparr>
      else gk)"

definition gkcrypt_generate_next_chunk ::
  "(bytes \<Rightarrow> bytes \<Rightarrow> bytes) \<Rightarrow> bool \<Rightarrow> gkcrypt \<Rightarrow> (gkcrypt \<times> ChiakiErrorCode) option" where
  "gkcrypt_generate_next_chunk aes ok gk =
     (if \<not> key_buf_populated gk + 4096 \<le> key_buf_size gk then None
      else
        let buf_offset = (key_buf_start_offset gk + key_buf_populated gk) mod key_buf_size gk;
            key_pos = key_buf_key_pos_min gk + key_buf_populated gk
        in do {
          kb \<leftarrow> key_buf gk;
          r \<leftarrow> chiaki_gkcrypt_gen_key_stream aes ok gk key_pos 4096;
          (case r of Inl err \<Rightarrow> Some (gk, err)
           | Inr chunk \<Rightarrow> do {
               kb \<leftarrow> wr kb (unat buf_offset) chunk;
               Some (gk\<lparr>key_buf := Some kb, key_buf_populated := key_buf_populated gk + 4096\<rparr>, CHIAKI_ERR_SUCCESS)
             })
        })"

text \<open>
  The body of the loop after the wait. \<open>None\<close> as the first component: the loop is left.
\<close>

definition gkcrypt_thread_iteration ::
  "(bytes \<Rightarrow> bytes \<Rightarrow> bytes) \<Rightarrow> bool \<Rightarrow> ChiakiErrorCode \<Rightarrow> gkcrypt \<Rightarrow> (bool \<times> gkcrypt) option" where
  "gkcrypt_thread_iteration aes ok wait_err gk =
     (if key_buf_thread_stop gk \<or> wait_err \<noteq> CHIAKI_ERR_SUCCESS then Some (False, gk)
      else do {
        (gk, err) \<leftarrow> gkcrypt_generate_next_chunk aes ok (gkcrypt_thread_make_room gk);
        Some (err = CHIAKI_ERR_SUCCESS, gk)
      })"

section \<open>Initialisation\<close>

text \<open>\<open>hmac\<close>: HMAC-SHA-256 of a message under a key, or a failure. The result is \<open>key_base\<close> and \<open>iv\<close>.\<close>

definition gkcrypt_gen_key_iv ::
  "(bytes \<Rightarrow> bytes \<Rightarrow> bytes option) \<Rightarrow> u8 \<Rightarrow> bytes \<Rightarrow> bytes \<Rightarrow> (ChiakiErrorCode + bytes \<times> bytes) option" where
  "gkcrypt_gen_key_iv hmac index handshake_key ecdh_secret =
     (let data = [1, index, 0] @ take 16 handshake_key @ [1, 0]
      in case hmac ecdh_secret data of None \<Rightarrow> Some (Inl CHIAKI_ERR_UNKNOWN)
         | Some h \<Rightarrow> if length h \<noteq> 32 then None else Some (Inr (take 16 h, take 16 (drop 16 h))))"

definition chiaki_gkcrypt_init ::
  "(bytes \<Rightarrow> bytes \<Rightarrow> bytes option) \<Rightarrow> (bytes \<Rightarrow> bytes) \<Rightarrow> bytes option \<Rightarrow> ChiakiErrorCode \<Rightarrow> ChiakiErrorCode \<Rightarrow>
   ChiakiErrorCode \<Rightarrow> u64 \<Rightarrow> u8 \<Rightarrow> bytes \<Rightarrow> bytes \<Rightarrow> (ChiakiErrorCode + gkcrypt) option" where
  "chiaki_gkcrypt_init hmac sha alloc mutex_err cond_err thread_err key_buf_chunks index handshake_key ecdh_secret =
     (let buf_bytes = key_buf_chunks * 4096
      in if buf_bytes \<noteq> 0 \<and> alloc = None then Some (Inl CHIAKI_ERR_MEMORY)
         else if buf_bytes \<noteq> 0 \<and> mutex_err \<noteq> CHIAKI_ERR_SUCCESS then Some (Inl mutex_err)
         else if buf_bytes \<noteq> 0 \<and> cond_err \<noteq> CHIAKI_ERR_SUCCESS then Some (Inl cond_err)
         else do {
           k \<leftarrow> gkcrypt_gen_key_iv hmac index handshake_key ecdh_secret;
           (case k of Inl err \<Rightarrow> Some (Inl err)
            | Inr (key, iv) \<Rightarrow> do {
                gmac \<leftarrow> chiaki_gkcrypt_gen_gmac_key sha 0 key iv;
                if buf_bytes \<noteq> 0 \<and> thread_err \<noteq> CHIAKI_ERR_SUCCESS then Some (Inl thread_err)
                else Some (Inr \<lparr>gk_index = index, key_buf = (if buf_bytes \<noteq> 0 then alloc else None), key_buf_size = buf_bytes,
                  key_buf_populated = 0, key_buf_key_pos_min = 0, key_buf_start_offset = 0, last_key_pos = 0,
                  key_buf_thread_stop = False, gk_iv = iv, key_base = key, key_gmac_base = gmac,
                  key_gmac_current = gmac, key_gmac_index_current = 0\<rparr>)
              })
         })"

definition chiaki_gkcrypt_fini :: "gkcrypt \<Rightarrow> gkcrypt" where
  "chiaki_gkcrypt_fini gk = (if key_buf gk \<noteq> None then gk\<lparr>key_buf_thread_stop := True, key_buf := None\<rparr> else gk)"

end
