(* ===== verification/Av_Packet.thy ===== *)
theory Av_Packet
  imports Chiaki_Prelude
begin

text \<open>
  The parsed audio or video packet (\<^verbatim>\<open>ChiakiTakionAVPacket\<close> of \<^verbatim>\<open>lib/include/chiaki/takion.h\<close>).
  \<open>av_data\<close> are the bytes from the data pointer to the end of the memory it points into;
  \<open>av_data_size\<close> is the size the packet claims.
\<close>

record av_packet =
  av_packet_index :: u16
  av_frame_index :: u16
  uses_nalu_info_structs :: bool
  is_video :: bool
  is_haptics :: bool
  unit_index :: u16
  units_in_frame_total :: u16
  units_in_frame_fec :: u16
  av_codec :: u8
  word_at_0x18 :: u16
  adaptive_stream_index :: u8
  byte_at_0x2c :: u8
  av_key_pos :: u64
  av_data :: bytes
  av_data_size :: u64

definition audio_unit_size :: "av_packet \<Rightarrow> u8" where
  "audio_unit_size p = ucast (drop_bit 8 (units_in_frame_fec p))"

definition audio_source_units_count :: "av_packet \<Rightarrow> u8" where
  "audio_source_units_count p = ucast (units_in_frame_fec p AND 0xf)"

definition audio_fec_units_count :: "av_packet \<Rightarrow> u8" where
  "audio_fec_units_count p = ucast (drop_bit 4 (units_in_frame_fec p) AND 0xf)"

definition av_packet_zero :: av_packet where
  "av_packet_zero = \<lparr>av_packet_index = 0, av_frame_index = 0, uses_nalu_info_structs = False, is_video = False,
     is_haptics = False, unit_index = 0, units_in_frame_total = 0, units_in_frame_fec = 0, av_codec = 0,
     word_at_0x18 = 0, adaptive_stream_index = 0, byte_at_0x2c = 0, av_key_pos = 0, av_data = [], av_data_size = 0\<rparr>"

end
