(* ===== verification/Takion_Packets.thy ===== *)
theory Takion_Packets
  imports GK_Crypt Av_Packet
begin

text \<open>
  The packet formats of Takion (\<^verbatim>\<open>lib/include/chiaki/takion.h\<close>, \<^verbatim>\<open>lib/src/takion.c\<close>): where the
  authentication code and the key position stand in each type of packet, the computation of
  the code in place, message headers, congestion packets, and the audio and video headers of
  the protocol versions 7, 9 and 12. A buffer is its list of bytes, so \<^verbatim>\<open>buf_size\<close> is its length.
\<close>

section \<open>Packet types and offsets\<close>

abbreviation (input) TAKION_PACKET_TYPE_CONTROL :: u8 where "TAKION_PACKET_TYPE_CONTROL \<equiv> 0"
abbreviation (input) TAKION_PACKET_TYPE_FEEDBACK_HISTORY :: u8 where "TAKION_PACKET_TYPE_FEEDBACK_HISTORY \<equiv> 1"
abbreviation (input) TAKION_PACKET_TYPE_VIDEO :: u8 where "TAKION_PACKET_TYPE_VIDEO \<equiv> 2"
abbreviation (input) TAKION_PACKET_TYPE_AUDIO :: u8 where "TAKION_PACKET_TYPE_AUDIO \<equiv> 3"
abbreviation (input) TAKION_PACKET_TYPE_CONGESTION :: u8 where "TAKION_PACKET_TYPE_CONGESTION \<equiv> 5"
abbreviation (input) TAKION_PACKET_TYPE_FEEDBACK_STATE :: u8 where "TAKION_PACKET_TYPE_FEEDBACK_STATE \<equiv> 6"

abbreviation (input) TAKION_CHUNK_TYPE_DATA :: u8 where "TAKION_CHUNK_TYPE_DATA \<equiv> 0"
abbreviation (input) TAKION_CHUNK_TYPE_INIT :: u8 where "TAKION_CHUNK_TYPE_INIT \<equiv> 1"
abbreviation (input) TAKION_CHUNK_TYPE_INIT_ACK :: u8 where "TAKION_CHUNK_TYPE_INIT_ACK \<equiv> 2"
abbreviation (input) TAKION_CHUNK_TYPE_DATA_ACK :: u8 where "TAKION_CHUNK_TYPE_DATA_ACK \<equiv> 3"
abbreviation (input) TAKION_CHUNK_TYPE_COOKIE :: u8 where "TAKION_CHUNK_TYPE_COOKIE \<equiv> 0xa"
abbreviation (input) TAKION_CHUNK_TYPE_COOKIE_ACK :: u8 where "TAKION_CHUNK_TYPE_COOKIE_ACK \<equiv> 0xb"

abbreviation (input) TAKION_MESSAGE_HEADER_SIZE :: nat where "TAKION_MESSAGE_HEADER_SIZE \<equiv> 16"
abbreviation (input) CHIAKI_GKCRYPT_GMAC_SIZE :: nat where "CHIAKI_GKCRYPT_GMAC_SIZE \<equiv> 4"

definition packet_base_type :: "u8 \<Rightarrow> u8" where
  "packet_base_type b = b AND 0xf"

text \<open>The results \<^verbatim>\<open>-1\<close> are \<open>None\<close>.\<close>

definition takion_packet_type_mac_offset :: "u8 \<Rightarrow> nat option" where
  "takion_packet_type_mac_offset ty =
     (if ty = TAKION_PACKET_TYPE_CONTROL then Some 5
      else if ty = TAKION_PACKET_TYPE_VIDEO \<or> ty = TAKION_PACKET_TYPE_AUDIO then Some 0xa
      else if ty = TAKION_PACKET_TYPE_CONGESTION then Some 7
      else None)"

definition takion_packet_type_key_pos_offset :: "u8 \<Rightarrow> nat option" where
  "takion_packet_type_key_pos_offset ty =
     (if ty = TAKION_PACKET_TYPE_CONTROL then Some 0x9
      else if ty = TAKION_PACKET_TYPE_VIDEO \<or> ty = TAKION_PACKET_TYPE_AUDIO then Some 0xe
      else if ty = TAKION_PACKET_TYPE_CONGESTION then Some 0xb
      else None)"

section \<open>The authentication code of a packet\<close>

definition chiaki_takion_packet_read_key_pos ::
  "key_state \<Rightarrow> bytes \<Rightarrow> (ChiakiErrorCode + u64) option" where
  "chiaki_takion_packet_read_key_pos ks buf =
     (if length buf < 1 then Some (Inl CHIAKI_ERR_BUF_TOO_SMALL)
      else case takion_packet_type_key_pos_offset (packet_base_type (buf ! 0)) of
        None \<Rightarrow> Some (Inl CHIAKI_ERR_INVALID_DATA)
      | Some key_pos_offset \<Rightarrow>
          if length buf < key_pos_offset + 4 then Some (Inl CHIAKI_ERR_BUF_TOO_SMALL)
          else do {
            key_pos_low \<leftarrow> rd32 buf key_pos_offset;
            Some (Inr (snd (chiaki_key_state_request_pos ks key_pos_low False)))
          })"

definition clears_key_pos :: "u8 \<Rightarrow> bool" where
  "clears_key_pos ty \<longleftrightarrow> ty = TAKION_PACKET_TYPE_CONTROL \<or> ty = TAKION_PACKET_TYPE_CONGESTION"

text \<open>
  The part under \<^verbatim>\<open>if(crypt)\<close>. An error of \<^verbatim>\<open>chiaki_gkcrypt_gmac\<close> is ignored and leaves the
  field as it is.
\<close>

definition packet_mac_crypt ::
  "(bytes \<Rightarrow> bytes) \<Rightarrow> (bytes \<Rightarrow> bytes \<Rightarrow> bytes \<Rightarrow> ChiakiErrorCode + bytes) \<Rightarrow> u8 \<Rightarrow> nat \<Rightarrow> nat \<Rightarrow>
   u64 \<Rightarrow> gkcrypt \<Rightarrow> bytes \<Rightarrow> (gkcrypt \<times> bytes) option" where
  "packet_mac_crypt sha gcm ty mac_offset key_pos_offset key_pos gk buf = do {
     key_pos_tmp \<leftarrow> rd_n buf key_pos_offset 4;
     buf \<leftarrow> (if clears_key_pos ty then wr buf key_pos_offset (replicate 4 0) else Some buf);
     (gk, r) \<leftarrow> chiaki_gkcrypt_gmac sha gcm gk key_pos buf;
     buf \<leftarrow> (case r of Inl _ \<Rightarrow> Some buf | Inr mac \<Rightarrow> wr buf mac_offset mac);
     buf \<leftarrow> (if clears_key_pos ty then wr buf key_pos_offset key_pos_tmp else Some buf);
     Some (gk, buf)
   }"

text \<open>The result has the crypt and the buffer, and an error or the new and the old code.\<close>

definition chiaki_takion_packet_mac ::
  "(bytes \<Rightarrow> bytes) \<Rightarrow> (bytes \<Rightarrow> bytes \<Rightarrow> bytes \<Rightarrow> ChiakiErrorCode + bytes) \<Rightarrow> gkcrypt option \<Rightarrow> bytes \<Rightarrow> u64 \<Rightarrow>
   (gkcrypt option \<times> bytes \<times> (ChiakiErrorCode + bytes \<times> bytes)) option" where
  "chiaki_takion_packet_mac sha gcm crypt buf key_pos =
     (if length buf < 1 then Some (crypt, buf, Inl CHIAKI_ERR_BUF_TOO_SMALL)
      else
        let base_type = packet_base_type (buf ! 0)
        in case (takion_packet_type_mac_offset base_type, takion_packet_type_key_pos_offset base_type) of
          (Some mac_offset, Some key_pos_offset) \<Rightarrow>
            if length buf < mac_offset + 4 \<or> length buf < key_pos_offset + 4
            then Some (crypt, buf, Inl CHIAKI_ERR_BUF_TOO_SMALL)
            else do {
              mac_old \<leftarrow> rd_n buf mac_offset 4;
              buf \<leftarrow> wr buf mac_offset (replicate 4 0);
              (crypt, buf) \<leftarrow> (case crypt of
                  None \<Rightarrow> Some (None, buf)
                | Some gk \<Rightarrow> do {
                    (gk, buf) \<leftarrow> packet_mac_crypt sha gcm base_type mac_offset key_pos_offset key_pos gk buf;
                    Some (Some gk, buf)
                  });
              mac \<leftarrow> rd_n buf mac_offset 4;
              Some (crypt, buf, Inr (mac, mac_old))
            }
        | _ \<Rightarrow> Some (crypt, buf, Inl CHIAKI_ERR_INVALID_DATA))"

section \<open>Messages\<close>

record takion_message =
  msg_tag :: u32
  msg_key_pos :: u64
  msg_chunk_type :: u8
  msg_chunk_flags :: u8
  msg_payload_size :: u16
  msg_payload :: "nat option" \<comment> \<open>the offset in the message buffer; \<open>None\<close>: the null pointer\<close>

text \<open>The header that \<^verbatim>\<open>takion_write_message_header\<close> stores at its buffer, 16 bytes.\<close>

definition takion_write_message_header :: "u32 \<Rightarrow> u64 \<Rightarrow> u8 \<Rightarrow> u8 \<Rightarrow> nat \<Rightarrow> bytes" where
  "takion_write_message_header tag key_pos chunk_type chunk_flags payload_data_size =
     be32 tag @ replicate 4 0 @ be32 (ucast key_pos) @ [chunk_type, chunk_flags] @
     be16 (of_nat (payload_data_size + 4))"

text \<open>The key state is committed before the tag and the size are checked.\<close>

definition takion_parse_message ::
  "u32 \<Rightarrow> key_state \<Rightarrow> bytes \<Rightarrow> (key_state \<times> (ChiakiErrorCode + takion_message)) option" where
  "takion_parse_message tag_local ks buf =
     (if length buf < TAKION_MESSAGE_HEADER_SIZE then Some (ks, Inl CHIAKI_ERR_INVALID_DATA)
      else do {
        tag \<leftarrow> rd32 buf 0;
        key_pos_low \<leftarrow> rd32 buf 0x8;
        let (ks, key_pos) = chiaki_key_state_request_pos ks key_pos_low True;
        chunk_type \<leftarrow> rd8 buf 0xc;
        chunk_flags \<leftarrow> rd8 buf 0xd;
        payload_size \<leftarrow> rd16 buf 0xe;
        if tag \<noteq> tag_local then Some (ks, Inl CHIAKI_ERR_INVALID_DATA)
        else if length buf \<noteq> unat payload_size + 0xc then Some (ks, Inl CHIAKI_ERR_INVALID_DATA)
        else
          let payload_size = payload_size - 4
          in Some (ks, Inr \<lparr>msg_tag = tag, msg_key_pos = key_pos, msg_chunk_type = chunk_type,
               msg_chunk_flags = chunk_flags, msg_payload_size = payload_size,
               msg_payload = (if payload_size > 0 then Some 0x10 else None)\<rparr>)
      })"

record takion_congestion_packet =
  word_0 :: u16
  cg_received :: u16
  cg_lost :: u16

abbreviation (input) CHIAKI_TAKION_CONGESTION_PACKET_SIZE :: nat where
  "CHIAKI_TAKION_CONGESTION_PACKET_SIZE \<equiv> 0xf"

definition chiaki_takion_format_congestion :: "takion_congestion_packet \<Rightarrow> u64 \<Rightarrow> bytes" where
  "chiaki_takion_format_congestion packet key_pos =
     [TAKION_PACKET_TYPE_CONGESTION] @ be16 (word_0 packet) @ be16 (cg_received packet) @ be16 (cg_lost packet) @
     be32 0 @ be32 (ucast key_pos)"

section \<open>Audio and video headers\<close>

text \<open>
  The fields packed into the second double word. Video: 11 bits of unit index, 11 bits of the
  number of units less one, 10 bits of forward error correction units. Audio: 8, 8 and 16 bits.
\<close>

definition av_dword_2 :: "bool \<Rightarrow> u32 \<Rightarrow> av_packet \<Rightarrow> av_packet" where
  "av_dword_2 video dword_2 p =
     (if video then
        p\<lparr>unit_index := ucast (drop_bit 0x15 dword_2 AND 0x7ff),
          units_in_frame_total := ucast ((drop_bit 0xa dword_2 AND 0x7ff) + 1),
          units_in_frame_fec := ucast (dword_2 AND 0x3ff)\<rparr>
      else
        p\<lparr>unit_index := ucast (drop_bit 0x18 dword_2 AND 0xff),
          units_in_frame_total := ucast ((drop_bit 0x10 dword_2 AND 0xff) + 1),
          units_in_frame_fec := ucast (dword_2 AND 0xffff)\<rparr>)"

definition av_header_size :: "bool \<Rightarrow> bool \<Rightarrow> nat" where
  "av_header_size v12 video = (if v12 then (if video then 0x17 else 0x13) else (if video then 0x17 else 0x12))"

text \<open>
  Versions 9 and 12. \<open>av\<close> is the pointer behind the first byte, kept as the list of bytes up to
  the end of the buffer; a step forward is \<open>drop\<close>, and \<open>av_size\<close> is the 64 bit counter, which
  the code reduces without a test.
\<close>

definition av_packet_parse ::
  "bool \<Rightarrow> key_state \<Rightarrow> bytes \<Rightarrow> (key_state \<times> (ChiakiErrorCode + av_packet)) option" where
  "av_packet_parse v12 ks buf =
     (if length buf < 1 then Some (ks, Inl CHIAKI_ERR_BUF_TOO_SMALL)
      else
        let base_type = packet_base_type (buf ! 0)
        in if base_type \<noteq> TAKION_PACKET_TYPE_VIDEO \<and> base_type \<noteq> TAKION_PACKET_TYPE_AUDIO
           then Some (ks, Inl CHIAKI_ERR_INVALID_DATA)
           else
             let video = (base_type = TAKION_PACKET_TYPE_VIDEO);
                 nalu = (drop_bit 4 (buf ! 0) AND 1 \<noteq> 0);
                 av = drop 1 buf;
                 av_size = (of_nat (length buf - 1) :: u64)
             in if length buf - 1 < av_header_size v12 video + 1 then Some (ks, Inl CHIAKI_ERR_BUF_TOO_SMALL)
                else do {
                  packet_index \<leftarrow> rd16 av 0;
                  frame_index \<leftarrow> rd16 av 2;
                  dword_2 \<leftarrow> rd32 av 4;
                  codec \<leftarrow> rd8 av 8;
                  key_pos_low \<leftarrow> rd32 av 0xd;
                  let (ks, key_pos) = chiaki_key_state_request_pos ks key_pos_low True;
                  let p = av_dword_2 video dword_2 (av_packet_zero\<lparr>is_video := video, uses_nalu_info_structs := nalu,
                    av_packet_index := packet_index, av_frame_index := frame_index, av_codec := codec, av_key_pos := key_pos\<rparr>);
                  _ \<leftarrow> rd8 av 0x11;
                  let av = drop 0x11 av;
                  let av_size = av_size - 0x11;
                  (p, av, av_size) \<leftarrow> (if video then do {
                      w18 \<leftarrow> rd16 av 0;
                      b2 \<leftarrow> rd8 av 2;
                      b3 \<leftarrow> rd8 av 3;
                      Some (p\<lparr>word_at_0x18 := w18, adaptive_stream_index := drop_bit 5 b2, byte_at_0x2c := b3\<rparr>, drop 3 av, av_size - 3)
                    }
                    else Some (p, drop 1 av, av_size - 1));
                  let (av, av_size) = (if nalu then (drop 3 av, av_size - 3) else (av, av_size));
                  (p, av, av_size) \<leftarrow> (if v12 \<and> \<not> video then do {
                      h \<leftarrow> rd8 av 0;
                      Some (p\<lparr>is_haptics := (h = 0x02)\<rparr>, drop 1 av, av_size - 1)
                    }
                    else Some (p, av, av_size));
                  Some (ks, Inr (p\<lparr>av_data := av, av_data_size := av_size\<rparr>))
                })"

definition chiaki_takion_v9_av_packet_parse ::
  "key_state \<Rightarrow> bytes \<Rightarrow> (key_state \<times> (ChiakiErrorCode + av_packet)) option" where
  "chiaki_takion_v9_av_packet_parse = av_packet_parse False"

definition chiaki_takion_v12_av_packet_parse ::
  "key_state \<Rightarrow> bytes \<Rightarrow> (key_state \<times> (ChiakiErrorCode + av_packet)) option" where
  "chiaki_takion_v12_av_packet_parse = av_packet_parse True"

definition v7_header_size :: "bool \<Rightarrow> bool \<Rightarrow> nat" where
  "v7_header_size video nalu = 0x12 + (if video then 3 else 0) + (if nalu then 3 else 0)"

text \<open>
  The key position is stored in the byte order of the machine, which is little-endian here. The
  shifted unit index keeps the low 32 bits of the product, as compiled code does.
\<close>

definition chiaki_takion_v7_av_packet_format_header ::
  "bytes \<Rightarrow> av_packet \<Rightarrow> (bytes \<times> nat \<times> ChiakiErrorCode) option" where
  "chiaki_takion_v7_av_packet_format_header buf p =
     (let video = is_video p; nalu = uses_nalu_info_structs p; header_size = v7_header_size video nalu
      in if header_size > length buf then Some (buf, header_size, CHIAKI_ERR_BUF_TOO_SMALL)
         else
           let b0 = (if video then TAKION_PACKET_TYPE_VIDEO else TAKION_PACKET_TYPE_AUDIO);
               b0 = (if nalu then b0 OR 0x10 else b0);
               dword_2 = (ucast (units_in_frame_fec p AND 0x3ff) :: u32) OR
                 push_bit 0xa ((ucast (units_in_frame_total p) - 1) AND 0x7ff) OR
                 push_bit 0x15 (ucast (unit_index p))
           in do {
             buf \<leftarrow> wr buf 0 [b0];
             buf \<leftarrow> wr buf 1 (be16 (av_packet_index p));
             buf \<leftarrow> wr buf 3 (be16 (av_frame_index p));
             buf \<leftarrow> wr buf 5 (be32 dword_2);
             buf \<leftarrow> wr buf 9 [av_codec p];
             buf \<leftarrow> wr buf 0xa (replicate 4 0);
             buf \<leftarrow> wr buf 0xe (le32 (ucast (av_key_pos p)));
             buf \<leftarrow> (if video then do {
                 buf \<leftarrow> wr buf 0x12 (be16 (word_at_0x18 p));
                 wr buf 0x14 [push_bit 5 (adaptive_stream_index p)]
               } else Some buf);
             let cur = 0x12 + (if video then 3 else 0);
             buf \<leftarrow> (if nalu then wr buf cur [0, 0, 0] else Some buf);
             Some (buf, header_size, CHIAKI_ERR_SUCCESS)
           })"

definition chiaki_takion_v7_av_packet_parse ::
  "key_state \<Rightarrow> bytes \<Rightarrow> (key_state \<times> (ChiakiErrorCode + av_packet)) option" where
  "chiaki_takion_v7_av_packet_parse ks buf =
     (if length buf < 1 then Some (ks, Inl CHIAKI_ERR_BUF_TOO_SMALL)
      else
        let base_type = packet_base_type (buf ! 0)
        in if base_type \<noteq> TAKION_PACKET_TYPE_VIDEO \<and> base_type \<noteq> TAKION_PACKET_TYPE_AUDIO
           then Some (ks, Inl CHIAKI_ERR_INVALID_DATA)
           else
             let video = (base_type = TAKION_PACKET_TYPE_VIDEO);
                 nalu = (drop_bit 4 (buf ! 0) AND 1 \<noteq> 0)
             in if length buf < v7_header_size video nalu then Some (ks, Inl CHIAKI_ERR_BUF_TOO_SMALL)
                else do {
                  packet_index \<leftarrow> rd16 buf 1;
                  frame_index \<leftarrow> rd16 buf 3;
                  dword_2 \<leftarrow> rd32 buf 5;
                  codec \<leftarrow> rd8 buf 9;
                  key_pos \<leftarrow> rd32 buf 0xe;
                  let p = av_dword_2 True dword_2 (av_packet_zero\<lparr>is_video := video, uses_nalu_info_structs := nalu,
                    av_packet_index := packet_index, av_frame_index := frame_index, av_codec := codec, av_key_pos := ucast key_pos\<rparr>);
                  let cur = drop 0x12 buf;
                  let buf_size = (of_nat (length buf) :: u64) - 0x12;
                  (p, cur, buf_size) \<leftarrow> (if video then do {
                      w18 \<leftarrow> rd16 cur 0;
                      b2 \<leftarrow> rd8 cur 2;
                      Some (p\<lparr>word_at_0x18 := w18, adaptive_stream_index := drop_bit 5 b2\<rparr>, drop 3 cur, buf_size - 3)
                    } else Some (p, cur, buf_size));
                  let (cur, buf_size) = (if nalu then (drop 3 cur, buf_size - 3) else (cur, buf_size));
                  Some (ks, Inr (p\<lparr>av_data := cur, av_data_size := buf_size\<rparr>))
                })"

end
