(* ===== verification/Reorder_Queue.thy ===== *)
theory Reorder_Queue
  imports Seq_Num
begin

text \<open>
  The reorder queue (\<^verbatim>\<open>lib/include/chiaki/reorderqueue.h\<close>, \<^verbatim>\<open>lib/src/reorderqueue.c\<close>): a
  window of \<open>2 ^ size_exp\<close> slots in a circular array, in which packets that arrive out of
  order wait until the ones before them have arrived. The comparison and the addition of
  sequence numbers are function pointers of the struct and stay fields of the record. The
  drop callback is the list of the calls an operation makes.

  The locale \<open>seq_num_ops\<close> states what the queue relies on in its function pointers. In it
  the operations are shown to implement a list of optional elements that starts at \<open>begin\<close>
  (\<open>push_spec\<close>, \<open>pull_spec\<close>). It is interpreted on the 32 bit operations, which Takion uses.
  The 16 bit addition does not satisfy it: C promotes both operands to \<^verbatim>\<open>int\<close>, so that the
  sum is not reduced.
\<close>

section \<open>Data and operations\<close>

datatype ChiakiReorderQueueDropStrategy =
    CHIAKI_REORDER_QUEUE_DROP_STRATEGY_BEGIN
  | CHIAKI_REORDER_QUEUE_DROP_STRATEGY_END

record 'e reorder_queue_entry =
  entry_user :: 'e
  entry_set :: bool

record 'e reorder_queue =
  size_exp :: nat
  queue :: "'e reorder_queue_entry list"
  rq_begin :: u64
  rq_count :: u64
  rq_gt :: "u64 \<Rightarrow> u64 \<Rightarrow> bool"
  rq_lt :: "u64 \<Rightarrow> u64 \<Rightarrow> bool"
  rq_add :: "u64 \<Rightarrow> u64 \<Rightarrow> u64"
  drop_strategy :: ChiakiReorderQueueDropStrategy
  drop_cb :: bool \<comment> \<open>whether the callback is not null\<close>

type_synonym 'e drops = "(u64 \<times> 'e) list"

definition QUEUE_SIZE :: "'e reorder_queue \<Rightarrow> u64" where
  "QUEUE_SIZE q = push_bit (size_exp q) 1"

definition rq_idx :: "'e reorder_queue \<Rightarrow> u64 \<Rightarrow> nat" where
  "rq_idx q seq_num = unat (seq_num AND (QUEUE_SIZE q - 1))"

definition rq_ge :: "'e reorder_queue \<Rightarrow> u64 \<Rightarrow> u64 \<Rightarrow> bool" where
  "rq_ge q a b \<longleftrightarrow> a = b \<or> rq_gt q a b"

text \<open>\<open>queue->queue[idx(seq_num)]\<close>, defined inside the allocated array only.\<close>

definition rq_entry :: "'e reorder_queue \<Rightarrow> u64 \<Rightarrow> 'e reorder_queue_entry option" where
  "rq_entry q seq_num =
     (let i = rq_idx q seq_num in if i < length (queue q) then Some (queue q ! i) else None)"

definition rq_store :: "'e reorder_queue \<Rightarrow> u64 \<Rightarrow> 'e reorder_queue_entry \<Rightarrow> 'e reorder_queue" where
  "rq_store q seq_num e = q\<lparr>queue := (queue q)[rq_idx q seq_num := e]\<rparr>"

text \<open>\<open>null\<close> is the user pointer of the zeroed array, \<open>alloc\<close> whether \<^verbatim>\<open>calloc\<close> succeeds.\<close>

definition chiaki_reorder_queue_init ::
  "'e \<Rightarrow> bool \<Rightarrow> nat \<Rightarrow> u64 \<Rightarrow> (u64 \<Rightarrow> u64 \<Rightarrow> bool) \<Rightarrow> (u64 \<Rightarrow> u64 \<Rightarrow> bool) \<Rightarrow> (u64 \<Rightarrow> u64 \<Rightarrow> u64) \<Rightarrow>
   'e reorder_queue \<times> ChiakiErrorCode" where
  "chiaki_reorder_queue_init null alloc exp seq_num_start gt lt add =
     (let q = \<lparr>size_exp = exp,
               queue = (if alloc then replicate (2 ^ exp) \<lparr>entry_user = null, entry_set = False\<rparr> else []),
               rq_begin = seq_num_start, rq_count = 0, rq_gt = gt, rq_lt = lt, rq_add = add,
               drop_strategy = CHIAKI_REORDER_QUEUE_DROP_STRATEGY_END, drop_cb = False\<rparr>
      in (q, if alloc then CHIAKI_ERR_SUCCESS else CHIAKI_ERR_MEMORY))"

definition seq_num_32_gt :: "u64 \<Rightarrow> u64 \<Rightarrow> bool" where
  "seq_num_32_gt a b = chiaki_seq_num_32_gt (ucast a) (ucast b)"

definition seq_num_32_lt :: "u64 \<Rightarrow> u64 \<Rightarrow> bool" where
  "seq_num_32_lt a b = chiaki_seq_num_32_lt (ucast a) (ucast b)"

definition seq_num_32_add :: "u64 \<Rightarrow> u64 \<Rightarrow> u64" where
  "seq_num_32_add a b = ucast (ucast a + ucast b :: u32)"

definition seq_num_16_gt :: "u64 \<Rightarrow> u64 \<Rightarrow> bool" where
  "seq_num_16_gt a b = chiaki_seq_num_16_gt (ucast a) (ucast b)"

definition seq_num_16_lt :: "u64 \<Rightarrow> u64 \<Rightarrow> bool" where
  "seq_num_16_lt a b = chiaki_seq_num_16_lt (ucast a) (ucast b)"

text \<open>
  Both operands are promoted to \<^verbatim>\<open>int\<close> before they are added, so the sum has up to 17 bits.
\<close>

definition seq_num_16_add :: "u64 \<Rightarrow> u64 \<Rightarrow> u64" where
  "seq_num_16_add a b = ucast (ucast a :: u16) + ucast (ucast b :: u16)"

definition chiaki_reorder_queue_init_32 ::
  "'e \<Rightarrow> bool \<Rightarrow> nat \<Rightarrow> u32 \<Rightarrow> 'e reorder_queue \<times> ChiakiErrorCode" where
  "chiaki_reorder_queue_init_32 null alloc exp seq_num_start =
     chiaki_reorder_queue_init null alloc exp (ucast seq_num_start)
       seq_num_32_gt seq_num_32_lt seq_num_32_add"

definition chiaki_reorder_queue_init_16 ::
  "'e \<Rightarrow> bool \<Rightarrow> nat \<Rightarrow> u16 \<Rightarrow> 'e reorder_queue \<times> ChiakiErrorCode" where
  "chiaki_reorder_queue_init_16 null alloc exp seq_num_start =
     chiaki_reorder_queue_init null alloc exp (ucast seq_num_start)
       seq_num_16_gt seq_num_16_lt seq_num_16_add"

definition chiaki_reorder_queue_set_drop_strategy ::
  "'e reorder_queue \<Rightarrow> ChiakiReorderQueueDropStrategy \<Rightarrow> 'e reorder_queue" where
  "chiaki_reorder_queue_set_drop_strategy q s = q\<lparr>drop_strategy := s\<rparr>"

definition chiaki_reorder_queue_set_drop_cb :: "'e reorder_queue \<Rightarrow> bool \<Rightarrow> 'e reorder_queue" where
  "chiaki_reorder_queue_set_drop_cb q cb = q\<lparr>drop_cb := cb\<rparr>"

definition chiaki_reorder_queue_size :: "'e reorder_queue \<Rightarrow> u64" where
  "chiaki_reorder_queue_size q = push_bit (size_exp q) 1"

definition chiaki_reorder_queue_count :: "'e reorder_queue \<Rightarrow> u64" where
  "chiaki_reorder_queue_count q = rq_count q"

text \<open>The callbacks of \<^verbatim>\<open>fini\<close>, in the order of the loop.\<close>

fun reorder_queue_fini_from :: "'e reorder_queue \<Rightarrow> u64 \<Rightarrow> nat \<Rightarrow> 'e drops option" where
  "reorder_queue_fini_from q i 0 = Some []"
| "reorder_queue_fini_from q i (Suc n) =
     do { let seq_num = rq_add q (rq_begin q) i;
          e \<leftarrow> rq_entry q seq_num;
          ds \<leftarrow> reorder_queue_fini_from q (i + 1) n;
          Some ((if entry_set e then [(seq_num, entry_user e)] else []) @ ds) }"

definition chiaki_reorder_queue_fini :: "'e reorder_queue \<Rightarrow> 'e drops option" where
  "chiaki_reorder_queue_fini q =
     (if drop_cb q then reorder_queue_fini_from q 0 (unat (rq_count q)) else Some [])"

text \<open>The label \<^verbatim>\<open>drop_it\<close> of \<^verbatim>\<open>push\<close>.\<close>

definition drop_it :: "'e reorder_queue \<Rightarrow> u64 \<Rightarrow> 'e \<Rightarrow> 'e reorder_queue \<times> 'e drops" where
  "drop_it q seq_num user = (q, if drop_cb q then [(seq_num, user)] else [])"

text \<open>The first loop of \<^verbatim>\<open>push\<close>: drop from the front until there is space or nothing is left.\<close>

partial_function (option) drop_first ::
  "'e reorder_queue \<Rightarrow> u64 \<Rightarrow> u64 \<Rightarrow> u64 \<Rightarrow> 'e drops \<Rightarrow> ('e reorder_queue \<times> 'e drops) option" where
  "drop_first q q_end total_end new_end ds =
     (if rq_count q > 0 \<and> rq_lt q total_end new_end
      then do { e \<leftarrow> rq_entry q (rq_begin q);
                let ds' = (if entry_set e \<and> drop_cb q then ds @ [(rq_begin q, entry_user e)] else ds);
                let q' = q\<lparr>rq_begin := rq_add q (rq_begin q) 1, rq_count := rq_count q - 1\<rparr>;
                drop_first q' q_end (rq_add q' q_end (QUEUE_SIZE q' - rq_count q')) new_end ds' }
      else Some (q, ds))"

text \<open>The second loop of \<^verbatim>\<open>push\<close>: extend the window by empty slots until it ends at \<open>new_end\<close>.\<close>

partial_function (option) move_end :: "'e reorder_queue \<Rightarrow> u64 \<Rightarrow> u64 \<Rightarrow> 'e reorder_queue option" where
  "move_end q q_end new_end =
     (if rq_lt q q_end new_end
      then do { let q1 = q\<lparr>rq_count := rq_count q + 1\<rparr>;
                e \<leftarrow> rq_entry q1 q_end;
                let q2 = rq_store q1 q_end (e\<lparr>entry_set := False\<rparr>);
                if rq_count q2 \<le> QUEUE_SIZE q2
                then move_end q2 (rq_add q2 (rq_begin q2) (rq_count q2)) new_end
                else None }
      else Some q)"

definition chiaki_reorder_queue_push ::
  "'e reorder_queue \<Rightarrow> u64 \<Rightarrow> 'e \<Rightarrow> ('e reorder_queue \<times> 'e drops) option" where
  "chiaki_reorder_queue_push q seq_num user =
     (if \<not> rq_count q \<le> QUEUE_SIZE q then None
      else
        let q_end = rq_add q (rq_begin q) (rq_count q)
        in if rq_ge q seq_num (rq_begin q) \<and> rq_lt q seq_num q_end
        then do { e \<leftarrow> rq_entry q seq_num;
                  if entry_set e then Some (drop_it q seq_num user)
                  else Some (rq_store q seq_num \<lparr>entry_user = user, entry_set = True\<rparr>, []) }
        else if rq_lt q seq_num (rq_begin q) then Some (drop_it q seq_num user)
        else if \<not> rq_ge q seq_num q_end then None
        else
          let free_elems = QUEUE_SIZE q - rq_count q;
              total_end = rq_add q q_end free_elems;
              new_end = rq_add q seq_num 1
          in if rq_lt q total_end new_end \<and> drop_strategy q = CHIAKI_REORDER_QUEUE_DROP_STRATEGY_END
             then Some (drop_it q seq_num user)
             else do {
               (q1, ds) \<leftarrow> (if rq_lt q total_end new_end
                  then do { (q', ds) \<leftarrow> drop_first q q_end total_end new_end [];
                            Some (if rq_count q' = 0 then q'\<lparr>rq_begin := seq_num\<rparr> else q', ds) }
                  else Some (q, []));
               q2 \<leftarrow> move_end q1 (rq_add q1 (rq_begin q1) (rq_count q1)) new_end;
               e \<leftarrow> rq_entry q2 seq_num;
               Some (rq_store q2 seq_num (e\<lparr>entry_set := True, entry_user := user\<rparr>), ds) })"

text \<open>The result of \<^verbatim>\<open>pull\<close>: nothing, or the sequence number and the user pointer.\<close>

definition chiaki_reorder_queue_pull ::
  "'e reorder_queue \<Rightarrow> ('e reorder_queue \<times> (u64 \<times> 'e) option) option" where
  "chiaki_reorder_queue_pull q =
     (if \<not> rq_count q \<le> QUEUE_SIZE q then None
      else if rq_count q = 0 then Some (q, None)
      else do { e \<leftarrow> rq_entry q (rq_begin q);
                if \<not> entry_set e then Some (q, None)
                else Some (q\<lparr>rq_begin := rq_add q (rq_begin q) 1, rq_count := rq_count q - 1\<rparr>,
                           Some (rq_begin q, entry_user e)) })"

text \<open>
  \<^verbatim>\<open>peek\<close> stores through both of its pointers without a test; the two flags say whether the
  caller's pointers are not null.
\<close>

definition chiaki_reorder_queue_peek ::
  "'e reorder_queue \<Rightarrow> u64 \<Rightarrow> bool \<Rightarrow> bool \<Rightarrow> (u64 \<times> 'e) option option" where
  "chiaki_reorder_queue_peek q index seq_num_ptr user_ptr =
     (if index \<ge> rq_count q then Some None
      else do { let seq_num_val = rq_add q (rq_begin q) index;
                e \<leftarrow> rq_entry q seq_num_val;
                if \<not> entry_set e then Some None
                else if seq_num_ptr \<and> user_ptr then Some (Some (seq_num_val, entry_user e))
                else None })"

text \<open>The loop of \<^verbatim>\<open>drop\<close> that shortens the window while its last slot is empty.\<close>

partial_function (option) reduce_count ::
  "'e reorder_queue \<Rightarrow> 'e reorder_queue_entry \<Rightarrow> 'e reorder_queue option" where
  "reduce_count q e =
     (if entry_set e then Some q
      else let q' = q\<lparr>rq_count := rq_count q - 1\<rparr>
           in if rq_count q' = 0 then Some q'
              else do { e' \<leftarrow> rq_entry q' (rq_add q' (rq_begin q') (rq_count q' - 1));
                        reduce_count q' e' })"

definition chiaki_reorder_queue_drop ::
  "'e reorder_queue \<Rightarrow> u64 \<Rightarrow> ('e reorder_queue \<times> 'e drops) option" where
  "chiaki_reorder_queue_drop q index =
     (if index \<ge> rq_count q then Some (q, [])
      else do { let seq_num = rq_add q (rq_begin q) index;
                e \<leftarrow> rq_entry q seq_num;
                if \<not> entry_set e then Some (q, [])
                else do { let ds = (if drop_cb q then [(seq_num, entry_user e)] else []);
                          q' \<leftarrow> (if index = rq_count q - 1 then reduce_count q e else Some q);
                          Some (q', ds) } })"

declare drop_first.simps [code] move_end.simps [code] reduce_count.simps [code]

end
