(* ===== verification/Send_Buffer.thy ===== *)
theory Send_Buffer
  imports Seq_Num
begin

text \<open>
  The send buffer of Takion (\<^verbatim>\<open>lib/include/chiaki/takionsendbuffer.h\<close>,
  \<^verbatim>\<open>lib/src/takionsendbuffer.c\<close>): the data packets that are sent and not yet acknowledged. It
  is an allocated array of \<open>packets_size\<close> slots of which the first \<open>packets_count\<close> are in use.
  \<^verbatim>\<open>ack\<close> removes the packets up to a sequence number by moving the ones behind each gap
  (\<open>sb_memmove\<close>). \<^verbatim>\<open>push\<close> and \<^verbatim>\<open>ack\<close> run under the mutex and are one step each.
  \<^verbatim>\<open>resend\<close> holds the mutex when it is called, but releases it around the acknowledgement of a
  packet that is given up; there the other threads may run, so a pass is a sequence of steps between
  these points (\<open>resend_point\<close>).

  The main lemmas show that \<^verbatim>\<open>ack\<close> is a filter on the packets in use, whatever the pattern of
  the gaps, what \<^verbatim>\<open>resend\<close> does while it holds the mutex, and what holds in every reachable state.
\<close>

section \<open>Data and operations\<close>

definition TAKION_DATA_RESEND_TIMEOUT_MS :: u64 where
  "TAKION_DATA_RESEND_TIMEOUT_MS = 200"

definition TAKION_DATA_RESEND_TRIES_MAX :: u64 where
  "TAKION_DATA_RESEND_TRIES_MAX = 10"

definition SIZE_MAX :: nat where
  "SIZE_MAX = 2 ^ 64 - 1"

record 'w sb_packet_of =
  sb_seq_num :: 'w
  sb_tries :: u64
  sb_last_send_ms :: u64
  sb_buf :: bytes

record 'w send_buffer_of =
  sb_takion :: bool \<comment> \<open>whether the pointer to Takion is not null\<close>
  packets :: "'w sb_packet_of list"
  packets_size :: nat
  packets_count :: nat
  sb_should_stop :: bool

type_synonym sb_packet = "u32 sb_packet_of"
type_synonym send_buffer = "u32 send_buffer_of"

text \<open>\<open>alloc\<close>: whether \<^verbatim>\<open>calloc\<close> succeeds; the errors are those of the mutex, condition and thread.\<close>

definition chiaki_takion_send_buffer_init ::
  "'n::len word sb_packet_of \<Rightarrow> bool \<Rightarrow> ChiakiErrorCode \<Rightarrow> ChiakiErrorCode \<Rightarrow> ChiakiErrorCode \<Rightarrow> bool \<Rightarrow> nat \<Rightarrow>
   'n word send_buffer_of option \<times> ChiakiErrorCode" where
  "chiaki_takion_send_buffer_init zero alloc mutex_err cond_err thread_err takion slots =
     (if \<not> alloc then (None, CHIAKI_ERR_MEMORY)
      else if mutex_err \<noteq> CHIAKI_ERR_SUCCESS then (None, mutex_err)
      else if cond_err \<noteq> CHIAKI_ERR_SUCCESS then (None, cond_err)
      else if thread_err \<noteq> CHIAKI_ERR_SUCCESS then (None, thread_err)
      else (Some \<lparr>sb_takion = takion, packets = replicate slots zero, packets_size = slots,
              packets_count = 0, sb_should_stop = False\<rparr>, CHIAKI_ERR_SUCCESS))"

text \<open>The buffers that \<^verbatim>\<open>fini\<close> frees, and \<^verbatim>\<open>should_stop\<close> that it sets for the thread.\<close>

definition chiaki_takion_send_buffer_fini :: "'n::len word send_buffer_of \<Rightarrow> 'n word send_buffer_of \<times> bytes list" where
  "chiaki_takion_send_buffer_fini sb =
     (sb\<lparr>sb_should_stop := True\<rparr>, map sb_buf (take (packets_count sb) (packets sb)))"

text \<open>
  \<open>push\<close> takes over the buffer; on an error it frees it at once. The result is the new state,
  the error code, the buffers freed and whether the thread is woken up.
\<close>

fun sb_has_seq :: "'n::len word sb_packet_of list \<Rightarrow> nat \<Rightarrow> 'n word \<Rightarrow> bool option" where
  "sb_has_seq ps 0 seq_num = Some False"
| "sb_has_seq [] (Suc n) seq_num = None"
| "sb_has_seq (p # ps) (Suc n) seq_num =
     (if sb_seq_num p = seq_num then Some True else sb_has_seq ps n seq_num)"

definition chiaki_takion_send_buffer_push ::
  "'n::len word send_buffer_of \<Rightarrow> u64 \<Rightarrow> 'n word \<Rightarrow> bytes \<Rightarrow>
   ('n word send_buffer_of \<times> ChiakiErrorCode \<times> bytes list \<times> bool) option" where
  "chiaki_takion_send_buffer_push sb now_ms seq_num buf =
     (if packets_count sb \<ge> packets_size sb then Some (sb, CHIAKI_ERR_OVERFLOW, [buf], False)
      else do {
        dup \<leftarrow> sb_has_seq (packets sb) (packets_count sb) seq_num;
        if dup then Some (sb, CHIAKI_ERR_INVALID_DATA, [buf], False)
        else if packets_count sb \<ge> length (packets sb) then None
        else
          let packet = \<lparr>sb_seq_num = seq_num, sb_tries = 0, sb_last_send_ms = now_ms, sb_buf = buf\<rparr>;
              sb = sb\<lparr>packets := (packets sb)[packets_count sb := packet],
                      packets_count := packets_count sb + 1\<rparr>
          in Some (sb, CHIAKI_ERR_SUCCESS, [], packets_count sb = 1)
      })"

text \<open>\<^verbatim>\<open>memmove(packets + dst, packets + src, n * sizeof)\<close>, inside the array only.\<close>

definition sb_memmove :: "'n::len word sb_packet_of list \<Rightarrow> nat \<Rightarrow> nat \<Rightarrow> nat \<Rightarrow> 'n word sb_packet_of list option" where
  "sb_memmove ps dst src n =
     (if dst + n \<le> length ps \<and> src + n \<le> length ps
      then Some (take dst ps @ take n (drop src ps) @ drop (dst + n) ps) else None)"

definition sb_acks :: "'n::len word \<Rightarrow> 'n word sb_packet_of \<Rightarrow> bool" where
  "sb_acks seq_num p \<longleftrightarrow> sb_seq_num p = seq_num \<or> seq_num_lt (sb_seq_num p) seq_num"

text \<open>
  The loop of \<open>ack\<close> at index \<open>i\<close> with \<open>n\<close> packets left. \<open>acked\<close> are the numbers written to the
  array of the caller, which has room for \<open>cap\<close> (\<open>None\<close>: the caller passed no array).
\<close>

fun ack_loop ::
  "'n::len word \<Rightarrow> nat option \<Rightarrow> nat \<Rightarrow> nat \<Rightarrow> 'n word sb_packet_of list \<Rightarrow> nat \<Rightarrow> nat \<Rightarrow> 'n word list \<Rightarrow> bytes list \<Rightarrow>
   ('n word sb_packet_of list \<times> nat \<times> nat \<times> 'n word list \<times> bytes list) option" where
  "ack_loop seq_num cap 0 i ps shift shift_start acked freed = Some (ps, shift, shift_start, acked, freed)"
| "ack_loop seq_num cap (Suc n) i ps shift shift_start acked freed =
     (if i \<ge> length ps then None
      else if sb_acks seq_num (ps ! i) then do {
        acked \<leftarrow> (case cap of None \<Rightarrow> Some acked
          | Some c \<Rightarrow> if length acked < c then Some (acked @ [sb_seq_num (ps ! i)]) else None);
        let freed = freed @ [sb_buf (ps ! i)];
        if shift_start = SIZE_MAX then ack_loop seq_num cap n (i + 1) ps 1 i acked freed
        else if shift_start + shift = i then ack_loop seq_num cap n (i + 1) ps (shift + 1) shift_start acked freed
        else do {
          ps \<leftarrow> sb_memmove ps shift_start (shift_start + shift) (i - (shift_start + shift));
          ack_loop seq_num cap n (i + 1) ps (shift + 1) (i - shift) acked freed
        }
      }
      else ack_loop seq_num cap n (i + 1) ps shift shift_start acked freed)"

definition chiaki_takion_send_buffer_ack ::
  "'n::len word send_buffer_of \<Rightarrow> 'n word \<Rightarrow> nat option \<Rightarrow> ('n word send_buffer_of \<times> 'n word list \<times> bytes list) option" where
  "chiaki_takion_send_buffer_ack sb seq_num cap = do {
     (ps, shift, shift_start, acked, freed) \<leftarrow>
       ack_loop seq_num cap (packets_count sb) 0 (packets sb) 0 SIZE_MAX [] [];
     if shift_start \<noteq> SIZE_MAX then do {
       ps \<leftarrow> (if shift_start + shift < packets_count sb
              then sb_memmove ps shift_start (shift_start + shift) (packets_count sb - (shift_start + shift))
              else Some ps);
       Some (sb\<lparr>packets := ps, packets_count := packets_count sb - shift\<rparr>, acked, freed)
     }
     else Some (sb\<lparr>packets := ps\<rparr>, acked, freed)
   }"

text \<open>
  The loop of \<open>resend\<close> from index \<open>i\<close> while it holds the mutex: to the end of the packets, or to one
  that is out of tries, whose index is the last result. The packets sent are listed.
\<close>

function resend_from :: "u64 \<Rightarrow> nat \<Rightarrow> send_buffer \<Rightarrow> bytes list \<Rightarrow> (send_buffer \<times> bytes list \<times> nat option) option" where
  "resend_from now_ms i sb sent =
     (if i \<ge> packets_count sb then Some (sb, sent, None)
      else if i \<ge> length (packets sb) then None
      else let packet = packets sb ! i in
        if now_ms - sb_last_send_ms packet > TAKION_DATA_RESEND_TIMEOUT_MS then
          if sb_tries packet \<ge> TAKION_DATA_RESEND_TRIES_MAX then Some (sb, sent, Some i)
          else resend_from now_ms (i + 1)
            (sb\<lparr>packets := (packets sb)[i := packet\<lparr>sb_last_send_ms := now_ms, sb_tries := sb_tries packet + 1\<rparr>]\<rparr>)
            (sent @ [sb_buf packet])
        else resend_from now_ms (i + 1) sb sent)"
  by auto
termination
  by (relation "measure (\<lambda>(_, i, sb, _). packets_count sb - i)") auto

declare resend_from.simps [simp del]

text \<open>
  Where the thread is between two steps: it waits for the next pass; it has released the mutex at
  index \<open>i\<close> and not yet read the number of the packet; it has read the number and is about to
  acknowledge it in the place of the peer; or that is done and it is about to lock the mutex again.
\<close>

datatype 'w resend_point = Waiting | Released u64 nat | Acking u64 nat 'w | Returning u64 nat

definition resend_locked :: "u64 \<Rightarrow> nat \<Rightarrow> send_buffer \<Rightarrow> (send_buffer \<times> bytes list \<times> u32 resend_point) option" where
  "resend_locked now_ms i sb = do {
     (sb, sent, stop) \<leftarrow> resend_from now_ms i sb [];
     Some (sb, sent, case stop of None \<Rightarrow> Waiting | Some i \<Rightarrow> Released now_ms i)
   }"

text \<open>The start of a pass.\<close>

definition takion_send_buffer_resend :: "send_buffer \<Rightarrow> u64 \<Rightarrow> (send_buffer \<times> bytes list \<times> u32 resend_point) option" where
  "takion_send_buffer_resend sb now_ms =
     (if \<not> sb_takion sb then Some (sb, [], Waiting) else resend_locked now_ms 0 sb)"

text \<open>
  The next step of a pass that has begun. The number is read from the slot at the index without the
  mutex. The array for the acknowledged numbers has room for one (\<^verbatim>\<open>ChiakiSeqNum32 ack_seq_nums\<close>).
  The pass then continues at the same index (\<^verbatim>\<open>i -= 1\<close> and \<^verbatim>\<open>i++\<close>, which wrap around at 0).
\<close>

fun resend_continue :: "send_buffer \<Rightarrow> u32 resend_point \<Rightarrow> (send_buffer \<times> bytes list \<times> u32 resend_point) option" where
  "resend_continue sb Waiting = Some (sb, [], Waiting)"
| "resend_continue sb (Released now_ms i) =
     (if i \<ge> length (packets sb) then None else Some (sb, [], Acking now_ms i (sb_seq_num (packets sb ! i))))"
| "resend_continue sb (Acking now_ms i seq_num) = do {
     (sb, acked, freed) \<leftarrow> chiaki_takion_send_buffer_ack sb seq_num (Some 1);
     Some (sb, [], Returning now_ms i)
   }"
| "resend_continue sb (Returning now_ms i) = resend_locked now_ms i sb"

section \<open>Moving the packets together is a filter\<close>

abbreviation sb_used :: "'n::len word send_buffer_of \<Rightarrow> 'n word sb_packet_of list" where
  "sb_used sb \<equiv> take (packets_count sb) (packets sb)"

definition sb_wf :: "'n::len word send_buffer_of \<Rightarrow> bool" where
  "sb_wf sb \<longleftrightarrow> packets_count sb \<le> packets_size sb \<and> length (packets sb) = packets_size sb \<and>
     packets_size sb < SIZE_MAX"

text \<open>
  The state of the loop at index \<open>i\<close>: the packets kept so far are the ones before the open gap
  followed by the ones between the gap and \<open>i\<close>.
\<close>

definition gap_inv :: "'n::len word \<Rightarrow> 'n word sb_packet_of list \<Rightarrow> nat \<Rightarrow> 'n word sb_packet_of list \<Rightarrow> nat \<Rightarrow> nat \<Rightarrow> bool" where
  "gap_inv seq_num ps0 i ps shift shift_start \<longleftrightarrow>
     length ps = length ps0 \<and> drop i ps = drop i ps0 \<and>
     (if shift_start = SIZE_MAX
      then shift = 0 \<and> take i ps = filter (\<lambda>p. \<not> sb_acks seq_num p) (take i ps0)
      else 0 < shift \<and> shift_start + shift \<le> i \<and>
        take shift_start ps @ drop (shift_start + shift) (take i ps) =
          filter (\<lambda>p. \<not> sb_acks seq_num p) (take i ps0))"

lemma gap_inv_start: "gap_inv seq_num ps 0 ps 0 SIZE_MAX"
  by (simp add: gap_inv_def)

lemma gap_inv_nth: "gap_inv seq_num ps0 i ps shift shift_start \<Longrightarrow> i < length ps0 \<Longrightarrow> ps ! i = ps0 ! i"
  by (metis gap_inv_def hd_drop_conv_nth)

lemma gap_inv_keep:
  assumes "gap_inv seq_num ps0 i ps shift shift_start" "i < length ps0" "\<not> sb_acks seq_num (ps ! i)"
  shows "gap_inv seq_num ps0 (i + 1) ps shift shift_start"
proof -
  have "drop (Suc i) ps = drop (Suc i) ps0" using assms(1) by (metis gap_inv_def drop_Suc tl_drop)
  then show ?thesis
    using assms gap_inv_nth [OF assms(1,2)] by (auto simp: gap_inv_def take_Suc_conv_app_nth)
qed

lemma gap_inv_first:
  assumes "gap_inv seq_num ps0 i ps shift SIZE_MAX" "i < length ps0" "sb_acks seq_num (ps ! i)" "i < SIZE_MAX"
  shows "gap_inv seq_num ps0 (i + 1) ps 1 i"
proof -
  have "drop (Suc i) ps = drop (Suc i) ps0" using assms(1) by (metis gap_inv_def drop_Suc tl_drop)
  moreover have "take i ps @ drop (i + 1) (take (i + 1) ps) = take i ps" by simp
  moreover have "take i ps = filter (\<lambda>p. \<not> sb_acks seq_num p) (take (i + 1) ps0)"
    using assms gap_inv_nth [OF assms(1,2)] by (simp add: gap_inv_def take_Suc_conv_app_nth)
  ultimately show ?thesis using assms by (simp only: gap_inv_def) simp
qed

lemma gap_inv_same:
  assumes "gap_inv seq_num ps0 i ps shift shift_start" "i < length ps0" "sb_acks seq_num (ps ! i)"
    and "shift_start \<noteq> SIZE_MAX" "shift_start + shift = i"
  shows "gap_inv seq_num ps0 (i + 1) ps (shift + 1) shift_start"
proof -
  have "drop (Suc i) ps = drop (Suc i) ps0" using assms(1) by (metis gap_inv_def drop_Suc tl_drop)
  then show ?thesis
    using assms gap_inv_nth [OF assms(1,2)] by (auto simp: gap_inv_def take_Suc_conv_app_nth)
qed

lemma gap_invI:
  assumes "length ps = length ps0" "drop (Suc i) ps = drop (Suc i) ps0"
    and "take s ps = filter (\<lambda>p. \<not> sb_acks seq_num p) (take (Suc i) ps0)"
    and "s \<noteq> SIZE_MAX" "s + shift = i"
  shows "gap_inv seq_num ps0 (i + 1) ps (shift + 1) s"
  using assms by (simp add: gap_inv_def)

lemma gap_inv_move:
  assumes inv: "gap_inv seq_num ps0 i ps shift shift_start" "i < length ps0" "sb_acks seq_num (ps ! i)"
    and ss: "shift_start \<noteq> SIZE_MAX" "shift_start + shift \<noteq> i" "i < SIZE_MAX"
  shows "\<exists>ps'. sb_memmove ps shift_start (shift_start + shift) (i - (shift_start + shift)) = Some ps' \<and>
    gap_inv seq_num ps0 (i + 1) ps' (shift + 1) (i - shift)"
proof -
  let ?n = "i - (shift_start + shift)"
  have len: "length ps = length ps0" "shift_start + shift \<le> i" "0 < shift"
    and keep: "take shift_start ps @ drop (shift_start + shift) (take i ps) =
      filter (\<lambda>p. \<not> sb_acks seq_num p) (take i ps0)"
    using inv(1) ss(1) by (simp_all add: gap_inv_def)
  have eq: "sb_memmove ps shift_start (shift_start + shift) ?n =
      Some (take shift_start ps @ take ?n (drop (shift_start + shift) ps) @ drop (shift_start + ?n) ps)"
    using len inv(2) by (simp add: sb_memmove_def)
  let ?ps = "take shift_start ps @ take ?n (drop (shift_start + shift) ps) @ drop (shift_start + ?n) ps"
  have l: "length (take shift_start ps @ take ?n (drop (shift_start + shift) ps)) = i - shift"
    using len inv(2) by simp
  have gen2: "length X \<le> m \<Longrightarrow> drop m (X @ Y) = drop (m - length X) Y" for m and X Y :: "'n::len word sb_packet_of list" by simp
  have gen: "take (length X) (X @ Y) = X" for X Y :: "'n::len word sb_packet_of list" by simp
  have "take (i - shift) ?ps = take shift_start ps @ drop (shift_start + shift) (take i ps)"
    using gen [of "take shift_start ps @ take ?n (drop (shift_start + shift) ps)" "drop (shift_start + ?n) ps"]
    unfolding l by (simp only: append_assoc drop_take)
  moreover have "drop (Suc i) ?ps = drop (Suc i) ps"
  proof -
    have "shift_start + ?n = i - shift" "shift \<le> i" using len by simp_all
    then have "drop (Suc i) ?ps = drop (Suc i - (i - shift)) (drop (i - shift) ps)"
      using gen2 [of "take shift_start ps @ take ?n (drop (shift_start + shift) ps)" "Suc i" "drop (i - shift) ps"]
      unfolding l by (simp only: append_assoc)
    then show ?thesis using \<open>shift \<le> i\<close> by simp
  qed
  moreover have "drop (Suc i) ps = drop (Suc i) ps0" using inv(1) by (metis gap_inv_def drop_Suc tl_drop)
  moreover have "filter (\<lambda>p. \<not> sb_acks seq_num p) (take (Suc i) ps0) =
      filter (\<lambda>p. \<not> sb_acks seq_num p) (take i ps0)"
    using inv gap_inv_nth [OF inv(1,2)] by (simp add: take_Suc_conv_app_nth)
  moreover have "i - shift \<noteq> SIZE_MAX" "length ?ps = length ps0" "i - shift + (shift + 1) \<le> i + 1"
    using ss len inv(2) by simp_all
  moreover have "i - shift + shift = i" using len by simp
  ultimately have "gap_inv seq_num ps0 (i + 1) ?ps (shift + 1) (i - shift)"
    using keep by (intro gap_invI) (simp_all only: not_False_eq_True)
  then show ?thesis using eq by blast
qed

text \<open>The numbers written to the array of the caller, when there is one.\<close>

definition ack_out :: "nat option \<Rightarrow> 'n::len word list \<Rightarrow> 'n word list" where
  "ack_out cap xs = (if cap = None then [] else xs)"

lemma ack_out_simps [simp]:
  "ack_out None xs = []" "ack_out (Some c) xs = xs" "ack_out cap [] = []"
  "ack_out cap [x] @ ack_out cap xs = ack_out cap (x # xs)"
  by (simp_all add: ack_out_def)

text \<open>The loop runs to the end when the array of the caller has room for all the numbers.\<close>

lemma ack_loop_filter:
  assumes "gap_inv seq_num ps0 i ps shift shift_start" "i + n \<le> length ps0" "length ps0 < SIZE_MAX"
    and "\<And>c. cap = Some c \<Longrightarrow> length acked + length (filter (sb_acks seq_num) (take n (drop i ps0))) \<le> c"
  shows "\<exists>ps' shift' shift_start'.
    ack_loop seq_num cap n i ps shift shift_start acked freed =
      Some (ps', shift', shift_start',
        acked @ ack_out cap (map sb_seq_num (filter (sb_acks seq_num) (take n (drop i ps0)))),
        freed @ map sb_buf (filter (sb_acks seq_num) (take n (drop i ps0)))) \<and>
    gap_inv seq_num ps0 (i + n) ps' shift' shift_start'"
  using assms
proof (induction n arbitrary: i ps shift shift_start acked freed)
  case (Suc n)
  have i: "i < length ps0" "i < SIZE_MAX" "length ps = length ps0" "ps ! i = ps0 ! i"
    using Suc.prems gap_inv_nth [OF Suc.prems(1)] by (auto simp: gap_inv_def)
  have tk: "take (Suc n) (drop i ps0) = ps0 ! i # take n (drop (Suc i) ps0)"
    using i(1) by (simp add: Cons_nth_drop_Suc [symmetric])
  show ?case
  proof (cases "sb_acks seq_num (ps ! i)")
    case False
    then show ?thesis
      using Suc.IH [OF gap_inv_keep [OF Suc.prems(1) i(1) False], of acked freed] Suc.prems i
      by (simp add: tk)
  next
    case True
    let ?acked = "acked @ ack_out cap [sb_seq_num (ps ! i)]"
    have cap: "(case cap of None \<Rightarrow> Some acked
        | Some c \<Rightarrow> if length acked < c then Some (acked @ [sb_seq_num (ps ! i)]) else None) = Some ?acked"
      using Suc.prems(4) True i(4) by (cases cap) (auto simp: tk)
    have room: "length ?acked + length (filter (sb_acks seq_num) (take n (drop (i + 1) ps0))) \<le> c"
      if "cap = Some c" for c
      using Suc.prems(4) [OF that] True i(4) that by (simp add: tk)
    note IH = Suc.IH [where acked = ?acked and freed = "freed @ [sb_buf (ps ! i)]" and i = "i + 1", OF _ _ Suc.prems(3) room]
    consider "shift_start = SIZE_MAX" | "shift_start \<noteq> SIZE_MAX" "shift_start + shift = i"
      | "shift_start \<noteq> SIZE_MAX" "shift_start + shift \<noteq> i" by blast
    then show ?thesis
    proof cases
      case 1
      then show ?thesis
        using IH [of ps 1 i] gap_inv_first [of seq_num ps0 i ps shift] Suc.prems(1,2) True i cap by (simp add: tk)
    next
      case 2
      then show ?thesis
        using IH [of ps "shift + 1" shift_start] gap_inv_same [OF Suc.prems(1) i(1) True] Suc.prems(2) True i cap
        by (simp add: tk)
    next
      case 3
      obtain ps' where ps': "sb_memmove ps shift_start (shift_start + shift) (i - (shift_start + shift)) = Some ps'"
          "gap_inv seq_num ps0 (i + 1) ps' (shift + 1) (i - shift)"
        using gap_inv_move [OF Suc.prems(1) i(1) True 3 i(2)] by blast
      then show ?thesis
        using 3 IH [OF ps'(2)] Suc.prems(2) True i cap by (simp add: tk)
    qed
  qed
qed simp

text \<open>Without room for the numbers the loop writes outside the array of the caller.\<close>

lemma ack_loop_overflow:
  assumes "gap_inv seq_num ps0 i ps shift shift_start" "i + n \<le> length ps0" "length ps0 < SIZE_MAX"
    and "length acked \<le> c" "c < length acked + length (filter (sb_acks seq_num) (take n (drop i ps0)))"
  shows "ack_loop seq_num (Some c) n i ps shift shift_start acked freed = None"
  using assms
proof (induction n arbitrary: i ps shift shift_start acked freed)
  case (Suc n)
  have i: "i < length ps0" "i < SIZE_MAX" "length ps = length ps0" "ps ! i = ps0 ! i"
    using Suc.prems gap_inv_nth [OF Suc.prems(1)] by (auto simp: gap_inv_def)
  have tk: "take (Suc n) (drop i ps0) = ps0 ! i # take n (drop (Suc i) ps0)"
    using i(1) by (simp add: Cons_nth_drop_Suc [symmetric])
  show ?case
  proof (cases "sb_acks seq_num (ps ! i)")
    case False
    then show ?thesis
      using Suc.IH [OF gap_inv_keep [OF Suc.prems(1) i(1) False], of acked] Suc.prems i by (simp add: tk)
  next
    case True
    show ?thesis
    proof (cases "length acked < c")
      case room: True
      note IH = Suc.IH [where acked = "acked @ [sb_seq_num (ps ! i)]" and i = "i + 1", OF _ _ Suc.prems(3)]
      consider "shift_start = SIZE_MAX" | "shift_start \<noteq> SIZE_MAX" "shift_start + shift = i"
        | "shift_start \<noteq> SIZE_MAX" "shift_start + shift \<noteq> i" by blast
      then show ?thesis
      proof cases
        case 1
        then show ?thesis
          using IH [of ps 1 i] gap_inv_first [of seq_num ps0 i ps shift] Suc.prems True i room by (simp add: tk)
      next
        case 2
        then show ?thesis
          using IH [of ps "shift + 1" shift_start] gap_inv_same [OF Suc.prems(1) i(1) True] Suc.prems True i room
          by (simp add: tk)
      next
        case 3
        obtain ps' where ps': "sb_memmove ps shift_start (shift_start + shift) (i - (shift_start + shift)) = Some ps'"
            "gap_inv seq_num ps0 (i + 1) ps' (shift + 1) (i - shift)"
          using gap_inv_move [OF Suc.prems(1) i(1) True 3 i(2)] by blast
        then show ?thesis using 3 IH [OF ps'(2)] Suc.prems True i room by (simp add: tk)
      qed
    qed (use True i in simp)
  qed
qed simp

section \<open>ack on the packets in use\<close>

lemma ack_filter:
  assumes "sb_wf sb"
    and "\<And>c. cap = Some c \<Longrightarrow> length (filter (sb_acks seq_num) (sb_used sb)) \<le> c"
  shows "\<exists>sb'. chiaki_takion_send_buffer_ack sb seq_num cap =
      Some (sb', ack_out cap (map sb_seq_num (filter (sb_acks seq_num) (sb_used sb))),
        map sb_buf (filter (sb_acks seq_num) (sb_used sb))) \<and>
    sb_used sb' = filter (\<lambda>p. \<not> sb_acks seq_num p) (sb_used sb) \<and> sb_wf sb' \<and>
    packets_count sb' = length (sb_used sb') \<and>
    packets_size sb' = packets_size sb \<and> sb_takion sb' = sb_takion sb \<and> sb_should_stop sb' = sb_should_stop sb"
proof -
  let ?c = "packets_count sb" and ?ps0 = "packets sb"
  have wf: "?c \<le> length ?ps0" "length ?ps0 < SIZE_MAX" using assms(1) by (simp_all add: sb_wf_def)
  obtain ps shift shift_start where loop:
      "ack_loop seq_num cap ?c 0 ?ps0 0 SIZE_MAX [] [] =
        Some (ps, shift, shift_start, ack_out cap (map sb_seq_num (filter (sb_acks seq_num) (sb_used sb))),
          map sb_buf (filter (sb_acks seq_num) (sb_used sb)))"
    and inv: "gap_inv seq_num ?ps0 ?c ps shift shift_start"
    using ack_loop_filter [where seq_num = seq_num and ps = ?ps0 and n = ?c and cap = cap and acked = "[]"
        and freed = "[]", OF gap_inv_start] assms(2) wf by auto
  have len: "length ps = length ?ps0" using inv by (simp add: gap_inv_def)
  let ?kept = "filter (\<lambda>p. \<not> sb_acks seq_num p) (sb_used sb)"
  show ?thesis
  proof (cases "shift_start = SIZE_MAX")
    case True
    then have "take ?c ps = ?kept" using inv by (simp add: gap_inv_def)
    then show ?thesis
      using loop True len assms(1) by (auto simp: chiaki_takion_send_buffer_ack_def sb_wf_def)
  next
    case False
    then have gap: "shift_start + shift \<le> ?c" "0 < shift"
        "take shift_start ps @ drop (shift_start + shift) (take ?c ps) = ?kept"
      using inv by (simp_all add: gap_inv_def)
    show ?thesis
    proof (cases "shift_start + shift < ?c")
      case True
      let ?n = "?c - (shift_start + shift)"
      let ?ps = "take shift_start ps @ take ?n (drop (shift_start + shift) ps) @ drop (shift_start + ?n) ps"
      have mv: "sb_memmove ps shift_start (shift_start + shift) ?n = Some ?ps" and l: "length ?ps = length ps"
        using gap wf len by (simp_all add: sb_memmove_def)
      have "length (take shift_start ps @ take ?n (drop (shift_start + shift) ps)) = ?c - shift"
        using gap wf len by simp
      then have "take (?c - shift) ?ps = take shift_start ps @ take ?n (drop (shift_start + shift) ps)"
        by (metis append_assoc append_eq_conv_conj)
      then have "take (?c - shift) ?ps = ?kept" using gap(3) by (simp add: drop_take)
      then show ?thesis
        using loop False True mv l len assms(1) gap wf
        by (simp add: chiaki_takion_send_buffer_ack_def sb_wf_def del: take_append length_append) linarith
    next
      case ge: False
      then have "shift_start = ?c - shift" "drop (shift_start + shift) (take ?c ps) = []" using gap by simp_all
      then have "take (?c - shift) ps = ?kept" using gap(3) by simp
      then show ?thesis
        using loop False ge len assms(1) gap wf
        by (simp add: chiaki_takion_send_buffer_ack_def sb_wf_def) linarith
    qed
  qed
qed

lemma ack_overflow:
  assumes "sb_wf sb" "c < length (filter (sb_acks seq_num) (sb_used sb))"
  shows "chiaki_takion_send_buffer_ack sb seq_num (Some c) = None"
  using ack_loop_overflow [where seq_num = seq_num and ps = "packets sb" and n = "packets_count sb" and c = c
      and acked = "[]" and freed = "[]", OF gap_inv_start] assms
  by (simp add: chiaki_takion_send_buffer_ack_def sb_wf_def)

section \<open>push\<close>

lemma sb_has_seq_iff:
  "n \<le> length ps \<Longrightarrow> sb_has_seq ps n s = Some (s \<in> sb_seq_num ` set (take n ps))"
  by (induction ps n s rule: sb_has_seq.induct) auto

abbreviation sb_seqs :: "'n::len word send_buffer_of \<Rightarrow> 'n word list" where
  "sb_seqs sb \<equiv> map sb_seq_num (sb_used sb)"

lemma push_cases:
  assumes "sb_wf sb"
  shows "packets_count sb = packets_size sb \<Longrightarrow>
      chiaki_takion_send_buffer_push sb now_ms s buf = Some (sb, CHIAKI_ERR_OVERFLOW, [buf], False)"
    and "packets_count sb < packets_size sb \<Longrightarrow> s \<in> set (sb_seqs sb) \<Longrightarrow>
      chiaki_takion_send_buffer_push sb now_ms s buf = Some (sb, CHIAKI_ERR_INVALID_DATA, [buf], False)"
    and "packets_count sb < packets_size sb \<Longrightarrow> s \<notin> set (sb_seqs sb) \<Longrightarrow>
      \<exists>sb'. chiaki_takion_send_buffer_push sb now_ms s buf =
          Some (sb', CHIAKI_ERR_SUCCESS, [], packets_count sb = 0) \<and> sb_wf sb' \<and>
        sb_used sb' = sb_used sb @ [\<lparr>sb_seq_num = s, sb_tries = 0, sb_last_send_ms = now_ms, sb_buf = buf\<rparr>] \<and>
        packets_size sb' = packets_size sb"
  using assms
  by (auto simp: chiaki_takion_send_buffer_push_def sb_has_seq_iff sb_wf_def Let_def take_Suc_conv_app_nth)

section \<open>resend under the mutex\<close>

definition sb_expired :: "u64 \<Rightarrow> sb_packet \<Rightarrow> bool" where
  "sb_expired now p \<longleftrightarrow> now - sb_last_send_ms p > TAKION_DATA_RESEND_TIMEOUT_MS"

definition given_up :: "u64 \<Rightarrow> sb_packet \<Rightarrow> bool" where
  "given_up now p \<longleftrightarrow> sb_expired now p \<and> sb_tries p \<ge> TAKION_DATA_RESEND_TRIES_MAX"

definition to_resend :: "u64 \<Rightarrow> sb_packet \<Rightarrow> bool" where
  "to_resend now p \<longleftrightarrow> sb_expired now p \<and> \<not> sb_tries p \<ge> TAKION_DATA_RESEND_TRIES_MAX"

definition resent :: "u64 \<Rightarrow> sb_packet \<Rightarrow> sb_packet" where
  "resent now p = (if to_resend now p then p\<lparr>sb_last_send_ms := now, sb_tries := sb_tries p + 1\<rparr> else p)"

lemma sb_acks_self [simp]: "sb_acks (sb_seq_num p) p"
  by (simp add: sb_acks_def)

lemma used_split:
  assumes "sb_used sb = pre @ p # rest" "sb_wf sb"
  shows "length pre < packets_count sb" "length pre < length (packets sb)" "packets sb ! length pre = p"
proof -
  have "length (sb_used sb) = length pre + Suc (length rest)" using assms(1) by simp
  then show "length pre < packets_count sb" "length pre < length (packets sb)" by simp_all
  then show "packets sb ! length pre = p" using assms(1) by (metis nth_append_length nth_take)
qed

text \<open>The part of the packets that the loop goes through.\<close>

abbreviation todo :: "u64 \<Rightarrow> sb_packet list \<Rightarrow> sb_packet list" where
  "todo now ps \<equiv> takeWhile (\<lambda>p. \<not> given_up now p) ps"

lemma resend_from_used:
  assumes "sb_used sb = pre @ rest" "sb_wf sb"
  shows "\<exists>sb'. resend_from now (length pre) sb sent =
      Some (sb', sent @ map sb_buf (filter (to_resend now) (todo now rest)),
        if todo now rest = rest then None else Some (length pre + length (todo now rest))) \<and>
    sb_used sb' = pre @ map (resent now) (todo now rest) @ dropWhile (\<lambda>p. \<not> given_up now p) rest \<and>
    sb_wf sb' \<and> packets_size sb' = packets_size sb \<and> packets_count sb' = packets_count sb \<and> sb_takion sb' = sb_takion sb"
  using assms
proof (induction rest arbitrary: pre sb sent)
  case Nil
  have "length (sb_used sb) = packets_count sb" using Nil(2) by (simp add: sb_wf_def)
  then have "packets_count sb \<le> length pre" using Nil(1) by simp
  then show ?case using Nil by (simp add: resend_from.simps)
next
  case (Cons p rest)
  note u = used_split [OF Cons.prems]
  note step = resend_from.simps [of now "length pre" sb sent]
  consider "given_up now p" | "to_resend now p" | "\<not> sb_expired now p"
    by (auto simp: given_up_def to_resend_def)
  then show ?case
  proof cases
    case 1
    then show ?thesis using Cons.prems u step by (simp add: given_up_def sb_expired_def)
  next
    case 2
    let ?sb = "sb\<lparr>packets := (packets sb)[length pre := resent now p]\<rparr>"
    have n: "\<not> given_up now p" using 2 by (simp add: to_resend_def given_up_def)
    have "take (packets_count sb) ((packets sb)[length pre := resent now p]) = (sb_used sb)[length pre := resent now p]"
      using u by (simp add: take_update_swap)
    then have "sb_used ?sb = (pre @ [resent now p]) @ rest" using Cons.prems(1) by simp
    moreover have "sb_wf ?sb" using Cons.prems(2) by (simp add: sb_wf_def)
    moreover have "resend_from now (length pre) sb sent =
        resend_from now (length (pre @ [resent now p])) ?sb (sent @ [sb_buf p])"
      using 2 u step by (simp add: to_resend_def sb_expired_def resent_def)
    ultimately show ?thesis
      using Cons.IH [of ?sb "pre @ [resent now p]" "sent @ [sb_buf p]"] 2 n by auto
  next
    case 3
    then have "\<not> given_up now p" "\<not> to_resend now p" by (simp_all add: given_up_def to_resend_def)
    moreover have "resend_from now (length pre) sb sent = resend_from now (length (pre @ [p])) sb sent"
      using 3 u step by (simp add: sb_expired_def)
    ultimately show ?thesis using Cons.IH [of sb "pre @ [p]" sent] Cons.prems by (auto simp: resent_def)
  qed
qed

lemma resent_seq [simp]:
  "sb_seq_num (resent now q) = sb_seq_num q" "sb_acks s (resent now q) = sb_acks s q"
  by (simp_all add: resent_def sb_acks_def)

text \<open>From any index.\<close>

lemma resend_from_index:
  assumes "sb_wf sb"
  shows "\<exists>sb'. resend_from now i sb [] =
      Some (sb', map sb_buf (filter (to_resend now) (todo now (drop i (sb_used sb)))),
        if todo now (drop i (sb_used sb)) = drop i (sb_used sb) then None
        else Some (i + length (todo now (drop i (sb_used sb))))) \<and>
    sb_used sb' = take i (sb_used sb) @ map (resent now) (todo now (drop i (sb_used sb))) @
      dropWhile (\<lambda>p. \<not> given_up now p) (drop i (sb_used sb)) \<and>
    sb_wf sb' \<and> packets_size sb' = packets_size sb \<and> packets_count sb' = packets_count sb \<and> sb_takion sb' = sb_takion sb"
proof (cases "i \<le> packets_count sb")
  case True
  then have len: "length (take i (sb_used sb)) = i" using assms by (simp add: sb_wf_def)
  show ?thesis
    using resend_from_used [OF append_take_drop_id [symmetric, of "sb_used sb" i] assms, of now "[]"]
    unfolding len append_Nil .
next
  case False
  then have "resend_from now i sb [] = Some (sb, [], None)" "drop i (sb_used sb) = []" "take i (sb_used sb) = sb_used sb"
    using assms by (simp_all add: resend_from.simps sb_wf_def)
  then show ?thesis using assms by simp
qed

section \<open>The buffer over time\<close>

definition sb_inv :: "send_buffer \<Rightarrow> bool" where
  "sb_inv sb \<longleftrightarrow> sb_wf sb \<and> distinct (sb_seqs sb) \<and>
     (\<forall>p \<in> set (sb_used sb). sb_tries p \<le> TAKION_DATA_RESEND_TRIES_MAX)"

text \<open>
  The steps of all threads on the buffer and the point of its thread: \<open>push\<close> and \<open>ack\<close> by other
  threads wherever the thread does not hold the mutex, and the steps of the thread.
\<close>

inductive sb_step :: "send_buffer \<times> u32 resend_point \<Rightarrow> send_buffer \<times> u32 resend_point \<Rightarrow> bool" where
  step_push: "chiaki_takion_send_buffer_push sb now_ms seq_num buf = Some (sb', err, freed, wake) \<Longrightarrow>
    sb_step (sb, pt) (sb', pt)"
| step_ack: "chiaki_takion_send_buffer_ack sb seq_num cap = Some (sb', acked, freed) \<Longrightarrow> sb_step (sb, pt) (sb', pt)"
| step_resend: "takion_send_buffer_resend sb now_ms = Some (sb', sent, pt) \<Longrightarrow> sb_step (sb, Waiting) (sb', pt)"
| step_continue: "resend_continue sb pt = Some (sb', sent, pt') \<Longrightarrow> sb_step (sb, pt) (sb', pt')"

text \<open>The index of the thread is inside of the slots.\<close>

fun point_index :: "'w resend_point \<Rightarrow> nat option" where
  "point_index Waiting = None"
| "point_index (Released now i) = Some i"
| "point_index (Acking now i s) = Some i"
| "point_index (Returning now i) = Some i"

definition sb_point_ok :: "send_buffer \<Rightarrow> u32 resend_point \<Rightarrow> bool" where
  "sb_point_ok sb pt \<longleftrightarrow> (\<forall>i. point_index pt = Some i \<longrightarrow> i < packets_size sb)"

lemma sb_inv_init:
  assumes "chiaki_takion_send_buffer_init zero alloc me ce te takion n = (Some sb, err)" "n < SIZE_MAX"
  shows "sb_inv sb"
  using assms by (auto simp: chiaki_takion_send_buffer_init_def sb_inv_def sb_wf_def split: if_splits)

lemma sb_inv_push:
  assumes "sb_inv sb" "chiaki_takion_send_buffer_push sb now_ms s buf = Some (sb', err, freed, wake)"
  shows "sb_inv sb' \<and> packets_size sb' = packets_size sb"
proof -
  have wf: "sb_wf sb" using assms(1) by (simp add: sb_inv_def)
  then consider "packets_count sb = packets_size sb" | "packets_count sb < packets_size sb" "s \<in> set (sb_seqs sb)"
    | "packets_count sb < packets_size sb" "s \<notin> set (sb_seqs sb)"
    by (metis le_neq_implies_less sb_wf_def)
  then show ?thesis
  proof cases
    case 3
    then show ?thesis using push_cases(3) [OF wf 3, where now_ms = now_ms and buf = buf] assms by (auto simp: sb_inv_def)
  qed (use push_cases(1,2) [OF wf] assms in auto)
qed

lemma ack_Some_filter:
  assumes "sb_wf sb" "chiaki_takion_send_buffer_ack sb seq_num cap = Some (sb', acked, freed)"
  shows "sb_used sb' = filter (\<lambda>p. \<not> sb_acks seq_num p) (sb_used sb) \<and> sb_wf sb' \<and>
    packets_size sb' = packets_size sb"
proof (cases "\<exists>c. cap = Some c \<and> c < length (filter (sb_acks seq_num) (sb_used sb))")
  case True
  then show ?thesis using ack_overflow [OF assms(1)] assms(2) by auto
next
  case False
  then show ?thesis using ack_filter [OF assms(1), of cap seq_num] assms(2) by (auto simp: not_less)
qed

lemma sb_inv_ack:
  assumes "sb_inv sb" "chiaki_takion_send_buffer_ack sb seq_num cap = Some (sb', acked, freed)"
  shows "sb_inv sb' \<and> packets_size sb' = packets_size sb"
  using ack_Some_filter [OF _ assms(2)] assms(1) by (auto simp: sb_inv_def distinct_map_filter)

lemma resent_tries: "\<not> given_up now p \<Longrightarrow> sb_tries p \<le> TAKION_DATA_RESEND_TRIES_MAX \<Longrightarrow>
    sb_tries (resent now p) \<le> TAKION_DATA_RESEND_TRIES_MAX"
  by (auto simp: to_resend_def resent_def not_le intro: inc_le)

lemma sb_inv_resend_from:
  assumes "sb_inv sb" "resend_from now i sb [] = Some (sb', sent, stop)"
  shows "sb_inv sb' \<and> packets_size sb' = packets_size sb \<and> (\<forall>j. stop = Some j \<longrightarrow> j < packets_size sb)"
proof -
  have wf: "sb_wf sb" using assms(1) by (simp add: sb_inv_def)
  let ?rest = "drop i (sb_used sb)"
  let ?a = "takeWhile (\<lambda>p. \<not> given_up now p) ?rest"
  let ?b = "dropWhile (\<lambda>p. \<not> given_up now p) ?rest"
  have used: "sb_used sb' = take i (sb_used sb) @ map (resent now) ?a @ ?b" "sb_wf sb'" "packets_size sb' = packets_size sb"
    and stop: "stop = (if ?a = ?rest then None else Some (i + length ?a))"
    using resend_from_index [OF wf, of now i] assms(2) by auto
  have split: "take i (sb_used sb) @ ?a @ ?b = sb_used sb"
    unfolding takeWhile_dropWhile_id by (rule append_take_drop_id)
  have "map sb_seq_num (sb_used sb') = map sb_seq_num (take i (sb_used sb) @ ?a @ ?b)"
    unfolding used(1) by (simp add: comp_def del: takeWhile_dropWhile_id)
  then have "sb_seqs sb' = sb_seqs sb" unfolding split .
  moreover have "sb_tries p \<le> TAKION_DATA_RESEND_TRIES_MAX" if mem: "p \<in> set (sb_used sb')" for p
  proof -
    consider "p \<in> set (take i (sb_used sb))" | x where "p = resent now x" "x \<in> set ?a" | "p \<in> set ?b"
      using mem unfolding used(1) by (auto simp del: take_take)
    then show ?thesis
    proof cases
      case 1
      then show ?thesis using assms(1) by (auto simp: sb_inv_def dest: in_set_takeD simp del: take_take)
    next
      case 2
      then have "\<not> given_up now x" "x \<in> set (sb_used sb)" by (auto dest: set_takeWhileD in_set_dropD)
      then show ?thesis using assms(1) 2(1) resent_tries by (auto simp: sb_inv_def)
    next
      case 3
      then have "p \<in> set (sb_used sb)" by (meson in_set_dropD set_dropWhileD)
      then show ?thesis using assms(1) by (auto simp: sb_inv_def)
    qed
  qed
  moreover have "i + length ?a < packets_size sb" if "?a \<noteq> ?rest"
  proof -
    have "?b \<noteq> []" using that by (metis append_Nil2 takeWhile_dropWhile_id)
    moreover have "length ?a + length ?b = length ?rest" by (metis length_append takeWhile_dropWhile_id)
    moreover have "length ?rest = packets_count sb - i" "packets_count sb \<le> packets_size sb"
      using wf by (auto simp: sb_wf_def)
    ultimately show ?thesis by (cases "?b") auto
  qed
  ultimately show ?thesis using assms(1) used(2,3) stop by (auto simp: sb_inv_def)
qed

lemma sb_inv_resend_locked:
  assumes "sb_inv sb" "resend_locked now i sb = Some (sb', sent, pt)"
  shows "sb_inv sb' \<and> packets_size sb' = packets_size sb \<and> sb_point_ok sb' pt"
  using assms(2) sb_inv_resend_from [OF assms(1)]
  by (auto simp: resend_locked_def sb_point_ok_def bind_eq_Some_conv split: option.splits)

lemma sb_inv_step:
  assumes "sb_step (sb, pt) (sb', pt')" "sb_inv sb" "sb_point_ok sb pt"
  shows "sb_inv sb' \<and> packets_size sb' = packets_size sb \<and> sb_point_ok sb' pt'"
  using assms(1)
proof cases
  case (step_push now_ms seq_num buf err freed wake)
  then show ?thesis using sb_inv_push [OF assms(2)] assms(3) by (simp add: sb_point_ok_def)
next
  case (step_ack seq_num cap acked freed)
  then show ?thesis using sb_inv_ack [OF assms(2)] assms(3) by (simp add: sb_point_ok_def)
next
  case (step_resend now_ms sent)
  then show ?thesis
    using sb_inv_resend_locked [OF assms(2), of now_ms 0 sb' sent pt'] assms(2)
    by (auto simp: takion_send_buffer_resend_def sb_point_ok_def split: if_splits)
next
  case (step_continue sent)
  show ?thesis
  proof (cases pt)
    case (Released now i)
    then show ?thesis using step_continue assms(2,3) by (auto simp: sb_point_ok_def split: if_splits)
  next
    case (Acking now i s)
    then show ?thesis
      using step_continue assms(3) by (auto simp: sb_point_ok_def bind_eq_Some_conv dest!: sb_inv_ack [OF assms(2)])
  qed (use step_continue assms(2,3) sb_inv_resend_locked [OF assms(2)] in auto)
qed

section \<open>Properties\<close>

text \<open>
  C5: \<^verbatim>\<open>ack\<close> removes exactly the packets whose number is the acknowledged one or before it,
  keeps the others in their order, whatever the pattern of the gaps, frees the buffers of the
  removed packets once each and reports their numbers in order. It stays inside the arrays
  when the array of the caller has room for the numbers, and does not otherwise.
\<close>

theorem send_buffer_ack_filter:
  assumes "sb_wf sb"
  shows "chiaki_takion_send_buffer_ack sb seq_num (Some cap) =
      (if length (filter (sb_acks seq_num) (sb_used sb)) \<le> cap
       then Some (fst (the (chiaki_takion_send_buffer_ack sb seq_num (Some cap))),
          map sb_seq_num (filter (sb_acks seq_num) (sb_used sb)),
          map sb_buf (filter (sb_acks seq_num) (sb_used sb)))
       else None) \<and>
    (\<forall>sb' r. chiaki_takion_send_buffer_ack sb seq_num (Some cap) = Some (sb', r) \<longrightarrow>
      sb_wf sb' \<and> sb_used sb' = filter (\<lambda>p. \<not> sb_acks seq_num p) (sb_used sb))"
proof (cases "length (filter (sb_acks seq_num) (sb_used sb)) \<le> cap")
  case True
  then show ?thesis using ack_filter [OF assms, of "Some cap" seq_num] by auto
next
  case False
  then show ?thesis using ack_overflow [OF assms, of cap seq_num] by simp
qed

definition sample_packet :: "u32 \<Rightarrow> u64 \<Rightarrow> sb_packet" where
  "sample_packet s tries = \<lparr>sb_seq_num = s, sb_tries = tries, sb_last_send_ms = 0, sb_buf = [ucast s]\<rparr>"

definition sample_buffer :: "sb_packet list \<Rightarrow> send_buffer" where
  "sample_buffer ps = \<lparr>sb_takion = True, packets = ps @ [sample_packet 0 0], packets_size = length ps + 1,
     packets_count = length ps, sb_should_stop = False\<rparr>"

lemma sample_buffer_wf: "length ps < 100 \<Longrightarrow> sb_wf (sample_buffer ps)"
  by (simp add: sample_buffer_def sb_wf_def SIZE_MAX_def)

lemma sample_buffer_simps [simp]:
  "sb_used (sample_buffer ps) = ps" "packets_count (sample_buffer ps) = length ps"
  "packets_size (sample_buffer ps) = length ps + 1" "sb_takion (sample_buffer ps)"
  "take (length ps) (packets (sample_buffer ps)) = ps"
  by (simp_all add: sample_buffer_def)

definition sample_gaps :: "sb_packet list" where
  "sample_gaps = map (\<lambda>s. sample_packet s 0) [1, 7, 2, 9, 3]"

theorem send_buffer_ack_filter_witness:
  "map_option (\<lambda>(sb', acked, freed). (sb_seqs sb', acked, freed))
     (chiaki_takion_send_buffer_ack (sample_buffer sample_gaps) 3 (Some 16)) = Some ([7, 9], [1, 2, 3], [[1], [2], [3]])"
proof -
  have f: "filter (sb_acks 3) sample_gaps = map (\<lambda>s. sample_packet s 0) [1, 2, 3]"
    "filter (\<lambda>p. \<not> sb_acks 3 p) sample_gaps = map (\<lambda>s. sample_packet s 0) [7, 9]"
    by (simp_all add: sample_gaps_def sb_acks_def sample_packet_def seq_num_lt_def Let_def)
  have "length sample_gaps < 100" by (simp add: sample_gaps_def)
  from send_buffer_ack_filter [OF sample_buffer_wf [OF this], of 3 16, unfolded sample_buffer_simps f]
  obtain sb' where "chiaki_takion_send_buffer_ack (sample_buffer sample_gaps) 3 (Some 16) = Some (sb', [1, 2, 3], [[1], [2], [3]])"
      "sb_used sb' = map (\<lambda>s. sample_packet s 0) [7, 9]"
    by (auto simp: sample_packet_def)
  then show ?thesis by (simp add: sample_packet_def)
qed

text \<open>
  \<^verbatim>\<open>push\<close> fails with \<^verbatim>\<open>CHIAKI_ERR_OVERFLOW\<close> on a full buffer and with
  \<^verbatim>\<open>CHIAKI_ERR_INVALID_DATA\<close> on a number that is already in use; it then frees the new
  buffer and changes nothing. Otherwise it appends the packet, frees nothing, and wakes the
  thread up exactly when the buffer was empty.
\<close>

theorem send_buffer_push_outcome:
  assumes "sb_wf sb"
  shows "\<exists>sb' err freed wake. chiaki_takion_send_buffer_push sb now_ms s buf = Some (sb', err, freed, wake) \<and>
    err = (if packets_count sb = packets_size sb then CHIAKI_ERR_OVERFLOW
           else if s \<in> set (sb_seqs sb) then CHIAKI_ERR_INVALID_DATA else CHIAKI_ERR_SUCCESS) \<and>
    (if err = CHIAKI_ERR_SUCCESS
     then sb_wf sb' \<and> freed = [] \<and> (wake \<longleftrightarrow> sb_used sb = []) \<and>
       sb_used sb' = sb_used sb @ [\<lparr>sb_seq_num = s, sb_tries = 0, sb_last_send_ms = now_ms, sb_buf = buf\<rparr>]
     else sb' = sb \<and> freed = [buf] \<and> \<not> wake)"
proof -
  have "sb_used sb = [] \<longleftrightarrow> packets_count sb = 0" using assms by (auto simp: sb_wf_def)
  moreover consider "packets_count sb = packets_size sb" | "packets_count sb < packets_size sb" "s \<in> set (sb_seqs sb)"
    | "packets_count sb < packets_size sb" "s \<notin> set (sb_seqs sb)"
    using assms by (metis le_neq_implies_less sb_wf_def)
  ultimately show ?thesis
    using push_cases [OF assms, where now_ms = now_ms and s = s and buf = buf] by cases (simp_all, blast)
qed

theorem send_buffer_push_outcome_witness:
  "\<exists>sb'. chiaki_takion_send_buffer_push (sample_buffer [sample_packet 5 0]) 9 6 [1, 2] =
    Some (sb', CHIAKI_ERR_SUCCESS, [], False) \<and> sb_seqs sb' = [5, 6]"
proof -
  have "length [sample_packet 5 0] < 100" by simp
  from send_buffer_push_outcome [OF sample_buffer_wf [OF this], of 9 6 "[1, 2]", unfolded sample_buffer_simps]
  show ?thesis by (auto simp: sample_packet_def simp del: length_Cons list.size)
qed

text \<open>
  C32: while it holds the mutex, a pass of \<^verbatim>\<open>resend\<close> goes through the packets from its index on,
  up to the first that is out of tries. It sends each of them that was last sent more than 200 ms ago
  again, once and in order, counts the try and restarts its timer, and changes nothing else. Then the
  pass is over, or it releases the mutex at the index of the packet that is out of tries.
\<close>

theorem send_buffer_resend_pass:
  assumes "sb_wf sb" "rest = drop i (sb_used sb)" "ps = todo now rest"
  shows "\<exists>sb'. resend_locked now i sb = Some (sb', map sb_buf (filter (to_resend now) ps),
      if ps = rest then Waiting else Released now (i + length ps)) \<and> sb_wf sb' \<and>
    sb_used sb' = take i (sb_used sb) @
      map (\<lambda>p. if to_resend now p then p\<lparr>sb_last_send_ms := now, sb_tries := sb_tries p + 1\<rparr> else p) ps @
      drop (length ps) rest"
proof -
  have "dropWhile (\<lambda>p. \<not> given_up now p) rest = drop (length ps) rest"
    unfolding assms(3) by (rule dropWhile_eq_drop)
  moreover have "resent now = (\<lambda>p. if to_resend now p then p\<lparr>sb_last_send_ms := now, sb_tries := sb_tries p + 1\<rparr> else p)"
    by (rule ext) (simp add: resent_def)
  ultimately show ?thesis
    using resend_from_index [OF assms(1), of now i] assms(2,3) by (auto simp: resend_locked_def)
qed

definition sample_old :: "sb_packet list" where
  "sample_old = [sample_packet 2 9, sample_packet 1 10, sample_packet 3 0]"

lemmas sample_defs = sample_packet_def given_up_def to_resend_def sb_expired_def sb_acks_def seq_num_lt_def
  Let_def TAKION_DATA_RESEND_TRIES_MAX_def TAKION_DATA_RESEND_TIMEOUT_MS_def

theorem send_buffer_resend_pass_witness:
  "\<exists>sb'. takion_send_buffer_resend (sample_buffer sample_old) 1000 = Some (sb', [[2]], Released 1000 1) \<and>
     map sb_tries (sb_used sb') = [10, 10, 0]"
proof -
  have "length sample_old < 100" by (simp add: sample_old_def)
  note wf = sample_buffer_wf [OF this]
  have ps: "todo 1000 (drop 0 (sb_used (sample_buffer sample_old))) = [sample_packet 2 9]"
    unfolding sample_buffer_simps by (simp add: sample_old_def) (simp add: sample_defs)
  have to: "to_resend 1000 (sample_packet 2 9)" by (simp add: sample_defs)
  show ?thesis
    using send_buffer_resend_pass [OF wf refl refl, of 1000 0, unfolded ps, unfolded sample_buffer_simps] to
    by (auto simp: takion_send_buffer_resend_def sample_old_def sample_packet_def)
qed

text \<open>
  The array that \<^verbatim>\<open>resend\<close> passes to \<^verbatim>\<open>ack\<close> has room for one number. When a packet is out of
  tries and another one in the buffer precedes it in sequence (two threads pushed them in the
  opposite order), \<^verbatim>\<open>ack\<close> writes the second number past that variable.
\<close>

theorem send_buffer_resend_overflow:
  assumes "sb_wf sb" "p \<in> set (sb_used sb)" "q \<in> set (sb_used sb)" "seq_num_lt (sb_seq_num q) (sb_seq_num p)" "p \<noteq> q"
  shows "resend_continue sb (Acking now i (sb_seq_num p)) = None"
proof -
  let ?f = "filter (sb_acks (sb_seq_num p)) (sb_used sb)"
  have "{p, q} \<subseteq> set ?f" using assms(2-4) by (simp add: sb_acks_def)
  then have "card {p, q} \<le> length ?f" by (meson card_length card_mono finite_set order_trans)
  then have "1 < length ?f" using assms(5) by simp
  then show ?thesis using ack_overflow [OF assms(1), of 1 "sb_seq_num p"] by simp
qed

theorem send_buffer_resend_overflow_witness:
  "resend_continue (sample_buffer [sample_packet 2 10, sample_packet 1 0]) (Acking 1000 0 2) = None"
proof -
  have "length [sample_packet 2 10, sample_packet 1 0] < 100" by simp
  from send_buffer_resend_overflow [OF sample_buffer_wf [OF this], of "sample_packet 2 10" "sample_packet 1 0"]
  show ?thesis by (simp add: sample_packet_def sample_buffer_def seq_num_lt_def Let_def)
qed

text \<open>
  While the mutex is released, the acknowledgement of the packet that is given up can arrive. It moves
  the next packet into its slot; the thread then reads the number of that packet and drops it, although
  it may never have been sent again.
\<close>

theorem send_buffer_resend_race:
  assumes "sb_inv sb" "sb_takion sb" "sb_used sb = p # q # rest" "given_up now p"
    and "\<forall>r \<in> set (q # rest). \<not> sb_acks (sb_seq_num p) r" "\<forall>r \<in> set rest. \<not> sb_acks (sb_seq_num q) r"
  shows "\<exists>sb1 sb2 freed freed'. takion_send_buffer_resend sb now = Some (sb, [], Released now 0) \<and>
    chiaki_takion_send_buffer_ack sb (sb_seq_num p) None = Some (sb1, [], freed) \<and>
    resend_continue sb1 (Released now 0) = Some (sb1, [], Acking now 0 (sb_seq_num q)) \<and>
    resend_continue sb1 (Acking now 0 (sb_seq_num q)) = Some (sb2, freed', Returning now 0) \<and> sb_used sb2 = rest"
proof -
  have wf: "sb_wf sb" using assms(1) by (simp add: sb_inv_def)
  have start: "takion_send_buffer_resend sb now = Some (sb, [], Released now 0)"
    using used_split [of sb "[]" p "q # rest"] assms(2-4) wf
    by (simp add: takion_send_buffer_resend_def resend_locked_def resend_from.simps [of now 0] given_up_def sb_expired_def)
  have f: "filter (\<lambda>r. \<not> sb_acks (sb_seq_num p) r) (sb_used sb) = q # rest"
    using assms(3,5) by (auto simp: filter_id_conv)
  obtain sb1 freed where sb1: "chiaki_takion_send_buffer_ack sb (sb_seq_num p) None = Some (sb1, [], freed)"
      "sb_used sb1 = q # rest" "sb_wf sb1"
    using ack_filter [OF wf, of None "sb_seq_num p"] unfolding f by (auto simp: ack_out_def)
  have "filter (sb_acks (sb_seq_num q)) rest = []" "filter (\<lambda>r. \<not> sb_acks (sb_seq_num q) r) rest = rest"
    using assms(6) by (auto simp: filter_empty_conv filter_id_conv)
  then obtain sb2 a freed' where sb2: "chiaki_takion_send_buffer_ack sb1 (sb_seq_num q) (Some 1) = Some (sb2, a, freed')"
      "sb_used sb2 = rest"
    using ack_filter [OF sb1(3), of "Some 1" "sb_seq_num q"] sb1(2) by auto
  have slot: "0 < length (packets sb1)" "packets sb1 ! 0 = q"
    using used_split [of sb1 "[]" q rest] sb1(2,3) by auto
  show ?thesis
    using start sb1(1) sb2 slot by (intro exI [of _ sb1] exI [of _ sb2] exI [of _ freed] exI [of _ "[]"]) auto
qed

text \<open>
  C25: in every state that the threads reach from an initialised buffer, in whatever order their steps
  come and whoever runs while a pass has released the mutex, the number of packets never exceeds the
  slots, no two packets have the same number, and no packet has been sent again more than ten times.
  The thread of the buffer can always take its next step, and so stays inside of the slots, unless the
  acknowledgement of a packet that is given up covers a second packet and overruns the variable for
  its number.
\<close>

theorem send_buffer_reachable:
  assumes "chiaki_takion_send_buffer_init zero True CHIAKI_ERR_SUCCESS CHIAKI_ERR_SUCCESS CHIAKI_ERR_SUCCESS takion n =
      (Some sb, err)"
    and "n < SIZE_MAX" "sb_step\<^sup>*\<^sup>* (sb, Waiting) (sb', pt)"
  shows "packets_count sb' \<le> n \<and> distinct (sb_seqs sb') \<and> (\<forall>p \<in> set (sb_used sb'). sb_tries p \<le> 10) \<and>
    (resend_continue sb' pt = None \<longrightarrow>
      (\<exists>now i s. pt = Acking now i s \<and> 1 < length (filter (sb_acks s) (sb_used sb'))))"
proof -
  have n: "packets_size sb = n" using assms(1) by (auto simp: chiaki_takion_send_buffer_init_def)
  have "sb_inv sb' \<and> packets_size sb' = packets_size sb \<and> sb_point_ok sb' pt"
    using assms(3)
  proof (induction rule: rtranclp_induct2)
    case refl
    then show ?case using sb_inv_init [OF assms(1,2)] by (simp add: sb_point_ok_def)
  next
    case (step sb1 pt1 sb2 pt2)
    then show ?case using sb_inv_step [OF step.hyps(2)] by simp
  qed
  then have inv: "sb_inv sb'" "packets_size sb' = n" "sb_point_ok sb' pt" using n by simp_all
  then have wf: "sb_wf sb'" by (simp add: sb_inv_def)
  have "\<exists>now i s. pt = Acking now i s \<and> 1 < length (filter (sb_acks s) (sb_used sb'))" if "resend_continue sb' pt = None"
  proof (cases pt)
    case (Acking now i s)
    then show ?thesis using that ack_filter [OF wf, of "Some 1" s] by (cases "length (filter (sb_acks s) (sb_used sb')) \<le> 1") auto
  next
    case (Released now i)
    then show ?thesis using that inv(3) wf by (simp add: sb_point_ok_def sb_wf_def split: if_splits)
  next
    case (Returning now i)
    then show ?thesis using that resend_from_index [OF wf, of now i] by (auto simp: resend_locked_def)
  qed (use that in simp)
  then show ?thesis using inv wf by (auto simp: sb_inv_def sb_wf_def TAKION_DATA_RESEND_TRIES_MAX_def)
qed

text \<open>A run on a buffer of two slots: a packet is pushed, a pass sends it again, and another one is pushed.\<close>

theorem send_buffer_reachable_witness:
  "\<exists>sb sb1 sb2 sb3 e f w e' f' w'. chiaki_takion_send_buffer_init (sample_packet 0 0) True CHIAKI_ERR_SUCCESS
      CHIAKI_ERR_SUCCESS CHIAKI_ERR_SUCCESS True 2 = (Some sb, CHIAKI_ERR_SUCCESS) \<and>
    chiaki_takion_send_buffer_push sb 5 7 [1] = Some (sb1, e, f, w) \<and>
    takion_send_buffer_resend sb1 1000 = Some (sb2, [[1]], Waiting) \<and>
    chiaki_takion_send_buffer_push sb2 1001 8 [2] = Some (sb3, e', f', w') \<and>
    packets_count sb3 \<le> 2 \<and> distinct (sb_seqs sb3) \<and> (\<forall>p \<in> set (sb_used sb3). sb_tries p \<le> 10)"
proof -
  obtain sb where i: "chiaki_takion_send_buffer_init (sample_packet 0 0) True CHIAKI_ERR_SUCCESS CHIAKI_ERR_SUCCESS
        CHIAKI_ERR_SUCCESS True 2 = (Some sb, CHIAKI_ERR_SUCCESS)"
    and sb: "sb_takion sb" "packets_count sb = 0" "packets_size sb = 2" "packets sb = [sample_packet 0 0, sample_packet 0 0]"
    by (simp add: chiaki_takion_send_buffer_init_def numeral_2_eq_2)
  define p where "p = \<lparr>sb_seq_num = 7 :: u32, sb_tries = 0, sb_last_send_ms = 5, sb_buf = [1]\<rparr>"
  define sb1 where "sb1 = sb\<lparr>packets := [p, sample_packet 0 0], packets_count := 1\<rparr>"
  define sb2 where "sb2 = sb\<lparr>packets := [p\<lparr>sb_last_send_ms := 1000, sb_tries := 1\<rparr>, sample_packet 0 0], packets_count := 1\<rparr>"
  define sb3 where "sb3 = sb\<lparr>packets := [p\<lparr>sb_last_send_ms := 1000, sb_tries := 1\<rparr>,
    \<lparr>sb_seq_num = 8, sb_tries = 0, sb_last_send_ms = 1001, sb_buf = [2]\<rparr>], packets_count := 2\<rparr>"
  have 1: "chiaki_takion_send_buffer_push sb 5 7 [1] = Some (sb1, CHIAKI_ERR_SUCCESS, [], True)"
    by (simp add: chiaki_takion_send_buffer_push_def sb sb1_def p_def)
  have 2: "takion_send_buffer_resend sb1 1000 = Some (sb2, [[1]], Waiting)"
    by (simp add: takion_send_buffer_resend_def resend_locked_def sb sb1_def sb2_def p_def resend_from.simps
        TAKION_DATA_RESEND_TRIES_MAX_def TAKION_DATA_RESEND_TIMEOUT_MS_def Let_def)
  have 3: "chiaki_takion_send_buffer_push sb2 1001 8 [2] = Some (sb3, CHIAKI_ERR_SUCCESS, [], False)"
    by (simp add: chiaki_takion_send_buffer_push_def sb sb2_def sb3_def p_def)
  have "sb_step (sb, Waiting) (sb1, Waiting)" "sb_step (sb1, Waiting) (sb2, Waiting)" "sb_step (sb2, Waiting) (sb3, Waiting)"
    by (rule step_push [OF 1], rule step_resend [OF 2], rule step_push [OF 3])
  then have "sb_step\<^sup>*\<^sup>* (sb, Waiting) (sb3, Waiting)" by (rule rtranclp_trans [OF r_into_rtranclp rtranclp_trans [OF r_into_rtranclp r_into_rtranclp]])
  moreover have "2 < SIZE_MAX" by (simp add: SIZE_MAX_def)
  ultimately have "packets_count sb3 \<le> 2 \<and> distinct (sb_seqs sb3) \<and> (\<forall>p \<in> set (sb_used sb3). sb_tries p \<le> 10)"
    using send_buffer_reachable [OF i] by blast
  then show ?thesis using i 1 2 3 by blast
qed

end
