(* ===== verification/Controller.thy ===== *)
theory Controller
  imports Complex_Main Chiaki_Prelude
begin

text \<open>
  The controller state (\<^verbatim>\<open>lib/include/chiaki/controller.h\<close>, \<^verbatim>\<open>lib/src/controller.c\<close>): buttons,
  triggers, sticks, two touches and the motion sensors. A finite \<^verbatim>\<open>float\<close> is the real number it
  stands for; \<open>rnd\<close>, a parameter, is the rounding of the result of an operation on floats.
  Signed integers are words that are read with \<^term>\<open>sint\<close>.
\<close>

abbreviation (input) CHIAKI_CONTROLLER_TOUCHES_MAX :: nat where "CHIAKI_CONTROLLER_TOUCHES_MAX \<equiv> 2"
abbreviation (input) CHIAKI_CONTROLLER_BUTTONS_COUNT :: nat where "CHIAKI_CONTROLLER_BUTTONS_COUNT \<equiv> 16"

definition TOUCH_ID_MASK :: u8 where
  "TOUCH_ID_MASK = 0x7f"

record controller_touch =
  touch_x :: u16
  touch_y :: u16
  touch_id :: u8 \<comment> \<open>signed, negative: up\<close>

record controller_state =
  buttons :: u32
  l2_state :: u8
  r2_state :: u8
  left_x :: u16
  left_y :: u16
  right_x :: u16
  right_y :: u16
  touch_id_next :: u8
  touches :: "controller_touch list"
  gyro :: "real \<times> real \<times> real"
  accel :: "real \<times> real \<times> real"
  orient :: "real \<times> real \<times> real \<times> real"

definition touch_up :: controller_touch where
  "touch_up = \<lparr>touch_x = 0, touch_y = 0, touch_id = -1\<rparr>"

definition chiaki_controller_state_set_idle :: controller_state where
  "chiaki_controller_state_set_idle =
     \<lparr>buttons = 0, l2_state = 0, r2_state = 0, left_x = 0, left_y = 0, right_x = 0, right_y = 0, touch_id_next = 0,
      touches = replicate CHIAKI_CONTROLLER_TOUCHES_MAX touch_up,
      gyro = (0, 0, 0), accel = (0, 1, 0), orient = (0, 0, 0, 1)\<rparr>"

definition touch_active :: "controller_touch \<Rightarrow> bool" where
  "touch_active t \<longleftrightarrow> \<not> sint (touch_id t) < 0"

text \<open>The loops over the touches: the first one that satisfies a test is replaced.\<close>

fun touch_update ::
  "(controller_touch \<Rightarrow> bool) \<Rightarrow> (controller_touch \<Rightarrow> controller_touch) \<Rightarrow> controller_touch list \<Rightarrow> controller_touch list" where
  "touch_update P f [] = []"
| "touch_update P f (t # ts) = (if P t then f t # ts else t # touch_update P f ts)"

definition chiaki_controller_state_start_touch :: "controller_state \<Rightarrow> u16 \<Rightarrow> u16 \<Rightarrow> controller_state \<times> u8" where
  "chiaki_controller_state_start_touch state x y =
     (if list_all touch_active (touches state) then (state, -1)
      else
        (state\<lparr>touches := touch_update (\<lambda>t. \<not> touch_active t)
                 (\<lambda>t. \<lparr>touch_x = x, touch_y = y, touch_id = touch_id_next state\<rparr>) (touches state),
               touch_id_next := (touch_id_next state + 1) AND TOUCH_ID_MASK\<rparr>,
         touch_id_next state))"

text \<open>The comparison of the signed identifier with the unsigned argument is one of integers.\<close>

definition chiaki_controller_state_stop_touch :: "controller_state \<Rightarrow> u8 \<Rightarrow> controller_state" where
  "chiaki_controller_state_stop_touch state tid =
     state\<lparr>touches := touch_update (\<lambda>t. sint (touch_id t) = uint tid) (\<lambda>t. t\<lparr>touch_id := -1\<rparr>) (touches state)\<rparr>"

definition chiaki_controller_state_set_touch_pos :: "controller_state \<Rightarrow> u8 \<Rightarrow> u16 \<Rightarrow> u16 \<Rightarrow> controller_state" where
  "chiaki_controller_state_set_touch_pos state tid x y =
     state\<lparr>touches := touch_update (\<lambda>t. sint (touch_id t) = uint (tid AND TOUCH_ID_MASK))
        (\<lambda>t. t\<lparr>touch_x := x, touch_y := y\<rparr>) (touches state)\<rparr>"

text \<open>The loop that compares the touches; it is the same in two functions.\<close>

definition touch_same :: "controller_touch \<Rightarrow> controller_touch \<Rightarrow> bool" where
  "touch_same a b \<longleftrightarrow> touch_id a = touch_id b \<and>
     \<not> (touch_active a \<and> (touch_x a \<noteq> touch_x b \<or> touch_y a \<noteq> touch_y b))"

text \<open>\<^verbatim>\<open>CHECKF\<close> on one number; the literal is a float.\<close>

definition float_same :: "(real \<Rightarrow> real) \<Rightarrow> real \<Rightarrow> real \<Rightarrow> bool" where
  "float_same rnd a b \<longleftrightarrow> \<not> (a < rnd (b - rnd (1 / 10 ^ 7)) \<or> a > rnd (b + rnd (1 / 10 ^ 7)))"

definition motion_same :: "(real \<Rightarrow> real) \<Rightarrow> controller_state \<Rightarrow> controller_state \<Rightarrow> bool" where
  "motion_same rnd a b \<longleftrightarrow>
     (case (gyro a, gyro b) of ((x, y, z), (x', y', z')) \<Rightarrow> float_same rnd x x' \<and> float_same rnd y y' \<and> float_same rnd z z') \<and>
     (case (accel a, accel b) of ((x, y, z), (x', y', z')) \<Rightarrow> float_same rnd x x' \<and> float_same rnd y y' \<and> float_same rnd z z') \<and>
     (case (orient a, orient b) of ((x, y, z, w), (x', y', z', w')) \<Rightarrow>
        float_same rnd x x' \<and> float_same rnd y y' \<and> float_same rnd z z' \<and> float_same rnd w w')"

definition chiaki_controller_state_equals :: "(real \<Rightarrow> real) \<Rightarrow> controller_state \<Rightarrow> controller_state \<Rightarrow> bool" where
  "chiaki_controller_state_equals rnd a b \<longleftrightarrow>
     buttons a = buttons b \<and> l2_state a = l2_state b \<and> r2_state a = r2_state b \<and>
     left_x a = left_x b \<and> left_y a = left_y b \<and> right_x a = right_x b \<and> right_y a = right_y b \<and>
     list_all2 touch_same (touches a) (touches b) \<and> motion_same rnd a b"

definition max_abs :: "u16 \<Rightarrow> u16 \<Rightarrow> u16" where
  "max_abs a b = (if \<bar>sint a\<bar> > \<bar>sint b\<bar> then a else b)"

text \<open>
  The union of two states. The result does not depend on what \<^verbatim>\<open>out\<close> held, also when \<^verbatim>\<open>out\<close> is
  one of the operands: every field is read before it is written.
\<close>

definition chiaki_controller_state_or :: "controller_state \<Rightarrow> controller_state \<Rightarrow> controller_state" where
  "chiaki_controller_state_or a b =
     (let chooser = (gyro a \<noteq> (0, 0, 0) \<or> accel a \<noteq> (0, 1, 0))
      in \<lparr>buttons = buttons a OR buttons b,
          l2_state = (if l2_state a > l2_state b then l2_state a else l2_state b),
          r2_state = (if r2_state a > r2_state b then r2_state a else r2_state b),
          left_x = max_abs (left_x a) (left_x b), left_y = max_abs (left_y a) (left_y b),
          right_x = max_abs (right_x a) (right_x b), right_y = max_abs (right_y a) (right_y b),
          touch_id_next = 0,
          touches = map2 (\<lambda>s t. if touch_active s then s else if touch_active t then t else touch_up) (touches a) (touches b),
          gyro = (if chooser then gyro a else gyro b),
          accel = (if chooser then accel a else accel b),
          orient = (if chooser then orient a else orient b)\<rparr>)"

end
