(* ===== verification/Feedback.thy ===== *)
theory Feedback
  imports Controller
begin

text \<open>
  The feedback that the client sends (\<^verbatim>\<open>lib/include/chiaki/feedback.h\<close>, \<^verbatim>\<open>lib/src/feedback.c\<close>): the
  state packet with sticks and motion sensors, the events of buttons and touches, and the ring
  of the last events, newest first. \<open>rnd\<close> and \<open>rndd\<close> round the results of operations on \<^verbatim>\<open>float\<close>
  and \<^verbatim>\<open>double\<close>.
\<close>

section \<open>The state packet\<close>

record feedback_state =
  fs_gyro :: "real \<times> real \<times> real"
  fs_accel :: "real \<times> real \<times> real"
  fs_orient :: "real \<times> real \<times> real \<times> real"
  fs_left_x :: u16
  fs_left_y :: u16
  fs_right_x :: u16
  fs_right_y :: u16

text \<open>Conversion to an unsigned integer of \<open>n\<close> bits truncates; it is undefined out of range.\<close>

definition float_to_nat :: "nat \<Rightarrow> real \<Rightarrow> nat option" where
  "float_to_nat n r = (if -1 < r \<and> r < 2 ^ n then Some (nat \<lfloor>r\<rfloor>) else None)"

definition quantise :: "(real \<Rightarrow> real) \<Rightarrow> real \<Rightarrow> real \<Rightarrow> real \<Rightarrow> u16 option" where
  "quantise rnd lo hi x =
     map_option of_nat (float_to_nat 16 (rnd (rnd (65535 * rnd (x - lo)) / rnd (hi - lo))))"

definition le16_bytes :: "u16 \<Rightarrow> bytes" where
  "le16_bytes v = [ucast v, ucast (drop_bit 8 v)]"

text \<open>The double nearest to the square root of one half.\<close>

definition M_SQRT1_2 :: real where
  "M_SQRT1_2 = 6369051672525773 / 2 ^ 53"

fun largest_index :: "real list \<Rightarrow> nat \<Rightarrow> nat \<Rightarrow> nat \<Rightarrow> nat" where
  "largest_index q li i 0 = li"
| "largest_index q li i (Suc n) = largest_index q (if \<bar>q ! i\<bar> > \<bar>q ! li\<bar> then i else li) (i + 1) n"

text \<open>One of the three smaller components as 9 bits.\<close>

definition quat_component :: "(real \<Rightarrow> real) \<Rightarrow> (real \<Rightarrow> real) \<Rightarrow> real \<Rightarrow> u32 option" where
  "quat_component rnd rndd v =
     (let v = (if v < - M_SQRT1_2 then rnd (- M_SQRT1_2) else v);
          v = (if v > M_SQRT1_2 then rnd M_SQRT1_2 else v);
          v = rnd (rndd (v + M_SQRT1_2));
          v = rnd (rndd (v * rndd (511 / rndd (2 * M_SQRT1_2))))
      in map_option of_nat (float_to_nat 32 v))"

fun quat_loop :: "(real \<Rightarrow> real) \<Rightarrow> (real \<Rightarrow> real) \<Rightarrow> real list \<Rightarrow> nat \<Rightarrow> u32 \<Rightarrow> nat \<Rightarrow> nat \<Rightarrow> u32 option" where
  "quat_loop rnd rndd q li r i 0 = Some r"
| "quat_loop rnd rndd q li r i (Suc n) = do {
     v \<leftarrow> quat_component rnd rndd (q ! (if i < li then i else i + 1));
     quat_loop rnd rndd q li (r OR push_bit (3 + i * 9) v) (i + 1) n
   }"

definition compress_quat :: "(real \<Rightarrow> real) \<Rightarrow> (real \<Rightarrow> real) \<Rightarrow> real list \<Rightarrow> u32 option" where
  "compress_quat rnd rndd q =
     (let largest_i = largest_index q 0 1 3;
          r = (if q ! largest_i < 0 then 1 else 0) OR push_bit 1 (of_nat largest_i)
      in quat_loop rnd rndd q largest_i r 0 3)"

abbreviation (input) CHIAKI_FEEDBACK_STATE_BUF_SIZE_V9 :: nat where "CHIAKI_FEEDBACK_STATE_BUF_SIZE_V9 \<equiv> 0x19"
abbreviation (input) CHIAKI_FEEDBACK_STATE_BUF_SIZE_V12 :: nat where "CHIAKI_FEEDBACK_STATE_BUF_SIZE_V12 \<equiv> 0x1c"

definition quantise3 :: "(real \<Rightarrow> real) \<Rightarrow> real \<Rightarrow> real \<Rightarrow> real \<times> real \<times> real \<Rightarrow> bytes option" where
  "quantise3 rnd lo hi v = (case v of (x, y, z) \<Rightarrow> do {
     a \<leftarrow> quantise rnd lo hi x;
     b \<leftarrow> quantise rnd lo hi y;
     c \<leftarrow> quantise rnd lo hi z;
     Some (le16_bytes a @ le16_bytes b @ le16_bytes c)
   })"

definition chiaki_feedback_state_format_v9 ::
  "(real \<Rightarrow> real) \<Rightarrow> (real \<Rightarrow> real) \<Rightarrow> feedback_state \<Rightarrow> bytes option" where
  "chiaki_feedback_state_format_v9 rnd rndd state = do {
     g \<leftarrow> quantise3 rnd (-30) 30 (fs_gyro state);
     a \<leftarrow> quantise3 rnd (-5) 5 (fs_accel state);
     qc \<leftarrow> (case fs_orient state of (x, y, z, w) \<Rightarrow> compress_quat rnd rndd [x, y, z, w]);
     Some ([0xa0] @ g @ a @ le32 qc @
       be16 (fs_left_x state) @ be16 (fs_left_y state) @ be16 (fs_right_x state) @ be16 (fs_right_y state))
   }"

definition chiaki_feedback_state_format_v12 ::
  "(real \<Rightarrow> real) \<Rightarrow> (real \<Rightarrow> real) \<Rightarrow> feedback_state \<Rightarrow> bytes option" where
  "chiaki_feedback_state_format_v12 rnd rndd state = do {
     v9 \<leftarrow> chiaki_feedback_state_format_v9 rnd rndd state;
     Some (v9 @ [0, 0, 1])
   }"

section \<open>Events\<close>

record history_event =
  ev_buf :: bytes \<comment> \<open>5 bytes\<close>
  ev_len :: nat

text \<open>
  The second byte of the event of a button, and whether the state follows as a third byte.
\<close>

definition button_byte :: "u64 \<Rightarrow> u8 \<Rightarrow> (u8 \<times> bool) option" where
  "button_byte button state =
     (if button = push_bit 0 1 then Some (0x88, True) \<comment> \<open>cross\<close>
      else if button = push_bit 1 1 then Some (0x89, True) \<comment> \<open>moon\<close>
      else if button = push_bit 2 1 then Some (0x8a, True) \<comment> \<open>box\<close>
      else if button = push_bit 3 1 then Some (0x8b, True) \<comment> \<open>pyramid\<close>
      else if button = push_bit 4 1 then Some (0x82, True) \<comment> \<open>left\<close>
      else if button = push_bit 5 1 then Some (0x83, True) \<comment> \<open>right\<close>
      else if button = push_bit 6 1 then Some (0x80, True) \<comment> \<open>up\<close>
      else if button = push_bit 7 1 then Some (0x81, True) \<comment> \<open>down\<close>
      else if button = push_bit 8 1 then Some (0x84, True) \<comment> \<open>L1\<close>
      else if button = push_bit 9 1 then Some (0x85, True) \<comment> \<open>R1\<close>
      else if button = push_bit 16 1 then Some (0x86, True) \<comment> \<open>L2\<close>
      else if button = push_bit 17 1 then Some (0x87, True) \<comment> \<open>R2\<close>
      else if button = push_bit 10 1 then Some (if state \<noteq> 0 then 0xaf else 0x8f, False) \<comment> \<open>L3\<close>
      else if button = push_bit 11 1 then Some (if state \<noteq> 0 then 0xb0 else 0x90, False) \<comment> \<open>R3\<close>
      else if button = push_bit 12 1 then Some (if state \<noteq> 0 then 0xac else 0x8c, False) \<comment> \<open>options\<close>
      else if button = push_bit 13 1 then Some (if state \<noteq> 0 then 0xad else 0x8d, False) \<comment> \<open>share\<close>
      else if button = push_bit 14 1 then Some (if state \<noteq> 0 then 0xb1 else 0x91, False) \<comment> \<open>touchpad\<close>
      else if button = push_bit 15 1 then Some (if state \<noteq> 0 then 0xae else 0x8e, False) \<comment> \<open>PS\<close>
      else None)"

definition chiaki_feedback_history_event_set_button ::
  "history_event \<Rightarrow> u64 \<Rightarrow> u8 \<Rightarrow> history_event \<times> ChiakiErrorCode" where
  "chiaki_feedback_history_event_set_button event button state =
     (let event = event\<lparr>ev_buf := (ev_buf event)[0 := 0x80], ev_len := 2\<rparr>
      in case button_byte button state of
        None \<Rightarrow> (event, CHIAKI_ERR_INVALID_DATA)
      | Some (b, third) \<Rightarrow>
          let event = event\<lparr>ev_buf := (ev_buf event)[1 := b]\<rparr>
          in (if third then event\<lparr>ev_buf := (ev_buf event)[2 := state], ev_len := 3\<rparr> else event, CHIAKI_ERR_SUCCESS))"

definition chiaki_feedback_history_event_set_touchpad :: "bool \<Rightarrow> u8 \<Rightarrow> u16 \<Rightarrow> u16 \<Rightarrow> history_event" where
  "chiaki_feedback_history_event_set_touchpad down pointer_id x y =
     \<lparr>ev_buf = [if down then 0xd0 else 0xc0, pointer_id AND 0x7f, ucast (drop_bit 4 x),
        push_bit 4 (ucast (x AND 0xf)) OR ucast (drop_bit 8 y), ucast y],
      ev_len = 5\<rparr>"

section \<open>The ring of events\<close>

record history_buffer =
  hb_events :: "history_event list"
  hb_size :: nat
  hb_begin :: nat
  hb_len :: nat

definition chiaki_feedback_history_buffer_init ::
  "history_event \<Rightarrow> bool \<Rightarrow> nat \<Rightarrow> ChiakiErrorCode + history_buffer" where
  "chiaki_feedback_history_buffer_init zero alloc n =
     (if \<not> alloc then Inl CHIAKI_ERR_MEMORY
      else Inr \<lparr>hb_events = replicate n zero, hb_size = n, hb_begin = 0, hb_len = 0\<rparr>)"

text \<open>The loop of \<^verbatim>\<open>format\<close>: \<open>out\<close> is what is written so far into a buffer of \<open>size_max\<close> bytes.\<close>

fun history_format_loop ::
  "history_buffer \<Rightarrow> nat \<Rightarrow> nat \<Rightarrow> nat \<Rightarrow> bytes \<Rightarrow> (ChiakiErrorCode + bytes) option" where
  "history_format_loop hb size_max i 0 out = Some (Inr out)"
| "history_format_loop hb size_max i (Suc n) out =
     (let j = (hb_begin hb + i) mod hb_size hb
      in if hb_size hb = 0 \<or> j \<ge> length (hb_events hb) then None
         else
           let event = hb_events hb ! j
           in if length out + ev_len event > size_max then Some (Inl CHIAKI_ERR_BUF_TOO_SMALL)
              else do {
                b \<leftarrow> rd_n (ev_buf event) 0 (ev_len event);
                history_format_loop hb size_max (i + 1) n (out @ b)
              })"

definition chiaki_feedback_history_buffer_format ::
  "history_buffer \<Rightarrow> nat \<Rightarrow> (ChiakiErrorCode + bytes) option" where
  "chiaki_feedback_history_buffer_format hb size_max = history_format_loop hb size_max 0 (hb_len hb) []"

text \<open>The remainder by a size of zero is undefined.\<close>

definition chiaki_feedback_history_buffer_push :: "history_buffer \<Rightarrow> history_event \<Rightarrow> history_buffer option" where
  "chiaki_feedback_history_buffer_push hb event =
     (if hb_size hb = 0 then None
      else
        let b = (hb_begin hb + hb_size hb - 1) mod hb_size hb;
            l = (if hb_len hb + 1 \<ge> hb_size hb then hb_size hb else hb_len hb + 1)
        in if b \<ge> length (hb_events hb) then None
           else Some (hb\<lparr>hb_begin := b, hb_len := l, hb_events := (hb_events hb)[b := event]\<rparr>))"

end
