(* ===== verification/Takion.thy ===== *)
theory Takion
  imports Takion_Packets Reorder_Queue Send_Buffer Feedback
begin

text \<open>
  Takion, the transport protocol (\<^verbatim>\<open>lib/include/chiaki/takion.h\<close>, \<^verbatim>\<open>lib/src/takion.c\<close>): the
  state of a connection, what is sent, the handshake, and how received packets are checked,
  queued and delivered.

  The world outside is of two kinds. \<open>platform\<close> collects the results of library calls: AES,
  SHA-256, HMAC, GCM, the allocator, the clock, the socket, the rounding of floats. The results that
  may change between calls depend on \<open>tk_out\<close>, the trace of what the connection did so far: the
  datagrams handed to the socket and the events handed to the callback. The callback is the
  parameter \<open>cb\<close>, an arbitrary transformation of the state, since the client calls Takion from
  inside of it. Received datagrams are an input list.

  Each function runs under its mutex and is one step; locking an initialised mutex succeeds.
  Log output is not modelled.
\<close>

section \<open>State\<close>

abbreviation (input) TAKION_A_RWND :: u32 where "TAKION_A_RWND \<equiv> 0x19000"
abbreviation (input) TAKION_OUTBOUND_STREAMS :: u16 where "TAKION_OUTBOUND_STREAMS \<equiv> 0x64"
abbreviation (input) TAKION_INBOUND_STREAMS :: u16 where "TAKION_INBOUND_STREAMS \<equiv> 0x64"
abbreviation (input) TAKION_REORDER_QUEUE_SIZE_EXP :: nat where "TAKION_REORDER_QUEUE_SIZE_EXP \<equiv> 4"
abbreviation (input) TAKION_SEND_BUFFER_SIZE :: nat where "TAKION_SEND_BUFFER_SIZE \<equiv> 16"
abbreviation (input) TAKION_POSTPONE_PACKETS_SIZE :: nat where "TAKION_POSTPONE_PACKETS_SIZE \<equiv> 32"
abbreviation (input) TAKION_COOKIE_SIZE :: nat where "TAKION_COOKIE_SIZE \<equiv> 0x20"

datatype takion_event =
    EVENT_CONNECTED
  | EVENT_DISCONNECT
  | EVENT_DATA u8 bytes
  | EVENT_DATA_ACK u32
  | EVENT_AV av_packet

datatype takion_out =
    Sent bytes
  | Send_Failed bytes
  | Event takion_event

text \<open>An element of the data queue. \<open>payload_at\<close> is where the payload starts in the packet.\<close>

record data_packet_entry =
  packet_buf :: bytes
  entry_type_b :: u8
  payload_at :: nat
  payload_size :: nat
  entry_channel :: u16

text \<open>
  \<open>postponed\<close> is the array of postponed packets with its capacity; the count is the length of
  the list.
\<close>

record takion =
  tk_version :: u8
  enable_crypt :: bool
  enable_dualsense :: bool
  close_socket :: bool
  sock_valid :: bool
  postponed :: "(bytes list \<times> nat) option"
  gkcrypt_local :: "gkcrypt option"
  key_pos_local :: u64
  gkcrypt_remote :: "gkcrypt option"
  data_queue :: "data_packet_entry reorder_queue"
  tk_send_buffer :: send_buffer
  tk_cb :: bool \<comment> \<open>whether the callback is not null\<close>
  tag_local :: u32
  tag_remote :: u32
  seq_num_local :: u32
  tk_a_rwnd :: u32
  tk_av_parse :: "key_state \<Rightarrow> bytes \<Rightarrow> (key_state \<times> (ChiakiErrorCode + av_packet)) option"
  tk_key_state :: key_state
  tk_out :: "takion_out list"

type_synonym takion_cb = "takion_event \<Rightarrow> takion \<Rightarrow> takion option"

record platform =
  pf_sha :: "bytes \<Rightarrow> bytes"
  pf_hmac :: "bytes \<Rightarrow> bytes \<Rightarrow> bytes option"
  pf_gcm :: "bytes \<Rightarrow> bytes \<Rightarrow> bytes \<Rightarrow> ChiakiErrorCode + bytes"
  pf_aes :: "bytes \<Rightarrow> bytes \<Rightarrow> bytes"
  pf_aes_ok :: "takion_out list \<Rightarrow> bool"
  pf_alloc :: "takion_out list \<Rightarrow> nat \<Rightarrow> bool"
  pf_send_ok :: "takion_out list \<Rightarrow> bytes \<Rightarrow> bool"
  pf_now :: "takion_out list \<Rightarrow> u64"
  pf_stack :: bytes \<comment> \<open>what the buffer of \<^verbatim>\<open>takion_recv_message_cookie_ack\<close> holds before the call\<close>
  pf_rnd :: "real \<Rightarrow> real"
  pf_rndd :: "real \<Rightarrow> real"

definition takion_event_to :: "takion_cb \<Rightarrow> takion \<Rightarrow> takion_event \<Rightarrow> takion option" where
  "takion_event_to cb t e = cb e (t\<lparr>tk_out := tk_out t @ [Event e]\<rparr>)"

section \<open>Sending\<close>

definition chiaki_takion_set_crypt :: "takion \<Rightarrow> gkcrypt option \<Rightarrow> gkcrypt option \<Rightarrow> takion" where
  "chiaki_takion_set_crypt t local remote = t\<lparr>gkcrypt_local := local, gkcrypt_remote := remote\<rparr>"

definition chiaki_takion_crypt_advance_key_pos :: "takion \<Rightarrow> u64 \<Rightarrow> takion \<times> (ChiakiErrorCode + u64)" where
  "chiaki_takion_crypt_advance_key_pos t data_size =
     (let data_size = data_size + data_size mod 16
      in if gkcrypt_local t \<noteq> None
         then let cur = key_pos_local t
              in if -1 - cur < data_size then (t, Inl CHIAKI_ERR_OVERFLOW)
                 else (t\<lparr>key_pos_local := cur + data_size\<rparr>, Inr cur)
         else (t, Inr 0))"

definition chiaki_takion_send_raw :: "platform \<Rightarrow> takion \<Rightarrow> bytes \<Rightarrow> takion \<times> ChiakiErrorCode" where
  "chiaki_takion_send_raw pf t buf =
     (if pf_send_ok pf (tk_out t) buf then (t\<lparr>tk_out := tk_out t @ [Sent buf]\<rparr>, CHIAKI_ERR_SUCCESS)
      else (t\<lparr>tk_out := tk_out t @ [Send_Failed buf]\<rparr>, CHIAKI_ERR_NETWORK))"

text \<open>The result has the buffer, in which the authentication code was stored.\<close>

definition chiaki_takion_send ::
  "platform \<Rightarrow> takion \<Rightarrow> bytes \<Rightarrow> u64 \<Rightarrow> (takion \<times> bytes \<times> ChiakiErrorCode) option" where
  "chiaki_takion_send pf t buf key_pos = do {
     (crypt, buf, r) \<leftarrow> chiaki_takion_packet_mac (pf_sha pf) (pf_gcm pf) (gkcrypt_local t) buf key_pos;
     let t = t\<lparr>gkcrypt_local := crypt\<rparr>;
     (case r of Inl err \<Rightarrow> Some (t, buf, err)
      | Inr _ \<Rightarrow> let (t, err) = chiaki_takion_send_raw pf t buf in Some (t, buf, err))
   }"

text \<open>
  The two functions that send a data chunk differ in the size of the header of the payload:
  the first message of a sequence has one more byte, \<open>sub\<close>. The sequence number is used up even
  when the packet cannot be sent.
\<close>

definition takion_send_data_chunk ::
  "platform \<Rightarrow> bytes \<Rightarrow> takion \<Rightarrow> u8 \<Rightarrow> u16 \<Rightarrow> bytes \<Rightarrow> (takion \<times> (ChiakiErrorCode + u32)) option" where
  "takion_send_data_chunk pf sub t chunk_flags channel buf =
     (let (t, r) = chiaki_takion_crypt_advance_key_pos t (of_nat (length buf)); hdr = 8 + length sub
      in case r of Inl err \<Rightarrow> Some (t, Inl err)
         | Inr key_pos \<Rightarrow>
             if \<not> pf_alloc pf (tk_out t) (1 + TAKION_MESSAGE_HEADER_SIZE + hdr + length buf)
             then Some (t, Inl CHIAKI_ERR_MEMORY)
             else
               let seq_num_val = seq_num_local t;
                   t = t\<lparr>seq_num_local := seq_num_local t + 1\<rparr>;
                   packet = [TAKION_PACKET_TYPE_CONTROL] @
                     takion_write_message_header (tag_remote t) key_pos TAKION_CHUNK_TYPE_DATA chunk_flags (hdr + length buf) @
                     be32 seq_num_val @ be16 channel @ [0, 0] @ sub @ buf
               in do {
                 (t, packet, err) \<leftarrow> chiaki_takion_send pf t packet key_pos;
                 if err \<noteq> CHIAKI_ERR_SUCCESS then Some (t, Inl err)
                 else do {
                   (sb, _) \<leftarrow> chiaki_takion_send_buffer_push (tk_send_buffer t) (pf_now pf (tk_out t)) seq_num_val packet;
                   Some (t\<lparr>tk_send_buffer := sb\<rparr>, Inr seq_num_val)
                 }
               })"

definition chiaki_takion_send_message_data ::
  "platform \<Rightarrow> takion \<Rightarrow> u8 \<Rightarrow> u16 \<Rightarrow> bytes \<Rightarrow> (takion \<times> (ChiakiErrorCode + u32)) option" where
  "chiaki_takion_send_message_data pf = takion_send_data_chunk pf [0]"

definition chiaki_takion_send_message_data_cont ::
  "platform \<Rightarrow> takion \<Rightarrow> u8 \<Rightarrow> u16 \<Rightarrow> bytes \<Rightarrow> (takion \<times> (ChiakiErrorCode + u32)) option" where
  "chiaki_takion_send_message_data_cont pf = takion_send_data_chunk pf []"

text \<open>Send a packet that is built from its key position: the common shape of the next two.\<close>

definition chiaki_takion_send_message_data_ack :: "platform \<Rightarrow> takion \<Rightarrow> u32 \<Rightarrow> (takion \<times> ChiakiErrorCode) option" where
  "chiaki_takion_send_message_data_ack pf t seq_num =
     (let (t, r) = chiaki_takion_crypt_advance_key_pos t (of_nat (1 + TAKION_MESSAGE_HEADER_SIZE + 0xc))
      in case r of Inl err \<Rightarrow> Some (t, err)
         | Inr key_pos \<Rightarrow> do {
             let buf = [TAKION_PACKET_TYPE_CONTROL] @
               takion_write_message_header (tag_remote t) key_pos TAKION_CHUNK_TYPE_DATA_ACK 0 0xc @
               be32 seq_num @ be32 (tk_a_rwnd t) @ be16 0 @ be16 0;
             (t, _, err) \<leftarrow> chiaki_takion_send pf t buf key_pos;
             Some (t, err)
           })"

definition chiaki_takion_send_congestion ::
  "platform \<Rightarrow> takion \<Rightarrow> takion_congestion_packet \<Rightarrow> (takion \<times> ChiakiErrorCode) option" where
  "chiaki_takion_send_congestion pf t packet =
     (let (t, r) = chiaki_takion_crypt_advance_key_pos t (of_nat CHIAKI_TAKION_CONGESTION_PACKET_SIZE)
      in case r of Inl err \<Rightarrow> Some (t, err)
         | Inr key_pos \<Rightarrow> do {
             (t, _, err) \<leftarrow> chiaki_takion_send pf t (chiaki_takion_format_congestion packet key_pos) key_pos;
             Some (t, err)
           })"

text \<open>
  Encrypt the part of \<open>buf\<close> from offset \<open>off\<close>, store the key position at \<open>kp_at\<close> and the
  authentication code at \<open>mac_at\<close>, and send. The result of \<^verbatim>\<open>send\<close> is ignored. The key stream
  of the payload starts one block behind the key position. Without local encryption the code
  dereferences a null pointer.
\<close>

definition takion_send_encrypted ::
  "platform \<Rightarrow> takion \<Rightarrow> bytes \<Rightarrow> nat \<Rightarrow> nat \<Rightarrow> nat \<Rightarrow> (takion \<times> ChiakiErrorCode) option" where
  "takion_send_encrypted pf t buf off kp_at mac_at =
     (let n = length buf - off;
          (t, r) = chiaki_takion_crypt_advance_key_pos t (of_nat n + 16)
      in case r of Inl err \<Rightarrow> Some (t, err)
         | Inr key_pos \<Rightarrow> do {
             gk \<leftarrow> gkcrypt_local t;
             (gk, r) \<leftarrow> chiaki_gkcrypt_encrypt (pf_aes pf) (pf_aes_ok pf (tk_out t)) (pf_alloc pf (tk_out t) n) gk
               (key_pos + 16) (drop off buf);
             (case r of Inl err \<Rightarrow> Some (t\<lparr>gkcrypt_local := Some gk\<rparr>, err)
              | Inr enc \<Rightarrow> do {
                  buf \<leftarrow> wr buf off enc;
                  buf \<leftarrow> wr buf kp_at (be32 (ucast key_pos));
                  (gk, r) \<leftarrow> chiaki_gkcrypt_gmac (pf_sha pf) (pf_gcm pf) gk key_pos buf;
                  (case r of Inl err \<Rightarrow> Some (t\<lparr>gkcrypt_local := Some gk\<rparr>, err)
                   | Inr mac \<Rightarrow> do {
                       buf \<leftarrow> wr buf mac_at mac;
                       Some (fst (chiaki_takion_send_raw pf (t\<lparr>gkcrypt_local := Some gk\<rparr>) buf), CHIAKI_ERR_SUCCESS)
                     })
                })
           })"

definition takion_send_feedback_packet :: "platform \<Rightarrow> takion \<Rightarrow> bytes \<Rightarrow> (takion \<times> ChiakiErrorCode) option" where
  "takion_send_feedback_packet pf t buf =
     (if length buf \<ge> 0xc then takion_send_encrypted pf t buf 0xc 4 8 else None)"

definition chiaki_takion_send_feedback_state ::
  "platform \<Rightarrow> takion \<Rightarrow> u16 \<Rightarrow> feedback_state \<Rightarrow> (takion \<times> ChiakiErrorCode) option" where
  "chiaki_takion_send_feedback_state pf t seq_num feedback_state = do {
     payload \<leftarrow> (if tk_version t \<le> 9
       then chiaki_feedback_state_format_v9 (pf_rnd pf) (pf_rndd pf) feedback_state
       else chiaki_feedback_state_format_v12 (pf_rnd pf) (pf_rndd pf) feedback_state);
     takion_send_feedback_packet pf t
       ([TAKION_PACKET_TYPE_FEEDBACK_STATE] @ be16 seq_num @ [0] @ replicate 4 0 @ replicate 4 0 @ payload)
   }"

text \<open>The buffer of the caller has the header, 19 bytes or 20, in front of the payload.\<close>

definition chiaki_takion_send_mic_packet :: "platform \<Rightarrow> takion \<Rightarrow> bytes \<Rightarrow> bool \<Rightarrow> (takion \<times> ChiakiErrorCode) option" where
  "chiaki_takion_send_mic_packet pf t buf ps5 =
     (let off = 19 + (if ps5 then 1 else 0)
      in if length buf \<ge> off then takion_send_encrypted pf t buf off 14 10 else None)"

definition chiaki_takion_send_feedback_history ::
  "platform \<Rightarrow> takion \<Rightarrow> u16 \<Rightarrow> bytes \<Rightarrow> (takion \<times> ChiakiErrorCode) option" where
  "chiaki_takion_send_feedback_history pf t seq_num payload =
     (if \<not> pf_alloc pf (tk_out t) (0xc + length payload) then Some (t, CHIAKI_ERR_MEMORY)
      else takion_send_feedback_packet pf t
        ([TAKION_PACKET_TYPE_FEEDBACK_HISTORY] @ be16 seq_num @ [0] @ replicate 4 0 @ replicate 4 0 @ payload))"

section \<open>The handshake\<close>

record message_payload_init =
  init_tag :: u32
  init_a_rwnd :: u32
  init_outbound_streams :: u16
  init_inbound_streams :: u16
  init_initial_seq_num :: u32

record message_payload_init_ack = message_payload_init +
  init_cookie :: bytes

definition takion_send_message_init ::
  "platform \<Rightarrow> takion \<Rightarrow> message_payload_init \<Rightarrow> takion \<times> ChiakiErrorCode" where
  "takion_send_message_init pf t payload =
     chiaki_takion_send_raw pf t ([TAKION_PACKET_TYPE_CONTROL] @
       takion_write_message_header (tag_remote t) 0 TAKION_CHUNK_TYPE_INIT 0 0x10 @
       be32 (init_tag payload) @ be32 (init_a_rwnd payload) @ be16 (init_outbound_streams payload) @
       be16 (init_inbound_streams payload) @ be32 (init_initial_seq_num payload))"

definition takion_send_message_cookie :: "platform \<Rightarrow> takion \<Rightarrow> bytes \<Rightarrow> takion \<times> ChiakiErrorCode" where
  "takion_send_message_cookie pf t cookie =
     chiaki_takion_send_raw pf t ([TAKION_PACKET_TYPE_CONTROL] @
       takion_write_message_header (tag_remote t) 0 TAKION_CHUNK_TYPE_COOKIE 0 TAKION_COOKIE_SIZE @ cookie)"

text \<open>
  What the socket gives: an error of the wait or of \<^verbatim>\<open>recv\<close>, or a datagram, which is cut at
  the size of the buffer. At the end of the list the stop pipe cancels the wait.
\<close>

datatype recv_input = Select_Error ChiakiErrorCode | Recv_Error | Datagram bytes

fun takion_recv :: "nat \<Rightarrow> recv_input list \<Rightarrow> recv_input list \<times> (ChiakiErrorCode + bytes)" where
  "takion_recv n [] = ([], Inl CHIAKI_ERR_CANCELED)"
| "takion_recv n (Select_Error err # ins) = (ins, Inl err)"
| "takion_recv n (Recv_Error # ins) = (ins, Inl CHIAKI_ERR_NETWORK)"
| "takion_recv n (Datagram d # ins) = (ins, if take n d = [] then Inl CHIAKI_ERR_NETWORK else Inr (take n d))"

text \<open>The common part of the two functions that wait for an answer: parse and compare the type.\<close>

definition takion_expect_message ::
  "takion \<Rightarrow> nat \<Rightarrow> u8 \<Rightarrow> bytes \<Rightarrow> (takion \<times> (ChiakiErrorCode + takion_message)) option" where
  "takion_expect_message t n chunk_type message =
     (if length message < n then Some (t, Inl CHIAKI_ERR_INVALID_RESPONSE)
      else do {
        b0 \<leftarrow> rd8 message 0;
        if b0 \<noteq> TAKION_PACKET_TYPE_CONTROL then Some (t, Inl CHIAKI_ERR_INVALID_RESPONSE)
        else do {
          (ks, r) \<leftarrow> takion_parse_message (tag_local t) (tk_key_state t) (drop 1 message);
          let t = t\<lparr>tk_key_state := ks\<rparr>;
          (case r of Inl _ \<Rightarrow> Some (t, Inl CHIAKI_ERR_INVALID_RESPONSE)
           | Inr msg \<Rightarrow>
               if msg_chunk_type msg \<noteq> chunk_type \<or> msg_chunk_flags msg \<noteq> 0
               then Some (t, Inl CHIAKI_ERR_INVALID_RESPONSE)
               else Some (t, Inr msg))
        }
      })"

definition takion_recv_message_init_ack ::
  "takion \<Rightarrow> recv_input list \<Rightarrow> (takion \<times> recv_input list \<times> (ChiakiErrorCode + message_payload_init_ack)) option" where
  "takion_recv_message_init_ack t ins =
     (let n = 1 + TAKION_MESSAGE_HEADER_SIZE + 0x10 + TAKION_COOKIE_SIZE;
          (ins, r) = takion_recv n ins
      in case r of Inl err \<Rightarrow> Some (t, ins, Inl err)
         | Inr message \<Rightarrow> do {
             (t, r) \<leftarrow> takion_expect_message t n TAKION_CHUNK_TYPE_INIT_ACK message;
             (case r of Inl err \<Rightarrow> Some (t, ins, Inl err)
              | Inr msg \<Rightarrow>
                  if unat (msg_payload_size msg) \<noteq> 0x10 + TAKION_COOKIE_SIZE then None
                  else do {
                    off \<leftarrow> msg_payload msg;
                    let pl = drop (1 + off) message;
                    tag \<leftarrow> rd32 pl 0;
                    rwnd \<leftarrow> rd32 pl 4;
                    outb \<leftarrow> rd16 pl 8;
                    inb \<leftarrow> rd16 pl 0xa;
                    seq \<leftarrow> rd32 pl 0xc;
                    cookie \<leftarrow> rd_n pl 0x10 TAKION_COOKIE_SIZE;
                    Some (t, ins, Inr \<lparr>init_tag = tag, init_a_rwnd = rwnd, init_outbound_streams = outb,
                      init_inbound_streams = inb, init_initial_seq_num = seq, init_cookie = cookie\<rparr>)
                  })
           })"

text \<open>
  The byte that tells a second init ack is read from the buffer before the size of the
  datagram is checked; behind a short datagram the buffer holds \<open>pf_stack\<close>. The second call
  of \<^verbatim>\<open>takion_recv\<close> gets the size of the first datagram as the size of the buffer.
\<close>

definition takion_recv_message_cookie_ack ::
  "platform \<Rightarrow> takion \<Rightarrow> recv_input list \<Rightarrow> (takion \<times> recv_input list \<times> ChiakiErrorCode) option" where
  "takion_recv_message_cookie_ack pf t ins =
     (let n = 1 + TAKION_MESSAGE_HEADER_SIZE;
          (ins, r) = takion_recv n ins
      in case r of Inl err \<Rightarrow> Some (t, ins, err)
         | Inr m \<Rightarrow> do {
             b \<leftarrow> rd8 (m @ drop (length m) (pf_stack pf)) 0xd;
             let (ins, r) = (if b = TAKION_CHUNK_TYPE_INIT_ACK then takion_recv (length m) ins else (ins, Inr m));
             (case r of Inl err \<Rightarrow> Some (t, ins, err)
              | Inr m \<Rightarrow> do {
                  (t, r) \<leftarrow> takion_expect_message t n TAKION_CHUNK_TYPE_COOKIE_ACK m;
                  (case r of Inl err \<Rightarrow> Some (t, ins, err)
                   | Inr msg \<Rightarrow> if msg_payload_size msg \<noteq> 0 then None else Some (t, ins, CHIAKI_ERR_SUCCESS))
                })
           })"

text \<open>The result is an error or the initial sequence number of the peer, which is its tag.\<close>

definition takion_handshake ::
  "platform \<Rightarrow> takion \<Rightarrow> recv_input list \<Rightarrow> (takion \<times> recv_input list \<times> (ChiakiErrorCode + u32)) option" where
  "takion_handshake pf t ins =
     (let (t, err) = takion_send_message_init pf t \<lparr>init_tag = tag_local t, init_a_rwnd = TAKION_A_RWND,
        init_outbound_streams = TAKION_OUTBOUND_STREAMS, init_inbound_streams = TAKION_INBOUND_STREAMS,
        init_initial_seq_num = seq_num_local t\<rparr>
      in if err \<noteq> CHIAKI_ERR_SUCCESS then Some (t, ins, Inl err)
         else do {
           (t, ins, r) \<leftarrow> takion_recv_message_init_ack t ins;
           (case r of Inl err \<Rightarrow> Some (t, ins, Inl err)
            | Inr ack \<Rightarrow>
                if init_tag ack = 0 then Some (t, ins, Inl CHIAKI_ERR_INVALID_RESPONSE)
                else
                  let t = t\<lparr>tag_remote := init_tag ack\<rparr>
                  in if init_outbound_streams ack = 0 \<or> init_inbound_streams ack = 0 \<or>
                        init_outbound_streams ack > TAKION_INBOUND_STREAMS \<or>
                        init_inbound_streams ack < TAKION_OUTBOUND_STREAMS
                     then Some (t, ins, Inl CHIAKI_ERR_INVALID_RESPONSE)
                     else
                       let (t, err) = takion_send_message_cookie pf t (init_cookie ack)
                       in if err \<noteq> CHIAKI_ERR_SUCCESS then Some (t, ins, Inl err)
                          else do {
                            (t, ins, err) \<leftarrow> takion_recv_message_cookie_ack pf t ins;
                            Some (t, ins, if err \<noteq> CHIAKI_ERR_SUCCESS then Inl err else Inr (tag_remote t))
                          })
         })"

end
