(* ===== verification/Takion_Receive.thy ===== *)
theory Takion_Receive
  imports Takion
begin

text \<open>
  The receiving half of Takion (\<^verbatim>\<open>lib/src/takion.c\<close>): authentication of received packets, the
  packets that wait until encryption is available, the queue of data messages, the dispatch
  of packets and the thread.
\<close>

section \<open>Data messages\<close>

abbreviation (input) CHIAKI_TAKION_MESSAGE_DATA_TYPE_PROTOBUF :: u8 where "CHIAKI_TAKION_MESSAGE_DATA_TYPE_PROTOBUF \<equiv> 0"
abbreviation (input) CHIAKI_TAKION_MESSAGE_DATA_TYPE_RUMBLE :: u8 where "CHIAKI_TAKION_MESSAGE_DATA_TYPE_RUMBLE \<equiv> 7"
abbreviation (input) CHIAKI_TAKION_MESSAGE_DATA_TYPE_9 :: u8 where "CHIAKI_TAKION_MESSAGE_DATA_TYPE_9 \<equiv> 9"
abbreviation (input) CHIAKI_TAKION_MESSAGE_DATA_TYPE_TRIGGER_EFFECTS :: u8 where
  "CHIAKI_TAKION_MESSAGE_DATA_TYPE_TRIGGER_EFFECTS \<equiv> 11"

definition known_data_type :: "u8 \<Rightarrow> bool" where
  "known_data_type ty \<longleftrightarrow>
     ty = CHIAKI_TAKION_MESSAGE_DATA_TYPE_PROTOBUF \<or> ty = CHIAKI_TAKION_MESSAGE_DATA_TYPE_RUMBLE \<or>
     ty = CHIAKI_TAKION_MESSAGE_DATA_TYPE_TRIGGER_EFFECTS \<or> ty = CHIAKI_TAKION_MESSAGE_DATA_TYPE_9"

text \<open>What the loop of \<^verbatim>\<open>takion_flush_data_queue\<close> does with an entry it has pulled.\<close>

definition deliver_entry :: "takion_cb \<Rightarrow> takion \<Rightarrow> data_packet_entry \<Rightarrow> takion option" where
  "deliver_entry cb t entry =
     (if payload_size entry < 9 then Some t
      else do {
        zero_a \<leftarrow> rd16 (packet_buf entry) (payload_at entry + 6);
        data_type \<leftarrow> rd8 (packet_buf entry) (payload_at entry + 8);
        if \<not> known_data_type data_type then Some t
        else if tk_cb t then do {
          buf \<leftarrow> rd_n (packet_buf entry) (payload_at entry + 9) (payload_size entry - 9);
          takion_event_to cb t (EVENT_DATA data_type buf)
        }
        else Some t
      })"

text \<open>\<open>acked\<close> is the sequence number of the last entry pulled, if there is one.\<close>

partial_function (option) flush_data_loop ::
  "takion_cb \<Rightarrow> takion \<Rightarrow> u64 option \<Rightarrow> (takion \<times> u64 option) option" where
  "flush_data_loop cb t acked = do {
     (q, pulled) \<leftarrow> chiaki_reorder_queue_pull (data_queue t);
     (case pulled of
        None \<Rightarrow> Some (t\<lparr>data_queue := q\<rparr>, acked)
      | Some (seq_num, entry) \<Rightarrow> do {
          t \<leftarrow> deliver_entry cb (t\<lparr>data_queue := q\<rparr>) entry;
          flush_data_loop cb t (Some seq_num)
        })
   }"

declare flush_data_loop.simps [code]

definition takion_flush_data_queue :: "platform \<Rightarrow> takion_cb \<Rightarrow> takion \<Rightarrow> takion option" where
  "takion_flush_data_queue pf cb t = do {
     (t, acked) \<leftarrow> flush_data_loop cb t None;
     (case acked of None \<Rightarrow> Some t
      | Some seq_num \<Rightarrow> do {
          (t, _) \<leftarrow> chiaki_takion_send_message_data_ack pf t (ucast seq_num);
          Some t
        })
   }"

text \<open>
  \<open>payload\<close> is the offset of the payload in the packet. A payload that is too short is not
  queued (and the packet is not freed). \<open>48\<close> is the size of the entry to
  allocate.
\<close>

definition takion_handle_packet_message_data ::
  "platform \<Rightarrow> takion_cb \<Rightarrow> takion \<Rightarrow> bytes \<Rightarrow> u8 \<Rightarrow> nat option \<Rightarrow> nat \<Rightarrow> takion option" where
  "takion_handle_packet_message_data pf cb t buf type_b payload sz =
     (if sz < 9 then Some t
      else if \<not> pf_alloc pf (tk_out t) 48 then Some t
      else do {
        off \<leftarrow> payload;
        channel \<leftarrow> rd16 buf (off + 4);
        seq_num \<leftarrow> rd32 buf off;
        (q, _) \<leftarrow> chiaki_reorder_queue_push (data_queue t) (ucast seq_num)
          \<lparr>packet_buf = buf, entry_type_b = type_b, payload_at = off, payload_size = sz, entry_channel = channel\<rparr>;
        takion_flush_data_queue pf cb (t\<lparr>data_queue := q\<rparr>)
      })"

text \<open>The callback is called without a test for the null pointer.\<close>

fun data_ack_events :: "takion_cb \<Rightarrow> takion \<Rightarrow> u32 list \<Rightarrow> takion option" where
  "data_ack_events cb t [] = Some t"
| "data_ack_events cb t (s # ss) =
     (if tk_cb t then do { t \<leftarrow> takion_event_to cb t (EVENT_DATA_ACK s); data_ack_events cb t ss } else None)"

definition takion_handle_packet_message_data_ack :: "takion_cb \<Rightarrow> takion \<Rightarrow> bytes \<Rightarrow> takion option" where
  "takion_handle_packet_message_data_ack cb t buf =
     (if length buf \<noteq> 0xc then Some t
      else do {
        cumulative_seq_num \<leftarrow> rd32 buf 0;
        _ \<leftarrow> rd32 buf 4;
        gap_ack_blocks_count \<leftarrow> rd16 buf 8;
        _ \<leftarrow> rd16 buf 0xa;
        if length buf \<noteq> unat gap_ack_blocks_count * 4 + 0xc then Some t
        else do {
          (sb, acked, _) \<leftarrow> chiaki_takion_send_buffer_ack (tk_send_buffer t) cumulative_seq_num (Some TAKION_SEND_BUFFER_SIZE);
          data_ack_events cb (t\<lparr>tk_send_buffer := sb\<rparr>) acked
        }
      })"

definition takion_handle_packet_message :: "platform \<Rightarrow> takion_cb \<Rightarrow> takion \<Rightarrow> bytes \<Rightarrow> takion option" where
  "takion_handle_packet_message pf cb t buf = do {
     (ks, r) \<leftarrow> takion_parse_message (tag_local t) (tk_key_state t) (drop 1 buf);
     let t = t\<lparr>tk_key_state := ks\<rparr>;
     (case r of Inl _ \<Rightarrow> Some t
      | Inr msg \<Rightarrow>
          let sz = unat (msg_payload_size msg); payload = map_option (\<lambda>off. 1 + off) (msg_payload msg)
          in if msg_chunk_type msg = TAKION_CHUNK_TYPE_DATA
             then takion_handle_packet_message_data pf cb t buf (msg_chunk_flags msg) payload sz
             else if msg_chunk_type msg = TAKION_CHUNK_TYPE_DATA_ACK
             then takion_handle_packet_message_data_ack cb t
                    (case payload of None \<Rightarrow> [] | Some off \<Rightarrow> take sz (drop off buf))
             else Some t)
   }"

section \<open>Packets\<close>

text \<open>
  Authentication of a received packet. The buffer is changed: in the end it holds the code
  that was computed. \<^verbatim>\<open>memcmp\<close> decides.
\<close>

definition takion_handle_packet_mac :: "platform \<Rightarrow> takion \<Rightarrow> bytes \<Rightarrow> (takion \<times> bytes \<times> ChiakiErrorCode) option" where
  "takion_handle_packet_mac pf t buf =
     (if gkcrypt_remote t = None then Some (t, buf, CHIAKI_ERR_SUCCESS)
      else do {
        r \<leftarrow> chiaki_takion_packet_read_key_pos (tk_key_state t) buf;
        (case r of Inl err \<Rightarrow> Some (t, buf, err)
         | Inr key_pos \<Rightarrow> do {
             (crypt, buf, r) \<leftarrow> chiaki_takion_packet_mac (pf_sha pf) (pf_gcm pf) (gkcrypt_remote t) buf key_pos;
             let t = t\<lparr>gkcrypt_remote := crypt\<rparr>;
             (case r of Inl err \<Rightarrow> Some (t, buf, err)
              | Inr (mac_expected, mac) \<Rightarrow>
                  if mac_expected \<noteq> mac then Some (t, buf, CHIAKI_ERR_INVALID_MAC)
                  else Some (t\<lparr>tk_key_state := chiaki_key_state_commit (tk_key_state t) key_pos\<rparr>, buf, CHIAKI_ERR_SUCCESS))
           })
      })"

text \<open>\<open>16\<close> is the size of one entry of the array.\<close>

definition takion_postpone_packet :: "platform \<Rightarrow> takion \<Rightarrow> bytes \<Rightarrow> takion" where
  "takion_postpone_packet pf t buf =
     (if postponed t = None \<and> \<not> pf_alloc pf (tk_out t) (TAKION_POSTPONE_PACKETS_SIZE * 16) then t
      else
        let (ps, capacity) = (case postponed t of None \<Rightarrow> ([], TAKION_POSTPONE_PACKETS_SIZE) | Some p \<Rightarrow> p)
        in if length ps \<ge> capacity then t\<lparr>postponed := Some (ps, capacity)\<rparr>
           else t\<lparr>postponed := Some (ps @ [buf], capacity)\<rparr>)"

definition takion_handle_packet_av :: "takion_cb \<Rightarrow> takion \<Rightarrow> u8 \<Rightarrow> bytes \<Rightarrow> takion option" where
  "takion_handle_packet_av cb t base_type buf =
     (if base_type \<noteq> TAKION_PACKET_TYPE_VIDEO \<and> base_type \<noteq> TAKION_PACKET_TYPE_AUDIO then None
      else do {
        (ks, r) \<leftarrow> tk_av_parse t (tk_key_state t) buf;
        let t = t\<lparr>tk_key_state := ks\<rparr>;
        (case r of Inl _ \<Rightarrow> Some t
         | Inr packet \<Rightarrow> if tk_cb t then takion_event_to cb t (EVENT_AV packet) else Some t)
      })"

definition takion_handle_packet :: "platform \<Rightarrow> takion_cb \<Rightarrow> takion \<Rightarrow> bytes \<Rightarrow> takion option" where
  "takion_handle_packet pf cb t buf =
     (if \<not> length buf > 0 then None
      else
        let base_type = packet_base_type (buf ! 0)
        in do {
          (t, buf, err) \<leftarrow> takion_handle_packet_mac pf t buf;
          if err \<noteq> CHIAKI_ERR_SUCCESS then Some t
          else if base_type = TAKION_PACKET_TYPE_CONTROL then takion_handle_packet_message pf cb t buf
          else if base_type = TAKION_PACKET_TYPE_VIDEO \<or> base_type = TAKION_PACKET_TYPE_AUDIO then
            (if enable_crypt t \<and> gkcrypt_remote t = None then Some (takion_postpone_packet pf t buf)
             else takion_handle_packet_av cb t base_type buf)
          else Some t
        })"

section \<open>The thread\<close>

text \<open>
  The loop that checks the queued packets when encryption has become available. It passes a
  null pointer for the sequence number to \<^verbatim>\<open>chiaki_reorder_queue_peek\<close>. A packet with a wrong
  code is dropped from the queue; the buffers that fail or pass keep the computed code.
\<close>

partial_function (option) takion_recheck_macs :: "platform \<Rightarrow> takion \<Rightarrow> u64 \<Rightarrow> takion option" where
  "takion_recheck_macs pf t i =
     (if \<not> i < chiaki_reorder_queue_count (data_queue t) then Some t
      else do {
        peeked \<leftarrow> chiaki_reorder_queue_peek (data_queue t) i False True;
        (case peeked of
           None \<Rightarrow> takion_recheck_macs pf t (i + 1)
         | Some (seq_num, packet) \<Rightarrow>
             if packet_buf packet = [] then takion_recheck_macs pf t (i + 1)
             else do {
               (t, buf, err) \<leftarrow> takion_handle_packet_mac pf t (packet_buf packet);
               let q = rq_store (data_queue t) seq_num \<lparr>entry_user = packet\<lparr>packet_buf := buf\<rparr>, entry_set = True\<rparr>;
               (q, _) \<leftarrow> (if err \<noteq> CHIAKI_ERR_SUCCESS then chiaki_reorder_queue_drop q i else Some (q, []));
               takion_recheck_macs pf (t\<lparr>data_queue := q\<rparr>) (i + 1)
             })
      })"

declare takion_recheck_macs.simps [code]

text \<open>The loop over the postponed packets; the array is read again in each round.\<close>

partial_function (option) takion_flush_postponed_from :: "platform \<Rightarrow> takion_cb \<Rightarrow> takion \<Rightarrow> nat \<Rightarrow> takion option" where
  "takion_flush_postponed_from pf cb t i =
     (case postponed t of None \<Rightarrow> Some t
      | Some (ps, _) \<Rightarrow>
          if \<not> i < length ps then Some t
          else do {
            t \<leftarrow> takion_handle_packet pf cb t (ps ! i);
            takion_flush_postponed_from pf cb t (i + 1)
          })"

declare takion_flush_postponed_from.simps [code]

definition takion_flush_postponed :: "platform \<Rightarrow> takion_cb \<Rightarrow> takion \<Rightarrow> takion option" where
  "takion_flush_postponed pf cb t =
     (if postponed t \<noteq> None \<and> gkcrypt_remote t \<noteq> None then do {
        t \<leftarrow> takion_flush_postponed_from pf cb t 0;
        Some (t\<lparr>postponed := None\<rparr>)
      }
      else Some t)"

text \<open>
  The loop of the thread. Every round but the last takes one input. \<open>realloc_ok\<close>: whether
  shrinking the buffer succeeds.
\<close>

definition takion_round_start :: "platform \<Rightarrow> takion_cb \<Rightarrow> takion \<Rightarrow> bool \<Rightarrow> (takion \<times> bool) option" where
  "takion_round_start pf cb t crypt_available = do {
     (t, crypt_available) \<leftarrow> (if enable_crypt t \<and> \<not> crypt_available \<and> gkcrypt_remote t \<noteq> None
       then do { t \<leftarrow> takion_recheck_macs pf t 0; Some (t, True) } else Some (t, crypt_available));
     t \<leftarrow> takion_flush_postponed pf cb t;
     Some (t, crypt_available)
   }"

fun takion_loop :: "platform \<Rightarrow> (bytes \<Rightarrow> bool) \<Rightarrow> takion_cb \<Rightarrow> takion \<Rightarrow> bool \<Rightarrow> recv_input list \<Rightarrow> takion option" where
  "takion_loop pf realloc_ok cb t crypt_available [] = do {
     (t, _) \<leftarrow> takion_round_start pf cb t crypt_available;
     Some t
   }"
| "takion_loop pf realloc_ok cb t crypt_available (i # ins) = do {
     (t, crypt_available) \<leftarrow> takion_round_start pf cb t crypt_available;
     if \<not> pf_alloc pf (tk_out t) 1500 then Some t
     else case snd (takion_recv 1500 [i]) of
       Inl _ \<Rightarrow> Some t
     | Inr buf \<Rightarrow>
         if \<not> realloc_ok buf then takion_loop pf realloc_ok cb t crypt_available ins
         else do {
           t \<leftarrow> takion_handle_packet pf cb t buf;
           takion_loop pf realloc_ok cb t crypt_available ins
         }
   }"

text \<open>\<open>sb_err\<close>: the error with which the initialisation of the send buffer fails, if it does.\<close>

definition takion_thread_run ::
  "platform \<Rightarrow> (bytes \<Rightarrow> bool) \<Rightarrow> data_packet_entry \<Rightarrow> sb_packet \<Rightarrow> ChiakiErrorCode \<Rightarrow> takion_cb \<Rightarrow> takion \<Rightarrow>
   recv_input list \<Rightarrow> takion option" where
  "takion_thread_run pf realloc_ok null zero sb_err cb t ins = do {
     (t, ins, r) \<leftarrow> takion_handshake pf t ins;
     (case r of Inl _ \<Rightarrow> Some t
      | Inr seq_num_remote_initial \<Rightarrow>
          let (q, err) = chiaki_reorder_queue_init_32 null (pf_alloc pf (tk_out t) 256) TAKION_REORDER_QUEUE_SIZE_EXP
                seq_num_remote_initial
          in if err \<noteq> CHIAKI_ERR_SUCCESS then Some t
             else
               let t = t\<lparr>data_queue := chiaki_reorder_queue_set_drop_cb q True\<rparr>
               in case chiaki_takion_send_buffer_init zero (pf_alloc pf (tk_out t) 512) CHIAKI_ERR_SUCCESS CHIAKI_ERR_SUCCESS
                    sb_err True TAKION_SEND_BUFFER_SIZE of
                 (None, _) \<Rightarrow> Some t
               | (Some sb, _) \<Rightarrow> do {
                   let t = t\<lparr>tk_send_buffer := sb\<rparr>;
                   t \<leftarrow> (if tk_cb t then takion_event_to cb t EVENT_CONNECTED else Some t);
                   t \<leftarrow> takion_loop pf realloc_ok cb t (gkcrypt_remote t \<noteq> None) ins;
                   Some (t\<lparr>tk_send_buffer := fst (chiaki_takion_send_buffer_fini (tk_send_buffer t))\<rparr>)
                 })
   }"

definition takion_thread_func ::
  "platform \<Rightarrow> (bytes \<Rightarrow> bool) \<Rightarrow> data_packet_entry \<Rightarrow> sb_packet \<Rightarrow> ChiakiErrorCode \<Rightarrow> takion_cb \<Rightarrow> takion \<Rightarrow>
   recv_input list \<Rightarrow> takion option" where
  "takion_thread_func pf realloc_ok null zero sb_err cb t ins = do {
     t \<leftarrow> takion_thread_run pf realloc_ok null zero sb_err cb t ins;
     t \<leftarrow> (if tk_cb t then takion_event_to cb t EVENT_DISCONNECT else Some t);
     Some (if close_socket t then t\<lparr>sock_valid := False\<rparr> else t)
   }"

section \<open>Connecting\<close>

record connect_info =
  ci_ip_dontfrag :: bool
  ci_cb :: bool
  ci_enable_crypt :: bool
  ci_enable_dualsense :: bool
  ci_protocol_version :: u8
  ci_close_socket :: bool

text \<open>The results of the calls into the system while connecting.\<close>

record connect_results =
  cr_random :: u32
  cr_local_mutex :: ChiakiErrorCode
  cr_seq_mutex :: ChiakiErrorCode
  cr_stop_pipe :: ChiakiErrorCode
  cr_socket :: bool
  cr_rcvbuf :: bool
  cr_dontfrag :: bool
  cr_connect :: bool
  cr_extra :: "(u64 \<times> ChiakiErrorCode \<times> bool) list" \<comment> \<open>the clock, the wait, whether \<^verbatim>\<open>recv\<close> succeeds\<close>
  cr_time :: u64

text \<open>Old datagrams are thrown away; \<open>None\<close>: the list of results is too short.\<close>

fun takion_read_extra_sock_messages :: "u64 \<Rightarrow> (u64 \<times> ChiakiErrorCode \<times> bool) list \<Rightarrow> ChiakiErrorCode option" where
  "takion_read_extra_sock_messages expired [] = None"
| "takion_read_extra_sock_messages expired ((now, err, ok) # rs) =
     (if now > expired then Some CHIAKI_ERR_TIMEOUT
      else if err \<noteq> CHIAKI_ERR_SUCCESS then Some err
      else if \<not> ok then Some CHIAKI_ERR_NETWORK
      else takion_read_extra_sock_messages expired rs)"

definition av_packet_parse_of_version ::
  "u8 \<Rightarrow> (key_state \<Rightarrow> bytes \<Rightarrow> (key_state \<times> (ChiakiErrorCode + av_packet)) option) option" where
  "av_packet_parse_of_version v =
     (if v = 7 then Some chiaki_takion_v7_av_packet_parse
      else if v = 9 then Some chiaki_takion_v9_av_packet_parse
      else if v = 12 then Some chiaki_takion_v12_av_packet_parse
      else None)"

text \<open>
  The socket part: with a socket that is handed over (\<open>sock\<close>) or a new one, on a system with
  \<^verbatim>\<open>IP_PMTUDISC_DO\<close>. The result is the value of \<^verbatim>\<open>ret\<close> at the label \<^verbatim>\<open>error_sock\<close> or
  \<^verbatim>\<open>error_pipe\<close>, or that the socket is ready. An error of the extra messages is not stored in
  \<^verbatim>\<open>ret\<close>.
\<close>

definition takion_connect_socket :: "connect_info \<Rightarrow> connect_results \<Rightarrow> bool \<Rightarrow> (ChiakiErrorCode + unit) option" where
  "takion_connect_socket info cr sock =
     (if sock then do {
        err \<leftarrow> takion_read_extra_sock_messages (1000 + cr_time cr) (cr_extra cr);
        if err \<noteq> CHIAKI_ERR_SUCCESS \<and> err \<noteq> CHIAKI_ERR_TIMEOUT then Some (Inl CHIAKI_ERR_SUCCESS)
        else if \<not> cr_rcvbuf cr then Some (Inl CHIAKI_ERR_NETWORK)
        else if \<not> cr_dontfrag cr then Some (Inl CHIAKI_ERR_NETWORK)
        else Some (Inr ())
      }
      else if \<not> cr_socket cr then Some (Inl CHIAKI_ERR_NETWORK)
      else if \<not> cr_rcvbuf cr then Some (Inl CHIAKI_ERR_NETWORK)
      else if ci_ip_dontfrag info \<and> \<not> cr_dontfrag cr then Some (Inl CHIAKI_ERR_NETWORK)
      else if \<not> cr_connect cr then Some (Inl CHIAKI_ERR_NETWORK)
      else Some (Inr ()))"

text \<open>
  The fields that \<^verbatim>\<open>chiaki_takion_connect\<close> sets; the queue, the send buffer and the key state
  keep what the memory of \<open>t\<close> held. The flag of the result says whether the thread was started.
  An error of the stop pipe is not stored in \<^verbatim>\<open>ret\<close>; an error of the creation of the thread is
  ignored.
\<close>

definition chiaki_takion_connect ::
  "takion \<Rightarrow> connect_info \<Rightarrow> connect_results \<Rightarrow> bool \<Rightarrow> (takion \<times> ChiakiErrorCode \<times> bool) option" where
  "chiaki_takion_connect t info cr sock =
     (let t = t\<lparr>close_socket := ci_close_socket info, tk_version := ci_protocol_version info\<rparr>
      in case av_packet_parse_of_version (ci_protocol_version info) of
        None \<Rightarrow> Some (t, CHIAKI_ERR_INVALID_DATA, False)
      | Some parse \<Rightarrow>
          let t = t\<lparr>tk_av_parse := parse, gkcrypt_local := None\<rparr>
          in if cr_local_mutex cr \<noteq> CHIAKI_ERR_SUCCESS then Some (t, cr_local_mutex cr, False)
             else
               let t = t\<lparr>key_pos_local := 0, gkcrypt_remote := None, tk_cb := ci_cb info, tk_a_rwnd := TAKION_A_RWND,
                          tag_local := cr_random cr, seq_num_local := cr_random cr\<rparr>
               in if cr_seq_mutex cr \<noteq> CHIAKI_ERR_SUCCESS then Some (t, cr_seq_mutex cr, False)
                  else
                    let t = t\<lparr>tag_remote := 0, enable_crypt := ci_enable_crypt info, postponed := None,
                               enable_dualsense := ci_enable_dualsense info\<rparr>
                    in if cr_stop_pipe cr \<noteq> CHIAKI_ERR_SUCCESS then Some (t, CHIAKI_ERR_SUCCESS, False)
                       else do {
                         r \<leftarrow> takion_connect_socket info cr sock;
                         (case r of Inl ret \<Rightarrow> Some (t\<lparr>sock_valid := False\<rparr>, ret, False)
                          | Inr _ \<Rightarrow> Some (t\<lparr>sock_valid := True\<rparr>, CHIAKI_ERR_SUCCESS, True))
                       })"

end
