(* ===== verification/GK_Crypt_Props.thy ===== *)
theory GK_Crypt_Props
  imports GK_Crypt
begin

text \<open>
  What the packet encryption guarantees: \<open>counter_add\<close> is addition of 128 bit little-endian
  numbers, the recovered key position is the true one, the ring buffer always holds the key
  stream (so that decryption is the exclusive or with the stream at the key position, whatever
  the thread has prepared), and the authentication code of a packet does not depend on the
  packets before it.
\<close>

section \<open>Key positions\<close>

lemma unat_high32: "unat (ucast (drop_bit 32 (p :: u64)) :: u32) = unat p div 2 ^ 32"
proof -
  have "unat (drop_bit 32 p) = drop_bit 32 (unat p)"
    by (simp only: unsigned_drop_bit_eq take_bit_nat_eq_self [OF unat_lt_exp])
  moreover have "unat p div 2 ^ 32 < 2 ^ 32" using unat_lt_exp [of p] by (simp add: less_mult_imp_div_less)
  ultimately show ?thesis
    by (simp add: unsigned_ucast_eq take_bit_nat_eq_self drop_bit_eq_div)
qed

lemma unat_low32: "unat (ucast (p :: u64) :: u32) = unat p mod 2 ^ 32"
  by (simp add: unsigned_ucast_eq take_bit_eq_mod)

lemma join_high_low:
  "push_bit 32 (ucast (ucast (drop_bit 32 p) :: u32)) OR ucast (ucast p :: u32) = (p :: u64)"
  by (rule bit_word_eqI) (auto simp: bit_simps dest: bit_imp_le_length)

lemma seq32_gt_lt:
  "chiaki_seq_num_32_gt a b \<and> a < b \<longleftrightarrow> unat a + 2 ^ 31 < unat b"
  "chiaki_seq_num_32_lt a b \<and> b < a \<longleftrightarrow> unat b + 2 ^ 31 < unat a"
proof -
  have gt: "chiaki_seq_num_32_gt a b \<and> a < b \<longleftrightarrow> a \<noteq> b \<and> a < b \<and> 2147483648 < uint b - uint a"
    unfolding seq_num_gt_def Let_def by auto
  have lt: "chiaki_seq_num_32_lt a b \<and> b < a \<longleftrightarrow> a \<noteq> b \<and> b < a \<and> 2147483648 < uint a - uint b"
    unfolding seq_num_lt_def Let_def by auto
  have ab: "uint a = int (unat a)" "uint b = int (unat b)" by simp_all
  have key: "2147483648 < uint b - uint a \<longleftrightarrow> unat a + 2147483648 < unat b"
    "2147483648 < uint a - uint b \<longleftrightarrow> unat b + 2147483648 < unat a"
    unfolding ab by (rule iffI; linarith)+
  show "chiaki_seq_num_32_gt a b \<and> a < b \<longleftrightarrow> unat a + 2 ^ 31 < unat b"
    by (subst gt) (simp only: key word_less_nat_alt, auto)
  show "chiaki_seq_num_32_lt a b \<and> b < a \<longleftrightarrow> unat b + 2 ^ 31 < unat a"
    by (subst lt) (simp only: key word_less_nat_alt, auto)
qed

lemma request_pos_near:
  assumes "unat pos < unat (key_prev st) + 2 ^ 31" "unat (key_prev st) < unat pos + 2 ^ 31"
  shows "chiaki_key_state_request_pos st (ucast pos) commit =
    (if commit then chiaki_key_state_commit st pos else st, pos)"
proof -
  let ?p = "unat (key_prev st)" and ?q = "unat pos"
  let ?high = "ucast (drop_bit 32 (key_prev st)) :: u32" and ?low = "ucast pos :: u32"
  let ?prev_low = "ucast (key_prev st) :: u32"
  define L where "L = ?p mod 2 ^ 32"
  define H where "H = ?p div 2 ^ 32"
  define l where "l = ?q mod 2 ^ 32"
  define h where "h = ?q div 2 ^ 32"
  have p: "?p = H * 2 ^ 32 + L" "L < 2 ^ 32" and q: "?q = h * 2 ^ 32 + l" "l < 2 ^ 32"
    by (simp_all add: L_def H_def l_def h_def)
  have u: "unat ?low = l" "unat ?prev_low = L" "unat ?high = H" "unat (ucast (drop_bit 32 pos) :: u32) = h"
    by (simp_all only: unat_high32 H_def h_def) (simp_all only: unat_low32 L_def l_def)
  have hb: "h < 2 ^ 32" using u(4) unat_lt_exp [of "ucast (drop_bit 32 pos) :: u32"] by simp
  have bounds: "h * 2 ^ 32 + l < H * 2 ^ 32 + L + 2 ^ 31" "H * 2 ^ 32 + L < h * 2 ^ 32 + l + 2 ^ 31"
    using assms p(1) q(1) by simp_all
  then have "h \<le> H + 1" using p(2) q(2) by simp
  moreover have "H \<le> h + 1" using bounds p(2) q(2) by simp
  ultimately consider "h = H" | "h = H + 1" | "H = h + 1" by linarith
  then have "(if chiaki_seq_num_32_gt ?low ?prev_low \<and> ?low < ?prev_low then ?high + 1
      else if chiaki_seq_num_32_lt ?low ?prev_low \<and> ?low > ?prev_low \<and> ?high \<noteq> 0 then ?high - 1
      else ?high) = ucast (drop_bit 32 pos)"
  proof cases
    case 1
    then have "\<not> l + 2 ^ 31 < L" "\<not> L + 2 ^ 31 < l" using bounds by simp_all
    then have "\<not> (chiaki_seq_num_32_gt ?low ?prev_low \<and> ?low < ?prev_low)"
      "\<not> (chiaki_seq_num_32_lt ?low ?prev_low \<and> ?low > ?prev_low)"
      by (simp_all only: seq32_gt_lt u not_False_eq_True)
    moreover have "?high = ucast (drop_bit 32 pos)" using 1 u by (simp only: word_unat_eq_iff)
    ultimately show ?thesis by metis
  next
    case 2
    then have "l + 2 ^ 31 < L" using bounds by simp
    then have "chiaki_seq_num_32_gt ?low ?prev_low \<and> ?low < ?prev_low" by (simp only: seq32_gt_lt u)
    moreover have "unat (?high + 1) = H + 1"
      using 2 u hb unat_plus1_small [of ?high] by simp
    then have "?high + 1 = ucast (drop_bit 32 pos)" using 2 u by (simp only: word_unat_eq_iff)
    ultimately show ?thesis by metis
  next
    case 3
    then have "L + 2 ^ 31 < l" "\<not> l + 2 ^ 31 < L" using bounds by simp_all
    then have c: "chiaki_seq_num_32_lt ?low ?prev_low \<and> ?low > ?prev_low"
      "\<not> (chiaki_seq_num_32_gt ?low ?prev_low \<and> ?low < ?prev_low)"
      by (simp_all only: seq32_gt_lt u not_False_eq_True)
    have "?high \<noteq> 0" using 3 u by (metis add_is_0 unat_0 zero_neq_one)
    moreover have "unat (?high - 1) = h" using 3 u word_minus_one_small [of ?high] by simp
    then have "?high - 1 = ucast (drop_bit 32 pos)" using u by (simp only: word_unat_eq_iff)
    ultimately show ?thesis using c by metis
  qed
  then show ?thesis
    unfolding chiaki_key_state_request_pos_def chiaki_key_state_commit_def Let_def
    by (simp only: join_high_low)
qed

text \<open>
  C33: \<^verbatim>\<open>chiaki_key_state_request_pos\<close> recovers a 64 bit key position from its low 32 bits when
  the position is less than \<open>2 ^ 31\<close> away from the last committed one, in either direction and
  across every boundary of the low half; the state changes only when the caller commits.
\<close>

theorem key_state_recovers_pos:
  assumes "unat pos < unat (key_prev st) + 2 ^ 31" "unat (key_prev st) < unat pos + 2 ^ 31"
  shows "chiaki_key_state_request_pos st (ucast pos) commit =
    (if commit then chiaki_key_state_commit st pos else st, pos)"
  using assms by (rule request_pos_near)

theorem key_state_recovers_pos_witness:
  "chiaki_key_state_request_pos \<lparr>key_prev = 0x1fffffff0\<rparr> 0x10 True = (\<lparr>key_prev = 0x200000010\<rparr>, 0x200000010)"
proof -
  have low: "(ucast (0x200000010 :: u64) :: u32) = 0x10" by code_simp
  show ?thesis
    using key_state_recovers_pos [of "0x200000010" "\<lparr>key_prev = 0x1fffffff0\<rparr>" True, unfolded low]
    by (simp add: chiaki_key_state_commit_def)
qed

section \<open>Counter blocks\<close>

fun le_val :: "bytes \<Rightarrow> nat" where
  "le_val [] = 0"
| "le_val (b # bs) = unat b + 256 * le_val bs"

lemma length_counter_add [simp]: "length (counter_add base v) = length base"
  by (induction base v rule: counter_add.induct) (simp_all add: Let_def)

lemma counter_add_step:
  assumes "unat (b :: u8) + unat (v :: u64) < 2 ^ 64"
  shows "unat (ucast (ucast b + v AND 0xff) :: u8) = (unat b + unat v) mod 256"
    and "unat (drop_bit 8 (ucast b + v)) = (unat b + unat v) div 256"
proof -
  have ub: "unat (ucast b :: u64) = unat b"
    using unat_lt_exp [of b] by (simp add: unsigned_ucast_eq take_bit_nat_eq_self)
  have s: "unat (ucast b + v) = unat b + unat v"
    using assms ub unat_plus_small [of "ucast b :: u64" v] by simp
  have "ucast b + v AND 0xff = take_bit 8 (ucast b + v)" by (simp add: take_bit_eq_mask mask_eq_exp_minus_1)
  then have "unat (ucast (ucast b + v AND 0xff) :: u8) = take_bit 8 (unat (ucast b + v))"
    by (simp add: unsigned_ucast_eq unsigned_take_bit_eq del: take_bit_of_nat)
  then show "unat (ucast (ucast b + v AND 0xff) :: u8) = (unat b + unat v) mod 256"
    by (simp only: s) (simp add: take_bit_eq_mod)
  have "unat (drop_bit 8 (ucast b + v)) = drop_bit 8 (unat (ucast b + v))"
    by (simp only: unsigned_drop_bit_eq take_bit_nat_eq_self [OF unat_lt_exp])
  then show "unat (drop_bit 8 (ucast b + v)) = (unat b + unat v) div 256"
    by (simp only: s) (simp add: drop_bit_eq_div)
qed

lemma le_val_bound: "le_val bs < 256 ^ length bs"
proof (induction bs)
  case (Cons b bs)
  have "unat b < 256" using unat_lt_exp [of b] by simp
  then show ?case using Cons by simp
qed simp

lemma mod_mult_step: "(r mod 256 + 256 * ((r div 256 + x) mod m)) = (r + 256 * x) mod (256 * m)" for r x m :: nat
proof -
  have "(r + 256 * x) mod (256 * m) = 256 * ((r + 256 * x) div 256 mod m) + (r + 256 * x) mod 256"
    by (rule mod_mult2_eq)
  then show ?thesis by (simp add: add.commute)
qed

text \<open>
  \<^verbatim>\<open>counter_add\<close> adds a 64 bit number to a little-endian number of any length, modulo the
  range of that length (\<open>2 ^ 128\<close> for a block), provided the first byte and the number do not
  overflow 64 bits together.
\<close>

theorem counter_add_le_val:
  assumes "unat (hd base) + unat v < 2 ^ 64" "base \<noteq> []"
  shows "le_val (counter_add base v) = (le_val base + unat v) mod 256 ^ length base"
  using assms
proof (induction base arbitrary: v)
  case (Cons b base)
  let ?r = "unat b + unat v"
  have r: "?r < 2 ^ 64" using Cons.prems by simp
  let ?v = "drop_bit 8 (ucast b + v :: u64)"
  note st = counter_add_step [OF r]
  have "le_val (if ?v \<noteq> 0 then counter_add base ?v else base) = (le_val base + ?r div 256) mod 256 ^ length base"
  proof (cases "?v = 0 \<or> base = []")
    case True
    then show ?thesis
    proof
      assume "?v = 0"
      moreover have "?r div 256 = 0" using st(2) \<open>?v = 0\<close> by simp
      ultimately show ?thesis using le_val_bound [of base] by simp
    qed simp
  next
    case False
    have "unat (hd base) + unat ?v < 2 ^ 64"
      using unat_lt_exp [of "hd base"] st(2) r by simp
    then show ?thesis using Cons.IH [of ?v] False st(2) by simp
  qed
  then have "le_val (counter_add (b # base) v) = ?r mod 256 + 256 * ((le_val base + ?r div 256) mod 256 ^ length base)"
    using st(1) by (simp add: Let_def)
  also have "\<dots> = (?r + 256 * le_val base) mod (256 * 256 ^ length base)"
    using mod_mult_step [of ?r "le_val base"] by (simp add: add.commute)
  finally show ?case by (simp add: add_ac)
qed simp

theorem counter_add_le_val_witness:
  "counter_add [0xf0, 0xff, 0xff, 1] 0x20 = [0x10, 0, 0, 2] \<and>
   le_val (counter_add [0xf0, 0xff, 0xff, 1] 0x20) = (0x1fffff0 + 0x20) mod 256 ^ 4"
proof -
  have "counter_add [0xf0, 0xff, 0xff, 1] 0x20 = [0x10, 0, 0, 2]" by code_simp
  moreover have "le_val [0xf0, 0xff, 0xff, 1] = 0x1fffff0" by simp
  ultimately show ?thesis using counter_add_le_val [of "[0xf0, 0xff, 0xff, 1]" "0x20"] by simp
qed

section \<open>The key stream\<close>

text \<open>The bytes of the stream: at position \<open>p\<close> byte \<open>p mod 16\<close> of the encrypted counter block \<open>p div 16\<close>.\<close>

definition ks_byte :: "(bytes \<Rightarrow> bytes \<Rightarrow> bytes) \<Rightarrow> bytes \<Rightarrow> bytes \<Rightarrow> nat \<Rightarrow> u8" where
  "ks_byte aes key iv p = aes key (counter_add iv (of_nat (p div 16))) ! (p mod 16)"

definition ks_range :: "(bytes \<Rightarrow> bytes \<Rightarrow> bytes) \<Rightarrow> bytes \<Rightarrow> bytes \<Rightarrow> nat \<Rightarrow> nat \<Rightarrow> bytes" where
  "ks_range aes key iv p n = map (ks_byte aes key iv) [p..<p + n]"

definition aes_block :: "(bytes \<Rightarrow> bytes \<Rightarrow> bytes) \<Rightarrow> bool" where
  "aes_block aes \<longleftrightarrow> (\<forall>k b. length (aes k b) = length b)"

lemma length_ks_range [simp]: "length (ks_range aes key iv p n) = n"
  by (simp add: ks_range_def)

lemma ks_range_nth: "i < n \<Longrightarrow> ks_range aes key iv p n ! i = ks_byte aes key iv (p + i)"
  by (simp add: ks_range_def)

lemma ks_range_drop_take:
  "i + m \<le> n \<Longrightarrow> take m (drop i (ks_range aes key iv p n)) = ks_range aes key iv (p + i) m"
  by (rule nth_equalityI) (simp_all add: ks_range_nth add.assoc)

lemma gen_counters_Some:
  "0 \<le> c \<Longrightarrow> c + int n \<le> 2 ^ 31 - 1 \<Longrightarrow>
   gen_counters iv c n = Some (map (\<lambda>i. counter_add iv (of_nat i)) [nat c..<nat c + n])"
proof (induction n arbitrary: c)
  case (Suc n)
  have "gen_counters iv (c + 1) n = Some (map (\<lambda>i. counter_add iv (of_nat i)) [nat (c + 1)..<nat (c + 1) + n])"
    by (rule Suc.IH) (use Suc.prems in simp_all)
  moreover have "[nat c..<nat c + Suc n] = nat c # [nat (c + 1)..<nat (c + 1) + n]"
    using Suc.prems by (simp add: upt_conv_Cons nat_add_distrib)
  moreover have "(of_int c :: u64) = of_nat (nat c)" using Suc.prems by simp
  ultimately show ?case using Suc.prems by simp
qed simp

lemma concat_blocks:
  "(\<And>i. length (f i) = 16) \<Longrightarrow>
   concat (map f [a..<a + k]) = map (\<lambda>p. f (p div 16) ! (p mod 16)) [16 * a..<16 * (a + k)]"
proof (induction k)
  case (Suc k)
  have "[16 * a..<16 * (a + Suc k)] = [16 * a..<16 * (a + k)] @ [16 * (a + k)..<16 * (a + k) + 16]"
    using upt_add_eq_append [of "16 * a" "16 * (a + k)" 16] by (simp add: algebra_simps)
  moreover have "map (\<lambda>p. f (p div 16) ! (p mod 16)) [16 * (a + k)..<16 * (a + k) + 16] = f (a + k)"
  proof (rule nth_equalityI)
    fix i assume "i < length (map (\<lambda>p. f (p div 16) ! (p mod 16)) [16 * (a + k)..<16 * (a + k) + 16])"
    moreover have "(16 * (a + k) + i) div 16 = a + k" "(16 * (a + k) + i) mod 16 = i" if "i < 16"
      using that by (simp_all add: div_mult_self4 del: distrib_left_numeral)
    ultimately show "map (\<lambda>p. f (p div 16) ! (p mod 16)) [16 * (a + k)..<16 * (a + k) + 16] ! i = f (a + k) ! i"
      by (simp del: distrib_left_numeral)
  qed (use Suc.prems in simp)
  ultimately show ?case using Suc by simp
qed simp

lemma key_pos_counter:
  assumes "unat (key_pos :: u64) < 2 ^ 35"
  shows "sint (ucast (key_pos div 16) :: 32 word) = int (unat key_pos div 16)"
proof -
  have d: "unat (key_pos div 16) = unat key_pos div 16" by (simp add: unat_div)
  moreover have "unat key_pos div 16 < 2 ^ 31" using assms by simp
  ultimately have u: "unat (ucast (key_pos div 16) :: 32 word) = unat key_pos div 16"
    by (simp add: unsigned_ucast_eq take_bit_nat_eq_self)
  have "uint (ucast (key_pos div 16) :: 32 word) < 2 ^ 31"
    using u \<open>unat key_pos div 16 < 2 ^ 31\<close> by (simp add: uint_nat)
  moreover have "- (2 ^ 31) \<le> uint (ucast (key_pos div 16) :: 32 word)"
    by (rule order_trans [of _ 0]) simp_all
  ultimately have "sint (ucast (key_pos div 16) :: 32 word) = uint (ucast (key_pos div 16) :: 32 word)"
    by (simp only: sint_uint len_bit0 len_num1) (rule signed_take_bit_int_eq_self; simp)
  then show ?thesis using u by (metis uint_nat)
qed

lemma gen_key_stream_spec:
  assumes "aes_block aes" "length (gk_iv gk) = 16" "unat key_pos mod 16 = 0" "n mod 16 = 0"
    and "unat key_pos + n \<le> 2 ^ 35 - 16"
  shows "chiaki_gkcrypt_gen_key_stream aes True gk key_pos n =
    Some (Inr (ks_range aes (key_base gk) (gk_iv gk) (unat key_pos) n))"
proof -
  obtain a k where a: "unat key_pos = 16 * a" "n = 16 * k" using assms(3,4) by (meson dvdE mod_0_imp_dvd)
  have c: "sint (ucast (key_pos div 16) :: 32 word) = int a"
    using key_pos_counter [of key_pos] assms(5) a by simp
  have "key_pos mod 16 = 0" using assms(3) by (simp add: word_unat_eq_iff unat_mod)
  moreover have "gen_counters (gk_iv gk) (int a) k = Some (map (\<lambda>i. counter_add (gk_iv gk) (of_nat i)) [a..<a + k])"
    using gen_counters_Some [of "int a" k] assms(5) a by simp
  moreover have "concat (map (\<lambda>i. aes (key_base gk) (counter_add (gk_iv gk) (of_nat i))) [a..<a + k]) =
      ks_range aes (key_base gk) (gk_iv gk) (unat key_pos) n"
    using concat_blocks [of "\<lambda>i. aes (key_base gk) (counter_add (gk_iv gk) (of_nat i))" a k] assms(1,2) a
    by (simp add: aes_block_def ks_range_def ks_byte_def [abs_def] algebra_simps)
  ultimately show ?thesis
    using c a by (simp add: chiaki_gkcrypt_gen_key_stream_def comp_def)
qed

section \<open>The ring buffer\<close>

text \<open>
  What the fields of the ring mean: the populated bytes, read in a circle from the start
  offset, are the key stream from \<open>key_buf_key_pos_min\<close> on. The smallest position never runs
  ahead of the last requested one by more than a chunk.
\<close>

definition ring_inv :: "(bytes \<Rightarrow> bytes \<Rightarrow> bytes) \<Rightarrow> gkcrypt \<Rightarrow> bytes \<Rightarrow> bool" where
  "ring_inv aes gk kb \<longleftrightarrow>
     length kb = unat (key_buf_size gk) \<and> 0 < unat (key_buf_size gk) \<and> 4096 dvd unat (key_buf_size gk) \<and>
     unat (key_buf_start_offset gk) < unat (key_buf_size gk) \<and> 4096 dvd unat (key_buf_start_offset gk) \<and>
     unat (key_buf_populated gk) \<le> unat (key_buf_size gk) \<and> 4096 dvd unat (key_buf_populated gk) \<and>
     4096 dvd unat (key_buf_key_pos_min gk) \<and>
     unat (key_buf_key_pos_min gk) \<le> unat (last_key_pos gk) + 4096 \<and>
     (\<forall>i < unat (key_buf_populated gk).
        kb ! ((unat (key_buf_start_offset gk) + i) mod unat (key_buf_size gk)) =
          ks_byte aes (key_base gk) (gk_iv gk) (unat (key_buf_key_pos_min gk) + i))"

text \<open>\<open>lim\<close> bounds the positions that are requested; it keeps all counters in the range of \<^verbatim>\<open>int\<close>.\<close>

definition gk_inv :: "(bytes \<Rightarrow> bytes \<Rightarrow> bytes) \<Rightarrow> nat \<Rightarrow> gkcrypt \<Rightarrow> bool" where
  "gk_inv aes lim gk \<longleftrightarrow> length (gk_iv gk) = 16 \<and> unat (last_key_pos gk) \<le> lim \<and>
     lim + unat (key_buf_size gk) + 8192 \<le> 2 ^ 35 - 16 \<and>
     (\<forall>kb. key_buf gk = Some kb \<longrightarrow> ring_inv aes gk kb)"

lemma ring_read:
  assumes "off < m" "n \<le> m" "length kb = m"
  shows "(if off + n > m then take (n - (off + n - m)) (drop off kb) @ take (off + n - m) kb
      else take n (drop off kb)) = map (\<lambda>j. kb ! ((off + j) mod m)) [0..<n]"
proof (rule nth_equalityI)
  fix j assume "j < length (if off + n > m then take (n - (off + n - m)) (drop off kb) @ take (off + n - m) kb
      else take n (drop off kb))"
  then have j: "j < n" using assms by (auto split: if_splits)
  show "(if off + n > m then take (n - (off + n - m)) (drop off kb) @ take (off + n - m) kb
      else take n (drop off kb)) ! j = map (\<lambda>j. kb ! ((off + j) mod m)) [0..<n] ! j"
  proof (cases "off + j < m")
    case True
    moreover have "j < m - off" using True by simp
    ultimately show ?thesis using j assms by (simp add: nth_append)
  next
    case False
    then have "(off + j) mod m = j + off - m" using j assms by (simp add: mod_if add.commute)
    moreover have "\<not> j < m - off" using False by simp
    ultimately show ?thesis using False j assms by (simp add: nth_append)
  qed
qed (use assms in auto)

text \<open>Bounds of the sums the code forms, so that none of them wraps around.\<close>

lemma ring_sums:
  assumes "gk_inv aes lim gk" "key_buf gk = Some kb"
  shows "unat (key_buf_key_pos_min gk + key_buf_populated gk) =
      unat (key_buf_key_pos_min gk) + unat (key_buf_populated gk)"
    and "unat (key_buf_start_offset gk + key_buf_populated gk) =
      unat (key_buf_start_offset gk) + unat (key_buf_populated gk)"
    and "unat (key_buf_key_pos_min gk) + unat (key_buf_populated gk) + 4096 \<le> 2 ^ 35 - 16"
    and "unat (key_buf_populated gk) \<le> unat (key_buf_size gk)" "unat (key_buf_size gk) \<le> 2 ^ 35"
proof -
  have r: "ring_inv aes gk kb" using assms by (simp add: gk_inv_def)
  then show b: "unat (key_buf_key_pos_min gk) + unat (key_buf_populated gk) + 4096 \<le> 2 ^ 35 - 16"
    using assms(1) by (simp add: gk_inv_def ring_inv_def)
  show s: "unat (key_buf_populated gk) \<le> unat (key_buf_size gk)" "unat (key_buf_size gk) \<le> 2 ^ 35"
    using r assms(1) by (simp_all add: gk_inv_def ring_inv_def)
  show "unat (key_buf_key_pos_min gk + key_buf_populated gk) =
      unat (key_buf_key_pos_min gk) + unat (key_buf_populated gk)"
    using b by (intro unat_plus_small) simp
  have "unat (key_buf_start_offset gk) < unat (key_buf_size gk)" using r by (simp add: ring_inv_def)
  then show "unat (key_buf_start_offset gk + key_buf_populated gk) =
      unat (key_buf_start_offset gk) + unat (key_buf_populated gk)"
    using s by (intro unat_plus_small) simp
qed

lemma read_key_stream_spec:
  assumes aes: "aes_block aes" and inv: "gk_inv aes lim g" "key_buf g = Some kb"
    and al: "unat key_pos mod 16 = 0" "n mod 16 = 0" and lim: "unat key_pos + n \<le> lim"
  shows "gkcrypt_read_key_stream aes True g kb key_pos n =
    Some (Inr (ks_range aes (key_base g) (gk_iv g) (unat key_pos) n))"
proof -
  have "unat key_pos + n < 2 ^ 64" using inv lim by (simp add: gk_inv_def)
  then have n: "unat (of_nat n :: u64) = n" by (intro unat_of_nat_small) simp
  have pn: "unat (key_pos + of_nat n) = unat key_pos + n"
    using n \<open>unat key_pos + n < 2 ^ 64\<close> unat_plus_small [of key_pos "of_nat n"] by simp
  note sums = ring_sums [OF inv]
  have r: "ring_inv aes g kb" using inv by (simp add: gk_inv_def)
  let ?ks = "ks_range aes (key_base g) (gk_iv g) (unat key_pos) n"
  show ?thesis
  proof (cases "key_pos < key_buf_key_pos_min g \<or> key_pos + of_nat n \<ge> key_buf_key_pos_min g + key_buf_populated g")
    case True
    have "chiaki_gkcrypt_gen_key_stream aes True g key_pos n = Some (Inr ?ks)"
      using inv lim by (intro gen_key_stream_spec aes al) (simp_all add: gk_inv_def)
    then show ?thesis using True by (simp add: gkcrypt_read_key_stream_def Let_def)
  next
    case False
    let ?min = "unat (key_buf_key_pos_min g)" and ?pop = "unat (key_buf_populated g)"
      and ?size = "unat (key_buf_size g)" and ?start = "unat (key_buf_start_offset g)"
    have range: "?min \<le> unat key_pos" "unat key_pos + n < ?min + ?pop"
      using False pn sums(1) by (simp_all add: word_less_nat_alt word_le_nat_alt)
    have st: "?start < ?size" "?pop \<le> ?size" "?size \<le> 2 ^ 35" "0 < ?size" "length kb = ?size"
      using r sums(5) by (simp_all add: ring_inv_def)
    let ?off = "(unat key_pos - ?min + ?start) mod ?size"
    let ?o = "(key_pos - key_buf_key_pos_min g + key_buf_start_offset g) mod key_buf_size g"
    have "unat (key_pos - key_buf_key_pos_min g) = unat key_pos - ?min" using range(1) by (rule unat_minus_small)
    then have "unat (key_pos - key_buf_key_pos_min g + key_buf_start_offset g) = unat key_pos - ?min + ?start"
      using range st unat_plus_small [of "key_pos - key_buf_key_pos_min g" "key_buf_start_offset g"] by simp
    then have off: "unat ?o = ?off" by (simp add: unat_mod)
    have ob: "?off < ?size" using st(4) by simp
    have nb: "n \<le> ?size" using range st by linarith
    have e: "unat (?o + of_nat n) = ?off + n"
      using off ob nb n st(3) unat_plus_small [of ?o "of_nat n"] by simp
    have content: "map (\<lambda>j. kb ! ((?off + j) mod ?size)) [0..<n] = ?ks"
    proof (rule nth_equalityI)
      fix j assume "j < length (map (\<lambda>j. kb ! ((?off + j) mod ?size)) [0..<n])"
      then have j: "j < n" by simp
      let ?i = "unat key_pos - ?min + j"
      have "(?off + j) mod ?size = (?start + ?i) mod ?size" by (simp add: mod_add_right_eq add_ac)
      moreover have "\<forall>i < ?pop. kb ! ((?start + i) mod ?size) = ks_byte aes (key_base g) (gk_iv g) (?min + i)"
        using r unfolding ring_inv_def by blast
      then have "kb ! ((?start + ?i) mod ?size) = ks_byte aes (key_base g) (gk_iv g) (?min + ?i)"
        using range j by (elim allE [of _ ?i] impE) simp_all
      moreover have "?min + ?i = unat key_pos + j" using range by simp
      ultimately show "map (\<lambda>j. kb ! ((?off + j) mod ?size)) [0..<n] ! j = ?ks ! j"
        using j by (simp add: ks_range_nth)
    qed simp
    note rd = ring_read [OF ob nb st(5), unfolded content]
    show ?thesis
    proof (cases "?off + n > ?size")
      case True
      then have gt: "?o + of_nat n > key_buf_size g" using e by (simp add: word_less_nat_alt)
      then have ex: "unat (?o + of_nat n - key_buf_size g) = ?off + n - ?size"
        using e unat_minus_small [of "key_buf_size g" "?o + of_nat n"] by (simp add: word_less_nat_alt)
      then have ne: "unat (of_nat n - (?o + of_nat n - key_buf_size g)) = n - (?off + n - ?size)"
        using n ob unat_minus_small [of "?o + of_nat n - key_buf_size g" "of_nat n"] by simp
      have b: "?off + (n - (?off + n - ?size)) \<le> length kb" "0 + (?off + n - ?size) \<le> length kb"
        using ob nb st(5) True by simp_all
      show ?thesis
        unfolding gkcrypt_read_key_stream_def Let_def if_not_P [OF False] if_P [OF gt] ex ne off
          rd_n_Some [OF b(1)] rd_n_Some [OF b(2)]
        using rd True by simp
    next
      case le: False
      then have gt: "\<not> ?o + of_nat n > key_buf_size g" using e by (simp add: word_less_nat_alt)
      have b: "?off + n \<le> length kb" using le st(5) by simp
      show ?thesis
        unfolding gkcrypt_read_key_stream_def Let_def if_not_P [OF False] if_not_P [OF gt] off rd_n_Some [OF b]
        using rd le by simp
    qed
  qed
qed

lemma gk_inv_last:
  assumes "gk_inv aes lim gk" "unat (last_key_pos gk) \<le> unat l" "unat l \<le> lim"
  shows "gk_inv aes lim (gk\<lparr>last_key_pos := l\<rparr>)"
  using assms by (auto simp: gk_inv_def ring_inv_def)

lemma get_key_stream_spec:
  assumes aes: "aes_block aes" and inv: "gk_inv aes lim gk"
    and al: "unat key_pos mod 16 = 0" "n mod 16 = 0" and lim: "unat key_pos + n \<le> lim"
  shows "\<exists>l s. chiaki_gkcrypt_get_key_stream aes True gk key_pos n =
      Some (gk\<lparr>last_key_pos := l\<rparr>, Inr (ks_range aes (key_base gk) (gk_iv gk) (unat key_pos) n), s) \<and>
    gk_inv aes lim (gk\<lparr>last_key_pos := l\<rparr>)"
proof (cases "key_buf gk")
  case None
  have "chiaki_gkcrypt_gen_key_stream aes True gk key_pos n =
      Some (Inr (ks_range aes (key_base gk) (gk_iv gk) (unat key_pos) n))"
    using inv lim by (intro gen_key_stream_spec aes al) (simp_all add: gk_inv_def)
  then have "chiaki_gkcrypt_get_key_stream aes True gk key_pos n =
      Some (gk\<lparr>last_key_pos := last_key_pos gk\<rparr>, Inr (ks_range aes (key_base gk) (gk_iv gk) (unat key_pos) n), False)"
    by (simp add: chiaki_gkcrypt_get_key_stream_def None)
  then show ?thesis using inv by (intro exI [of _ "last_key_pos gk"] exI [of _ False]) simp
next
  case (Some kb)
  have "n < 2 ^ 64" "unat key_pos + n < 2 ^ 64" using inv lim by (simp_all add: gk_inv_def)
  then have "unat (of_nat n :: u64) = n" by (intro unat_of_nat_small) simp
  then have pn: "unat (key_pos + of_nat n) = unat key_pos + n"
    using \<open>unat key_pos + n < 2 ^ 64\<close> unat_plus_small [of key_pos "of_nat n"] by simp
  define l where "l = (if key_pos + of_nat n > last_key_pos gk then key_pos + of_nat n else last_key_pos gk)"
  have g: "gk_inv aes lim (gk\<lparr>last_key_pos := l\<rparr>)"
    using inv lim pn by (intro gk_inv_last) (auto simp: l_def word_less_nat_alt gk_inv_def)
  have eq: "(if key_pos + of_nat n > last_key_pos gk then gk\<lparr>last_key_pos := key_pos + of_nat n\<rparr> else gk) =
      gk\<lparr>last_key_pos := l\<rparr>"
    by (simp add: l_def)
  have "gkcrypt_read_key_stream aes True (gk\<lparr>last_key_pos := l\<rparr>) kb key_pos n =
      Some (Inr (ks_range aes (key_base gk) (gk_iv gk) (unat key_pos) n))"
    using read_key_stream_spec [OF aes g _ al lim] Some by simp
  then show ?thesis
    using g unfolding chiaki_gkcrypt_get_key_stream_def Some option.case Let_def eq by auto
qed

section \<open>Decryption\<close>

lemma map2_xor_nth: "i < length xs \<Longrightarrow> length xs \<le> length ks \<Longrightarrow> map2 (XOR) xs ks ! i = xs ! i XOR ks ! i"
  by simp

lemma decrypt_spec:
  assumes aes: "aes_block aes" and inv: "gk_inv aes lim gk" and lim: "unat key_pos + length buf + 16 \<le> lim"
  shows "\<exists>l. chiaki_gkcrypt_decrypt aes True True gk key_pos buf =
      Some (gk\<lparr>last_key_pos := l\<rparr>,
        Inr (map2 (XOR) buf (ks_range aes (key_base gk) (gk_iv gk) (unat key_pos) (length buf)))) \<and>
    gk_inv aes lim (gk\<lparr>last_key_pos := l\<rparr>)"
proof -
  let ?pad = "unat key_pos mod 16" and ?n = "length buf"
  let ?full = "((?pad + ?n + 16 - 1) div 16) * 16"
  have pad: "unat (key_pos mod 16) = ?pad" by (simp add: unat_mod)
  have "key_pos mod 16 \<le> key_pos" by (simp add: word_le_nat_alt unat_mod)
  then have start: "unat (key_pos - key_pos mod 16) = unat key_pos - ?pad"
    using pad by (simp add: unat_minus_small word_le_nat_alt)
  have full: "?pad + ?n \<le> ?full" "?full \<le> ?pad + ?n + 15" "?full mod 16 = 0"
    by (simp, linarith)+ auto
  have al: "unat (key_pos - key_pos mod 16) mod 16 = 0" by (simp only: start) (simp add: minus_mod_eq_mult_div)
  have le: "unat (key_pos - key_pos mod 16) + ?full \<le> lim" using full(2) lim start by linarith
  obtain l s where get: "chiaki_gkcrypt_get_key_stream aes True gk (key_pos - key_pos mod 16) ?full =
      Some (gk\<lparr>last_key_pos := l\<rparr>,
        Inr (ks_range aes (key_base gk) (gk_iv gk) (unat (key_pos - key_pos mod 16)) ?full), s)"
    "gk_inv aes lim (gk\<lparr>last_key_pos := l\<rparr>)"
    using get_key_stream_spec [OF aes inv al full(3) le] by (elim exE conjE)
  let ?ks = "ks_range aes (key_base gk) (gk_iv gk) (unat (key_pos - key_pos mod 16)) ?full"
  have "take ?n (drop ?pad ?ks) = ks_range aes (key_base gk) (gk_iv gk) (unat key_pos - ?pad + ?pad) ?n"
    using ks_range_drop_take [of ?pad ?n ?full] full(1) start by simp
  then have "take ?n (drop ?pad ?ks) = ks_range aes (key_base gk) (gk_iv gk) (unat key_pos) ?n" by simp
  moreover have "?n \<le> length (drop ?pad ?ks)" using full(1) by simp
  ultimately have "xor_bytes buf (drop ?pad ?ks) ?n =
      Some (map2 (XOR) buf (ks_range aes (key_base gk) (gk_iv gk) (unat key_pos) ?n))"
    by (simp add: xor_bytes_Some)
  then show ?thesis using get by (intro exI [of _ l]) (simp add: chiaki_gkcrypt_decrypt_def Let_def pad)
qed

section \<open>Filling the ring\<close>

lemma dvd_room:
  fixes a b d :: nat
  assumes "d dvd a" "d dvd b" "a < b"
  shows "a + d \<le> b"
proof -
  have "d dvd b - a" using assms by (intro dvd_diff_nat)
  then have "d \<le> b - a" using assms(3) by (intro dvd_imp_le) simp_all
  then show ?thesis using assms(3) by simp
qed

lemma make_room_inv:
  assumes inv: "gk_inv aes lim gk" "key_buf gk = Some kb"
    and pred: "key_buf_mutex_pred gk" "\<not> key_buf_thread_stop gk"
  shows "gk_inv aes lim (gkcrypt_thread_make_room gk) \<and>
    unat (key_buf_populated (gkcrypt_thread_make_room gk)) + 4096 \<le> unat (key_buf_size gk)"
proof -
  have r: "ring_inv aes gk kb" using inv by (simp add: gk_inv_def)
  note sums = ring_sums [OF inv]
  let ?min = "unat (key_buf_key_pos_min gk)" and ?pop = "unat (key_buf_populated gk)"
    and ?size = "unat (key_buf_size gk)" and ?start = "unat (key_buf_start_offset gk)" and ?last = "unat (last_key_pos gk)"
  have f: "4096 dvd ?size" "0 < ?size" "?start < ?size" "4096 dvd ?start" "4096 dvd ?pop" "4096 dvd ?min" "length kb = ?size"
    and content: "\<And>i. i < ?pop \<Longrightarrow> kb ! ((?start + i) mod ?size) = ks_byte aes (key_base gk) (gk_iv gk) (?min + i)"
    using r by (simp_all add: ring_inv_def)
  have "4096 \<le> ?size" using f(1,2) by (rule dvd_imp_le)
  consider "?last > ?min + ?pop" | "\<not> ?last > ?min + ?pop" "?pop = ?size" | "\<not> ?last > ?min + ?pop" "?pop \<noteq> ?size"
    by blast
  then show ?thesis
  proof cases
    case 1
    have u: "unat (last_key_pos gk div 4096 * 4096) = ?last div 4096 * 4096"
    proof -
      have "?last div 4096 * 4096 < 2 ^ 64" using unat_lt_exp [of "last_key_pos gk"] by (simp add: le_less_trans)
      then show ?thesis by (simp add: unat_word_ariths unat_div)
    qed
    have "gkcrypt_thread_make_room gk = gk\<lparr>key_buf_key_pos_min := (last_key_pos gk div 4096) * 4096,
        key_buf_start_offset := 0, key_buf_populated := 0\<rparr>"
      using 1 sums(1) by (simp add: gkcrypt_thread_make_room_def word_less_nat_alt)
    then show ?thesis
      using inv f u \<open>4096 \<le> ?size\<close> by (simp add: gk_inv_def ring_inv_def trans_le_add1)
  next
    case 2
    have "unat (key_buf_key_pos_min gk + key_buf_populated gk div 2) = ?min + ?pop div 2"
      using sums(1,3) by (subst unat_plus_small) (simp_all add: unat_div)
    then have lead: "?last > ?min + ?pop div 2"
      using pred 2 by (auto simp: key_buf_mutex_pred_def gkcrypt_key_buf_should_generate_def word_less_nat_alt)
    let ?g = "gk\<lparr>key_buf_start_offset := (key_buf_start_offset gk + 4096) mod key_buf_size gk,
              key_buf_key_pos_min := key_buf_key_pos_min gk + 4096,
              key_buf_populated := key_buf_populated gk - 4096\<rparr>"
    have room: "gkcrypt_thread_make_room gk = ?g"
      using 2 sums(1) by (simp add: gkcrypt_thread_make_room_def word_less_nat_alt word_unat_eq_iff)
    have "unat (key_buf_start_offset gk + 4096) = ?start + 4096"
      using f(3) sums(5) unat_plus_small [of "key_buf_start_offset gk" 4096] by simp
    then have u1: "unat ((key_buf_start_offset gk + 4096) mod key_buf_size gk) = (?start + 4096) mod ?size"
      by (simp add: unat_mod)
    have u2: "unat (key_buf_key_pos_min gk + 4096) = ?min + 4096"
      using sums(3) unat_plus_small [of "key_buf_key_pos_min gk" 4096] by simp
    have u3: "unat (key_buf_populated gk - 4096) = ?pop - 4096"
      using 2 \<open>4096 \<le> ?size\<close> unat_minus_small [of 4096 "key_buf_populated gk"] by simp
    have c: "kb ! (((?start + 4096) mod ?size + i) mod ?size) = ks_byte aes (key_base gk) (gk_iv gk) (?min + 4096 + i)"
      if "i < ?pop - 4096" for i
      using content [of "4096 + i"] that by (simp add: mod_add_right_eq add_ac)
    have "?min + 4096 \<le> ?last + 4096" using lead by simp
    moreover have "4096 dvd (?start + 4096) mod ?size" using f(1,4) by (simp add: dvd_mod)
    moreover have "4096 dvd ?pop - 4096" using f(5) by simp
    moreover have "4096 dvd ?min + 4096" using f(6) by simp
    moreover have "?pop - 4096 \<le> ?size" using 2 by simp
    ultimately have "ring_inv aes ?g kb"
      using f c by (simp add: ring_inv_def u1 u2 u3)
    then have "gk_inv aes lim ?g" using inv by (simp add: gk_inv_def)
    then show ?thesis using 2 u3 \<open>4096 \<le> ?size\<close> by (simp add: room)
  next
    case 3
    have "gkcrypt_thread_make_room gk = gk"
      using 3 sums(1) by (simp add: gkcrypt_thread_make_room_def word_less_nat_alt word_unat_eq_iff)
    moreover have "?pop + 4096 \<le> ?size"
      using 3 sums(4) f(1,5) by (intro dvd_room) simp_all
    ultimately show ?thesis using inv by simp
  qed
qed

lemma generate_next_chunk_inv:
  assumes aes: "aes_block aes" and inv: "gk_inv aes lim gk" "key_buf gk = Some kb"
    and room: "unat (key_buf_populated gk) + 4096 \<le> unat (key_buf_size gk)"
  shows "\<exists>kb'. gkcrypt_generate_next_chunk aes True gk =
      Some (gk\<lparr>key_buf := Some kb', key_buf_populated := key_buf_populated gk + 4096\<rparr>, CHIAKI_ERR_SUCCESS) \<and>
    gk_inv aes lim (gk\<lparr>key_buf := Some kb', key_buf_populated := key_buf_populated gk + 4096\<rparr>)"
proof -
  have r: "ring_inv aes gk kb" using inv by (simp add: gk_inv_def)
  note sums = ring_sums [OF inv]
  let ?min = "unat (key_buf_key_pos_min gk)" and ?pop = "unat (key_buf_populated gk)"
    and ?size = "unat (key_buf_size gk)" and ?start = "unat (key_buf_start_offset gk)"
  have f: "4096 dvd ?size" "0 < ?size" "?start < ?size" "4096 dvd ?start" "4096 dvd ?pop" "4096 dvd ?min" "length kb = ?size"
    and content: "\<And>i. i < ?pop \<Longrightarrow> kb ! ((?start + i) mod ?size) = ks_byte aes (key_base gk) (gk_iv gk) (?min + i)"
    using r unfolding ring_inv_def by blast+
  have u: "unat (key_buf_populated gk + 4096) = ?pop + 4096"
    using room sums(5) unat_plus_small [of "key_buf_populated gk" 4096] by simp
  let ?off = "(?start + ?pop) mod ?size"
  have off: "unat ((key_buf_start_offset gk + key_buf_populated gk) mod key_buf_size gk) = ?off"
    using sums(2) by (simp add: unat_mod)
  have "4096 dvd ?off" "?off < ?size" using f by (simp_all add: dvd_mod)
  then have fit: "?off + 4096 \<le> ?size" using f(1) dvd_room by blast
  let ?chunk = "ks_range aes (key_base gk) (gk_iv gk) (?min + ?pop) 4096"
  have "4096 dvd ?min + ?pop" using f by simp
  then have "16 dvd ?min + ?pop" by (rule dvd_trans [rotated]) simp
  then have "(?min + ?pop) mod 16 = 0" by (simp only: mod_eq_0_iff_dvd)
  then have gen: "chiaki_gkcrypt_gen_key_stream aes True gk (key_buf_key_pos_min gk + key_buf_populated gk) 4096 =
      Some (Inr ?chunk)"
    using gen_key_stream_spec [OF aes, of gk "key_buf_key_pos_min gk + key_buf_populated gk" 4096] sums inv
    by (simp add: gk_inv_def)
  let ?kb = "upd kb ?off ?chunk"
  have wr: "wr kb ?off ?chunk = Some ?kb" using fit f(7) by (intro wr_Some) simp
  let ?g = "gk\<lparr>key_buf := Some ?kb, key_buf_populated := key_buf_populated gk + 4096\<rparr>"
  have "?kb ! ((?start + i) mod ?size) = ks_byte aes (key_base gk) (gk_iv gk) (?min + i)" if i: "i < ?pop + 4096" for i
  proof -
    have b: "(?start + i) mod ?size < length kb" using f by simp
    have at: "?kb ! ((?start + i) mod ?size) =
        (if ?off \<le> (?start + i) mod ?size \<and> (?start + i) mod ?size < ?off + 4096
         then ?chunk ! ((?start + i) mod ?size - ?off) else kb ! ((?start + i) mod ?size))"
      using nth_upd [of ?off ?chunk kb "(?start + i) mod ?size"] fit f(7) b by simp
    show ?thesis
    proof (cases "i < ?pop")
      case True
      have "(?start + i) mod ?size \<noteq> ?off + j" if "j < 4096" for j
      proof
        assume "(?start + i) mod ?size = ?off + j"
        also have "\<dots> = (?off + j) mod ?size" using that fit by simp
        also have "\<dots> = (?start + (?pop + j)) mod ?size" by (simp add: mod_add_left_eq add.assoc)
        finally have "i = ?pop + j" using circular_inj [of i ?size "?pop + j" ?start] True that room by simp
        then show False using True by simp
      qed
      then have out: "\<not> (?off \<le> (?start + i) mod ?size \<and> (?start + i) mod ?size < ?off + 4096)"
        by (metis add_less_cancel_left le_add_diff_inverse)
      show ?thesis using content [OF True] by (simp only: at if_not_P [OF out])
    next
      case False
      then obtain j where j: "i = ?pop + j" "j < 4096" using i by (metis le_add_diff_inverse nat_add_left_cancel_less not_less)
      have "(?start + i) mod ?size = (?off + j) mod ?size" using j(1) by (simp add: mod_add_left_eq add.assoc)
      also have "\<dots> = ?off + j" using j fit by simp
      finally show ?thesis using at j by (simp add: ks_range_nth add.assoc)
    qed
  qed
  moreover have "length ?kb = ?size" using fit f(7) by simp
  ultimately have "ring_inv aes ?g ?kb"
    using r room by (simp add: ring_inv_def u)
  then have "gk_inv aes lim ?g" using inv by (simp add: gk_inv_def)
  moreover have "key_buf_populated gk + 4096 \<le> key_buf_size gk" using room u by (simp add: word_le_nat_alt)
  ultimately show ?thesis
    using gen wr off inv(2) by (intro exI [of _ ?kb]) (simp add: gkcrypt_generate_next_chunk_def Let_def)
qed

section \<open>The authentication code\<close>

text \<open>The key of a key index, as the peer computes it.\<close>

definition gmac_key_at :: "(bytes \<Rightarrow> bytes) \<Rightarrow> bytes \<Rightarrow> bytes \<Rightarrow> u64 \<Rightarrow> bytes option" where
  "gmac_key_at sha base iv index =
     (if index = 0 then Some base else chiaki_gkcrypt_gen_gmac_key sha index base iv)"

definition gmac_inv :: "(bytes \<Rightarrow> bytes) \<Rightarrow> gkcrypt \<Rightarrow> bool" where
  "gmac_inv sha gk \<longleftrightarrow>
     Some (key_gmac_current gk) = gmac_key_at sha (key_gmac_base gk) (gk_iv gk) (key_gmac_index_current gk)"

definition gmac_index :: "u64 \<Rightarrow> u64" where
  "gmac_index key_pos = (if key_pos > 0 then key_pos - 1 else 0) div 45000"

definition sha_digest :: "(bytes \<Rightarrow> bytes) \<Rightarrow> bool" where
  "sha_digest sha \<longleftrightarrow> (\<forall>m. length (sha m) = 32)"

lemma gen_gmac_key_Some: "sha_digest sha \<Longrightarrow> \<exists>k. chiaki_gkcrypt_gen_gmac_key sha index key iv = Some k"
  by (simp add: chiaki_gkcrypt_gen_gmac_key_def sha_digest_def xor_bytes_Some Let_def)

lemma gmac_spec:
  assumes "sha_digest sha" "gmac_inv sha gk"
  shows "\<exists>gk'. chiaki_gkcrypt_gmac sha gcm gk key_pos buf =
      Some (gk', gcm (the (gmac_key_at sha (key_gmac_base gk) (gk_iv gk) (gmac_index key_pos)))
        (counter_add (gk_iv gk) (key_pos div 16)) buf) \<and> gmac_inv sha gk' \<and>
    (\<exists>k i. gk' = gk\<lparr>key_gmac_current := k, key_gmac_index_current := i\<rparr>)"
proof -
  let ?i = "gmac_index key_pos"
  have idx: "(if key_pos > 0 then key_pos - 1 else 0) div CHIAKI_GKCRYPT_GMAC_KEY_REFRESH_KEY_POS = ?i"
    by (simp add: gmac_index_def CHIAKI_GKCRYPT_GMAC_KEY_REFRESH_KEY_POS_def)
  obtain k where k: "chiaki_gkcrypt_gen_gmac_key sha ?i (key_gmac_base gk) (gk_iv gk) = Some k"
    using gen_gmac_key_Some [OF assms(1)] by blast
  have same: "\<exists>k i. gk = gk\<lparr>key_gmac_current := k, key_gmac_index_current := i\<rparr>"
    by (rule exI [of _ "key_gmac_current gk"], rule exI [of _ "key_gmac_index_current gk"]) simp
  consider "?i > key_gmac_index_current gk" | "?i < key_gmac_index_current gk" | "?i = key_gmac_index_current gk"
    by fastforce
  then show ?thesis
  proof cases
    case 1
    then have pos: "?i > 0" by (metis word_coorder.not_eq_extremum word_not_simps(1))
    then have "gmac_inv sha (gk\<lparr>key_gmac_current := k, key_gmac_index_current := ?i\<rparr>)"
      using k by (auto simp: gmac_inv_def gmac_key_at_def)
    moreover have "chiaki_gkcrypt_gen_new_gmac_key sha gk ?i = Some (gk\<lparr>key_gmac_current := k, key_gmac_index_current := ?i\<rparr>)"
      using pos k by (simp add: chiaki_gkcrypt_gen_new_gmac_key_def)
    ultimately show ?thesis
      using 1 k pos unfolding chiaki_gkcrypt_gmac_def Let_def idx by (auto simp: gmac_key_at_def)
  next
    case 2
    then have "chiaki_gkcrypt_gmac sha gcm gk key_pos buf =
      Some (gk, gcm (the (gmac_key_at sha (key_gmac_base gk) (gk_iv gk) ?i)) (counter_add (gk_iv gk) (key_pos div 16)) buf)"
      using k unfolding chiaki_gkcrypt_gmac_def Let_def idx
      by (auto simp: gmac_key_at_def chiaki_gkcrypt_gen_tmp_gmac_key_def)
    then show ?thesis using same assms(2) by blast
  next
    case 3
    then have "the (gmac_key_at sha (key_gmac_base gk) (gk_iv gk) ?i) = key_gmac_current gk"
      using assms(2) by (metis gmac_inv_def option.sel)
    then have "chiaki_gkcrypt_gmac sha gcm gk key_pos buf =
      Some (gk, gcm (the (gmac_key_at sha (key_gmac_base gk) (gk_iv gk) ?i)) (counter_add (gk_iv gk) (key_pos div 16)) buf)"
      using 3 unfolding chiaki_gkcrypt_gmac_def Let_def idx by auto
    then show ?thesis using same assms(2) by blast
  qed
qed

section \<open>All interleavings of the thread and the users\<close>

text \<open>
  A step of the program on a \<open>gkcrypt\<close>. The flag says that the thread has released the mutex
  in \<^verbatim>\<open>gkcrypt_generate_next_chunk\<close> and is writing the next chunk; meanwhile the bytes that are
  not populated may have any value (\<open>gk_write\<close>). The bound \<open>lim\<close> limits the positions requested.
\<close>

inductive gk_step ::
  "(bytes \<Rightarrow> bytes \<Rightarrow> bytes) \<Rightarrow> (bytes \<Rightarrow> bytes) \<Rightarrow> nat \<Rightarrow> bool \<times> gkcrypt \<Rightarrow> bool \<times> gkcrypt \<Rightarrow> bool"
  for aes sha lim where
  gk_crypt: "chiaki_gkcrypt_get_key_stream aes ok gk key_pos n = Some (gk', r, s) \<Longrightarrow> unat key_pos + n \<le> lim \<Longrightarrow>
    gk_step aes sha lim (w, gk) (w, gk')"
| gk_gmac: "chiaki_gkcrypt_gmac sha gcm gk key_pos buf = Some (gk', r) \<Longrightarrow> gk_step aes sha lim (w, gk) (w, gk')"
| gk_room: "key_buf_mutex_pred gk \<Longrightarrow> \<not> key_buf_thread_stop gk \<Longrightarrow> key_buf gk \<noteq> None \<Longrightarrow>
    gk_step aes sha lim (False, gk) (True, gkcrypt_thread_make_room gk)"
| gk_write: "key_buf gk = Some kb \<Longrightarrow> length kb' = length kb \<Longrightarrow>
    \<forall>i < unat (key_buf_populated gk).
      kb' ! ((unat (key_buf_start_offset gk) + i) mod unat (key_buf_size gk)) =
      kb ! ((unat (key_buf_start_offset gk) + i) mod unat (key_buf_size gk)) \<Longrightarrow>
    gk_step aes sha lim (True, gk) (True, gk\<lparr>key_buf := Some kb'\<rparr>)"
| gk_chunk: "gkcrypt_generate_next_chunk aes ok gk = Some (gk', err) \<Longrightarrow> gk_step aes sha lim (True, gk) (False, gk')"
| gk_stop: "gk_step aes sha lim (w, gk) (w, gk\<lparr>key_buf_thread_stop := True\<rparr>)"

inductive_cases gk_stepE: "gk_step aes sha lim st st'"

definition gk_state_inv ::
  "(bytes \<Rightarrow> bytes \<Rightarrow> bytes) \<Rightarrow> (bytes \<Rightarrow> bytes) \<Rightarrow> nat \<Rightarrow> gkcrypt \<Rightarrow> bool \<times> gkcrypt \<Rightarrow> bool" where
  "gk_state_inv aes sha lim gk0 st \<longleftrightarrow> gk_inv aes lim (snd st) \<and> gmac_inv sha (snd st) \<and>
     key_base (snd st) = key_base gk0 \<and> gk_iv (snd st) = gk_iv gk0 \<and> key_gmac_base (snd st) = key_gmac_base gk0 \<and>
     (fst st \<longrightarrow> key_buf (snd st) \<noteq> None \<and>
       unat (key_buf_populated (snd st)) + 4096 \<le> unat (key_buf_size (snd st)))"

lemma get_key_stream_state:
  assumes "chiaki_gkcrypt_get_key_stream aes ok gk key_pos n = Some (gk', r, s)" "gk_inv aes lim gk" "unat key_pos + n \<le> lim"
  shows "\<exists>l. gk' = gk\<lparr>last_key_pos := l\<rparr> \<and> gk_inv aes lim gk'"
proof (cases "key_buf gk = None \<or> \<not> key_pos + of_nat n > last_key_pos gk")
  case True
  then have "gk' = gk"
    using assms(1) by (auto simp: chiaki_gkcrypt_get_key_stream_def Let_def split: option.splits bind_splits)
  then show ?thesis using assms(2) by (intro exI [of _ "last_key_pos gk"]) simp
next
  case False
  have "n < 2 ^ 64" "unat key_pos + n < 2 ^ 64" using assms(2,3) by (simp_all add: gk_inv_def)
  then have "unat (of_nat n :: u64) = n" by (intro unat_of_nat_small) simp
  then have "unat (key_pos + of_nat n) = unat key_pos + n"
    using \<open>unat key_pos + n < 2 ^ 64\<close> unat_plus_small [of key_pos "of_nat n"] by simp
  moreover have "gk' = gk\<lparr>last_key_pos := key_pos + of_nat n\<rparr>"
    using False assms(1) by (auto simp: chiaki_gkcrypt_get_key_stream_def Let_def split: option.splits bind_splits)
  ultimately show ?thesis
    using gk_inv_last [OF assms(2), of "key_pos + of_nat n"] assms(3) False by (auto simp: word_less_nat_alt)
qed

lemma make_room_fields:
  "key_base (gkcrypt_thread_make_room gk) = key_base gk" "gk_iv (gkcrypt_thread_make_room gk) = gk_iv gk"
  "key_gmac_base (gkcrypt_thread_make_room gk) = key_gmac_base gk"
  "key_gmac_current (gkcrypt_thread_make_room gk) = key_gmac_current gk"
  "key_gmac_index_current (gkcrypt_thread_make_room gk) = key_gmac_index_current gk"
  "key_buf (gkcrypt_thread_make_room gk) = key_buf gk" "key_buf_size (gkcrypt_thread_make_room gk) = key_buf_size gk"
  by (simp_all add: gkcrypt_thread_make_room_def)

lemma generate_fail:
  assumes "gkcrypt_generate_next_chunk aes False gk = Some (gk', err)"
  shows "gk' = gk"
  using assms by (auto simp: gkcrypt_generate_next_chunk_def chiaki_gkcrypt_gen_key_stream_def Let_def
      split: if_splits bind_splits)

lemma gk_inv_gmac:
  "gk_inv aes lim (gk\<lparr>key_gmac_current := k, key_gmac_index_current := i\<rparr>) = gk_inv aes lim gk"
  by (simp add: gk_inv_def ring_inv_def)

lemma gk_inv_stop: "gk_inv aes lim (gk\<lparr>key_buf_thread_stop := b\<rparr>) = gk_inv aes lim gk"
  by (simp add: gk_inv_def ring_inv_def)

lemma gk_step_inv:
  assumes "aes_block aes" "sha_digest sha" "gk_step aes sha lim st st'" "gk_state_inv aes sha lim gk0 st"
  shows "gk_state_inv aes sha lim gk0 st'"
  using assms(3,4)
proof cases
  case (gk_crypt ok gk key_pos n gk' r s w)
  then obtain l where "gk' = gk\<lparr>last_key_pos := l\<rparr>" "gk_inv aes lim gk'"
    using get_key_stream_state assms(4) by (fastforce simp: gk_state_inv_def)
  then show ?thesis using gk_crypt assms(4) by (simp add: gk_state_inv_def gmac_inv_def)
next
  case (gk_gmac gcm gk key_pos buf gk' r w)
  then have "gmac_inv sha gk" "gk_inv aes lim gk" using assms(4) by (simp_all add: gk_state_inv_def)
  then obtain k i where "gk' = gk\<lparr>key_gmac_current := k, key_gmac_index_current := i\<rparr>" "gmac_inv sha gk'"
    using gmac_spec [OF assms(2), of gk gcm key_pos buf] gk_gmac(3) by auto
  then show ?thesis using gk_gmac assms(4) by (simp add: gk_state_inv_def gk_inv_gmac)
next
  case (gk_room gk)
  then obtain kb where "key_buf gk = Some kb" by blast
  then have "gk_inv aes lim (gkcrypt_thread_make_room gk)"
      "unat (key_buf_populated (gkcrypt_thread_make_room gk)) + 4096 \<le> unat (key_buf_size gk)"
    using make_room_inv [of aes lim gk kb] gk_room assms(4) by (simp_all add: gk_state_inv_def)
  then show ?thesis using gk_room assms(4) by (simp add: gk_state_inv_def make_room_fields gmac_inv_def)
next
  case (gk_write gk kb kb')
  then have "ring_inv aes gk kb" using assms(4) by (simp add: gk_state_inv_def gk_inv_def)
  then have "ring_inv aes (gk\<lparr>key_buf := Some kb'\<rparr>) kb'"
    using gk_write(4,5) unfolding ring_inv_def by simp
  moreover have "gk_inv aes lim gk" using gk_write assms(4) by (simp add: gk_state_inv_def)
  ultimately have "gk_inv aes lim (gk\<lparr>key_buf := Some kb'\<rparr>)" by (simp add: gk_inv_def)
  then show ?thesis using gk_write assms(4) by (simp add: gk_state_inv_def gmac_inv_def)
next
  case (gk_chunk ok gk gk' err)
  then obtain kb where kb: "key_buf gk = Some kb" using assms(4) by (auto simp: gk_state_inv_def)
  show ?thesis
  proof (cases ok)
    case True
    then obtain kb' where "gk' = gk\<lparr>key_buf := Some kb', key_buf_populated := key_buf_populated gk + 4096\<rparr>" "gk_inv aes lim gk'"
      using generate_next_chunk_inv [OF assms(1) _ kb, of lim] gk_chunk assms(4) by (auto simp: gk_state_inv_def)
    then show ?thesis using gk_chunk assms(4) by (simp add: gk_state_inv_def gmac_inv_def)
  next
    case False
    then show ?thesis using generate_fail [of aes gk gk' err] gk_chunk assms(4) by (simp add: gk_state_inv_def)
  qed
next
  case (gk_stop w gk)
  then show ?thesis using assms(4) by (simp add: gk_state_inv_def gk_inv_stop gmac_inv_def)
qed

lemma gk_steps_inv:
  assumes "aes_block aes" "sha_digest sha" "(gk_step aes sha lim)\<^sup>*\<^sup>* st st'" "gk_state_inv aes sha lim gk0 st"
  shows "gk_state_inv aes sha lim gk0 st'"
  using assms(3,4) by (induction rule: rtranclp_induct) (auto intro: gk_step_inv [OF assms(1,2)])

lemma gk_init_inv:
  assumes "chiaki_gkcrypt_init hmac sha (Some kb) me ce te chunks index hk secret = Some (Inr gk0)"
    and "length kb = unat chunks * 4096" "unat chunks \<le> 2 ^ 20" "lim \<le> 2 ^ 34"
  shows "gk_state_inv aes sha lim gk0 (False, gk0)"
proof -
  have u: "unat (chunks * 4096) = unat chunks * 4096" using assms(3) by (simp add: unat_word_ariths)
  obtain h gmac where h: "length h = 32" "gk0 = \<lparr>gk_index = index,
      key_buf = (if chunks * 4096 \<noteq> 0 then Some kb else None), key_buf_size = chunks * 4096,
      key_buf_populated = 0, key_buf_key_pos_min = 0, key_buf_start_offset = 0, last_key_pos = 0,
      key_buf_thread_stop = False, gk_iv = take 16 (drop 16 h), key_base = take 16 h, key_gmac_base = gmac,
      key_gmac_current = gmac, key_gmac_index_current = 0\<rparr>"
    using assms(1) by (auto simp: chiaki_gkcrypt_init_def gkcrypt_gen_key_iv_def Let_def
        split: if_splits option.splits bind_splits)
  have "chunks * 4096 \<noteq> 0 \<Longrightarrow> ring_inv aes gk0 kb"
    unfolding h(2) ring_inv_def using u assms(2) by (auto simp: unat_gt_0)
  then show ?thesis
    using h assms(3,4) u by (simp add: gk_state_inv_def gk_inv_def gmac_inv_def gmac_key_at_def)
qed

section \<open>Properties\<close>

text \<open>
  C3: at any time in the life of a \<^verbatim>\<open>ChiakiGKCrypt\<close>, whatever the users of the key stream, the
  authentication and the thread have done before and while the thread is writing a chunk,
  decryption at a key position is the exclusive or of the packet with the key stream at that
  position: byte \<open>p\<close> of the stream is byte \<open>p mod 16\<close> of the counter block \<open>iv + p div 16\<close>
  encrypted under the key. The bound is 16 GiB of stream and 4 GiB of buffer; with it no
  counter and no position overflows.
\<close>

theorem gkcrypt_decrypt_key_stream:
  assumes "aes_block aes" "sha_digest sha"
    and "chiaki_gkcrypt_init hmac sha (Some kb) me ce te chunks index hk secret = Some (Inr gk0)"
    and "length kb = unat chunks * 4096" "unat chunks \<le> 2 ^ 20"
    and "(gk_step aes sha (2 ^ 34))\<^sup>*\<^sup>* (False, gk0) (w, gk)"
    and "unat key_pos + length buf + 16 \<le> 2 ^ 34"
  shows "map_option snd (chiaki_gkcrypt_decrypt aes True True gk key_pos buf) = Some (Inr (map2 (XOR) buf
    (map (\<lambda>p. aes (key_base gk0) (counter_add (gk_iv gk0) (of_nat (p div 16))) ! (p mod 16))
      [unat key_pos..<unat key_pos + length buf])))"
proof -
  have "gk_state_inv aes sha (2 ^ 34) gk0 (w, gk)"
    using gk_steps_inv [OF assms(1,2,6) gk_init_inv [OF assms(3-5)]] by simp
  then have "gk_inv aes (2 ^ 34) gk" "key_base gk = key_base gk0" "gk_iv gk = gk_iv gk0"
    by (simp_all add: gk_state_inv_def)
  then show ?thesis
    using decrypt_spec [OF assms(1) _ assms(7)] by (fastforce simp: ks_range_def ks_byte_def [abs_def])
qed

definition sample_hmac :: "bytes \<Rightarrow> bytes \<Rightarrow> bytes option" where
  "sample_hmac k m = Some (map (\<lambda>i. of_nat i) [0..<32])"

definition sample_sha :: "bytes \<Rightarrow> bytes" where
  "sample_sha m = replicate 32 (foldr (+) m 0)"

definition sample_aes :: "bytes \<Rightarrow> bytes \<Rightarrow> bytes" where
  "sample_aes k b = map ((XOR) 0x55) b"

definition sample_gk :: gkcrypt where
  "sample_gk = (case chiaki_gkcrypt_init sample_hmac sample_sha (Some []) CHIAKI_ERR_SUCCESS CHIAKI_ERR_SUCCESS
     CHIAKI_ERR_SUCCESS 0 2 (replicate 16 0) [] of Some (Inr gk) \<Rightarrow> gk)"

lemma sample_gk_init:
  "chiaki_gkcrypt_init sample_hmac sample_sha (Some []) CHIAKI_ERR_SUCCESS CHIAKI_ERR_SUCCESS
     CHIAKI_ERR_SUCCESS 0 2 (replicate 16 0) [] = Some (Inr sample_gk)"
  by (simp add: sample_gk_def chiaki_gkcrypt_init_def gkcrypt_gen_key_iv_def sample_hmac_def sample_sha_def
      chiaki_gkcrypt_gen_gmac_key_def xor_bytes_Some Let_def)

lemma sample_hyps: "aes_block sample_aes" "sha_digest sample_sha"
  by (simp_all add: aes_block_def sample_aes_def sha_digest_def sample_sha_def)

theorem gkcrypt_decrypt_key_stream_witness:
  "map_option snd (chiaki_gkcrypt_decrypt sample_aes True True sample_gk 30 [1, 2, 3]) =
   Some (Inr (map2 (XOR) [1, 2, 3] (map (\<lambda>p. sample_aes (key_base sample_gk)
     (counter_add (gk_iv sample_gk) (of_nat (p div 16))) ! (p mod 16)) [30..<33])))"
  using gkcrypt_decrypt_key_stream [OF sample_hyps sample_gk_init, of False sample_gk 30 "[1, 2, 3]"]
  by simp

text \<open>
  C26: encryption is undone by decryption at the same key position, and a packet may be
  decrypted in pieces: the pieces at their own positions give the pieces of the whole.
\<close>

theorem gkcrypt_roundtrip_split:
  assumes "aes_block aes" "gk_inv aes lim gk" "unat key_pos + length a + length b + 16 \<le> lim"
  shows "\<exists>gk1 gk2 gk3 gk4 ca cb.
    chiaki_gkcrypt_encrypt aes True True gk key_pos (a @ b) = Some (gk1, Inr (ca @ cb)) \<and>
    length ca = length a \<and>
    chiaki_gkcrypt_decrypt aes True True gk1 key_pos (ca @ cb) = Some (gk2, Inr (a @ b)) \<and>
    chiaki_gkcrypt_decrypt aes True True gk1 key_pos ca = Some (gk3, Inr a) \<and>
    chiaki_gkcrypt_decrypt aes True True gk3 (key_pos + of_nat (length a)) cb = Some (gk4, Inr b)"
proof -
  let ?ks = "ks_range aes (key_base gk) (gk_iv gk)" and ?p = "unat key_pos"
  have "unat (of_nat (length a) :: u64) = length a" "?p + length a < 2 ^ 64"
    using assms(2,3) by (auto simp: gk_inv_def intro!: unat_of_nat_small)
  then have pa: "unat (key_pos + of_nat (length a)) = ?p + length a"
    using unat_plus_small [of key_pos "of_nat (length a)"] by simp
  have split: "?ks ?p (length a + length b) = ?ks ?p (length a) @ ?ks (?p + length a) (length b)"
    using upt_add_eq_append [of ?p "?p + length a" "length b"] by (simp add: ks_range_def add.assoc)
  have len: "length a = length (?ks ?p (length a))" by simp
  have x: "map2 (XOR) (a @ b) (?ks ?p (length (a @ b))) =
      map2 (XOR) a (?ks ?p (length a)) @ map2 (XOR) b (?ks (?p + length a) (length b))"
    using split len by (simp add: zip_append)
  let ?ca = "map2 (XOR) a (?ks ?p (length a))" and ?cb = "map2 (XOR) b (?ks (?p + length a) (length b))"
  have la: "length ?ca = length a" and lb: "length ?cb = length b" by simp_all
  obtain l1 where e: "chiaki_gkcrypt_encrypt aes True True gk key_pos (a @ b) =
      Some (gk\<lparr>last_key_pos := l1\<rparr>, Inr (?ca @ ?cb))" "gk_inv aes lim (gk\<lparr>last_key_pos := l1\<rparr>)"
    using decrypt_spec [OF assms(1,2), of key_pos "a @ b"] assms(3) x
    by (auto simp: chiaki_gkcrypt_encrypt_def)
  let ?g1 = "gk\<lparr>last_key_pos := l1\<rparr>"
  have whole: "map2 (XOR) (map2 (XOR) (a @ b) (?ks ?p (length (a @ b)))) (?ks ?p (length (a @ b))) = a @ b"
    by (rule map2_xor_cancel) simp
  obtain gk2 where d: "chiaki_gkcrypt_decrypt aes True True ?g1 key_pos (?ca @ ?cb) = Some (gk2, Inr (a @ b))"
    using decrypt_spec [OF assms(1) e(2), of key_pos "?ca @ ?cb"] assms(3) whole x la lb by auto
  have "map2 (XOR) ?ca (?ks ?p (length a)) = a" by (rule map2_xor_cancel) simp
  then obtain l3 where d3: "chiaki_gkcrypt_decrypt aes True True ?g1 key_pos ?ca = Some (?g1\<lparr>last_key_pos := l3\<rparr>, Inr a)"
      "gk_inv aes lim (?g1\<lparr>last_key_pos := l3\<rparr>)"
    using decrypt_spec [OF assms(1) e(2), of key_pos ?ca] assms(3) la by auto
  have "map2 (XOR) ?cb (?ks (?p + length a) (length b)) = b" by (rule map2_xor_cancel) simp
  then obtain gk4 where "chiaki_gkcrypt_decrypt aes True True (?g1\<lparr>last_key_pos := l3\<rparr>) (key_pos + of_nat (length a)) ?cb =
      Some (gk4, Inr b)"
    using decrypt_spec [OF assms(1) d3(2), of "key_pos + of_nat (length a)" ?cb] assms(3) pa lb by auto
  then show ?thesis using e(1) la d d3(1) by blast
qed

lemma sample_gk_inv: "gk_inv sample_aes (2 ^ 34) sample_gk"
  using gk_init_inv [OF sample_gk_init, where aes = sample_aes and lim = "2 ^ 34"] by (simp add: gk_state_inv_def)

theorem gkcrypt_roundtrip_split_witness:
  "\<exists>gk1 gk2 ca cb. chiaki_gkcrypt_encrypt sample_aes True True sample_gk 30 ([1, 2] @ [3]) = Some (gk1, Inr (ca @ cb)) \<and>
    chiaki_gkcrypt_decrypt sample_aes True True gk1 30 (ca @ cb) = Some (gk2, Inr [1, 2, 3])"
  using gkcrypt_roundtrip_split [OF sample_hyps(1) sample_gk_inv, of 30 "[1, 2]" "[3]"] by fastforce

text \<open>
  C28: the thread never fails its assertion and never writes outside the ring buffer: in every
  reachable state in which it is about to generate a chunk, that succeeds when the library
  calls do, and appends 4096 bytes to the populated part.
\<close>

theorem gkcrypt_thread_safe:
  assumes "aes_block aes" "sha_digest sha"
    and "chiaki_gkcrypt_init hmac sha (Some kb) me ce te chunks index hk secret = Some (Inr gk0)"
    and "length kb = unat chunks * 4096" "unat chunks \<le> 2 ^ 20"
    and "(gk_step aes sha (2 ^ 34))\<^sup>*\<^sup>* (False, gk0) (True, gk)"
  shows "\<exists>gk'. gkcrypt_generate_next_chunk aes True gk = Some (gk', CHIAKI_ERR_SUCCESS) \<and>
    key_buf_populated gk' = key_buf_populated gk + 4096 \<and> key_buf_populated gk' \<le> key_buf_size gk'"
proof -
  have st: "gk_state_inv aes sha (2 ^ 34) gk0 (True, gk)"
    using gk_steps_inv [OF assms(1,2,6) gk_init_inv [OF assms(3-5)]] by simp
  then obtain kb' where kb': "gk_inv aes (2 ^ 34) gk" "key_buf gk = Some kb'"
      "unat (key_buf_populated gk) + 4096 \<le> unat (key_buf_size gk)"
    by (auto simp: gk_state_inv_def)
  then obtain k where "gkcrypt_generate_next_chunk aes True gk =
      Some (gk\<lparr>key_buf := Some k, key_buf_populated := key_buf_populated gk + 4096\<rparr>, CHIAKI_ERR_SUCCESS)"
      "gk_inv aes (2 ^ 34) (gk\<lparr>key_buf := Some k, key_buf_populated := key_buf_populated gk + 4096\<rparr>)"
    using generate_next_chunk_inv [OF assms(1) kb'] by blast
  moreover from this(2) have "key_buf_populated gk + 4096 \<le> key_buf_size gk"
    by (simp add: gk_inv_def ring_inv_def word_le_nat_alt)
  ultimately show ?thesis by simp
qed

definition sample_ring :: gkcrypt where
  "sample_ring = (case chiaki_gkcrypt_init sample_hmac sample_sha (Some (replicate 8192 0)) CHIAKI_ERR_SUCCESS
     CHIAKI_ERR_SUCCESS CHIAKI_ERR_SUCCESS 2 2 (replicate 16 0) [] of Some (Inr gk) \<Rightarrow> gk)"

lemma sample_ring_init:
  "chiaki_gkcrypt_init sample_hmac sample_sha (Some (replicate 8192 0)) CHIAKI_ERR_SUCCESS
     CHIAKI_ERR_SUCCESS CHIAKI_ERR_SUCCESS 2 2 (replicate 16 0) [] = Some (Inr sample_ring)"
  "key_buf sample_ring = Some (replicate 8192 0)" "key_buf_populated sample_ring = 0" "key_buf_size sample_ring = 8192"
  "key_buf_key_pos_min sample_ring = 0" "last_key_pos sample_ring = 0" "\<not> key_buf_thread_stop sample_ring"
  by (simp_all add: sample_ring_def chiaki_gkcrypt_init_def gkcrypt_gen_key_iv_def sample_hmac_def sample_sha_def
      chiaki_gkcrypt_gen_gmac_key_def xor_bytes_Some Let_def)

theorem gkcrypt_thread_safe_witness:
  "\<exists>gk'. gkcrypt_generate_next_chunk sample_aes True sample_ring = Some (gk', CHIAKI_ERR_SUCCESS) \<and>
    key_buf_populated gk' = 4096"
proof -
  have "gkcrypt_thread_make_room sample_ring = sample_ring"
    by (simp add: gkcrypt_thread_make_room_def sample_ring_init(2-))
  moreover have "gk_step sample_aes sample_sha (2 ^ 34) (False, sample_ring) (True, gkcrypt_thread_make_room sample_ring)"
    by (rule gk_room) (simp_all add: key_buf_mutex_pred_def sample_ring_init(2-))
  ultimately have "(gk_step sample_aes sample_sha (2 ^ 34))\<^sup>*\<^sup>* (False, sample_ring) (True, sample_ring)" by simp
  then show ?thesis
    using gkcrypt_thread_safe [OF sample_hyps sample_ring_init(1)] sample_ring_init(3) by fastforce
qed

text \<open>
  C27: the authentication code of a packet depends on its key position, its bytes and the keys
  alone, not on the packets authenticated before it: it is the code under the key of the index
  \<open>(key_pos - 1) / 45000\<close>, in whatever order older and newer packets are checked.
\<close>

theorem gkcrypt_gmac_order_independent:
  assumes "aes_block aes" "sha_digest sha"
    and "chiaki_gkcrypt_init hmac sha (Some kb) me ce te chunks index hk secret = Some (Inr gk0)"
    and "length kb = unat chunks * 4096" "unat chunks \<le> 2 ^ 20"
    and "(gk_step aes sha (2 ^ 34))\<^sup>*\<^sup>* (False, gk0) (w, gk)"
  shows "map_option snd (chiaki_gkcrypt_gmac sha gcm gk key_pos buf) =
    map_option snd (chiaki_gkcrypt_gmac sha gcm gk0 key_pos buf) \<and>
    map_option snd (chiaki_gkcrypt_gmac sha gcm gk key_pos buf) =
      Some (gcm (if gmac_index key_pos = 0 then key_gmac_base gk0
          else the (chiaki_gkcrypt_gen_gmac_key sha (gmac_index key_pos) (key_gmac_base gk0) (gk_iv gk0)))
        (counter_add (gk_iv gk0) (key_pos div 16)) buf)"
proof -
  have init: "gk_state_inv aes sha (2 ^ 34) gk0 (False, gk0)" by (rule gk_init_inv [OF assms(3-5)]) simp
  then have "gk_state_inv aes sha (2 ^ 34) gk0 (w, gk)" by (rule gk_steps_inv [OF assms(1,2,6)])
  then have inv: "gmac_inv sha gk" "key_gmac_base gk = key_gmac_base gk0" "gk_iv gk = gk_iv gk0" "gmac_inv sha gk0"
    using init by (simp_all add: gk_state_inv_def)
  have code: "map_option snd (chiaki_gkcrypt_gmac sha gcm g key_pos buf) =
      Some (gcm (the (gmac_key_at sha (key_gmac_base g) (gk_iv g) (gmac_index key_pos)))
        (counter_add (gk_iv g) (key_pos div 16)) buf)" if "gmac_inv sha g" for g
    using gmac_spec [OF assms(2) that, of gcm key_pos buf] by auto
  show ?thesis
    unfolding code [OF inv(1)] code [OF inv(4)] inv(2,3) by (simp add: gmac_key_at_def)
qed

text \<open>
  A packet at 200000 is authenticated, which moves the current key to index 4; an older packet at 100000
  then has the code under the key of index 2, as before.
\<close>

definition sample_tag :: "bytes \<Rightarrow> bytes \<Rightarrow> bytes \<Rightarrow> ChiakiErrorCode + bytes" where
  "sample_tag k iv b = Inr (take 4 k)"

text \<open>A digest under which the keys of the indices differ.\<close>

definition sample_sum :: "bytes \<Rightarrow> bytes" where
  "sample_sum m = replicate 16 (foldr (+) m 0) @ replicate 16 0"

definition sample_summed :: gkcrypt where
  "sample_summed = (case chiaki_gkcrypt_init sample_hmac sample_sum (Some []) CHIAKI_ERR_SUCCESS CHIAKI_ERR_SUCCESS
     CHIAKI_ERR_SUCCESS 0 2 (replicate 16 0) [] of Some (Inr gk) \<Rightarrow> gk)"

lemma sample_summed_init:
  "chiaki_gkcrypt_init sample_hmac sample_sum (Some []) CHIAKI_ERR_SUCCESS CHIAKI_ERR_SUCCESS
     CHIAKI_ERR_SUCCESS 0 2 (replicate 16 0) [] = Some (Inr sample_summed)"
  "key_gmac_index_current sample_summed = 0"
  by (simp_all add: sample_summed_def chiaki_gkcrypt_init_def gkcrypt_gen_key_iv_def sample_hmac_def sample_sum_def
      chiaki_gkcrypt_gen_gmac_key_def xor_bytes_Some Let_def)

theorem gkcrypt_gmac_order_independent_witness:
  "\<exists>gk r. chiaki_gkcrypt_gmac sample_sum sample_tag sample_summed 200000 [7] = Some (gk, r) \<and>
    key_gmac_index_current gk = 4 \<and>
    map_option snd (chiaki_gkcrypt_gmac sample_sum sample_tag gk 100000 [1]) =
      map_option snd (chiaki_gkcrypt_gmac sample_sum sample_tag sample_summed 100000 [1]) \<and>
    map_option snd (chiaki_gkcrypt_gmac sample_sum sample_tag gk 100000 [1]) =
      Some (sample_tag (the (chiaki_gkcrypt_gen_gmac_key sample_sum 2 (key_gmac_base sample_summed) (gk_iv sample_summed)))
        (counter_add (gk_iv sample_summed) 6250) [1])"
proof -
  have sha: "sha_digest sample_sum" by (simp add: sha_digest_def sample_sum_def)
  obtain k where k: "chiaki_gkcrypt_gen_gmac_key sample_sum 4 (key_gmac_base sample_summed) (gk_iv sample_summed) = Some k"
    using gen_gmac_key_Some [OF sha] by blast
  let ?gk = "sample_summed\<lparr>key_gmac_current := k, key_gmac_index_current := 4\<rparr>"
  have first: "chiaki_gkcrypt_gmac sample_sum sample_tag sample_summed 200000 [7] =
      Some (?gk, sample_tag k (counter_add (gk_iv sample_summed) 12500) [7])"
    using k by (simp add: chiaki_gkcrypt_gmac_def chiaki_gkcrypt_gen_new_gmac_key_def sample_summed_init(2)
        CHIAKI_GKCRYPT_GMAC_KEY_REFRESH_KEY_POS_def Let_def)
  then have "gk_step sample_aes sample_sum (2 ^ 34) (False, sample_summed) (False, ?gk)" by (rule gk_gmac)
  then have steps: "(gk_step sample_aes sample_sum (2 ^ 34))\<^sup>*\<^sup>* (False, sample_summed) (False, ?gk)"
    by (rule r_into_rtranclp)
  have idx: "gmac_index 100000 = 2" "(2 :: u64) \<noteq> 0" "(100000 :: u64) div 16 = 6250" by (simp_all add: gmac_index_def)
  have len: "length ([] :: bytes) = unat (0 :: u64) * 4096" "unat (0 :: u64) \<le> 2 ^ 20" by simp_all
  note gkcrypt_gmac_order_independent [OF sample_hyps(1) sha sample_summed_init(1) len steps, of sample_tag 100000 "[1]",
    unfolded idx if_not_P [OF idx(2)]]
  moreover have "key_gmac_index_current ?gk = 4" by simp
  ultimately show ?thesis using first by blast
qed

text \<open>
  The block counter is an \<^verbatim>\<open>int\<close>. From 32 GiB of stream on it is negative and sign extended:
  the block at \<open>2 ^ 35\<close> is encrypted with the counter \<open>iv + 2 ^ 64 - 2 ^ 31\<close> (as 64 bits), and
  the block before it makes the increment overflow, which C does not define.
\<close>

theorem gkcrypt_counter_int_overflow:
  "chiaki_gkcrypt_gen_key_stream aes True gk 0x800000000 16 =
     Some (Inr (aes (key_base gk) (counter_add (gk_iv gk) 0xffffffff80000000))) \<and>
   chiaki_gkcrypt_gen_key_stream aes True gk 0x7fffffff0 16 = None"
proof
  have "sint (ucast (0x800000000 div 16 :: u64) :: 32 word) = - (2 ^ 31)" by code_simp
  moreover have "(of_int (- (2 ^ 31)) :: u64) = 0xffffffff80000000" by code_simp
  moreover have "(0x800000000 :: u64) mod 16 = 0" by code_simp
  ultimately show "chiaki_gkcrypt_gen_key_stream aes True gk 0x800000000 16 =
     Some (Inr (aes (key_base gk) (counter_add (gk_iv gk) 0xffffffff80000000)))"
    unfolding chiaki_gkcrypt_gen_key_stream_def by (simp del: of_int_minus of_int_power of_int_neg_numeral)
next
  have "sint (ucast (0x7fffffff0 div 16 :: u64) :: 32 word) = 2 ^ 31 - 1" by code_simp
  moreover have "(0x7fffffff0 :: u64) mod 16 = 0" by code_simp
  ultimately show "chiaki_gkcrypt_gen_key_stream aes True gk 0x7fffffff0 16 = None"
    unfolding chiaki_gkcrypt_gen_key_stream_def by simp
qed

end
