(* ===== verification/Takion_Packets_Props.thy ===== *)
theory Takion_Packets_Props
  imports Takion_Packets GK_Crypt_Props
begin

text \<open>
  The packet formats of Takion: what a computed authentication code covers and that it
  verifies, the round trip of message headers and of the headers of version 7, and when the
  data of an audio or video packet lies inside the received bytes.
\<close>

section \<open>The authentication code\<close>

text \<open>The tag function gives four bytes.\<close>

definition gcm_tag :: "(bytes \<Rightarrow> bytes \<Rightarrow> bytes \<Rightarrow> ChiakiErrorCode + bytes) \<Rightarrow> bool" where
  "gcm_tag gcm \<longleftrightarrow> (\<forall>k iv t. \<exists>m. gcm k iv t = Inr m \<and> length m = 4)"

text \<open>The text that is authenticated: the code, and in two types the key position, are zero.\<close>

definition mac_text :: "u8 \<Rightarrow> nat \<Rightarrow> nat \<Rightarrow> bytes \<Rightarrow> bytes" where
  "mac_text ty mac_offset key_pos_offset buf =
     (let b = upd buf mac_offset (replicate 4 0)
      in if clears_key_pos ty then upd b key_pos_offset (replicate 4 0) else b)"

text \<open>The code of a text under the keys of \<open>gk\<close>.\<close>

definition mac_of ::
  "(bytes \<Rightarrow> bytes) \<Rightarrow> (bytes \<Rightarrow> bytes \<Rightarrow> bytes \<Rightarrow> ChiakiErrorCode + bytes) \<Rightarrow> gkcrypt \<Rightarrow> u64 \<Rightarrow> bytes \<Rightarrow> bytes" where
  "mac_of sha gcm gk key_pos buf =
     projr (gcm (the (gmac_key_at sha (key_gmac_base gk) (gk_iv gk) (gmac_index key_pos)))
       (counter_add (gk_iv gk) (key_pos div 16)) buf)"

lemma mac_of_tag: "gcm_tag gcm \<Longrightarrow> length (mac_of sha gcm gk key_pos buf) = 4"
  unfolding gcm_tag_def mac_of_def by (metis sum.sel(2))

lemma gmac_mac_of:
  assumes "sha_digest sha" "gcm_tag gcm" "gmac_inv sha gk"
  obtains gk' where "chiaki_gkcrypt_gmac sha gcm gk key_pos buf = Some (gk', Inr (mac_of sha gcm gk key_pos buf))"
    "gmac_inv sha gk'" "\<exists>k i. gk' = gk\<lparr>key_gmac_current := k, key_gmac_index_current := i\<rparr>"
proof -
  obtain gk' where "chiaki_gkcrypt_gmac sha gcm gk key_pos buf =
      Some (gk', gcm (the (gmac_key_at sha (key_gmac_base gk) (gk_iv gk) (gmac_index key_pos)))
        (counter_add (gk_iv gk) (key_pos div 16)) buf)" "gmac_inv sha gk'"
      "\<exists>k i. gk' = gk\<lparr>key_gmac_current := k, key_gmac_index_current := i\<rparr>"
    using gmac_spec [OF assms(1,3), of gcm key_pos buf] by blast
  moreover have "gcm k iv t = Inr (projr (gcm k iv t))" for k iv t
    using assms(2) unfolding gcm_tag_def by (metis sum.sel(2))
  ultimately show thesis using that by (metis mac_of_def)
qed

lemma upd_same: "i + length s \<le> length b \<Longrightarrow> upd (upd b i s) i t = upd b i t" if "length s = length t"
  using that by (intro nth_equalityI) (auto simp: nth_upd)

lemma upd_commute:
  "i + length s \<le> j \<Longrightarrow> j + length t \<le> length b \<Longrightarrow> upd (upd b i s) j t = upd (upd b j t) i s"
  by (rule nth_equalityI) (auto simp: nth_upd)

lemma upd_self: "i + n \<le> length b \<Longrightarrow> upd b i (take n (drop i b)) = b"
  by (simp add: upd_def min_def) (metis append_take_drop_id drop_drop add.commute)

lemma take_drop_upd: "i + length s \<le> length b \<Longrightarrow> take (length s) (drop i (upd b i s)) = s"
  by (simp add: upd_def)

lemma take_drop_upd_other:
  "i + length s \<le> length b \<Longrightarrow> i + length s \<le> j \<Longrightarrow> take n (drop j (upd b i s)) = take n (drop j b)"
  by (simp add: upd_def min_def)

lemma packet_mac_crypt_spec:
  assumes "sha_digest sha" "gcm_tag gcm" "gmac_inv sha gk"
    and o: "mo + 4 \<le> ko" "ko + 4 \<le> length buf"
  obtains gk' where "packet_mac_crypt sha gcm ty mo ko key_pos gk (upd buf mo (replicate 4 0)) =
      Some (gk', upd buf mo (mac_of sha gcm gk key_pos (mac_text ty mo ko buf)))"
    "gmac_inv sha gk'" "\<exists>k i. gk' = gk\<lparr>key_gmac_current := k, key_gmac_index_current := i\<rparr>"
proof -
  let ?b = "upd buf mo (replicate 4 0)" and ?m = "mac_of sha gcm gk key_pos (mac_text ty mo ko buf)"
  obtain gk' where g: "chiaki_gkcrypt_gmac sha gcm gk key_pos (mac_text ty mo ko buf) = Some (gk', Inr ?m)"
      "gmac_inv sha gk'" "\<exists>k i. gk' = gk\<lparr>key_gmac_current := k, key_gmac_index_current := i\<rparr>"
    using gmac_mac_of [OF assms(1-3)] by blast
  have m: "length ?m = 4" using mac_of_tag [OF assms(2)] .
  have tx: "mac_text ty mo ko buf = (if clears_key_pos ty then upd ?b ko (replicate 4 0) else ?b)"
    by (simp add: mac_text_def)
  have restored: "upd (upd (upd ?b ko (replicate 4 0)) mo ?m) ko (take 4 (drop ko buf)) = upd buf mo ?m"
  proof -
    have "upd (upd (upd ?b ko (replicate 4 0)) mo ?m) ko (take 4 (drop ko buf)) =
        upd (upd (upd ?b mo ?m) ko (replicate 4 0)) ko (take 4 (drop ko buf))"
      using o m by (simp add: upd_commute)
    also have "\<dots> = upd (upd buf mo ?m) ko (take 4 (drop ko buf))"
      using o m by (simp add: upd_same)
    also have "\<dots> = upd buf mo ?m"
      using o m upd_self [of ko 4 "upd buf mo ?m"] by (simp add: take_drop_upd_other)
    finally show ?thesis .
  qed
  have kp: "take 4 (drop ko ?b) = take 4 (drop ko buf)" using o by (simp add: take_drop_upd_other)
  have "packet_mac_crypt sha gcm ty mo ko key_pos gk ?b = Some (gk', upd buf mo ?m)"
  proof (cases "clears_key_pos ty")
    case True
    then show ?thesis
      using g(1) o m restored kp by (simp add: packet_mac_crypt_def tx buf_simps)
  next
    case False
    then show ?thesis
      using g(1) o m by (simp add: packet_mac_crypt_def tx buf_simps upd_same)
  qed
  then show thesis using g(2,3) that by blast
qed

text \<open>The offsets of a packet type that has a code, and that the buffer is long enough.\<close>

definition mac_layout :: "bytes \<Rightarrow> nat \<Rightarrow> nat \<Rightarrow> bool" where
  "mac_layout buf mo ko \<longleftrightarrow> 0 < length buf \<and>
     takion_packet_type_mac_offset (packet_base_type (buf ! 0)) = Some mo \<and>
     takion_packet_type_key_pos_offset (packet_base_type (buf ! 0)) = Some ko \<and> ko + 4 \<le> length buf"

lemma mac_layout_offsets: "mac_layout buf mo ko \<Longrightarrow> 0 < mo \<and> mo + 4 \<le> ko"
  by (auto simp: mac_layout_def takion_packet_type_mac_offset_def takion_packet_type_key_pos_offset_def
      split: if_splits)

lemma packet_mac_spec:
  assumes "sha_digest sha" "gcm_tag gcm" "gmac_inv sha gk" and l: "mac_layout buf mo ko"
  obtains gk' where "chiaki_takion_packet_mac sha gcm (Some gk) buf key_pos =
      Some (Some gk', upd buf mo (mac_of sha gcm gk key_pos (mac_text (packet_base_type (buf ! 0)) mo ko buf)),
        Inr (mac_of sha gcm gk key_pos (mac_text (packet_base_type (buf ! 0)) mo ko buf), take 4 (drop mo buf)))"
    "gmac_inv sha gk'" "\<exists>k i. gk' = gk\<lparr>key_gmac_current := k, key_gmac_index_current := i\<rparr>"
proof -
  let ?ty = "packet_base_type (buf ! 0)"
  let ?m = "mac_of sha gcm gk key_pos (mac_text ?ty mo ko buf)"
  have o: "mo + 4 \<le> ko" "ko + 4 \<le> length buf" using mac_layout_offsets [OF l] l by (simp_all add: mac_layout_def)
  obtain gk' where g: "packet_mac_crypt sha gcm ?ty mo ko key_pos gk (upd buf mo (replicate 4 0)) = Some (gk', upd buf mo ?m)"
      "gmac_inv sha gk'" "\<exists>k i. gk' = gk\<lparr>key_gmac_current := k, key_gmac_index_current := i\<rparr>"
    using packet_mac_crypt_spec [OF assms(1-3) o] by blast
  have m: "length ?m = 4" using mac_of_tag [OF assms(2)] .
  have r: "rd_n (upd buf mo ?m) mo 4 = Some ?m"
    using o m take_drop_upd [of mo ?m buf] by (simp add: buf_simps)
  have "chiaki_takion_packet_mac sha gcm (Some gk) buf key_pos =
      Some (Some gk', upd buf mo ?m, Inr (?m, take 4 (drop mo buf)))"
    using l o g(1) r by (simp add: chiaki_takion_packet_mac_def mac_layout_def Let_def buf_simps Suc_le_eq)
  then show thesis using g(2,3) that by blast
qed

lemma mac_text_upd:
  assumes "mo + 4 \<le> ko" "ko + 4 \<le> length buf" "length m = 4"
  shows "mac_text ty mo ko (upd buf mo m) = mac_text ty mo ko buf"
  using assms by (simp add: mac_text_def upd_same)

lemma mac_layout_upd:
  assumes "mac_layout buf mo ko" "length m = 4"
  shows "mac_layout (upd buf mo m) mo ko" "upd buf mo m ! 0 = buf ! 0"
proof -
  have o: "0 < mo" "mo + 4 \<le> ko" "ko + 4 \<le> length buf" using mac_layout_offsets [OF assms(1)] assms(1) by (simp_all add: mac_layout_def)
  show z: "upd buf mo m ! 0 = buf ! 0" using o assms(2) by (subst nth_upd) auto
  show "mac_layout (upd buf mo m) mo ko" using assms o by (simp add: mac_layout_def z)
qed

lemma packet_mac_layout:
  assumes "chiaki_takion_packet_mac sha gcm crypt buf key_pos = Some (c, buf', Inr r)"
  obtains mo ko where "mac_layout buf mo ko"
  using assms
  by (auto simp: chiaki_takion_packet_mac_def mac_layout_def Let_def not_less split: if_splits option.splits)

text \<open>Both ends of a connection hold the same keys.\<close>

definition same_gmac_keys :: "gkcrypt \<Rightarrow> gkcrypt \<Rightarrow> bool" where
  "same_gmac_keys gk gk' \<longleftrightarrow> key_gmac_base gk = key_gmac_base gk' \<and> gk_iv gk = gk_iv gk'"

lemma mac_of_same: "same_gmac_keys gk gk' \<Longrightarrow> mac_of sha gcm gk key_pos buf = mac_of sha gcm gk' key_pos buf"
  by (simp add: same_gmac_keys_def mac_of_def)

lemma packet_mac_verifies:
  assumes "sha_digest sha" "gcm_tag gcm" "gmac_inv sha gk" "gmac_inv sha gk'" "same_gmac_keys gk gk'"
    and s: "chiaki_takion_packet_mac sha gcm (Some gk) buf key_pos = Some (c, buf', Inr (mac, old))" and l: "mac_layout buf mo ko"
  shows "\<exists>gk''. chiaki_takion_packet_mac sha gcm (Some gk') buf' key_pos = Some (Some gk'', buf', Inr (mac, mac)) \<and>
    gmac_inv sha gk'' \<and> (\<exists>k i. gk'' = gk'\<lparr>key_gmac_current := k, key_gmac_index_current := i\<rparr>)"
    and "mac_layout buf' mo ko" "rd32 buf' ko = rd32 buf ko"
proof -
  let ?ty = "packet_base_type (buf ! 0)"
  have o: "mo + 4 \<le> ko" "ko + 4 \<le> length buf" using mac_layout_offsets [OF l] l by (simp_all add: mac_layout_def)
  have b: "buf' = upd buf mo mac" and m: "mac = mac_of sha gcm gk key_pos (mac_text ?ty mo ko buf)"
    using packet_mac_spec [OF assms(1-3) l, of key_pos] s by auto
  have len: "length mac = 4" using m mac_of_tag [OF assms(2)] by simp
  have l': "mac_layout buf' mo ko" "packet_base_type (buf' ! 0) = ?ty"
    using mac_layout_upd [OF l len] b by simp_all
  then show "mac_layout buf' mo ko" by blast
  show "rd32 buf' ko = rd32 buf ko" using b o len by (simp add: rd32_upd_other)
  have m': "mac_of sha gcm gk' key_pos (mac_text ?ty mo ko buf') = mac"
    using m mac_of_same [OF assms(5)] mac_text_upd [OF o len] b by simp
  have "upd buf' mo mac = buf'" "take 4 (drop mo buf') = mac"
    using b o len upd_same [of mac mac mo buf] take_drop_upd [of mo mac buf] by simp_all
  with packet_mac_spec [OF assms(1,2,4) l'(1), of key_pos] m' l'(2)
  show "\<exists>gk''. chiaki_takion_packet_mac sha gcm (Some gk') buf' key_pos = Some (Some gk'', buf', Inr (mac, mac)) \<and>
      gmac_inv sha gk'' \<and> (\<exists>k i. gk'' = gk'\<lparr>key_gmac_current := k, key_gmac_index_current := i\<rparr>)"
    by metis
qed

lemma packet_mac_err:
  assumes "chiaki_takion_packet_mac sha gcm crypt buf key_pos = Some (c, b, Inl e)"
  shows "e \<noteq> CHIAKI_ERR_SUCCESS"
  using assms
  by (auto simp: chiaki_takion_packet_mac_def Let_def split: if_splits option.splits Option.bind_splits)

section \<open>Message headers\<close>

lemma length_message_header [simp]: "length (takion_write_message_header tag kp ty fl n) = 16"
  by (simp add: takion_write_message_header_def)

lemma message_header_reads:
  fixes tag kp ty fl n
  defines "h \<equiv> takion_write_message_header tag kp ty fl n"
  shows "rd32 (h @ p) 0 = Some tag" "rd32 (h @ p) 8 = Some (ucast kp)" "rd8 (h @ p) 12 = Some ty"
    "rd8 (h @ p) 13 = Some fl" "rd16 (h @ p) 14 = Some (of_nat (n + 4))"
  unfolding h_def takion_write_message_header_def append_assoc
  by (simp_all add: msg_simps)

lemma parse_written:
  assumes "length payload + 4 < 2 ^ 16"
  shows "takion_parse_message tag ks (takion_write_message_header tag key_pos ty fl (length payload) @ payload) =
    Some (fst (chiaki_key_state_request_pos ks (ucast key_pos) True),
      Inr \<lparr>msg_tag = tag, msg_key_pos = snd (chiaki_key_state_request_pos ks (ucast key_pos) True),
        msg_chunk_type = ty, msg_chunk_flags = fl, msg_payload_size = of_nat (length payload),
        msg_payload = (if payload = [] then None else Some 0x10)\<rparr>)"
proof -
  have sz: "unat (of_nat (length payload + 4) :: u16) = length payload + 4"
    using assms by (intro unat_of_nat_small) simp
  have sub: "(of_nat (length payload + 4) :: u16) - 4 = of_nat (length payload)" by simp
  have zero: "(of_nat (length payload) :: u16) > 0 \<longleftrightarrow> payload \<noteq> []"
    using assms by (simp add: word_less_nat_alt unat_of_nat_small)
  obtain ks' kp' where kp: "chiaki_key_state_request_pos ks (ucast key_pos) True = (ks', kp')" by fastforce
  show ?thesis
    unfolding takion_parse_message_def
    using sz by (simp add: message_header_reads kp sub zero del: of_nat_add)
qed

text \<open>
  C31: a message whose header is written for its payload is parsed back: tag, chunk type, flags,
  the size of the payload and its position, and the key position that the key state recovers
  from the 32 bits in the header. The 16 bit size field has to hold the size and 4.
\<close>

theorem takion_message_roundtrip:
  assumes "length payload + 4 < 2 ^ 16"
  shows "takion_parse_message tag ks (takion_write_message_header tag key_pos ty fl (length payload) @ payload) =
    Some (fst (chiaki_key_state_request_pos ks (ucast key_pos) True),
      Inr \<lparr>msg_tag = tag, msg_key_pos = snd (chiaki_key_state_request_pos ks (ucast key_pos) True),
        msg_chunk_type = ty, msg_chunk_flags = fl, msg_payload_size = of_nat (length payload),
        msg_payload = (if payload = [] then None else Some 0x10)\<rparr>)"
  using assms by (rule parse_written)

theorem takion_message_roundtrip_witness:
  "takion_parse_message 7 \<lparr>key_prev = 0x1fffffff0\<rparr> (takion_write_message_header 7 0x200000010 3 0 2 @ [0xaa, 0xbb]) =
    Some (\<lparr>key_prev = 0x200000010\<rparr>, Inr \<lparr>msg_tag = 7, msg_key_pos = 0x200000010, msg_chunk_type = 3, msg_chunk_flags = 0,
      msg_payload_size = 2, msg_payload = Some 0x10\<rparr>)"
proof -
  have "chiaki_key_state_request_pos \<lparr>key_prev = 0x1fffffff0\<rparr> (ucast (0x200000010 :: u64)) True =
      (\<lparr>key_prev = 0x200000010\<rparr>, 0x200000010)"
    by code_simp
  moreover have "length [0xaa, 0xbb :: u8] = 2" by simp
  note takion_message_roundtrip [of "[0xaa, 0xbb]" 7 "\<lparr>key_prev = 0x1fffffff0\<rparr>" "0x200000010" 3 0, unfolded this]
  ultimately show ?thesis by simp
qed

section \<open>Audio and video headers\<close>

lemma dword_2_fields:
  fixes f t u :: u32
  defines "d \<equiv> (f AND 0x3ff) OR push_bit 0xa (t AND 0x7ff) OR push_bit 0x15 u"
  shows "drop_bit 0x15 d AND 0x7ff = u AND 0x7ff" "drop_bit 0xa d AND 0x7ff = t AND 0x7ff" "d AND 0x3ff = f AND 0x3ff"
proof -
  have m: "(0x3ff :: u32) = mask 10" "(0x7ff :: u32) = mask 11" by (simp_all add: mask_eq_exp_minus_1)
  show "drop_bit 0x15 d AND 0x7ff = u AND 0x7ff" "drop_bit 0xa d AND 0x7ff = t AND 0x7ff" "d AND 0x3ff = f AND 0x3ff"
    unfolding d_def m by (rule bit_word_eqI, auto simp: bit_simps)+
qed

text \<open>The 32 bits with the bytes in the opposite order.\<close>

definition swap32 :: "u32 \<Rightarrow> u32" where
  "swap32 w = the (rd32 (le32 w) 0)"

text \<open>The packets that a header of version 7 can carry.\<close>

definition v7_packet :: "av_packet \<Rightarrow> bool" where
  "v7_packet p \<longleftrightarrow> unit_index p < 0x800 \<and> 0 < units_in_frame_total p \<and> units_in_frame_total p \<le> 0x800 \<and>
     units_in_frame_fec p < 0x400 \<and> adaptive_stream_index p < 8 \<and> \<not> is_haptics p \<and> byte_at_0x2c p = 0 \<and>
     (is_video p \<or> word_at_0x18 p = 0 \<and> adaptive_stream_index p = 0)"

lemma rd_drop:
  "rd8 (drop n b) i = rd8 b (n + i)" "rd16 (drop n b) i = rd16 b (n + i)" "rd32 (drop n b) i = rd32 b (n + i)"
  by (auto simp: rd8_def rd16_def rd32_def less_diff_conv ac_simps)

lemma drop_upd: "i + length s \<le> n \<Longrightarrow> n \<le> length b \<Longrightarrow> drop n (upd b i s) = drop n b"
  by (rule nth_equalityI) (auto simp: nth_upd)

text \<open>The writes that are common to all four kinds of packets.\<close>

definition v7_common :: "bytes \<Rightarrow> u8 \<Rightarrow> u32 \<Rightarrow> av_packet \<Rightarrow> bytes" where
  "v7_common buf b0 d p =
     upd (upd (upd (upd (upd (upd (upd buf 0 [b0]) 1 (be16 (av_packet_index p))) 3 (be16 (av_frame_index p))) 5 (be32 d))
       9 [av_codec p]) 0xa (replicate 4 0)) 0xe (le32 (ucast (av_key_pos p)))"

lemma length_v7_common [simp]: "0x12 \<le> length buf \<Longrightarrow> length (v7_common buf b0 d p) = length buf"
  by (simp add: v7_common_def)

lemma rd32_upd_le: "i + 4 \<le> length b \<Longrightarrow> rd32 (upd b i (le32 w)) i = Some (swap32 w)"
proof -
  assume l: "i + 4 \<le> length b"
  have n: "upd b i (le32 w) ! (i + j) = le32 w ! j" if "j < 4" for j
    using l that by (simp add: nth_upd)
  show ?thesis
    using l n [of 0] n [of 1] n [of 2] n [of 3] by (simp add: swap32_def rd32_Some numeral_2_eq_2)
qed

lemmas rd_upd = rd8_upd_same rd8_upd_other rd16_upd_same rd16_upd_other rd32_upd_same rd32_upd_other

lemma v7_common_reads:
  assumes "0x12 \<le> length buf"
  shows "v7_common buf fb d p ! 0 = fb" "rd16 (v7_common buf fb d p) 1 = Some (av_packet_index p)"
    "rd16 (v7_common buf fb d p) 3 = Some (av_frame_index p)" "rd32 (v7_common buf fb d p) 5 = Some d"
    "rd8 (v7_common buf fb d p) 9 = Some (av_codec p)"
    "rd32 (v7_common buf fb d p) 0xe = Some (swap32 (ucast (av_key_pos p)))"
    "0x12 \<le> n \<Longrightarrow> n \<le> length buf \<Longrightarrow> drop n (v7_common buf fb d p) = drop n buf"
proof -
  show "v7_common buf fb d p ! 0 = fb"
  proof -
    have "buf \<noteq> []" using assms by auto
    then have "rd8 (v7_common buf fb d p) 0 = Some fb"
      unfolding v7_common_def using assms by (simp add: rd_upd)
    then show ?thesis using assms by (simp add: rd8_def split: if_splits)
  qed
  show "rd16 (v7_common buf fb d p) 1 = Some (av_packet_index p)"
    unfolding v7_common_def using assms by (simp add: rd_upd del: One_nat_def)
  show "rd16 (v7_common buf fb d p) 3 = Some (av_frame_index p)"
    unfolding v7_common_def using assms by (simp add: rd_upd)
  show "rd32 (v7_common buf fb d p) 5 = Some d"
    unfolding v7_common_def using assms by (simp add: rd_upd)
  show "rd8 (v7_common buf fb d p) 9 = Some (av_codec p)"
    unfolding v7_common_def using assms by (simp add: rd_upd)
  show "rd32 (v7_common buf fb d p) 0xe = Some (swap32 (ucast (av_key_pos p)))"
    unfolding v7_common_def using assms by (simp add: rd32_upd_le)
  show "0x12 \<le> n \<Longrightarrow> n \<le> length buf \<Longrightarrow> drop n (v7_common buf fb d p) = drop n buf"
    unfolding v7_common_def using assms by (simp add: drop_upd)
qed

lemma unat_and_mask: "unat (w AND mask k) = unat w mod 2 ^ k"
  by (simp only: take_bit_eq_mask [symmetric] unsigned_take_bit_eq, simp only: take_bit_eq_mod)

lemma masks: "(0x3ff :: 'a::len word) = mask 10" "(0x7ff :: 'a word) = mask 11"
  by (simp_all add: mask_eq_exp_minus_1)

lemma v7_dword:
  assumes "v7_packet p"
  shows "av_dword_2 True ((ucast (units_in_frame_fec p AND 0x3ff) :: u32) OR
      push_bit 0xa ((ucast (units_in_frame_total p) - 1) AND 0x7ff) OR push_bit 0x15 (ucast (unit_index p))) q =
    q\<lparr>unit_index := unit_index p, units_in_frame_total := units_in_frame_total p, units_in_frame_fec := units_in_frame_fec p\<rparr>"
proof -
  let ?f = "units_in_frame_fec p" and ?t = "units_in_frame_total p" and ?u = "unit_index p"
  have n: "unat ?f < 2 ^ 10" "unat ?u < 2 ^ 11" "0 < unat ?t" "unat ?t \<le> 2 ^ 11"
    using assms by (simp_all add: v7_packet_def word_less_nat_alt word_le_nat_alt)
  have c: "unat (ucast w :: u32) = unat w" for w :: u16
    using unat_lt_exp [of w] by (simp add: unsigned_ucast_eq take_bit_nat_eq_self)
  have d: "unat (ucast v :: u16) = unat v" if "unat v < 2 ^ 16" for v :: u32
    using that by (simp add: unsigned_ucast_eq take_bit_nat_eq_self)
  have f: "(ucast (?f AND 0x3ff) :: u32) = ucast ?f AND 0x3ff"
    unfolding masks by (rule bit_word_eqI) (auto simp: bit_simps)
  have "ucast ((ucast ?u :: u32) AND mask 11) = ?u"
    using n(2) by (simp add: word_unat_eq_iff unat_and_mask c d)
  moreover have "ucast ((ucast ?f :: u32) AND mask 10) = ?f"
    using n(1) by (simp add: word_unat_eq_iff unat_and_mask c d)
  moreover have "ucast ((ucast ?t - 1 AND mask 11 :: u32) + 1) = ?t"
  proof -
    have "unat (ucast ?t - 1 :: u32) = unat ?t - 1" using n(3) by (simp add: word_minus_one_small c)
    then have "unat ((ucast ?t - 1 AND mask 11 :: u32) + 1) = unat ?t"
      using n(3,4) by (subst unat_plus1_small) (simp_all add: unat_and_mask)
    then show ?thesis using n(4) by (simp add: word_unat_eq_iff d)
  qed
  ultimately show ?thesis
    unfolding av_dword_2_def f using dword_2_fields [of "ucast ?f" "ucast ?t - 1" "ucast ?u"]
    by (simp add: masks)
qed

lemma v7_first_byte:
  fixes video nalu :: bool
  defines "b \<equiv> (if video then 2 else 3 :: u8)"
  defines "b0 \<equiv> (if nalu then b OR 0x10 else b)"
  shows "packet_base_type b0 = b" "(drop_bit 4 b0 AND 1 \<noteq> 0) = nalu"
  by (cases video; cases nalu; simp add: b_def b0_def packet_base_type_def)+

lemma adaptive_shift: "a < 8 \<Longrightarrow> drop_bit 5 (push_bit 5 a) = (a :: u8)"
proof -
  assume "a < 8"
  then have "take_bit 3 a = a"
    by (simp add: word_unat_eq_iff unsigned_take_bit_eq word_less_nat_alt take_bit_nat_eq_self)
  moreover have "drop_bit 5 (push_bit 5 (take_bit 3 a)) = take_bit 3 a"
    by (rule bit_word_eqI) (auto simp: bit_simps)
  ultimately show ?thesis by simp
qed

text \<open>
  A packet with fields in range that is formatted by version 7 into the front of a buffer is
  parsed back with all its fields, and the data are the bytes behind the header. Only the key
  position changes: it is written in the byte order of the machine and read in network order.
\<close>

theorem v7_av_roundtrip:
  assumes "v7_packet p" "v7_header_size (is_video p) (uses_nalu_info_structs p) \<le> length buf"
  shows "\<exists>buf'. chiaki_takion_v7_av_packet_format_header buf p =
      Some (buf', v7_header_size (is_video p) (uses_nalu_info_structs p), CHIAKI_ERR_SUCCESS) \<and>
    chiaki_takion_v7_av_packet_parse ks buf' =
      Some (ks, Inr (p\<lparr>av_key_pos := ucast (swap32 (ucast (av_key_pos p))),
        av_data := drop (v7_header_size (is_video p) (uses_nalu_info_structs p)) buf,
        av_data_size := of_nat (length buf - v7_header_size (is_video p) (uses_nalu_info_structs p))\<rparr>))"
proof -
  let ?video = "is_video p" and ?nalu = "uses_nalu_info_structs p"
  define fb where "fb = (if ?nalu then (if ?video then 2 else 3) OR 0x10 else (if ?video then 2 else 3 :: u8))"
  define d where "d = (ucast (units_in_frame_fec p AND 0x3ff) :: u32) OR
      push_bit 0xa ((ucast (units_in_frame_total p) - 1) AND 0x7ff) OR push_bit 0x15 (ucast (unit_index p))"
  define c where "c = v7_common buf fb d p"
  define hs where "hs = v7_header_size ?video ?nalu"
  have l: "0x12 \<le> length buf" "length c = length buf" "hs \<le> length buf" "hs = 0x12 + (if ?video then 3 else 0) + (if ?nalu then 3 else 0)"
    using assms(2) by (simp_all add: v7_header_size_def c_def hs_def)
  note c = v7_common_reads [OF l(1), where fb = fb and d = d and p = p, folded c_def]
  have ty: "packet_base_type fb = (if ?video then 2 else 3)" "(drop_bit 4 fb AND 1 \<noteq> 0) = ?nalu"
    unfolding fb_def by (rule v7_first_byte)+
  define w where "w = (if ?video then upd (upd c 0x12 (be16 (word_at_0x18 p))) 0x14 [push_bit 5 (adaptive_stream_index p)] else c)"
  define e where "e = (if ?nalu then upd w (0x12 + (if ?video then 3 else 0)) [0, 0, 0] else w)"
  have f: "chiaki_takion_v7_av_packet_format_header buf p = Some (e, hs, CHIAKI_ERR_SUCCESS)"
  proof -
    have "chiaki_takion_v7_av_packet_format_header buf p = Some
        (if ?nalu then upd w (0x12 + (if ?video then 3 else 0)) [0, 0, 0] else w, v7_header_size ?video ?nalu, CHIAKI_ERR_SUCCESS)"
      using l unfolding chiaki_takion_v7_av_packet_format_header_def w_def c_def v7_common_def fb_def d_def hs_def
      by (cases ?video; cases ?nalu) (simp_all add: wr_Some v7_header_size_def)
    then show ?thesis by (simp only: e_def hs_def)
  qed
  have w: "length w = length buf" using l by (cases ?video) (simp_all add: w_def)
  then have e: "length e = length buf" using l by (cases ?video; cases ?nalu) (simp_all add: e_def)
  have reads: "rd8 e i = rd8 c i" "rd16 e j = rd16 c j" "rd32 e k = rd32 c k"
    if "i < 0x12" "j + 2 \<le> 0x12" "k + 4 \<le> 0x12" for i j k
    using that l w by (cases ?video; cases ?nalu; simp add: e_def w_def rd_upd)+
  have e0: "e ! 0 = fb"
  proof -
    have "buf \<noteq> []" using l(1) by auto
    then show ?thesis using reads(1) [of 0 0 0] c(1) e l(2) by (simp add: rd8_def)
  qed
  have video: "?video \<Longrightarrow> rd16 e 0x12 = Some (word_at_0x18 p) \<and> rd8 e 0x14 = Some (push_bit 5 (adaptive_stream_index p))"
    using l w by (cases ?nalu) (simp_all add: e_def w_def rd_upd)
  have data: "drop hs e = drop hs buf"
    using l w c(7) [of hs] by (cases ?video; cases ?nalu) (simp_all add: e_def w_def drop_upd)
  have base: "(packet_base_type fb = 2) = ?video" "packet_base_type fb \<noteq> 2 \<longrightarrow> packet_base_type fb = 3"
    by (simp_all add: ty)
  have dword: "av_dword_2 True d q =
      q\<lparr>unit_index := unit_index p, units_in_frame_total := units_in_frame_total p, units_in_frame_fec := units_in_frame_fec p\<rparr>" for q
    unfolding d_def by (rule v7_dword [OF assms(1)])
  have sz: "(of_nat (length buf) :: u64) - of_nat n = of_nat (length buf - n)" if "n \<le> length buf" for n
    using that by (simp add: of_nat_diff)
  have rs: "rd16 e (Suc 0) = Some (av_packet_index p)" "rd16 e 3 = Some (av_frame_index p)" "rd32 e 5 = Some d"
      "rd8 e 9 = Some (av_codec p)" "rd32 e 14 = Some (swap32 (ucast (av_key_pos p)))"
    using reads(2) [of 0 1 0] reads(2) [of 0 3 0] reads(3) [of 0 0 5] reads(1) [of 9 0 0] reads(3) [of 0 0 14] c(2-6)
    by simp_all
  have nonempty: "buf \<noteq> []" using l(1) by auto
  have pe: "p\<lparr>av_key_pos := k, av_data := x, av_data_size := n\<rparr> =
      \<lparr>av_packet_index = av_packet_index p, av_frame_index = av_frame_index p,
       uses_nalu_info_structs = uses_nalu_info_structs p, is_video = is_video p, is_haptics = is_haptics p,
       unit_index = unit_index p, units_in_frame_total = units_in_frame_total p,
       units_in_frame_fec = units_in_frame_fec p, av_codec = av_codec p, word_at_0x18 = word_at_0x18 p,
       adaptive_stream_index = adaptive_stream_index p, byte_at_0x2c = byte_at_0x2c p, av_key_pos = k, av_data = x,
       av_data_size = n\<rparr>" for k x n
    by (rule av_packet.equality) simp_all
  have "chiaki_takion_v7_av_packet_parse ks e =
      Some (ks, Inr (p\<lparr>av_key_pos := ucast (swap32 (ucast (av_key_pos p))), av_data := drop hs buf, av_data_size := of_nat (length buf - hs)\<rparr>))"
  proof (cases ?video)
    case True
    then show ?thesis
      using assms(1) l video data nonempty
      by (cases ?nalu)
        (simp_all add: chiaki_takion_v7_av_packet_parse_def e e0 base ty Let_def rs dword rd_drop v7_header_size_def
          adaptive_shift v7_packet_def av_packet_zero_def sz [symmetric] pe)
  next
    case False
    then show ?thesis
      using assms(1) l data nonempty
      by (cases ?nalu)
        (simp_all add: chiaki_takion_v7_av_packet_parse_def e e0 base ty Let_def rs dword rd_drop v7_header_size_def
          v7_packet_def av_packet_zero_def sz [symmetric] pe)
  qed
  then show ?thesis using f by (auto simp: hs_def)
qed

definition sample_av :: av_packet where
  "sample_av = av_packet_zero\<lparr>is_video := True, av_packet_index := 7, av_frame_index := 3, unit_index := 0x7ff,
     units_in_frame_total := 0x800, units_in_frame_fec := 0x3ff, av_codec := 4, word_at_0x18 := 0x1234,
     adaptive_stream_index := 5, av_key_pos := 0x11223344\<rparr>"

theorem v7_av_roundtrip_witness:
  "map_option (map_sum id (\<lambda>p. (unit_index p, units_in_frame_total p, av_key_pos p, av_data p)) \<circ> snd)
     (chiaki_takion_v7_av_packet_parse chiaki_key_state_init
       (fst (the (chiaki_takion_v7_av_packet_format_header (replicate 22 9) sample_av)))) =
   Some (Inr (0x7ff, 0x800, 0x44332211, [9]))"
proof -
  have "v7_packet sample_av" by code_simp
  moreover have "ucast (swap32 (ucast (av_key_pos sample_av))) = (0x44332211 :: u64)" by code_simp
  moreover have "drop 21 (replicate 22 9) = [9 :: u8]" by (simp add: numeral_eq_Suc)
  moreover have "is_video sample_av" "\<not> uses_nalu_info_structs sample_av" "unit_index sample_av = 0x7ff"
      "units_in_frame_total sample_av = 0x800"
    by (simp_all add: sample_av_def av_packet_zero_def)
  ultimately show ?thesis
    using v7_av_roundtrip [of sample_av "replicate 22 9" chiaki_key_state_init] by (auto simp: v7_header_size_def)
qed

text \<open>An audio packet that announces NALU structures.\<close>

definition av_audio_nalu :: "bytes \<Rightarrow> bool" where
  "av_audio_nalu buf \<longleftrightarrow> packet_base_type (buf ! 0) = TAKION_PACKET_TYPE_AUDIO \<and> drop_bit 4 (buf ! 0) AND 1 \<noteq> 0"

lemma rd_defined: "(\<exists>x. rd8 b i = Some x) = (i < length b)" "(\<exists>x. rd16 b i = Some x) = (i + 1 < length b)"
    "(\<exists>x. rd32 b i = Some x) = (i + 3 < length b)"
  by (auto simp: rd8_def rd16_def rd32_def Option.bind_eq_Some_conv)

lemma unat_rest: "n \<le> m \<Longrightarrow> m < 2 ^ 63 \<Longrightarrow> unat ((of_nat m :: u64) - of_nat n) = m - n"
proof -
  assume a: "n \<le> m" "m < 2 ^ 63"
  then have e: "(of_nat m :: u64) - of_nat n = of_nat (m - n)" by (simp add: of_nat_diff)
  show ?thesis unfolding e using a by (intro unat_of_nat_small) simp
qed

lemma unat_wrapped: "m < n \<Longrightarrow> n < 2 ^ 63 \<Longrightarrow> 2 ^ 63 < unat ((of_nat m :: u64) - of_nat n)"
proof -
  assume a: "m < n" "n < 2 ^ 63"
  then have e: "(of_nat m :: u64) - of_nat n = - of_nat (n - m)" by (simp add: of_nat_diff)
  have k: "unat (of_nat (n - m) :: u64) = n - m" using a by (intro unat_of_nat_small) simp
  then have "unat (0 - of_nat (n - m) :: u64) = 2 ^ 64 - (n - m)"
    using a unat_sub_if_size [of "0 :: u64" "of_nat (n - m)"] by (simp add: word_size word_le_nat_alt del: of_nat_diff)
  then show ?thesis unfolding e using a by simp
qed

text \<open>
  The header has \<open>hl\<close> bytes and, in audio packets of version 12, one more. The parser fails exactly
  when it has to read this byte and the buffer ends.
\<close>

lemma av_packet_parse_cases:
  fixes buf :: bytes and v12 :: bool
  defines "video \<equiv> packet_base_type (buf ! 0) = 2" and "nalu \<equiv> drop_bit 4 (buf ! 0) AND 1 \<noteq> 0"
  defines "hl \<equiv> 1 + (if video then 0x14 else 0x12) + (if nalu then 3 else (0 :: nat))"
  defines "xb \<equiv> (if v12 \<and> \<not> video then 1 else (0 :: nat))"
  assumes ty: "packet_base_type (buf ! 0) = 2 \<or> packet_base_type (buf ! 0) = 3"
    and l: "av_header_size v12 video + 2 \<le> length buf"
  shows "if xb = 1 \<and> length buf \<le> hl then av_packet_parse v12 ks buf = None
    else \<exists>ks' p. av_packet_parse v12 ks buf = Some (ks', Inr p) \<and> av_data p = drop (hl + xb) buf \<and>
      av_data_size p = of_nat (length buf) - of_nat (hl + xb)"
proof -
  have l': "0x14 \<le> length buf" "video \<Longrightarrow> 0x19 \<le> length buf" "v12 \<Longrightarrow> 0x15 \<le> length buf"
    using l by (auto simp: av_header_size_def split: if_splits)
  have n: "buf \<noteq> []" "\<not> length buf - Suc 0 < Suc (av_header_size v12 video)" using l by auto
  have ty': "packet_base_type (buf ! 0) = 2 \<longleftrightarrow> video" "packet_base_type (buf ! 0) \<noteq> 2 \<Longrightarrow> packet_base_type (buf ! 0) = 3"
    using ty by (auto simp: video_def)
  have ex: "\<exists>x. rd16 buf (Suc 0) = Some x" "\<exists>x. rd16 buf 3 = Some x" "\<exists>x. rd32 buf 5 = Some x"
      "\<exists>x. rd8 buf 9 = Some x" "\<exists>x. rd32 buf 14 = Some x" "\<exists>x. rd8 buf 18 = Some x"
    using l'(1) by (simp_all add: rd_defined)
  then obtain pi fi d co kp ub where r: "rd16 buf (Suc 0) = Some pi" "rd16 buf 3 = Some fi" "rd32 buf 5 = Some d"
      "rd8 buf 9 = Some co" "rd32 buf 14 = Some kp" "rd8 buf 18 = Some ub" by blast
  obtain ks' kq where kq: "chiaki_key_state_request_pos ks kp True = (ks', kq)" by fastforce
  have sz: "of_nat (length buf - Suc 0) = (of_nat (length buf) :: u64) - 1" using n(1) by (simp add: of_nat_diff Suc_le_eq)
  note defs = av_packet_parse_def Let_def ty' rd_drop r r(2) [unfolded numeral_3_eq_3] kq sz video_def [symmetric] nalu_def [symmetric]
  show ?thesis
  proof (cases video)
    case True
    then have "\<exists>x. rd16 buf 18 = Some x" "\<exists>x. rd8 buf 20 = Some x" "\<exists>x. rd8 buf 21 = Some x"
      using l'(2) by (simp_all add: rd_defined)
    then obtain x y z where "rd16 buf 18 = Some x" "rd8 buf 20 = Some y" "rd8 buf 21 = Some z" by blast
    then show ?thesis using True n by (cases nalu) (simp_all add: defs hl_def xb_def)
  next
    case False
    have h: "xb = (if v12 then 1 else 0)" "hl = 19 + (if nalu then 3 else 0)" using False by (simp_all add: hl_def xb_def)
    show ?thesis
    proof (cases "v12 \<and> hl < length buf")
      case True
      then obtain x where "rd8 buf hl = Some x" using rd_defined(1) [of buf hl] by blast
      then show ?thesis using False True n h by (cases nalu) (simp_all add: defs)
    next
      case no: False
      then have "v12 \<Longrightarrow> rd8 buf hl = None" by (simp add: rd8_def)
      then show ?thesis using False no n h by (cases nalu; cases v12) (simp_all add: defs)
    qed
  qed
qed

text \<open>
  Parsing an audio or video packet of version 9 or 12 reads inside the received bytes, and the
  data it returns are the rest of these bytes, with one exception: an audio packet with NALU
  structures, whose header is longer than what is checked. Version 12 then reads behind the
  buffer when 21 or 22 bytes arrive; version 9 returns a data size that has wrapped around, 20 or
  21 bytes.
\<close>

theorem av_parse_in_bounds:
  assumes "length buf < 2 ^ 63"
  shows "case av_packet_parse v12 ks buf of
      None \<Rightarrow> v12 \<and> av_audio_nalu buf \<and> length buf \<in> {0x15, 0x16}
    | Some (_, Inl err) \<Rightarrow> err = CHIAKI_ERR_BUF_TOO_SMALL \<or> err = CHIAKI_ERR_INVALID_DATA
    | Some (_, Inr p) \<Rightarrow>
        if \<not> v12 \<and> av_audio_nalu buf \<and> length buf < 0x16
        then av_data p = [] \<and> 2 ^ 63 < unat (av_data_size p)
        else unat (av_data_size p) = length (av_data p) \<and> av_data p = drop (length buf - length (av_data p)) buf \<and>
          av_audio_nalu buf \<or> 0 < length (av_data p)"
proof (cases "buf = [] \<or> packet_base_type (buf ! 0) \<notin> {2, 3} \<or>
    length buf < av_header_size v12 (packet_base_type (buf ! 0) = 2) + 2")
  case True
  then show ?thesis
    by (auto simp: av_packet_parse_def Let_def Suc_le_eq)
next
  case False
  then have ty: "packet_base_type (buf ! 0) = 2 \<or> packet_base_type (buf ! 0) = 3"
    and l: "av_header_size v12 (packet_base_type (buf ! 0) = 2) + 2 \<le> length buf" by auto
  note cases_of = av_packet_parse_cases [OF ty l, of ks]
  have inside: ?thesis if "k \<le> length buf" "av_packet_parse v12 ks buf = Some (ks', Inr p)" "av_data p = drop k buf"
      "av_data_size p = of_nat (length buf) - of_nat k" "v12 \<or> \<not> av_audio_nalu buf \<or> \<not> length buf < 0x16"
      "av_audio_nalu buf \<or> k < length buf" for k ks' p
    using that unat_rest [OF that(1) assms] by auto
  show ?thesis
  proof (cases "packet_base_type (buf ! 0) = 2")
    case True
    then have "0x19 \<le> length buf" "\<not> av_audio_nalu buf" using l by (simp_all add: av_header_size_def av_audio_nalu_def split: if_splits)
    then show ?thesis using True cases_of inside by (auto split: if_splits)
  next
    case audio: False
    then have a: "av_audio_nalu buf \<longleftrightarrow> drop_bit 4 (buf ! 0) AND 1 \<noteq> 0" using ty by (simp add: av_audio_nalu_def)
    have n: "0x14 \<le> length buf" "v12 \<Longrightarrow> 0x15 \<le> length buf" using l audio by (simp_all add: av_header_size_def split: if_splits)
    show ?thesis
    proof (cases "av_audio_nalu buf")
      case False
      then show ?thesis using audio cases_of inside n a by (auto split: if_splits)
    next
      case nalu: True
      show ?thesis
      proof (cases "\<not> v12 \<and> length buf < 22")
        case True
        then obtain ks' p where "av_packet_parse v12 ks buf = Some (ks', Inr p)" "av_data p = drop 22 buf"
            "av_data_size p = of_nat (length buf) - of_nat 22"
          using audio cases_of a nalu by auto
        then show ?thesis using True nalu unat_wrapped [of "length buf" 22] by simp
      next
        case False
        show ?thesis
        proof (cases "length buf \<le> 22 \<and> v12")
          case True
          then show ?thesis using nalu audio cases_of a n by auto
        next
          case inside_buf: False
          let ?k = "22 + (if v12 then 1 else 0)"
          obtain ks' p where "av_packet_parse v12 ks buf = Some (ks', Inr p)" "av_data p = drop ?k buf"
              "av_data_size p = of_nat (length buf) - of_nat ?k"
            using inside_buf audio cases_of a nalu by (cases v12) auto
          moreover have "?k \<le> length buf" using False inside_buf by auto
          ultimately show ?thesis using inside [of ?k ks' p] False nalu by blast
        qed
      qed
    qed
  qed
qed

theorem av_parse_in_bounds_witness:
  "\<exists>ks' p. av_packet_parse False chiaki_key_state_init (0x13 # replicate 19 0) = Some (ks', Inr p) \<and>
     av_data p = [] \<and> 2 ^ 63 < unat (av_data_size p)"
proof -
  let ?buf = "0x13 # replicate 19 0 :: bytes"
  have "map_option (\<lambda>(_, r). isl r) (av_packet_parse False chiaki_key_state_init ?buf) = Some False" by code_simp
  then obtain ks' p where p: "av_packet_parse False chiaki_key_state_init ?buf = Some (ks', Inr p)"
    by (auto simp: isl_def) (metis sum.exhaust)
  moreover have "av_audio_nalu ?buf" "length ?buf < 0x16" by (simp_all add: av_audio_nalu_def packet_base_type_def)
  moreover have "length ?buf < 2 ^ 63" by simp
  ultimately show ?thesis
    using av_parse_in_bounds [of ?buf False chiaki_key_state_init] by (simp only: p option.case prod.case sum.case) simp
qed

end
