(* ===== verification/Reorder_Queue_Refine.thy ===== *)
theory Reorder_Queue_Refine
  imports Reorder_Queue
begin

text \<open>
  The reorder queue implements a window: a start number and a list of optional elements.
  \<open>push_spec\<close>, \<open>pull_spec\<close> say what \<^verbatim>\<open>push\<close> and \<^verbatim>\<open>pull\<close> promise on windows; the locale
  \<open>seq_num_ops\<close> states the laws of the function pointers of the queue and holds the
  simulation proofs, and its interpretation on the 32 bit operations gives the theorems
  about the queue that Takion uses.
\<close>

section \<open>The abstract window\<close>

text \<open>How far \<open>s\<close> is after \<open>b\<close> in a number space of the given width.\<close>

definition seq_off :: "nat \<Rightarrow> u64 \<Rightarrow> u64 \<Rightarrow> nat" where
  "seq_off bits b s = (unat s + 2 ^ bits - unat b) mod 2 ^ bits"

definition rq_slot :: "'e reorder_queue \<Rightarrow> nat \<Rightarrow> 'e option" where
  "rq_slot q i =
     (let e = queue q ! ((unat (rq_begin q) + i) mod 2 ^ size_exp q)
      in if entry_set e then Some (entry_user e) else None)"

definition rq_window :: "'e reorder_queue \<Rightarrow> 'e option list" where
  "rq_window q = map (rq_slot q) [0..<unat (rq_count q)]"

definition rq_wf :: "nat \<Rightarrow> 'e reorder_queue \<Rightarrow> bool" where
  "rq_wf bits q \<longleftrightarrow>
     0 < size_exp q \<and> size_exp q < bits - 1 \<and> length (queue q) = 2 ^ size_exp q \<and>
     unat (rq_count q) \<le> 2 ^ size_exp q \<and> unat (rq_begin q) < 2 ^ bits"

text \<open>The queue \<open>q\<close> with the given function pointers holds the window \<open>xs\<close> that starts at \<open>b\<close>.\<close>

definition rq_rep ::
  "nat \<Rightarrow> (u64 \<Rightarrow> u64 \<Rightarrow> bool) \<Rightarrow> (u64 \<Rightarrow> u64 \<Rightarrow> bool) \<Rightarrow> (u64 \<Rightarrow> u64 \<Rightarrow> u64) \<Rightarrow>
   'e reorder_queue \<Rightarrow> u64 \<Rightarrow> 'e option list \<Rightarrow> bool" where
  "rq_rep bits gt lt add q b xs \<longleftrightarrow>
     rq_wf bits q \<and> rq_gt q = gt \<and> rq_lt q = lt \<and> rq_add q = add \<and> rq_begin q = b \<and> rq_window q = xs"

text \<open>What no operation changes.\<close>

definition rq_conf :: "'e reorder_queue \<Rightarrow> nat \<times> ChiakiReorderQueueDropStrategy \<times> bool" where
  "rq_conf q = (size_exp q, drop_strategy q, drop_cb q)"

text \<open>The elements of a list of slots with their sequence numbers, for the drop callback.\<close>

fun slot_drops :: "(nat \<Rightarrow> u64) \<Rightarrow> nat \<Rightarrow> 'e option list \<Rightarrow> 'e drops" where
  "slot_drops num i [] = []"
| "slot_drops num i (None # xs) = slot_drops num (Suc i) xs"
| "slot_drops num i (Some x # xs) = (num i, x) # slot_drops num (Suc i) xs"

text \<open>
  What \<^verbatim>\<open>push\<close> does to a window of at most \<open>sz\<close> slots that starts at \<open>b\<close>: the new start, the
  new slots and the dropped elements. \<open>None\<close> is the failed assertion.
\<close>

definition push_spec ::
  "nat \<Rightarrow> nat \<Rightarrow> ChiakiReorderQueueDropStrategy \<Rightarrow> u64 \<Rightarrow> 'e option list \<Rightarrow> u64 \<Rightarrow> 'e \<Rightarrow>
   (u64 \<times> 'e option list \<times> 'e drops) option" where
  "push_spec bits sz strategy b xs s x =
     (let off = seq_off bits b s; n = length xs; num = (\<lambda>i. of_nat ((unat b + i) mod 2 ^ bits))
      in if off < n
         then (case xs ! off of Some _ \<Rightarrow> Some (b, xs, [(s, x)]) | None \<Rightarrow> Some (b, xs[off := Some x], []))
         else if 2 ^ (bits - 1) < off then Some (b, xs, [(s, x)])
         else if n = 0 \<and> off = 2 ^ (bits - 1) then None
         else if off < sz then Some (b, xs @ replicate (off - n) None @ [Some x], [])
         else if strategy = CHIAKI_REORDER_QUEUE_DROP_STRATEGY_END then Some (b, xs, [(s, x)])
         else if n + sz \<le> off + 1 then Some (s, [Some x], slot_drops num 0 xs)
         else let k = off + 1 - sz
              in Some (num k, drop k xs @ replicate (off - n) None @ [Some x], slot_drops num 0 (take k xs)))"

text \<open>What \<^verbatim>\<open>pull\<close> does: it takes the first slot when that is filled.\<close>

fun pull_spec :: "nat \<Rightarrow> u64 \<Rightarrow> 'e option list \<Rightarrow> (u64 \<times> 'e option list) \<times> (u64 \<times> 'e) option" where
  "pull_spec bits b (Some x # xs) = ((of_nat ((unat b + 1) mod 2 ^ bits), xs), Some (b, x))"
| "pull_spec bits b xs = ((b, xs), None)"

section \<open>The interface of the sequence numbers\<close>

locale seq_num_ops =
  fixes bits :: nat
    and gt :: "u64 \<Rightarrow> u64 \<Rightarrow> bool"
    and lt :: "u64 \<Rightarrow> u64 \<Rightarrow> bool"
    and add :: "u64 \<Rightarrow> u64 \<Rightarrow> u64"
  assumes bits_range: "1 < bits" "bits \<le> 32"
    and gt_lt: "gt a b = lt b a"
    and lt_off: "unat a < 2 ^ bits \<Longrightarrow> unat b < 2 ^ bits \<Longrightarrow>
          lt a b \<longleftrightarrow> 0 < seq_off bits a b \<and> seq_off bits a b < 2 ^ (bits - 1)"
    and add_mod: "unat a < 2 ^ bits \<Longrightarrow> unat (add a b) = (unat a + unat b) mod 2 ^ bits"
begin

lemma half: "(2::nat) ^ bits = 2 * 2 ^ (bits - 1)"
  using bits_range by (cases bits) auto

lemma bits_pos: "(0::nat) < 2 ^ bits" "(2::nat) ^ bits \<le> 2 ^ 32"
  using bits_range power_increasing [of bits 32 "2::nat"] by auto

lemma seq_off_less: "seq_off bits b s < 2 ^ bits"
  using bits_pos by (simp add: seq_off_def)

lemma seq_off_int:
  assumes "unat a = x mod 2 ^ bits" "unat c = y mod 2 ^ bits"
  shows "int (seq_off bits a c) = (int y - int x) mod 2 ^ bits"
proof -
  have "x mod 2 ^ bits \<le> y mod 2 ^ bits + 2 ^ bits"
    using bits_pos(1) mod_less_divisor [of "2 ^ bits" x] by linarith
  then have "int (unat c + 2 ^ bits - unat a) = int (y mod 2 ^ bits) + 2 ^ bits - int (x mod 2 ^ bits)"
    using assms by (simp add: of_nat_diff)
  then have "int (unat c + 2 ^ bits - unat a) = int y mod 2 ^ bits + 2 ^ bits - int x mod 2 ^ bits"
    by (simp add: zmod_int)
  then have "int (seq_off bits a c) = (int y mod 2 ^ bits + 2 ^ bits - int x mod 2 ^ bits) mod 2 ^ bits"
    by (simp add: seq_off_def zmod_int)
  also have "int y mod 2 ^ bits + 2 ^ bits - int x mod 2 ^ bits =
      (int y mod 2 ^ bits - int x mod 2 ^ bits) + 2 ^ bits" by simp
  also have "\<dots> mod 2 ^ bits = (int y - int x) mod 2 ^ bits"
    by (simp only: mod_add_self2 mod_diff_eq)
  finally show ?thesis .
qed

lemma seq_off_forward:
  assumes "unat a = x mod 2 ^ bits" "unat c = y mod 2 ^ bits" "x \<le> y" "y - x < 2 ^ bits"
  shows "seq_off bits a c = y - x"
proof -
  have "int (seq_off bits a c) = (int y - int x) mod 2 ^ bits"
    by (rule seq_off_int [OF assms(1,2)])
  also have "\<dots> = int (y - x) mod 2 ^ bits" using assms(3) by (simp add: of_nat_diff)
  also have "\<dots> = int ((y - x) mod 2 ^ bits)" by (simp add: zmod_int)
  finally show ?thesis using assms(4) by simp
qed

lemma seq_off_backward:
  assumes "unat a = x mod 2 ^ bits" "unat c = y mod 2 ^ bits" "y < x" "x - y < 2 ^ bits"
  shows "seq_off bits a c = 2 ^ bits - (x - y)"
proof -
  have "unat c = (y + 2 ^ bits) mod 2 ^ bits" using assms(2) by simp
  from seq_off_forward [OF assms(1) this] assms(3,4) show ?thesis by simp
qed

lemma unat_seq_off:
  assumes "unat b < 2 ^ bits" "unat s < 2 ^ bits"
  shows "unat s = (unat b + seq_off bits b s) mod 2 ^ bits"
proof -
  have "(unat b + seq_off bits b s) mod 2 ^ bits = (unat b + (unat s + 2 ^ bits - unat b)) mod 2 ^ bits"
    by (simp add: seq_off_def mod_add_right_eq)
  also have "unat b + (unat s + 2 ^ bits - unat b) = unat s + 2 ^ bits" using assms(1) by simp
  finally show ?thesis using assms(2) by simp
qed

lemma in_range: "unat a = x mod 2 ^ bits \<Longrightarrow> unat a < 2 ^ bits"
  using bits_pos by simp

lemma lt_forward:
  assumes "unat a = x mod 2 ^ bits" "unat c = y mod 2 ^ bits" "x \<le> y" "y - x < 2 ^ bits"
  shows "lt a c \<longleftrightarrow> x < y \<and> y - x < 2 ^ (bits - 1)"
proof -
  have "lt a c \<longleftrightarrow> 0 < seq_off bits a c \<and> seq_off bits a c < 2 ^ (bits - 1)"
    using assms(1,2) by (intro lt_off in_range)
  then show ?thesis using seq_off_forward [OF assms] assms(3) by linarith
qed

lemma lt_backward:
  assumes "unat a = x mod 2 ^ bits" "unat c = y mod 2 ^ bits" "y < x" "x - y < 2 ^ bits"
  shows "lt a c \<longleftrightarrow> 2 ^ (bits - 1) < x - y"
proof -
  have "lt a c \<longleftrightarrow> 0 < seq_off bits a c \<and> seq_off bits a c < 2 ^ (bits - 1)"
    using assms(1,2) by (intro lt_off in_range)
  then show ?thesis using seq_off_backward [OF assms] assms(3,4) half by linarith
qed

lemma add_mod_mod:
  assumes "unat a = x mod 2 ^ bits"
  shows "unat (add a b) = (x + unat b) mod 2 ^ bits"
  using add_mod [OF in_range] assms by (simp add: mod_add_left_eq)

section \<open>The circular array\<close>

lemma size_exp_lt: "rq_wf bits q \<Longrightarrow> size_exp q < 31"
  using bits_range by (auto simp: rq_wf_def)

lemma unat_QUEUE_SIZE: "rq_wf bits q \<Longrightarrow> unat (QUEUE_SIZE q) = 2 ^ size_exp q"
proof -
  assume "rq_wf bits q"
  then have "(2::nat) ^ size_exp q < 2 ^ LENGTH(64)"
    using size_exp_lt [of q] by (intro power_strict_increasing) auto
  moreover have "QUEUE_SIZE q = of_nat (2 ^ size_exp q)" by (simp add: QUEUE_SIZE_def)
  ultimately show ?thesis by (simp only: unat_of_nat_small)
qed

lemma rq_idx_eq:
  assumes "rq_wf bits q" "unat s = x mod 2 ^ bits"
  shows "rq_idx q s = x mod 2 ^ size_exp q"
proof -
  have "QUEUE_SIZE q - 1 = mask (size_exp q)"
    by (simp add: QUEUE_SIZE_def mask_eq_exp_minus_1)
  then have "rq_idx q s = take_bit (size_exp q) (unat s)"
    by (simp add: rq_idx_def unsigned_take_bit_eq flip: take_bit_eq_mask)
  also have "\<dots> = unat s mod 2 ^ size_exp q" by (simp add: take_bit_eq_mod)
  also have "\<dots> = x mod 2 ^ size_exp q"
  proof -
    have "(2::nat) ^ size_exp q dvd 2 ^ bits"
      using assms(1) by (intro le_imp_power_dvd) (auto simp: rq_wf_def)
    then show ?thesis using assms(2) by (simp add: mod_mod_cancel)
  qed
  finally show ?thesis .
qed

lemma rq_idx_less: "rq_wf bits q \<Longrightarrow> unat s < 2 ^ bits \<Longrightarrow> rq_idx q s < length (queue q)"
  using rq_idx_eq [of q s "unat s"] by (simp add: rq_wf_def)

lemma rq_entry_eq:
  assumes "rq_wf bits q" "unat s = (unat (rq_begin q) + i) mod 2 ^ bits"
  shows "rq_entry q s = Some (queue q ! ((unat (rq_begin q) + i) mod 2 ^ size_exp q))"
proof -
  have "length (queue q) = 2 ^ size_exp q" using assms(1) by (simp add: rq_wf_def)
  then show ?thesis using rq_idx_eq [OF assms] by (simp add: rq_entry_def)
qed

abbreviation rep :: "'e reorder_queue \<Rightarrow> u64 \<Rightarrow> 'e option list \<Rightarrow> bool" where
  "rep \<equiv> rq_rep bits gt lt add"

lemma rep_length: "rep q b xs \<Longrightarrow> unat (rq_count q) = length xs"
  by (auto simp: rq_rep_def rq_window_def)

lemma rep_bounds:
  assumes "rep q b xs"
  shows "length xs \<le> 2 ^ size_exp q" "(2::nat) ^ size_exp q < 2 ^ (bits - 1)" "unat b < 2 ^ bits"
    "2 \<le> (2::nat) ^ size_exp q"
proof -
  have "rq_wf bits q" "rq_begin q = b" using assms by (simp_all add: rq_rep_def)
  then show "length xs \<le> 2 ^ size_exp q" "unat b < 2 ^ bits" "(2::nat) ^ size_exp q < 2 ^ (bits - 1)"
    using rep_length [OF assms] by (auto simp: rq_wf_def intro!: power_strict_increasing)
  have "(2::nat) ^ 1 \<le> 2 ^ size_exp q"
    using \<open>rq_wf bits q\<close> by (intro power_increasing) (auto simp: rq_wf_def)
  then show "2 \<le> (2::nat) ^ size_exp q" by simp
qed

lemma rq_window_nth: "i < unat (rq_count q) \<Longrightarrow> rq_window q ! i = rq_slot q i"
  by (simp add: rq_window_def)

lemma rep_entry:
  assumes "rep q b xs" "unat s = (unat b + i) mod 2 ^ bits"
  obtains e where "rq_entry q s = Some e"
    "rq_slot q i = (if entry_set e then Some (entry_user e) else None)"
  using rq_entry_eq [of q s i] assms by (auto simp: rq_rep_def rq_slot_def Let_def)

lemma rep_nth: "rep q b xs \<Longrightarrow> i < length xs \<Longrightarrow> xs ! i = rq_slot q i"
  using rq_window_nth [of i q] rep_length [of q b xs] by (auto simp: rq_rep_def)

lemma rep_entry_nth:
  assumes "rep q b xs" "unat s = (unat b + i) mod 2 ^ bits" "i < length xs"
  obtains e where "rq_entry q s = Some e"
    "xs ! i = (if entry_set e then Some (entry_user e) else None)"
  using rep_entry [OF assms(1,2)] rep_nth [OF assms(1,3)] by metis

lemma rq_wf_store: "rq_wf bits (rq_store q s e) = rq_wf bits q"
  by (simp add: rq_wf_def rq_store_def)

lemma rq_store_fields [simp]:
  "rq_count (rq_store q s e) = rq_count q" "rq_begin (rq_store q s e) = rq_begin q"
  "size_exp (rq_store q s e) = size_exp q" "rq_gt (rq_store q s e) = rq_gt q"
  "rq_lt (rq_store q s e) = rq_lt q" "rq_add (rq_store q s e) = rq_add q"
  "drop_strategy (rq_store q s e) = drop_strategy q" "drop_cb (rq_store q s e) = drop_cb q"
  by (simp_all add: rq_store_def)

lemma rq_slot_store:
  assumes "rq_wf bits q" "unat s = (unat (rq_begin q) + j) mod 2 ^ bits"
    "i < 2 ^ size_exp q" "j < 2 ^ size_exp q"
  shows "rq_slot (rq_store q s e) i =
     (if i = j then if entry_set e then Some (entry_user e) else None else rq_slot q i)"
proof -
  have l: "length (queue q) = 2 ^ size_exp q" using assms(1) by (simp add: rq_wf_def)
  have "(unat (rq_begin q) + i) mod 2 ^ size_exp q = (unat (rq_begin q) + j) mod 2 ^ size_exp q \<longleftrightarrow> i = j"
    using assms(3,4) by (rule circular_inj)
  then show ?thesis
    using l rq_idx_eq [OF assms(1,2)] by (auto simp: rq_slot_def rq_store_def Let_def nth_list_update)
qed

lemma rep_store:
  assumes "rep q b xs" "unat s = (unat b + j) mod 2 ^ bits" "j < length xs"
  shows "rep (rq_store q s \<lparr>entry_user = x, entry_set = True\<rparr>) b (xs[j := Some x])"
proof -
  have wf: "rq_wf bits q" and b: "rq_begin q = b"
    using assms(1) by (simp_all add: rq_rep_def)
  have "rq_window (rq_store q s \<lparr>entry_user = x, entry_set = True\<rparr>) = xs[j := Some x]"
    using wf b assms(2,3) rep_length [OF assms(1)] rep_bounds(1) [OF assms(1)] rep_nth [OF assms(1)]
    by (intro nth_equalityI) (auto simp: rq_window_def rq_slot_store nth_list_update)
  then show ?thesis using assms(1) by (simp add: rq_rep_def rq_wf_store)
qed

section \<open>The loops\<close>

text \<open>One step of the second loop: the window grows by an empty slot.\<close>

lemma rep_grow:
  assumes r: "rep q b xs" and s: "unat s = (unat b + length xs) mod 2 ^ bits"
    and l: "length xs < 2 ^ size_exp q"
    and e: "rq_entry (q\<lparr>rq_count := rq_count q + 1\<rparr>) s = Some e"
  shows "rep (rq_store (q\<lparr>rq_count := rq_count q + 1\<rparr>) s (e\<lparr>entry_set := False\<rparr>)) b (xs @ [None])"
    (is "rep ?q b _")
proof -
  let ?q1 = "q\<lparr>rq_count := rq_count q + 1\<rparr>"
  have wf: "rq_wf bits q" and b: "rq_begin q = b" using r by (simp_all add: rq_rep_def)
  have "(2::nat) ^ size_exp q < 2 ^ 64"
    using rep_bounds(2) [OF r] bits_pos(2) half power_strict_increasing [of 32 64 "2::nat"] by linarith
  then have c: "unat (rq_count q + 1) = length xs + 1"
    using l rep_length [OF r] by (subst unat_plus1_small) simp_all
  then have wf1: "rq_wf bits ?q1" using wf l by (simp add: rq_wf_def)
  have b1: "unat s = (unat (rq_begin ?q1) + length xs) mod 2 ^ bits" using s b by simp
  have slot: "rq_slot ?q i = (if i = length xs then None else xs ! i)" if "i < length xs + 1" for i
    using rq_slot_store [OF wf1 b1, of i "e\<lparr>entry_set := False\<rparr>"] that l rep_nth [OF r, of i]
    by (simp add: rq_slot_def)
  have "rq_window ?q = xs @ [None]"
    using slot c by (intro nth_equalityI) (auto simp: rq_window_def nth_append)
  then show ?thesis using r wf1 by (simp add: rq_rep_def rq_wf_store)
qed

lemma move_end_rep:
  assumes "rep q b xs" "unat e = (unat b + length xs) mod 2 ^ bits"
    "unat n = (unat b + t) mod 2 ^ bits" "length xs \<le> t" "t \<le> 2 ^ size_exp q"
  shows "\<exists>q'. move_end q e n = Some q' \<and> rep q' b (xs @ replicate (t - length xs) None) \<and> rq_conf q' = rq_conf q"
  using assms
proof (induction "t - length xs" arbitrary: q xs e)
  case 0
  then have "\<not> lt e n" using lt_forward [of e "unat b + length xs" n "unat b + t"] bits_pos(1) by simp
  then show ?case using 0 by (subst move_end.simps) (auto simp: rq_rep_def rq_conf_def)
next
  case (Suc k)
  let ?q1 = "q\<lparr>rq_count := rq_count q + 1\<rparr>"
  have lt: "length xs < t" using Suc.hyps(2) by simp
  have r: "rep q b xs" by fact
  then have f: "rq_lt q = lt" "rq_add q = add" "rq_begin q = b" by (simp_all add: rq_rep_def)
  have h: "(2::nat) ^ size_exp q < 2 ^ (bits - 1)" by (rule rep_bounds(2) [OF r])
  have d: "t - length xs < 2 ^ (bits - 1)" "t - length xs < 2 ^ bits"
    using h half Suc.prems(5) by linarith+
  then have L: "lt e n"
    using lt_forward [of e "unat b + length xs" n "unat b + t"] Suc.prems(2,3) lt by simp
  have "rq_wf bits q" using r by (simp add: rq_rep_def)
  then have i: "rq_idx ?q1 e < length (queue ?q1)"
    using rq_idx_less [of q e] in_range [OF Suc.prems(2)] by (simp add: rq_idx_def QUEUE_SIZE_def)
  then obtain x where x: "rq_entry ?q1 e = Some x" by (auto simp: rq_entry_def Let_def)
  let ?q2 = "rq_store ?q1 e (x\<lparr>entry_set := False\<rparr>)"
  have r2: "rep ?q2 b (xs @ [None])"
    using rep_grow [OF r Suc.prems(2) _ x] lt Suc.prems(5) by simp
  then have wf2: "rq_wf bits ?q2" by (simp add: rq_rep_def)
  then have c: "rq_count ?q2 \<le> QUEUE_SIZE ?q2"
    using unat_QUEUE_SIZE [OF wf2] by (simp only: word_le_nat_alt) (simp add: rq_wf_def)
  have e2: "unat (add b (rq_count ?q2)) = (unat b + length (xs @ [None])) mod 2 ^ bits"
    using add_mod [OF rep_bounds(3) [OF r]] rep_length [OF r2] by simp
  have "\<exists>q'. move_end ?q2 (add b (rq_count ?q2)) n = Some q' \<and>
      rep q' b ((xs @ [None]) @ replicate (t - length (xs @ [None])) None) \<and> rq_conf q' = rq_conf ?q2"
    using Suc.hyps(2) lt Suc.prems(3,5) by (intro Suc.hyps(1) r2 e2) auto
  moreover have "(xs @ [None]) @ replicate (t - length (xs @ [None])) None = xs @ replicate (t - length xs) None"
    using lt by (simp add: replicate_append_same Suc_diff_Suc flip: replicate_Suc)
  moreover have "rq_conf ?q2 = rq_conf q" by (simp add: rq_conf_def)
  moreover have "move_end q e n = move_end ?q2 (add b (rq_count ?q2)) n"
    using L f x c by (subst move_end.simps) (simp add: Let_def)
  ultimately show ?case by metis
qed

text \<open>One step of the first loop, and of \<^verbatim>\<open>pull\<close>: the first slot leaves the window.\<close>

lemma rep_pop:
  assumes r: "rep q b (x # xs)"
  shows "rep (q\<lparr>rq_begin := add b 1, rq_count := rq_count q - 1\<rparr>) (add b 1) xs"
    (is "rep ?q _ _")
proof -
  have wf: "rq_wf bits q" and b: "rq_begin q = b" using r by (simp_all add: rq_rep_def)
  have n: "unat (add b 1) = (unat b + 1) mod 2 ^ bits"
    using add_mod [OF rep_bounds(3) [OF r]] by simp
  have c: "unat (rq_count q - 1) = length xs"
    using rep_length [OF r] by (subst word_minus_one_small) simp_all
  have d: "(2::nat) ^ size_exp q dvd 2 ^ bits"
    using wf by (intro le_imp_power_dvd) (auto simp: rq_wf_def)
  have "(unat (add b 1) + i) mod 2 ^ size_exp q = (unat b + Suc i) mod 2 ^ size_exp q" for i
    using mod_mod_cancel [OF d, of "unat b + 1"] mod_add_left_eq [of "unat (add b 1)" "2 ^ size_exp q" i]
      mod_add_left_eq [of "unat b + 1" "2 ^ size_exp q" i] n by simp
  then have "rq_slot ?q i = rq_slot q (Suc i)" for i
    by (simp add: rq_slot_def b)
  then have "rq_window ?q = xs"
    using c rep_nth [OF r, of "Suc i" for i] by (intro nth_equalityI) (auto simp: rq_window_def)
  moreover have "rq_wf bits ?q"
    using wf c rep_bounds(1) [OF r] n bits_pos by (simp add: rq_wf_def)
  ultimately show ?thesis using r by (simp add: rq_rep_def)
qed

lemma slot_drops_Suc: "slot_drops num (Suc i) xs = slot_drops (\<lambda>j. num (Suc j)) i xs"
  by (induction xs arbitrary: i rule: list.induct) (auto split: option.splits, (rename_tac x xs i, case_tac x, auto)+)

lemma drop_first_rep:
  assumes "rep q b xs" "unat e = (unat b + length xs) mod 2 ^ bits"
    "unat t = (unat b + 2 ^ size_exp q) mod 2 ^ bits" "unat n = (unat b + (off + 1)) mod 2 ^ bits"
    "length xs \<le> off" "off + 1 < 2 ^ (bits - 1) + 2 ^ size_exp q"
  shows "\<exists>q'. drop_first q e t n ds = Some (q',
      ds @ (if drop_cb q
            then slot_drops (\<lambda>i. of_nat ((unat b + i) mod 2 ^ bits)) 0 (take (off + 1 - 2 ^ size_exp q) xs) else []))
    \<and> rep q' (if off + 1 \<le> 2 ^ size_exp q then b else
              of_nat ((unat b + min (length xs) (off + 1 - 2 ^ size_exp q)) mod 2 ^ bits))
        (drop (off + 1 - 2 ^ size_exp q) xs)
    \<and> rq_conf q' = rq_conf q"
  using assms
proof (induction xs arbitrary: q b t off ds)
  case Nil
  then have "unat (rq_count q) = 0" using rep_length [OF Nil.prems(1)] by simp
  then have c: "rq_count q = 0" by (simp add: unat_eq_0)
  have "of_nat (unat b mod 2 ^ bits) = b" using rep_bounds(3) [OF Nil.prems(1)] by simp
  then show ?case using Nil c by (subst drop_first.simps) auto
next
  case (Cons x xs)
  let ?S = "(2::nat) ^ size_exp q"
  have r: "rep q b (x # xs)" by fact
  then have f: "rq_lt q = lt" "rq_add q = add" "rq_begin q = b" by (simp_all add: rq_rep_def)
  have c: "rq_count q > 0" using rep_length [OF r] by (simp add: word_less_nat_alt)
  show ?case
  proof (cases "off + 1 \<le> ?S")
    case True
    have "\<not> lt t n"
    proof (cases "off + 1 = ?S")
      case True
      then show ?thesis using lt_forward [OF Cons.prems(3,4)] bits_pos(1) by simp
    next
      case False
      have "?S - (off + 1) < 2 ^ bits" "\<not> 2 ^ (bits - 1) < ?S - (off + 1)"
        using rep_bounds(2) [OF r] half by linarith+
      then show ?thesis using lt_backward [OF Cons.prems(3,4)] True False by simp
    qed
    then show ?thesis using True r f by (subst drop_first.simps) auto
  next
    case False
    then have L: "lt t n"
      using lt_forward [OF Cons.prems(3,4)] Cons.prems(6) half by simp
    let ?b = "add b 1" and ?q = "q\<lparr>rq_begin := add b 1, rq_count := rq_count q - 1\<rparr>"
    let ?num = "\<lambda>i. of_nat ((unat b + i) mod 2 ^ bits) :: u64"
    have n: "unat ?b = (unat b + 1) mod 2 ^ bits" using add_mod [OF rep_bounds(3) [OF r]] by simp
    have b: "?num 1 = ?b" using arg_cong [OF n, of "of_nat :: nat \<Rightarrow> u64"] by simp
    have num: "of_nat ((unat ?b + i) mod 2 ^ bits) = ?num (Suc i)" for i
      using n mod_add_left_eq [of "unat b + 1" "2 ^ bits" i] by simp
    have r': "rep ?q ?b xs" by (rule rep_pop [OF r])
    then have wf': "rq_wf bits ?q" by (simp add: rq_rep_def)
    have s: "unat (QUEUE_SIZE ?q - rq_count ?q) = ?S - length xs"
      using unat_QUEUE_SIZE [OF wf'] rep_length [OF r'] rep_bounds(1) [OF r']
      by (subst unat_minus_small) simp_all
    let ?t = "add e (QUEUE_SIZE ?q - rq_count ?q)"
    have "unat ?t = (unat b + length (x # xs) + (?S - length xs)) mod 2 ^ bits"
      using add_mod_mod [OF Cons.prems(2)] s by simp
    then have t': "unat ?t = (unat ?b + 2 ^ size_exp ?q) mod 2 ^ bits"
      using n mod_add_left_eq [of "unat b + 1" "2 ^ bits" ?S] rep_bounds(1) [OF r'] by simp
    have e': "unat e = (unat ?b + length xs) mod 2 ^ bits"
      using Cons.prems(2) n mod_add_left_eq [of "unat b + 1" "2 ^ bits" "length xs"] by simp
    have n': "unat n = (unat ?b + (off - 1 + 1)) mod 2 ^ bits"
      using Cons.prems(4,5) n mod_add_left_eq [of "unat b + 1" "2 ^ bits" off] by simp
    obtain y where y: "rq_entry q b = Some y" "x = (if entry_set y then Some (entry_user y) else None)"
      using rep_entry_nth [OF r, of b 0] rep_bounds(3) [OF r] by auto
    let ?ds = "if entry_set y \<and> drop_cb q then ds @ [(b, entry_user y)] else ds"
    have step: "drop_first q e t n ds = drop_first ?q e ?t n ?ds"
      using L f c y(1) by (subst drop_first.simps) (simp add: Let_def)
    have b0: "?num 0 = b" using rep_bounds(3) [OF r] by simp
    have k: "off + 1 - ?S = Suc (off - ?S)" using False by simp
    have ds: "?ds @ (if drop_cb q then slot_drops ?num (Suc 0) ys else []) =
        ds @ (if drop_cb q then slot_drops ?num 0 (x # ys) else [])" for ys
      using y(2) b0 by auto
    have slot: "slot_drops (\<lambda>i. of_nat ((unat ?b + i) mod 2 ^ bits)) 0 ys = slot_drops ?num (Suc 0) ys"
      for ys :: "'a option list"
      by (simp add: slot_drops_Suc num)
    have beg: "(if off \<le> ?S then ?b else of_nat ((unat ?b + min (length xs) (off - ?S)) mod 2 ^ bits)) =
        ?num (min (length (x # xs)) (off + 1 - ?S))"
    proof -
      have m: "min (length (x # xs)) (off + 1 - ?S) = Suc (min (length xs) (off - ?S))"
        using False by auto
      show ?thesis
      proof (cases "off \<le> ?S")
        case True
        then have "min (length xs) (off - ?S) = 0" by simp
        then show ?thesis using True b by (simp only: m) simp
      next
        case False
        then show ?thesis by (simp only: m num) simp
      qed
    qed
    have o: "off - 1 + 1 = off" "size_exp ?q = size_exp q" "drop_cb ?q = drop_cb q" "rq_conf ?q = rq_conf q"
      using Cons.prems(5) by (simp_all add: rq_conf_def)
    have "length xs \<le> off - 1" "off - 1 + 1 < 2 ^ (bits - 1) + 2 ^ size_exp ?q"
      using Cons.prems(5,6) by simp_all
    from Cons.IH [OF r' e' t' n' this, of ?ds]
    obtain q' where q': "drop_first ?q e ?t n ?ds =
          Some (q', ?ds @ (if drop_cb q then slot_drops ?num (Suc 0) (take (off - ?S) xs) else []))"
        "rep q' (?num (min (length (x # xs)) (off + 1 - ?S))) (drop (off - ?S) xs)" "rq_conf q' = rq_conf q"
      by (simp only: o slot beg) blast
    show ?thesis
      unfolding step q'(1) ds k using q'(2) [unfolded k] q'(3) False by (simp add: k)
  qed
qed

section \<open>The operations refine the window\<close>

lemma rep_drop_it:
  "rep q b xs \<Longrightarrow> \<exists>q'. drop_it q s x = (q', if drop_cb q then [(s, x)] else []) \<and> rep q' b xs \<and> rq_conf q' = rq_conf q"
  by (simp add: drop_it_def)

lemma total_end:
  assumes r: "rep q b xs"
  shows "unat (add (add b (rq_count q)) (QUEUE_SIZE q - rq_count q)) = (unat b + 2 ^ size_exp q) mod 2 ^ bits"
proof -
  have "rq_wf bits q" using r by (simp add: rq_rep_def)
  then have "unat (QUEUE_SIZE q - rq_count q) = 2 ^ size_exp q - length xs"
    using unat_QUEUE_SIZE [of q] rep_length [OF r] rep_bounds(1) [OF r]
    by (subst unat_minus_small) simp_all
  moreover have "unat (add b (rq_count q)) = (unat b + length xs) mod 2 ^ bits"
    using add_mod [OF rep_bounds(3) [OF r]] rep_length [OF r] by simp
  ultimately show ?thesis using add_mod_mod rep_bounds(1) [OF r] by simp
qed

text \<open>The tests of \<^verbatim>\<open>push\<close>, in terms of the distance from the start of the window.\<close>

lemma push_tests:
  assumes r: "rep q b xs" and s: "unat s < 2 ^ bits"
  defines "off \<equiv> seq_off bits b s" and "e \<equiv> add b (rq_count q)"
  shows "rq_ge q s b \<and> lt s e \<longleftrightarrow> off < length xs"
    and "lt s b \<longleftrightarrow> 2 ^ (bits - 1) < off"
    and "\<not> off < length xs \<Longrightarrow> \<not> 2 ^ (bits - 1) < off \<Longrightarrow>
      rq_ge q s e \<longleftrightarrow> \<not> (xs = [] \<and> off = 2 ^ (bits - 1))"
    and "off \<le> 2 ^ (bits - 1) \<Longrightarrow> length xs \<le> off \<Longrightarrow>
      lt (add e (QUEUE_SIZE q - rq_count q)) (add s 1) \<longleftrightarrow> 2 ^ size_exp q < off + 1"
proof -
  let ?N = "(2::nat) ^ bits" and ?H = "(2::nat) ^ (bits - 1)" and ?S = "(2::nat) ^ size_exp q"
  have bb: "unat b < ?N" and S: "length xs \<le> ?S" "?S < ?H" "2 \<le> ?S"
    using rep_bounds [OF r] by simp_all
  have b0: "unat b = (unat b + 0) mod ?N" using bb by simp
  have so: "unat s = (unat b + off) mod ?N"
    unfolding off_def by (rule unat_seq_off [OF bb s])
  have o: "off < ?N" unfolding off_def by (rule seq_off_less)
  have e: "unat e = (unat b + length xs) mod ?N"
    unfolding e_def using add_mod [OF bb] rep_length [OF r] by simp
  have f: "rq_gt q = gt" "rq_begin q = b" using r by (simp_all add: rq_rep_def)
  have ne: "x = y" if "unat x = i mod ?N" "unat y = i mod ?N" for x y :: u64 and i
    using that by (simp add: word_unat_eq_iff)
  show lt_b: "lt s b \<longleftrightarrow> ?H < off"
  proof (cases "off = 0")
    case True
    then show ?thesis using lt_forward [OF so b0] bits_pos by simp
  next
    case False
    then show ?thesis using lt_backward [OF so b0] o by simp
  qed
  have ge_b: "rq_ge q s b \<longleftrightarrow> off < ?H"
  proof (cases "off = 0")
    case True
    then have "s = b" using ne [of s "unat b + off" b] so b0 by simp
    then show ?thesis using True by (simp add: rq_ge_def)
  next
    case False
    have "s \<noteq> b"
    proof
      assume "s = b"
      then have "(unat b + off) mod ?N = (unat b + 0) mod ?N" using so b0 by simp
      then show False using circular_inj [of off ?N 0 "unat b"] o False bits_pos by simp
    qed
    then show ?thesis using lt_forward [OF b0 so] False o f gt_lt by (simp add: rq_ge_def)
  qed
  show "rq_ge q s b \<and> lt s e \<longleftrightarrow> off < length xs"
  proof (cases "off \<le> length xs")
    case True
    have "length xs - off < ?H" "length xs - off < ?N" "off < length xs \<Longrightarrow> off < ?H"
      using S half by linarith+
    then show ?thesis using lt_forward [OF so e] True ge_b by auto
  next
    case False
    have "off < ?H \<Longrightarrow> \<not> ?H < off - length xs" by linarith
    then show ?thesis using lt_backward [OF so e] False ge_b o by auto
  qed
  show "rq_ge q s e \<longleftrightarrow> \<not> (xs = [] \<and> off = ?H)" if "\<not> off < length xs" "\<not> ?H < off"
  proof (cases "off = length xs")
    case True
    then have "s = e" using ne [of s "unat b + off" e] so e by simp
    then show ?thesis using True S by (auto simp: rq_ge_def)
  next
    case False
    then have l: "length xs < off" using that by simp
    have gt: "gt s e \<longleftrightarrow> off - length xs < ?H" using lt_forward [OF e so] l o gt_lt by simp
    have "s \<noteq> e"
    proof
      assume "s = e"
      then have "(unat b + off) mod ?N = (unat b + length xs) mod ?N" using so e by simp
      then show False using circular_inj [of off ?N "length xs" "unat b"] o l by simp
    qed
    then show ?thesis using gt f that l by (cases xs) (auto simp: rq_ge_def)
  qed
  show "lt (add e (QUEUE_SIZE q - rq_count q)) (add s 1) \<longleftrightarrow> ?S < off + 1"
    if "off \<le> ?H" "length xs \<le> off"
  proof -
    have t: "unat (add e (QUEUE_SIZE q - rq_count q)) = (unat b + ?S) mod ?N"
      unfolding e_def by (rule total_end [OF r])
    have n: "unat (add s 1) = (unat b + (off + 1)) mod ?N"
      using add_mod_mod [OF so, of 1] by (simp add: add.assoc)
    show ?thesis
    proof (cases "?S \<le> off + 1")
      case True
      have "off + 1 - ?S < ?H" "off + 1 - ?S < ?N" using that S half by linarith+
      then show ?thesis using lt_forward [OF t n] True by auto
    next
      case False
      have "?S - (off + 1) < ?N" "\<not> ?H < ?S - (off + 1)" using S half by linarith+
      then show ?thesis using lt_backward [OF t n] False by auto
    qed
  qed
qed

lemma fill_last:
  "length xs \<le> k \<Longrightarrow> (xs @ replicate (Suc k - length xs) None)[k := Some x] =
     xs @ replicate (k - length xs) None @ [Some x]"
  by (simp add: list_update_append Suc_diff_le flip: replicate_append_same)

text \<open>The end of \<^verbatim>\<open>push\<close>: extend the window up to the new element and store it.\<close>

lemma push_place:
  assumes r: "rep q b xs" and s: "unat s = (unat b + off) mod 2 ^ bits"
    and l: "length xs \<le> off" "off < 2 ^ size_exp q"
  shows "\<exists>q'. (do { q2 \<leftarrow> move_end q (rq_add q (rq_begin q) (rq_count q)) (add s 1);
                   e \<leftarrow> rq_entry q2 s;
                   Some (rq_store q2 s (e\<lparr>entry_set := True, entry_user := x\<rparr>), ds) }) = Some (q', ds)
    \<and> rep q' b (xs @ replicate (off - length xs) None @ [Some x]) \<and> rq_conf q' = rq_conf q"
proof -
  have f: "rq_begin q = b" "rq_add q = add" using r by (simp_all add: rq_rep_def)
  have e: "unat (add b (rq_count q)) = (unat b + length xs) mod 2 ^ bits"
    using add_mod [OF rep_bounds(3) [OF r]] rep_length [OF r] by simp
  have n: "unat (add s 1) = (unat b + (off + 1)) mod 2 ^ bits"
    using add_mod_mod [OF s, of 1] by (simp add: add.assoc)
  obtain q2 where q2: "move_end q (add b (rq_count q)) (add s 1) = Some q2"
      "rep q2 b (xs @ replicate (off + 1 - length xs) None)" "rq_conf q2 = rq_conf q"
    using move_end_rep [OF r e n] l by auto
  obtain y where y: "rq_entry q2 s = Some y" using rep_entry [OF q2(2) s] by blast
  let ?q = "rq_store q2 s (y\<lparr>entry_set := True, entry_user := x\<rparr>)"
  have y': "y\<lparr>entry_set := True, entry_user := x\<rparr> = \<lparr>entry_user = x, entry_set = True\<rparr>" by simp
  have "rep ?q b ((xs @ replicate (Suc off - length xs) None)[off := Some x])"
    unfolding y' using rep_store [OF q2(2) s, of x] l by simp
  then have "rep ?q b (xs @ replicate (off - length xs) None @ [Some x])"
    by (simp only: fill_last [OF l(1)])
  then show ?thesis using q2(1,3) y f by (simp add: rq_conf_def)
qed

lemma rep_relocate: "rep q b [] \<Longrightarrow> unat s < 2 ^ bits \<Longrightarrow> rep (q\<lparr>rq_begin := s\<rparr>) s []"
  by (simp add: rq_rep_def rq_wf_def rq_window_def)

theorem push_refines:
  assumes r: "rep q b xs" and s: "unat s < 2 ^ bits"
  shows "case push_spec bits (2 ^ size_exp q) (drop_strategy q) b xs s x of
      None \<Rightarrow> chiaki_reorder_queue_push q s x = None
    | Some (b', xs', ds) \<Rightarrow>
        \<exists>q'. chiaki_reorder_queue_push q s x = Some (q', if drop_cb q then ds else []) \<and>
             rep q' b' xs' \<and> rq_conf q' = rq_conf q"
proof -
  let ?off = "seq_off bits b s" and ?e = "add b (rq_count q)" and ?S = "(2::nat) ^ size_exp q"
  let ?total = "add ?e (QUEUE_SIZE q - rq_count q)"
  have f: "rq_gt q = gt" "rq_lt q = lt" "rq_add q = add" "rq_begin q = b" and wf: "rq_wf bits q"
    using r by (simp_all add: rq_rep_def)
  have c: "rq_count q \<le> QUEUE_SIZE q"
    using wf unat_QUEUE_SIZE [OF wf] by (simp add: word_le_nat_alt rq_wf_def)
  have so: "unat s = (unat b + ?off) mod 2 ^ bits" by (rule unat_seq_off [OF rep_bounds(3) [OF r] s])
  note t = push_tests [OF r s]
  note defs = chiaki_reorder_queue_push_def push_spec_def Let_def
  consider (inside) "?off < length xs"
    | (old) "\<not> ?off < length xs" "2 ^ (bits - 1) < ?off"
    | (bad) "\<not> ?off < length xs" "\<not> 2 ^ (bits - 1) < ?off" "xs = []" "?off = 2 ^ (bits - 1)"
    | (new) "\<not> ?off < length xs" "\<not> 2 ^ (bits - 1) < ?off" "\<not> (xs = [] \<and> ?off = 2 ^ (bits - 1))"
    by blast
  then show ?thesis
  proof cases
    case inside
    obtain y where y: "rq_entry q s = Some y" "xs ! ?off = (if entry_set y then Some (entry_user y) else None)"
      using rep_entry_nth [OF r so inside] by blast
    show ?thesis
      using inside y t(1) c f rep_store [OF r so inside] r
      by (auto simp: defs drop_it_def rq_conf_def)
  next
    case old
    then show ?thesis using t(1,2) c f r by (auto simp: defs drop_it_def)
  next
    case bad
    then show ?thesis using t(1,2,3) c f by (auto simp: defs)
  next
    case new
    then have l: "length xs \<le> ?off" "?off \<le> 2 ^ (bits - 1)" by simp_all
    have push: "chiaki_reorder_queue_push q s x =
        (if ?S < ?off + 1 \<and> drop_strategy q = CHIAKI_REORDER_QUEUE_DROP_STRATEGY_END
         then Some (drop_it q s x)
         else do {
           (q1, ds) \<leftarrow> (if ?S < ?off + 1
              then do { (q', ds) \<leftarrow> drop_first q ?e ?total (add s 1) [];
                        Some (if rq_count q' = 0 then q'\<lparr>rq_begin := s\<rparr> else q', ds) }
              else Some (q, []));
           q2 \<leftarrow> move_end q1 (rq_add q1 (rq_begin q1) (rq_count q1)) (add s 1);
           e \<leftarrow> rq_entry q2 s;
           Some (rq_store q2 s (e\<lparr>entry_set := True, entry_user := x\<rparr>), ds) })"
      using new t(1,2,3) t(4) [OF l(2,1)] c f
      by (simp only: chiaki_reorder_queue_push_def Let_def) simp
    consider (small) "?off < ?S"
      | (full_end) "\<not> ?off < ?S" "drop_strategy q = CHIAKI_REORDER_QUEUE_DROP_STRATEGY_END"
      | (full_begin) "\<not> ?off < ?S" "drop_strategy q \<noteq> CHIAKI_REORDER_QUEUE_DROP_STRATEGY_END"
      by blast
    then show ?thesis
    proof cases
      case small
      then show ?thesis using push_place [OF r so l(1), of x "[]"] new by (auto simp: push push_spec_def Let_def)
    next
      case full_end
      then show ?thesis using r new by (auto simp: push push_spec_def Let_def drop_it_def)
    next
      case full_begin
      let ?k = "?off + 1 - ?S"
      let ?num = "\<lambda>i. of_nat ((unat b + i) mod 2 ^ bits) :: u64"
      have e: "unat ?e = (unat b + length xs) mod 2 ^ bits"
        using add_mod [OF rep_bounds(3) [OF r]] rep_length [OF r] by simp
      have n: "unat (add s 1) = (unat b + (?off + 1)) mod 2 ^ bits"
        using add_mod_mod [OF so, of 1] by (simp add: add.assoc)
      have "?off + 1 < 2 ^ (bits - 1) + ?S" using l rep_bounds(4) [OF r] by linarith
      from drop_first_rep [OF r e total_end [OF r] n l(1) this, of "[]"]
      obtain q1 where q1: "drop_first q ?e ?total (add s 1) [] =
            Some (q1, if drop_cb q then slot_drops ?num 0 (take ?k xs) else [])"
          "rep q1 (?num (min (length xs) ?k)) (drop ?k xs)" "rq_conf q1 = rq_conf q"
        using full_begin(1) by auto
      have S: "size_exp q1 = size_exp q" using q1(3) by (simp add: rq_conf_def)
      show ?thesis
      proof (cases "length xs \<le> ?k")
        case True
        then have r0: "rep q1 (?num (length xs)) []" using q1(2) by (simp add: min_absorb1)
        then have r1: "rep (q1\<lparr>rq_begin := s\<rparr>) s []" by (rule rep_relocate [OF _ s])
        have "rq_count q1 = 0" using rep_length [OF r0] by (simp add: unat_eq_0)
        have spec: "push_spec bits ?S (drop_strategy q) b xs s x = Some (s, [Some x], slot_drops ?num 0 xs)"
          using True full_begin new by (auto simp: push_spec_def Let_def)
        have "chiaki_reorder_queue_push q s x =
            do { q2 \<leftarrow> move_end (q1\<lparr>rq_begin := s\<rparr>) (rq_add (q1\<lparr>rq_begin := s\<rparr>)
                   (rq_begin (q1\<lparr>rq_begin := s\<rparr>)) (rq_count (q1\<lparr>rq_begin := s\<rparr>))) (add s 1);
                 e \<leftarrow> rq_entry q2 s;
                 Some (rq_store q2 s (e\<lparr>entry_set := True, entry_user := x\<rparr>),
                       if drop_cb q then slot_drops ?num 0 xs else []) }"
          using full_begin q1(1) \<open>rq_count q1 = 0\<close> True by (simp add: push)
        then show ?thesis
          using push_place [OF r1, of s 0 x "if drop_cb q then slot_drops ?num 0 xs else []"] q1(3) s
          by (simp add: spec rq_conf_def)
      next
        case False
        then have r1: "rep q1 (?num ?k) (drop ?k xs)" using q1(2) by (simp add: min_absorb2)
        then have "rq_count q1 \<noteq> 0" using rep_length [OF r1] False by auto
        have "unat (?num ?k) = (unat b + ?k) mod 2 ^ bits"
          by (rule unat_of_nat_small) (use bits_pos power_strict_increasing [of 32 64 "2::nat"] in
            \<open>auto intro: less_le_trans [OF mod_less_divisor]\<close>)
        then have "(unat (?num ?k) + (?S - 1)) mod 2 ^ bits = (unat b + ?k + (?S - 1)) mod 2 ^ bits"
          by (simp only: mod_add_left_eq)
        also have "unat b + ?k + (?S - 1) = unat b + ?off"
          using full_begin(1) rep_bounds(4) [OF r] by simp
        finally have so1: "unat s = (unat (?num ?k) + (?S - 1)) mod 2 ^ bits" using so by simp
        have m: "?S - 1 - length (drop ?k xs) = ?off - length xs"
          using False full_begin(1) by simp
        have "length (drop ?k xs) \<le> ?S - 1" "?S - 1 < 2 ^ size_exp q1"
          using l full_begin(1) S by simp_all
        note place = push_place [OF r1 so1 this, of x "if drop_cb q then slot_drops ?num 0 (take ?k xs) else []"]
        have spec: "push_spec bits ?S (drop_strategy q) b xs s x =
            Some (?num ?k, drop ?k xs @ replicate (?off - length xs) None @ [Some x], slot_drops ?num 0 (take ?k xs))"
          using False full_begin new by (auto simp: push_spec_def Let_def)
        have "chiaki_reorder_queue_push q s x =
            do { q2 \<leftarrow> move_end q1 (rq_add q1 (rq_begin q1) (rq_count q1)) (add s 1);
                 e \<leftarrow> rq_entry q2 s;
                 Some (rq_store q2 s (e\<lparr>entry_set := True, entry_user := x\<rparr>),
                       if drop_cb q then slot_drops ?num 0 (take ?k xs) else []) }"
          using full_begin q1(1) \<open>rq_count q1 \<noteq> 0\<close> by (simp add: push)
        then show ?thesis using place q1(3) by (simp only: spec m option.case prod.case)
      qed
    qed
  qed
qed

theorem pull_refines:
  assumes r: "rep q b xs"
  shows "\<exists>q'. chiaki_reorder_queue_pull q = Some (q', snd (pull_spec bits b xs)) \<and>
    rep q' (fst (fst (pull_spec bits b xs))) (snd (fst (pull_spec bits b xs))) \<and> rq_conf q' = rq_conf q"
proof -
  have f: "rq_add q = add" "rq_begin q = b" and wf: "rq_wf bits q"
    using r by (simp_all add: rq_rep_def)
  have c: "rq_count q \<le> QUEUE_SIZE q"
    using wf unat_QUEUE_SIZE [OF wf] by (simp add: word_le_nat_alt rq_wf_def)
  show ?thesis
  proof (cases xs)
    case Nil
    then have "rq_count q = 0" using rep_length [OF r] by (simp add: unat_eq_0)
    then show ?thesis using Nil c r by (simp add: chiaki_reorder_queue_pull_def)
  next
    case (Cons y ys)
    then have n: "rq_count q \<noteq> 0" using rep_length [OF r] by auto
    obtain e where e: "rq_entry q b = Some e" "y = (if entry_set e then Some (entry_user e) else None)"
      using rep_entry_nth [OF r, of b 0] rep_bounds(3) [OF r] Cons by auto
    have b1: "add b 1 = of_nat ((unat b + 1) mod 2 ^ bits)"
      using arg_cong [OF add_mod [OF rep_bounds(3) [OF r], of 1], of "of_nat :: nat \<Rightarrow> u64"] by simp
    show ?thesis
    proof (cases "entry_set e")
      case True
      then show ?thesis
        using Cons c n e f rep_pop [of q b y ys] r b1
        by (simp add: chiaki_reorder_queue_pull_def rq_conf_def)
    next
      case False
      then show ?thesis using Cons c n e f r by (simp add: chiaki_reorder_queue_pull_def)
    qed
  qed
qed

text \<open>\<^verbatim>\<open>peek\<close> reads a slot of the window and, without both pointers, fails on a filled one.\<close>

lemma peek_refines:
  assumes r: "rep q b xs" and i: "unat i < length xs"
  shows "chiaki_reorder_queue_peek q i sp up =
    (case xs ! unat i of None \<Rightarrow> Some None
     | Some x \<Rightarrow> if sp \<and> up then Some (Some (add b i, x)) else None)"
proof -
  have f: "rq_add q = add" "rq_begin q = b" using r by (simp_all add: rq_rep_def)
  have "\<not> i \<ge> rq_count q" using i rep_length [OF r] by (simp add: word_le_nat_alt)
  moreover obtain e where "rq_entry q (add b i) = Some e"
      "xs ! unat i = (if entry_set e then Some (entry_user e) else None)"
    using rep_entry_nth [OF r _ i, of "add b i"] add_mod [OF rep_bounds(3) [OF r]] by blast
  ultimately show ?thesis using f by (simp add: chiaki_reorder_queue_peek_def)
qed

text \<open>\<^verbatim>\<open>drop\<close> calls the callback on a filled slot and leaves the queue, and so the slot, as it was.\<close>

lemma drop_refines:
  assumes r: "rep q b xs" and i: "unat i < length xs"
  shows "chiaki_reorder_queue_drop q i =
    Some (q, case xs ! unat i of None \<Rightarrow> [] | Some x \<Rightarrow> if drop_cb q then [(add b i, x)] else [])"
proof -
  have f: "rq_add q = add" "rq_begin q = b" using r by (simp_all add: rq_rep_def)
  have "\<not> i \<ge> rq_count q" using i rep_length [OF r] by (simp add: word_le_nat_alt)
  moreover obtain e where e: "rq_entry q (add b i) = Some e"
      "xs ! unat i = (if entry_set e then Some (entry_user e) else None)"
    using rep_entry_nth [OF r _ i, of "add b i"] add_mod [OF rep_bounds(3) [OF r]] by blast
  moreover have "entry_set e \<Longrightarrow> reduce_count q e = Some q" by (subst reduce_count.simps) simp
  ultimately show ?thesis using f by (auto simp: chiaki_reorder_queue_drop_def)
qed

lemma init_rep:
  assumes "0 < n" "n < bits - 1" "unat b < 2 ^ bits"
  shows "snd (chiaki_reorder_queue_init null True n b gt lt add) = CHIAKI_ERR_SUCCESS"
    "rep (fst (chiaki_reorder_queue_init null True n b gt lt add)) b []"
  using assms by (simp_all add: chiaki_reorder_queue_init_def rq_rep_def rq_wf_def rq_window_def)

end

section \<open>The 32 bit sequence numbers provide the interface\<close>

lemma ucast_add_u32: "unat (ucast (ucast a + ucast b :: u32) :: u64) = (unat a + unat b) mod 2 ^ 32"
  by (simp add: unat_word_ariths unsigned_ucast_eq take_bit_eq_mod mod_simps)

lemma seq_off_32: "unat a < 2 ^ 32 \<Longrightarrow> unat b < 2 ^ 32 \<Longrightarrow> seq_off 32 a b = seq_dist (ucast a :: u32) (ucast b)"
  by (simp add: seq_off_def seq_dist_def unat_sub_if_size word_size unsigned_ucast_eq
      word_le_nat_alt take_bit_nat_eq_self) (auto simp: mod_if)

interpretation rq32: seq_num_ops 32 seq_num_32_gt seq_num_32_lt seq_num_32_add
proof unfold_locales
  show "seq_num_32_gt a b = seq_num_32_lt b a" for a b
    by (simp add: seq_num_32_gt_def seq_num_32_lt_def seq_num_gt_lt)
  show "unat (seq_num_32_add a b) = (unat a + unat b) mod 2 ^ 32" for a b
    by (simp only: seq_num_32_add_def ucast_add_u32)
  show "seq_num_32_lt a b \<longleftrightarrow> 0 < seq_off 32 a b \<and> seq_off 32 a b < 2 ^ (32 - 1)"
    if "unat a < 2 ^ 32" "unat b < 2 ^ 32" for a b
    using seq_off_32 [OF that] by (simp add: seq_num_32_lt_def seq_num_lt_dist seq_dist_pos)
qed simp_all

section \<open>Runs of the queue\<close>

datatype 'e rq_op = Push u64 'e | Pull

text \<open>A run from left to right, with the elements that are pulled.\<close>

fun rq_run :: "'e reorder_queue \<Rightarrow> 'e rq_op list \<Rightarrow> ('e reorder_queue \<times> (u64 \<times> 'e) list) option" where
  "rq_run q [] = Some (q, [])"
| "rq_run q (Push s x # ops) =
     do { (q', _) \<leftarrow> chiaki_reorder_queue_push q s x; rq_run q' ops }"
| "rq_run q (Pull # ops) =
     do { (q', r) \<leftarrow> chiaki_reorder_queue_pull q;
          (q'', out) \<leftarrow> rq_run q' ops;
          Some (q'', (case r of None \<Rightarrow> [] | Some p \<Rightarrow> [p]) @ out) }"

definition num32 :: "u64 \<Rightarrow> nat \<Rightarrow> u64" where
  "num32 b i = of_nat ((unat b + i) mod 2 ^ 32)"

lemma unat_num32: "unat (num32 b i) = (unat b + i) mod 2 ^ 32"
  unfolding num32_def by (rule unat_of_nat_small) (auto intro: less_le_trans [OF mod_less_divisor])

lemma num32_num32: "num32 (num32 b i) j = num32 b (i + j)"
  using unat_num32 [of b i] by (simp add: num32_def mod_add_left_eq add.assoc)

lemma num32_0: "unat b < 2 ^ 32 \<Longrightarrow> num32 b 0 = b"
  by (simp add: num32_def)

text \<open>Every filled slot holds an element of \<open>P\<close> under its own sequence number.\<close>

definition slots_from :: "(u64 \<times> 'e) set \<Rightarrow> u64 \<Rightarrow> 'e option list \<Rightarrow> bool" where
  "slots_from P b xs \<longleftrightarrow> (\<forall>i x. i < length xs \<longrightarrow> xs ! i = Some x \<longrightarrow> (num32 b i, x) \<in> P)"

lemma slots_from_update:
  assumes "slots_from P b xs" "(num32 b i, x) \<in> P"
  shows "slots_from P b (xs[i := Some x])"
  unfolding slots_from_def
proof (intro allI impI)
  fix j y
  assume "j < length (xs[i := Some x])" "xs[i := Some x] ! j = Some y"
  then show "(num32 b j, y) \<in> P"
    using assms by (cases "j = i") (simp_all add: slots_from_def)
qed

lemma slots_from_extend:
  assumes "slots_from P b xs" "(num32 b (length xs + k), x) \<in> P"
  shows "slots_from P b (xs @ replicate k None @ [Some x])"
  unfolding slots_from_def
proof (intro allI impI)
  fix j y
  assume j: "j < length (xs @ replicate k None @ [Some x])" "(xs @ replicate k None @ [Some x]) ! j = Some y"
  consider "j < length xs" | "length xs \<le> j" "j < length xs + k" | "j = length xs + k"
    using j(1) by (simp add: less_Suc_eq) linarith
  then show "(num32 b j, y) \<in> P"
    using assms j(2) by cases (auto simp: slots_from_def nth_append split: if_splits)
qed

lemma slots_from_tl: "slots_from P b (y # xs) \<Longrightarrow> slots_from P (num32 b 1) xs"
proof -
  assume h: "slots_from P b (y # xs)"
  have "(num32 b (Suc i), x) \<in> P" if "i < length xs" "xs ! i = Some x" for i x
    using h that by (auto simp: slots_from_def)
  then show ?thesis by (simp add: slots_from_def num32_num32)
qed

abbreviation rep32 :: "'e reorder_queue \<Rightarrow> u64 \<Rightarrow> 'e option list \<Rightarrow> bool" where
  "rep32 \<equiv> rq_rep 32 seq_num_32_gt seq_num_32_lt seq_num_32_add"

lemma push_end_slots:
  assumes r: "rep32 q b xs" and s: "unat s < 2 ^ 32"
    and e: "drop_strategy q = CHIAKI_REORDER_QUEUE_DROP_STRATEGY_END"
    and p: "chiaki_reorder_queue_push q s x = Some (q', ds)"
    and P: "slots_from P b xs" "(s, x) \<in> P"
  shows "\<exists>xs'. rep32 q' b xs' \<and> slots_from P b xs' \<and> drop_strategy q' = drop_strategy q"
proof -
  let ?off = "seq_off 32 b s"
  have "num32 b ?off = s"
    using rq32.unat_seq_off [OF rq32.rep_bounds(3) [OF r] s]
    by (simp add: word_unat_eq_iff unat_num32)
  then have n: "(num32 b ?off, x) \<in> P" using P(2) by simp
  have ext: "length xs \<le> ?off \<Longrightarrow> slots_from P b (xs @ replicate (?off - length xs) None @ [Some x])"
    using slots_from_extend [OF P(1), of "?off - length xs" x] n by simp
  note upd = slots_from_update [OF P(1) n]
  from rq32.push_refines [OF r s, of x] p e show ?thesis
    using P(1) ext upd
    by (auto simp: push_spec_def Let_def rq_conf_def not_less split: if_splits option.splits)
qed

lemma pull_slots:
  assumes r: "rep32 q b xs" and p: "chiaki_reorder_queue_pull q = Some (q', res)"
    and P: "slots_from P b xs"
  shows "(res = None \<and> rep32 q' b xs \<or>
      (\<exists>x xs'. res = Some (b, x) \<and> (b, x) \<in> P \<and> rep32 q' (num32 b 1) xs' \<and> slots_from P (num32 b 1) xs')) \<and>
    drop_strategy q' = drop_strategy q"
proof -
  have b: "num32 b 0 = b" by (rule num32_0 [OF rq32.rep_bounds(3) [OF r]])
  have ps: "pull_spec 32 b xs =
      (case xs of Some x # ys \<Rightarrow> ((num32 b 1, ys), Some (b, x)) | _ \<Rightarrow> ((b, xs), None))"
    by (simp add: num32_def split: list.splits option.splits)
  show ?thesis
    using rq32.pull_refines [OF r] p P slots_from_tl [of P b]
    by (auto simp: ps rq_conf_def slots_from_def [of P b] b split: list.splits option.splits)
qed

lemma rq_run_in_order:
  assumes "rep32 q b xs" "drop_strategy q = CHIAKI_REORDER_QUEUE_DROP_STRATEGY_END"
    "slots_from P b xs" "\<forall>s x. Push s x \<in> set ops \<longrightarrow> unat s < 2 ^ 32 \<and> (s, x) \<in> P"
    "rq_run q ops = Some (q', out)"
  shows "map fst out = map (num32 b) [0..<length out] \<and> set out \<subseteq> P"
  using assms
proof (induction q ops arbitrary: b xs out rule: rq_run.induct)
  case (2 q s x ops)
  from "2.prems"(5) obtain q1 ds where q1: "chiaki_reorder_queue_push q s x = Some (q1, ds)"
      "rq_run q1 ops = Some (q', out)" by (auto split: Option.bind_splits)
  from push_end_slots [OF "2.prems"(1) _ "2.prems"(2) q1(1) "2.prems"(3)] "2.prems"(4)
  obtain xs1 where xs1: "rep32 q1 b xs1" "slots_from P b xs1" "drop_strategy q1 = drop_strategy q" by auto
  have "\<forall>s x. Push s x \<in> set ops \<longrightarrow> unat s < 2 ^ 32 \<and> (s, x) \<in> P" using "2.prems"(4) by simp
  then show ?case using "2.IH" [OF q1(1) refl xs1(1) _ xs1(2) _ q1(2)] xs1(3) "2.prems"(2) by simp
next
  case (3 q ops)
  from "3.prems"(5) obtain q1 res out1 where q1: "chiaki_reorder_queue_pull q = Some (q1, res)"
      "rq_run q1 ops = Some (q', out1)" and out: "out = (case res of None \<Rightarrow> [] | Some p \<Rightarrow> [p]) @ out1"
    by (auto split: Option.bind_splits)
  note pull = pull_slots [OF "3.prems"(1) q1(1) "3.prems"(3)]
  show ?case
  proof (cases res)
    case None
    then have "rep32 q1 b xs" "drop_strategy q1 = drop_strategy q" using pull by auto
    then show ?thesis
      using "3.IH" [OF q1(1) refl _ _ "3.prems"(3) _ q1(2)] "3.prems"(2,4) out None by auto
  next
    case (Some p)
    then obtain x xs' where x: "p = (b, x)" "(b, x) \<in> P" "rep32 q1 (num32 b 1) xs'"
        "slots_from P (num32 b 1) xs'" "drop_strategy q1 = drop_strategy q" using pull by auto
    have "map fst out1 = map (num32 (num32 b 1)) [0..<length out1] \<and> set out1 \<subseteq> P"
      using "3.IH" [OF q1(1) refl x(3) _ x(4) _ q1(2)] x(5) "3.prems"(2,4) by auto
    moreover have "map (num32 b) [0..<Suc n] = b # map (num32 (num32 b 1)) [0..<n]" for n
      using num32_0 [OF rq32.rep_bounds(3) [OF "3.prems"(1)]]
      by (simp add: upt_conv_Cons num32_num32 map_Suc_upt [symmetric] del: upt_Suc)
    ultimately show ?thesis using out Some x(1,2) by (simp del: upt_Suc)
  qed
qed simp

section \<open>Properties\<close>

lemma init32_rep:
  assumes "0 < n" "n < 31"
  shows "rep32 (fst (chiaki_reorder_queue_init_32 null True n start)) (ucast start) []"
    "drop_strategy (fst (chiaki_reorder_queue_init_32 null True n start)) = CHIAKI_REORDER_QUEUE_DROP_STRATEGY_END"
proof -
  have "unat (ucast start :: u64) < 2 ^ 32"
    using unat_lt_exp [of start] by (simp add: unsigned_ucast_eq take_bit_nat_eq_self)
  then show "rep32 (fst (chiaki_reorder_queue_init_32 null True n start)) (ucast start) []"
    using assms unfolding chiaki_reorder_queue_init_32_def by (intro rq32.init_rep) simp_all
  show "drop_strategy (fst (chiaki_reorder_queue_init_32 null True n start)) = CHIAKI_REORDER_QUEUE_DROP_STRATEGY_END"
    by (simp add: chiaki_reorder_queue_init_32_def chiaki_reorder_queue_init_def)
qed

text \<open>
  C1: in every run of pushes and pulls of a freshly initialised 32 bit queue (whose strategy
  is to drop at the end), the pulled sequence numbers are the start number and its
  successors, one after the other and without a gap, whatever order the elements arrive in,
  and every pulled element was pushed under its number.
\<close>

theorem reorder_queue_in_order:
  assumes "0 < n" "n < 31" "\<forall>s x. Push s x \<in> set ops \<longrightarrow> unat s < 2 ^ 32"
    and "map_option snd (rq_run (fst (chiaki_reorder_queue_init_32 null True n start)) ops) = Some out"
  shows "map fst out = map (\<lambda>i. of_nat ((unat start + i) mod 2 ^ 32)) [0..<length out] \<and>
    (\<forall>(s, x) \<in> set out. Push s x \<in> set ops)"
proof -
  let ?q = "fst (chiaki_reorder_queue_init_32 null True n start)" and ?P = "{(s, x). Push s x \<in> set ops}"
  obtain q' where run: "rq_run ?q ops = Some (q', out)" using assms(4) by auto
  have "slots_from ?P (ucast start) []" by (simp add: slots_from_def)
  then have "map fst out = map (num32 (ucast start)) [0..<length out] \<and> set out \<subseteq> ?P"
    using rq_run_in_order [OF init32_rep [OF assms(1,2)] _ _ run] assms(3) by blast
  moreover have "unat (ucast start :: u64) = unat start"
    using unat_lt_exp [of start] by (simp add: unsigned_ucast_eq take_bit_nat_eq_self)
  then have "num32 (ucast start) = (\<lambda>i. of_nat ((unat start + i) mod 2 ^ 32))"
    by (simp add: num32_def fun_eq_iff)
  ultimately show ?thesis by auto
qed

theorem reorder_queue_in_order_witness:
  "map_option snd (rq_run (fst (chiaki_reorder_queue_init_32 0 True 4 0xffffffff))
      [Push 1 (3::nat), Push 0xffffffff 1, Pull, Pull, Push 0 2, Push 0 9, Pull, Pull, Pull]) =
     Some [(0xffffffff, 1), (0, 2), (1, 3)] \<and>
   (0, 2::nat) \<in> {(s, x). Push s x \<in> set [Push 1 (3::nat), Push 0xffffffff 1, Pull, Pull,
      Push 0 2, Push 0 9, Pull, Pull, Pull]}"
proof -
  let ?ops = "[Push 1 (3::nat), Push 0xffffffff 1, Pull, Pull, Push 0 2, Push 0 9, Pull, Pull, Pull]"
  have run: "map_option snd (rq_run (fst (chiaki_reorder_queue_init_32 0 True 4 0xffffffff)) ?ops) =
      Some [(0xffffffff, 1), (0, 2), (1, 3)]"
    by code_simp
  have "\<forall>s x. Push s x \<in> set ?ops \<longrightarrow> unat s < 2 ^ 32" by simp
  from reorder_queue_in_order [OF _ _ this run] have "(0, 2) \<in> {(s, x). Push s x \<in> set ?ops}"
    by fastforce
  with run show ?thesis by blast
qed

text \<open>
  C13: \<^verbatim>\<open>push\<close> on a 32 bit queue is \<open>push_spec\<close> on its window, in every branch: a duplicate
  or a number before the window is dropped, a number inside the window fills its slot, a
  number behind it extends the window by empty slots, and one that does not fit is dropped
  or pushes the oldest elements out, as the strategy says. The well-formedness of the queue
  is part of the representation and is kept.
\<close>

theorem reorder_push_refines:
  assumes "rq_rep 32 seq_num_32_gt seq_num_32_lt seq_num_32_add q b xs" "unat s < 2 ^ 32"
  shows "case push_spec 32 (2 ^ size_exp q) (drop_strategy q) b xs s x of
      None \<Rightarrow> chiaki_reorder_queue_push q s x = None
    | Some (b', xs', ds) \<Rightarrow>
        \<exists>q'. chiaki_reorder_queue_push q s x = Some (q', if drop_cb q then ds else []) \<and>
             rq_rep 32 seq_num_32_gt seq_num_32_lt seq_num_32_add q' b' xs' \<and> rq_conf q' = rq_conf q"
  using assms by (rule rq32.push_refines)

text \<open>A queue of two slots at the end of the number space, for the witnesses.\<close>

definition sample_queue :: "nat reorder_queue" where
  "sample_queue = \<lparr>size_exp = 1, queue = [\<lparr>entry_user = 7, entry_set = False\<rparr>, \<lparr>entry_user = 8, entry_set = True\<rparr>],
     rq_begin = 0xffffffff, rq_count = 1, rq_gt = seq_num_32_gt, rq_lt = seq_num_32_lt,
     rq_add = seq_num_32_add, drop_strategy = CHIAKI_REORDER_QUEUE_DROP_STRATEGY_BEGIN, drop_cb = True\<rparr>"

lemma sample_queue_rep:
  "rq_rep 32 seq_num_32_gt seq_num_32_lt seq_num_32_add sample_queue 0xffffffff [Some 8]"
  by (simp add: rq_rep_def rq_wf_def sample_queue_def rq_window_def rq_slot_def)

theorem reorder_push_refines_witness:
  "\<exists>q'. chiaki_reorder_queue_push sample_queue 1 5 = Some (q', [(0xffffffff, 8)]) \<and>
     rq_rep 32 seq_num_32_gt seq_num_32_lt seq_num_32_add q' 1 [Some 5]"
proof -
  have off: "seq_off 32 0xffffffff 1 = 2" by (simp add: seq_off_def)
  have "push_spec 32 (2 ^ size_exp sample_queue) (drop_strategy sample_queue) 0xffffffff [Some 8] 1 (5::nat) =
      Some (1, [Some 5], [(0xffffffff, 8)])"
    by (simp add: push_spec_def off Let_def sample_queue_def)
  moreover have "drop_cb sample_queue" by (simp add: sample_queue_def)
  ultimately show ?thesis using reorder_push_refines [OF sample_queue_rep, of 1 5] by auto
qed

text \<open>
  \<^verbatim>\<open>pull\<close> on a 32 bit queue is \<open>pull_spec\<close> on its window: it returns the first element
  with the start number and advances the window when the first slot is filled, and changes
  nothing otherwise.
\<close>

theorem reorder_pull_refines:
  assumes "rq_rep 32 seq_num_32_gt seq_num_32_lt seq_num_32_add q b xs"
  shows "\<exists>q'. chiaki_reorder_queue_pull q = Some (q', snd (pull_spec 32 b xs)) \<and>
    rq_rep 32 seq_num_32_gt seq_num_32_lt seq_num_32_add q'
      (fst (fst (pull_spec 32 b xs))) (snd (fst (pull_spec 32 b xs))) \<and> rq_conf q' = rq_conf q"
  using assms by (rule rq32.pull_refines)

theorem reorder_pull_refines_witness:
  "\<exists>q'. chiaki_reorder_queue_pull sample_queue = Some (q', Some (0xffffffff, 8)) \<and>
     rq_rep 32 seq_num_32_gt seq_num_32_lt seq_num_32_add q' 0 []"
  using reorder_pull_refines [OF sample_queue_rep] by auto

text \<open>
  The assertion of \<^verbatim>\<open>push\<close> that the new number is not before the end of the window can
  fail: exactly when the window is empty and the number is half of the number space away
  from its start. Then neither comparison of serial numbers holds.
\<close>

theorem reorder_push_aborts_iff:
  assumes "rq_rep 32 seq_num_32_gt seq_num_32_lt seq_num_32_add q b xs" "unat s < 2 ^ 32"
  shows "chiaki_reorder_queue_push q s x = None \<longleftrightarrow> xs = [] \<and> seq_dist (ucast b :: u32) (ucast s) = 2 ^ 31"
proof -
  have "seq_off 32 b s = seq_dist (ucast b :: u32) (ucast s)"
    using rq32.rep_bounds(3) [OF assms(1)] assms(2) by (rule seq_off_32)
  moreover have "push_spec 32 (2 ^ size_exp q) (drop_strategy q) b xs s x = None \<longleftrightarrow>
      xs = [] \<and> seq_off 32 b s = 2 ^ 31"
    by (auto simp: push_spec_def Let_def split: option.splits)
  ultimately show ?thesis
    using rq32.push_refines [OF assms, of x] by (auto split: option.splits)
qed

theorem reorder_push_aborts_iff_witness:
  "chiaki_reorder_queue_push (fst (chiaki_reorder_queue_init_32 (0::nat) True 4 0)) 0x80000000 1 = None"
proof -
  have r: "rep32 (fst (chiaki_reorder_queue_init_32 (0::nat) True 4 0)) (ucast (0::u32)) []"
    by (rule init32_rep) simp_all
  show ?thesis
    using reorder_push_aborts_iff [OF r, of "0x80000000" 1] by (simp add: seq_dist_def)
qed

text \<open>
  \<^verbatim>\<open>drop\<close> hands the element of a slot to the drop callback, which frees it, and leaves
  the slot filled: when the first slot is dropped, the next \<^verbatim>\<open>pull\<close> returns the same element
  again.
\<close>

theorem reorder_drop_then_pull:
  assumes "rq_rep 32 seq_num_32_gt seq_num_32_lt seq_num_32_add q b (Some x # xs)" "drop_cb q"
  shows "chiaki_reorder_queue_drop q 0 = Some (q, [(b, x)]) \<and>
    map_option snd (chiaki_reorder_queue_pull q) = Some (Some (b, x))"
proof -
  have "unat (seq_num_32_add b 0) = unat b"
    using rq32.add_mod [of b 0] rq32.rep_bounds(3) [OF assms(1)] by simp
  then have "seq_num_32_add b 0 = b" by (simp add: word_unat_eq_iff)
  then show ?thesis
    using rq32.drop_refines [OF assms(1), of 0] rq32.pull_refines [OF assms(1)] assms(2) by auto
qed

theorem reorder_drop_then_pull_witness:
  "chiaki_reorder_queue_drop sample_queue 0 = Some (sample_queue, [(0xffffffff, 8)]) \<and>
   map_option snd (chiaki_reorder_queue_pull sample_queue) = Some (Some (0xffffffff, 8))"
  by (rule reorder_drop_then_pull [OF sample_queue_rep]) (simp add: sample_queue_def)

text \<open>
  A 16 bit queue fails its assertion when the numbers wrap around inside the window.
  The 16 bit addition is not reduced, so that after 65535 the window begins at 65536, which
  no comparison treats as 0. The same run succeeds on a 32 bit queue at its own boundary.
\<close>

theorem reorder_queue_16_wrap_aborts:
  "rq_run (fst (chiaki_reorder_queue_init_16 (0::nat) True 4 0xffff))
      [Push 0xffff 1, Push 1 3, Pull, Push 0 2] = None \<and>
   map_option snd (rq_run (fst (chiaki_reorder_queue_init_32 (0::nat) True 4 0xffffffff))
      [Push 0xffffffff 1, Push 1 3, Pull, Push 0 2, Pull, Pull]) = Some [(0xffffffff, 1), (0, 2), (1, 3)]"
proof
  show "rq_run (fst (chiaki_reorder_queue_init_16 (0::nat) True 4 0xffff))
      [Push 0xffff 1, Push 1 3, Pull, Push 0 2] = None" by code_simp
  show "map_option snd (rq_run (fst (chiaki_reorder_queue_init_32 (0::nat) True 4 0xffffffff))
      [Push 0xffffffff 1, Push 1 3, Pull, Push 0 2, Pull, Pull]) = Some [(0xffffffff, 1), (0, 2), (1, 3)]"
    by code_simp
qed

end
