(* ===== verification/Takion_Props.thy ===== *)
theory Takion_Props
  imports Takion_Receive Takion_Packets_Props Reorder_Queue_Refine
begin

text \<open>
  Takion: reservation of key positions, authentication between the two ends of a connection,
  forged packets, the handshake, and two errors of the code.
\<close>

text \<open>A connection with an empty queue, for the witnesses, and a platform on which every call succeeds.\<close>

definition sample_queue16 :: "data_packet_entry reorder_queue" where
  "sample_queue16 = chiaki_reorder_queue_set_drop_cb
     (fst (chiaki_reorder_queue_init_32 \<lparr>packet_buf = [], entry_type_b = 0, payload_at = 0, payload_size = 0, entry_channel = 0\<rparr>
        True TAKION_REORDER_QUEUE_SIZE_EXP 7)) True"

definition sample_takion :: takion where
  "sample_takion = \<lparr>tk_version = 12, enable_crypt = True, enable_dualsense = True, close_socket = True, sock_valid = True,
     postponed = None, gkcrypt_local = None, key_pos_local = 0, gkcrypt_remote = None, data_queue = sample_queue16,
     tk_send_buffer = \<lparr>sb_takion = True, packets = [], packets_size = 0, packets_count = 0, sb_should_stop = False\<rparr>,
     tk_cb = True, tag_local = 5, tag_remote = 7, seq_num_local = 5, tk_a_rwnd = TAKION_A_RWND,
     tk_av_parse = chiaki_takion_v12_av_packet_parse, tk_key_state = chiaki_key_state_init, tk_out = []\<rparr>"

definition sample_gcm :: "bytes \<Rightarrow> bytes \<Rightarrow> bytes \<Rightarrow> ChiakiErrorCode + bytes" where
  "sample_gcm key iv tx = Inr [fold (XOR) key 0, fold (XOR) iv 0, fold (XOR) tx 0, of_nat (length tx)]"

definition sample_platform :: platform where
  "sample_platform = \<lparr>pf_sha = sample_sha, pf_hmac = sample_hmac, pf_gcm = sample_gcm, pf_aes = sample_aes, pf_aes_ok = (\<lambda>_. True),
     pf_alloc = (\<lambda>_ _. True), pf_send_ok = (\<lambda>_ _. True), pf_now = (\<lambda>_. 0), pf_stack = replicate 17 0,
     pf_rnd = (\<lambda>r. r), pf_rndd = (\<lambda>r. r)\<rparr>"

lemma sample_platform_fields [simp]:
  "pf_sha sample_platform = sample_sha" "pf_hmac sample_platform = sample_hmac" "pf_gcm sample_platform = sample_gcm" "pf_alloc sample_platform os n"
  "pf_send_ok sample_platform os b" "pf_stack sample_platform = replicate 17 0"
  by (simp_all add: sample_platform_def)

lemma sample_gcm_tag: "gcm_tag sample_gcm"
  by (simp add: gcm_tag_def sample_gcm_def)

section \<open>Key positions\<close>

text \<open>
  The ranges that a sequence of requests gets. Every function that sends goes through
  \<^verbatim>\<open>chiaki_takion_crypt_advance_key_pos\<close> under the mutex, so an interleaving of the threads is
  one sequence.
\<close>

fun advance_run :: "takion \<Rightarrow> u64 list \<Rightarrow> (u64 \<times> u64) list" where
  "advance_run t [] = []"
| "advance_run t (n # ns) =
     (case chiaki_takion_crypt_advance_key_pos t n of
        (t', Inr pos) \<Rightarrow> (pos, n) # advance_run t' ns
      | (t', Inl _) \<Rightarrow> advance_run t' ns)"

lemma advance_key_pos_cases:
  assumes "gkcrypt_local t \<noteq> None" "unat n < 2 ^ 63"
  obtains "chiaki_takion_crypt_advance_key_pos t n = (t, Inl CHIAKI_ERR_OVERFLOW)"
    | t' where "chiaki_takion_crypt_advance_key_pos t n = (t', Inr (key_pos_local t))" "gkcrypt_local t' = gkcrypt_local t"
      "unat (key_pos_local t') = unat (key_pos_local t) + unat n + unat n mod 16"
proof -
  let ?d = "n + n mod 16"
  have d: "unat ?d = unat n + unat n mod 16"
    using assms(2) mod_less_divisor [of 16 "unat n"] by (subst unat_plus_small) (simp_all add: unat_mod)
  have m: "unat (-1 :: u64) = 2 ^ 64 - 1" by (simp add: unsigned_minus_1_eq_mask mask_eq_exp_minus_1)
  then have "unat (key_pos_local t) \<le> unat (-1 :: u64)" using unat_lt_exp [of "key_pos_local t"] by simp
  then have c: "unat (-1 - key_pos_local t) = 2 ^ 64 - 1 - unat (key_pos_local t)"
    using m by (simp add: unat_minus_small)
  show thesis
  proof (cases "-1 - key_pos_local t < ?d")
    case True
    then show thesis using that(1) assms(1) by (auto simp: chiaki_takion_crypt_advance_key_pos_def Let_def)
  next
    case False
    then have "unat ?d \<le> 2 ^ 64 - 1 - unat (key_pos_local t)" by (simp add: word_less_nat_alt c)
    then have "unat (key_pos_local t) + unat ?d < 2 ^ 64" using unat_lt_exp [of "key_pos_local t"] by simp
    then have "unat (key_pos_local t + ?d) = unat (key_pos_local t) + (unat n + unat n mod 16)"
      using d by (subst unat_plus_small) simp_all
    then show thesis
      using that(2) [of "t\<lparr>key_pos_local := key_pos_local t + ?d\<rparr>"] False assms(1)
      by (auto simp: chiaki_takion_crypt_advance_key_pos_def Let_def)
  qed
qed

lemma advance_run_above:
  assumes "gkcrypt_local t \<noteq> None" "\<forall>n \<in> set ns. unat n < 2 ^ 63"
  shows "sorted_wrt (\<lambda>(p, n) (q, m). unat p + unat n \<le> unat q) (advance_run t ns) \<and>
    (\<forall>(p, n) \<in> set (advance_run t ns). unat (key_pos_local t) \<le> unat p \<and> unat p + unat n < 2 ^ 64)"
  using assms
proof (induction ns arbitrary: t)
  case (Cons n ns)
  have n: "unat n < 2 ^ 63" "\<forall>n \<in> set ns. unat n < 2 ^ 63" using Cons.prems(2) by simp_all
  from Cons.prems(1) n(1) show ?case
  proof (cases rule: advance_key_pos_cases)
    case 1
    then show ?thesis using Cons.IH [OF Cons.prems(1) n(2)] by simp
  next
    case (2 t')
    have b: "unat (key_pos_local t') < 2 ^ 64" using unat_lt_exp [of "key_pos_local t'"] by simp
    have "gkcrypt_local t' \<noteq> None" using 2 Cons.prems(1) by simp
    from Cons.IH [OF this n(2)] show ?thesis using 2 b by fastforce
  qed
qed simp

text \<open>
  C29: the ranges of the key stream that are handed out for sending never overlap and never wrap
  around, whatever sizes are requested in whatever order: each starts at or behind the end of
  the ranges before it. A request that would pass the last position is refused.
\<close>

theorem takion_key_pos_disjoint:
  assumes "gkcrypt_local t \<noteq> None" "\<forall>n \<in> set ns. unat n < 2 ^ 63"
  shows "sorted_wrt (\<lambda>(p, n) (q, m). unat p + unat n \<le> unat q) (advance_run t ns) \<and>
    (\<forall>(p, n) \<in> set (advance_run t ns). unat p + unat n < 2 ^ 64)"
  using advance_run_above [OF assms] by fastforce

text \<open>Three reservations of a connection with a key: the gaps come from the odd rounding.\<close>

theorem takion_key_pos_disjoint_witness:
  "advance_run (sample_takion\<lparr>gkcrypt_local := Some sample_gk\<rparr>) [5, 17, 3] = [(0, 5), (10, 17), (28, 3)] \<and>
   sorted_wrt (\<lambda>(p, n) (q, m). unat p + unat n \<le> unat q)
     (advance_run (sample_takion\<lparr>gkcrypt_local := Some sample_gk\<rparr>) [5, 17, 3])"
proof -
  let ?t = "sample_takion\<lparr>gkcrypt_local := Some sample_gk\<rparr>"
  have step: "chiaki_takion_crypt_advance_key_pos (?t\<lparr>key_pos_local := k\<rparr>) n =
      (?t\<lparr>key_pos_local := k + (n + n mod 16)\<rparr>, Inr k)" if "\<not> -1 - k < n + n mod 16" for k n
    using that by (simp add: chiaki_takion_crypt_advance_key_pos_def Let_def)
  have t0: "?t = ?t\<lparr>key_pos_local := 0\<rparr>" by (simp add: sample_takion_def)
  have "advance_run ?t [5, 17, 3] = [(0, 5), (10, 17), (28, 3)]"
    by (subst t0) (simp add: step)
  moreover have "gkcrypt_local ?t \<noteq> None" "\<forall>n \<in> set [5, 17, 3 :: u64]. unat n < 2 ^ 63" by simp_all
  ultimately show ?thesis using takion_key_pos_disjoint [of ?t "[5, 17, 3]"] by blast
qed

section \<open>Authentication\<close>

text \<open>
  C6: what one end sends, the other end accepts. When both ends hold the same keys and the
  receiver's last key position is less than \<open>2 ^ 31\<close> away, a packet that carries the low bits
  of its key position passes the check of \<^verbatim>\<open>takion_handle_packet_mac\<close>, which recovers the full
  key position and leaves the packet as it was sent.
\<close>

theorem takion_send_verifies:
  assumes keys: "sha_digest (pf_sha pf)" "gcm_tag (pf_gcm pf)" "gkcrypt_local t = Some gk" "gmac_inv (pf_sha pf) gk"
      "gkcrypt_remote r = Some gk'" "gmac_inv (pf_sha pf) gk'" "same_gmac_keys gk gk'"
    and sent: "chiaki_takion_send pf t buf key_pos = Some (t', buf', CHIAKI_ERR_SUCCESS)"
    and low: "\<forall>ko. takion_packet_type_key_pos_offset (packet_base_type (buf ! 0)) = Some ko \<longrightarrow> rd32 buf ko = Some (ucast key_pos)"
    and near: "unat key_pos < unat (key_prev (tk_key_state r)) + 2 ^ 31" "unat (key_prev (tk_key_state r)) < unat key_pos + 2 ^ 31"
  shows "tk_out t' = tk_out t @ [Sent buf'] \<and>
    (\<exists>k i. takion_handle_packet_mac pf r buf' =
      Some (r\<lparr>gkcrypt_remote := Some (gk'\<lparr>key_gmac_current := k, key_gmac_index_current := i\<rparr>), tk_key_state := \<lparr>key_prev = key_pos\<rparr>\<rparr>,
        buf', CHIAKI_ERR_SUCCESS))"
proof -
  obtain c res where pm: "chiaki_takion_packet_mac (pf_sha pf) (pf_gcm pf) (Some gk) buf key_pos = Some (c, buf', res)"
      and out: "case res of Inl e \<Rightarrow> e = CHIAKI_ERR_SUCCESS | Inr _ \<Rightarrow> t' = t\<lparr>gkcrypt_local := c, tk_out := tk_out t @ [Sent buf']\<rparr>"
    using sent keys(3)
    by (auto simp: chiaki_takion_send_def chiaki_takion_send_raw_def Let_def split: Option.bind_splits sum.splits if_splits)
  obtain mac old where res: "res = Inr (mac, old)"
    using pm packet_mac_err out by (cases res) fastforce+
  obtain mo ko where l: "mac_layout buf mo ko" using packet_mac_layout pm res by blast
  note v = packet_mac_verifies [OF keys(1,2,4,6,7) pm [unfolded res] l]
  have "rd32 buf' ko = Some (ucast key_pos)" using l low v(3) by (simp add: mac_layout_def)
  then have kp: "chiaki_takion_packet_read_key_pos (tk_key_state r) buf' = Some (Inr key_pos)"
    using v(2) request_pos_near [OF near, of False]
    by (auto simp: chiaki_takion_packet_read_key_pos_def mac_layout_def Suc_le_eq)
  obtain k i where "chiaki_takion_packet_mac (pf_sha pf) (pf_gcm pf) (Some gk') buf' key_pos =
      Some (Some (gk'\<lparr>key_gmac_current := k, key_gmac_index_current := i\<rparr>), buf', Inr (mac, mac))"
    using v(1) by blast
  moreover have "chiaki_key_state_commit (tk_key_state r) key_pos = \<lparr>key_prev = key_pos\<rparr>"
    by (simp add: chiaki_key_state_commit_def)
  ultimately have "takion_handle_packet_mac pf r buf' =
      Some (r\<lparr>gkcrypt_remote := Some (gk'\<lparr>key_gmac_current := k, key_gmac_index_current := i\<rparr>), tk_key_state := \<lparr>key_prev = key_pos\<rparr>\<rparr>,
        buf', CHIAKI_ERR_SUCCESS)"
    using kp keys(5) by (simp add: takion_handle_packet_mac_def Let_def)
  then show ?thesis using out res by auto
qed

text \<open>A data ack of the sender, with its key position.\<close>

definition sample_ack :: bytes where
  "sample_ack = [0] @ takion_write_message_header 7 0x20 3 0 0xc @ be32 9 @ be32 0x19000 @ be16 0 @ be16 0"

lemma sample_gk_gmac: "gmac_inv sample_sha sample_gk"
  using gk_init_inv [OF sample_gk_init, where aes = sample_aes and lim = "2 ^ 34"] by (simp add: gk_state_inv_def)

lemma sample_ack_layout:
  "mac_layout sample_ack 5 9" "packet_base_type (sample_ack ! 0) = 0" "rd32 sample_ack 9 = Some 0x20" "sample_ack \<noteq> []"
  by (simp_all add: mac_layout_def sample_ack_def packet_base_type_def takion_packet_type_mac_offset_def
      takion_packet_type_key_pos_offset_def rd_Cons_skip message_header_reads del: append_assoc)

theorem takion_send_verifies_witness:
  "\<exists>t' buf' gk. chiaki_takion_send sample_platform (sample_takion\<lparr>gkcrypt_local := Some sample_gk\<rparr>) sample_ack 0x20 =
       Some (t', buf', CHIAKI_ERR_SUCCESS) \<and>
     tk_out t' = [Sent buf'] \<and>
     takion_handle_packet_mac sample_platform (sample_takion\<lparr>gkcrypt_remote := Some sample_gk\<rparr>) buf' =
       Some (sample_takion\<lparr>gkcrypt_remote := Some gk, tk_key_state := \<lparr>key_prev = 0x20\<rparr>\<rparr>, buf', CHIAKI_ERR_SUCCESS)"
proof -
  let ?t = "sample_takion\<lparr>gkcrypt_local := Some sample_gk\<rparr>" and ?r = "sample_takion\<lparr>gkcrypt_remote := Some sample_gk\<rparr>"
  obtain gk' mac old buf' where pm: "chiaki_takion_packet_mac sample_sha sample_gcm (Some sample_gk) sample_ack 0x20 =
      Some (Some gk', buf', Inr (mac, old))"
    using packet_mac_spec [OF sample_hyps(2) sample_gcm_tag sample_gk_gmac sample_ack_layout(1)] by metis
  then have sent: "chiaki_takion_send sample_platform ?t sample_ack 0x20 =
      Some (?t\<lparr>gkcrypt_local := Some gk', tk_out := [Sent buf']\<rparr>, buf', CHIAKI_ERR_SUCCESS)"
    by (simp add: chiaki_takion_send_def chiaki_takion_send_raw_def sample_takion_def)
  have near: "unat (0x20 :: u64) < unat (key_prev (tk_key_state ?r)) + 2 ^ 31"
      "unat (key_prev (tk_key_state ?r)) < unat (0x20 :: u64) + 2 ^ 31"
    by (simp_all add: sample_takion_def chiaki_key_state_init_def)
  have low: "\<forall>ko. takion_packet_type_key_pos_offset (packet_base_type (sample_ack ! 0)) = Some ko \<longrightarrow>
      rd32 sample_ack ko = Some (ucast (0x20 :: u64))"
    using sample_ack_layout by (simp add: mac_layout_def)
  from takion_send_verifies [of sample_platform ?t sample_gk ?r sample_gk, OF _ _ _ _ _ _ _ sent low near]
  show ?thesis
    using sent sample_hyps(2) sample_gcm_tag sample_gk_gmac
    by (simp add: same_gmac_keys_def) blast
qed

text \<open>
  C14: a received packet whose code is not the code of its bytes changes nothing: no event, no
  answer, no change of the queue, of the key state or of the send buffer. Only the cached key of
  the authentication may have been replaced.
\<close>

theorem takion_rejects_forged:
  assumes "sha_digest (pf_sha pf)" "gcm_tag (pf_gcm pf)" "gkcrypt_remote t = Some gk" "gmac_inv (pf_sha pf) gk"
    and "mac_layout buf mo ko" "rd32 buf ko = Some low"
    and forged: "take 4 (drop mo buf) \<noteq> mac_of (pf_sha pf) (pf_gcm pf) gk
        (snd (chiaki_key_state_request_pos (tk_key_state t) low False)) (mac_text (packet_base_type (buf ! 0)) mo ko buf)"
  shows "\<exists>k i. takion_handle_packet pf cb t buf =
    Some (t\<lparr>gkcrypt_remote := Some (gk\<lparr>key_gmac_current := k, key_gmac_index_current := i\<rparr>)\<rparr>)"
proof -
  let ?kp = "snd (chiaki_key_state_request_pos (tk_key_state t) low False)"
  obtain gk' where m: "chiaki_takion_packet_mac (pf_sha pf) (pf_gcm pf) (Some gk) buf ?kp =
      Some (Some gk', upd buf mo (mac_of (pf_sha pf) (pf_gcm pf) gk ?kp (mac_text (packet_base_type (buf ! 0)) mo ko buf)),
        Inr (mac_of (pf_sha pf) (pf_gcm pf) gk ?kp (mac_text (packet_base_type (buf ! 0)) mo ko buf), take 4 (drop mo buf)))"
    and "\<exists>k i. gk' = gk\<lparr>key_gmac_current := k, key_gmac_index_current := i\<rparr>"
    using packet_mac_spec [OF assms(1,2,4,5)] by metis
  moreover have "chiaki_takion_packet_read_key_pos (tk_key_state t) buf = Some (Inr ?kp)"
    using assms(5,6) by (simp add: chiaki_takion_packet_read_key_pos_def mac_layout_def Suc_le_eq)
  moreover have "buf \<noteq> []" using assms(5) by (auto simp: mac_layout_def)
  ultimately show ?thesis
    using assms(3) forged by (auto simp: takion_handle_packet_def takion_handle_packet_mac_def Let_def)
qed

theorem takion_rejects_forged_witness:
  "\<exists>k i. takion_handle_packet sample_platform (\<lambda>_ _. None) (sample_takion\<lparr>gkcrypt_remote := Some sample_gk\<rparr>) sample_ack =
    Some (sample_takion\<lparr>gkcrypt_remote := Some (sample_gk\<lparr>key_gmac_current := k, key_gmac_index_current := i\<rparr>)\<rparr>)"
proof -
  let ?r = "sample_takion\<lparr>gkcrypt_remote := Some sample_gk\<rparr>"
  have len: "length (mac_text 0 5 9 sample_ack) = 29"
    by (simp add: mac_text_def clears_key_pos_def sample_ack_def)
  have l: "last (mac_of sample_sha sample_gcm sample_gk kp (mac_text 0 5 9 sample_ack)) = 29" for kp
    unfolding mac_of_def sample_gcm_def len by simp
  have z: "last (take 4 (drop 5 sample_ack)) = 0"
    by (simp add: sample_ack_def takion_write_message_header_def be32_def be16_def)
  have "take 4 (drop 5 sample_ack) \<noteq> mac_of sample_sha sample_gcm sample_gk kp (mac_text 0 5 9 sample_ack)" for kp
  proof
    assume "take 4 (drop 5 sample_ack) = mac_of sample_sha sample_gcm sample_gk kp (mac_text 0 5 9 sample_ack)"
    then have "last (take 4 (drop 5 sample_ack)) = 29" using l by simp
    then show False using z by simp
  qed
  then show ?thesis
    using takion_rejects_forged [where pf = sample_platform and t = ?r and gk = sample_gk and buf = sample_ack and mo = 5
        and ko = 9 and low = "0x20" and cb = "\<lambda>_ _. None"]
      sample_hyps(2) sample_gcm_tag sample_gk_gmac sample_ack_layout by simp
qed

section \<open>The check of queued packets\<close>

lemma recheck_none:
  assumes r: "rep32 (data_queue t) b xs" and i: "i < length xs" "xs ! i \<noteq> None" and j: "j \<le> i" "\<forall>k < i. xs ! k = None"
  shows "takion_recheck_macs pf t (of_nat j) = None"
  using j(1)
proof (induction "i - j" arbitrary: j)
  case 0
  have "length xs < 2 ^ 32" using rq32.rep_bounds(1,2) [OF r] by simp
  then have u: "unat (of_nat j :: u64) = j" using 0 i(1) by (intro unat_of_nat_small) simp
  then have "of_nat j < rq_count (data_queue t)" using rq32.rep_length [OF r] 0 i(1) by (simp add: word_less_nat_alt)
  moreover have "chiaki_reorder_queue_peek (data_queue t) (of_nat j) False True = None"
    using rq32.peek_refines [OF r, of "of_nat j" False True] u 0 i by auto
  ultimately show ?case
    by (subst takion_recheck_macs.simps) (simp add: chiaki_reorder_queue_count_def)
next
  case (Suc m)
  have "length xs < 2 ^ 32" using rq32.rep_bounds(1,2) [OF r] by simp
  then have u: "unat (of_nat j :: u64) = j" using Suc(2,3) i(1) by (intro unat_of_nat_small) simp
  then have "of_nat j < rq_count (data_queue t)" using rq32.rep_length [OF r] Suc(2,3) i(1) by (simp add: word_less_nat_alt)
  moreover have "chiaki_reorder_queue_peek (data_queue t) (of_nat j) False True = Some None"
    using rq32.peek_refines [OF r, of "of_nat j" False True] u Suc(2,3) i(1) assms(5) by auto
  moreover have "takion_recheck_macs pf t (of_nat (Suc j)) = None" using Suc by (intro Suc(1)) simp_all
  ultimately show ?case
    by (subst takion_recheck_macs.simps) (simp add: chiaki_reorder_queue_count_def add.commute)
qed

text \<open>
  When encryption becomes available while a packet waits in the data queue for the ones before
  it, the thread dereferences a null pointer: it asks \<^verbatim>\<open>chiaki_reorder_queue_peek\<close> for the
  packet without a place for the sequence number, which \<^verbatim>\<open>peek\<close> stores without a test.
\<close>

theorem takion_recheck_null_pointer:
  assumes "rq_rep 32 seq_num_32_gt seq_num_32_lt seq_num_32_add (data_queue t) b xs" "Some e \<in> set xs"
    and "enable_crypt t" "gkcrypt_remote t \<noteq> None"
  shows "takion_round_start pf cb t False = None"
proof -
  obtain i where i: "i < length xs" "xs ! i \<noteq> None" "\<forall>k < i. xs ! k = None"
  proof -
    let ?P = "\<lambda>i. i < length xs \<and> xs ! i \<noteq> None"
    have "\<exists>i. ?P i" using assms(2) by (metis in_set_conv_nth option.distinct(1))
    then have "?P (LEAST i. ?P i)" by (rule LeastI_ex)
    moreover have "xs ! k = None" if "k < (LEAST i. ?P i)" for k
      using not_less_Least [OF that] that calculation by (meson less_trans)
    ultimately show thesis using that by blast
  qed
  have "takion_recheck_macs pf t (of_nat 0) = None" by (rule recheck_none [OF assms(1) i(1,2) _ i(3)]) simp
  then show ?thesis using assms(3,4) by (simp add: takion_round_start_def)
qed

lemma sample_queue16_rep: "rep32 sample_queue16 7 []"
  using init32_rep(1) [of 4 "\<lparr>packet_buf = [], entry_type_b = 0, payload_at = 0, payload_size = 0, entry_channel = 0\<rparr>" 7]
  by (simp add: sample_queue16_def chiaki_reorder_queue_set_drop_cb_def rq_rep_def rq_wf_def rq_window_def)

theorem takion_recheck_null_pointer_witness:
  "\<exists>q. map_option fst (chiaki_reorder_queue_push sample_queue16 9
      \<lparr>packet_buf = sample_ack, entry_type_b = 1, payload_at = 17, payload_size = 12, entry_channel = 1\<rparr>) = Some q \<and>
    takion_round_start sample_platform (\<lambda>_ t. Some t) (sample_takion\<lparr>data_queue := q, gkcrypt_remote := Some sample_gk\<rparr>) False = None"
proof -
  let ?e = "\<lparr>packet_buf = sample_ack, entry_type_b = 1, payload_at = 17, payload_size = 12, entry_channel = 1\<rparr>"
  have "seq_off 32 7 9 = 2" "size_exp sample_queue16 = 4"
    by (simp_all add: seq_off_def sample_queue16_def chiaki_reorder_queue_set_drop_cb_def chiaki_reorder_queue_init_32_def
        chiaki_reorder_queue_init_def)
  moreover have "replicate 2 None = [None, None :: data_packet_entry option]" by (simp add: numeral_2_eq_2)
  ultimately have "push_spec 32 (2 ^ size_exp sample_queue16) (drop_strategy sample_queue16) 7 [] 9 ?e = Some (7, [None, None, Some ?e], [])"
    by (simp add: push_spec_def Let_def)
  then obtain q ds where q: "chiaki_reorder_queue_push sample_queue16 9 ?e = Some (q, ds)" "rep32 q 7 [None, None, Some ?e]"
    using rq32.push_refines [OF sample_queue16_rep, of 9 ?e] by auto
  have "rep32 (data_queue (sample_takion\<lparr>data_queue := q, gkcrypt_remote := Some sample_gk\<rparr>)) 7 [None, None, Some ?e]"
    using q(2) by simp
  from takion_recheck_null_pointer [OF this, of ?e sample_platform "\<lambda>_ t. Some t"]
  show ?thesis using q(1) by (simp add: sample_takion_def)
qed

section \<open>Connecting\<close>

text \<open>The answers of a peer.\<close>

definition init_ack_packet :: "u32 \<Rightarrow> u64 \<Rightarrow> message_payload_init_ack \<Rightarrow> bytes" where
  "init_ack_packet tag kp p = [TAKION_PACKET_TYPE_CONTROL] @
     takion_write_message_header tag kp TAKION_CHUNK_TYPE_INIT_ACK 0 (0x10 + TAKION_COOKIE_SIZE) @
     (be32 (init_tag p) @ be32 (init_a_rwnd p) @ be16 (init_outbound_streams p) @ be16 (init_inbound_streams p) @
      be32 (init_initial_seq_num p) @ init_cookie p)"

definition cookie_ack_packet :: "u32 \<Rightarrow> u64 \<Rightarrow> bytes" where
  "cookie_ack_packet tag kp = [TAKION_PACKET_TYPE_CONTROL] @ takion_write_message_header tag kp TAKION_CHUNK_TYPE_COOKIE_ACK 0 0"

lemma expect_written:
  assumes "length payload + 4 < 2 ^ 16" "n \<le> 17 + length payload"
  shows "\<exists>ks. takion_expect_message t n ty ([0] @ takion_write_message_header (tag_local t) kp ty 0 (length payload) @ payload) =
    Some (t\<lparr>tk_key_state := ks\<rparr>, Inr \<lparr>msg_tag = tag_local t, msg_key_pos = snd (chiaki_key_state_request_pos (tk_key_state t) (ucast kp) True),
      msg_chunk_type = ty, msg_chunk_flags = 0, msg_payload_size = of_nat (length payload),
      msg_payload = (if payload = [] then None else Some 0x10)\<rparr>)"
  using parse_written [OF assms(1), of "tag_local t" "tk_key_state t" kp ty 0] assms(2)
  by (intro exI [of _ "fst (chiaki_key_state_request_pos (tk_key_state t) (ucast kp) True)"])
    (simp add: takion_expect_message_def rd8_def)

lemma recv_init_ack_written:
  assumes "length (init_cookie p) = TAKION_COOKIE_SIZE"
  shows "\<exists>ks. takion_recv_message_init_ack t (Datagram (init_ack_packet (tag_local t) kp p) # ins) =
    Some (t\<lparr>tk_key_state := ks\<rparr>, ins, Inr p)"
proof -
  let ?pl = "be32 (init_tag p) @ be32 (init_a_rwnd p) @ be16 (init_outbound_streams p) @ be16 (init_inbound_streams p) @
      be32 (init_initial_seq_num p) @ init_cookie p"
  have len: "length ?pl = 48" using assms by simp
  have ne: "be32 (init_tag p) \<noteq> []" using length_be32 [of "init_tag p"] by (metis list.size(3) zero_neq_numeral)
  have recv: "takion_recv 65 (Datagram (init_ack_packet (tag_local t) kp p) # ins) = (ins, Inr (init_ack_packet (tag_local t) kp p))"
    using assms by (simp add: init_ack_packet_def)
  obtain ks where e: "takion_expect_message t 65 2 (init_ack_packet (tag_local t) kp p) =
      Some (t\<lparr>tk_key_state := ks\<rparr>, Inr \<lparr>msg_tag = tag_local t,
        msg_key_pos = snd (chiaki_key_state_request_pos (tk_key_state t) (ucast kp) True),
        msg_chunk_type = 2, msg_chunk_flags = 0, msg_payload_size = 48, msg_payload = Some 0x10\<rparr>)"
    using expect_written [of ?pl 65 t 2 kp] unfolding len init_ack_packet_def by (auto simp: ne)
  have d: "drop 17 (init_ack_packet (tag_local t) kp p) = ?pl" by (simp add: init_ack_packet_def)
  have reads: "rd32 ?pl 0 = Some (init_tag p)" "rd32 ?pl 4 = Some (init_a_rwnd p)" "rd16 ?pl 8 = Some (init_outbound_streams p)"
      "rd16 ?pl 10 = Some (init_inbound_streams p)" "rd32 ?pl 12 = Some (init_initial_seq_num p)"
      "rd_n ?pl 16 32 = Some (init_cookie p)"
    using assms by (simp_all add: msg_simps rd_n_def)
  show ?thesis
    using e by (intro exI [of _ ks]) (simp add: takion_recv_message_init_ack_def recv d reads del: takion_recv.simps append_assoc)
qed

lemma recv_cookie_ack_written:
  "\<exists>ks. takion_recv_message_cookie_ack pf t (Datagram (cookie_ack_packet (tag_local t) kp) # ins) =
    Some (t\<lparr>tk_key_state := ks\<rparr>, ins, CHIAKI_ERR_SUCCESS)"
proof -
  have len: "length (cookie_ack_packet (tag_local t) kp) = 17" by (simp add: cookie_ack_packet_def)
  have recv: "takion_recv 17 (Datagram (cookie_ack_packet (tag_local t) kp) # ins) = (ins, Inr (cookie_ack_packet (tag_local t) kp))"
    using len by (auto simp: cookie_ack_packet_def)
  obtain ks where e: "takion_expect_message t 17 0xb (cookie_ack_packet (tag_local t) kp) =
      Some (t\<lparr>tk_key_state := ks\<rparr>, Inr \<lparr>msg_tag = tag_local t,
        msg_key_pos = snd (chiaki_key_state_request_pos (tk_key_state t) (ucast kp) True),
        msg_chunk_type = 0xb, msg_chunk_flags = 0, msg_payload_size = 0, msg_payload = None\<rparr>)"
    using expect_written [of "[]" 17 t "0xb" kp] by (auto simp: cookie_ack_packet_def)
  have "rd8 (cookie_ack_packet (tag_local t) kp @ js) 13 = Some 0xb" for js
    by (simp add: cookie_ack_packet_def rd_Cons_skip message_header_reads)
  then show ?thesis
    using e by (intro exI [of _ ks]) (simp add: takion_recv_message_cookie_ack_def recv del: takion_recv.simps)
qed

text \<open>
  C15: with a peer that answers, the handshake succeeds: one init message is sent, and the cookie
  of the peer is sent back under the tag that the peer chose, which is also the number at which
  the data of the peer start. The tag must not be zero, and the numbers of streams in range.
\<close>

theorem takion_handshake_completes:
  assumes "\<forall>os b. pf_send_ok pf os b" "length (init_cookie p) = TAKION_COOKIE_SIZE" "init_tag p \<noteq> 0"
    "init_outbound_streams p \<noteq> 0" "init_outbound_streams p \<le> TAKION_INBOUND_STREAMS"
    "TAKION_OUTBOUND_STREAMS \<le> init_inbound_streams p"
  shows "\<exists>ks. takion_handshake pf t (Datagram (init_ack_packet (tag_local t) k p) # Datagram (cookie_ack_packet (tag_local t) k') # ins) =
    Some (t\<lparr>tag_remote := init_tag p, tk_key_state := ks, tk_out := tk_out t @
      [Sent ([0] @ takion_write_message_header (tag_remote t) 0 TAKION_CHUNK_TYPE_INIT 0 0x10 @ be32 (tag_local t) @
          be32 TAKION_A_RWND @ be16 TAKION_OUTBOUND_STREAMS @ be16 TAKION_INBOUND_STREAMS @ be32 (seq_num_local t)),
       Sent ([0] @ takion_write_message_header (init_tag p) 0 TAKION_CHUNK_TYPE_COOKIE 0 TAKION_COOKIE_SIZE @ init_cookie p)]\<rparr>,
      ins, Inr (init_tag p))"
proof -
  let ?m = "[0] @ takion_write_message_header (tag_remote t) 0 TAKION_CHUNK_TYPE_INIT 0 0x10 @ be32 (tag_local t) @
      be32 TAKION_A_RWND @ be16 TAKION_OUTBOUND_STREAMS @ be16 TAKION_INBOUND_STREAMS @ be32 (seq_num_local t)"
  let ?t1 = "t\<lparr>tk_out := tk_out t @ [Sent ?m]\<rparr>"
  obtain ks1 where 1: "takion_recv_message_init_ack ?t1
      (Datagram (init_ack_packet (tag_local t) k p) # Datagram (cookie_ack_packet (tag_local t) k') # ins) =
      Some (?t1\<lparr>tk_key_state := ks1\<rparr>, Datagram (cookie_ack_packet (tag_local t) k') # ins, Inr p)"
    using recv_init_ack_written [OF assms(2), of ?t1] by auto
  let ?c = "[0] @ takion_write_message_header (init_tag p) 0 TAKION_CHUNK_TYPE_COOKIE 0 TAKION_COOKIE_SIZE @ init_cookie p"
  let ?t2 = "?t1\<lparr>tk_key_state := ks1, tag_remote := init_tag p, tk_out := tk_out t @ [Sent ?m, Sent ?c]\<rparr>"
  obtain ks2 where 2: "takion_recv_message_cookie_ack pf ?t2 (Datagram (cookie_ack_packet (tag_local t) k') # ins) =
      Some (?t2\<lparr>tk_key_state := ks2\<rparr>, ins, CHIAKI_ERR_SUCCESS)"
    using recv_cookie_ack_written [of pf ?t2] by auto
  have "init_inbound_streams p \<noteq> 0" using assms(6) by auto
  then show ?thesis
    using 1 2 assms(1,3-6)
    by (intro exI [of _ ks2])
      (simp add: takion_handshake_def takion_send_message_init_def takion_send_message_cookie_def
        chiaki_takion_send_raw_def Let_def not_less)
qed

definition sample_payload_init_ack :: message_payload_init_ack where
  "sample_payload_init_ack = \<lparr>init_tag = 0x4823, init_a_rwnd = 0x19000, init_outbound_streams = 0x64,
     init_inbound_streams = 0x64, init_initial_seq_num = 0x4823, init_cookie = replicate 32 0xcc\<rparr>"

theorem takion_handshake_completes_witness:
  "map_option (\<lambda>(t, ins, r). (tag_remote t, length (tk_out t), ins, r)) (takion_handshake sample_platform sample_takion
      [Datagram (init_ack_packet 5 0 sample_payload_init_ack), Datagram (cookie_ack_packet 5 0), Recv_Error]) =
    Some (0x4823, 2, [Recv_Error], Inr 0x4823)"
proof -
  have tag: "tag_local sample_takion = 5" by (simp add: sample_takion_def)
  have p: "length (init_cookie sample_payload_init_ack) = 32" "init_tag sample_payload_init_ack = 0x4823"
      "init_outbound_streams sample_payload_init_ack = 0x64" "init_inbound_streams sample_payload_init_ack = 0x64"
    by (simp_all add: sample_payload_init_ack_def)
  show ?thesis
    using takion_handshake_completes [of sample_platform sample_payload_init_ack sample_takion 0 0 "[Recv_Error]"] p
    unfolding tag by (auto simp: sample_takion_def)
qed

text \<open>
  When the stop pipe cannot be created, \<^verbatim>\<open>chiaki_takion_connect\<close> returns success without
  having started the thread: the error is kept in \<^verbatim>\<open>err\<close>, and \<^verbatim>\<open>ret\<close>, which is still success,
  is returned. The same holds when reading the extra messages of a socket that is handed over
  fails.
\<close>

theorem takion_connect_reports_success:
  assumes "av_packet_parse_of_version (ci_protocol_version info) \<noteq> None"
    and "cr_local_mutex cr = CHIAKI_ERR_SUCCESS" "cr_seq_mutex cr = CHIAKI_ERR_SUCCESS"
    and "cr_stop_pipe cr \<noteq> CHIAKI_ERR_SUCCESS \<or>
      sock \<and> takion_read_extra_sock_messages (1000 + cr_time cr) (cr_extra cr) = Some CHIAKI_ERR_NETWORK"
  shows "\<exists>t'. chiaki_takion_connect t info cr sock = Some (t', CHIAKI_ERR_SUCCESS, False)"
  using assms by (auto simp: chiaki_takion_connect_def takion_connect_socket_def Let_def)

theorem takion_connect_reports_success_witness:
  "\<exists>t'. chiaki_takion_connect sample_takion \<lparr>ci_ip_dontfrag = True, ci_cb = True, ci_enable_crypt = True,
      ci_enable_dualsense = True, ci_protocol_version = 12, ci_close_socket = True\<rparr>
    \<lparr>cr_random = 0x4823, cr_local_mutex = CHIAKI_ERR_SUCCESS, cr_seq_mutex = CHIAKI_ERR_SUCCESS,
      cr_stop_pipe = CHIAKI_ERR_UNKNOWN, cr_socket = True, cr_rcvbuf = True, cr_dontfrag = True, cr_connect = True,
      cr_extra = [], cr_time = 0\<rparr> False = Some (t', CHIAKI_ERR_SUCCESS, False)"
  by (rule takion_connect_reports_success) (simp_all add: av_packet_parse_of_version_def)

section \<open>The initialisation vector of the authentication\<close>

text \<open>
  Key positions are not kept at multiples of the block size, since the size of a message is
  increased by its remainder and not up to the next multiple. After a message of at most 7
  bytes on a fresh connection, the next packet has another key position in the same block: it is
  authenticated under the same key with the same initialisation vector.
\<close>

theorem takion_gmac_nonce_reused:
  assumes "gkcrypt_local t = Some gk" "key_pos_local t = 0" "0 < unat n" "unat n < 8" "unat m < 2 ^ 63"
  shows "\<exists>t' t'' q. chiaki_takion_crypt_advance_key_pos t n = (t', Inr 0) \<and>
    chiaki_takion_crypt_advance_key_pos t' m = (t'', Inr q) \<and> q \<noteq> 0 \<and>
    counter_add (gk_iv gk) (q div 16) = counter_add (gk_iv gk) (0 div 16) \<and> gmac_index q = gmac_index 0"
proof -
  have n: "unat (n + n mod 16) = 2 * unat n" using assms(4) by (subst unat_plus_small) (simp_all add: unat_mod)
  let ?q = "n + n mod 16"
  have m: "unat (m + m mod 16) < 2 ^ 63 + 16"
    using assms(5) mod_less_divisor [of 16 "unat m"] by (subst unat_plus_small) (simp_all add: unat_mod)
  have c: "unat (-1 - ?q) = 2 ^ 64 - 1 - 2 * unat n"
  proof -
    have "unat (-1 :: u64) = 2 ^ 64 - 1" by (simp add: unsigned_minus_1_eq_mask mask_eq_exp_minus_1)
    then show ?thesis using n assms(4) by (subst unat_minus_small) simp_all
  qed
  have "unat (?q div 16) = 0" using n assms(4) by (simp add: unat_div)
  then have d: "?q div 16 = 0" by (simp add: unat_eq_zero)
  have "\<not> -1 < ?q" by (metis word_n1_ge linorder_not_less)
  then have 1: "chiaki_takion_crypt_advance_key_pos t n = (t\<lparr>key_pos_local := ?q\<rparr>, Inr 0)"
    using assms(1,2) by (simp add: chiaki_takion_crypt_advance_key_pos_def Let_def)
  have "\<not> -1 - ?q < m + m mod 16" unfolding word_less_nat_alt c using m assms(4) by simp
  then have 2: "chiaki_takion_crypt_advance_key_pos (t\<lparr>key_pos_local := ?q\<rparr>) m =
      (t\<lparr>key_pos_local := ?q + (m + m mod 16)\<rparr>, Inr ?q)"
    using assms(1) by (simp add: chiaki_takion_crypt_advance_key_pos_def Let_def)
  have q: "?q \<noteq> 0" using n assms(3) by (metis mult_is_0 unat_0 less_numeral_extra(3) zero_neq_numeral)
  have "unat ((if ?q > 0 then ?q - 1 else 0) div 45000) = 0"
  proof -
    have "unat (?q - 1) < 16" using n assms(3,4) by (subst word_minus_one_small) simp_all
    then show ?thesis by (simp add: unat_div)
  qed
  then have "gmac_index ?q = gmac_index 0" by (simp add: gmac_index_def unat_eq_zero)
  then show ?thesis using 1 2 q d by simp
qed

theorem takion_gmac_nonce_reused_witness:
  "\<exists>q. snd (chiaki_takion_crypt_advance_key_pos (fst (chiaki_takion_crypt_advance_key_pos
      (sample_takion\<lparr>gkcrypt_local := Some sample_gk\<rparr>) 5)) 100) = Inr q \<and> q \<noteq> 0 \<and> gmac_index q = gmac_index 0 \<and>
    counter_add (gk_iv sample_gk) (q div 16) = counter_add (gk_iv sample_gk) (0 div 16)"
proof -
  have "key_pos_local (sample_takion\<lparr>gkcrypt_local := Some sample_gk\<rparr>) = 0" by (simp add: sample_takion_def)
  from takion_gmac_nonce_reused [OF _ this, of sample_gk 5 100] show ?thesis by auto
qed

end
