(* ===== verification/Takion_Delivery.thy ===== *)
theory Takion_Delivery
  imports Takion_Props
begin

text \<open>
  Delivery of data messages. The callback of the client is called in the middle of the
  functions of Takion and may call Takion again, so what is proved of the queue rests on a
  contract: \<open>takion_client\<close> states that the callback returns, leaves the data queue alone and
  raises no events itself. It is interpreted on a client that makes the calls which the stream
  connection makes in its callback: send messages, and set up the encryption when the peer's
  key has arrived.
\<close>

section \<open>The calls of a client\<close>

text \<open>What the allocations and system calls of \<^verbatim>\<open>chiaki_gkcrypt_new\<close> give.\<close>

record gkcrypt_new_results =
  gn_struct :: bool
  gn_key_buf :: "bytes option"
  gn_mutex :: ChiakiErrorCode
  gn_cond :: ChiakiErrorCode
  gn_thread :: ChiakiErrorCode

abbreviation (input) CHIAKI_GKCRYPT_KEY_BUF_BLOCKS_DEFAULT :: u64 where "CHIAKI_GKCRYPT_KEY_BUF_BLOCKS_DEFAULT \<equiv> 0x20"

definition chiaki_gkcrypt_new ::
  "platform \<Rightarrow> gkcrypt_new_results \<Rightarrow> u64 \<Rightarrow> u8 \<Rightarrow> bytes \<Rightarrow> bytes \<Rightarrow> gkcrypt option option" where
  "chiaki_gkcrypt_new pf rs key_buf_chunks index handshake_key ecdh_secret =
     (if \<not> gn_struct rs then Some None
      else do {
        r \<leftarrow> chiaki_gkcrypt_init (pf_hmac pf) (pf_sha pf) (gn_key_buf rs) (gn_mutex rs) (gn_cond rs) (gn_thread rs)
          key_buf_chunks index handshake_key ecdh_secret;
        Some (case r of Inl _ \<Rightarrow> None | Inr gk \<Rightarrow> Some gk)
      })"

text \<open>\<open>stream_connection_init_crypt\<close> of \<^verbatim>\<open>lib/src/streamconnection.c\<close>, on the state of Takion.\<close>

definition stream_connection_init_crypt ::
  "platform \<Rightarrow> gkcrypt_new_results \<Rightarrow> gkcrypt_new_results \<Rightarrow> bytes \<Rightarrow> bytes \<Rightarrow> takion \<Rightarrow> (takion \<times> ChiakiErrorCode) option" where
  "stream_connection_init_crypt pf rl rr handshake_key ecdh_secret t = do {
     local \<leftarrow> chiaki_gkcrypt_new pf rl CHIAKI_GKCRYPT_KEY_BUF_BLOCKS_DEFAULT 2 handshake_key ecdh_secret;
     if local = None then Some (t, CHIAKI_ERR_UNKNOWN)
     else do {
       remote \<leftarrow> chiaki_gkcrypt_new pf rr CHIAKI_GKCRYPT_KEY_BUF_BLOCKS_DEFAULT 3 handshake_key ecdh_secret;
       if remote = None then Some (t, CHIAKI_ERR_UNKNOWN)
       else Some (chiaki_takion_set_crypt t local remote, CHIAKI_ERR_SUCCESS)
     }
   }"

datatype client_call =
    Init_Crypt gkcrypt_new_results gkcrypt_new_results bytes bytes
  | Send_Data u8 u16 bytes
  | Send_Data_Cont u8 u16 bytes
  | Send_Congestion takion_congestion_packet

fun client_calls :: "platform \<Rightarrow> takion \<Rightarrow> client_call list \<Rightarrow> takion option" where
  "client_calls pf t [] = Some t"
| "client_calls pf t (Init_Crypt rl rr hk secret # cs) = do {
     (t, _) \<leftarrow> stream_connection_init_crypt pf rl rr hk secret t; client_calls pf t cs }"
| "client_calls pf t (Send_Data fl ch buf # cs) = do {
     (t, _) \<leftarrow> chiaki_takion_send_message_data pf t fl ch buf; client_calls pf t cs }"
| "client_calls pf t (Send_Data_Cont fl ch buf # cs) = do {
     (t, _) \<leftarrow> chiaki_takion_send_message_data_cont pf t fl ch buf; client_calls pf t cs }"
| "client_calls pf t (Send_Congestion p # cs) = do {
     (t, _) \<leftarrow> chiaki_takion_send_congestion pf t p; client_calls pf t cs }"

text \<open>A client that decides by the event and the state which calls it makes.\<close>

definition client_cb :: "platform \<Rightarrow> (takion_event \<Rightarrow> takion \<Rightarrow> client_call list) \<Rightarrow> takion_cb" where
  "client_cb pf f e t = client_calls pf t (f e t)"

section \<open>What sending keeps\<close>

fun events :: "takion_out list \<Rightarrow> takion_event list" where
  "events [] = []"
| "events (Event e # os) = e # events os"
| "events (_ # os) = events os"

lemma events_append [simp]: "events (os @ os') = events os @ events os'"
  by (induction os rule: events.induct) simp_all

text \<open>The library functions behave as documented, and the state is as the operations leave it.\<close>

definition takion_ok :: "platform \<Rightarrow> takion \<Rightarrow> bool" where
  "takion_ok pf t \<longleftrightarrow> sha_digest (pf_sha pf) \<and> gcm_tag (pf_gcm pf) \<and>
     (\<forall>k m h. pf_hmac pf k m = Some h \<longrightarrow> length h = 32) \<and>
     (\<forall>gk. gkcrypt_local t = Some gk \<longrightarrow> gmac_inv (pf_sha pf) gk) \<and> sb_wf (tk_send_buffer t)"

text \<open>What a call from the callback leaves alone.\<close>

definition takion_frame :: "takion \<Rightarrow> takion \<Rightarrow> bool" where
  "takion_frame t t' \<longleftrightarrow> data_queue t' = data_queue t \<and> tk_cb t' = tk_cb t \<and> tk_key_state t' = tk_key_state t \<and>
     enable_crypt t' = enable_crypt t \<and> postponed t' = postponed t \<and> tag_local t' = tag_local t \<and>
     events (tk_out t') = events (tk_out t)"

lemma takion_frame_refl [simp]: "takion_frame t t"
  by (simp add: takion_frame_def)

lemma takion_frame_trans: "takion_frame t t' \<Longrightarrow> takion_frame t' t'' \<Longrightarrow> takion_frame t t''"
  by (simp add: takion_frame_def)

definition keeps :: "platform \<Rightarrow> takion \<Rightarrow> takion \<Rightarrow> bool" where
  "keeps pf t t' \<longleftrightarrow> takion_frame t t' \<and> takion_ok pf t'"

lemma keeps_trans: "keeps pf t t' \<Longrightarrow> keeps pf t' t'' \<Longrightarrow> keeps pf t t''"
  by (auto simp: keeps_def intro: takion_frame_trans)

lemma gkcrypt_init_ok:
  assumes "sha_digest sha" "\<forall>k m h. hmac k m = Some h \<longrightarrow> length h = 32"
  shows "\<exists>r. chiaki_gkcrypt_init hmac sha kb me ce te n i hk sec = Some r \<and> (\<forall>gk. r = Inr gk \<longrightarrow> gmac_inv sha gk)"
proof -
  have g: "\<exists>k. chiaki_gkcrypt_gen_gmac_key sha 0 key iv = Some k" for key iv by (rule gen_gmac_key_Some [OF assms(1)])
  show ?thesis
  proof (cases "hmac sec ([1, i, 0] @ take 16 hk @ [1, 0])")
    case None
    then show ?thesis by (simp add: chiaki_gkcrypt_init_def gkcrypt_gen_key_iv_def Let_def)
  next
    case (Some h)
    obtain k where "chiaki_gkcrypt_gen_gmac_key sha 0 (take 16 h) (take 16 (drop 16 h)) = Some k" using g by blast
    then show ?thesis
      using Some assms(2) by (auto simp: chiaki_gkcrypt_init_def gkcrypt_gen_key_iv_def Let_def gmac_inv_def gmac_key_at_def)
  qed
qed

lemma gkcrypt_new_ok:
  assumes "takion_ok pf t"
  shows "\<exists>r. chiaki_gkcrypt_new pf rs n i hk sec = Some r \<and> (\<forall>gk. r = Some gk \<longrightarrow> gmac_inv (pf_sha pf) gk)"
proof -
  have h: "sha_digest (pf_sha pf)" "\<forall>k m h. pf_hmac pf k m = Some h \<longrightarrow> length h = 32"
    using assms by (simp_all add: takion_ok_def)
  show ?thesis
    using gkcrypt_init_ok [OF h, of "gn_key_buf rs" "gn_mutex rs" "gn_cond rs" "gn_thread rs" n i hk sec]
    by (auto simp: chiaki_gkcrypt_new_def split: sum.splits)
qed

lemma init_crypt_keeps:
  assumes "takion_ok pf t"
  shows "\<exists>t' err. stream_connection_init_crypt pf rl rr hk sec t = Some (t', err) \<and> keeps pf t t'"
proof -
  obtain l where l: "chiaki_gkcrypt_new pf rl 0x20 2 hk sec = Some l" "\<forall>gk. l = Some gk \<longrightarrow> gmac_inv (pf_sha pf) gk"
    using gkcrypt_new_ok [OF assms] by blast
  obtain r where r: "chiaki_gkcrypt_new pf rr 0x20 3 hk sec = Some r" using gkcrypt_new_ok [OF assms] by blast
  show ?thesis
    using l r assms
    by (auto simp: stream_connection_init_crypt_def chiaki_takion_set_crypt_def keeps_def takion_ok_def takion_frame_def)
qed

text \<open>Sending a packet of a type with a code.\<close>

lemma packet_mac_total:
  assumes "mac_layout buf mo ko" "takion_ok pf t"
  shows "\<exists>c b r. chiaki_takion_packet_mac (pf_sha pf) (pf_gcm pf) (gkcrypt_local t) buf kp = Some (c, b, Inr r) \<and>
    (\<forall>gk. c = Some gk \<longrightarrow> gmac_inv (pf_sha pf) gk)"
proof (cases "gkcrypt_local t")
  case None
  have o: "mo + 4 \<le> ko" "ko + 4 \<le> length buf" using mac_layout_offsets [OF assms(1)] assms(1) by (simp_all add: mac_layout_def)
  then show ?thesis
    using None assms(1) by (auto simp: chiaki_takion_packet_mac_def mac_layout_def Let_def buf_simps)
next
  case (Some gk)
  have h: "sha_digest (pf_sha pf)" "gcm_tag (pf_gcm pf)" "gmac_inv (pf_sha pf) gk"
    using assms(2) Some by (simp_all add: takion_ok_def)
  obtain gk' b r where "chiaki_takion_packet_mac (pf_sha pf) (pf_gcm pf) (Some gk) buf kp = Some (Some gk', b, Inr r)"
      "gmac_inv (pf_sha pf) gk'"
    using packet_mac_spec [OF h assms(1), of kp] by metis
  then show ?thesis using Some by auto
qed

lemma send_keeps:
  assumes "mac_layout buf mo ko" "takion_ok pf t"
  shows "\<exists>t' b err. chiaki_takion_send pf t buf kp = Some (t', b, err) \<and> keeps pf t t'"
  using packet_mac_total [OF assms, of kp] assms(2)
  by (auto simp: chiaki_takion_send_def chiaki_takion_send_raw_def Let_def keeps_def takion_ok_def takion_frame_def)

lemma control_layout: "17 \<le> length buf \<Longrightarrow> mac_layout (0 # buf) 5 9"
  by (simp add: mac_layout_def packet_base_type_def takion_packet_type_mac_offset_def takion_packet_type_key_pos_offset_def)

lemma advance_keeps:
  assumes "takion_ok pf t" "chiaki_takion_crypt_advance_key_pos t n = (t', r)"
  shows "keeps pf t t'"
  using assms by (auto simp: chiaki_takion_crypt_advance_key_pos_def Let_def keeps_def takion_ok_def takion_frame_def split: if_splits)

lemma send_data_ack_keeps:
  assumes "takion_ok pf t"
  shows "\<exists>t' err. chiaki_takion_send_message_data_ack pf t s = Some (t', err) \<and> keeps pf t t'"
proof -
  obtain t1 r where a: "chiaki_takion_crypt_advance_key_pos t 29 = (t1, r)" by fastforce
  note k = advance_keeps [OF assms a]
  show ?thesis
  proof (cases r)
    case (Inl err)
    then show ?thesis using a k by (simp add: chiaki_takion_send_message_data_ack_def)
  next
    case (Inr kp)
    have ok: "takion_ok pf t1" using k by (simp add: keeps_def)
    have l: "mac_layout ([0] @ takion_write_message_header (tag_remote t1) kp 3 0 12 @ be32 s @ be32 (tk_a_rwnd t1) @
        be16 0 @ be16 0) 5 9" using control_layout by simp
    from send_keeps [OF l ok, of kp] keeps_trans [OF k] show ?thesis
      using a Inr by (auto simp: chiaki_takion_send_message_data_ack_def)
  qed
qed

lemma send_congestion_keeps:
  assumes "takion_ok pf t"
  shows "\<exists>t' err. chiaki_takion_send_congestion pf t p = Some (t', err) \<and> keeps pf t t'"
proof -
  obtain t1 r where a: "chiaki_takion_crypt_advance_key_pos t 15 = (t1, r)" by fastforce
  note k = advance_keeps [OF assms a]
  show ?thesis
  proof (cases r)
    case (Inl err)
    then show ?thesis using a k by (simp add: chiaki_takion_send_congestion_def)
  next
    case (Inr kp)
    have ok: "takion_ok pf t1" using k by (simp add: keeps_def)
    have l: "mac_layout (chiaki_takion_format_congestion p kp) 7 11"
      by (simp add: mac_layout_def chiaki_takion_format_congestion_def packet_base_type_def
          takion_packet_type_mac_offset_def takion_packet_type_key_pos_offset_def)
    from send_keeps [OF l ok, of kp] keeps_trans [OF k] show ?thesis
      using a Inr by (auto simp: chiaki_takion_send_congestion_def)
  qed
qed

lemma send_buffer_push_total:
  assumes "sb_wf sb"
  shows "\<exists>sb' x. chiaki_takion_send_buffer_push sb now s buf = Some (sb', x) \<and> sb_wf sb'"
  using push_cases [OF assms, where now_ms = now and s = s and buf = buf] assms
  by (cases "packets_count sb = packets_size sb"; cases "s \<in> set (sb_seqs sb)") (auto simp: sb_wf_def)

lemma send_data_chunk_keeps:
  assumes "takion_ok pf t"
  shows "\<exists>t' r. takion_send_data_chunk pf sub t fl ch buf = Some (t', r) \<and> keeps pf t t'"
proof -
  obtain t1 r where a: "chiaki_takion_crypt_advance_key_pos t (of_nat (length buf)) = (t1, r)" by fastforce
  note k = advance_keeps [OF assms a]
  show ?thesis
  proof (cases r)
    case (Inl err)
    then show ?thesis using a k by (simp add: takion_send_data_chunk_def)
  next
    case (Inr kp)
    let ?n = "1 + TAKION_MESSAGE_HEADER_SIZE + (8 + length sub) + length buf"
    show ?thesis
    proof (cases "pf_alloc pf (tk_out t1) ?n")
      case False
      then show ?thesis using a Inr k by (simp add: takion_send_data_chunk_def Let_def)
    next
      case True
      let ?t2 = "t1\<lparr>seq_num_local := seq_num_local t1 + 1\<rparr>"
      have k2: "keeps pf t ?t2" using k by (simp add: keeps_def takion_ok_def takion_frame_def)
      let ?p = "[0] @ takion_write_message_header (tag_remote t1) kp 0 fl (8 + length sub + length buf) @
          be32 (seq_num_local t1) @ be16 ch @ [0, 0] @ sub @ buf"
      have l: "mac_layout ?p 5 9" using control_layout by simp
      have ok: "takion_ok pf ?t2" using k2 by (simp add: keeps_def)
      obtain t3 b err where s: "chiaki_takion_send pf ?t2 ?p kp = Some (t3, b, err)" "keeps pf ?t2 t3"
        using send_keeps [OF l ok] by blast
      have "sb_wf (tk_send_buffer t3)" using s(2) by (simp add: keeps_def takion_ok_def)
      from send_buffer_push_total [OF this] obtain sb x where p:
        "chiaki_takion_send_buffer_push (tk_send_buffer t3) (pf_now pf (tk_out t3)) (seq_num_local t1) b = Some (sb, x)" "sb_wf sb"
        by blast
      have k3: "keeps pf t t3" using keeps_trans [OF k2 s(2)] .
      have k4: "keeps pf t (t3\<lparr>tk_send_buffer := sb\<rparr>)" using p(2) k3 by (simp add: keeps_def takion_ok_def takion_frame_def)
      show ?thesis
        using a Inr True s(1) p k3 k4 by (cases "err = CHIAKI_ERR_SUCCESS") (auto simp: takion_send_data_chunk_def Let_def)
    qed
  qed
qed

lemma client_calls_keeps: "takion_ok pf t \<Longrightarrow> \<exists>t'. client_calls pf t cs = Some t' \<and> keeps pf t t'"
proof (induction cs arbitrary: t)
  case Nil
  then show ?case by (simp add: keeps_def)
next
  case (Cons c cs)
  have step: "\<exists>t'. client_calls pf t1 cs = Some t' \<and> keeps pf t t'" if "keeps pf t t1" for t1
    using Cons.IH [of t1] keeps_trans [OF that] that by (auto simp: keeps_def)
  show ?case
  proof (cases c)
    case (Init_Crypt rl rr hk sec)
    obtain t1 err where "stream_connection_init_crypt pf rl rr hk sec t = Some (t1, err)" "keeps pf t t1"
      using init_crypt_keeps [OF Cons.prems] by blast
    then show ?thesis using Init_Crypt step by simp
  next
    case (Send_Data fl ch buf)
    obtain t1 r where "takion_send_data_chunk pf [0] t fl ch buf = Some (t1, r)" "keeps pf t t1"
      using send_data_chunk_keeps [OF Cons.prems] by blast
    then show ?thesis using Send_Data step by (simp add: chiaki_takion_send_message_data_def)
  next
    case (Send_Data_Cont fl ch buf)
    obtain t1 r where "takion_send_data_chunk pf [] t fl ch buf = Some (t1, r)" "keeps pf t t1"
      using send_data_chunk_keeps [OF Cons.prems] by blast
    then show ?thesis using Send_Data_Cont step by (simp add: chiaki_takion_send_message_data_cont_def)
  next
    case (Send_Congestion p)
    obtain t1 err where "chiaki_takion_send_congestion pf t p = Some (t1, err)" "keeps pf t t1"
      using send_congestion_keeps [OF Cons.prems] by blast
    then show ?thesis using Send_Congestion step by simp
  qed
qed

section \<open>The queue of data messages\<close>

text \<open>The entry of a data message (its payload starts after 17 bytes) and the event that it becomes.\<close>

definition data_entry :: "bytes \<Rightarrow> data_packet_entry" where
  "data_entry buf = \<lparr>packet_buf = buf, entry_type_b = 1, payload_at = 17, payload_size = length buf - 17,
     entry_channel = join16 (buf ! 21) (buf ! 22)\<rparr>"

definition data_event :: "bool \<Rightarrow> bytes \<Rightarrow> takion_event list" where
  "data_event has_cb buf =
     (if known_data_type (buf ! 25) \<and> has_cb then [EVENT_DATA (buf ! 25) (drop 26 buf)] else [])"

text \<open>The queue can hold the message \<open>m\<close> under the number \<open>s\<close>.\<close>

definition data_slots :: "bytes set \<Rightarrow> (u64 \<times> data_packet_entry) set" where
  "data_slots B = {(s, e). \<exists>m \<in> B. e = data_entry m \<and> 26 \<le> length m \<and> rd32 m 17 = Some (ucast s)}"

lemma ucast_ucast_u32 [simp]: "ucast (ucast s :: u64) = (s :: u32)"
  by (rule bit_word_eqI) (simp add: bit_simps)

definition head_missing :: "'e option list \<Rightarrow> bool" where
  "head_missing xs \<longleftrightarrow> (case xs of Some _ # _ \<Rightarrow> False | _ \<Rightarrow> True)"

text \<open>The queue between two messages, out of a set \<open>B\<close> of messages.\<close>

definition data_inv :: "bytes set \<Rightarrow> takion \<Rightarrow> u64 \<Rightarrow> data_packet_entry option list \<Rightarrow> bool" where
  "data_inv B t b xs \<longleftrightarrow> rep32 (data_queue t) b xs \<and> slots_from (data_slots B) b xs \<and> head_missing xs \<and>
     drop_strategy (data_queue t) = CHIAKI_REORDER_QUEUE_DROP_STRATEGY_END"

lemma slots_from_drop: "slots_from P b xs \<Longrightarrow> slots_from P (num32 b k) (drop k xs)"
  by (auto simp: slots_from_def num32_num32)

text \<open>The messages \<open>ms\<close> are out of \<open>B\<close> and numbered from \<open>b\<close> on.\<close>

definition numbered_from :: "bytes set \<Rightarrow> u64 \<Rightarrow> bytes list \<Rightarrow> bool" where
  "numbered_from B b ms \<longleftrightarrow> (\<forall>i<length ms. ms ! i \<in> B \<and> rd32 (ms ! i) 17 = Some (ucast (num32 b i)))"

lemma numbered_from_append:
  assumes "numbered_from B b ms" "numbered_from B (num32 b (length ms)) ms'"
  shows "numbered_from B b (ms @ ms')"
  unfolding numbered_from_def
proof (intro allI impI)
  fix i
  assume "i < length (ms @ ms')"
  then show "(ms @ ms') ! i \<in> B \<and> rd32 ((ms @ ms') ! i) 17 = Some (ucast (num32 b i))"
    using assms by (cases "i < length ms") (auto simp: numbered_from_def nth_append num32_num32 not_less)
qed

text \<open>The handler on one message of the wire, and on a sequence of them.\<close>

abbreviation handle_data :: "platform \<Rightarrow> takion_cb \<Rightarrow> takion \<Rightarrow> bytes \<Rightarrow> takion option" where
  "handle_data pf cb t m \<equiv> takion_handle_packet_message_data pf cb t m 1 (Some 17) (length m - 17)"

fun data_run :: "platform \<Rightarrow> takion_cb \<Rightarrow> takion \<Rightarrow> bytes list \<Rightarrow> takion option" where
  "data_run pf cb t [] = Some t"
| "data_run pf cb t (m # ms) = do { t \<leftarrow> handle_data pf cb t m; data_run pf cb t ms }"

text \<open>
  The contract of a callback: called on a state that is in order, it returns, and it leaves the
  queue and the list of events as they are.
\<close>

locale takion_client =
  fixes pf :: platform and cb :: takion_cb
  assumes client: "takion_ok pf t \<Longrightarrow> \<exists>t'. cb e t = Some t' \<and> keeps pf t t'"
begin

lemma event_keeps:
  assumes "takion_ok pf t"
  shows "\<exists>t'. takion_event_to cb t e = Some t' \<and> takion_ok pf t' \<and> data_queue t' = data_queue t \<and> tk_cb t' = tk_cb t \<and>
    events (tk_out t') = events (tk_out t) @ [e]"
proof -
  have "takion_ok pf (t\<lparr>tk_out := tk_out t @ [Event e]\<rparr>)" using assms by (simp add: takion_ok_def)
  from client [OF this, of e] show ?thesis
    by (auto simp: takion_event_to_def keeps_def takion_frame_def)
qed

lemma deliver_spec:
  assumes "takion_ok pf t" "26 \<le> length m"
  shows "\<exists>t'. deliver_entry cb t (data_entry m) = Some t' \<and> takion_ok pf t' \<and> data_queue t' = data_queue t \<and>
    tk_cb t' = tk_cb t \<and> events (tk_out t') = events (tk_out t) @ data_event (tk_cb t) m"
proof -
  have r: "rd16 m 23 = Some (join16 (m ! 23) (m ! 24))" "rd8 m 25 = Some (m ! 25)" "rd_n m 26 (length m - 26) = Some (drop 26 m)"
    using assms(2) by (simp_all add: buf_simps rd16_Some)
  show ?thesis
    using event_keeps [OF assms(1)] assms
    by (auto simp: deliver_entry_def data_entry_def data_event_def r)
qed

lemma ok_queue: "takion_ok pf t \<Longrightarrow> takion_ok pf (t\<lparr>data_queue := q\<rparr>)"
  by (simp add: takion_ok_def)

lemma pull_cases:
  assumes "rep32 q b xs"
  shows "\<exists>q'. chiaki_reorder_queue_pull q = Some (q', case xs of Some x # _ \<Rightarrow> Some (b, x) | _ \<Rightarrow> None) \<and>
    (case xs of Some x # ys \<Rightarrow> rep32 q' (num32 b 1) ys | _ \<Rightarrow> rep32 q' b xs) \<and> rq_conf q' = rq_conf q"
  using rq32.pull_refines [OF assms]
  by (cases xs; cases "hd xs") (auto simp: num32_def rq32.rep_bounds(3) split: option.splits)

text \<open>The loop delivers what is ready, from the start of the queue on.\<close>

lemma flush_data_loop_spec:
  assumes "rep32 (data_queue t) b xs" "slots_from (data_slots B) b xs" "takion_ok pf t"
  shows "\<exists>t' ms. flush_data_loop cb t acked = Some (t', if ms = [] then acked else Some (num32 b (length ms - 1))) \<and>
    rep32 (data_queue t') (num32 b (length ms)) (drop (length ms) xs) \<and> head_missing (drop (length ms) xs) \<and>
    takion_ok pf t' \<and> tk_cb t' = tk_cb t \<and> rq_conf (data_queue t') = rq_conf (data_queue t) \<and>
    events (tk_out t') = events (tk_out t) @ concat (map (data_event (tk_cb t)) ms) \<and>
    numbered_from B b ms"
  using assms unfolding numbered_from_def
proof (induction xs arbitrary: t b acked)
  case Nil
  obtain q where q: "chiaki_reorder_queue_pull (data_queue t) = Some (q, None)" "rep32 q b []"
      "rq_conf q = rq_conf (data_queue t)"
    using pull_cases [OF Nil.prems(1)] by auto
  have "flush_data_loop cb t acked = Some (t\<lparr>data_queue := q\<rparr>, acked)" using q(1) by (subst flush_data_loop.simps) simp
  then show ?case
    using q(2,3) ok_queue [OF Nil.prems(3)] num32_0 [OF rq32.rep_bounds(3) [OF Nil.prems(1)]]
    by (intro exI [of _ "t\<lparr>data_queue := q\<rparr>"] exI [of _ "[]"]) (simp add: head_missing_def)
next
  case (Cons x xs)
  have b: "num32 b 0 = b" by (rule num32_0 [OF rq32.rep_bounds(3) [OF Cons.prems(1)]])
  show ?case
  proof (cases x)
    case None
    obtain q where q: "chiaki_reorder_queue_pull (data_queue t) = Some (q, None)" "rep32 q b (None # xs)"
        "rq_conf q = rq_conf (data_queue t)"
      using pull_cases [OF Cons.prems(1)] None by auto
    have "flush_data_loop cb t acked = Some (t\<lparr>data_queue := q\<rparr>, acked)" using q(1) by (subst flush_data_loop.simps) simp
    then show ?thesis
      using q(2,3) ok_queue [OF Cons.prems(3)] b None
      by (intro exI [of _ "t\<lparr>data_queue := q\<rparr>"] exI [of _ "[]"]) (simp add: head_missing_def)
  next
    case (Some e)
    have "(num32 b 0, e) \<in> data_slots B" using Cons.prems(2) Some by (auto simp: slots_from_def)
    then obtain m where m: "e = data_entry m" "m \<in> B" "26 \<le> length m" "rd32 m 17 = Some (ucast b)"
      by (auto simp: data_slots_def b)
    obtain q where q: "chiaki_reorder_queue_pull (data_queue t) = Some (q, Some (b, data_entry m))" "rep32 q (num32 b 1) xs"
        "rq_conf q = rq_conf (data_queue t)"
      using pull_cases [OF Cons.prems(1)] Some m(1) by auto
    obtain t1 where t1: "deliver_entry cb (t\<lparr>data_queue := q\<rparr>) (data_entry m) = Some t1" "takion_ok pf t1" "data_queue t1 = q"
        "tk_cb t1 = tk_cb t" "events (tk_out t1) = events (tk_out t) @ data_event (tk_cb t) m"
      using deliver_spec [OF ok_queue [OF Cons.prems(3)] m(3), of q] by auto
    have "rep32 (data_queue t1) (num32 b 1) xs" using q(2) t1(3) by simp
    from Cons.IH [OF this slots_from_tl [OF Cons.prems(2)] t1(2), of "Some b"] obtain t2 ms where
      f: "flush_data_loop cb t1 (Some b) = Some (t2, if ms = [] then Some b else Some (num32 (num32 b 1) (length ms - 1)))"
        "rep32 (data_queue t2) (num32 (num32 b 1) (length ms)) (drop (length ms) xs)" "head_missing (drop (length ms) xs)"
        "takion_ok pf t2" "tk_cb t2 = tk_cb t1" "rq_conf (data_queue t2) = rq_conf (data_queue t1)"
        "events (tk_out t2) = events (tk_out t1) @ concat (map (data_event (tk_cb t1)) ms)"
        "\<forall>i<length ms. ms ! i \<in> B \<and> rd32 (ms ! i) 17 = Some (ucast (num32 (num32 b 1) i))" by blast
    have "(m # ms) ! i \<in> B \<and> rd32 ((m # ms) ! i) 17 = Some (ucast (num32 b i))" if "i < length (m # ms)" for i
      using that f(8) m(2,4) b by (cases i) (auto simp: num32_num32)
    moreover have "flush_data_loop cb t acked = Some (t2, Some (num32 b (length (m # ms) - 1)))"
      using q(1) t1(1) f(1) b by (subst flush_data_loop.simps) (cases ms, auto simp: num32_num32)
    ultimately show ?thesis
      using f(2-7) t1 q(3) by (intro exI [of _ t2] exI [of _ "m # ms"]) (simp add: num32_num32)
  qed
qed

text \<open>Where \<^verbatim>\<open>push\<close> aborts.\<close>

lemma push_antipode:
  assumes "rep32 q b xs" "drop_strategy q = CHIAKI_REORDER_QUEUE_DROP_STRATEGY_END"
  shows "chiaki_reorder_queue_push q (ucast (s :: u32)) e = None \<longleftrightarrow> xs = [] \<and> seq_off 32 b (ucast s) = 2 ^ 31"
proof -
  have "unat (ucast s :: u64) < 2 ^ 32" using unat_lt_exp [of s] by (simp add: unsigned_ucast_eq take_bit_nat_eq_self)
  from rq32.push_refines [OF assms(1) this, of e] show ?thesis
    using assms(2) by (auto simp: push_spec_def Let_def split: option.splits if_splits)
qed

lemma flush_spec:
  assumes "rep32 (data_queue t) b xs" "slots_from (data_slots B) b xs" "takion_ok pf t"
    "drop_strategy (data_queue t) = CHIAKI_REORDER_QUEUE_DROP_STRATEGY_END"
  shows "\<exists>t' ms xs'. takion_flush_data_queue pf cb t = Some t' \<and> data_inv B t' (num32 b (length ms)) xs' \<and>
    takion_ok pf t' \<and> tk_cb t' = tk_cb t \<and>
    events (tk_out t') = events (tk_out t) @ concat (map (data_event (tk_cb t)) ms) \<and> numbered_from B b ms"
proof -
  from flush_data_loop_spec [OF assms(1-3), of None] obtain t1 ms where
    f: "flush_data_loop cb t None = Some (t1, if ms = [] then None else Some (num32 b (length ms - 1)))"
      "rep32 (data_queue t1) (num32 b (length ms)) (drop (length ms) xs)" "head_missing (drop (length ms) xs)"
      "takion_ok pf t1" "tk_cb t1 = tk_cb t" "rq_conf (data_queue t1) = rq_conf (data_queue t)"
      "events (tk_out t1) = events (tk_out t) @ concat (map (data_event (tk_cb t)) ms)" "numbered_from B b ms" by blast
  have inv: "data_inv B t1 (num32 b (length ms)) (drop (length ms) xs)"
    using f(2,3,6) assms(4) slots_from_drop [OF assms(2)] by (simp add: data_inv_def rq_conf_def)
  show ?thesis
  proof (cases "ms = []")
    case True
    then show ?thesis
      using f inv by (intro exI [of _ t1] exI [of _ ms] exI [of _ "drop (length ms) xs"]) (simp add: takion_flush_data_queue_def)
  next
    case False
    obtain t2 err where a: "chiaki_takion_send_message_data_ack pf t1 (ucast (num32 b (length ms - 1))) = Some (t2, err)"
        "keeps pf t1 t2" using send_data_ack_keeps [OF f(4)] by blast
    then show ?thesis
      using f inv False
      by (intro exI [of _ t2] exI [of _ ms] exI [of _ "drop (length ms) xs"])
        (simp add: takion_flush_data_queue_def keeps_def takion_frame_def data_inv_def)
  qed
qed

lemma handle_data_spec:
  assumes "data_inv B t b xs" "takion_ok pf t" "m \<in> B"
  shows "if 26 \<le> length m \<and> pf_alloc pf (tk_out t) 48 \<and> xs = [] \<and>
      seq_off 32 b (ucast (join32 (join16 (m ! 17) (m ! 18)) (join16 (m ! 19) (m ! 20)))) = 2 ^ 31
    then handle_data pf cb t m = None
    else \<exists>t' ms xs'. handle_data pf cb t m = Some t' \<and> data_inv B t' (num32 b (length ms)) xs' \<and>
      takion_ok pf t' \<and> tk_cb t' = tk_cb t \<and>
      events (tk_out t') = events (tk_out t) @ concat (map (data_event (tk_cb t)) ms) \<and> numbered_from B b ms"
proof -
  have r: "rep32 (data_queue t) b xs" and sl: "slots_from (data_slots B) b xs" and hm: "head_missing xs"
    and st: "drop_strategy (data_queue t) = CHIAKI_REORDER_QUEUE_DROP_STRATEGY_END"
    using assms(1) by (simp_all add: data_inv_def)
  have b: "num32 b 0 = b" by (rule num32_0 [OF rq32.rep_bounds(3) [OF r]])
  show ?thesis
  proof (cases "26 \<le> length m \<and> pf_alloc pf (tk_out t) 48")
    case False
    then have "handle_data pf cb t m = Some t" by (auto simp: takion_handle_packet_message_data_def)
    then show ?thesis
      using False assms(1,2) b
      by (subst if_not_P) (auto intro!: exI [of _ "[]"] exI [of _ xs] simp: numbered_from_def)
  next
    case True
    let ?s = "join32 (join16 (m ! 17) (m ! 18)) (join16 (m ! 19) (m ! 20))"
    have rd: "rd32 m 17 = Some ?s" "rd16 m 21 = Some (join16 (m ! 21) (m ! 22))"
      using True by (simp_all add: rd32_Some rd16_Some)
    have len: "\<not> length m - 17 < 9" using True by linarith
    have h: "handle_data pf cb t m = do {
        (q, _) \<leftarrow> chiaki_reorder_queue_push (data_queue t) (ucast ?s) (data_entry m);
        takion_flush_data_queue pf cb (t\<lparr>data_queue := q\<rparr>) }"
      using True len by (simp add: takion_handle_packet_message_data_def rd data_entry_def)
    show ?thesis
    proof (cases "chiaki_reorder_queue_push (data_queue t) (ucast ?s) (data_entry m)")
      case None
      then show ?thesis using h push_antipode [OF r st, of ?s] True by simp
    next
      case (Some p)
      obtain q ds where p: "p = (q, ds)" by fastforce
      have s32: "unat (ucast ?s :: u64) < 2 ^ 32"
        using unat_lt_exp [of ?s] by (simp add: unsigned_ucast_eq take_bit_nat_eq_self)
      have "(ucast ?s, data_entry m) \<in> data_slots B"
        using True assms(3) rd(1) ucast_ucast_u32 [of ?s] unfolding data_slots_def by (intro CollectI case_prodI bexI [of _ m]) simp_all
      from push_end_slots [OF r s32 st Some [unfolded p] sl this] obtain xs1 where
        x: "rep32 q b xs1" "slots_from (data_slots B) b xs1" "drop_strategy q = drop_strategy (data_queue t)" by blast
      have nn: "\<not> (xs = [] \<and> seq_off 32 b (ucast ?s) = 2 ^ 31)" using push_antipode [OF r st, of ?s] Some by auto
      have c: "rep32 (data_queue (t\<lparr>data_queue := q\<rparr>)) b xs1" "drop_strategy (data_queue (t\<lparr>data_queue := q\<rparr>)) =
          CHIAKI_REORDER_QUEUE_DROP_STRATEGY_END" using x st by simp_all
      from flush_spec [OF c(1) x(2) ok_queue [OF assms(2)] c(2)] show ?thesis
        using h Some p nn True by auto
    qed
  qed
qed

lemma data_run_spec:
  assumes "data_inv B t b xs" "takion_ok pf t" "set bufs \<subseteq> B" "data_run pf cb t bufs = Some t'"
  shows "\<exists>ms xs'. data_inv B t' (num32 b (length ms)) xs' \<and>
    events (tk_out t') = events (tk_out t) @ concat (map (data_event (tk_cb t)) ms) \<and> numbered_from B b ms"
  using assms
proof (induction bufs arbitrary: t b xs)
  case Nil
  have "num32 b 0 = b" using Nil.prems(1) num32_0 rq32.rep_bounds(3) unfolding data_inv_def by blast
  then show ?case
    using Nil.prems by (intro exI [of _ "[]"] exI [of _ xs]) (simp add: numbered_from_def)
next
  case (Cons m bufs)
  obtain t1 where t1: "handle_data pf cb t m = Some t1" "data_run pf cb t1 bufs = Some t'"
    using Cons.prems(4) by (auto split: Option.bind_splits)
  have "m \<in> B" using Cons.prems(3) by simp
  from handle_data_spec [OF Cons.prems(1,2) this] t1(1) obtain ms xs1 where
    s: "data_inv B t1 (num32 b (length ms)) xs1" "takion_ok pf t1" "tk_cb t1 = tk_cb t"
      "events (tk_out t1) = events (tk_out t) @ concat (map (data_event (tk_cb t)) ms)" "numbered_from B b ms"
    by (auto split: if_splits)
  have "set bufs \<subseteq> B" using Cons.prems(3) by simp
  from Cons.IH [OF s(1,2) this t1(2)] obtain ms' xs' where
    r: "data_inv B t' (num32 (num32 b (length ms)) (length ms')) xs'"
      "events (tk_out t') = events (tk_out t1) @ concat (map (data_event (tk_cb t1)) ms')"
      "numbered_from B (num32 b (length ms)) ms'" by blast
  then show ?case
    using s numbered_from_append [OF s(5) r(3)]
    by (intro exI [of _ "ms @ ms'"] exI [of _ xs']) (simp add: num32_num32)
qed

end

text \<open>Every client that makes the calls above keeps the contract.\<close>

interpretation stream_client: takion_client pf "client_cb pf f" for pf f
  by unfold_locales (simp add: client_cb_def client_calls_keeps)

section \<open>Properties\<close>

lemma fresh_inv:
  assumes "data_queue t = chiaki_reorder_queue_set_drop_cb (fst (chiaki_reorder_queue_init_32 null True TAKION_REORDER_QUEUE_SIZE_EXP start)) True"
  shows "data_inv B t (ucast start) []"
proof -
  let ?q = "fst (chiaki_reorder_queue_init_32 null True TAKION_REORDER_QUEUE_SIZE_EXP start)"
  have slot: "rq_slot (?q\<lparr>drop_cb := True\<rparr>) = rq_slot ?q" by (simp add: rq_slot_def fun_eq_iff)
  have "rep32 (?q\<lparr>drop_cb := True\<rparr>) b xs" if "rep32 ?q b xs" for b xs
    using that slot by (auto simp: rq_rep_def rq_wf_def rq_window_def)
  then show ?thesis
    using init32_rep [of 4 null start] assms
    by (simp add: data_inv_def chiaki_reorder_queue_set_drop_cb_def slots_from_def head_missing_def)
qed

lemma ucast_num32: "ucast (num32 (ucast start) i) = (start :: u32) + of_nat i"
proof -
  have "unat (ucast start :: u64) = unat start" using unat_lt_exp [of start] by (simp add: unsigned_ucast_eq take_bit_nat_eq_self)
  then show ?thesis
    by (simp add: word_unat_eq_iff unsigned_ucast_eq take_bit_eq_mod unat_num32 unat_word_ariths unat_of_nat mod_simps)
qed

lemma seq_off_antipode:
  assumes "unat b < 2 ^ 32"
  shows "seq_off 32 b (ucast s) = 2 ^ 31 \<longleftrightarrow> s = (ucast b :: u32) + 2 ^ 31"
proof -
  have "unat (ucast s :: u64) < 2 ^ 32" using unat_lt_exp [of s] by (simp add: unsigned_ucast_eq take_bit_nat_eq_self)
  moreover note ucast_ucast_u32
  ultimately have "seq_off 32 b (ucast s) = unat (s - ucast b)"
    using seq_off_32 [OF assms, of "ucast s"] by (simp add: seq_dist_def)
  moreover have "unat (s - ucast b) = 2 ^ 31 \<longleftrightarrow> s - ucast b = 2 ^ 31"
    by (simp add: word_unat_eq_iff)
  ultimately show ?thesis by (auto simp: algebra_simps)
qed

text \<open>A data message of the given number and type, and a client that answers one of type 0.\<close>

definition sample_data :: "u32 \<Rightarrow> u8 \<Rightarrow> bytes" where
  "sample_data s ty = [0] @ replicate 16 0 @ be32 s @ [0, 1, 0, 0] @ [ty, 42]"

definition sample_client :: takion_cb where
  "sample_client = client_cb sample_platform
     (\<lambda>e _. case e of EVENT_DATA ty _ \<Rightarrow> if ty = 0 then [Send_Data 1 1 [1, 2]] else [] | _ \<Rightarrow> [])"

lemma sample_ok: "takion_ok sample_platform sample_takion"
  using sample_hyps sample_gcm_tag
  by (simp add: takion_ok_def) (simp add: sample_takion_def sb_wf_def sample_hmac_def SIZE_MAX_def)

lemma sample_data_fields: "length (sample_data s ty) = 27" "rd32 (sample_data s ty) 17 = Some s"
  by (simp_all add: sample_data_def msg_simps)

text \<open>
  C2: whatever data messages arrive, in whatever order, and whatever the client does in its
  callback (within its contract): the data events are those of messages that arrived, whose
  sequence numbers are the number agreed in the handshake and its successors, one after the
  other and without a gap or a repetition; and the message of the next number is not kept
  waiting: none is in the queue.
\<close>

theorem takion_data_in_order:
  assumes "takion_client pf cb" "takion_ok pf t"
    "data_queue t = chiaki_reorder_queue_set_drop_cb (fst (chiaki_reorder_queue_init_32 null True TAKION_REORDER_QUEUE_SIZE_EXP start)) True"
    "data_run pf cb t bufs = Some t'"
  shows "\<exists>ms xs. events (tk_out t') = events (tk_out t) @ concat (map (data_event (tk_cb t)) ms) \<and>
    (\<forall>i<length ms. ms ! i \<in> set bufs \<and> rd32 (ms ! i) 17 = Some (start + of_nat i)) \<and>
    rep32 (data_queue t') (num32 (ucast start) (length ms)) xs \<and> head_missing xs"
  using takion_client.data_run_spec [OF assms(1) fresh_inv [OF assms(3)] assms(2) subset_refl assms(4)]
  by (auto simp: numbered_from_def ucast_num32 data_inv_def)

theorem takion_data_in_order_witness:
  "map_option (\<lambda>t. events (tk_out t))
     (data_run sample_platform sample_client sample_takion [sample_data 8 7, sample_data 0x70 7, sample_data 7 0]) =
   Some [EVENT_DATA 0 [42], EVENT_DATA 7 [42]] \<and>
   (\<exists>ms. concat (map (data_event True) ms) = [EVENT_DATA 0 [42], EVENT_DATA 7 [42]] \<and>
     (\<forall>i<length ms. ms ! i \<in> {sample_data 8 7, sample_data 0x70 7, sample_data 7 0} \<and> rd32 (ms ! i) 17 = Some (7 + of_nat i)))"
proof -
  let ?ms = "[sample_data 8 7, sample_data 0x70 7, sample_data 7 0]"
  have r: "map_option (\<lambda>t. events (tk_out t)) (data_run sample_platform sample_client sample_takion ?ms) =
      Some [EVENT_DATA 0 [42], EVENT_DATA 7 [42]]" by code_simp
  then obtain t where t: "data_run sample_platform sample_client sample_takion ?ms = Some t"
      "events (tk_out t) = [EVENT_DATA 0 [42], EVENT_DATA 7 [42]]" by blast
  have f: "takion_client sample_platform sample_client" unfolding sample_client_def by (rule stream_client.takion_client_axioms)
  have s: "data_queue sample_takion = sample_queue16" "tk_cb sample_takion" "tk_out sample_takion = []"
    by (simp_all add: sample_takion_def)
  from takion_data_in_order [OF f sample_ok s(1) [unfolded sample_queue16_def] t(1)] show ?thesis
    using r t(2) s(2,3) by auto
qed

text \<open>
  C30: the handler of data messages returns, whatever the queue holds and whatever the client
  does: the loop that delivers what is ready ends. The one exception is the assertion of the
  queue, which fails when the queue is empty and the number of the message is \<open>2 ^ 31\<close> away
  from the number that is expected; any peer can make it fail.
\<close>

theorem takion_data_returns:
  assumes "takion_client pf cb" "takion_ok pf t" "data_inv UNIV t b xs"
  shows "takion_handle_packet_message_data pf cb t m 1 (Some 17) (length m - 17) = None \<longleftrightarrow>
    26 \<le> length m \<and> pf_alloc pf (tk_out t) 48 \<and> xs = [] \<and> rd32 m 17 = Some (ucast b + 2 ^ 31)"
proof -
  let ?s = "join32 (join16 (m ! 17) (m ! 18)) (join16 (m ! 19) (m ! 20))"
  have "unat b < 2 ^ 32" using assms(3) rq32.rep_bounds(3) unfolding data_inv_def by blast
  note o = seq_off_antipode [OF this, of ?s]
  have r: "26 \<le> length m \<Longrightarrow> rd32 m 17 = Some ?s" by (simp add: rd32_Some)
  note h = takion_client.handle_data_spec [OF assms(1,3,2) UNIV_I, of m]
  show ?thesis
  proof (cases "26 \<le> length m \<and> pf_alloc pf (tk_out t) 48 \<and> xs = [] \<and> seq_off 32 b (ucast ?s) = 2 ^ 31")
    case True
    then show ?thesis using h o r by simp
  next
    case False
    then obtain t' where "handle_data pf cb t m = Some t'" using h by (auto simp del: takion_client_def)
    then show ?thesis using False o r by auto
  qed
qed

theorem takion_data_returns_witness:
  "takion_handle_packet_message_data sample_platform sample_client sample_takion (sample_data 8 7) 1 (Some 17) 10 \<noteq> None \<and>
   takion_handle_packet_message_data sample_platform sample_client sample_takion (sample_data 0x80000007 7) 1 (Some 17) 10 = None"
proof -
  have f: "takion_client sample_platform sample_client" unfolding sample_client_def by (rule stream_client.takion_client_axioms)
  have "data_inv UNIV sample_takion (ucast (7 :: u32)) []"
    by (rule fresh_inv) (simp add: sample_takion_def sample_queue16_def)
  from takion_data_returns [OF f sample_ok this, of "sample_data 8 7"]
    takion_data_returns [OF f sample_ok this, of "sample_data 0x80000007 7"]
  show ?thesis by (simp add: sample_data_fields)
qed

end
