(* ===== verification/Packet_Stats.thy ===== *)
theory Packet_Stats
  imports Seq_Num
begin

text \<open>
  The packet statistics (\<^verbatim>\<open>lib/include/chiaki/packetstats.h\<close>, \<^verbatim>\<open>lib/src/packetstats.c\<close>). Packets
  that come in generations are counted by the caller. Sequential packets are counted here:
  \<open>seq_max\<close> is the furthest sequence number seen, \<open>seq_min\<close> the furthest one at the last reset,
  and the number of lost packets is estimated from their difference and the number received.
  The mutex of the struct is not modelled: each operation is one step.
\<close>

record packet_stats =
  gen_received :: u64
  gen_lost :: u64
  seq_min :: u16
  seq_max :: u16
  seq_received :: u64

definition chiaki_packet_stats_init :: "ChiakiErrorCode \<Rightarrow> packet_stats \<times> ChiakiErrorCode" where
  "chiaki_packet_stats_init mutex_err =
     (\<lparr>gen_received = 0, gen_lost = 0, seq_min = 0, seq_max = 0, seq_received = 0\<rparr>, mutex_err)"

definition chiaki_packet_stats_reset :: "packet_stats \<Rightarrow> packet_stats" where
  "chiaki_packet_stats_reset st =
     st\<lparr>gen_received := 0, gen_lost := 0, seq_min := seq_max st, seq_received := 0\<rparr>"

definition chiaki_packet_stats_push_generation :: "packet_stats \<Rightarrow> u64 \<Rightarrow> u64 \<Rightarrow> packet_stats" where
  "chiaki_packet_stats_push_generation st received lost =
     st\<lparr>gen_received := gen_received st + received, gen_lost := gen_lost st + lost\<rparr>"

definition chiaki_packet_stats_push_seq :: "packet_stats \<Rightarrow> u16 \<Rightarrow> packet_stats" where
  "chiaki_packet_stats_push_seq st seq_num =
     (let st = st\<lparr>seq_received := seq_received st + 1\<rparr>
      in if chiaki_seq_num_16_gt seq_num (seq_max st) then st\<lparr>seq_max := seq_num\<rparr> else st)"

text \<open>
  Both operands of \<^verbatim>\<open>seq_max - seq_min\<close> are promoted to \<^verbatim>\<open>int\<close>; the difference, which may be
  negative, is then converted to 64 bits.
\<close>

definition stats_seq_diff :: "packet_stats \<Rightarrow> u64" where
  "stats_seq_diff st = of_int (uint (seq_max st) - uint (seq_min st))"

definition chiaki_packet_stats_get :: "packet_stats \<Rightarrow> bool \<Rightarrow> packet_stats \<times> u64 \<times> u64" where
  "chiaki_packet_stats_get st reset =
     (let seq_diff = stats_seq_diff st;
          seq_lost = (if seq_received st > seq_diff then seq_diff else seq_diff - seq_received st)
      in (if reset then chiaki_packet_stats_reset st else st,
          gen_received st + seq_received st, gen_lost st + seq_lost))"

section \<open>What the counters hold\<close>

text \<open>The distance from \<open>m\<close> to the furthest of the numbers \<open>ss\<close>, 0 when there is none.\<close>

definition furthest :: "u16 \<Rightarrow> u16 list \<Rightarrow> nat" where
  "furthest m ss = Max (insert 0 (seq_dist m ` set ss))"

lemma furthest_Nil [simp]: "furthest m [] = 0"
  by (simp add: furthest_def)

lemma furthest_snoc [simp]: "furthest m (ss @ [s]) = max (seq_dist m s) (furthest m ss)"
proof -
  have "insert 0 (seq_dist m ` set (ss @ [s])) = insert (seq_dist m s) (insert 0 (seq_dist m ` set ss))"
    by auto
  then show ?thesis by (simp add: furthest_def)
qed

lemma furthest_less: "0 < n \<Longrightarrow> \<forall>s \<in> set ss. seq_dist m s < n \<Longrightarrow> furthest m ss < n"
  by (simp add: furthest_def)

text \<open>The state after a reset, with \<open>m\<close> the furthest number at that point, and \<open>ss\<close> received since.\<close>

definition stats_after :: "u16 \<Rightarrow> u16 list \<Rightarrow> packet_stats \<Rightarrow> bool" where
  "stats_after m ss st \<longleftrightarrow> seq_min st = m \<and> seq_received st = of_nat (length ss) \<and>
     seq_dist m (seq_max st) = furthest m ss"

lemma stats_after_reset: "stats_after (seq_max st) [] (chiaki_packet_stats_reset st)"
  by (simp add: stats_after_def chiaki_packet_stats_reset_def)

lemma stats_after_push:
  assumes "stats_after m ss st" "\<forall>s \<in> set ss. seq_dist m s < 2 ^ 15" "seq_dist m s < 2 ^ 15"
  shows "stats_after m (ss @ [s]) (chiaki_packet_stats_push_seq st s)"
proof -
  have "furthest m ss < 2 ^ 15" using assms(2) by (intro furthest_less) simp_all
  then have "chiaki_seq_num_16_gt s (seq_max st) \<longleftrightarrow> furthest m ss < seq_dist m s"
    using assms(1,3) by (simp add: seq_num_gt_lt seq_num_lt_window [of m] stats_after_def)
  then show ?thesis
    using assms(1) by (simp add: stats_after_def chiaki_packet_stats_push_seq_def Let_def max_def)
qed

lemma stats_after_pushes:
  assumes "\<forall>s \<in> set ss. seq_dist (seq_max st) s < 2 ^ 15"
  shows "stats_after (seq_max st) ss (foldl chiaki_packet_stats_push_seq (chiaki_packet_stats_reset st) ss)"
  using assms
proof (induction ss rule: rev_induct)
  case (snoc s ss)
  then show ?case by (simp only: foldl_append foldl.simps) (intro stats_after_push, simp_all)
qed (simp add: stats_after_reset)

lemma push_seq_gen:
  "gen_received (foldl chiaki_packet_stats_push_seq st ss) = gen_received st \<and>
   gen_lost (foldl chiaki_packet_stats_push_seq st ss) = gen_lost st"
  by (induction ss rule: rev_induct) (simp_all add: chiaki_packet_stats_push_seq_def Let_def)

lemma stats_seq_diff_dist:
  assumes "seq_min st \<le> seq_max st"
  shows "unat (stats_seq_diff st) = seq_dist (seq_min st) (seq_max st)"
proof -
  have "int (seq_dist (seq_min st) (seq_max st)) = uint (seq_max st) - uint (seq_min st)"
    using assms by (simp add: seq_dist_int word_le_def)
  then have "stats_seq_diff st = of_nat (seq_dist (seq_min st) (seq_max st))"
    by (metis stats_seq_diff_def of_int_of_nat_eq)
  moreover have "seq_dist (seq_min st) (seq_max st) < 2 ^ 64"
    using seq_dist_bound [of "seq_min st" "seq_max st"] by simp
  ultimately show ?thesis using unat_of_nat_small [where 'a = 64, of "seq_dist (seq_min st) (seq_max st)"] by simp
qed

section \<open>Properties\<close>

text \<open>
  After a reset, when the numbers received lie less than half the number space ahead of the
  furthest number seen before, and the furthest number seen is not below it as an integer,
  \<^verbatim>\<open>get\<close> returns the number of packets received, and, unless more packets arrived than numbers
  were passed, as lost the numbers passed minus the packets received: together they make up
  the distance from the old to the new furthest number. The order of arrival does not matter.
\<close>

theorem packet_stats_lost_count:
  assumes "\<forall>s \<in> set ss. seq_dist (seq_max st) s < 2 ^ 15"
    and "st' = foldl chiaki_packet_stats_push_seq (chiaki_packet_stats_reset st) ss"
    and "seq_max st \<le> seq_max st'"
    and "d = furthest (seq_max st) ss" "length ss \<le> d"
  shows "snd (chiaki_packet_stats_get st' r) = (of_nat (length ss), of_nat (d - length ss))"
proof -
  have a: "stats_after (seq_max st) ss st'" using stats_after_pushes [OF assms(1)] assms(2) by simp
  then have ud: "unat (stats_seq_diff st') = d"
    using stats_seq_diff_dist [of st'] assms(3,4) by (simp add: stats_after_def)
  have small: "d < 2 ^ 15" using assms(1,4) by (simp add: furthest_less)
  then have diff: "stats_seq_diff st' = of_nat d" using ud by (simp add: word_unat_eq_iff unat_of_nat_small)
  have "\<not> (of_nat d :: u64) < of_nat (length ss)"
    using assms(5) small by (simp add: word_less_nat_alt unat_of_nat_small)
  then show ?thesis
    using a assms(5) push_seq_gen [of "chiaki_packet_stats_reset st" ss] assms(2) diff
    by (simp add: chiaki_packet_stats_get_def Let_def stats_after_def of_nat_diff
        chiaki_packet_stats_reset_def)
qed

theorem packet_stats_lost_count_witness:
  "snd (chiaki_packet_stats_get (foldl chiaki_packet_stats_push_seq
     (chiaki_packet_stats_reset (fst (chiaki_packet_stats_init CHIAKI_ERR_SUCCESS))) [4, 1, 6]) False) = (3, 3)"
proof -
  let ?st = "fst (chiaki_packet_stats_init CHIAKI_ERR_SUCCESS)"
  have "seq_max ?st = 0" by (simp add: chiaki_packet_stats_init_def)
  moreover have "furthest 0 [4, 1, 6] = 6" by (simp add: furthest_def seq_dist_def)
  ultimately show ?thesis
    using packet_stats_lost_count [of "[4, 1, 6]" ?st, OF _ refl _ refl, of False] by (simp add: seq_dist_def)
qed

text \<open>
  The count of lost packets is wrong when the sequence numbers wrap around. The two
  packets 65535 and 0 arrive without a gap after 65534, and 18446744073709486078 packets are
  reported lost: the difference of the 16 bit numbers is computed in 32 bits, and a negative
  one becomes a 64 bit number near the end of the range.
\<close>

theorem packet_stats_wrap_reports_loss:
  "snd (chiaki_packet_stats_get (foldl chiaki_packet_stats_push_seq
     \<lparr>gen_received = 0, gen_lost = 0, seq_min = 0xfffe, seq_max = 0xfffe, seq_received = 0\<rparr> [0xffff, 0]) False)
   = (2, 18446744073709486080)"
  by code_simp

end
