(* ===== verification/Audio.thy ===== *)
theory Audio
  imports Takion Packet_Stats
begin

text \<open>
  Audio (\<^verbatim>\<open>lib/src/audio.c\<close>, \<^verbatim>\<open>lib/src/audioreceiver.c\<close>, \<^verbatim>\<open>lib/src/audiosender.c\<close> with their
  headers) and the congestion control (\<^verbatim>\<open>lib/src/congestioncontrol.c\<close>). The sinks of the session
  are callbacks of the application; what they are given is the trace that the receiver returns.
\<close>

section \<open>The audio header\<close>

record audio_header =
  ah_channels :: u8
  ah_bits :: u8
  ah_rate :: u32
  ah_frame_size :: u32
  ah_unknown :: u32

abbreviation (input) CHIAKI_AUDIO_HEADER_SIZE :: nat where "CHIAKI_AUDIO_HEADER_SIZE \<equiv> 0xe"

definition chiaki_audio_header_load :: "bytes \<Rightarrow> audio_header option" where
  "chiaki_audio_header_load buf = do {
     channels \<leftarrow> rd8 buf 0;
     bits \<leftarrow> rd8 buf 1;
     rate \<leftarrow> rd32 buf 2;
     frame_size \<leftarrow> rd32 buf 6;
     unknown \<leftarrow> rd32 buf 0xa;
     Some \<lparr>ah_channels = channels, ah_bits = bits, ah_rate = rate, ah_frame_size = frame_size, ah_unknown = unknown\<rparr>
   }"

definition chiaki_audio_header_save :: "audio_header \<Rightarrow> bytes \<Rightarrow> bytes option" where
  "chiaki_audio_header_save h buf = do {
     buf \<leftarrow> wr buf 0 [ah_bits h];
     buf \<leftarrow> wr buf 1 [ah_channels h];
     buf \<leftarrow> wr buf 2 (be32 (ah_rate h));
     buf \<leftarrow> wr buf 6 (be32 (ah_frame_size h));
     wr buf 0xa (be32 (ah_unknown h))
   }"

definition chiaki_audio_header_set :: "u8 \<Rightarrow> u8 \<Rightarrow> u32 \<Rightarrow> u32 \<Rightarrow> audio_header" where
  "chiaki_audio_header_set channels bits rate frame_size =
     \<lparr>ah_channels = channels, ah_bits = bits, ah_rate = rate, ah_frame_size = frame_size, ah_unknown = 1\<rparr>"

text \<open>The first product is one of 32 bits.\<close>

definition chiaki_audio_header_frame_buf_size :: "audio_header \<Rightarrow> u64" where
  "chiaki_audio_header_frame_buf_size h = ucast (ah_frame_size h * ucast (ah_channels h)) * 2"

section \<open>The receiver\<close>

record audio_sinks =
  sink_header_cb :: bool
  sink_frame_cb :: bool
  sink_haptics_cb :: bool

datatype audio_out =
    Header_To_Sink audio_header
  | Frame_To_Sink bytes
  | Haptics_To_Sink bytes

record audio_receiver =
  frame_index_prev :: u16
  frame_index_startup :: bool

definition chiaki_audio_receiver_init :: "ChiakiErrorCode \<Rightarrow> audio_receiver \<times> ChiakiErrorCode" where
  "chiaki_audio_receiver_init mutex_err = (\<lparr>frame_index_prev = 0, frame_index_startup = True\<rparr>, mutex_err)"

definition chiaki_audio_receiver_stream_info :: "audio_sinks \<Rightarrow> audio_header \<Rightarrow> audio_out list" where
  "chiaki_audio_receiver_stream_info sinks h = (if sink_header_cb sinks then [Header_To_Sink h] else [])"

definition chiaki_audio_receiver_frame ::
  "audio_sinks \<Rightarrow> audio_receiver \<Rightarrow> u16 \<Rightarrow> bool \<Rightarrow> bytes \<Rightarrow> audio_receiver \<times> audio_out list" where
  "chiaki_audio_receiver_frame sinks ar frame_index haptics buf =
     (if \<not> chiaki_seq_num_16_gt frame_index (frame_index_prev ar) then (ar, [])
      else
        (ar\<lparr>frame_index_prev := frame_index\<rparr>,
         if haptics \<and> sink_haptics_cb sinks then [Haptics_To_Sink buf]
         else if \<not> haptics \<and> sink_frame_cb sinks then [Frame_To_Sink buf]
         else []))"

text \<open>
  The frame index of unit \<open>i\<close> of a packet; \<open>None\<close> for a unit that is skipped at the start of a
  stream. The sums are computed in 64 bits, the index is truncated to 16.
\<close>

definition audio_unit_index :: "bool \<Rightarrow> av_packet \<Rightarrow> nat \<Rightarrow> u16 option" where
  "audio_unit_index startup packet i =
     (let source = unat (audio_source_units_count packet); fec = unat (audio_fec_units_count packet)
      in if i < source then Some (av_frame_index packet + of_nat i)
         else
           let fec_index = i - source
           in if startup \<and> unat (av_frame_index packet) + fec_index < fec + 1 then None
              else Some (av_frame_index packet - of_nat fec + of_nat fec_index))"

fun audio_units_loop ::
  "audio_sinks \<Rightarrow> av_packet \<Rightarrow> audio_receiver \<Rightarrow> nat \<Rightarrow> nat \<Rightarrow> audio_out list \<Rightarrow> (audio_receiver \<times> audio_out list) option" where
  "audio_units_loop sinks packet ar i 0 out = Some (ar, out)"
| "audio_units_loop sinks packet ar i (Suc n) out =
     (case audio_unit_index (frame_index_startup ar) packet i of
        None \<Rightarrow> audio_units_loop sinks packet ar (i + 1) n out
      | Some frame_index \<Rightarrow> do {
          let unit_size = unat (audio_unit_size packet);
          buf \<leftarrow> rd_n (av_data packet) (unit_size * i) unit_size;
          let (ar, o1) = chiaki_audio_receiver_frame sinks ar frame_index (is_haptics packet) buf;
          audio_units_loop sinks packet ar (i + 1) n (out @ o1)
        })"

definition chiaki_audio_receiver_av_packet ::
  "audio_sinks \<Rightarrow> audio_receiver \<Rightarrow> packet_stats option \<Rightarrow> av_packet \<Rightarrow>
   (audio_receiver \<times> packet_stats option \<times> audio_out list) option" where
  "chiaki_audio_receiver_av_packet sinks ar stats packet =
     (let source = unat (audio_source_units_count packet); fec = unat (audio_fec_units_count packet);
          unit_size = unat (audio_unit_size packet); total = unat (units_in_frame_total packet)
      in if av_codec packet \<noteq> 5 then Some (ar, stats, [])
         else if av_data_size packet = 0 then Some (ar, stats, [])
         else if fec + source \<noteq> total then Some (ar, stats, [])
         else if unat (av_data_size packet) \<noteq> unit_size * total then Some (ar, stats, [])
         else do {
           let ar = (if av_frame_index packet > 0x8000 then ar\<lparr>frame_index_startup := False\<rparr> else ar);
           (ar, out) \<leftarrow> audio_units_loop sinks packet ar 0 (source + fec) [];
           Some (ar, map_option (\<lambda>st. chiaki_packet_stats_push_seq st (av_frame_index packet)) stats, out)
         })"

section \<open>The sender\<close>

record audio_sender =
  as_ps5 :: bool
  as_frame_index :: u16
  as_buf_size_per_unit :: nat
  as_buf_stride_per_unit :: nat
  as_framea :: "bytes option"
  as_frameb :: "bytes option"
  as_frame_buf :: "bytes option"
  as_filled_packet_buf :: "bytes option"

text \<open>\<open>alloc\<close> gives the memory that \<^verbatim>\<open>malloc\<close> returns for a size.\<close>

definition chiaki_audio_sender_init ::
  "(nat \<Rightarrow> bytes option) \<Rightarrow> ChiakiErrorCode \<Rightarrow> bool \<Rightarrow> audio_sender \<times> ChiakiErrorCode" where
  "chiaki_audio_sender_init alloc mutex_err ps5 =
     (let as = \<lparr>as_ps5 = ps5, as_frame_index = 0, as_buf_size_per_unit = 40,
            as_buf_stride_per_unit = ((40 + 0xf) div 0x10) * 0x10, as_framea = None, as_frameb = None,
            as_frame_buf = alloc (3 * 40), as_filled_packet_buf = None\<rparr>
      in if as_frame_buf as = None then (as, CHIAKI_ERR_MEMORY)
         else
           let as = as\<lparr>as_filled_packet_buf := alloc (3 * 40 + 20)\<rparr>
           in if as_filled_packet_buf as = None then (as, CHIAKI_ERR_MEMORY) else (as, mutex_err))"

text \<open>The result of sending the packet is ignored.\<close>

definition chiaki_audio_sender_frame ::
  "platform \<Rightarrow> audio_sender \<Rightarrow> takion \<Rightarrow> bytes \<Rightarrow> (audio_sender \<times> takion) option" where
  "chiaki_audio_sender_frame pf as t buf = do {
     (t, _) \<leftarrow> chiaki_takion_send_mic_packet pf t buf (as_ps5 as);
     Some (as\<lparr>as_frame_index := (if as_frame_index as = 0xffff then 0 else as_frame_index as + 1)\<rparr>, t)
   }"

text \<open>The header of the packet; the unit counts are constants.\<close>

definition audio_packet_fill :: "audio_sender \<Rightarrow> bytes \<Rightarrow> bytes \<Rightarrow> bytes option" where
  "audio_packet_fill as frames buf = do {
     let units_number = (10273 AND 0xffff) OR push_bit 0x10 ((3 - 1) AND 0xff) OR push_bit 0x18 (0 AND 0xff);
     buf \<leftarrow> wr buf 0 [3];
     buf \<leftarrow> wr buf 1 (be16 (as_frame_index as));
     buf \<leftarrow> wr buf 3 (be16 (as_frame_index as + 1));
     buf \<leftarrow> wr buf 5 (be32 units_number);
     buf \<leftarrow> wr buf 9 [5];
     buf \<leftarrow> wr buf 10 (be32 0);
     buf \<leftarrow> wr buf 14 (be32 0);
     buf \<leftarrow> wr buf 18 [0];
     buf \<leftarrow> (if as_ps5 as then wr buf 19 [0] else Some buf);
     wr buf (19 + (if as_ps5 as then 1 else 0)) frames
   }"

text \<open>
  A unit of audio data. The first two units fill \<open>as_frameb\<close> and \<open>as_framea\<close>. Then every unit is
  sent; the copies are in the order of the code.
\<close>

definition chiaki_audio_sender_opus_data ::
  "platform \<Rightarrow> (nat \<Rightarrow> bytes option) \<Rightarrow> audio_sender \<Rightarrow> takion \<Rightarrow> bytes \<Rightarrow> (audio_sender \<times> takion) option" where
  "chiaki_audio_sender_opus_data pf alloc as t opus =
     (let n = as_buf_size_per_unit as
      in if length opus \<noteq> n then Some (as, t)
         else case as_frameb as of
           None \<Rightarrow> (case alloc n of None \<Rightarrow> Some (as, t)
             | Some b \<Rightarrow> do { b \<leftarrow> wr b 0 opus; Some (as\<lparr>as_frameb := Some b\<rparr>, t) })
         | Some frameb \<Rightarrow> (case as_framea as of
             None \<Rightarrow> (case alloc n of None \<Rightarrow> Some (as, t)
               | Some a \<Rightarrow> do { a \<leftarrow> wr a 0 opus; Some (as\<lparr>as_framea := Some a\<rparr>, t) })
           | Some framea \<Rightarrow> do {
               buf \<leftarrow> as_frame_buf as;
               b \<leftarrow> rd_n frameb 0 n;
               buf \<leftarrow> wr buf 0 b;
               a \<leftarrow> rd_n framea 0 n;
               buf \<leftarrow> wr buf n a;
               buf \<leftarrow> wr buf (2 * n) opus;
               buf \<leftarrow> wr buf 0 opus;
               framea \<leftarrow> wr framea 0 opus;
               a \<leftarrow> rd_n framea 0 n;
               frameb \<leftarrow> wr frameb 0 a;
               let as = as\<lparr>as_frame_buf := Some buf, as_framea := Some framea, as_frameb := Some frameb\<rparr>;
               filled \<leftarrow> as_filled_packet_buf as;
               filled \<leftarrow> audio_packet_fill as buf filled;
               let as = as\<lparr>as_filled_packet_buf := Some filled\<rparr>;
               chiaki_audio_sender_frame pf as t (take (length buf + 19 + (if as_ps5 as then 1 else 0)) filled)
             }))"

section \<open>Congestion control\<close>

record congestion_control =
  cc_stats :: packet_stats
  cc_packet_loss :: real
  cc_packet_loss_max :: real

text \<open>
  One round of the thread, after a wait that timed out. \<open>rndd\<close> rounds the result of an operation on
  doubles, the conversion of an integer included. Both numbers are truncated to 16 bits.
\<close>

definition congestion_report :: "(real \<Rightarrow> real) \<Rightarrow> real \<Rightarrow> u64 \<Rightarrow> u64 \<Rightarrow> (real \<times> u64 \<times> u64) option" where
  "congestion_report rndd loss_max received lost =
     (let total = received + lost;
          loss = (if total > 0 then rndd (rndd (of_nat (unat lost)) / rndd (of_nat (unat total))) else 0)
      in if loss > loss_max then do {
           l \<leftarrow> float_to_nat 64 (rndd (rndd (of_nat (unat total)) * loss_max));
           Some (loss, total - of_nat l, of_nat l)
         }
         else Some (loss, received, lost))"

definition congestion_control_round ::
  "platform \<Rightarrow> congestion_control \<Rightarrow> takion \<Rightarrow> (congestion_control \<times> takion) option" where
  "congestion_control_round pf cc t = do {
     let (stats, received, lost) = chiaki_packet_stats_get (cc_stats cc) True;
     (loss, received, lost) \<leftarrow> congestion_report (pf_rndd pf) (cc_packet_loss_max cc) received lost;
     (t, _) \<leftarrow> chiaki_takion_send_congestion pf t
       \<lparr>word_0 = 0, cg_received = ucast received, cg_lost = ucast lost\<rparr>;
     Some (cc\<lparr>cc_stats := stats, cc_packet_loss := loss\<rparr>, t)
   }"

text \<open>The thread: the results of its waits, and what others did to the statistics during each.\<close>

fun congestion_control_thread_func ::
  "platform \<Rightarrow> congestion_control \<Rightarrow> takion \<Rightarrow> (ChiakiErrorCode \<times> (packet_stats \<Rightarrow> packet_stats)) list \<Rightarrow>
   (congestion_control \<times> takion) option" where
  "congestion_control_thread_func pf cc t [] = Some (cc, t)"
| "congestion_control_thread_func pf cc t ((err, pushes) # ws) =
     (let cc = cc\<lparr>cc_stats := pushes (cc_stats cc)\<rparr>
      in if err \<noteq> CHIAKI_ERR_TIMEOUT then Some (cc, t)
         else do {
           (cc, t) \<leftarrow> congestion_control_round pf cc t;
           congestion_control_thread_func pf cc t ws
         })"

definition chiaki_congestion_control_start ::
  "packet_stats \<Rightarrow> real \<Rightarrow> ChiakiErrorCode \<Rightarrow> ChiakiErrorCode \<Rightarrow> congestion_control \<times> ChiakiErrorCode" where
  "chiaki_congestion_control_start stats loss_max cond_err thread_err =
     (\<lparr>cc_stats = stats, cc_packet_loss = 0, cc_packet_loss_max = loss_max\<rparr>,
      if cond_err \<noteq> CHIAKI_ERR_SUCCESS then cond_err else thread_err)"

end
