(* ===== verification/Audio_Props.thy ===== *)
theory Audio_Props
  imports Audio Takion_Props
begin

text \<open>
  Audio: the order of the frames that reach the sinks, the header and the units that the
  sender repeats.
\<close>

section \<open>The receiver\<close>

text \<open>\<open>(k, o)\<close>: the unit \<open>i\<close> of packet \<open>p\<close> has the frame index \<open>k\<close> and goes to its sink as \<open>o\<close>.\<close>

definition unit_out :: "av_packet \<Rightarrow> nat \<Rightarrow> audio_out" where
  "unit_out p i =
     (let n = unat (audio_unit_size p); b = take n (drop (n * i) (av_data p))
      in if is_haptics p then Haptics_To_Sink b else Frame_To_Sink b)"

definition packet_units :: "av_packet \<Rightarrow> (u16 \<times> audio_out) set" where
  "packet_units p = {(k, unit_out p i) | k i. i < unat (units_in_frame_total p) \<and> (\<exists>startup. audio_unit_index startup p i = Some k)}"

abbreviation gt16_chain :: "u16 \<Rightarrow> (u16 \<times> audio_out) list \<Rightarrow> bool" where
  "gt16_chain k kos \<equiv> successively (\<lambda>a b. chiaki_seq_num_16_gt b a) (k # map fst kos)"

lemma gt16_chain_append:
  "gt16_chain k xs \<Longrightarrow> gt16_chain (last (k # map fst xs)) ys \<Longrightarrow> gt16_chain k (xs @ ys)"
  by (induction xs arbitrary: k) (auto simp: successively_Cons)

lemma audio_units_loop_spec:
  assumes "i + n \<le> unat (units_in_frame_total p)" "sink_frame_cb sinks" "sink_haptics_cb sinks"
    and "unat (audio_unit_size p) * unat (units_in_frame_total p) \<le> length (av_data p)"
  shows "\<exists>ar' kos. audio_units_loop sinks p ar i n out = Some (ar', out @ map snd kos) \<and>
    gt16_chain (frame_index_prev ar) kos \<and> set kos \<subseteq> packet_units p \<and>
    frame_index_prev ar' = last (frame_index_prev ar # map fst kos)"
  using assms(1)
proof (induction n arbitrary: i ar out)
  case 0
  then show ?case by (intro exI [of _ ar] exI [of _ "[]"]) simp
next
  case (Suc n)
  let ?u = "unat (audio_unit_size p)"
  show ?case
  proof (cases "audio_unit_index (frame_index_startup ar) p i")
    case None
    then show ?thesis using Suc.IH [of "i + 1" ar out] Suc.prems by simp
  next
    case (Some k)
    have "?u * Suc i \<le> ?u * unat (units_in_frame_total p)" using Suc.prems by (intro mult_le_mono2) simp
    then have "?u * i + ?u \<le> length (av_data p)" using assms(4) by simp
    then have r: "rd_n (av_data p) (?u * i) ?u = Some (take ?u (drop (?u * i) (av_data p)))" by (rule rd_n_Some)
    have mem: "(k, unit_out p i) \<in> packet_units p"
      using Some Suc.prems by (auto simp: packet_units_def)
    show ?thesis
    proof (cases "chiaki_seq_num_16_gt k (frame_index_prev ar)")
      case False
      then show ?thesis
        using Suc.IH [of "i + 1" ar out] Suc.prems Some r by (simp add: chiaki_audio_receiver_frame_def)
    next
      case True
      let ?ar = "ar\<lparr>frame_index_prev := k\<rparr>"
      from Suc.IH [of "i + 1" ?ar "out @ [unit_out p i]"] Suc.prems obtain ar' kos where
        ih: "audio_units_loop sinks p ?ar (i + 1) n (out @ [unit_out p i]) = Some (ar', (out @ [unit_out p i]) @ map snd kos)"
          "gt16_chain k kos" "set kos \<subseteq> packet_units p" "frame_index_prev ar' = last (k # map fst kos)" by auto
      have "audio_units_loop sinks p ar i (Suc n) out = Some (ar', out @ map snd ((k, unit_out p i) # kos))"
        using ih(1) Some r True assms(2,3)
        by (cases "is_haptics p") (simp_all add: chiaki_audio_receiver_frame_def unit_out_def Let_def)
      then show ?thesis
        using ih(2-4) True mem by (intro exI [of _ ar'] exI [of _ "(k, unit_out p i) # kos"]) simp
    qed
  qed
qed

lemma audio_packet_spec:
  assumes "unat (av_data_size p) = length (av_data p)" "sink_frame_cb sinks" "sink_haptics_cb sinks"
  shows "\<exists>ar' st' kos. chiaki_audio_receiver_av_packet sinks ar st p = Some (ar', st', map snd kos) \<and>
    gt16_chain (frame_index_prev ar) kos \<and> set kos \<subseteq> packet_units p \<and>
    frame_index_prev ar' = last (frame_index_prev ar # map fst kos)"
proof (cases "av_codec p \<noteq> 5 \<or> av_data_size p = 0 \<or>
    unat (audio_fec_units_count p) + unat (audio_source_units_count p) \<noteq> unat (units_in_frame_total p) \<or>
    unat (av_data_size p) \<noteq> unat (audio_unit_size p) * unat (units_in_frame_total p)")
  case True
  then show ?thesis
    by (intro exI [of _ ar] exI [of _ st] exI [of _ "[]"]) (auto simp: chiaki_audio_receiver_av_packet_def Let_def)
next
  case False
  let ?ar = "if av_frame_index p > 0x8000 then ar\<lparr>frame_index_startup := False\<rparr> else ar"
  let ?n = "unat (audio_source_units_count p) + unat (audio_fec_units_count p)"
  have prev: "frame_index_prev ?ar = frame_index_prev ar" by simp
  have n: "0 + ?n \<le> unat (units_in_frame_total p)"
      "unat (audio_unit_size p) * unat (units_in_frame_total p) \<le> length (av_data p)" using False assms(1) by auto
  from audio_units_loop_spec [OF n(1) assms(2,3) n(2), of ?ar "[]"] obtain ar' kos where
    l: "audio_units_loop sinks p ?ar 0 ?n [] = Some (ar', map snd kos)" "gt16_chain (frame_index_prev ar) kos"
      "set kos \<subseteq> packet_units p" "frame_index_prev ar' = last (frame_index_prev ar # map fst kos)"
    unfolding prev by auto
  have f: "av_codec p = 5" "av_data_size p \<noteq> 0"
      "unat (audio_fec_units_count p) + unat (audio_source_units_count p) = unat (units_in_frame_total p)"
      "unat (av_data_size p) = unat (audio_unit_size p) * unat (units_in_frame_total p)" using False by auto
  show ?thesis
    using l f unfolding chiaki_audio_receiver_av_packet_def Let_def by auto
qed

text \<open>A sequence of packets, with everything that goes to the sinks.\<close>

fun audio_run :: "audio_sinks \<Rightarrow> audio_receiver \<Rightarrow> av_packet list \<Rightarrow> (audio_receiver \<times> audio_out list) option" where
  "audio_run sinks ar [] = Some (ar, [])"
| "audio_run sinks ar (p # ps) = do {
     (ar, _, out) \<leftarrow> chiaki_audio_receiver_av_packet sinks ar None p;
     (ar, outs) \<leftarrow> audio_run sinks ar ps;
     Some (ar, out @ outs)
   }"

text \<open>
  C35: whatever audio packets arrive, the receiver reads only inside of them, and what reaches the
  sinks are units of these packets with frame indices that ascend in serial order, so that no
  frame is played twice and none after a later one, although every frame is sent several times.
\<close>

theorem audio_frames_ascend:
  assumes "\<forall>p \<in> set ps. unat (av_data_size p) = length (av_data p)" "sink_frame_cb sinks" "sink_haptics_cb sinks"
  shows "\<exists>ar' kos. audio_run sinks ar ps = Some (ar', map snd kos) \<and>
    successively (\<lambda>a b. chiaki_seq_num_16_gt b a) (frame_index_prev ar # map fst kos) \<and>
    set kos \<subseteq> (\<Union>p \<in> set ps. packet_units p) \<and> frame_index_prev ar' = last (frame_index_prev ar # map fst kos)"
  using assms(1)
proof (induction ps arbitrary: ar)
  case Nil
  then show ?case by (intro exI [of _ ar] exI [of _ "[]"]) simp
next
  case (Cons p ps)
  from audio_packet_spec [OF _ assms(2,3), of p ar None] Cons.prems obtain ar1 st1 kos1 where
    1: "chiaki_audio_receiver_av_packet sinks ar None p = Some (ar1, st1, map snd kos1)" "gt16_chain (frame_index_prev ar) kos1"
      "set kos1 \<subseteq> packet_units p" "frame_index_prev ar1 = last (frame_index_prev ar # map fst kos1)" by auto
  from Cons.IH [of ar1] Cons.prems obtain ar2 kos2 where
    2: "audio_run sinks ar1 ps = Some (ar2, map snd kos2)" "gt16_chain (frame_index_prev ar1) kos2"
      "set kos2 \<subseteq> (\<Union>p \<in> set ps. packet_units p)" "frame_index_prev ar2 = last (frame_index_prev ar1 # map fst kos2)" by auto
  have "gt16_chain (frame_index_prev ar) (kos1 @ kos2)"
    using gt16_chain_append [OF 1(2)] 2(2) unfolding 1(4) .
  moreover have "frame_index_prev ar2 = last (frame_index_prev ar # map fst (kos1 @ kos2))"
    using 2(4) 1(4) by (cases "kos2 = []") (simp_all add: last_append)
  ultimately show ?case
    using 1(1,3) 2(1,3) by (intro exI [of _ ar2] exI [of _ "kos1 @ kos2"]) auto
qed

text \<open>Two packets with three units each, of which the second repeats frames of the first.\<close>

definition sample_audio :: "u16 \<Rightarrow> bytes \<Rightarrow> av_packet" where
  "sample_audio k d = av_packet_zero\<lparr>av_frame_index := k, units_in_frame_total := 3, units_in_frame_fec := 0x0121,
     av_codec := 5, av_data := d, av_data_size := 3\<rparr>"

theorem audio_frames_ascend_witness:
  "map_option snd (audio_run \<lparr>sink_header_cb = True, sink_frame_cb = True, sink_haptics_cb = True\<rparr>
     \<lparr>frame_index_prev = 0, frame_index_startup = True\<rparr> [sample_audio 5 [15, 13, 14], sample_audio 7 [17, 15, 16], sample_audio 6 [16, 14, 15]]) =
     Some [Frame_To_Sink [15], Frame_To_Sink [17]] \<and>
   (\<exists>kos. map snd kos = [Frame_To_Sink [15], Frame_To_Sink [17]] \<and>
     successively (\<lambda>a b. chiaki_seq_num_16_gt b a) (0 # map fst kos))"
proof -
  let ?s = "\<lparr>sink_header_cb = True, sink_frame_cb = True, sink_haptics_cb = True\<rparr>"
  let ?ps = "[sample_audio 5 [15, 13, 14], sample_audio 7 [17, 15, 16], sample_audio 6 [16, 14, 15]]"
  have r: "map_option snd (audio_run ?s \<lparr>frame_index_prev = 0, frame_index_startup = True\<rparr> ?ps) =
      Some [Frame_To_Sink [15], Frame_To_Sink [17]]" by code_simp
  have "\<forall>p \<in> set ?ps. unat (av_data_size p) = length (av_data p)" by (simp add: sample_audio_def)
  from audio_frames_ascend [OF this, of ?s "\<lparr>frame_index_prev = 0, frame_index_startup = True\<rparr>"] r
  show ?thesis by auto
qed

section \<open>The header\<close>

text \<open>Saving and loading a header swaps the channels and the bits.\<close>

lemma audio_header_save_load:
  assumes "CHIAKI_AUDIO_HEADER_SIZE \<le> length buf"
  shows "Option.bind (chiaki_audio_header_save h buf) chiaki_audio_header_load =
    Some (h\<lparr>ah_channels := ah_bits h, ah_bits := ah_channels h\<rparr>)"
proof -
  have "buf \<noteq> []" using assms by auto
  then show ?thesis
    using assms by (simp add: chiaki_audio_header_save_def chiaki_audio_header_load_def wr_Some rd_upd)
qed

section \<open>The sender\<close>

lemma drop_upd_end: "i + length s = length b \<Longrightarrow> drop i (upd b i s) = s"
  by (simp add: upd_def)

lemma upd_full: "length s = length b \<Longrightarrow> upd b 0 s = s"
  by (simp add: upd_def)

text \<open>The order of the copies: the first one is overwritten.\<close>

lemma frame_copies:
  assumes "length buf = 3 * n" "length a = n" "length b = n" "length opus = n"
  shows "upd (upd (upd (upd buf 0 b) n a) (2 * n) opus) 0 opus = opus @ a @ opus"
  using assms by (simp add: upd_def)

lemma packet_fill_spec:
  assumes "length frames = 120" "length buf = 140"
  shows "\<exists>filled. audio_packet_fill as frames buf = Some filled \<and> length filled = 140 \<and>
    take 120 (drop (19 + (if as_ps5 as then 1 else 0)) filled) = frames \<and>
    rd16 filled 3 = Some (as_frame_index as + 1) \<and> rd32 filled 5 = Some (push_bit 16 2 OR 10273)"
proof -
  have u: "((10273 AND 0xffff) OR push_bit 0x10 ((3 - 1) AND 0xff) OR push_bit 0x18 (0 AND 0xff) :: u32) = push_bit 16 2 OR 10273"
    by simp
  show ?thesis
    using assms unfolding audio_packet_fill_def Let_def u
    by (cases "as_ps5 as") (simp_all add: wr_Some rd_upd drop_upd_end take_drop_upd [of _ frames, simplified assms(1)])
qed

text \<open>
  The units of a microphone packet. When \<open>a\<close> is the unit before \<open>opus\<close>, the packet holds
  \<open>opus\<close>, \<open>a\<close> and \<open>opus\<close> again, whatever came before \<open>a\<close>. A receiver by the rules of
  \<open>audio_unit_index\<close> takes the second unit for the frame two before the one of the packet and the
  third for the frame before it: neither is what it holds, so the repeated units do not replace lost
  packets.
\<close>

theorem audio_sender_repeats:
  assumes "as_buf_size_per_unit as = 40" "length opus = 40" "as_framea as = Some a" "as_frameb as = Some b"
    "length a = 40" "length b = 40" "as_frame_buf as = Some buf" "length buf = 120"
    "as_filled_packet_buf as = Some filled" "length filled = 140"
    and sent: "chiaki_audio_sender_opus_data pf alloc as t opus = Some (as', t')"
  shows "as_frame_buf as' = Some (opus @ a @ opus) \<and> as_framea as' = Some opus \<and>
    (\<exists>filled. as_filled_packet_buf as' = Some filled \<and>
      take 120 (drop (19 + (if as_ps5 as then 1 else 0)) filled) = opus @ a @ opus \<and>
      rd16 filled 3 = Some (as_frame_index as + 1) \<and> rd32 filled 5 = Some (push_bit 16 2 OR 10273)) \<and>
    (\<forall>p. units_in_frame_fec p = 10273 \<longrightarrow> audio_unit_index False p 0 = Some (av_frame_index p) \<and>
      audio_unit_index False p 1 = Some (av_frame_index p - 2) \<and> audio_unit_index False p 2 = Some (av_frame_index p - 1))"
proof -
  let ?as = "as\<lparr>as_frame_buf := Some (opus @ a @ opus), as_framea := Some opus, as_frameb := Some opus\<rparr>"
  have c: "upd (upd (upd (upd buf 0 b) 40 a) 80 opus) 0 opus = opus @ a @ opus"
    using frame_copies [of buf 40 a b opus] assms by simp
  have "length (opus @ a @ opus) = 120" using assms by simp
  from packet_fill_spec [OF this assms(10), of ?as] obtain f where f:
    "audio_packet_fill ?as (opus @ a @ opus) filled = Some f"
    "take 120 (drop (19 + (if as_ps5 as then 1 else 0)) f) = opus @ a @ opus"
    "rd16 f 3 = Some (as_frame_index as + 1)" "rd32 f 5 = Some (push_bit 16 2 OR 10273)" by auto
  have "as_frame_buf as' = Some (opus @ a @ opus)" "as_framea as' = Some opus" "as_filled_packet_buf as' = Some f"
    using sent assms f(1) c upd_full [of opus a] upd_full [of opus b]
    by (auto simp: chiaki_audio_sender_opus_data_def wr_Some rd_n_Some chiaki_audio_sender_frame_def Let_def split: Option.bind_splits)
  moreover have "audio_source_units_count p = 1" "audio_fec_units_count p = 2" if "units_in_frame_fec p = 10273" for p
    using that by (simp_all add: audio_source_units_count_def audio_fec_units_count_def)
  then have "audio_unit_index False p 0 = Some (av_frame_index p)" "audio_unit_index False p 1 = Some (av_frame_index p - 2)"
      "audio_unit_index False p 2 = Some (av_frame_index p - 1)" if "units_in_frame_fec p = 10273" for p
    using that by (simp_all add: audio_unit_index_def)
  ultimately show ?thesis using f(2-4) by blast
qed


text \<open>The third unit that is sent: the unit before it and twice itself.\<close>

definition sample_sender :: audio_sender where
  "sample_sender = \<lparr>as_ps5 = True, as_frame_index = 8, as_buf_size_per_unit = 40, as_buf_stride_per_unit = 48,
     as_framea = Some (replicate 40 2), as_frameb = Some (replicate 40 1), as_frame_buf = Some (replicate 120 0),
     as_filled_packet_buf = Some (replicate 140 0)\<rparr>"

theorem audio_sender_repeats_witness:
  "\<exists>as' t'. chiaki_audio_sender_opus_data sample_platform (\<lambda>_. None) sample_sender
      (sample_takion\<lparr>gkcrypt_local := Some sample_gk\<rparr>) (replicate 40 3) = Some (as', t') \<and>
    as_frame_buf as' = Some (replicate 40 3 @ replicate 40 2 @ replicate 40 3)"
proof -
  let ?t = "sample_takion\<lparr>gkcrypt_local := Some sample_gk\<rparr>"
  have "chiaki_audio_sender_opus_data sample_platform (\<lambda>_. None) sample_sender ?t (replicate 40 3) \<noteq> None"
    by code_simp
  then obtain as' t' where r: "chiaki_audio_sender_opus_data sample_platform (\<lambda>_. None) sample_sender ?t (replicate 40 3) = Some (as', t')"
    by auto
  from audio_sender_repeats [OF _ _ _ _ _ _ _ _ _ _ r, of "replicate 40 2" "replicate 40 1" "replicate 120 0" "replicate 140 0"]
  show ?thesis using r by (simp add: sample_sender_def)
qed

section \<open>Congestion control\<close>

text \<open>What is reported adds up to what was counted; reported losses are only reduced by the limit.\<close>

lemma congestion_report_total:
  assumes "congestion_report rndd loss_max received lost = Some (loss, received', lost')"
  shows "received' + lost' = received + lost"
    "loss \<le> loss_max \<Longrightarrow> received' = received \<and> lost' = lost"
  using assms by (auto simp: congestion_report_def Let_def split: if_splits Option.bind_splits)

end
