(* ===== verification/Feedback_Sender.thy ===== *)
theory Feedback_Sender
  imports Takion
begin

text \<open>
  The feedback sender (\<^verbatim>\<open>lib/include/chiaki/feedbacksender.h\<close>, \<^verbatim>\<open>lib/src/feedbacksender.c\<close>):
  a thread that sends the state of the controllers whenever it changes, at least every 200 ms, and
  the last events of buttons and touches. Setting the state and a round of the thread are steps;
  both run under the mutex.
\<close>

abbreviation (input) FEEDBACK_HISTORY_BUFFER_SIZE :: nat where "FEEDBACK_HISTORY_BUFFER_SIZE \<equiv> 0x10"
abbreviation (input) CHIAKI_CONTROLLER_ANALOG_BUTTON_L2 :: u64 where "CHIAKI_CONTROLLER_ANALOG_BUTTON_L2 \<equiv> 0x10000"
abbreviation (input) CHIAKI_CONTROLLER_ANALOG_BUTTON_R2 :: u64 where "CHIAKI_CONTROLLER_ANALOG_BUTTON_R2 \<equiv> 0x20000"

record feedback_sender =
  state_seq_num :: u16
  history_seq_num :: u16
  history_buf :: history_buffer
  should_stop :: bool
  controller_state_prev :: controller_state
  controller_state_now :: controller_state
  controller_state_changed :: bool

text \<open>
  The structure lies in a session that was filled with zeros. \<open>zero\<close> is a zeroed event; the other
  arguments are the results of the system calls.
\<close>

definition chiaki_feedback_sender_init ::
  "history_event \<Rightarrow> bool \<Rightarrow> ChiakiErrorCode \<Rightarrow> ChiakiErrorCode \<Rightarrow> ChiakiErrorCode \<Rightarrow> ChiakiErrorCode + feedback_sender" where
  "chiaki_feedback_sender_init zero alloc mutex_err cond_err thread_err =
     (case chiaki_feedback_history_buffer_init zero alloc FEEDBACK_HISTORY_BUFFER_SIZE of
        Inl err \<Rightarrow> Inl err
      | Inr hb \<Rightarrow>
          if mutex_err \<noteq> CHIAKI_ERR_SUCCESS then Inl mutex_err
          else if cond_err \<noteq> CHIAKI_ERR_SUCCESS then Inl cond_err
          else if thread_err \<noteq> CHIAKI_ERR_SUCCESS then Inl thread_err
          else Inr \<lparr>state_seq_num = 0, history_seq_num = 0, history_buf = hb, should_stop = False,
                    controller_state_prev = chiaki_controller_state_set_idle,
                    controller_state_now = chiaki_controller_state_set_idle, controller_state_changed = False\<rparr>)"

definition chiaki_feedback_sender_fini :: "feedback_sender \<Rightarrow> feedback_sender" where
  "chiaki_feedback_sender_fini fs = fs\<lparr>should_stop := True\<rparr>"

definition chiaki_feedback_sender_set_controller_state ::
  "platform \<Rightarrow> feedback_sender \<Rightarrow> controller_state \<Rightarrow> feedback_sender \<times> ChiakiErrorCode" where
  "chiaki_feedback_sender_set_controller_state pf fs state =
     (if chiaki_controller_state_equals (pf_rnd pf) (controller_state_now fs) state then (fs, CHIAKI_ERR_SUCCESS)
      else (fs\<lparr>controller_state_now := state, controller_state_changed := True\<rparr>, CHIAKI_ERR_SUCCESS))"

definition controller_state_equals_for_feedback_state ::
  "(real \<Rightarrow> real) \<Rightarrow> controller_state \<Rightarrow> controller_state \<Rightarrow> bool" where
  "controller_state_equals_for_feedback_state rnd a b \<longleftrightarrow>
     left_x a = left_x b \<and> left_y a = left_y b \<and> right_x a = right_x b \<and> right_y a = right_y b \<and> motion_same rnd a b"

definition feedback_sender_send_state ::
  "platform \<Rightarrow> feedback_sender \<Rightarrow> takion \<Rightarrow> (feedback_sender \<times> takion) option" where
  "feedback_sender_send_state pf fs t =
     (let c = controller_state_now fs;
          state = \<lparr>fs_gyro = gyro c, fs_accel = accel c, fs_orient = orient c, fs_left_x = left_x c, fs_left_y = left_y c,
            fs_right_x = right_x c, fs_right_y = right_y c\<rparr>
      in do {
        (t, _) \<leftarrow> chiaki_takion_send_feedback_state pf t (state_seq_num fs) state;
        Some (fs\<lparr>state_seq_num := state_seq_num fs + 1\<rparr>, t)
      })"

definition controller_state_equals_for_feedback_history :: "controller_state \<Rightarrow> controller_state \<Rightarrow> bool" where
  "controller_state_equals_for_feedback_history a b \<longleftrightarrow>
     buttons a = buttons b \<and> l2_state a = l2_state b \<and> r2_state a = r2_state b \<and> list_all2 touch_same (touches a) (touches b)"

definition feedback_sender_send_history_packet ::
  "platform \<Rightarrow> feedback_sender \<Rightarrow> takion \<Rightarrow> (feedback_sender \<times> takion) option" where
  "feedback_sender_send_history_packet pf fs t = do {
     r \<leftarrow> chiaki_feedback_history_buffer_format (history_buf fs) 0x300;
     (case r of Inl _ \<Rightarrow> Some (fs, t)
      | Inr buf \<Rightarrow> do {
          (t, _) \<leftarrow> chiaki_takion_send_feedback_history pf t (history_seq_num fs) buf;
          Some (fs\<lparr>history_seq_num := history_seq_num fs + 1\<rparr>, t)
        })
   }"

text \<open>Push an event and send the packet: what follows every event that was set.\<close>

definition feedback_sender_push ::
  "platform \<Rightarrow> feedback_sender \<Rightarrow> takion \<Rightarrow> history_event \<Rightarrow> (feedback_sender \<times> takion) option" where
  "feedback_sender_push pf fs t event = do {
     hb \<leftarrow> chiaki_feedback_history_buffer_push (history_buf fs) event;
     feedback_sender_send_history_packet pf (fs\<lparr>history_buf := hb\<rparr>) t
   }"

text \<open>An event of a button; \<open>junk\<close> is what the event on the stack holds before. On an error nothing is sent.\<close>

definition feedback_sender_button ::
  "platform \<Rightarrow> history_event \<Rightarrow> feedback_sender \<Rightarrow> takion \<Rightarrow> u64 \<Rightarrow> u8 \<Rightarrow> (feedback_sender \<times> takion) option" where
  "feedback_sender_button pf junk fs t button state =
     (let (event, err) = chiaki_feedback_history_event_set_button junk button state
      in if err \<noteq> CHIAKI_ERR_SUCCESS then Some (fs, t) else feedback_sender_push pf fs t event)"

fun send_buttons_loop ::
  "platform \<Rightarrow> history_event \<Rightarrow> u32 \<Rightarrow> u32 \<Rightarrow> nat \<Rightarrow> nat \<Rightarrow> feedback_sender \<Rightarrow> takion \<Rightarrow> (feedback_sender \<times> takion) option" where
  "send_buttons_loop pf junk prev now i 0 fs t = Some (fs, t)"
| "send_buttons_loop pf junk prev now i (Suc n) fs t = do {
     (fs, t) \<leftarrow> (if bit prev i \<noteq> bit now i
       then feedback_sender_button pf junk fs t (push_bit i 1) (if bit now i then 0xff else 0)
       else Some (fs, t));
     send_buttons_loop pf junk prev now (i + 1) n fs t
   }"

text \<open>One touch before and now. When its identifier changes, only the end of the old touch is an event.\<close>

definition touch_event :: "controller_touch \<Rightarrow> controller_touch \<Rightarrow> history_event option" where
  "touch_event prev now =
     (if touch_id prev \<noteq> touch_id now \<and> touch_active prev
      then Some (chiaki_feedback_history_event_set_touchpad False (touch_id prev) (touch_x prev) (touch_y prev))
      else if touch_active now \<and> (touch_id prev \<noteq> touch_id now \<or> touch_x prev \<noteq> touch_x now \<or> touch_y prev \<noteq> touch_y now)
      then Some (chiaki_feedback_history_event_set_touchpad True (touch_id now) (touch_x now) (touch_y now))
      else None)"

fun send_touches_loop ::
  "platform \<Rightarrow> (controller_touch \<times> controller_touch) list \<Rightarrow> feedback_sender \<Rightarrow> takion \<Rightarrow> (feedback_sender \<times> takion) option" where
  "send_touches_loop pf [] fs t = Some (fs, t)"
| "send_touches_loop pf ((prev, now) # ts) fs t = do {
     (fs, t) \<leftarrow> (case touch_event prev now of None \<Rightarrow> Some (fs, t) | Some event \<Rightarrow> feedback_sender_push pf fs t event);
     send_touches_loop pf ts fs t
   }"

definition feedback_sender_send_history ::
  "platform \<Rightarrow> history_event \<Rightarrow> feedback_sender \<Rightarrow> takion \<Rightarrow> (feedback_sender \<times> takion) option" where
  "feedback_sender_send_history pf junk fs t =
     (let prev = controller_state_prev fs; now = controller_state_now fs
      in do {
        (fs, t) \<leftarrow> send_buttons_loop pf junk (buttons prev) (buttons now) 0 CHIAKI_CONTROLLER_BUTTONS_COUNT fs t;
        (fs, t) \<leftarrow> (if l2_state prev \<noteq> l2_state now
          then feedback_sender_button pf junk fs t CHIAKI_CONTROLLER_ANALOG_BUTTON_L2 (l2_state now) else Some (fs, t));
        (fs, t) \<leftarrow> (if r2_state prev \<noteq> r2_state now
          then feedback_sender_button pf junk fs t CHIAKI_CONTROLLER_ANALOG_BUTTON_R2 (r2_state now) else Some (fs, t));
        send_touches_loop pf (zip (touches prev) (touches now)) fs t
      })"

text \<open>
  A round of the thread after its wait. The flag of the result says whether the thread goes on. A
  wait that times out sends the state in any case.
\<close>

definition feedback_sender_round ::
  "platform \<Rightarrow> history_event \<Rightarrow> feedback_sender \<Rightarrow> takion \<Rightarrow> ChiakiErrorCode \<Rightarrow> (feedback_sender \<times> takion \<times> bool) option" where
  "feedback_sender_round pf junk fs t err =
     (if err \<noteq> CHIAKI_ERR_SUCCESS \<and> err \<noteq> CHIAKI_ERR_TIMEOUT then Some (fs, t, False)
      else if should_stop fs then Some (fs, t, False)
      else
        let changed = controller_state_changed fs; now = controller_state_now fs; prev = controller_state_prev fs;
            send_state = (if changed then \<not> controller_state_equals_for_feedback_state (pf_rnd pf) now prev else True);
            send_history = (changed \<and> \<not> controller_state_equals_for_feedback_history now prev);
            fs = (if changed then fs\<lparr>controller_state_changed := False\<rparr> else fs)
        in do {
          (fs, t) \<leftarrow> (if send_state then feedback_sender_send_state pf fs t else Some (fs, t));
          (fs, t) \<leftarrow> (if send_history then feedback_sender_send_history pf junk fs t else Some (fs, t));
          Some (fs\<lparr>controller_state_prev := controller_state_now fs\<rparr>, t, True)
        })"

text \<open>The thread and its users: a list of steps. \<open>None\<close> in the first component: the thread has ended.\<close>

datatype sender_step =
    Set_State controller_state
  | Wakeup ChiakiErrorCode history_event
  | Fini

fun feedback_sender_run ::
  "platform \<Rightarrow> bool \<Rightarrow> feedback_sender \<Rightarrow> takion \<Rightarrow> sender_step list \<Rightarrow> (feedback_sender \<times> takion) option" where
  "feedback_sender_run pf running fs t [] = Some (fs, t)"
| "feedback_sender_run pf running fs t (Set_State c # ss) =
     feedback_sender_run pf running (fst (chiaki_feedback_sender_set_controller_state pf fs c)) t ss"
| "feedback_sender_run pf running fs t (Fini # ss) =
     feedback_sender_run pf running (chiaki_feedback_sender_fini fs) t ss"
| "feedback_sender_run pf running fs t (Wakeup err junk # ss) =
     (if \<not> running then feedback_sender_run pf running fs t ss
      else do {
        (fs, t, running) \<leftarrow> feedback_sender_round pf junk fs t err;
        feedback_sender_run pf running fs t ss
      })"

end
