(* ===== verification/Feedback_Props.thy ===== *)
theory Feedback_Props
  imports Feedback_Sender Takion_Props
begin

text \<open>
  Feedback: the ring of events is a bounded list, newest first, and its packets always fit; the
  events of a round, applied one after the other, take the state that the console knows from the old
  state of the controller to the new one.
\<close>

section \<open>The ring of events\<close>

definition hb_wf :: "history_buffer \<Rightarrow> bool" where
  "hb_wf hb \<longleftrightarrow> 0 < hb_size hb \<and> length (hb_events hb) = hb_size hb \<and> hb_begin hb < hb_size hb \<and> hb_len hb \<le> hb_size hb"

definition hb_list :: "history_buffer \<Rightarrow> history_event list" where
  "hb_list hb = map (\<lambda>i. hb_events hb ! ((hb_begin hb + i) mod hb_size hb)) [0..<hb_len hb]"

lemma length_hb_list [simp]: "length (hb_list hb) = hb_len hb"
  by (simp add: hb_list_def)

lemma hb_list_nth [simp]: "i < hb_len hb \<Longrightarrow> hb_list hb ! i = hb_events hb ! ((hb_begin hb + i) mod hb_size hb)"
  by (simp add: hb_list_def)

lemma before_begin:
  assumes "b < (n::nat)" "i < n"
  shows "((b + n - 1) mod n + Suc i) mod n = (b + i) mod n"
proof -
  have "((b + n - 1) mod n + Suc i) mod n = (b + n - 1 + Suc i) mod n" by (simp only: mod_add_left_eq)
  also have "b + n - 1 + Suc i = b + i + n" using assms by simp
  finally show ?thesis by simp
qed

lemma history_push_spec:
  assumes "hb_wf hb"
  shows "\<exists>hb'. chiaki_feedback_history_buffer_push hb e = Some hb' \<and> hb_wf hb' \<and> hb_size hb' = hb_size hb \<and>
    hb_list hb' = take (hb_size hb) (e # hb_list hb)"
proof -
  let ?n = "hb_size hb"
  define b where "b = (hb_begin hb + ?n - 1) mod ?n"
  define l where "l = (if hb_len hb + 1 \<ge> ?n then ?n else hb_len hb + 1)"
  let ?hb = "hb\<lparr>hb_begin := b, hb_len := l, hb_events := (hb_events hb)[b := e]\<rparr>"
  have w: "0 < ?n" "length (hb_events hb) = ?n" "hb_begin hb < ?n" "hb_len hb \<le> ?n" using assms by (simp_all add: hb_wf_def)
  have b: "b < ?n" using w(1) by (simp add: b_def)
  have "chiaki_feedback_history_buffer_push hb e = Some ?hb"
    unfolding chiaki_feedback_history_buffer_push_def Let_def b_def [symmetric] l_def [symmetric] using w b by simp
  moreover have "hb_wf ?hb" using w b by (simp add: hb_wf_def l_def)
  moreover have "hb_list ?hb = take ?n (e # hb_list hb)"
  proof (rule nth_equalityI)
    show "length (hb_list ?hb) = length (take ?n (e # hb_list hb))" using w by (simp add: l_def)
    fix i
    assume "i < length (hb_list ?hb)"
    then have i: "i < l" by simp
    then have il: "i < ?n" by (simp add: l_def split: if_splits)
    show "hb_list ?hb ! i = take ?n (e # hb_list hb) ! i"
    proof (cases i)
      case 0
      then show ?thesis using i b w by simp
    next
      case (Suc j)
      have j: "j < hb_len hb" using i Suc w by (simp add: l_def split: if_splits)
      have "(b + i) mod ?n = (hb_begin hb + j) mod ?n" using before_begin [OF w(3), of j] il Suc by (simp add: b_def)
      moreover have "(b + i) mod ?n \<noteq> b"
        using circular_inj [of i ?n 0 b] il Suc b by simp
      ultimately show ?thesis using i il Suc j w by simp
    qed
  qed
  ultimately show ?thesis by auto
qed

definition ev_bytes :: "history_event \<Rightarrow> bytes" where
  "ev_bytes e = take (ev_len e) (ev_buf e)"

lemma history_format_loop_spec:
  assumes "hb_wf hb" "\<forall>e \<in> set (hb_list hb). ev_len e \<le> length (ev_buf e)" "i + n = hb_len hb"
    "length out + length (concat (map ev_bytes (drop i (hb_list hb)))) \<le> size_max"
  shows "history_format_loop hb size_max i n out = Some (Inr (out @ concat (map ev_bytes (drop i (hb_list hb)))))"
  using assms(3,4)
proof (induction n arbitrary: i out)
  case 0
  then show ?case by simp
next
  case (Suc n)
  let ?j = "(hb_begin hb + i) mod hb_size hb"
  have i: "i < hb_len hb" using Suc.prems by simp
  have w: "0 < hb_size hb" "?j < length (hb_events hb)" using assms(1) by (simp_all add: hb_wf_def)
  have d: "drop i (hb_list hb) = hb_events hb ! ?j # drop (i + 1) (hb_list hb)"
    using i by (metis Cons_nth_drop_Suc hb_list_nth length_hb_list Suc_eq_plus1)
  have "hb_events hb ! ?j \<in> set (hb_list hb)" using d by (metis in_set_dropD list.set_intros(1))
  then have e: "ev_len (hb_events hb ! ?j) \<le> length (ev_buf (hb_events hb ! ?j))" using assms(2) by blast
  let ?b = "ev_bytes (hb_events hb ! ?j)"
  have l: "length ?b = ev_len (hb_events hb ! ?j)" using e by (simp add: ev_bytes_def)
  have fit: "length (out @ ?b) + length (concat (map ev_bytes (drop (i + 1) (hb_list hb)))) \<le> size_max"
    using Suc.prems(2) unfolding d by simp
  have "history_format_loop hb size_max (i + 1) n (out @ ?b) =
      Some (Inr ((out @ ?b) @ concat (map ev_bytes (drop (i + 1) (hb_list hb)))))"
    using Suc.prems(1) fit by (intro Suc.IH) simp_all
  moreover have "\<not> length out + ev_len (hb_events hb ! ?j) > size_max" using fit l by simp
  moreover have "rd_n (ev_buf (hb_events hb ! ?j)) 0 (ev_len (hb_events hb ! ?j)) = Some ?b"
    using e by (simp add: rd_n_def ev_bytes_def)
  ultimately show ?case using w unfolding d by simp
qed

text \<open>Sixteen events of at most five bytes fit into a packet.\<close>

lemma concat_bound: "\<forall>x \<in> set xs. length (f x) \<le> k \<Longrightarrow> length (concat (map f xs)) \<le> k * length xs"
  by (induction xs) auto

definition events_ok :: "history_buffer \<Rightarrow> bool" where
  "events_ok hb \<longleftrightarrow> hb_wf hb \<and> hb_size hb = FEEDBACK_HISTORY_BUFFER_SIZE \<and>
     (\<forall>e \<in> set (hb_list hb). length (ev_buf e) = 5 \<and> ev_len e \<le> 5)"

lemma history_format_fits:
  assumes "events_ok hb"
  shows "chiaki_feedback_history_buffer_format hb 0x300 = Some (Inr (concat (map ev_bytes (hb_list hb))))"
proof -
  have w: "hb_wf hb" "hb_size hb = 16" "\<forall>e \<in> set (hb_list hb). length (ev_buf e) = 5 \<and> ev_len e \<le> 5"
    using assms by (simp_all add: events_ok_def)
  have "length (concat (map ev_bytes (hb_list hb))) \<le> 5 * length (hb_list hb)"
    using w(3) by (intro concat_bound) (auto simp: ev_bytes_def)
  moreover have "hb_len hb \<le> 16" using w(1,2) by (simp add: hb_wf_def)
  ultimately have "length (concat (map ev_bytes (hb_list hb))) \<le> 0x300" by simp
  then show ?thesis
    using history_format_loop_spec [OF w(1), of 0 "hb_len hb" "[]" "0x300"] w(3)
    by (simp add: chiaki_feedback_history_buffer_format_def)
qed

section \<open>A round of events\<close>

text \<open>The events of a round, in order, for the whole of a change.\<close>

definition button_event :: "history_event \<Rightarrow> u64 \<Rightarrow> u8 \<Rightarrow> history_event" where
  "button_event junk button state = fst (chiaki_feedback_history_event_set_button junk button state)"

definition button_events :: "history_event \<Rightarrow> u32 \<Rightarrow> u32 \<Rightarrow> nat list \<Rightarrow> history_event list" where
  "button_events junk prev now is =
     map (\<lambda>i. button_event junk (push_bit i 1) (if bit now i then 0xff else 0)) (filter (\<lambda>i. bit prev i \<noteq> bit now i) is)"

definition history_events :: "history_event \<Rightarrow> controller_state \<Rightarrow> controller_state \<Rightarrow> history_event list" where
  "history_events junk prev now =
     button_events junk (buttons prev) (buttons now) [0..<CHIAKI_CONTROLLER_BUTTONS_COUNT] @
     (if l2_state prev \<noteq> l2_state now then [button_event junk CHIAKI_CONTROLLER_ANALOG_BUTTON_L2 (l2_state now)] else []) @
     (if r2_state prev \<noteq> r2_state now then [button_event junk CHIAKI_CONTROLLER_ANALOG_BUTTON_R2 (r2_state now)] else []) @
     List.map_filter (\<lambda>(p, n). touch_event p n) (zip (touches prev) (touches now))"

text \<open>What a console knows.\<close>

record remote_view =
  rv_buttons :: "nat set"
  rv_l2 :: u8
  rv_r2 :: u8
  rv_touches :: "u8 \<Rightarrow> (u16 \<times> u16) option"

text \<open>The button of the second byte of an event, with what the byte itself says of its state.\<close>

definition button_of :: "u8 \<Rightarrow> nat" where
  "button_of b =
     (if b = 0x88 then 0 else if b = 0x89 then 1 else if b = 0x8a then 2 else if b = 0x8b then 3
      else if b = 0x82 then 4 else if b = 0x83 then 5 else if b = 0x80 then 6 else if b = 0x81 then 7
      else if b = 0x84 then 8 else if b = 0x85 then 9 else if b = 0x8f \<or> b = 0xaf then 10
      else if b = 0x90 \<or> b = 0xb0 then 11 else if b = 0x8c \<or> b = 0xac then 12 else if b = 0x8d \<or> b = 0xad then 13
      else if b = 0x91 \<or> b = 0xb1 then 14 else 15)"

definition set_button :: "nat \<Rightarrow> bool \<Rightarrow> remote_view \<Rightarrow> remote_view" where
  "set_button i down v = v\<lparr>rv_buttons := (if down then insert i (rv_buttons v) else rv_buttons v - {i})\<rparr>"

text \<open>Apply one event, by its bytes.\<close>

fun apply_event :: "bytes \<Rightarrow> remote_view \<Rightarrow> remote_view" where
  "apply_event [_, b] v = set_button (button_of b) (0xac \<le> b) v"
| "apply_event [_, b, s] v =
     (if b = 0x86 then v\<lparr>rv_l2 := s\<rparr> else if b = 0x87 then v\<lparr>rv_r2 := s\<rparr> else set_button (button_of b) (s \<noteq> 0) v)"
| "apply_event [k, i, x, xy, y] v =
     v\<lparr>rv_touches := (rv_touches v)(i := if k = 0xd0
         then Some (push_bit 4 (ucast x) OR drop_bit 4 (ucast xy), push_bit 8 (ucast xy AND 0xf) OR ucast y) else None)\<rparr>"
| "apply_event _ v = v"

definition touch_map :: "controller_touch list \<Rightarrow> u8 \<Rightarrow> (u16 \<times> u16) option" where
  "touch_map ts = map_of (map (\<lambda>t. (touch_id t, (touch_x t, touch_y t))) (filter touch_active ts))"

definition view_of :: "controller_state \<Rightarrow> remote_view" where
  "view_of c = \<lparr>rv_buttons = {i. i < CHIAKI_CONTROLLER_BUTTONS_COUNT \<and> bit (buttons c) i}, rv_l2 = l2_state c,
     rv_r2 = r2_state c, rv_touches = touch_map (touches c)\<rparr>"

lemma five_bytes: "length xs = 5 \<Longrightarrow> \<exists>a b c d e. xs = [a, b, c, d, e]"
  by (auto simp: eval_nat_numeral length_Suc_conv)

lemma button_event_bytes:
  assumes "i < 16" "length (ev_buf junk) = 5" "s = 0 \<or> s = 0xff"
  shows "apply_event (ev_bytes (button_event junk (push_bit i 1) s)) v = set_button i (s \<noteq> 0) v"
proof -
  obtain a b c d e where j: "ev_buf junk = [a, b, c, d, e]" using five_bytes [OF assms(2)] by blast
  have i: "i \<in> {0, 1, 2, 3, 4, 5, 6, 7, 8, 9, 10, 11, 12, 13, 14, 15}" using assms(1) by auto presburger
  show ?thesis
    using i assms(3)
    by (elim insertE emptyE disjE)
      (simp_all add: button_event_def chiaki_feedback_history_event_set_button_def button_byte_def Let_def j ev_bytes_def
        button_of_def)
qed

lemma trigger_event_bytes:
  assumes "length (ev_buf junk) = 5"
  shows "apply_event (ev_bytes (button_event junk CHIAKI_CONTROLLER_ANALOG_BUTTON_L2 s)) v = v\<lparr>rv_l2 := s\<rparr>"
    "apply_event (ev_bytes (button_event junk CHIAKI_CONTROLLER_ANALOG_BUTTON_R2 s)) v = v\<lparr>rv_r2 := s\<rparr>"
proof -
  obtain a b c d e where j: "ev_buf junk = [a, b, c, d, e]" using five_bytes [OF assms] by blast
  show "apply_event (ev_bytes (button_event junk CHIAKI_CONTROLLER_ANALOG_BUTTON_L2 s)) v = v\<lparr>rv_l2 := s\<rparr>"
    "apply_event (ev_bytes (button_event junk CHIAKI_CONTROLLER_ANALOG_BUTTON_R2 s)) v = v\<lparr>rv_r2 := s\<rparr>"
    by (simp_all add: button_event_def chiaki_feedback_history_event_set_button_def button_byte_def Let_def j ev_bytes_def)
qed

lemma bit_bound: "unat (w :: 'a::len word) < 2 ^ k \<Longrightarrow> bit w n \<Longrightarrow> n < k"
proof (rule ccontr)
  assume w: "unat w < 2 ^ k" "bit w n" "\<not> n < k"
  have "(2::nat) ^ k \<le> 2 ^ n" using w(3) by (intro power_increasing) simp_all
  then have "unat w div 2 ^ n = 0" using less_le_trans [OF w(1)] by (intro div_less) blast
  moreover have "bit (unat w) n" using w(2) by (simp add: bit_unsigned_iff bit_imp_le_length)
  ultimately show False by (simp add: bit_iff_odd)
qed

lemma coordinate_bits:
  fixes x y :: u16
  assumes "unat x < 4096" "unat y < 4096"
  shows "push_bit 4 (ucast (ucast (drop_bit 4 x) :: u8)) OR
      drop_bit 4 (ucast (push_bit 4 (ucast (x AND 0xf)) OR ucast (drop_bit 8 y) :: u8)) = x"
    "push_bit 8 (ucast (push_bit 4 (ucast (x AND 0xf)) OR ucast (drop_bit 8 y) :: u8) AND 0xf) OR ucast (ucast y :: u8) = y"
proof -
  have m: "(0xf :: u16) = mask 4" by (simp add: mask_eq_exp_minus_1)
  have x: "bit x n \<Longrightarrow> n < 12" and y: "bit y n \<Longrightarrow> n < 12" for n
    using bit_bound [of x 12 n] bit_bound [of y 12 n] assms by simp_all
  show "push_bit 4 (ucast (ucast (drop_bit 4 x) :: u8)) OR
      drop_bit 4 (ucast (push_bit 4 (ucast (x AND 0xf)) OR ucast (drop_bit 8 y) :: u8)) = x"
  proof (rule bit_word_eqI)
    fix n
    assume "n < LENGTH(16)"
    then show "bit (push_bit 4 (ucast (ucast (drop_bit 4 x) :: u8)) OR
        drop_bit 4 (ucast (push_bit 4 (ucast (x AND 0xf)) OR ucast (drop_bit 8 y) :: u8)) :: u16) n = bit x n"
      unfolding m by (cases "n < 4") (auto simp: bit_simps dest: x y)
  qed
  show "push_bit 8 (ucast (push_bit 4 (ucast (x AND 0xf)) OR ucast (drop_bit 8 y) :: u8) AND 0xf) OR ucast (ucast y :: u8) = y"
    unfolding m by (rule bit_word_eqI) (auto simp: bit_simps dest: x y)
qed

lemma touchpad_event_bytes:
  assumes "touch_active t" "unat (touch_x t) < 4096" "unat (touch_y t) < 4096"
  shows "apply_event (ev_bytes (chiaki_feedback_history_event_set_touchpad down (touch_id t) (touch_x t) (touch_y t))) v =
    v\<lparr>rv_touches := (rv_touches v)(touch_id t := if down then Some (touch_x t, touch_y t) else None)\<rparr>"
proof -
  have "touch_id t AND 0x7f = touch_id t"
  proof (rule bit_word_eqI)
    fix n
    assume n: "n < LENGTH(8)"
    have m: "(0x7f :: u8) = mask 7" by (simp add: mask_eq_exp_minus_1)
    have "\<not> bit (touch_id t) 7" using assms(1) bit_last_iff [of "touch_id t"] by (simp add: touch_active_def)
    then show "bit (touch_id t AND 0x7f) n = bit (touch_id t) n"
      using n unfolding m by (cases "n = 7") (auto simp: bit_simps)
  qed
  then show ?thesis
    using coordinate_bits [OF assms(2,3)]
    by (simp add: chiaki_feedback_history_event_set_touchpad_def ev_bytes_def)
qed


text \<open>The buttons, one after the other.\<close>

lemma button_events_apply:
  assumes "length (ev_buf junk) = 5" "\<forall>i \<in> set is. i < 16" "distinct is"
  shows "fold apply_event (map ev_bytes (button_events junk prev now is)) v =
    v\<lparr>rv_buttons := {i. if i \<in> set is \<and> bit prev i \<noteq> bit now i then bit now i else i \<in> rv_buttons v}\<rparr>"
  using assms(2,3)
proof (induction "is" arbitrary: v)
  case Nil
  then show ?case by (simp add: button_events_def)
next
  case (Cons i "is")
  let ?v = "set_button i (bit now i) v"
  have ih: "fold apply_event (map ev_bytes (button_events junk prev now is)) w =
    w\<lparr>rv_buttons := {j. if j \<in> set is \<and> bit prev j \<noteq> bit now j then bit now j else j \<in> rv_buttons w}\<rparr>" for w
    using Cons by simp
  show ?case
  proof (cases "bit prev i \<noteq> bit now i")
    case False
    then have "{j. if j \<in> set (i # is) \<and> bit prev j \<noteq> bit now j then bit now j else j \<in> rv_buttons v} =
        {j. if j \<in> set is \<and> bit prev j \<noteq> bit now j then bit now j else j \<in> rv_buttons v}" by auto
    moreover have "button_events junk prev now (i # is) = button_events junk prev now is"
      using False by (simp add: button_events_def)
    ultimately show ?thesis using ih [of v] by simp
  next
    case True
    have "apply_event (ev_bytes (button_event junk (push_bit i 1) (if bit now i then 0xff else 0))) v = ?v"
      using button_event_bytes [of i junk "if bit now i then 0xff else 0" v] Cons.prems(1) assms(1) by simp
    then have "fold apply_event (map ev_bytes (button_events junk prev now (i # is))) v =
        fold apply_event (map ev_bytes (button_events junk prev now is)) ?v"
      using True by (simp add: button_events_def)
    also have "\<dots> = v\<lparr>rv_buttons := {j. if j \<in> set (i # is) \<and> bit prev j \<noteq> bit now j then bit now j else j \<in> rv_buttons v}\<rparr>"
    proof -
      have "{j. if j \<in> set is \<and> bit prev j \<noteq> bit now j then bit now j else j \<in> rv_buttons ?v} =
          {j. if j \<in> set (i # is) \<and> bit prev j \<noteq> bit now j then bit now j else j \<in> rv_buttons v}"
        using True Cons.prems(2) by (cases "bit now i") (auto simp: set_button_def)
      then show ?thesis using ih [of ?v] by (simp add: set_button_def)
    qed
    finally show ?thesis .
  qed
qed


text \<open>The touches. A touch may not take the place of another within one round.\<close>

abbreviation touch_pos :: "controller_touch \<Rightarrow> u16 \<times> u16" where
  "touch_pos t \<equiv> (touch_x t, touch_y t)"

definition on_pad :: "controller_touch \<Rightarrow> bool" where
  "on_pad t \<longleftrightarrow> unat (touch_x t) < 4096 \<and> unat (touch_y t) < 4096"

definition slot_ok :: "controller_touch \<Rightarrow> controller_touch \<Rightarrow> bool" where
  "slot_ok p n \<longleftrightarrow> on_pad p \<and> on_pad n \<and> \<not> (touch_active p \<and> touch_active n \<and> touch_id p \<noteq> touch_id n)"

definition touch_events :: "controller_touch \<Rightarrow> controller_touch \<Rightarrow> history_event list" where
  "touch_events p n = (case touch_event p n of None \<Rightarrow> [] | Some e \<Rightarrow> [e])"

definition slot_upd ::
  "controller_touch \<Rightarrow> controller_touch \<Rightarrow> (u8 \<Rightarrow> (u16 \<times> u16) option) \<Rightarrow> u8 \<Rightarrow> (u16 \<times> u16) option" where
  "slot_upd p n m i =
     (if touch_active n \<and> i = touch_id n then Some (touch_pos n)
      else if touch_active p \<and> i = touch_id p then None else m i)"

lemma slot_step:
  assumes "slot_ok p n" "touch_active p \<Longrightarrow> rv_touches v (touch_id p) = Some (touch_pos p)"
  shows "fold apply_event (map ev_bytes (touch_events p n)) v = v\<lparr>rv_touches := slot_upd p n (rv_touches v)\<rparr>"
proof -
  have p: "touch_active p \<Longrightarrow> apply_event (ev_bytes (chiaki_feedback_history_event_set_touchpad d (touch_id p) (touch_x p) (touch_y p))) v =
      v\<lparr>rv_touches := (rv_touches v)(touch_id p := if d then Some (touch_pos p) else None)\<rparr>" for d
    using touchpad_event_bytes [of p] assms(1) by (simp add: slot_ok_def on_pad_def)
  have n: "touch_active n \<Longrightarrow> apply_event (ev_bytes (chiaki_feedback_history_event_set_touchpad d (touch_id n) (touch_x n) (touch_y n))) v =
      v\<lparr>rv_touches := (rv_touches v)(touch_id n := if d then Some (touch_pos n) else None)\<rparr>" for d
    using touchpad_event_bytes [of n] assms(1) by (simp add: slot_ok_def on_pad_def)
  have act: "touch_id p = touch_id n \<Longrightarrow> touch_active p = touch_active n" by (simp add: touch_active_def)
  consider "touch_active p" "touch_active n" "touch_id p = touch_id n" | "touch_active p" "\<not> touch_active n"
    | "\<not> touch_active p" "touch_active n" | "\<not> touch_active p" "\<not> touch_active n"
    using assms(1) by (auto simp: slot_ok_def)
  then show ?thesis
  proof cases
    case 1
    then have "slot_upd p n (rv_touches v) = (rv_touches v)(touch_id n := Some (touch_pos n))"
      by (auto simp: slot_upd_def fun_eq_iff)
    moreover have "(rv_touches v)(touch_id n := Some (touch_pos n)) = rv_touches v" if "touch_pos p = touch_pos n"
      using assms(2) 1 that by (auto simp: fun_eq_iff)
    ultimately show ?thesis using n [of True] 1 by (cases "touch_pos p = touch_pos n") (auto simp: touch_events_def touch_event_def)
  next
    case 2
    then have "touch_id p \<noteq> touch_id n" using act by blast
    then have "touch_events p n = [chiaki_feedback_history_event_set_touchpad False (touch_id p) (touch_x p) (touch_y p)]"
      using 2 by (simp add: touch_events_def touch_event_def)
    moreover have "slot_upd p n (rv_touches v) = (rv_touches v)(touch_id p := None)" using 2 by (auto simp: slot_upd_def fun_eq_iff)
    ultimately show ?thesis using p [of False] 2 by simp
  next
    case 3
    then have "touch_id p \<noteq> touch_id n" using act by blast
    then have "touch_events p n = [chiaki_feedback_history_event_set_touchpad True (touch_id n) (touch_x n) (touch_y n)]"
      using 3 by (simp add: touch_events_def touch_event_def)
    moreover have "slot_upd p n (rv_touches v) = (rv_touches v)(touch_id n := Some (touch_pos n))"
      using 3 by (auto simp: slot_upd_def fun_eq_iff)
    ultimately show ?thesis using n [of True] 3 by simp
  next
    case 4
    then have "slot_upd p n (rv_touches v) = rv_touches v" by (simp add: slot_upd_def fun_eq_iff)
    then show ?thesis using 4 by (simp add: touch_events_def touch_event_def)
  qed
qed

text \<open>Two fingers; identifiers are not used twice and do not change places.\<close>

definition touches_ok :: "controller_touch list \<Rightarrow> controller_touch list \<Rightarrow> bool" where
  "touches_ok ps ns \<longleftrightarrow> (\<exists>p0 p1 n0 n1. ps = [p0, p1] \<and> ns = [n0, n1] \<and> slot_ok p0 n0 \<and> slot_ok p1 n1 \<and>
     (touch_active p0 \<longrightarrow> touch_id p0 \<noteq> touch_id p1 \<and> touch_id p0 \<noteq> touch_id n1) \<and>
     (touch_active n0 \<longrightarrow> touch_id n0 \<noteq> touch_id n1 \<and> touch_id n0 \<noteq> touch_id p1))"

lemma touches_step:
  assumes "touches_ok ps ns" "rv_touches v = touch_map ps"
  shows "fold apply_event (map ev_bytes (List.map_filter (\<lambda>(p, n). touch_event p n) (zip ps ns))) v = v\<lparr>rv_touches := touch_map ns\<rparr>"
proof -
  obtain p0 p1 n0 n1 where l: "ps = [p0, p1]" "ns = [n0, n1]" and s: "slot_ok p0 n0" "slot_ok p1 n1"
    and d: "touch_active p0 \<longrightarrow> touch_id p0 \<noteq> touch_id p1 \<and> touch_id p0 \<noteq> touch_id n1"
      "touch_active n0 \<longrightarrow> touch_id n0 \<noteq> touch_id n1 \<and> touch_id n0 \<noteq> touch_id p1"
    using assms(1) by (auto simp: touches_ok_def)
  have tm: "touch_map [a, b] = (\<lambda>i. if touch_active a \<and> i = touch_id a then Some (touch_pos a)
      else if touch_active b \<and> i = touch_id b then Some (touch_pos b) else None)" for a b
    by (auto simp: touch_map_def)
  have e: "List.map_filter (\<lambda>(p, n). touch_event p n) (zip ps ns) = touch_events p0 n0 @ touch_events p1 n1"
    by (auto simp: l touch_events_def map_filter_simps split: option.splits)
  define m where "m = slot_upd p0 n0 (rv_touches v)"
  have m: "touch_active p1 \<Longrightarrow> m (touch_id p1) = Some (touch_pos p1)"
    using d by (auto simp: m_def slot_upd_def assms(2) l tm)
  have 1: "fold apply_event (map ev_bytes (touch_events p0 n0)) v = v\<lparr>rv_touches := m\<rparr>"
    unfolding m_def by (rule slot_step [OF s(1)]) (simp add: assms(2) l tm)
  have 2: "fold apply_event (map ev_bytes (touch_events p1 n1)) (v\<lparr>rv_touches := m\<rparr>) = v\<lparr>rv_touches := slot_upd p1 n1 m\<rparr>"
    using slot_step [OF s(2), of "v\<lparr>rv_touches := m\<rparr>"] m by simp
  have "slot_upd p1 n1 m = touch_map ns"
    using d by (auto simp: fun_eq_iff l tm m_def assms(2) slot_upd_def)
  then show ?thesis using 1 2 e by simp
qed


lemma history_events_apply:
  assumes "length (ev_buf junk) = 5" "touches_ok (touches prev) (touches now)"
  shows "fold apply_event (map ev_bytes (history_events junk prev now)) (view_of prev) = view_of now"
proof -
  let ?B = "{i. i < 16 \<and> bit (buttons now) i}"
  let ?b = "button_events junk (buttons prev) (buttons now) [0..<16]"
  let ?l = "if l2_state prev \<noteq> l2_state now then [button_event junk CHIAKI_CONTROLLER_ANALOG_BUTTON_L2 (l2_state now)] else []"
  let ?r = "if r2_state prev \<noteq> r2_state now then [button_event junk CHIAKI_CONTROLLER_ANALOG_BUTTON_R2 (r2_state now)] else []"
  let ?t = "List.map_filter (\<lambda>(p, n). touch_event p n) (zip (touches prev) (touches now))"
  have "{i. if i \<in> set [0..<16] \<and> bit (buttons prev) i \<noteq> bit (buttons now) i then bit (buttons now) i
      else i \<in> rv_buttons (view_of prev)} = ?B" by (auto simp: view_of_def)
  then have 1: "fold apply_event (map ev_bytes ?b) (view_of prev) = (view_of prev)\<lparr>rv_buttons := ?B\<rparr>"
    using button_events_apply [OF assms(1), of "[0..<16]" "buttons prev" "buttons now" "view_of prev"] by simp
  have 2: "fold apply_event (map ev_bytes ?l) v = v\<lparr>rv_l2 := l2_state now\<rparr>" if "rv_l2 v = l2_state prev" for v
    using that trigger_event_bytes(1) [OF assms(1), of "l2_state now" v] by (cases "l2_state prev = l2_state now") simp_all
  have 3: "fold apply_event (map ev_bytes ?r) v = v\<lparr>rv_r2 := r2_state now\<rparr>" if "rv_r2 v = r2_state prev" for v
    using that trigger_event_bytes(2) [OF assms(1), of "r2_state now" v] by (cases "r2_state prev = r2_state now") simp_all
  have 4: "fold apply_event (map ev_bytes ?t) v = v\<lparr>rv_touches := touch_map (touches now)\<rparr>" if "rv_touches v = touch_map (touches prev)" for v
    using touches_step [OF assms(2) that] .
  have "fold apply_event (map ev_bytes (history_events junk prev now)) (view_of prev) =
      fold apply_event (map ev_bytes ?t) (fold apply_event (map ev_bytes ?r)
        (fold apply_event (map ev_bytes ?l) (fold apply_event (map ev_bytes ?b) (view_of prev))))"
    unfolding history_events_def by (simp only: map_append fold_append comp_def)
  also have "\<dots> = (view_of prev)\<lparr>rv_buttons := ?B, rv_l2 := l2_state now, rv_r2 := r2_state now, rv_touches := touch_map (touches now)\<rparr>"
    by (subst 1, subst 2, simp add: view_of_def, subst 3, simp add: view_of_def, subst 4, simp_all add: view_of_def)
  finally show ?thesis by (simp add: view_of_def)
qed

section \<open>What the sender does with the events\<close>

text \<open>The events \<open>es\<close> were pushed and sent, in this order.\<close>

definition pushed :: "feedback_sender \<Rightarrow> history_event list \<Rightarrow> feedback_sender \<Rightarrow> bool" where
  "pushed fs es fs' \<longleftrightarrow> events_ok (history_buf fs') \<and>
     hb_list (history_buf fs') = take FEEDBACK_HISTORY_BUFFER_SIZE (rev es @ hb_list (history_buf fs)) \<and>
     history_seq_num fs' = history_seq_num fs + of_nat (length es) \<and>
     controller_state_prev fs' = controller_state_prev fs \<and> controller_state_now fs' = controller_state_now fs"

lemma pushed_Nil: "events_ok (history_buf fs) \<Longrightarrow> pushed fs [] fs"
  by (simp add: pushed_def events_ok_def hb_wf_def)

lemma take_append_take: "take n (xs @ take n ys) = take n (xs @ ys)"
  by (simp add: take_append min_def)

lemma pushed_append:
  assumes "pushed fs es fs1" "pushed fs1 es' fs'"
  shows "pushed fs (es @ es') fs'"
proof -
  have "hb_list (history_buf fs') = take 16 (rev es' @ take 16 (rev es @ hb_list (history_buf fs)))"
    using assms by (simp only: pushed_def)
  then have "hb_list (history_buf fs') = take 16 (rev (es @ es') @ hb_list (history_buf fs))"
    by (simp only: take_append_take rev_append append_assoc)
  then show ?thesis using assms by (simp add: pushed_def del: take_append)
qed

lemma push_pushed:
  assumes "events_ok (history_buf fs)" "length (ev_buf e) = 5" "ev_len e \<le> 5" "feedback_sender_push pf fs t e = Some (fs', t')"
  shows "pushed fs [e] fs'"
proof -
  have w: "hb_wf (history_buf fs)" "hb_size (history_buf fs) = 16" using assms(1) by (simp_all add: events_ok_def)
  obtain hb where hb: "chiaki_feedback_history_buffer_push (history_buf fs) e = Some hb" "hb_wf hb" "hb_size hb = 16"
      "hb_list hb = take 16 (e # hb_list (history_buf fs))"
    using history_push_spec [OF w(1), of e] w(2) by auto
  have "set (hb_list hb) \<subseteq> insert e (set (hb_list (history_buf fs)))" unfolding hb(4) using set_take_subset by fastforce
  then have "events_ok hb" using assms(1-3) hb(2,3) by (auto simp: events_ok_def)
  then show ?thesis
    using assms(4) hb(1,4) history_format_fits [of hb]
    by (auto simp: feedback_sender_push_def feedback_sender_send_history_packet_def pushed_def split: Option.bind_splits)
qed

lemma button_event_ok:
  assumes "length (ev_buf junk) = 5"
  shows "length (ev_buf (button_event junk b s)) = 5" "ev_len (button_event junk b s) \<le> 5"
  using assms by (auto simp: button_event_def chiaki_feedback_history_event_set_button_def Let_def split: option.splits)

lemma touch_event_ok: "touch_event p n = Some e \<Longrightarrow> length (ev_buf e) = 5 \<and> ev_len e \<le> 5"
  by (auto simp: touch_event_def chiaki_feedback_history_event_set_touchpad_def split: if_splits)

lemma button_pushed:
  assumes "events_ok (history_buf fs)" "length (ev_buf junk) = 5" "button_byte button s \<noteq> None"
    "feedback_sender_button pf junk fs t button s = Some (fs', t')"
  shows "pushed fs [button_event junk button s] fs'"
proof -
  have "feedback_sender_push pf fs t (button_event junk button s) = Some (fs', t')"
    using assms(3,4)
    by (auto simp: feedback_sender_button_def button_event_def chiaki_feedback_history_event_set_button_def Let_def)
  then show ?thesis using push_pushed [OF assms(1) button_event_ok [OF assms(2)]] by blast
qed

lemma pushed_ok: "pushed fs es fs' \<Longrightarrow> events_ok (history_buf fs')"
  by (simp add: pushed_def)

lemma buttons_pushed:
  assumes "events_ok (history_buf fs)" "length (ev_buf junk) = 5" "i + n \<le> 16"
    "send_buttons_loop pf junk prev now i n fs t = Some (fs', t')"
  shows "pushed fs (button_events junk prev now [i..<i + n]) fs'"
  using assms(1,3,4)
proof (induction n arbitrary: i fs t)
  case 0
  then show ?case by (simp add: button_events_def pushed_Nil)
next
  case (Suc n)
  have e: "button_events junk prev now [i..<i + Suc n] =
      button_events junk prev now [i] @ button_events junk prev now [i + 1..<(i + 1) + n]"
    by (simp add: button_events_def upt_conv_Cons del: upt_Suc)
  obtain fs1 t1 where s: "(if bit prev i \<noteq> bit now i
       then feedback_sender_button pf junk fs t (push_bit i 1) (if bit now i then 0xff else 0)
       else Some (fs, t)) = Some (fs1, t1)" "send_buttons_loop pf junk prev now (i + 1) n fs1 t1 = Some (fs', t')"
    using Suc.prems(3) by (auto split: Option.bind_splits)
  have i: "i \<in> {0, 1, 2, 3, 4, 5, 6, 7, 8, 9, 10, 11, 12, 13, 14, 15}" using Suc.prems(2) by auto presburger
  have "button_byte (push_bit i 1) x \<noteq> None" for x
    using i by (elim insertE emptyE) (simp_all add: button_byte_def)
  then have "pushed fs (button_events junk prev now [i]) fs1"
    using s(1) button_pushed [OF Suc.prems(1) assms(2)] Suc.prems(1)
    by (cases "bit prev i \<noteq> bit now i") (auto simp: button_events_def pushed_Nil)
  then show ?case
    using Suc.IH [OF pushed_ok _ s(2)] Suc.prems(2) pushed_append unfolding e by fastforce
qed

lemma touches_pushed:
  assumes "events_ok (history_buf fs)" "send_touches_loop pf ts fs t = Some (fs', t')"
  shows "pushed fs (List.map_filter (\<lambda>(p, n). touch_event p n) ts) fs'"
  using assms
proof (induction pf ts fs t rule: send_touches_loop.induct)
  case (1 pf fs t)
  then show ?case by (simp add: pushed_Nil map_filter_simps)
next
  case (2 pf prev now ts fs t)
  show ?case
  proof (cases "touch_event prev now")
    case None
    then show ?thesis using "2.IH" [of "(fs, t)" fs t] "2.prems" by (simp add: map_filter_simps)
  next
    case (Some e)
    obtain fs1 t1 where s: "feedback_sender_push pf fs t e = Some (fs1, t1)" "send_touches_loop pf ts fs1 t1 = Some (fs', t')"
      using "2.prems"(2) Some by (auto split: Option.bind_splits)
    have p: "pushed fs [e] fs1" using push_pushed [OF "2.prems"(1) _ _ s(1)] touch_event_ok [OF Some] by blast
    have "pushed fs1 (List.map_filter (\<lambda>(p, n). touch_event p n) ts) fs'"
      using "2.IH" [of "(fs1, t1)" fs1 t1] pushed_ok [OF p] s Some by simp
    then show ?thesis using pushed_append [OF p] Some by (simp add: map_filter_simps)
  qed
qed


lemma history_pushed:
  assumes "events_ok (history_buf fs)" "length (ev_buf junk) = 5"
    "feedback_sender_send_history pf junk fs t = Some (fs', t')"
  shows "pushed fs (history_events junk (controller_state_prev fs) (controller_state_now fs)) fs'"
proof -
  let ?p = "controller_state_prev fs" and ?n = "controller_state_now fs"
  obtain fs1 t1 fs2 t2 fs3 t3 where s:
    "send_buttons_loop pf junk (buttons ?p) (buttons ?n) 0 16 fs t = Some (fs1, t1)"
    "(if l2_state ?p \<noteq> l2_state ?n then feedback_sender_button pf junk fs1 t1 0x10000 (l2_state ?n) else Some (fs1, t1)) = Some (fs2, t2)"
    "(if r2_state ?p \<noteq> r2_state ?n then feedback_sender_button pf junk fs2 t2 0x20000 (r2_state ?n) else Some (fs2, t2)) = Some (fs3, t3)"
    "send_touches_loop pf (zip (touches ?p) (touches ?n)) fs3 t3 = Some (fs', t')"
    using assms(3) by (auto simp: feedback_sender_send_history_def Let_def split: Option.bind_splits)
  have bb: "button_byte 0x10000 x \<noteq> None" "button_byte 0x20000 x \<noteq> None" for x by (simp_all add: button_byte_def)
  have 1: "pushed fs (button_events junk (buttons ?p) (buttons ?n) [0..<16]) fs1"
    using buttons_pushed [OF assms(1,2) _ s(1)] by simp
  have 2: "pushed fs1 (if l2_state ?p \<noteq> l2_state ?n then [button_event junk 0x10000 (l2_state ?n)] else []) fs2"
    using s(2) button_pushed [OF pushed_ok [OF 1] assms(2) bb(1)] pushed_Nil [OF pushed_ok [OF 1]]
    by (auto split: if_splits)
  have 3: "pushed fs2 (if r2_state ?p \<noteq> r2_state ?n then [button_event junk 0x20000 (r2_state ?n)] else []) fs3"
    using s(3) button_pushed [OF pushed_ok [OF 2] assms(2) bb(2)] pushed_Nil [OF pushed_ok [OF 2]]
    by (auto split: if_splits)
  note 4 = touches_pushed [OF pushed_ok [OF 3] s(4)]
  show ?thesis
    using pushed_append [OF 1 pushed_append [OF 2 pushed_append [OF 3 4]]] unfolding history_events_def .
qed

section \<open>Properties\<close>

text \<open>
  C34: when no touch is replaced by another or changes its place in the array between two rounds, no
  two touches have one number, and all touches lie on the pad (\<^verbatim>\<open>touches_ok\<close>), the events of a
  round tell the console the whole change. The sender pushes and sends a list of events, one packet
  each with its own number, newest first in the ring, of which the packets hold the last 16; applied in
  order, these events take a console that knew the buttons, triggers and touches of the last round to
  those of the new state. Without the condition on touches this fails, see
  \<^verbatim>\<open>feedback_touch_replaced_lost\<close>.
\<close>

theorem feedback_history_tracks:
  assumes "events_ok (history_buf fs)" "length (ev_buf junk) = 5"
    "touches_ok (touches (controller_state_prev fs)) (touches (controller_state_now fs))"
    "feedback_sender_send_history pf junk fs t = Some (fs', t')"
  shows "\<exists>es. fold apply_event (map ev_bytes es) (view_of (controller_state_prev fs)) = view_of (controller_state_now fs) \<and>
    hb_list (history_buf fs') = take 16 (rev es @ hb_list (history_buf fs)) \<and>
    history_seq_num fs' = history_seq_num fs + of_nat (length es) \<and> events_ok (history_buf fs') \<and>
    chiaki_feedback_history_buffer_format (history_buf fs') 0x300 = Some (Inr (concat (map ev_bytes (hb_list (history_buf fs')))))"
  using history_pushed [OF assms(1,2,4)] history_events_apply [OF assms(2,3)] history_format_fits
  by (auto simp only: pushed_def)

text \<open>
  A touch that takes the place of another between two rounds is lost: the round sends only the
  end of the old touch, and the state of the round becomes the last known one, so that the console
  learns of the new touch when it moves, or never.
\<close>

lemma feedback_touch_replaced_lost:
  assumes "touch_active p" "touch_active n" "touch_id p \<noteq> touch_id n"
  shows "touch_event p n = Some (chiaki_feedback_history_event_set_touchpad False (touch_id p) (touch_x p) (touch_y p)) \<and>
    touch_event n n = None"
  using assms by (simp add: touch_event_def)

text \<open>A sender after its initialisation, and a change of two buttons, a trigger and a touch.\<close>

definition zero_event :: history_event where
  "zero_event = \<lparr>ev_buf = [0, 0, 0, 0, 0], ev_len = 0\<rparr>"

definition sample_state :: controller_state where
  "sample_state = chiaki_controller_state_set_idle\<lparr>buttons := 0x401, l2_state := 9,
     touches := [\<lparr>touch_x = 0x123, touch_y = 0x456, touch_id = 3\<rparr>, touch_up]\<rparr>"

definition sample_feedback :: feedback_sender where
  "sample_feedback = \<lparr>state_seq_num = 0, history_seq_num = 0,
     history_buf = \<lparr>hb_events = replicate 16 zero_event, hb_size = 16, hb_begin = 0, hb_len = 0\<rparr>, should_stop = False,
     controller_state_prev = chiaki_controller_state_set_idle, controller_state_now = sample_state, controller_state_changed = True\<rparr>"

theorem feedback_history_tracks_witness:
  "\<exists>fs' t' es. feedback_sender_send_history sample_platform zero_event sample_feedback
      (sample_takion\<lparr>gkcrypt_local := Some sample_gk\<rparr>) = Some (fs', t') \<and>
    map ev_bytes (hb_list (history_buf fs')) = [[0xd0, 3, 0x12, 0x34, 0x56], [0x80, 0x86, 9], [0x80, 0xaf], [0x80, 0x88, 0xff]] \<and>
    fold apply_event (map ev_bytes es) (view_of chiaki_controller_state_set_idle) = view_of sample_state"
proof -
  let ?r = "feedback_sender_send_history sample_platform zero_event sample_feedback (sample_takion\<lparr>gkcrypt_local := Some sample_gk\<rparr>)"
  have e: "map_option (\<lambda>(fs, t). map ev_bytes (hb_list (history_buf fs))) ?r =
      Some [[0xd0, 3, 0x12, 0x34, 0x56], [0x80, 0x86, 9], [0x80, 0xaf], [0x80, 0x88, 0xff]]"
    by code_simp
  then obtain fs' t' where r: "?r = Some (fs', t')" by auto
  have h: "events_ok (history_buf sample_feedback)" "length (ev_buf zero_event) = 5"
    by (simp_all add: sample_feedback_def events_ok_def hb_wf_def hb_list_def zero_event_def)
  have two: "replicate 2 touch_up = [touch_up, touch_up]" by (simp add: numeral_2_eq_2)
  have up: "\<not> touch_active touch_up" by (simp add: touch_up_def touch_active_def)
  have "touches_ok (touches (controller_state_prev sample_feedback)) (touches (controller_state_now sample_feedback))"
    using up two by (simp add: touches_ok_def sample_feedback_def sample_state_def chiaki_controller_state_set_idle_def slot_ok_def
        on_pad_def) (simp add: touch_up_def)
  from feedback_history_tracks [OF h this r] obtain es where
    "fold apply_event (map ev_bytes es) (view_of chiaki_controller_state_set_idle) = view_of sample_state"
    by (auto simp: sample_feedback_def)
  then show ?thesis using e r by auto
qed

end
