(* ===== verification/Http.thy ===== *)
theory Http
  imports Chiaki_Prelude
begin

text \<open>
  HTTP (\<^verbatim>\<open>lib/include/chiaki/http.h\<close>, \<^verbatim>\<open>lib/src/http.c\<close>) and base 64 (\<^verbatim>\<open>lib/src/base64.c\<close>).
  Text is a list of bytes. A header is a pair of offsets into the buffer, at which the parser
  leaves strings that end with a null byte.
\<close>

section \<open>Strings in a buffer\<close>

definition text_bytes :: "string \<Rightarrow> bytes" where
  "text_bytes s = map of_char s"

definition c_string :: "bytes \<Rightarrow> nat \<Rightarrow> bytes" where
  "c_string buf off = takeWhile (\<lambda>c. c \<noteq> 0) (drop off buf)"

abbreviation (input) CR :: u8 where "CR \<equiv> 13"
abbreviation (input) LF :: u8 where "LF \<equiv> 10"

section \<open>The header\<close>

text \<open>
  \<open>key\<close> and \<open>val\<close> are \<^verbatim>\<open>key_ptr\<close> and \<^verbatim>\<open>value_ptr\<close>; \<open>hs\<close> are the headers so far, the last one
  first. \<open>alloc\<close> says whether the allocation of one more header succeeds.
\<close>

function http_header_loop ::
  "(nat \<Rightarrow> bool) \<Rightarrow> bytes \<Rightarrow> nat \<Rightarrow> nat \<Rightarrow> nat option \<Rightarrow> (nat \<times> nat) list \<Rightarrow> bytes \<times> (ChiakiErrorCode + (nat \<times> nat) list)" where
  "http_header_loop alloc buf i key val hs =
     (if \<not> i < length buf then (buf, Inr hs)
      else
        let c = buf ! i
        in if c = 0 then (buf, Inr hs)
           else case val of
             None \<Rightarrow>
               if c = of_char (CHR '':'') then
                 if key = i then (buf, Inl CHIAKI_ERR_INVALID_DATA)
                 else
                   let buf = buf[i := 0]; j = i + 1
                   in if j = length buf then (buf, Inl CHIAKI_ERR_INVALID_DATA)
                      else
                        let j = (if buf ! j = of_char (CHR '' '') then j + 1 else j)
                        in if j = length buf then (buf, Inl CHIAKI_ERR_INVALID_DATA)
                           else http_header_loop alloc buf (j + 1) key (Some j) hs
               else if c = CR \<or> c = LF then
                 if key + 1 < i then (buf, Inl CHIAKI_ERR_INVALID_DATA)
                 else http_header_loop alloc buf (i + 1) (i + 1) None hs
               else http_header_loop alloc buf (i + 1) key None hs
           | Some v \<Rightarrow>
               if c = CR \<or> c = LF then
                 if v = i then (buf, Inl CHIAKI_ERR_INVALID_DATA)
                 else
                   let buf = buf[i := 0]
                   in if \<not> alloc (length hs) then (buf, Inl CHIAKI_ERR_MEMORY)
                      else http_header_loop alloc buf (i + 1) (i + 1) None ((key, v) # hs)
               else http_header_loop alloc buf (i + 1) key (Some v) hs)"
  by auto
termination
  by (relation "measure (\<lambda>(_, buf, i, _). length buf - i)") auto

definition chiaki_http_header_parse ::
  "(nat \<Rightarrow> bool) \<Rightarrow> bytes \<Rightarrow> bytes \<times> (ChiakiErrorCode + (nat \<times> nat) list)" where
  "chiaki_http_header_parse alloc buf = http_header_loop alloc buf 0 0 None []"

section \<open>The response\<close>

text \<open>\<^verbatim>\<open>strtol(s, _, 10)\<close> on a string, and the conversion of the result to \<^verbatim>\<open>int\<close>.\<close>

definition is_space :: "u8 \<Rightarrow> bool" where
  "is_space c \<longleftrightarrow> c = 32 \<or> 9 \<le> c \<and> c \<le> 13"

definition is_digit :: "u8 \<Rightarrow> bool" where
  "is_digit c \<longleftrightarrow> 48 \<le> c \<and> c \<le> 57"

definition digits_value :: "bytes \<Rightarrow> int" where
  "digits_value ds = fold (\<lambda>c v. 10 * v + (uint c - 48)) ds 0"

definition strtol10 :: "bytes \<Rightarrow> int" where
  "strtol10 s =
     (let s = dropWhile is_space s;
          neg = (s \<noteq> [] \<and> s ! 0 = of_char (CHR ''-''));
          s = (if s \<noteq> [] \<and> (s ! 0 = of_char (CHR ''-'') \<or> s ! 0 = of_char (CHR ''+'')) then drop 1 s else s);
          v = digits_value (takeWhile is_digit s)
      in if neg then max (- (2 ^ 63)) (- v) else min (2 ^ 63 - 1) v)"

definition int_of_long :: "int \<Rightarrow> int" where
  "int_of_long v = sint (of_int v :: 32 word)"

definition http_version :: bytes where
  "http_version = text_bytes ''HTTP/1.1 ''"

text \<open>The first offset of a byte, as \<^verbatim>\<open>memchr\<close> finds it.\<close>

fun find_byte :: "u8 \<Rightarrow> bytes \<Rightarrow> nat option" where
  "find_byte c [] = None"
| "find_byte c (x # xs) = (if x = c then Some 0 else map_option Suc (find_byte c xs))"

text \<open>The headers are offsets into the buffer that is returned.\<close>

definition chiaki_http_response_parse ::
  "(nat \<Rightarrow> bool) \<Rightarrow> bytes \<Rightarrow> bytes \<times> (ChiakiErrorCode + int \<times> (nat \<times> nat) list)" where
  "chiaki_http_response_parse alloc buf =
     (if length buf < 9 then (buf, Inl CHIAKI_ERR_INVALID_DATA)
      else if take 9 buf \<noteq> http_version then (buf, Inl CHIAKI_ERR_INVALID_DATA)
      else
        let rest = drop 9 buf
        in case find_byte LF rest of
          None \<Rightarrow> (buf, Inl CHIAKI_ERR_INVALID_DATA)
        | Some n \<Rightarrow>
            let line_length = n + 1
            in if length rest \<le> line_length then (buf, Inl CHIAKI_ERR_INVALID_DATA)
               else
                 let rest = (if line_length > 1 \<and> rest ! (n - 1) = CR then rest[n - 1 := 0] else rest[n := 0]);
                     code = int_of_long (strtol10 (c_string rest 0))
                 in if code = 0 then (take 9 buf @ rest, Inl CHIAKI_ERR_INVALID_DATA)
                    else
                      let (h, r) = chiaki_http_header_parse alloc (drop line_length rest);
                          buf = take 9 buf @ take line_length rest @ h
                      in case r of Inl err \<Rightarrow> (buf, Inl err)
                         | Inr hs \<Rightarrow> (buf, Inr (code, map (\<lambda>(k, v). (9 + line_length + k, 9 + line_length + v)) hs)))"

section \<open>Receiving a header\<close>

text \<open>The states count how much of the empty line at the end has been seen.\<close>

definition transitions_r :: "nat list" where "transitions_r = [1, 1, 3, 1]"
definition transitions_n :: "nat list" where "transitions_n = [0, 2, 0, 4]"

definition nl_step :: "nat \<Rightarrow> u8 \<Rightarrow> nat" where
  "nl_step s c = (if c = CR then transitions_r ! s else if c = LF then transitions_n ! s else 0)"

text \<open>The loop over the received bytes: the new state and how many bytes are left.\<close>

fun nl_scan :: "nat \<Rightarrow> bytes \<Rightarrow> nat \<times> nat" where
  "nl_scan s [] = (s, 0)"
| "nl_scan s (c # cs) = (let s = nl_step s c in if s = 4 then (4, length cs) else nl_scan s cs)"

text \<open>
  What happens in one round: the wait for the socket fails, \<^verbatim>\<open>recv\<close> fails, or it stores bytes, none
  when the peer has closed the connection.
\<close>

datatype http_input =
    Wait_Error ChiakiErrorCode
  | Http_Recv_Error
  | Http_Received bytes

text \<open>
  \<open>mem\<close> is the memory of the caller, \<open>pos\<close> the offset that \<^verbatim>\<open>buf\<close> has reached. Every call of
  \<^verbatim>\<open>recv\<close> may store \<open>buf_size\<close> bytes, the size of the whole buffer. A write behind the memory is
  \<open>None\<close>. The result has the header size and the received size. Without further input the
  connection is closed.
\<close>

fun recv_http_loop ::
  "nat \<Rightarrow> bytes \<Rightarrow> nat \<Rightarrow> nat \<Rightarrow> http_input list \<Rightarrow> (bytes \<times> (ChiakiErrorCode + nat \<times> nat)) option" where
  "recv_http_loop buf_size mem pos nl_state [] = Some (mem, Inl CHIAKI_ERR_DISCONNECTED)"
| "recv_http_loop buf_size mem pos nl_state (Wait_Error err # ins) = Some (mem, Inl err)"
| "recv_http_loop buf_size mem pos nl_state (Http_Recv_Error # ins) = Some (mem, Inl CHIAKI_ERR_NETWORK)"
| "recv_http_loop buf_size mem pos nl_state (Http_Received bs # ins) =
     (let bs = take buf_size bs
      in if bs = [] then Some (mem, Inl CHIAKI_ERR_DISCONNECTED)
         else do {
           mem \<leftarrow> wr mem pos bs;
           let (nl_state, left) = nl_scan nl_state bs;
           if nl_state = 4 then Some (mem, Inr (pos + length bs - left, pos + length bs))
           else recv_http_loop buf_size mem (pos + length bs) nl_state ins
         })"

definition chiaki_recv_http_header :: "bytes \<Rightarrow> http_input list \<Rightarrow> (bytes \<times> (ChiakiErrorCode + nat \<times> nat)) option" where
  "chiaki_recv_http_header mem ins = recv_http_loop (length mem) mem 0 0 ins"

section \<open>Base 64\<close>

definition base64chars :: bytes where
  "base64chars = text_bytes ''ABCDEFGHIJKLMNOPQRSTUVWXYZabcdefghijklmnopqrstuvwxyz0123456789+/''"

text \<open>Append a character when there is room for it.\<close>

definition b64_put :: "nat \<Rightarrow> bytes \<Rightarrow> u8 \<Rightarrow> ChiakiErrorCode + bytes" where
  "b64_put out_size out c = (if length out \<ge> out_size then Inl CHIAKI_ERR_BUF_TOO_SMALL else Inr (out @ [c]))"

fun b64_puts :: "nat \<Rightarrow> bytes \<Rightarrow> bytes \<Rightarrow> ChiakiErrorCode + bytes" where
  "b64_puts out_size out [] = Inr out"
| "b64_puts out_size out (c # cs) =
     (case b64_put out_size out c of Inl err \<Rightarrow> Inl err | Inr out \<Rightarrow> b64_puts out_size out cs)"

definition b64_char :: "u32 \<Rightarrow> nat \<Rightarrow> u8" where
  "b64_char n s = base64chars ! unat ((ucast (drop_bit s n) :: u8) AND 63)"

text \<open>The rounds over three bytes each; the last one may have less.\<close>

fun b64_encode_loop :: "nat \<Rightarrow> bytes \<Rightarrow> bytes \<Rightarrow> ChiakiErrorCode + bytes" where
  "b64_encode_loop out_size [] out = Inr out"
| "b64_encode_loop out_size [a] out =
     (let n = push_bit 16 (ucast a) in b64_puts out_size out [b64_char n 18, b64_char n 12])"
| "b64_encode_loop out_size [a, b] out =
     (let n = push_bit 16 (ucast a) + push_bit 8 (ucast b)
      in b64_puts out_size out [b64_char n 18, b64_char n 12, b64_char n 6])"
| "b64_encode_loop out_size (a # b # c # rest) out =
     (let n = push_bit 16 (ucast a) + push_bit 8 (ucast b) + ucast c
      in case b64_puts out_size out [b64_char n 18, b64_char n 12, b64_char n 6, b64_char n 0] of
           Inl err \<Rightarrow> Inl err | Inr out \<Rightarrow> b64_encode_loop out_size rest out)"

text \<open>What is written to \<^verbatim>\<open>out\<close>, with the null byte at the end.\<close>

definition chiaki_base64_encode :: "bytes \<Rightarrow> nat \<Rightarrow> ChiakiErrorCode + bytes" where
  "chiaki_base64_encode inp out_size =
     (case b64_encode_loop out_size inp [] of Inl err \<Rightarrow> Inl err
      | Inr out \<Rightarrow>
          let pad_count = length inp mod 3
          in case b64_puts out_size out (if pad_count > 0 then replicate (3 - pad_count) (of_char (CHR ''='')) else []) of
               Inl err \<Rightarrow> Inl err
             | Inr out \<Rightarrow> b64_put out_size out 0)"

definition b64_table :: "u8 list" where
  "b64_table = [
     66, 66, 66, 66, 66, 66, 66, 66, 66, 66, 64, 66, 66, 66, 66, 66, 66, 66, 66, 66, 66, 66, 66, 66, 66,
     66, 66, 66, 66, 66, 66, 66, 66, 66, 66, 66, 66, 66, 66, 66, 66, 66, 66, 62, 66, 66, 66, 63, 52, 53,
     54, 55, 56, 57, 58, 59, 60, 61, 66, 66, 66, 65, 66, 66, 66, 0, 1, 2, 3, 4, 5, 6, 7, 8, 9,
     10, 11, 12, 13, 14, 15, 16, 17, 18, 19, 20, 21, 22, 23, 24, 25, 66, 66, 66, 66, 66, 66, 26, 27, 28,
     29, 30, 31, 32, 33, 34, 35, 36, 37, 38, 39, 40, 41, 42, 43, 44, 45, 46, 47, 48, 49, 50, 51, 66, 66,
     66, 66, 66, 66, 66, 66, 66, 66, 66, 66, 66, 66, 66, 66, 66, 66, 66, 66, 66, 66, 66, 66, 66, 66, 66,
     66, 66, 66, 66, 66, 66, 66, 66, 66, 66, 66, 66, 66, 66, 66, 66, 66, 66, 66, 66, 66, 66, 66, 66, 66,
     66, 66, 66, 66, 66, 66, 66, 66, 66, 66, 66, 66, 66, 66, 66, 66, 66, 66, 66, 66, 66, 66, 66, 66, 66,
     66, 66, 66, 66, 66, 66, 66, 66, 66, 66, 66, 66, 66, 66, 66, 66, 66, 66, 66, 66, 66, 66, 66, 66, 66,
     66, 66, 66, 66, 66, 66, 66, 66, 66, 66, 66, 66, 66, 66, 66, 66, 66, 66, 66, 66, 66, 66, 66, 66, 66,
     66, 66, 66, 66, 66, 66]"

text \<open>
  The table is indexed by a \<^verbatim>\<open>char\<close>, which is signed: a byte from 128 on is an index far outside.
  \<open>acc\<close> and \<open>iter\<close> hold up to four characters.
\<close>

fun b64_decode_loop :: "nat \<Rightarrow> bytes \<Rightarrow> nat \<Rightarrow> u32 \<Rightarrow> bytes \<Rightarrow> (ChiakiErrorCode + nat \<times> u32 \<times> bytes) option" where
  "b64_decode_loop out_size [] iter acc out = Some (Inr (iter, acc, out))"
| "b64_decode_loop out_size (x # xs) iter acc out =
     (if x \<ge> 128 then None
      else
        let c = b64_table ! unat x
        in if c = 64 then b64_decode_loop out_size xs iter acc out
           else if c = 66 then Some (Inl CHIAKI_ERR_INVALID_DATA)
           else if c = 65 then Some (Inr (iter, acc, out))
           else
             let acc = push_bit 6 acc OR ucast c; iter = iter + 1
             in if iter = 4 then
                  if length out + 3 > out_size then Some (Inl CHIAKI_ERR_BUF_TOO_SMALL)
                  else b64_decode_loop out_size xs 0 0
                    (out @ [ucast (drop_bit 16 acc AND 0xff), ucast (drop_bit 8 acc AND 0xff), ucast (acc AND 0xff)])
                else b64_decode_loop out_size xs iter acc out)"

definition chiaki_base64_decode :: "bytes \<Rightarrow> nat \<Rightarrow> (ChiakiErrorCode + bytes) option" where
  "chiaki_base64_decode inp out_size = do {
     r \<leftarrow> b64_decode_loop out_size inp 0 0 [];
     (case r of Inl err \<Rightarrow> Some (Inl err)
      | Inr (iter, acc, out) \<Rightarrow>
          if iter = 3 then
            if length out + 2 > out_size then Some (Inl CHIAKI_ERR_BUF_TOO_SMALL)
            else Some (Inr (out @ [ucast (drop_bit 10 acc AND 0xff), ucast (drop_bit 2 acc AND 0xff)]))
          else if iter = 2 then
            if length out + 1 > out_size then Some (Inl CHIAKI_ERR_BUF_TOO_SMALL)
            else Some (Inr (out @ [ucast (drop_bit 4 acc AND 0xff)]))
          else Some (Inr out))
   }"

end
