(* ===== verification/Http_Props.thy ===== *)
theory Http_Props
  imports Http
begin

text \<open>
  HTTP: where a header ends, the reading back of a response that was written, and base 64.
\<close>

section \<open>Base 64\<close>

lemma b64_tables: "list_all (\<lambda>k. base64chars ! k < 128 \<and> b64_table ! unat (base64chars ! k) = of_nat k) [0..<64]"
  by (simp add: base64chars_def text_bytes_def b64_table_def upt_rec)

lemma b64_table_char:
  fixes w :: u8
  shows "base64chars ! unat (w AND 63) < 128" "b64_table ! unat (base64chars ! unat (w AND 63)) = w AND 63"
proof -
  have "unat (w AND 63) < 64"
  proof -
    have "w AND 63 = take_bit 6 w" by (simp add: take_bit_eq_mask mask_eq_exp_minus_1)
    then show ?thesis using take_bit_nat_less_exp [of 6 "unat w"] by (simp add: unsigned_take_bit_eq)
  qed
  then have "unat (w AND 63) \<in> set [0..<64]" by simp
  then show "base64chars ! unat (w AND 63) < 128" "b64_table ! unat (base64chars ! unat (w AND 63)) = w AND 63"
    using b64_tables by (auto simp: list_all_iff simp del: set_upt)
qed

lemma masked_small: "(w :: u8) AND 63 \<noteq> 64" "(w :: u8) AND 63 \<noteq> 65" "(w :: u8) AND 63 \<noteq> 66"
proof -
  have m: "(63 :: u8) = mask 6" by (simp add: mask_eq_exp_minus_1)
  have "\<not> bit (w AND 63) 6" unfolding m by (simp add: bit_simps)
  moreover have "bit (64 :: u8) 6" "bit (65 :: u8) 6" "bit (66 :: u8) 6" by simp_all
  ultimately show "w AND 63 \<noteq> 64" "w AND 63 \<noteq> 65" "w AND 63 \<noteq> 66" by metis+
qed

text \<open>One character of the alphabet.\<close>

lemma decode_char:
  "iter < 3 \<Longrightarrow> b64_decode_loop sz (b64_char n s # xs) iter acc out =
    b64_decode_loop sz xs (iter + 1) (push_bit 6 acc OR ucast ((ucast (drop_bit s n) :: u8) AND 63)) out"
  using b64_table_char [of "ucast (drop_bit s n)", folded not_le] masked_small [of "ucast (drop_bit s n)"]
  by (simp add: b64_char_def Let_def del: not_le)

lemma decode_char_4:
  "length out + 3 \<le> sz \<Longrightarrow> b64_decode_loop sz (b64_char n s # xs) 3 acc out =
    (let acc = push_bit 6 acc OR ucast ((ucast (drop_bit s n) :: u8) AND 63)
     in b64_decode_loop sz xs 0 0
       (out @ [ucast (drop_bit 16 acc AND 0xff), ucast (drop_bit 8 acc AND 0xff), ucast (acc AND 0xff)]))"
  using b64_table_char [of "ucast (drop_bit s n)", folded not_le] masked_small [of "ucast (drop_bit s n)"]
  by (simp add: b64_char_def Let_def del: not_le)

definition sextets :: "u32 \<Rightarrow> nat list \<Rightarrow> u32" where
  "sextets n ss = fold (\<lambda>s acc. push_bit 6 acc OR ucast ((ucast (drop_bit s n) :: u8) AND 63)) ss 0"

lemma sextet_bit: "bit (ucast ((ucast (drop_bit s n) :: u8) AND 63) :: u32) i \<longleftrightarrow> i < 6 \<and> bit (n :: u32) (s + i)"
proof -
  have "(63 :: u8) = mask 6" by (simp add: mask_eq_exp_minus_1)
  show ?thesis unfolding \<open>63 = mask 6\<close> by (auto simp: bit_simps dest: bit_imp_le_length)
qed

lemma sextet_snoc: "sextets n (ss @ [s]) = push_bit 6 (sextets n ss) OR ucast ((ucast (drop_bit s n) :: u8) AND 63)"
  by (simp add: sextets_def)

text \<open>The characters hold the number from bit \<open>s\<close> on.\<close>

lemma sextets_bit:
  "m < 12 \<Longrightarrow> bit (sextets n [18, 12]) m = bit n (m + 12)"
  "m < 18 \<Longrightarrow> bit (sextets n [18, 12, 6]) m = bit n (m + 6)"
  "m < 24 \<Longrightarrow> bit (sextets n [18, 12, 6, 0]) m = bit n m"
proof -
  have 1: "bit (sextets n [18]) m = bit n (m + 18)" if "m < 6" for m
    using that by (simp add: sextets_def sextet_bit add.commute)
  have 2: "bit (sextets n [18, 12]) m = bit n (m + 12)" if "m < 12" for m
    using that 1 [of "m - 6"] sextet_snoc [of n "[18]" 12] by (cases "m < 6") (auto simp: bit_or_iff bit_push_bit_iff sextet_bit add.commute)
  have 3: "bit (sextets n [18, 12, 6]) m = bit n (m + 6)" if "m < 18" for m
    using that 2 [of "m - 6"] sextet_snoc [of n "[18, 12]" 6] by (cases "m < 6") (auto simp: bit_or_iff bit_push_bit_iff sextet_bit add.commute)
  show "m < 12 \<Longrightarrow> bit (sextets n [18, 12]) m = bit n (m + 12)" by (rule 2)
  show "m < 18 \<Longrightarrow> bit (sextets n [18, 12, 6]) m = bit n (m + 6)" by (rule 3)
  show "m < 24 \<Longrightarrow> bit (sextets n [18, 12, 6, 0]) m = bit n m"
    using 3 [of "m - 6"] sextet_snoc [of n "[18, 12, 6]" 0] sextet_bit [of 0 n m]
    by (cases "m < 6") (auto simp: bit_or_iff bit_push_bit_iff add.commute)
qed

lemma join_bits:
  fixes a b c :: u8
  shows "push_bit 16 (ucast a) + push_bit 8 (ucast b) = (push_bit 16 (ucast a) OR push_bit 8 (ucast b) :: u32)"
    "push_bit 16 (ucast a) + push_bit 8 (ucast b) + ucast c = (push_bit 16 (ucast a) OR push_bit 8 (ucast b) OR ucast c :: u32)"
proof -
  show 1: "push_bit 16 (ucast a) + push_bit 8 (ucast b) = (push_bit 16 (ucast a) OR push_bit 8 (ucast b) :: u32)"
    by (rule disjunctive_add) (auto simp: bit_simps dest: bit_imp_le_length)
  show "push_bit 16 (ucast a) + push_bit 8 (ucast b) + ucast c = (push_bit 16 (ucast a) OR push_bit 8 (ucast b) OR ucast c :: u32)"
    unfolding 1 by (subst disjunctive_add) (auto simp: bit_simps or.assoc dest: bit_imp_le_length)
qed

lemma sextets_bytes:
  fixes a b c :: u8
  defines "n3 \<equiv> push_bit 16 (ucast a) OR push_bit 8 (ucast b) OR ucast c :: u32"
    and "n2 \<equiv> push_bit 16 (ucast a) OR push_bit 8 (ucast b) :: u32" and "n1 \<equiv> push_bit 16 (ucast a) :: u32"
  shows "ucast (drop_bit 16 (sextets n3 [18, 12, 6, 0]) AND 0xff) = a"
    "ucast (drop_bit 8 (sextets n3 [18, 12, 6, 0]) AND 0xff) = b" "ucast (sextets n3 [18, 12, 6, 0] AND 0xff) = c"
    "ucast (drop_bit 10 (sextets n2 [18, 12, 6]) AND 0xff) = a" "ucast (drop_bit 2 (sextets n2 [18, 12, 6]) AND 0xff) = b"
    "ucast (drop_bit 4 (sextets n1 [18, 12]) AND 0xff) = a"
proof -
  have m: "(0xff :: u32) = mask 8" by (simp add: mask_eq_exp_minus_1)
  have high: "bit a i \<Longrightarrow> i < 8" "bit b i \<Longrightarrow> i < 8" "bit c i \<Longrightarrow> i < 8" for i by (auto dest: bit_imp_le_length)
  have n3: "bit n3 i \<longleftrightarrow> i < 32 \<and> (16 \<le> i \<and> bit a (i - 16) \<or> 8 \<le> i \<and> bit b (i - 8) \<or> bit c i)"
    and n2: "bit n2 i \<longleftrightarrow> i < 32 \<and> (16 \<le> i \<and> bit a (i - 16) \<or> 8 \<le> i \<and> bit b (i - 8))"
    and n1: "bit n1 i \<longleftrightarrow> i < 32 \<and> 16 \<le> i \<and> bit a (i - 16)" for i
    by (auto simp: n1_def n2_def n3_def bit_simps dest: high)
  note bits = bit_simps sextets_bit n1 n2 n3
  show "ucast (drop_bit 16 (sextets n3 [18, 12, 6, 0]) AND 0xff) = a"
    unfolding m by (rule bit_word_eqI) (auto simp: bits dest: high)
  show "ucast (drop_bit 8 (sextets n3 [18, 12, 6, 0]) AND 0xff) = b"
    unfolding m by (rule bit_word_eqI) (auto simp: bits dest: high)
  show "ucast (sextets n3 [18, 12, 6, 0] AND 0xff) = c"
    unfolding m by (rule bit_word_eqI) (auto simp: bits dest: high)
  show "ucast (drop_bit 10 (sextets n2 [18, 12, 6]) AND 0xff) = a"
    unfolding m by (rule bit_word_eqI) (auto simp: bits dest: high)
  show "ucast (drop_bit 2 (sextets n2 [18, 12, 6]) AND 0xff) = b"
    unfolding m by (rule bit_word_eqI) (auto simp: bits dest: high)
  show "ucast (drop_bit 4 (sextets n1 [18, 12]) AND 0xff) = a"
    unfolding m by (rule bit_word_eqI) (auto simp: bits dest: high)
qed


text \<open>The characters of one round are decoded to its bytes.\<close>

lemma decode_two:
  "b64_decode_loop sz (b64_char n 18 # b64_char n 12 # xs) 0 0 out = b64_decode_loop sz xs 2 (sextets n [18, 12]) out"
proof -
  have less: "(1::nat) < 3" "(2::nat) < 3" "(1::nat) + 1 = 2" by simp_all
  have "b64_decode_loop sz (b64_char n 18 # b64_char n 12 # xs) 0 0 out =
      b64_decode_loop sz (b64_char n 12 # xs) 1 (sextets n [18]) out"
    using decode_char [of 0 sz n 18] by (simp add: sextets_def)
  also have "\<dots> = b64_decode_loop sz xs 2 (sextets n [18, 12]) out"
    using decode_char [OF less(1), of sz n 12 xs "sextets n [18]" out] sextet_snoc [of n "[18]" 12]
    by (simp only: append_Cons append_Nil less(3))
  finally show ?thesis .
qed

lemma decode_three:
  "b64_decode_loop sz (b64_char n 18 # b64_char n 12 # b64_char n 6 # xs) 0 0 out = b64_decode_loop sz xs 3 (sextets n [18, 12, 6]) out"
proof -
  have less: "(2::nat) < 3" "(2::nat) + 1 = 3" by simp_all
  show ?thesis
    using decode_two [of sz n "b64_char n 6 # xs" out] decode_char [OF less(1), of sz n 6 xs "sextets n [18, 12]" out]
      sextet_snoc [of n "[18, 12]" 6] by (simp only: append_Cons append_Nil less(2))
qed

lemma decode_four:
  assumes "length out + 3 \<le> sz"
  shows "b64_decode_loop sz (b64_char n 18 # b64_char n 12 # b64_char n 6 # b64_char n 0 # xs) 0 0 out =
    b64_decode_loop sz xs 0 0 (out @ [ucast (drop_bit 16 (sextets n [18, 12, 6, 0]) AND 0xff),
      ucast (drop_bit 8 (sextets n [18, 12, 6, 0]) AND 0xff), ucast (sextets n [18, 12, 6, 0] AND 0xff)])"
  using decode_three [of sz n "b64_char n 0 # xs" out] decode_char_4 [OF assms, of n 0 xs "sextets n [18, 12, 6]"]
    sextet_snoc [of n "[18, 12, 6]" 0] by (simp only: append_Cons append_Nil Let_def)

lemma decode_pad: "b64_decode_loop sz (of_char (CHR ''='') # xs) iter acc out = Some (Inr (iter, acc, out))"
proof -
  have "b64_table ! 61 = 65" by (simp add: b64_table_def)
  then show ?thesis by simp
qed

text \<open>What the encoder writes, when the buffer is large enough: the characters in front of the padding.\<close>

fun b64_text :: "bytes \<Rightarrow> bytes" where
  "b64_text [] = []"
| "b64_text [a] = (let n = push_bit 16 (ucast a) in [b64_char n 18, b64_char n 12])"
| "b64_text [a, b] = (let n = push_bit 16 (ucast a) + push_bit 8 (ucast b) in [b64_char n 18, b64_char n 12, b64_char n 6])"
| "b64_text (a # b # c # rest) = (let n = push_bit 16 (ucast a) + push_bit 8 (ucast b) + ucast c
     in [b64_char n 18, b64_char n 12, b64_char n 6, b64_char n 0] @ b64_text rest)"

lemma b64_puts_eq: "length out \<le> sz \<Longrightarrow> b64_puts sz out cs = (if length out + length cs \<le> sz then Inr (out @ cs) else Inl CHIAKI_ERR_BUF_TOO_SMALL)"
  by (induction sz out cs rule: b64_puts.induct) (auto simp: b64_put_def)

lemma encode_loop_text:
  "length out \<le> sz \<Longrightarrow> b64_encode_loop sz xs out =
    (if length out + length (b64_text xs) \<le> sz then Inr (out @ b64_text xs) else Inl CHIAKI_ERR_BUF_TOO_SMALL)"
  by (induction sz xs out rule: b64_encode_loop.induct) (auto simp: b64_puts_eq Let_def simp del: b64_puts.simps)

lemma length_b64_text: "length (b64_text xs) = length xs + (length xs + 2) div 3"
  by (induction xs rule: b64_text.induct) (simp_all add: Let_def)

definition b64_padding :: "nat \<Rightarrow> bytes" where
  "b64_padding n = (if n mod 3 > 0 then replicate (3 - n mod 3) (of_char (CHR ''='')) else [])"

lemma padding_starts: "n mod 3 > 0 \<Longrightarrow> \<exists>ys. b64_padding n = of_char (CHR ''='') # ys"
proof -
  assume n: "n mod 3 > 0"
  have "3 - n mod 3 = Suc (3 - n mod 3 - 1)" using n mod_less_divisor [of 3 n] by linarith
  then show ?thesis using n by (metis b64_padding_def replicate_Suc)
qed

lemma decode_text:
  "length out + length xs \<le> sz \<Longrightarrow>
    Option.bind (b64_decode_loop sz (b64_text xs @ b64_padding (length xs)) 0 0 out)
      (\<lambda>r. case r of Inl err \<Rightarrow> Some (Inl err)
      | Inr (iter, acc, out) \<Rightarrow>
          if iter = 3 then
            if length out + 2 > sz then Some (Inl CHIAKI_ERR_BUF_TOO_SMALL)
            else Some (Inr (out @ [ucast (drop_bit 10 acc AND 0xff), ucast (drop_bit 2 acc AND 0xff)]))
          else if iter = 2 then
            if length out + 1 > sz then Some (Inl CHIAKI_ERR_BUF_TOO_SMALL)
            else Some (Inr (out @ [ucast (drop_bit 4 acc AND 0xff)]))
          else Some (Inr out)) = Some (Inr (out @ xs))"
proof (induction xs arbitrary: out rule: b64_text.induct)
  case 1
  then show ?case by (simp add: b64_padding_def)
next
  case (2 a)
  let ?n = "push_bit 16 (ucast a) :: u32"
  obtain ys where p: "b64_padding (length [a]) = of_char (CHR ''='') # ys" using padding_starts [of "length [a]"] by auto
  have "b64_decode_loop sz (b64_text [a] @ b64_padding (length [a])) 0 0 out = Some (Inr (2, sextets ?n [18, 12], out))"
    unfolding p b64_text.simps Let_def append_Cons append_Nil decode_two decode_pad ..
  then show ?case using 2 sextets_bytes(6) [of a] by simp
next
  case (3 a b)
  let ?n = "push_bit 16 (ucast a) + push_bit 8 (ucast b) :: u32"
  obtain ys where p: "b64_padding (length [a, b]) = of_char (CHR ''='') # ys" using padding_starts [of "length [a, b]"] by auto
  have "b64_decode_loop sz (b64_text [a, b] @ b64_padding (length [a, b])) 0 0 out = Some (Inr (3, sextets ?n [18, 12, 6], out))"
    unfolding p b64_text.simps Let_def append_Cons append_Nil decode_three decode_pad ..
  then show ?case using 3 sextets_bytes(4,5) [of a b, folded join_bits(1)] by simp
next
  case (4 a b c rest)
  let ?n = "push_bit 16 (ucast a) + push_bit 8 (ucast b) + ucast c :: u32"
  have pad: "b64_padding (length (a # b # c # rest)) = b64_padding (length rest)" by (simp add: b64_padding_def)
  have "length out + 3 \<le> sz" using 4(2) by simp
  from decode_four [OF this, of ?n "b64_text rest @ b64_padding (length rest)"] sextets_bytes(1-3) [of a b c, folded join_bits(2)]
  have "b64_decode_loop sz (b64_text (a # b # c # rest) @ b64_padding (length (a # b # c # rest))) 0 0 out =
      b64_decode_loop sz (b64_text rest @ b64_padding (length rest)) 0 0 (out @ [a, b, c])"
    unfolding b64_text.simps Let_def append_Cons append_Nil pad by (simp only: append_assoc append_Cons append_Nil)
  then show ?case using "4.IH" [OF refl, of "out @ [a, b, c]"] 4(2) by simp
qed


lemma length_b64: "length (b64_text xs @ b64_padding (length xs)) = 4 * ((length xs + 2) div 3)"
proof -
  have "length xs mod 3 \<in> {0, 1, 2}" by auto
  then have "length (b64_padding (length xs)) = 4 * ((length xs + 2) div 3) - length (b64_text xs) \<and>
      length (b64_text xs) \<le> 4 * ((length xs + 2) div 3)"
    unfolding length_b64_text b64_padding_def by auto presburger+
  then show ?thesis by simp
qed

lemma base64_encode_eq:
  "chiaki_base64_encode xs out_size =
    (if 4 * ((length xs + 2) div 3) < out_size then Inr (b64_text xs @ b64_padding (length xs) @ [0]) else Inl CHIAKI_ERR_BUF_TOO_SMALL)"
proof -
  have l: "length (b64_text xs) + length (b64_padding (length xs)) = 4 * ((length xs + 2) div 3)" using length_b64 [of xs] by simp
  show ?thesis
    unfolding chiaki_base64_encode_def b64_padding_def [symmetric] Let_def
    using l encode_loop_text [of "[]" out_size xs] b64_puts_eq [of "b64_text xs" out_size "b64_padding (length xs)"] by (auto simp: b64_put_def)
qed

lemma base64_decode_eq:
  "length xs \<le> dec_size \<Longrightarrow> chiaki_base64_decode (b64_text xs @ b64_padding (length xs)) dec_size = Some (Inr xs)"
  using decode_text [of "[]" xs dec_size] by (simp add: chiaki_base64_decode_def)

text \<open>
  C38: encoding in base 64 and decoding. The encoder fails exactly when the text with its null byte
  does not fit; what it writes is decoded to the bytes that were encoded, into every buffer that is
  large enough for them.
\<close>

theorem base64_roundtrip:
  shows "chiaki_base64_encode xs out_size =
      (if 4 * ((length xs + 2) div 3) < out_size then Inr (b64_text xs @ b64_padding (length xs) @ [0]) else Inl CHIAKI_ERR_BUF_TOO_SMALL) \<and>
    (length xs \<le> dec_size \<longrightarrow> chiaki_base64_decode (b64_text xs @ b64_padding (length xs)) dec_size = Some (Inr xs))"
  using base64_encode_eq [of xs out_size] base64_decode_eq [of xs dec_size] by blast

theorem base64_roundtrip_witness:
  "\<exists>s. chiaki_base64_encode [0xff, 0, 0x3e, 0x10] 9 = Inr (s @ [0]) \<and>
     chiaki_base64_decode s 4 = Some (Inr [0xff, 0, 0x3e, 0x10]) \<and> chiaki_base64_encode [0xff, 0, 0x3e, 0x10] 8 = Inl CHIAKI_ERR_BUF_TOO_SMALL"
  using base64_roundtrip [of "[0xff, 0, 0x3e, 0x10]" 9 4] base64_roundtrip [of "[0xff, 0, 0x3e, 0x10]" 8 4]
  by (intro exI [of _ "b64_text [0xff, 0, 0x3e, 0x10] @ b64_padding (length [0xff, 0, 0x3e, 0x10 :: u8])"]) simp

section \<open>The end of a header\<close>

text \<open>The first offset behind an empty line.\<close>

definition header_at :: "bytes \<Rightarrow> nat \<Rightarrow> bool" where
  "header_at s k \<longleftrightarrow> 4 \<le> k \<and> take 4 (drop (k - 4) s) = [CR, LF, CR, LF]"

definition header_end :: "bytes \<Rightarrow> nat option" where
  "header_end s = find (header_at s) [0..<Suc (length s)]"

definition ends_header :: "bytes \<Rightarrow> bool" where
  "ends_header s \<longleftrightarrow> take 4 (rev s) = [LF, CR, LF, CR]"

lemma header_at_prefix: "k \<le> length p \<Longrightarrow> header_at (p @ q) k = header_at p k"
  by (auto simp: header_at_def)

lemma header_at_length: "header_at s (length s) = ends_header s"
proof -
  have "take 4 (rev s) = rev (drop (length s - 4) s)" by (cases "4 \<le> length s") (simp_all add: rev_drop)
  then show ?thesis by (auto simp: ends_header_def header_at_def dest: arg_cong [of _ _ rev] arg_cong [of _ _ length])
qed

lemma find_append: "find P (xs @ ys) = (case find P xs of Some x \<Rightarrow> Some x | None \<Rightarrow> find P ys)"
  by (induction xs) auto

lemma header_end_snoc:
  "header_end (p @ [c]) = (case header_end p of Some k \<Rightarrow> Some k
    | None \<Rightarrow> if ends_header (p @ [c]) then Some (Suc (length p)) else None)"
proof -
  have "find (header_at (p @ [c])) [0..<Suc (length p)] = find (header_at p) [0..<Suc (length p)]"
    by (rule find_cong) (auto simp: header_at_prefix)
  moreover have "[0..<Suc (length (p @ [c]))] = [0..<Suc (length p)] @ [Suc (length p)]" by simp
  moreover have "header_at (p @ [c]) (Suc (length p)) = ends_header (p @ [c])"
    using header_at_length [of "p @ [c]"] by simp
  ultimately show ?thesis
    unfolding header_end_def by (simp only: find_append) (simp split: option.splits)
qed

lemma header_end_append: "header_end p = Some k \<Longrightarrow> header_end (p @ q) = Some k"
  by (induction q rule: rev_induct) (simp_all add: header_end_snoc append_assoc [symmetric] del: append_assoc)

lemma header_end_prefix: "header_end (p @ q) = None \<Longrightarrow> header_end p = None"
  using header_end_append by (metis not_Some_eq)

lemma header_end_le: "header_end s = Some k \<Longrightarrow> k \<le> length s"
  unfolding header_end_def by (auto simp: find_Some_iff simp del: upt_Suc)

text \<open>The state of the automaton after the bytes \<open>rev r\<close>, which do not end a header.\<close>

fun nl_of :: "bytes \<Rightarrow> nat" where
  "nl_of (a # b # c # r) = (if a = CR \<and> b = LF \<and> c = CR then 3 else if a = LF \<and> b = CR then 2 else if a = CR then 1 else 0)"
| "nl_of [a, b] = (if a = LF \<and> b = CR then 2 else if a = CR then 1 else 0)"
| "nl_of [a] = (if a = CR then 1 else 0)"
| "nl_of [] = 0"

lemma nl_step_of: "nl_step (nl_of r) c = (if take 4 (c # r) = [LF, CR, LF, CR] then 4 else nl_of (c # r))"
  by (cases r rule: nl_of.cases) (auto simp: nl_step_def transitions_r_def transitions_n_def)

lemma nl_scan_of:
  "header_end p = None \<Longrightarrow> nl_scan (nl_of (rev p)) s =
    (case header_end (p @ s) of Some k \<Rightarrow> (4, length p + length s - k) | None \<Rightarrow> (nl_of (rev (p @ s)), 0))"
proof (induction s arbitrary: p)
  case Nil
  then show ?case by simp
next
  case (Cons c s)
  have s: "nl_step (nl_of (rev p)) c = (if ends_header (p @ [c]) then 4 else nl_of (rev (p @ [c])))"
    using nl_step_of [of "rev p" c] by (simp add: ends_header_def)
  have n4: "nl_of r \<noteq> 4" for r by (cases r rule: nl_of.cases) auto
  show ?case
  proof (cases "ends_header (p @ [c])")
    case True
    then have "header_end (p @ [c]) = Some (Suc (length p))" using Cons.prems by (simp add: header_end_snoc)
    then have "header_end (p @ c # s) = Some (Suc (length p))" using header_end_append [of "p @ [c]" _ s] by simp
    then show ?thesis using True s by simp
  next
    case False
    then have "header_end (p @ [c]) = None" using Cons.prems by (simp add: header_end_snoc)
    from Cons.IH [OF this] show ?thesis using False s n4 by (simp split: option.splits)
  qed
qed


lemma upd_append_take:
  assumes "take (length p) mem = p" "length p + length bs \<le> length mem"
  shows "take (length (p @ bs)) (upd mem (length p) bs) = p @ bs"
  using assms by (simp add: upd_def)

lemma recv_loop_spec:
  assumes "length mem = n" "take (length p) mem = p" "length p \<le> n"
    "\<forall>b \<in> set (bss @ [bs]). b \<noteq> [] \<and> length b \<le> n"
    "header_end (p @ concat bss) = None" "header_end (p @ concat bss @ bs) = Some k"
  shows "recv_http_loop n mem (length p) (nl_of (rev p)) (map Http_Received (bss @ bs # rest)) =
    (if length (p @ concat bss @ bs) \<le> n
     then Some (p @ concat bss @ bs @ drop (length (p @ concat bss @ bs)) mem, Inr (k, length (p @ concat bss @ bs))) else None)"
  using assms
proof (induction bss arbitrary: mem p)
  case Nil
  have t: "take n bs = bs" "bs \<noteq> []" using Nil.prems(4) by auto
  have k: "k \<le> length p + length bs" using header_end_le [OF Nil.prems(6)] by simp
  have sc: "nl_scan (nl_of (rev p)) bs = (4, length p + length bs - k)"
    using nl_scan_of [of p bs] Nil.prems(5,6) by simp
  show ?case
  proof (cases "length p + length bs \<le> n")
    case False
    then show ?thesis using t Nil.prems(1) by (simp add: wr_def)
  next
    case True
    have w: "wr mem (length p) bs = Some (p @ bs @ drop (length p + length bs) mem)"
      using True Nil.prems(1,2) by (simp add: wr_def)
    show ?thesis using t sc k True w by simp
  qed
next
  case (Cons b bss)
  have t: "take n b = b" "b \<noteq> []" using Cons.prems(4) by auto
  have hp: "header_end p = None" "header_end (p @ b) = None"
    using header_end_prefix [of p] header_end_prefix [of "p @ b"] Cons.prems(5) by simp_all
  have sc: "nl_scan (nl_of (rev p)) b = (nl_of (rev (p @ b)), 0)" using nl_scan_of [OF hp(1), of b] hp(2) by simp
  have n4: "nl_of r \<noteq> 4" for r by (cases r rule: nl_of.cases) auto
  show ?case
  proof (cases "length p + length b \<le> n")
    case False
    then show ?thesis using t Cons.prems(1) by (simp add: wr_def)
  next
    case True
    let ?mem = "p @ b @ drop (length p + length b) mem"
    have w: "wr mem (length p) b = Some ?mem" using True Cons.prems(1,2) by (simp add: wr_def)
    have "recv_http_loop n mem (length p) (nl_of (rev p)) (map Http_Received ((b # bss) @ bs # rest)) =
        recv_http_loop n ?mem (length (p @ b)) (nl_of (rev (p @ b))) (map Http_Received (bss @ bs # rest))"
      using t sc n4 [of "rev b @ rev p"] w by simp
    also have "\<dots> = (if length ((p @ b) @ concat bss @ bs) \<le> n
       then Some ((p @ b) @ concat bss @ bs @ drop (length ((p @ b) @ concat bss @ bs)) ?mem, Inr (k, length ((p @ b) @ concat bss @ bs))) else None)"
      using True Cons.prems by (intro Cons.IH) simp_all
    also have "drop (length ((p @ b) @ concat bss @ bs)) ?mem = drop (length (p @ (concat (b # bss)) @ bs)) mem"
      by (simp add: ac_simps)
    finally show ?thesis by simp
  qed
qed

text \<open>
  C37: receiving the header of a response, in whatever pieces it arrives. The size that is returned
  is the first offset behind an empty line, and the memory holds what was received, if that fits. But
  when the pieces up to the end of the header are together longer than the buffer, \<^verbatim>\<open>recv\<close>
  writes behind it: every call is given the size of the whole buffer.
\<close>

theorem http_recv_header:
  assumes "\<forall>b \<in> set (bss @ [bs]). b \<noteq> [] \<and> length b \<le> length mem"
    "header_end (concat bss) = None" "header_end (concat bss @ bs) = Some k"
  shows "chiaki_recv_http_header mem (map Http_Received (bss @ bs # rest)) =
    (let s = concat bss @ bs
     in if length s \<le> length mem then Some (s @ drop (length s) mem, Inr (k, length s)) else None)"
  using recv_loop_spec [of mem "length mem" "[]" bss bs k rest] assms
  by (simp add: chiaki_recv_http_header_def Let_def)

theorem http_recv_header_witness:
  "chiaki_recv_http_header (replicate 8 0) (map Http_Received [[65, 13], [10, 13], [10, 66]]) =
     Some ([65, 13, 10, 13, 10, 66, 0, 0], Inr (5, 6)) \<and>
   chiaki_recv_http_header (replicate 5 0) (map Http_Received [[65, 13], [10, 13], [10, 66]]) = None"
proof -
  have e: "header_end [65, 13, 10, 13] = None" "header_end [65, 13, 10, 13, 10, 66] = Some 5"
    by (simp_all add: header_end_def header_at_def upt_rec)
  have r: "replicate 8 0 = [0, 0, 0, 0, 0, 0, 0, 0 :: u8]" by (simp add: eval_nat_numeral)
  show ?thesis
    using http_recv_header [of "[[65, 13], [10, 13]]" "[10, 66]" "replicate 8 0" 5 "[]"]
      http_recv_header [of "[[65, 13], [10, 13]]" "[10, 66]" "replicate 5 0" 5 "[]"] e
    by (simp add: Let_def r)
qed


section \<open>Reading back a response\<close>

declare http_header_loop.simps [simp del]

definition key_char :: "u8 \<Rightarrow> bool" where
  "key_char c \<longleftrightarrow> c \<noteq> 0 \<and> c \<noteq> of_char (CHR '':'') \<and> c \<noteq> CR \<and> c \<noteq> LF"

definition value_char :: "u8 \<Rightarrow> bool" where
  "value_char c \<longleftrightarrow> c \<noteq> 0 \<and> c \<noteq> CR \<and> c \<noteq> LF"

definition header_ok :: "bytes \<times> bytes \<Rightarrow> bool" where
  "header_ok h \<longleftrightarrow> fst h \<noteq> [] \<and> list_all key_char (fst h) \<and> snd h \<noteq> [] \<and> snd h ! 0 \<noteq> of_char (CHR '' '') \<and>
     list_all value_char (snd h)"

text \<open>A header on the wire, and what the parser makes of it in the buffer.\<close>

definition header_text :: "bytes \<times> bytes \<Rightarrow> bytes" where
  "header_text h = fst h @ [of_char (CHR '':''), of_char (CHR '' '')] @ snd h @ [CR, LF]"

definition header_done :: "bytes \<times> bytes \<Rightarrow> bytes" where
  "header_done h = fst h @ [0, of_char (CHR '' '')] @ snd h @ [0, LF]"

lemma skip_key:
  "list_all key_char xs \<Longrightarrow> http_header_loop alloc (pre @ xs @ rest) (length pre) key None hs =
    http_header_loop alloc (pre @ xs @ rest) (length pre + length xs) key None hs"
proof (induction xs arbitrary: pre)
  case (Cons c xs)
  have "http_header_loop alloc (pre @ (c # xs) @ rest) (length pre) key None hs =
      http_header_loop alloc (pre @ (c # xs) @ rest) (length pre + 1) key None hs"
    using Cons.prems by (subst http_header_loop.simps) (simp add: key_char_def nth_append)
  then show ?case using Cons.IH [of "pre @ [c]"] Cons.prems by simp
qed simp

lemma skip_value:
  "list_all value_char xs \<Longrightarrow> http_header_loop alloc (pre @ xs @ rest) (length pre) key (Some v) hs =
    http_header_loop alloc (pre @ xs @ rest) (length pre + length xs) key (Some v) hs"
proof (induction xs arbitrary: pre)
  case (Cons c xs)
  have "http_header_loop alloc (pre @ (c # xs) @ rest) (length pre) key (Some v) hs =
      http_header_loop alloc (pre @ (c # xs) @ rest) (length pre + 1) key (Some v) hs"
    using Cons.prems by (subst http_header_loop.simps) (simp add: value_char_def nth_append)
  then show ?case using Cons.IH [of "pre @ [c]"] Cons.prems by simp
qed simp

lemma parse_one:
  assumes "header_ok (k, v)" "alloc (length hs)"
  shows "http_header_loop alloc (pre @ header_text (k, v) @ rest) (length pre) (length pre) None hs =
    http_header_loop alloc ((pre @ header_done (k, v)) @ rest) (length (pre @ header_done (k, v))) (length (pre @ header_done (k, v)))
      None ((length pre, length pre + length k + 2) # hs)"
proof -
  let ?v = "length pre + length k + 2"
  have ok: "list_all key_char k" "k \<noteq> []" "list_all value_char v" "v \<noteq> []" using assms(1) by (simp_all add: header_ok_def)
  obtain c v' where v: "v = c # v'" using ok(4) by (cases v) auto
  have "http_header_loop alloc (pre @ header_text (k, v) @ rest) (length pre) (length pre) None hs =
      http_header_loop alloc (pre @ k @ [58, 32] @ v @ [CR, LF] @ rest) (length (pre @ k)) (length pre) None hs"
    using skip_key [OF ok(1), of alloc pre "[58, 32] @ v @ [CR, LF] @ rest"] by (simp add: header_text_def)
  also have "\<dots> = http_header_loop alloc ((pre @ k @ [0, 32, c]) @ v' @ [CR, LF] @ rest) (length (pre @ k @ [0, 32, c])) (length pre) (Some ?v) hs"
    using ok(2) by (subst http_header_loop.simps) (simp add: nth_append list_update_append v)
  also have "\<dots> = http_header_loop alloc ((pre @ k @ [0, 32, c]) @ v' @ [CR, LF] @ rest) (length (pre @ k @ [0, 32, c] @ v')) (length pre) (Some ?v) hs"
    using skip_value [of v' alloc "pre @ k @ [0, 32, c]" "[CR, LF] @ rest"] ok(3) v by (simp add: add.assoc)
  also have "\<dots> = http_header_loop alloc (pre @ k @ [0, 32] @ v @ [0, LF] @ rest) (length (pre @ k @ [0, 32] @ v @ [0]))
      (length (pre @ k @ [0, 32] @ v @ [0])) None ((length pre, ?v) # hs)"
    using assms(2) by (subst http_header_loop.simps) (simp add: nth_append list_update_append v)
  also have "\<dots> = http_header_loop alloc (pre @ k @ [0, 32] @ v @ [0, LF] @ rest) (length (pre @ k @ [0, 32] @ v @ [0, LF]))
      (length (pre @ k @ [0, 32] @ v @ [0, LF])) None ((length pre, ?v) # hs)"
    by (subst http_header_loop.simps) (simp add: nth_append)
  finally show ?thesis by (simp add: header_done_def)
qed

fun header_offs :: "nat \<Rightarrow> (bytes \<times> bytes) list \<Rightarrow> (nat \<times> nat) list" where
  "header_offs n [] = []"
| "header_offs n ((k, v) # hs) = (n, n + length k + 2) # header_offs (n + length (header_done (k, v))) hs"

text \<open>The end of the headers: nothing, or an empty line.\<close>

lemma parse_end:
  assumes "lst = [] \<or> lst = [CR, LF]"
  shows "http_header_loop alloc (pre @ lst) (length pre) (length pre) None hs = (pre @ lst, Inr hs)"
proof -
  have "http_header_loop alloc (pre @ [CR, LF]) (length pre) (length pre) None hs =
      http_header_loop alloc (pre @ [CR, LF]) (length pre + 1) (length pre + 1) None hs"
    by (subst http_header_loop.simps) (simp add: nth_append)
  also have "\<dots> = http_header_loop alloc (pre @ [CR, LF]) (length pre + 2) (length pre + 2) None hs"
    by (subst http_header_loop.simps) (simp add: nth_append)
  also have "\<dots> = (pre @ [CR, LF], Inr hs)" by (subst http_header_loop.simps) simp
  finally show ?thesis using assms by (auto simp: http_header_loop.simps [of alloc pre])
qed

lemma parse_headers:
  assumes "\<forall>h \<in> set hs. header_ok h" "\<forall>n. alloc n" "lst = [] \<or> lst = [CR, LF]"
  shows "http_header_loop alloc (pre @ concat (map header_text hs) @ lst) (length pre) (length pre) None acc =
    (pre @ concat (map header_done hs) @ lst, Inr (rev (header_offs (length pre) hs) @ acc))"
  using assms(1)
proof (induction hs arbitrary: pre acc)
  case Nil
  then show ?case using parse_end [OF assms(3)] by simp
next
  case (Cons h hs)
  obtain k v where h: "h = (k, v)" by (cases h)
  have "http_header_loop alloc (pre @ concat (map header_text (h # hs)) @ lst) (length pre) (length pre) None acc =
      http_header_loop alloc ((pre @ header_done h) @ concat (map header_text hs) @ lst) (length (pre @ header_done h))
        (length (pre @ header_done h)) None ((length pre, length pre + length k + 2) # acc)"
    using parse_one [of k v alloc acc pre "concat (map header_text hs) @ lst"] Cons.prems assms(2) by (simp add: h)
  also have "\<dots> = ((pre @ header_done h) @ concat (map header_done hs) @ lst,
      Inr (rev (header_offs (length (pre @ header_done h)) hs) @ ((length pre, length pre + length k + 2) # acc)))"
    using Cons.prems by (intro Cons.IH) simp
  finally show ?case by (simp add: h)
qed

text \<open>The strings at the offsets.\<close>

lemma c_string_at: "0 \<notin> set s \<Longrightarrow> c_string (pre @ s @ 0 # rest) (length pre) = s"
proof -
  assume "0 \<notin> set s"
  then have "\<And>x. x \<in> set s \<Longrightarrow> x \<noteq> 0" by auto
  from takeWhile_append2 [of s "\<lambda>x. x \<noteq> 0" "0 # rest", OF this] show ?thesis by (simp add: c_string_def)
qed

lemma header_strings:
  assumes "\<forall>h \<in> set hs. header_ok h"
  shows "map (\<lambda>(a, b). (c_string (pre @ concat (map header_done hs) @ rest) a, c_string (pre @ concat (map header_done hs) @ rest) b))
    (header_offs (length pre) hs) = hs"
  using assms
proof (induction hs arbitrary: pre)
  case (Cons h hs)
  obtain k v where h: "h = (k, v)" by (cases h)
  have "0 \<notin> set k" "0 \<notin> set v" using Cons.prems by (auto simp: h header_ok_def key_char_def value_char_def list_all_iff)
  then have "c_string (pre @ concat (map header_done (h # hs)) @ rest) (length pre) = k"
      "c_string (pre @ concat (map header_done (h # hs)) @ rest) (length pre + length k + 2) = v"
    using c_string_at [of k pre "[32] @ v @ [0, LF] @ concat (map header_done hs) @ rest"]
      c_string_at [of v "pre @ k @ [0, 32]" "[LF] @ concat (map header_done hs) @ rest"]
    by (simp_all add: h header_done_def)
  then show ?case using Cons.IH [of "pre @ header_done h"] Cons.prems by (simp add: h)
qed simp


lemma find_byte_append: "c \<notin> set xs \<Longrightarrow> find_byte c (xs @ c # ys) = Some (length xs)"
  by (induction xs) auto

text \<open>
  C36: the parser of responses reads back what was written. A response with a status line and
  headers whose keys and values are not empty and contain no delimiters gives the code that the status
  line starts with, and all headers, the last one first, as strings in the buffer.
\<close>

theorem http_response_roundtrip:
  assumes "\<forall>h \<in> set hs. header_ok h" "0 \<notin> set status" "LF \<notin> set status" "\<forall>n. alloc n"
    "int_of_long (strtol10 status) \<noteq> 0"
  shows "\<exists>buf offs. chiaki_http_response_parse alloc
      (http_version @ status @ [CR, LF] @ concat (map header_text hs) @ [CR, LF]) =
        (buf, Inr (int_of_long (strtol10 status), offs)) \<and>
    map (\<lambda>(k, v). (c_string buf k, c_string buf v)) offs = rev hs"
proof -
  let ?rest = "status @ [CR, LF] @ concat (map header_text hs) @ [CR, LF]"
  let ?done = "status @ [0, LF] @ concat (map header_text hs) @ [CR, LF]"
  let ?pre = "http_version @ status @ [0, LF]"
  let ?n = "length status + 1"
  have l9: "length http_version = 9" by (simp add: http_version_def text_bytes_def)
  have f: "find_byte LF ?rest = Some ?n" using find_byte_append [of LF "status @ [CR]"] assms(3) by simp
  have d: "?rest[length status := 0] = ?done" by (simp add: list_update_append)
  have cs: "c_string ?done 0 = status" using c_string_at [OF assms(2), of "[]"] by simp
  have ph: "chiaki_http_header_parse alloc (concat (map header_text hs) @ [CR, LF]) =
      (concat (map header_done hs) @ [CR, LF], Inr (rev (header_offs 0 hs)))"
    using parse_headers [OF assms(1,4), of "[CR, LF]" "[]" "[]"] by (simp add: chiaki_http_header_parse_def)
  have "chiaki_http_response_parse alloc (http_version @ ?rest) =
      (?pre @ concat (map header_done hs) @ [CR, LF],
       Inr (int_of_long (strtol10 status), map (\<lambda>(k, v). (9 + (?n + 1) + k, 9 + (?n + 1) + v)) (rev (header_offs 0 hs))))"
    using assms(5) ph cs f d l9
    unfolding chiaki_http_response_parse_def Let_def
    by (simp add: nth_append)
  moreover have "map (\<lambda>(k, v). (m + k, m + v)) (header_offs a hs) = header_offs (m + a) hs" for m a
    by (induction a hs rule: header_offs.induct) (simp_all add: add.assoc)
  then have "map (\<lambda>(k, v). (9 + (?n + 1) + k, 9 + (?n + 1) + v)) (rev (header_offs 0 hs)) = rev (header_offs (length ?pre) hs)"
    using l9 by (simp add: rev_map [symmetric])
  moreover have "map (\<lambda>(k, v). (c_string (?pre @ concat (map header_done hs) @ [CR, LF]) k,
      c_string (?pre @ concat (map header_done hs) @ [CR, LF]) v)) (rev (header_offs (length ?pre) hs)) = rev hs"
    using header_strings [OF assms(1), of ?pre "[CR, LF]"] by (simp add: rev_map [symmetric])
  ultimately show ?thesis by auto
qed

theorem http_response_roundtrip_witness:
  "\<exists>buf offs. chiaki_http_response_parse (\<lambda>_. True) (text_bytes ''HTTP/1.1 200 OK'' @ [13, 10] @ text_bytes ''A: b'' @ [13, 10, 13, 10]) =
      (buf, Inr (200, offs)) \<and>
    map (\<lambda>(k, v). (c_string buf k, c_string buf v)) offs = [(text_bytes ''A'', text_bytes ''b'')]"
proof -
  have s: "int_of_long (strtol10 (text_bytes ''200 OK'')) = 200" by code_simp
  have n: "0 \<notin> set (text_bytes ''200 OK'')" "10 \<notin> set (text_bytes ''200 OK'')" by (simp_all add: text_bytes_def)
  have h: "header_ok (text_bytes ''A'', text_bytes ''b'')" by (simp add: header_ok_def key_char_def value_char_def text_bytes_def)
  then have "\<forall>h \<in> set [(text_bytes ''A'', text_bytes ''b'')]. header_ok h" by simp
  from http_response_roundtrip [OF this n, of "\<lambda>_. True"] s show ?thesis
    by (simp add: http_version_def header_text_def text_bytes_def)
qed

text \<open>
  The check for an empty value never fails: the first byte of a value is not looked at, so the value
  of an empty header is its line break or, after a lone line feed, the rest up to the next line break.
\<close>

lemma http_empty_value:
  "(let (buf, r) = chiaki_http_header_parse (\<lambda>_. True) (text_bytes ''A:'' @ [13, 10] @ text_bytes ''B: c'' @ [13, 10])
    in (map_sum id (map (\<lambda>(k, v). (c_string buf k, c_string buf v))) r)) =
   Inr [(text_bytes ''B'', text_bytes ''c''), (text_bytes ''A'', [13])]"
  "(let (buf, r) = chiaki_http_header_parse (\<lambda>_. True) (text_bytes ''A:'' @ [10] @ text_bytes ''B: c'' @ [10])
    in (map_sum id (map (\<lambda>(k, v). (c_string buf k, c_string buf v))) r)) =
   Inr [(text_bytes ''A'', [10] @ text_bytes ''B: c'')]"
  by code_simp+

end
