(* ===== verification/Bitstream.thy ===== *)
theory Bitstream
  imports Chiaki_Prelude
begin

text \<open>
  The reader of video headers (\<^verbatim>\<open>lib/src/bitstream.c\<close>) and the bit reader it is built on
  (\<^verbatim>\<open>lib/src/vl_rbsp.h\<close>). The bit reader holds up to 64 bits of the input in a word, the next
  one on top. It refills that word four bytes at a time and skips the emulation prevention
  bytes of the stream (a 3 behind two zero bytes) in the bits that it has just loaded.

  A pointer into the input is an offset; \<open>vl_addr\<close> is the address of the input, which decides
  where the input is aligned. A failed \<^verbatim>\<open>assert\<close> and a shift by a negative count or by the width
  of the word, which C leaves undefined, are \<^term>\<open>None\<close>.
\<close>

section \<open>The bit buffer\<close>

record vl_vlc =
  vl_buffer :: u64
  invalid_bits :: int
  vl_data :: nat
  vl_end :: nat
  vl_input :: bytes
  vl_addr :: nat
  vl_size :: u32
  vl_bytes_left :: u32

definition shl64 :: "u64 \<Rightarrow> int \<Rightarrow> u64 option" where
  "shl64 w n = (if 0 \<le> n \<and> n < 64 then Some (push_bit (nat n) w) else None)"

definition shr64 :: "u64 \<Rightarrow> int \<Rightarrow> u64 option" where
  "shr64 w n = (if 0 \<le> n \<and> n < 64 then Some (drop_bit (nat n) w) else None)"

text \<open>One byte of the input into the buffer: the body of the loops over single bytes.\<close>

definition vlc_load_byte :: "vl_vlc \<Rightarrow> vl_vlc option" where
  "vlc_load_byte vlc = do {
     x \<leftarrow> rd8 (vl_input vlc) (vl_data vlc);
     y \<leftarrow> shl64 (ucast x) (24 + invalid_bits vlc);
     Some (vlc\<lparr>vl_buffer := vl_buffer vlc OR y, vl_data := vl_data vlc + 1, invalid_bits := invalid_bits vlc - 8\<rparr>)
   }"

lemma vlc_load_byte_pos:
  assumes "vlc_load_byte vlc = Some vlc'"
  shows "vl_addr vlc' = vl_addr vlc" "vl_data vlc' = vl_data vlc + 1"
  using assms by (auto simp: vlc_load_byte_def split: Option.bind_splits)

function vl_vlc_align_data_ptr :: "vl_vlc \<Rightarrow> vl_vlc option" where
  "vl_vlc_align_data_ptr vlc =
     (if vl_data vlc \<noteq> vl_end vlc \<and> (vl_addr vlc + vl_data vlc) mod 4 \<noteq> 0
      then do { vlc \<leftarrow> vlc_load_byte vlc; vl_vlc_align_data_ptr vlc }
      else Some vlc)"
  by pat_completeness auto

termination
proof (relation "measure (\<lambda>vlc. (4 - (vl_addr vlc + vl_data vlc) mod 4) mod 4)")
  fix vlc vlc'
  assume c: "vl_data vlc \<noteq> vl_end vlc \<and> (vl_addr vlc + vl_data vlc) mod 4 \<noteq> 0"
    and l: "vlc_load_byte vlc = Some vlc'"
  let ?a = "vl_addr vlc + vl_data vlc"
  have "?a mod 4 = 1 \<or> ?a mod 4 = 2 \<or> ?a mod 4 = 3"
    using c mod_less_divisor [of 4 ?a] by linarith
  then have "(4 - Suc ?a mod 4) mod 4 < (4 - ?a mod 4) mod 4"
    by (auto simp: mod_Suc)
  then show "(vlc', vlc) \<in> measure (\<lambda>vlc. (4 - (vl_addr vlc + vl_data vlc) mod 4) mod 4)"
    by (simp add: vlc_load_byte_pos [OF l])
qed simp

declare vl_vlc_align_data_ptr.simps [simp del]

text \<open>Single bytes until the input ends.\<close>

fun fill_bytes :: "nat \<Rightarrow> vl_vlc \<Rightarrow> vl_vlc option" where
  "fill_bytes 0 vlc = Some vlc"
| "fill_bytes (Suc n) vlc = do { vlc \<leftarrow> vlc_load_byte vlc; fill_bytes n vlc }"

text \<open>
  The loop of \<^verbatim>\<open>vl_vlc_fillbits\<close> runs once: after a dword it breaks, and after the last bytes the
  input is depleted.
\<close>

definition vl_vlc_fillbits :: "vl_vlc \<Rightarrow> vl_vlc option" where
  "vl_vlc_fillbits vlc =
     (if invalid_bits vlc \<le> 0 then Some vlc
      else
        let bytes_left = vl_end vlc - vl_data vlc
        in if bytes_left = 0 then Some vlc
           else if bytes_left \<ge> 4 then do {
             x \<leftarrow> rd32 (vl_input vlc) (vl_data vlc);
             y \<leftarrow> shl64 (ucast x) (invalid_bits vlc);
             Some (vlc\<lparr>vl_buffer := vl_buffer vlc OR y, vl_data := vl_data vlc + 4,
                       invalid_bits := invalid_bits vlc - 32\<rparr>)
           }
           else fill_bytes bytes_left vlc)"

definition vl_vlc_init :: "nat \<Rightarrow> bytes \<Rightarrow> u32 \<Rightarrow> vl_vlc option" where
  "vl_vlc_init addr input sz = do {
     vlc \<leftarrow> vl_vlc_align_data_ptr \<lparr>vl_buffer = 0, invalid_bits = 32, vl_data = 0, vl_end = unat sz,
              vl_input = input, vl_addr = addr, vl_size = sz, vl_bytes_left = sz\<rparr>;
     vl_vlc_fillbits vlc
   }"

definition vl_vlc_valid_bits :: "vl_vlc \<Rightarrow> u32" where
  "vl_vlc_valid_bits vlc = of_int (32 - invalid_bits vlc)"

text \<open>\<open>bytes_left\<close> counts the bytes behind the pointer a second time.\<close>

definition vl_vlc_bits_left :: "vl_vlc \<Rightarrow> u32" where
  "vl_vlc_bits_left vlc =
     (of_nat (vl_end vlc) - of_nat (vl_data vlc) + vl_bytes_left vlc) * 8 + vl_vlc_valid_bits vlc"

definition vl_vlc_peekbits :: "vl_vlc \<Rightarrow> u32 \<Rightarrow> u32 option" where
  "vl_vlc_peekbits vlc num_bits =
     (if vl_vlc_valid_bits vlc \<ge> num_bits \<or> vl_data vlc \<ge> vl_end vlc
      then map_option ucast (shr64 (vl_buffer vlc) (64 - uint num_bits)) else None)"

definition vl_vlc_eatbits :: "vl_vlc \<Rightarrow> u32 \<Rightarrow> vl_vlc option" where
  "vl_vlc_eatbits vlc num_bits =
     (if vl_vlc_valid_bits vlc \<ge> num_bits
      then do {
        w \<leftarrow> shl64 (vl_buffer vlc) (uint num_bits);
        Some (vlc\<lparr>vl_buffer := w, invalid_bits := invalid_bits vlc + uint num_bits\<rparr>)
      }
      else None)"

definition vl_vlc_get_uimsbf :: "vl_vlc \<Rightarrow> u32 \<Rightarrow> (u32 \<times> vl_vlc) option" where
  "vl_vlc_get_uimsbf vlc num_bits =
     (if vl_vlc_valid_bits vlc \<ge> num_bits
      then do {
        value \<leftarrow> shr64 (vl_buffer vlc) (64 - uint num_bits);
        vlc \<leftarrow> vl_vlc_eatbits vlc num_bits;
        Some (ucast value, vlc)
      }
      else None)"

definition vl_vlc_get_simsbf :: "vl_vlc \<Rightarrow> u32 \<Rightarrow> (u32 \<times> vl_vlc) option" where
  "vl_vlc_get_simsbf vlc num_bits =
     (if vl_vlc_valid_bits vlc \<ge> num_bits \<and> 0 < num_bits \<and> num_bits \<le> 64
      then do {
        vlc' \<leftarrow> vl_vlc_eatbits vlc num_bits;
        Some (ucast (signed_drop_bit (64 - unat num_bits) (vl_buffer vlc)), vlc')
      }
      else None)"

section \<open>The search for a byte\<close>

text \<open>\<open>~0\<close> stands for no limit on the number of bits.\<close>

definition search_step :: "u32 \<Rightarrow> u32" where
  "search_step num_bits = (if num_bits \<noteq> - 1 then num_bits - 8 else num_bits)"

lemma eatbits_valid:
  assumes "vl_vlc_eatbits vlc n = Some vlc'"
  shows "vl_vlc_valid_bits vlc' = vl_vlc_valid_bits vlc - n" "n \<le> vl_vlc_valid_bits vlc"
  using assms by (auto simp: vl_vlc_eatbits_def vl_vlc_valid_bits_def split: Option.bind_splits if_splits)

text \<open>The bits in the buffer: \<open>Some True\<close> is a match, \<open>Some False\<close> the end of the limit.\<close>

function search_buffer :: "vl_vlc \<Rightarrow> u32 \<Rightarrow> u8 \<Rightarrow> (bool option \<times> u32 \<times> vl_vlc) option" where
  "search_buffer vlc num_bits value =
     (if vl_vlc_valid_bits vlc > 0 then do {
        x \<leftarrow> vl_vlc_peekbits vlc 8;
        if x = ucast value then do { vlc \<leftarrow> vl_vlc_fillbits vlc; Some (Some True, num_bits, vlc) }
        else do {
          vlc \<leftarrow> vl_vlc_eatbits vlc 8;
          let num_bits = search_step num_bits;
          if num_bits = 0 then Some (Some False, num_bits, vlc)
          else search_buffer vlc num_bits value
        }
      }
      else Some (None, num_bits, vlc))"
  by pat_completeness auto

termination
proof (relation "measure (\<lambda>(vlc, _, _). unat (vl_vlc_valid_bits vlc))", goal_cases)
  case (2 vlc num_bits val x vlc' nb)
  have "unat (vl_vlc_valid_bits vlc') + 8 = unat (vl_vlc_valid_bits vlc)"
    using eatbits_valid [OF 2(4)] by (simp add: unat_sub word_le_nat_alt)
  then show ?case by simp
qed simp

declare search_buffer.simps [simp del]

text \<open>The bytes behind the buffer, at most \<open>n\<close>.\<close>

fun search_data :: "nat \<Rightarrow> vl_vlc \<Rightarrow> u32 \<Rightarrow> u8 \<Rightarrow> (bool \<times> vl_vlc) option" where
  "search_data 0 vlc num_bits value = Some (False, vlc)"
| "search_data (Suc n) vlc num_bits value = do {
     x \<leftarrow> rd8 (vl_input vlc) (vl_data vlc);
     if x = value then do {
       vlc \<leftarrow> vl_vlc_align_data_ptr vlc;
       vlc \<leftarrow> vl_vlc_fillbits vlc;
       Some (True, vlc)
     }
     else
       let vlc = vlc\<lparr>vl_data := vl_data vlc + 1\<rparr>; num_bits = search_step num_bits
       in if num_bits = 0 then map_option (Pair False) (vl_vlc_align_data_ptr vlc)
          else search_data n vlc num_bits value
   }"

definition vl_vlc_search_byte :: "vl_vlc \<Rightarrow> u32 \<Rightarrow> u8 \<Rightarrow> (bool \<times> vl_vlc) option" where
  "vl_vlc_search_byte vlc num_bits value =
     (if vl_vlc_valid_bits vlc mod 8 = 0 \<and> (num_bits = - 1 \<or> num_bits mod 8 = 0)
      then do {
        (found, num_bits, vlc) \<leftarrow> search_buffer vlc num_bits value;
        (case found of
           Some b \<Rightarrow> Some (b, vlc)
         | None \<Rightarrow> search_data (vl_end vlc - vl_data vlc) vlc num_bits value)
      }
      else None)"

definition vl_vlc_removebits :: "vl_vlc \<Rightarrow> u32 \<Rightarrow> u32 \<Rightarrow> vl_vlc option" where
  "vl_vlc_removebits vlc pos num_bits = do {
     m \<leftarrow> shr64 (- 1) (uint (pos + num_bits));
     lo \<leftarrow> shl64 (vl_buffer vlc AND m) (uint num_bits);
     m \<leftarrow> shl64 (- 1) (uint (64 - pos));
     Some (vlc\<lparr>vl_buffer := lo OR (vl_buffer vlc AND m), invalid_bits := invalid_bits vlc + uint num_bits\<rparr>)
   }"

definition vl_vlc_limit :: "vl_vlc \<Rightarrow> u32 \<Rightarrow> vl_vlc option" where
  "vl_vlc_limit vlc bits_left =
     (if bits_left \<le> vl_vlc_bits_left vlc then do {
        vlc \<leftarrow> vl_vlc_fillbits vlc;
        let valid = vl_vlc_valid_bits vlc;
        if bits_left < valid then
          let vlc = vlc\<lparr>invalid_bits := 32 - uint bits_left\<rparr>
          in do {
            m \<leftarrow> shl64 (- 1) (invalid_bits vlc + 32);
            Some (vlc\<lparr>vl_buffer := vl_buffer vlc AND m, vl_end := vl_data vlc, vl_bytes_left := 0\<rparr>)
          }
        else if (bits_left - valid) mod 8 \<noteq> 0 then None
        else
          let n = (bits_left - valid) div 8
          in if unat n < vl_end vlc - vl_data vlc
             then Some (vlc\<lparr>vl_end := vl_data vlc + unat n, vl_bytes_left := 0\<rparr>)
             else Some (vlc\<lparr>vl_bytes_left := n - of_nat (vl_end vlc - vl_data vlc)\<rparr>)
      }
      else None)"

section \<open>The raw byte sequence payload\<close>

record vl_rbsp =
  rbsp_nal :: vl_vlc
  rbsp_escaped :: u32
  rbsp_removed :: u32

text \<open>The search for the end of the NAL unit; \<open>nal\<close> runs ahead of the copy \<open>start\<close>.\<close>

partial_function (option) rbsp_find_end :: "vl_vlc \<Rightarrow> vl_vlc \<Rightarrow> u32 \<Rightarrow> u32 \<Rightarrow> vl_vlc option" where
  [code]: "rbsp_find_end start nal num_bits bits_left = do {
     (found, nal) \<leftarrow> vl_vlc_search_byte nal num_bits 0;
     if \<not> found then Some start
     else do {
       x \<leftarrow> vl_vlc_peekbits nal 24;
       y \<leftarrow> (if x = 1 then Some 1 else vl_vlc_peekbits nal 32);
       if x = 1 \<or> y = 1 then vl_vlc_limit start (bits_left - vl_vlc_bits_left nal)
       else do {
         nal \<leftarrow> vl_vlc_eatbits nal 8;
         rbsp_find_end start nal num_bits bits_left
       }
     }
   }"

text \<open>The emulation prevention bytes in the buffer at the start; \<open>valid\<close> is not updated.\<close>

partial_function (option) rbsp_init_escape :: "vl_vlc \<Rightarrow> u32 \<Rightarrow> u32 \<Rightarrow> vl_vlc option" where
  [code]: "rbsp_init_escape nal valid i =
     (if i \<le> valid then do {
        x \<leftarrow> vl_vlc_peekbits nal i;
        if x AND 0xffffff = 3 then do {
          nal \<leftarrow> vl_vlc_removebits nal (i - 8) 8;
          rbsp_init_escape nal valid (i + 16)
        }
        else rbsp_init_escape nal valid (i + 8)
      }
      else Some nal)"

definition vl_rbsp_init :: "vl_vlc \<Rightarrow> u32 \<Rightarrow> vl_rbsp option" where
  "vl_rbsp_init nal num_bits = do {
     r \<leftarrow> rbsp_find_end nal nal num_bits (vl_vlc_bits_left nal);
     r \<leftarrow> rbsp_init_escape r (vl_vlc_valid_bits r) 24;
     let valid = vl_vlc_valid_bits r;
     Some \<lparr>rbsp_nal = r, rbsp_escaped = (if valid \<ge> 16 then 16 else if valid \<ge> 8 then 8 else 0),
           rbsp_removed = 0\<rparr>
   }"

partial_function (option) rbsp_escape :: "vl_rbsp \<Rightarrow> u32 \<Rightarrow> u32 \<Rightarrow> vl_rbsp option" where
  [code]: "rbsp_escape r bits i =
     (if i \<le> bits then do {
        x \<leftarrow> vl_vlc_peekbits (rbsp_nal r) i;
        if x AND 0xffffff = 3 then do {
          nal \<leftarrow> vl_vlc_removebits (rbsp_nal r) (i - 8) 8;
          rbsp_escape (r\<lparr>rbsp_nal := nal, rbsp_escaped := bits - i, rbsp_removed := rbsp_removed r + 8\<rparr>)
            (bits - 8) (i + 16)
        }
        else rbsp_escape r bits (i + 8)
      }
      else Some r)"

definition vl_rbsp_fillbits :: "vl_rbsp \<Rightarrow> vl_rbsp option" where
  "vl_rbsp_fillbits r =
     (let valid = vl_vlc_valid_bits (rbsp_nal r)
      in if valid \<ge> 32 then Some r
         else do {
           nal \<leftarrow> vl_vlc_fillbits (rbsp_nal r);
           if vl_vlc_bits_left nal < 24 then Some (r\<lparr>rbsp_nal := nal\<rparr>)
           else rbsp_escape (r\<lparr>rbsp_nal := nal, rbsp_escaped := 16\<rparr>) (vl_vlc_valid_bits nal)
             (valid - rbsp_escaped r + 24)
         })"

definition rbsp_get :: "vl_rbsp \<Rightarrow> u32 \<Rightarrow> (u32 \<times> vl_rbsp) option" where
  "rbsp_get r n = do {
     (x, nal) \<leftarrow> vl_vlc_get_uimsbf (rbsp_nal r) n;
     Some (x, r\<lparr>rbsp_nal := nal\<rparr>)
   }"

definition vl_rbsp_u :: "vl_rbsp \<Rightarrow> u32 \<Rightarrow> (u32 \<times> vl_rbsp) option" where
  "vl_rbsp_u r n =
     (if n = 0 then Some (0, r)
      else do {
        r \<leftarrow> vl_rbsp_fillbits r;
        r \<leftarrow> (if n > 16 then vl_rbsp_fillbits r else Some r);
        rbsp_get r n
      })"

partial_function (option) rbsp_zeros :: "vl_rbsp \<Rightarrow> u32 \<Rightarrow> (u32 \<times> vl_rbsp) option" where
  [code]: "rbsp_zeros r bits = do {
     (x, r) \<leftarrow> rbsp_get r 1;
     if x \<noteq> 0 then Some (bits, r) else rbsp_zeros r (bits + 1)
   }"

definition vl_rbsp_ue :: "vl_rbsp \<Rightarrow> (u32 \<times> vl_rbsp) option" where
  "vl_rbsp_ue r = do {
     r \<leftarrow> vl_rbsp_fillbits r;
     (bits, r) \<leftarrow> rbsp_zeros r 0;
     (x, r) \<leftarrow> vl_rbsp_u r bits;
     if bits < 31 then Some (push_bit (unat bits) 1 - 1 + x, r) else None
   }"

definition vl_rbsp_se :: "vl_rbsp \<Rightarrow> (u32 \<times> vl_rbsp) option" where
  "vl_rbsp_se r = do {
     (codeNum, r) \<leftarrow> vl_rbsp_ue r;
     Some (if codeNum AND 1 \<noteq> 0 then signed_drop_bit 1 (codeNum + 1) else - signed_drop_bit 1 codeNum, r)
   }"

definition vl_rbsp_more_data :: "vl_rbsp \<Rightarrow> bool option" where
  "vl_rbsp_more_data r =
     (if vl_vlc_bits_left (rbsp_nal r) > 8 then Some True
      else
        let bits = vl_vlc_valid_bits (rbsp_nal r)
        in do {
          value \<leftarrow> vl_vlc_peekbits (rbsp_nal r) bits;
          Some (\<not> (value = 0 \<or> value = push_bit (unat (bits - 1)) 1))
        })"


section \<open>Headers and slices\<close>

datatype ChiakiCodec = CHIAKI_CODEC_H264 | CHIAKI_CODEC_H265 | CHIAKI_CODEC_H265_HDR

definition chiaki_codec_is_h265 :: "ChiakiCodec \<Rightarrow> bool" where
  "chiaki_codec_is_h265 codec \<longleftrightarrow> codec = CHIAKI_CODEC_H265 \<or> codec = CHIAKI_CODEC_H265_HDR"

text \<open>
  The union over the codecs is one number, the only member of each of its structs:
  \<^verbatim>\<open>h264.sps.log2_max_frame_num_minus4\<close> and \<^verbatim>\<open>h265.sps.log2_max_pic_order_cnt_lsb_minus4\<close>.
\<close>

record bitstream =
  bs_codec :: ChiakiCodec
  bs_sps :: u32

datatype slice_type =
    CHIAKI_BITSTREAM_SLICE_UNKNOWN
  | CHIAKI_BITSTREAM_SLICE_I
  | CHIAKI_BITSTREAM_SLICE_P

record bitstream_slice =
  slice_type :: slice_type
  reference_frame :: u32

fun startcode_loop :: "nat \<Rightarrow> vl_vlc \<Rightarrow> vl_vlc option" where
  "startcode_loop 0 vlc = Some vlc"
| "startcode_loop (Suc n) vlc =
     (if vl_vlc_bits_left vlc \<ge> 32 then do {
        x \<leftarrow> vl_vlc_peekbits vlc 32;
        if x = 1 then Some vlc
        else do {
          vlc \<leftarrow> vl_vlc_eatbits vlc 8;
          vlc \<leftarrow> vl_vlc_fillbits vlc;
          startcode_loop n vlc
        }
      }
      else Some vlc)"

definition skip_startcode :: "vl_vlc \<Rightarrow> (bool \<times> vl_vlc) option" where
  "skip_startcode vlc = do {
     vlc \<leftarrow> vl_vlc_fillbits vlc;
     vlc \<leftarrow> startcode_loop 64 vlc;
     x \<leftarrow> vl_vlc_peekbits vlc 32;
     if x \<noteq> 1 then Some (False, vlc)
     else do {
       vlc \<leftarrow> vl_vlc_eatbits vlc 32;
       vlc \<leftarrow> vl_vlc_fillbits vlc;
       Some (True, vlc)
     }
   }"

text \<open>The header of a NAL unit: its type and what is behind the header.\<close>

definition nal_h264 :: "vl_vlc \<Rightarrow> (u32 \<times> vl_vlc) option" where
  "nal_h264 vlc = do {
     vlc \<leftarrow> vl_vlc_eatbits vlc 1;
     vlc \<leftarrow> vl_vlc_eatbits vlc 2;
     vl_vlc_get_uimsbf vlc 5
   }"

definition nal_h265 :: "vl_vlc \<Rightarrow> (u32 \<times> vl_vlc) option" where
  "nal_h265 vlc = do {
     vlc \<leftarrow> vl_vlc_eatbits vlc 1;
     (nal_unit_type, vlc) \<leftarrow> vl_vlc_get_uimsbf vlc 6;
     vlc \<leftarrow> vl_vlc_eatbits vlc 6;
     vlc \<leftarrow> vl_vlc_eatbits vlc 3;
     Some (nal_unit_type, vlc)
   }"

text \<open>Fields that are read and dropped, one after the other.\<close>

fun skip_u :: "u32 list \<Rightarrow> vl_rbsp \<Rightarrow> vl_rbsp option" where
  "skip_u [] r = Some r"
| "skip_u (n # ns) r = do { (_, r) \<leftarrow> vl_rbsp_u r n; skip_u ns r }"

fun skip_ue :: "nat \<Rightarrow> vl_rbsp \<Rightarrow> vl_rbsp option" where
  "skip_ue 0 r = Some r"
| "skip_ue (Suc n) r = do { (_, r) \<leftarrow> vl_rbsp_ue r; skip_ue n r }"

text \<open>The number that both headers end with: it is kept even when it is rejected.\<close>

definition store_sps :: "bitstream \<Rightarrow> vl_rbsp \<Rightarrow> (bool \<times> bitstream) option" where
  "store_sps bs r = do {
     (x, r) \<leftarrow> vl_rbsp_ue r;
     Some (\<not> x > 12, bs\<lparr>bs_sps := x\<rparr>)
   }"

definition high_profiles :: "u32 list" where
  "high_profiles = [100, 110, 122, 244, 44, 83, 86, 118, 128, 138, 139, 134, 135]"

definition header_h264_rbsp :: "bitstream \<Rightarrow> vl_rbsp \<Rightarrow> (bool \<times> bitstream) option" where
  "header_h264_rbsp bs r = do {
     (profile_idc, r) \<leftarrow> vl_rbsp_u r 8;
     r \<leftarrow> skip_u [6, 2, 8] r;
     r \<leftarrow> skip_ue 1 r;
     if profile_idc \<in> set high_profiles then do {
       (chroma_format_idc, r) \<leftarrow> vl_rbsp_ue r;
       r \<leftarrow> (if chroma_format_idc = 3 then skip_u [1] r else Some r);
       r \<leftarrow> skip_ue 2 r;
       r \<leftarrow> skip_u [1] r;
       (scaling, r) \<leftarrow> vl_rbsp_u r 1;
       if scaling \<noteq> 0 then Some (False, bs) else store_sps bs r
     }
     else store_sps bs r
   }"

definition header_h264 :: "nat \<Rightarrow> bitstream \<Rightarrow> bytes \<Rightarrow> u32 \<Rightarrow> (bool \<times> bitstream) option" where
  "header_h264 addr bs data sz = do {
     vlc \<leftarrow> vl_vlc_init addr data sz;
     (found, vlc) \<leftarrow> skip_startcode vlc;
     if \<not> found then Some (False, bs)
     else do {
       (nal_unit_type, vlc) \<leftarrow> nal_h264 vlc;
       if nal_unit_type \<noteq> 7 then Some (False, bs)
       else do { r \<leftarrow> vl_rbsp_init vlc (- 1); header_h264_rbsp bs r }
     }
   }"

definition header_h265_rbsp :: "bitstream \<Rightarrow> vl_rbsp \<Rightarrow> (bool \<times> bitstream) option" where
  "header_h265_rbsp bs r = do {
     r \<leftarrow> skip_u [4, 3, 1, 2, 1, 5, 32, 1, 1, 1, 1, 32, 11, 1, 8] r;
     r \<leftarrow> skip_ue 1 r;
     (chroma_format_idc, r) \<leftarrow> vl_rbsp_ue r;
     r \<leftarrow> (if chroma_format_idc = 3 then skip_u [1] r else Some r);
     r \<leftarrow> skip_ue 2 r;
     (conformance_window, r) \<leftarrow> vl_rbsp_u r 1;
     r \<leftarrow> (if conformance_window \<noteq> 0 then skip_ue 4 r else Some r);
     r \<leftarrow> skip_ue 2 r;
     store_sps bs r
   }"

text \<open>From the label \<^verbatim>\<open>sps_start\<close>: a video parameter set is skipped.\<close>

partial_function (option) sps_start :: "vl_vlc \<Rightarrow> vl_vlc option option" where
  [code]: "sps_start vlc = do {
     (found, vlc) \<leftarrow> skip_startcode vlc;
     if \<not> found then Some None
     else do {
       (nal_unit_type, vlc) \<leftarrow> nal_h265 vlc;
       if nal_unit_type = 32 then sps_start vlc
       else if nal_unit_type \<noteq> 33 then Some None
       else Some (Some vlc)
     }
   }"

definition header_h265 :: "nat \<Rightarrow> bitstream \<Rightarrow> bytes \<Rightarrow> u32 \<Rightarrow> (bool \<times> bitstream) option" where
  "header_h265 addr bs data sz = do {
     vlc \<leftarrow> vl_vlc_init addr data sz;
     found \<leftarrow> sps_start vlc;
     (case found of
        None \<Rightarrow> Some (False, bs)
      | Some vlc \<Rightarrow> do { r \<leftarrow> vl_rbsp_init vlc (- 1); header_h265_rbsp bs r })
   }"

text \<open>The list of modifications: its end mark must come behind at most two of them.\<close>

fun modification_loop ::
  "nat \<Rightarrow> u32 \<Rightarrow> vl_rbsp \<Rightarrow> bitstream_slice \<Rightarrow> (bool \<times> bitstream_slice) option" where
  "modification_loop 0 idc r sl = Some (False, sl)"
| "modification_loop (Suc n) idc r sl =
     (if idc < 3 then do {
        (x, r) \<leftarrow> vl_rbsp_ue r;
        (idc', r) \<leftarrow> vl_rbsp_ue r;
        modification_loop n idc' r (if idc = 0 then sl\<lparr>reference_frame := x\<rparr> else sl)
      }
      else Some (idc = 3, sl))"

definition slice_h264_rbsp ::
  "bitstream \<Rightarrow> u32 \<Rightarrow> vl_rbsp \<Rightarrow> bitstream_slice \<Rightarrow> (bool \<times> bitstream_slice) option" where
  "slice_h264_rbsp bs nal_unit_type r sl = do {
     r \<leftarrow> skip_ue 1 r;
     (t, r) \<leftarrow> vl_rbsp_ue r;
     let sl = sl\<lparr>slice_type := if t = 0 \<or> t = 5 then CHIAKI_BITSTREAM_SLICE_P
                                     else if t = 2 \<or> t = 7 then CHIAKI_BITSTREAM_SLICE_I
                                     else CHIAKI_BITSTREAM_SLICE_UNKNOWN\<rparr>;
     if nal_unit_type = 1 then do {
       let sl = sl\<lparr>reference_frame := 0\<rparr>;
       r \<leftarrow> skip_ue 1 r;
       r \<leftarrow> skip_u [bs_sps bs + 4] r;
       (override, r) \<leftarrow> vl_rbsp_u r 1;
       r \<leftarrow> (if override \<noteq> 0 then do {
               (override, r) \<leftarrow> vl_rbsp_u r 1;
               if override \<noteq> 0 then skip_ue 1 r else Some r
             }
             else Some r);
       (modification, r) \<leftarrow> vl_rbsp_u r 1;
       if modification \<noteq> 0 then do {
         (idc, r) \<leftarrow> vl_rbsp_ue r;
         modification_loop 3 idc r sl
       }
       else Some (True, sl)
     }
     else Some (True, sl)
   }"

definition slice_h264 ::
  "nat \<Rightarrow> bitstream \<Rightarrow> bytes \<Rightarrow> u32 \<Rightarrow> bitstream_slice \<Rightarrow> (bool \<times> bitstream_slice) option" where
  "slice_h264 addr bs data sz sl = do {
     vlc \<leftarrow> vl_vlc_init addr data sz;
     (found, vlc) \<leftarrow> skip_startcode vlc;
     if \<not> found then Some (False, sl)
     else do {
       (nal_unit_type, vlc) \<leftarrow> nal_h264 vlc;
       if nal_unit_type \<noteq> 1 \<and> nal_unit_type \<noteq> 5 then Some (False, sl)
       else do { r \<leftarrow> vl_rbsp_init vlc (- 1); slice_h264_rbsp bs nal_unit_type r sl }
     }
   }"

text \<open>The first flag of a picture that is used, among the \<open>n\<close> pictures from \<open>i\<close> on.\<close>

fun used_pic_loop :: "nat \<Rightarrow> u32 \<Rightarrow> vl_rbsp \<Rightarrow> bitstream_slice \<Rightarrow> bitstream_slice option" where
  "used_pic_loop 0 i r sl = Some sl"
| "used_pic_loop (Suc n) i r sl = do {
     r \<leftarrow> skip_ue 1 r;
     (used, r) \<leftarrow> vl_rbsp_u r 1;
     if used \<noteq> 0 then Some (sl\<lparr>reference_frame := i\<rparr>) else used_pic_loop n (i + 1) r sl
   }"

text \<open>The fields of a slice in front of its type.\<close>

definition slice_start_h265 :: "u32 \<Rightarrow> vl_rbsp \<Rightarrow> vl_rbsp option" where
  "slice_start_h265 nal_unit_type r = do {
     (first, r) \<leftarrow> vl_rbsp_u r 1;
     r \<leftarrow> (if nal_unit_type = 20 then skip_u [1] r else Some r);
     r \<leftarrow> skip_ue 1 r;
     if first = 0 then skip_ue 1 r else Some r
   }"

definition slice_h265_rbsp ::
  "bitstream \<Rightarrow> u32 \<Rightarrow> vl_rbsp \<Rightarrow> bitstream_slice \<Rightarrow> (bool \<times> bitstream_slice) option" where
  "slice_h265_rbsp bs nal_unit_type r sl = do {
     r \<leftarrow> slice_start_h265 nal_unit_type r;
     (t, r) \<leftarrow> vl_rbsp_ue r;
     let sl = sl\<lparr>slice_type := if t = 1 then CHIAKI_BITSTREAM_SLICE_P
                                     else if t = 2 then CHIAKI_BITSTREAM_SLICE_I
                                     else CHIAKI_BITSTREAM_SLICE_UNKNOWN\<rparr>;
     if nal_unit_type = 1 then do {
       let sl = sl\<lparr>reference_frame := 0xff\<rparr>;
       r \<leftarrow> skip_u [bs_sps bs + 4] r;
       (sps_flag, r) \<leftarrow> vl_rbsp_u r 1;
       if sps_flag = 0 then do {
         (num_negative_pics, r) \<leftarrow> vl_rbsp_ue r;
         if num_negative_pics > 16 then Some (False, sl)
         else do {
           r \<leftarrow> skip_ue 1 r;
           sl \<leftarrow> used_pic_loop (unat num_negative_pics) 0 r sl;
           Some (True, sl)
         }
       }
       else Some (True, sl)
     }
     else Some (True, sl)
   }"

definition slice_h265 ::
  "nat \<Rightarrow> bitstream \<Rightarrow> bytes \<Rightarrow> u32 \<Rightarrow> bitstream_slice \<Rightarrow> (bool \<times> bitstream_slice) option" where
  "slice_h265 addr bs data sz sl = do {
     vlc \<leftarrow> vl_vlc_init addr data sz;
     (found, vlc) \<leftarrow> skip_startcode vlc;
     if \<not> found then Some (False, sl)
     else do {
       (nal_unit_type, vlc) \<leftarrow> nal_h265 vlc;
       if nal_unit_type \<noteq> 1 \<and> nal_unit_type \<noteq> 20 then Some (False, sl)
       else do { r \<leftarrow> vl_rbsp_init vlc (- 1); slice_h265_rbsp bs nal_unit_type r sl }
     }
   }"

text \<open>
  The flag that is read next is set or cleared in the eight bytes of the input in front of the
  pointer; they lie in the input only when the pointer has advanced that far.
\<close>

definition put_flag :: "vl_rbsp \<Rightarrow> bool \<Rightarrow> vl_rbsp option" where
  "put_flag r set_it =
     (let nal = rbsp_nal r; d = vl_data nal
      in if d < 8 then None
         else do {
           hi \<leftarrow> rd32 (vl_input nal) (d - 8);
           lo \<leftarrow> rd32 (vl_input nal) (d - 4);
           let buffer = (ucast lo :: u64) OR push_bit 32 (ucast hi);
           mask \<leftarrow> shl64 1 (64 - 1 - (64 - (32 - invalid_bits nal)));
           let buffer = (if set_it then buffer OR mask else buffer AND NOT mask);
           input \<leftarrow> wr (vl_input nal) (d - 8) (be32 (ucast (drop_bit 32 buffer)));
           input \<leftarrow> wr input (d - 4) (be32 (ucast buffer));
           Some (r\<lparr>rbsp_nal := nal\<lparr>vl_input := input\<rparr>\<rparr>)
         })"

text \<open>The result, and the input with the flags that were written.\<close>

fun set_ref_loop :: "nat \<Rightarrow> u32 \<Rightarrow> u32 \<Rightarrow> vl_rbsp \<Rightarrow> (bool \<times> bytes) option" where
  "set_ref_loop 0 i ref r = Some (False, vl_input (rbsp_nal r))"
| "set_ref_loop (Suc n) i ref r = do {
     r \<leftarrow> skip_ue 1 r;
     r \<leftarrow> put_flag r (i = ref);
     if i = ref then Some (True, vl_input (rbsp_nal r))
     else do {
       r \<leftarrow> skip_u [1] r;
       set_ref_loop n (i + 1) ref r
     }
   }"

definition set_ref_h265_rbsp :: "bitstream \<Rightarrow> bytes \<Rightarrow> u32 \<Rightarrow> vl_rbsp \<Rightarrow> (bool \<times> bytes) option" where
  "set_ref_h265_rbsp bs data ref r = do {
     r \<leftarrow> slice_start_h265 1 r;
     (t, r) \<leftarrow> vl_rbsp_ue r;
     if t \<noteq> 1 then Some (False, data)
     else do {
       r \<leftarrow> skip_u [bs_sps bs + 4] r;
       (sps_flag, r) \<leftarrow> vl_rbsp_u r 1;
       if sps_flag = 0 then do {
         (num_negative_pics, r) \<leftarrow> vl_rbsp_ue r;
         if num_negative_pics > 16 then Some (False, data)
         else do {
           r \<leftarrow> skip_ue 1 r;
           set_ref_loop (unat num_negative_pics) 0 ref r
         }
       }
       else Some (False, data)
     }
   }"

definition slice_set_reference_frame_h265 ::
  "nat \<Rightarrow> bitstream \<Rightarrow> bytes \<Rightarrow> u32 \<Rightarrow> u32 \<Rightarrow> (bool \<times> bytes) option" where
  "slice_set_reference_frame_h265 addr bs data sz ref = do {
     vlc \<leftarrow> vl_vlc_init addr data sz;
     (found, vlc) \<leftarrow> skip_startcode vlc;
     if \<not> found then Some (False, data)
     else do {
       (nal_unit_type, vlc) \<leftarrow> nal_h265 vlc;
       if nal_unit_type \<noteq> 1 then Some (False, data)
       else do { r \<leftarrow> vl_rbsp_init vlc (- 1); set_ref_h265_rbsp bs data ref r }
     }
   }"

section \<open>The interface\<close>

text \<open>\<open>init\<close> leaves the union as it was.\<close>

definition chiaki_bitstream_init :: "bitstream \<Rightarrow> ChiakiCodec \<Rightarrow> bitstream" where
  "chiaki_bitstream_init bs codec = bs\<lparr>bs_codec := codec\<rparr>"

definition chiaki_bitstream_header ::
  "nat \<Rightarrow> bitstream \<Rightarrow> bytes \<Rightarrow> u32 \<Rightarrow> (bool \<times> bitstream) option" where
  "chiaki_bitstream_header addr bs data sz =
     (if bs_codec bs = CHIAKI_CODEC_H264 then header_h264 addr (bs\<lparr>bs_sps := 0\<rparr>) data sz
      else header_h265 addr (bs\<lparr>bs_sps := 0\<rparr>) data sz)"

definition chiaki_bitstream_slice ::
  "nat \<Rightarrow> bitstream \<Rightarrow> bytes \<Rightarrow> u32 \<Rightarrow> bitstream_slice \<Rightarrow> (bool \<times> bitstream_slice) option" where
  "chiaki_bitstream_slice addr bs data sz sl =
     (if bs_codec bs = CHIAKI_CODEC_H264 then slice_h264 addr bs data sz sl
      else slice_h265 addr bs data sz sl)"

definition chiaki_bitstream_slice_set_reference_frame ::
  "nat \<Rightarrow> bitstream \<Rightarrow> bytes \<Rightarrow> u32 \<Rightarrow> u32 \<Rightarrow> (bool \<times> bytes) option" where
  "chiaki_bitstream_slice_set_reference_frame addr bs data sz ref =
     (if bs_codec bs = CHIAKI_CODEC_H264 then Some (False, data)
      else slice_set_reference_frame_h265 addr bs data sz ref)"

end
