(* ===== verification/Bitstream_Props.thy ===== *)
theory Bitstream_Props
  imports Bitstream
begin

text \<open>
  The lemmas on the bit reader and the slice headers it reads.
\<close>

section \<open>Bits of a byte string\<close>

definition sbit :: "bytes \<Rightarrow> nat \<Rightarrow> bool" where
  "sbit bs p \<longleftrightarrow> bit (bs ! (p div 8)) (7 - p mod 8)"

definition seg :: "bytes \<Rightarrow> nat \<Rightarrow> nat \<Rightarrow> bool list" where
  "seg bs p n = map (sbit bs) [p..<p + n]"

definition bits_val :: "bool list \<Rightarrow> nat" where
  "bits_val xs = horner_sum of_bool 2 (rev xs)"

lemma length_seg [simp]: "length (seg bs p n) = n"
  by (simp add: seg_def)

lemma bits_val_Nil [simp]: "bits_val [] = 0"
  by (simp add: bits_val_def)

lemma bits_val_append: "bits_val (xs @ ys) = bits_val xs * 2 ^ length ys + bits_val ys"
  by (simp add: bits_val_def horner_sum_append)

lemma bits_val_single [simp]: "bits_val [b] = of_bool b"
  by (simp add: bits_val_def)

lemma bit_bits_val: "bit (bits_val xs) i \<longleftrightarrow> i < length xs \<and> xs ! (length xs - 1 - i)"
  by (auto simp: bits_val_def bit_horner_sum_bit_iff rev_nth)

lemma bits_val_less: "bits_val xs < 2 ^ length xs"
proof (induction xs rule: rev_induct)
  case (snoc x xs)
  then show ?case by (cases x) (auto simp: bits_val_append)
qed simp

lemma seg_add: "seg bs p (m + n) = seg bs p m @ seg bs (p + m) n"
proof -
  have "[p..<p + m + n] = [p..<p + m] @ [p + m..<p + m + n]" by (rule upt_add_eq_append) simp
  then show ?thesis by (simp add: seg_def add.assoc)
qed

lemma sbit_byte: "i < 8 \<Longrightarrow> sbit bs (8 * j + i) = bit (bs ! j) (7 - i)"
  by (simp add: sbit_def)

lemma seg_byte: "bits_val (seg bs (8 * j) 8) = unat (bs ! j)"
proof (rule bit_eqI)
  fix i
  show "bit (bits_val (seg bs (8 * j) 8)) i = bit (unat (bs ! j)) i"
  proof (cases "i < 8")
    case True
    then have "seg bs (8 * j) 8 ! (7 - i) = bit (bs ! j) i"
      using sbit_byte [of "7 - i" bs j] by (simp add: seg_def)
    with True show ?thesis by (simp add: bit_bits_val bit_unsigned_iff)
  next
    case False
    then show ?thesis by (auto simp: bit_bits_val bit_unsigned_iff dest: bit_imp_le_length)
  qed
qed

section \<open>The reader and a position in the input\<close>

definition vn :: "vl_vlc \<Rightarrow> nat" where
  "vn v = nat (32 - invalid_bits v)"

definition vlc_at :: "bytes \<Rightarrow> nat \<Rightarrow> vl_vlc \<Rightarrow> nat \<Rightarrow> bool" where
  "vlc_at inp e v p \<longleftrightarrow>
     0 \<le> 32 - invalid_bits v \<and> 32 - invalid_bits v \<le> 64 \<and> vl_end v = e \<and> vl_data v \<le> e \<and> e \<le> length inp \<and>
     length (vl_input v) = length inp \<and> length inp < 2 ^ 26 \<and> 8 * vl_data v = p + vn v \<and>
     (\<forall>j. vl_data v \<le> j \<and> j < e \<longrightarrow> vl_input v ! j = inp ! j) \<and>
     (\<forall>k<64. bit (vl_buffer v) (63 - k) \<longleftrightarrow> k < vn v \<and> sbit inp (p + k))"

text \<open>What a refill keeps.\<close>

definition same_input :: "vl_vlc \<Rightarrow> vl_vlc \<Rightarrow> bool" where
  "same_input v v' \<longleftrightarrow> vl_input v' = vl_input v \<and> vl_addr v' = vl_addr v \<and> vl_bytes_left v' = vl_bytes_left v"

lemma same_input_refl [simp]: "same_input v v"
  by (simp add: same_input_def)

lemma same_input_trans: "same_input u v \<Longrightarrow> same_input v w \<Longrightarrow> same_input u w"
  by (simp add: same_input_def)

lemma vn_le: "vlc_at inp e v p \<Longrightarrow> vn v \<le> 64"
  by (auto simp: vlc_at_def vn_def)

lemma invalid_vn: "vlc_at inp e v p \<Longrightarrow> invalid_bits v = 32 - int (vn v)"
  by (simp add: vlc_at_def vn_def)

lemma unat_valid: "vlc_at inp e v p \<Longrightarrow> unat (vl_vlc_valid_bits v) = vn v"
proof -
  assume "vlc_at inp e v p"
  then have "vl_vlc_valid_bits v = of_nat (vn v)" "vn v \<le> 64"
    by (simp_all add: vl_vlc_valid_bits_def invalid_vn vn_le)
  then show ?thesis by (simp add: unat_of_nat_small)
qed

lemma load_byte_at:
  assumes "vlc_at inp e v p" "vn v \<le> 56" "vl_data v < e"
  shows "\<exists>v'. vlc_load_byte v = Some v' \<and> vlc_at inp e v' p \<and> vn v' = vn v + 8 \<and>
    vl_data v' = vl_data v + 1 \<and> same_input v v'"
proof -
  let ?d = "vl_data v"
  have at: "8 * ?d = p + vn v" "e \<le> length inp" "length (vl_input v) = length inp" "vl_input v ! ?d = inp ! ?d"
    "invalid_bits v = 32 - int (vn v)"
    using assms by (auto simp: vlc_at_def vn_def)
  have "24 + invalid_bits v = int (56 - vn v)" using assms(2) at(5) by simp
  then have sh: "shl64 w (24 + invalid_bits v) = Some (push_bit (56 - vn v) w)" for w
    by (simp only: shl64_def nat_int) simp
  let ?v' = "v\<lparr>vl_buffer := vl_buffer v OR push_bit (56 - vn v) (ucast (inp ! ?d)), vl_data := ?d + 1,
    invalid_bits := invalid_bits v - 8\<rparr>"
  have ld: "vlc_load_byte v = Some ?v'"
    unfolding vlc_load_byte_def sh using assms(3) at by (simp add: rd8_def)
  have vn': "vn ?v' = vn v + 8" using at(5) unfolding vn_def [of ?v'] by simp
  have buf: "bit (vl_buffer ?v') (63 - k) \<longleftrightarrow> k < vn v + 8 \<and> sbit inp (p + k)" if k: "k < 64" for k
  proof -
    have old: "bit (vl_buffer v) (63 - k) \<longleftrightarrow> k < vn v \<and> sbit inp (p + k)"
      using assms(1) k by (simp add: vlc_at_def)
    have new: "bit (push_bit (56 - vn v) (ucast (inp ! ?d) :: u64)) (63 - k) \<longleftrightarrow>
        vn v \<le> k \<and> k < vn v + 8 \<and> sbit inp (p + k)"
    proof (cases "vn v \<le> k \<and> k < vn v + 8")
      case True
      then obtain i where i: "k = vn v + i" "i < 8" by (metis le_Suc_ex nat_add_left_cancel_less)
      have "p + k = 8 * ?d + i" using at(1) i by simp
      then have "sbit inp (p + k) = bit (inp ! ?d) (7 - i)" using i(2) by (simp only: sbit_byte)
      then show ?thesis using i k assms(2)
        by (auto simp: bit_push_bit_iff bit_unsigned_iff)
    next
      case False
      then show ?thesis using k assms(2)
        by (auto simp: bit_push_bit_iff bit_unsigned_iff not_le not_less dest: bit_imp_le_length)
    qed
    show ?thesis by (auto simp: bit_or_iff old new)
  qed
  have "vlc_at inp e ?v' p"
    using assms at buf unfolding vlc_at_def vn' by (simp add: vlc_at_def)
  then show ?thesis using ld vn' by (simp add: same_input_def)
qed


lemma align_at:
  assumes "vlc_at inp e v p" "vn v + 8 * ((4 - (vl_addr v + vl_data v) mod 4) mod 4) \<le> 64"
  shows "\<exists>v'. vl_vlc_align_data_ptr v = Some v' \<and> vlc_at inp e v' p \<and> vn v \<le> vn v' \<and>
    vn v' \<le> vn v + 8 * ((4 - (vl_addr v + vl_data v) mod 4) mod 4) \<and> same_input v v'"
  using assms
proof (induction "(4 - (vl_addr v + vl_data v) mod 4) mod 4" arbitrary: v rule: less_induct)
  case less
  let ?a = "vl_addr v + vl_data v"
  show ?case
  proof (cases "vl_data v \<noteq> vl_end v \<and> ?a mod 4 \<noteq> 0")
    case False
    then show ?thesis using less.prems by (subst vl_vlc_align_data_ptr.simps) auto
  next
    case True
    have "?a mod 4 = 1 \<or> ?a mod 4 = 2 \<or> ?a mod 4 = 3"
      using True mod_less_divisor [of 4 ?a] by linarith
    then have dist: "(4 - Suc ?a mod 4) mod 4 + 1 = (4 - ?a mod 4) mod 4" by (auto simp: mod_Suc)
    have d: "vl_data v < e" "vn v \<le> 56" using less.prems True dist by (auto simp: vlc_at_def)
    obtain v1 where v1: "vlc_load_byte v = Some v1" "vlc_at inp e v1 p" "vn v1 = vn v + 8"
      "vl_data v1 = vl_data v + 1" "same_input v v1"
      using load_byte_at [OF less.prems(1) d(2) d(1)] by blast
    have a1: "vl_addr v1 + vl_data v1 = Suc ?a" using v1 by (simp add: same_input_def)
    obtain v2 where v2: "vl_vlc_align_data_ptr v1 = Some v2" "vlc_at inp e v2 p" "vn v1 \<le> vn v2" "vn v2 \<le> vn v1 + 8 * ((4 - Suc ?a mod 4) mod 4)" "same_input v1 v2"
      using less.hyps [of v1] v1(2,3) less.prems(2) dist unfolding a1 by auto
    then show ?thesis
      using v1 dist True by (subst vl_vlc_align_data_ptr.simps) (auto intro: same_input_trans)
  qed
qed

lemma fill_bytes_at:
  assumes "vlc_at inp e v p" "vn v + 8 * n \<le> 64" "vl_data v + n \<le> e"
  shows "\<exists>v'. fill_bytes n v = Some v' \<and> vlc_at inp e v' p \<and> vn v' = vn v + 8 * n \<and>
    vl_data v' = vl_data v + n \<and> same_input v v'"
  using assms
proof (induction n arbitrary: v)
  case (Suc n)
  obtain v1 where v1: "vlc_load_byte v = Some v1" "vlc_at inp e v1 p" "vn v1 = vn v + 8"
    "vl_data v1 = vl_data v + 1" "same_input v v1"
    using load_byte_at [OF Suc.prems(1)] Suc.prems(2,3) by auto
  then show ?case using Suc.IH [of v1] Suc.prems(2,3) by (auto intro: same_input_trans)
qed simp


lemma ucast_join32:
  "(ucast (join32 (join16 a b) (join16 c d)) :: u64) =
   push_bit 24 (ucast a) OR push_bit 16 (ucast b) OR push_bit 8 (ucast c) OR ucast d"
  unfolding join32_def join16_def
  by (rule bit_word_eqI) (auto simp: bit_simps dest: bit_imp_le_length)

text \<open>A dword is four single bytes.\<close>

lemma fill_dword:
  assumes "0 < invalid_bits v" "invalid_bits v \<le> 32" "vl_data v + 4 \<le> vl_end v" "vl_end v \<le> length (vl_input v)"
  shows "vl_vlc_fillbits v = fill_bytes 4 v"
proof -
  obtain n where n: "invalid_bits v = int n" "0 < n" "n \<le> 32"
    using assms(1,2) that [of "nat (invalid_bits v)"] by simp
  have nats: "nat (24 + int n) = 24 + n" "nat (16 + int n) = 16 + n" "nat (8 + int n) = 8 + n" by simp_all
  have l: "vlc_load_byte w = Some (w\<lparr>vl_buffer := vl_buffer w OR push_bit (nat (24 + invalid_bits w))
      (ucast (vl_input w ! vl_data w)), vl_data := vl_data w + 1, invalid_bits := invalid_bits w - 8\<rparr>)"
    if "vl_data w < length (vl_input w)" "0 \<le> 24 + invalid_bits w" "24 + invalid_bits w < 64" for w
    using that by (simp add: vlc_load_byte_def rd8_def shl64_def)
  have f: "fill_bytes 4 v = do { v \<leftarrow> vlc_load_byte v; v \<leftarrow> vlc_load_byte v; v \<leftarrow> vlc_load_byte v; vlc_load_byte v }"
  proof -
    have eta: "fill_bytes (Suc m) = (\<lambda>v. vlc_load_byte v \<bind> fill_bytes m)" for m by (rule ext) simp
    have zero: "fill_bytes 0 = Some" by (rule ext) simp
    show ?thesis by (simp add: eval_nat_numeral eta zero)
  qed
  have d: "vl_data v + 3 = Suc (Suc (Suc (vl_data v)))" "vl_data v + 4 = Suc (Suc (Suc (Suc (vl_data v))))"
    by simp_all
  have "fill_bytes 4 v = Some (v\<lparr>vl_buffer := vl_buffer v OR push_bit (24 + n) (ucast (vl_input v ! vl_data v)) OR
      push_bit (16 + n) (ucast (vl_input v ! (vl_data v + 1))) OR
      push_bit (8 + n) (ucast (vl_input v ! (vl_data v + 2))) OR push_bit n (ucast (vl_input v ! (vl_data v + 3))),
      vl_data := vl_data v + 4, invalid_bits := int n - 32\<rparr>)"
    unfolding f using n assms(3,4) by (simp add: l nats or.assoc d)
  moreover have "vl_vlc_fillbits v = Some (v\<lparr>vl_buffer := vl_buffer v OR
      push_bit n (ucast (join32 (join16 (vl_input v ! vl_data v) (vl_input v ! (vl_data v + 1)))
        (join16 (vl_input v ! (vl_data v + 2)) (vl_input v ! (vl_data v + 3))))),
      vl_data := vl_data v + 4, invalid_bits := int n - 32\<rparr>)"
    unfolding vl_vlc_fillbits_def n(1) Let_def using n(2,3) assms(3,4) by (simp add: rd32_Some shl64_def)
  ultimately show ?thesis
    by (simp only: ucast_join32 push_bit_or push_bit_push_bit or.assoc add.commute [of n])
qed

lemma fillbits_at:
  assumes "vlc_at inp e v p"
  shows "\<exists>v'. vl_vlc_fillbits v = Some v' \<and> vlc_at inp e v' p \<and> vn v \<le> vn v' \<and> vn v' \<le> max (vn v) (vn v + 32) \<and>
    (32 \<le> vn v' \<or> vl_data v' = e) \<and> vl_data v \<le> vl_data v' \<and> vl_data v' \<le> vl_data v + 4 \<and> same_input v v' \<and>
    (32 \<le> vn v \<longrightarrow> v' = v)"
proof -
  have v: "invalid_bits v = 32 - int (vn v)" "vl_end v = e" "vl_data v \<le> e" "e \<le> length inp"
    "length (vl_input v) = length inp" "vn v \<le> 64"
    using assms vn_le [OF assms] by (auto simp: vlc_at_def vn_def)
  show ?thesis
  proof (cases "vn v < 32 \<and> vl_data v < e")
    case False
    then show ?thesis using v assms by (auto simp: vl_vlc_fillbits_def)
  next
    case True
    let ?n = "min 4 (e - vl_data v)"
    have "vl_vlc_fillbits v = fill_bytes ?n v"
    proof (cases "vl_data v + 4 \<le> e")
      case le: True
      then show ?thesis using fill_dword [of v] v True by simp
    next
      case less: False
      then have "?n = e - vl_data v" "\<not> 4 \<le> e - vl_data v" by simp_all
      then show ?thesis using v True by (simp add: vl_vlc_fillbits_def)
    qed
    moreover obtain v' where v': "fill_bytes ?n v = Some v'" "vlc_at inp e v' p" "vn v' = vn v + 8 * ?n"
      "vl_data v' = vl_data v + ?n" "same_input v v'"
      using fill_bytes_at [OF assms, of ?n] True v(1,3) by force
    ultimately show ?thesis using v' True by (intro exI [of _ v']) auto
  qed
qed

lemma bits_left_at:
  assumes "vlc_at inp e v p" "unat (vl_bytes_left v) \<le> length inp"
  shows "unat (vl_vlc_bits_left v) + p = 8 * (e + unat (vl_bytes_left v))"
proof -
  let ?n = "e - vl_data v" and ?b = "unat (vl_bytes_left v)"
  have v: "vl_end v = e" "vl_data v \<le> e" "e \<le> length inp" "length inp < 2 ^ 26" "8 * vl_data v = p + vn v"
    using assms by (auto simp: vlc_at_def)
  have "vl_vlc_valid_bits v = of_nat (vn v)" using unat_valid [OF assms(1)] by (metis of_nat_unat ucast_id)
  moreover have "vl_bytes_left v = of_nat ?b" by simp
  ultimately have "vl_vlc_bits_left v = of_nat ((?n + ?b) * 8 + vn v)"
    unfolding vl_vlc_bits_left_def using v(1,2) by (simp only: of_nat_diff of_nat_add of_nat_mult of_nat_numeral)
  moreover have "(?n + ?b) * 8 + vn v < 2 ^ LENGTH(32)" using v vn_le [OF assms(1)] assms(2) by simp
  ultimately have "unat (vl_vlc_bits_left v) = (?n + ?b) * 8 + vn v" by (simp only: unat_of_nat_small)
  then show ?thesis using v by simp
qed


section \<open>Reading bits\<close>

lemma uint_of_nat_u32: "n < 2 ^ 32 \<Longrightarrow> uint (of_nat n :: u32) = int n"
  unfolding uint_nat by (simp add: unat_of_nat_small)

lemma vlc_at_bit: "vlc_at inp e v p \<Longrightarrow> k < 64 \<Longrightarrow> bit (vl_buffer v) (63 - k) \<longleftrightarrow> k < vn v \<and> sbit inp (p + k)"
  by (simp only: vlc_at_def)

lemma shr64_nat: "i < 64 \<Longrightarrow> shr64 w (int i) = Some (drop_bit i w)"
  by (simp add: shr64_def)

lemma vlc_at_fields:
  assumes "vlc_at inp e v p"
  shows "8 * vl_data v = p + vn v" "vl_data v \<le> e" "e \<le> length inp" "length (vl_input v) = length inp"
    "\<And>j. vl_data v \<le> j \<Longrightarrow> j < e \<Longrightarrow> vl_input v ! j = inp ! j" "length inp < 2 ^ 26" "vl_end v = e"
  using assms by (simp_all add: vlc_at_def)

lemma unat_valid_ge: "vlc_at inp e v p \<Longrightarrow> n < 2 ^ 32 \<Longrightarrow> vl_vlc_valid_bits v \<ge> of_nat n \<longleftrightarrow> n \<le> vn v"
  by (simp add: word_le_nat_alt unat_valid unat_of_nat_small)

text \<open>The top bits of the buffer; behind the last bit of the input they are zero.\<close>

lemma buffer_top:
  assumes "vlc_at inp e v p" "0 < n" "n \<le> 32" "n \<le> vn v"
  shows "(ucast (drop_bit (64 - n) (vl_buffer v)) :: u32) = of_nat (bits_val (seg inp p n))"
proof (rule bit_word_eqI)
  fix i assume "i < LENGTH(32)"
  show "bit (ucast (drop_bit (64 - n) (vl_buffer v)) :: u32) i = bit (of_nat (bits_val (seg inp p n)) :: u32) i"
  proof (cases "i < n")
    case True
    have "bit (vl_buffer v) (63 - (n - 1 - i)) \<longleftrightarrow> n - 1 - i < vn v \<and> sbit inp (p + (n - 1 - i))"
      by (rule vlc_at_bit [OF assms(1)]) (use assms(3) in simp)
    moreover have "63 - (n - 1 - i) = 64 - n + i" using True assms(3) by simp
    moreover have "n - 1 - i < vn v" using True assms(4) by simp
    ultimately show ?thesis using True assms(3)
      by (simp add: bit_ucast_iff bit_drop_bit_eq bit_of_nat_iff bit_bits_val seg_def)
  next
    case False
    then have "\<not> bit (vl_buffer v) (64 - n + i)" using assms(2,3) by (auto dest: bit_imp_le_length)
    then show ?thesis using False by (simp add: bit_ucast_iff bit_drop_bit_eq bit_of_nat_iff bit_bits_val)
  qed
qed

lemma peekbits_at:
  assumes "vlc_at inp e v p" "0 < n" "n \<le> 32" "n \<le> vn v"
  shows "vl_vlc_peekbits v (of_nat n) = Some (of_nat (bits_val (seg inp p n)))"
proof -
  have n: "uint (of_nat n :: u32) = int n" using assms(3) by (simp add: uint_of_nat_u32)
  have e: "64 - int n = int (64 - n)" using assms(3) by simp
  have sh: "shr64 (vl_buffer v) (64 - int n) = Some (drop_bit (64 - n) (vl_buffer v))"
    unfolding e by (rule shr64_nat) (use assms(2) in simp)
  have valid: "of_nat n \<le> vl_vlc_valid_bits v" using assms(3,4) unat_valid_ge [OF assms(1), of n] by simp
  show ?thesis unfolding vl_vlc_peekbits_def n sh using valid buffer_top [OF assms] by simp
qed

lemma eatbits_at:
  assumes "vlc_at inp e v p" "n \<le> vn v" "n < 64"
  shows "\<exists>v'. vl_vlc_eatbits v (of_nat n) = Some v' \<and> vlc_at inp e v' (p + n) \<and> vn v' = vn v - n \<and>
    vl_data v' = vl_data v \<and> same_input v v'"
proof -
  have n: "uint (of_nat n :: u32) = int n" using assms(3) by (simp add: uint_of_nat_u32)
  let ?v' = "v\<lparr>vl_buffer := push_bit n (vl_buffer v), invalid_bits := invalid_bits v + int n\<rparr>"
  have e: "vl_vlc_eatbits v (of_nat n) = Some ?v'"
    using assms unat_valid_ge [OF assms(1), of n] by (simp add: vl_vlc_eatbits_def n shl64_def)
  have vn': "vn ?v' = vn v - n" using invalid_vn [OF assms(1)] assms(2) by (simp add: vn_def)
  have buf: "bit (push_bit n (vl_buffer v)) (63 - k) \<longleftrightarrow> k < vn v - n \<and> sbit inp (p + n + k)" if k: "k < 64" for k
  proof (cases "k + n < 64")
    case True
    then have "bit (vl_buffer v) (63 - (k + n)) \<longleftrightarrow> k + n < vn v \<and> sbit inp (p + (k + n))"
      by (rule vlc_at_bit [OF assms(1)])
    moreover have "63 - k - n = 63 - (k + n)" "n \<le> 63 - k" "k + n < vn v \<longleftrightarrow> k < vn v - n" "63 - k < 64"
      using True by auto
    ultimately show ?thesis by (simp add: bit_push_bit_iff add.assoc add.commute [of n])
  next
    case False
    then show ?thesis using k vn_le [OF assms(1)] by (auto simp: bit_push_bit_iff)
  qed
  have "vlc_at inp e ?v' (p + n)"
    using assms(1,2) buf invalid_vn [OF assms(1)] vn_le [OF assms(1)] unfolding vlc_at_def vn' by auto
  then show ?thesis using e vn' by (simp add: same_input_def)
qed

lemma get_at:
  assumes "vlc_at inp e v p" "0 < n" "n \<le> 32" "n \<le> vn v"
  shows "\<exists>v'. vl_vlc_get_uimsbf v (of_nat n) = Some (of_nat (bits_val (seg inp p n)), v') \<and>
    vlc_at inp e v' (p + n) \<and> vn v' = vn v - n \<and> vl_data v' = vl_data v \<and> same_input v v'"
proof -
  have n: "uint (of_nat n :: u32) = int n" using assms(3) by (simp add: uint_of_nat_u32)
  have e: "64 - int n = int (64 - n)" using assms(3) by simp
  have sh: "shr64 (vl_buffer v) (64 - int n) = Some (drop_bit (64 - n) (vl_buffer v))"
    unfolding e by (rule shr64_nat) (use assms(2) in simp)
  have valid: "of_nat n \<le> vl_vlc_valid_bits v" using assms(3,4) unat_valid_ge [OF assms(1), of n] by simp
  obtain v' where "vl_vlc_eatbits v (of_nat n) = Some v'" "vlc_at inp e v' (p + n)" "vn v' = vn v - n"
    "vl_data v' = vl_data v" "same_input v v'"
    using eatbits_at [OF assms(1,4)] assms(3) by auto
  then show ?thesis unfolding vl_vlc_get_uimsbf_def n sh using valid buffer_top [OF assms] by simp
qed


lemma buffer_bit:
  assumes "vlc_at inp e v p" "n \<le> vn v" "i < n"
  shows "bit (drop_bit (64 - n) (vl_buffer v)) i \<longleftrightarrow> sbit inp (p + (n - 1 - i))"
proof -
  have n: "n \<le> 64" using assms(2) vn_le [OF assms(1)] by simp
  have "bit (vl_buffer v) (63 - (n - 1 - i)) \<longleftrightarrow> n - 1 - i < vn v \<and> sbit inp (p + (n - 1 - i))"
    by (rule vlc_at_bit [OF assms(1)]) (use n assms(3) in simp)
  moreover have e: "64 - n + i = 63 - (n - 1 - i)" and "n - 1 - i < vn v" using n assms(2,3) by simp_all
  ultimately show ?thesis by (simp only: bit_drop_bit_eq o_def e) simp
qed

lemma peekbits_byte:
  assumes "vlc_at inp e v p" "8 \<le> n" "n \<le> vn v" "p + n = 8 * j + 8" "inp ! j \<noteq> 3"
  shows "\<exists>x. vl_vlc_peekbits v (of_nat n) = Some x \<and> x AND 0xffffff \<noteq> 3"
proof -
  have n: "uint (of_nat n :: u32) = int n" "n \<le> 64"
    using assms(3) vn_le [OF assms(1)] by (simp_all add: uint_of_nat_u32)
  have e: "64 - int n = int (64 - n)" using n(2) by simp
  have sh: "shr64 (vl_buffer v) (64 - int n) = Some (drop_bit (64 - n) (vl_buffer v))"
    unfolding e by (rule shr64_nat) (use assms(2) in simp)
  have valid: "of_nat n \<le> vl_vlc_valid_bits v" using n(2) assms(3) unat_valid_ge [OF assms(1), of n] by simp
  let ?x = "ucast (drop_bit (64 - n) (vl_buffer v)) :: u32"
  have "?x AND 0xffffff \<noteq> 3"
  proof
    assume x: "?x AND 0xffffff = 3"
    have "bit (inp ! j) i = bit (3 :: u8) i" if i: "i < 8" for i
    proof -
      have e: "p + (n - 1 - i) = 8 * j + (7 - i)" using assms(2,4) i by simp
      have "sbit inp (p + (n - 1 - i)) = bit (inp ! j) (7 - (7 - i))"
        unfolding e by (rule sbit_byte) simp
      then have "bit ?x i = bit (inp ! j) i"
        using buffer_bit [OF assms(1,3), of i] i assms(2) by (simp add: bit_ucast_iff)
      moreover have "bit (?x AND 0xffffff) i = bit ?x i"
      proof -
        have m: "(0xffffff :: u32) = mask 24" by (simp add: mask_eq_exp_minus_1)
        show ?thesis unfolding m using i by (simp add: bit_and_iff bit_mask_iff)
      qed
      moreover have "bit (3 :: u32) i = bit (3 :: u8) i"
      proof -
        have m: "(3 :: u32) = mask 2" "(3 :: u8) = mask 2" by (simp_all add: mask_eq_exp_minus_1)
        show ?thesis unfolding m using i by (simp add: bit_mask_iff)
      qed
      ultimately show ?thesis using x by simp
    qed
    then have "inp ! j = 3" by (intro bit_word_eqI) auto
    with assms(5) show False by simp
  qed
  then show ?thesis unfolding vl_vlc_peekbits_def n sh using valid by simp
qed

section \<open>The payload reader where no byte is an emulation prevention byte\<close>

text \<open>
  \<open>lo\<close> is the start of the payload, and no byte below \<open>hi\<close> is 3: the reader removes nothing
  there. A refill looks at most 64 bits ahead.
\<close>

definition calm :: "bytes \<Rightarrow> nat \<Rightarrow> nat \<Rightarrow> bool" where
  "calm inp lo hi \<longleftrightarrow> (\<forall>j. lo \<le> j \<and> j < hi \<longrightarrow> inp ! j \<noteq> 3)"

definition ahead :: "nat \<Rightarrow> nat \<Rightarrow> nat \<Rightarrow> bool" where
  "ahead hi e p \<longleftrightarrow> e \<le> hi \<or> p + 64 \<le> 8 * hi"

definition rbsp_at :: "bytes \<Rightarrow> nat \<Rightarrow> nat \<Rightarrow> vl_rbsp \<Rightarrow> nat \<Rightarrow> bool" where
  "rbsp_at inp e lo r p \<longleftrightarrow> vlc_at inp e (rbsp_nal r) p \<and> rbsp_escaped r \<in> {0, 8, 16} \<and> 8 * lo \<le> p"

lemma ahead_le: "ahead hi e q \<Longrightarrow> p \<le> q \<Longrightarrow> ahead hi e p"
  by (auto simp: ahead_def)

lemma rbsp_escape_none:
  assumes "vlc_at inp e (rbsp_nal r) p" "8 \<le> i" "i < 100" "p + i = 8 * j + 8" "lo \<le> j"
    "\<And>k. lo \<le> k \<Longrightarrow> 8 * k + 8 \<le> p + vn (rbsp_nal r) \<Longrightarrow> inp ! k \<noteq> 3"
  shows "rbsp_escape r (of_nat (vn (rbsp_nal r))) (of_nat i) = Some r"
  using assms(2-5)
proof (induction "100 - i" arbitrary: i j rule: less_induct)
  case less
  let ?n = "vn (rbsp_nal r)"
  have n: "?n \<le> 64" by (rule vn_le [OF assms(1)])
  have c: "of_nat i \<le> (of_nat ?n :: u32) \<longleftrightarrow> i \<le> ?n"
    using n less.prems by (simp add: word_le_nat_alt unat_of_nat_small)
  show ?case
  proof (cases "i \<le> ?n")
    case False
    then show ?thesis by (subst rbsp_escape.simps) (simp only: c if_False)
  next
    case True
    obtain x where "vl_vlc_peekbits (rbsp_nal r) (of_nat i) = Some x" "x AND 0xffffff \<noteq> 3"
      using peekbits_byte [OF assms(1), of i j] assms(6) [of j] less.prems True by auto
    moreover have "rbsp_escape r (of_nat ?n) (of_nat (i + 8)) = Some r"
      by (rule less.hyps [where j = "j + 1"]) (use less.prems True n in simp_all)
    ultimately show ?thesis by (subst rbsp_escape.simps) (simp add: c True)
  qed
qed

lemma rbsp_fillbits_at:
  assumes "rbsp_at inp e lo r p" "calm inp lo hi" "ahead hi e p"
  shows "\<exists>r'. vl_rbsp_fillbits r = Some r' \<and> rbsp_at inp e lo r' p \<and> vn (rbsp_nal r) \<le> vn (rbsp_nal r') \<and>
    (32 \<le> vn (rbsp_nal r') \<or> vl_data (rbsp_nal r') = e) \<and> vl_input (rbsp_nal r') = vl_input (rbsp_nal r)"
proof -
  let ?v = "rbsp_nal r"
  have at: "vlc_at inp e ?v p" "rbsp_escaped r \<in> {0, 8, 16}" "8 * lo \<le> p" using assms(1) by (auto simp: rbsp_at_def)
  have c: "32 \<le> vl_vlc_valid_bits ?v \<longleftrightarrow> 32 \<le> vn ?v"
    using unat_valid_ge [OF at(1), of 32] by simp
  show ?thesis
  proof (cases "32 \<le> vn ?v")
    case True
    then show ?thesis using assms(1) by (auto simp: vl_rbsp_fillbits_def c)
  next
    case False
    obtain v' where v': "vl_vlc_fillbits ?v = Some v'" "vlc_at inp e v' p" "vn ?v \<le> vn v'"
      "32 \<le> vn v' \<or> vl_data v' = e" "vl_data v' \<le> vl_data ?v + 4" "same_input ?v v'"
      using fillbits_at [OF at(1)] by blast
    obtain s where s: "rbsp_escaped r = of_nat s" "s \<in> {0, 8, 16}"
      using at(2) that [of 0] that [of 8] that [of 16] by auto
    have d: "8 * vl_data ?v = p + vn ?v" "8 * vl_data v' = p + vn v'" "vl_data v' \<le> e"
      using at(1) v'(2) by (simp_all add: vlc_at_def)
    define i where "i = vn ?v + 24 - s"
    have i: "vl_vlc_valid_bits ?v - rbsp_escaped r + 24 = of_nat i"
    proof -
      have "vl_vlc_valid_bits ?v = of_nat (vn ?v)" using unat_valid [OF at(1)] by (metis of_nat_unat ucast_id)
      moreover have "s \<le> vn ?v + 24" using s(2) by auto
      ultimately show ?thesis by (simp add: i_def s(1) of_nat_diff)
    qed
    have nal: "vl_vlc_valid_bits v' = of_nat (vn v')" using unat_valid [OF v'(2)] by (metis of_nat_unat ucast_id)
    let ?r = "r\<lparr>rbsp_nal := v', rbsp_escaped := 16\<rparr>"
    have "rbsp_escape ?r (of_nat (vn (rbsp_nal ?r))) (of_nat i) = Some ?r"
    proof (rule rbsp_escape_none [where inp = inp and e = e and p = p and j = "vl_data ?v + 2 - s div 8" and lo = lo])
      fix k assume "lo \<le> k" "8 * k + 8 \<le> p + vn (rbsp_nal ?r)"
      then have k: "lo \<le> k" "8 * k + 8 \<le> p + vn v'" by simp_all
      have "k < vl_data v'" using k(2) d(2) by simp
      moreover have "k < hi"
        using assms(3) k(2) d False v'(5) unfolding ahead_def by auto
      ultimately show "inp ! k \<noteq> 3" using assms(2) k(1) by (simp add: calm_def)
    qed (use v'(2) s(2) d False at(3) in \<open>auto simp: i_def\<close>)
    then show ?thesis
      using v' False at(2,3) by (auto simp: vl_rbsp_fillbits_def c i nal Let_def rbsp_at_def same_input_def)
  qed
qed


section \<open>Fixed-length and exponential Golomb codes\<close>

definition enc_u :: "nat \<Rightarrow> nat \<Rightarrow> bool list" where
  "enc_u n w = rev (map (bit w) [0..<n])"

fun ue_len :: "nat \<Rightarrow> nat" where
  "ue_len m = (if m < 2 then 0 else Suc (ue_len (m div 2)))"

declare ue_len.simps [simp del]

definition enc_ue :: "nat \<Rightarrow> bool list" where
  "enc_ue n = (let z = ue_len (n + 1) in replicate z False @ enc_u (z + 1) (n + 1))"

definition reads :: "bytes \<Rightarrow> nat \<Rightarrow> bool list \<Rightarrow> bool" where
  "reads inp p xs \<longleftrightarrow> seg inp p (length xs) = xs"

lemma length_enc_u [simp]: "length (enc_u n w) = n"
  by (simp add: enc_u_def)

lemma bits_val_enc_u: "bits_val (enc_u n w) = take_bit n w"
  by (simp add: enc_u_def bits_val_def horner_sum_bit_eq_take_bit)

lemma ue_len_bounds: "0 < m \<Longrightarrow> 2 ^ ue_len m \<le> m \<and> m < 2 ^ Suc (ue_len m)"
proof (induction m rule: ue_len.induct)
  case (1 m)
  show ?case
  proof (cases "m < 2")
    case True
    then have "m = 1" using 1 by simp
    then show ?thesis by (simp add: ue_len.simps)
  next
    case False
    then have "2 ^ ue_len (m div 2) \<le> m div 2" "m div 2 < 2 ^ Suc (ue_len (m div 2))" using 1 by auto
    then have "2 * 2 ^ ue_len (m div 2) \<le> m" "m < 2 * 2 ^ Suc (ue_len (m div 2))" by linarith+
    moreover have "ue_len m = Suc (ue_len (m div 2))" using False by (simp add: ue_len.simps)
    ultimately show ?thesis by simp
  qed
qed

lemma ue_len_less: "m < 2 ^ n \<Longrightarrow> 0 < m \<Longrightarrow> ue_len m < n"
  using ue_len_bounds [of m] power_less_imp_less_exp [of "2 :: nat" "ue_len m" n] by linarith

lemma enc_u_top: "2 ^ z \<le> m \<Longrightarrow> m < 2 ^ Suc z \<Longrightarrow> enc_u (z + 1) m = True # enc_u z m"
proof -
  assume "2 ^ z \<le> m" "m < 2 ^ Suc z"
  then have "m div 2 ^ z = 1" by (simp add: div_nat_eqI)
  then show ?thesis by (simp add: enc_u_def bit_iff_odd)
qed

lemma enc_ue_code:
  obtains z where "enc_ue n = replicate z False @ True # enc_u z (n + 1)" "2 ^ z \<le> n + 1" "n + 1 < 2 ^ Suc z"
    "z = ue_len (n + 1)" "bits_val (enc_u z (n + 1)) = n + 1 - 2 ^ z"
proof -
  let ?z = "ue_len (n + 1)"
  have b: "2 ^ ?z \<le> n + 1" "n + 1 < 2 ^ Suc ?z" using ue_len_bounds [of "n + 1"] by simp_all
  have "take_bit ?z (n + 1) = n + 1 - 2 ^ ?z"
  proof -
    have "(n + 1) div 2 ^ ?z = 1" using b by (simp add: div_nat_eqI)
    then show ?thesis using minus_mult_div_eq_mod [of "n + 1" "2 ^ ?z"] by (simp add: take_bit_eq_mod)
  qed
  with b show thesis using that [of ?z] enc_u_top [OF b] by (simp add: enc_ue_def bits_val_enc_u Let_def)
qed

lemma length_enc_ue: "length (enc_ue n) = 2 * ue_len (n + 1) + 1"
  by (simp add: enc_ue_def Let_def)

lemma reads_append: "reads inp p (xs @ ys) \<longleftrightarrow> reads inp p xs \<and> reads inp (p + length xs) ys"
  by (auto simp: reads_def seg_add)

lemma reads_Cons: "reads inp p (x # ys) \<longleftrightarrow> reads inp p [x] \<and> reads inp (p + 1) ys"
  using reads_append [of inp p "[x]" ys] by simp

lemma reads_Nil [simp]: "reads inp p []"
  by (simp add: reads_def seg_def)

lemma reads_single: "reads inp p [b] \<longleftrightarrow> sbit inp p = b"
  by (simp add: reads_def seg_def)

lemma rbsp_get_at:
  assumes "rbsp_at inp e lo r p" "0 < n" "n \<le> 32" "n \<le> vn (rbsp_nal r)"
  shows "\<exists>r'. rbsp_get r (of_nat n) = Some (of_nat (bits_val (seg inp p n)), r') \<and> rbsp_at inp e lo r' (p + n) \<and>
    vn (rbsp_nal r') = vn (rbsp_nal r) - n \<and> vl_data (rbsp_nal r') = vl_data (rbsp_nal r) \<and>
    vl_input (rbsp_nal r') = vl_input (rbsp_nal r)"
proof -
  have "vlc_at inp e (rbsp_nal r) p" using assms(1) by (simp add: rbsp_at_def)
  from get_at [OF this assms(2-4)] show ?thesis
    using assms(1) by (auto simp: rbsp_get_def rbsp_at_def same_input_def)
qed

lemma vn_depleted: "rbsp_at inp e lo r p \<Longrightarrow> vl_data (rbsp_nal r) = e \<Longrightarrow> vn (rbsp_nal r) + p = 8 * e"
  by (auto simp: rbsp_at_def vlc_at_def)

text \<open>The reader is followed by a position, the input it reads from and the bits it still holds.\<close>

definition rbsp_to :: "bytes \<Rightarrow> nat \<Rightarrow> nat \<Rightarrow> vl_rbsp \<Rightarrow> vl_rbsp \<Rightarrow> nat \<Rightarrow> bool" where
  "rbsp_to inp e lo r r' p \<longleftrightarrow> rbsp_at inp e lo r' p \<and> vl_input (rbsp_nal r') = vl_input (rbsp_nal r) \<and>
     (1 \<le> vn (rbsp_nal r') \<or> vl_data (rbsp_nal r') = e)"

lemma u_at_val:
  assumes "rbsp_at inp e lo r p" "calm inp lo hi" "ahead hi e p" "n < 32" "p + n \<le> 8 * e" "0 < n"
  shows "\<exists>r'. vl_rbsp_u r (of_nat n) = Some (of_nat (bits_val (seg inp p n)), r') \<and> rbsp_to inp e lo r r' (p + n)"
proof -
  have nz: "(of_nat n :: u32) \<noteq> 0" using assms(4,6) by (simp add: word_of_nat_eq_0_iff nat_dvd_not_less)
  obtain r1 where r1: "vl_rbsp_fillbits r = Some r1" "rbsp_at inp e lo r1 p"
    "32 \<le> vn (rbsp_nal r1) \<or> vl_data (rbsp_nal r1) = e" "vl_input (rbsp_nal r1) = vl_input (rbsp_nal r)"
    using rbsp_fillbits_at [OF assms(1-3)] by blast
  obtain r2 where r2: "(if of_nat n > (16 :: u32) then vl_rbsp_fillbits r1 else Some r1) = Some r2" "rbsp_at inp e lo r2 p"
    "32 \<le> vn (rbsp_nal r2) \<or> vl_data (rbsp_nal r2) = e" "vl_input (rbsp_nal r2) = vl_input (rbsp_nal r)"
    using r1 rbsp_fillbits_at [OF r1(2) assms(2,3)] by (cases "of_nat n > (16 :: u32)") auto
  have vn: "n \<le> vn (rbsp_nal r2)" "n < vn (rbsp_nal r2) \<or> vl_data (rbsp_nal r2) = e"
    using r2(2,3) assms(4,5) vn_depleted [of inp e lo r2 p] by auto
  show ?thesis
    using rbsp_get_at [OF r2(2) assms(6) less_imp_le [OF assms(4)] vn(1)] r1 r2 vn(2) nz
    unfolding vl_rbsp_u_def rbsp_to_def by auto
qed

lemma u_at:
  assumes "rbsp_at inp e lo r p" "calm inp lo hi" "ahead hi e p" "reads inp p (enc_u n w)" "w < 2 ^ n"
    "n < 32" "p + n \<le> 8 * e" "0 < n"
  shows "\<exists>r'. vl_rbsp_u r (of_nat n) = Some (of_nat w, r') \<and> rbsp_to inp e lo r r' (p + n)"
  using u_at_val [OF assms(1-3,6-8)] assms(4,5) bits_val_enc_u [of n w]
  by (simp add: reads_def take_bit_nat_eq_self)

lemma flag_at:
  assumes "rbsp_at inp e lo r p" "calm inp lo hi" "ahead hi e p" "reads inp p [b]" "p < 8 * e"
  shows "\<exists>r'. vl_rbsp_u r 1 = Some (of_bool b, r') \<and> rbsp_to inp e lo r r' (p + 1)"
  using u_at_val [OF assms(1-3), of 1] assms(4,5) by (simp add: reads_def)

lemma zeros_at:
  assumes "rbsp_at inp e lo r p" "reads inp p (replicate z False @ [True])" "z < vn (rbsp_nal r)" "b + z < 2 ^ 32"
  shows "\<exists>r'. rbsp_zeros r (of_nat b) = Some (of_nat (b + z), r') \<and> rbsp_at inp e lo r' (p + z + 1) \<and>
    vn (rbsp_nal r') = vn (rbsp_nal r) - z - 1 \<and> vl_data (rbsp_nal r') = vl_data (rbsp_nal r) \<and>
    vl_input (rbsp_nal r') = vl_input (rbsp_nal r)"
  using assms
proof (induction z arbitrary: r p b)
  case 0
  then have "bits_val (seg inp p 1) = 1" by (simp add: reads_def)
  then show ?case using rbsp_get_at [of inp e lo r p 1] 0 by (subst rbsp_zeros.simps) auto
next
  case (Suc z)
  then have z: "bits_val (seg inp p 1) = 0" "reads inp (p + 1) (replicate z False @ [True])"
    using reads_append [of inp p "[False]" "replicate z False @ [True]"] by (simp_all add: reads_def)
  obtain r1 where r1: "rbsp_get r 1 = Some (0, r1)" "rbsp_at inp e lo r1 (p + 1)"
    "vn (rbsp_nal r1) = vn (rbsp_nal r) - 1" "vl_data (rbsp_nal r1) = vl_data (rbsp_nal r)"
    "vl_input (rbsp_nal r1) = vl_input (rbsp_nal r)"
    using rbsp_get_at [of inp e lo r p 1] Suc.prems z(1) by auto
  have "of_nat b + 1 = (of_nat (b + 1) :: u32)" by simp
  then show ?case
    using Suc.IH [OF r1(2) z(2), of "b + 1"] r1 Suc.prems(3,4) by (subst rbsp_zeros.simps) (auto simp: add.commute [of 1])
qed

lemma ue_at:
  assumes "rbsp_at inp e lo r p" "calm inp lo hi" "ahead hi e (p + length (enc_ue n))" "reads inp p (enc_ue n)"
    "n < 65535" "p + length (enc_ue n) \<le> 8 * e"
  shows "\<exists>r'. vl_rbsp_ue r = Some (of_nat n, r') \<and> rbsp_to inp e lo r r' (p + length (enc_ue n))"
proof -
  obtain z where z: "enc_ue n = replicate z False @ True # enc_u z (n + 1)" "2 ^ z \<le> n + 1" "n + 1 < 2 ^ Suc z"
    "z = ue_len (n + 1)" "bits_val (enc_u z (n + 1)) = n + 1 - 2 ^ z"
    by (rule enc_ue_code)
  have z15: "z < 16" using ue_len_less [of "n + 1" 16] assms(5) z(4) by simp
  have len: "length (enc_ue n) = z + 1 + z" using z(1) by simp
  have rd: "reads inp p (replicate z False @ [True])" "reads inp (p + z + 1) (enc_u z (n + 1))"
    using assms(4) unfolding z(1) using reads_append [of inp p "replicate z False @ [True]" "enc_u z (n + 1)"]
    by (simp_all add: add.assoc)
  obtain r1 where r1: "vl_rbsp_fillbits r = Some r1" "rbsp_at inp e lo r1 p"
    "32 \<le> vn (rbsp_nal r1) \<or> vl_data (rbsp_nal r1) = e" "vl_input (rbsp_nal r1) = vl_input (rbsp_nal r)"
    using rbsp_fillbits_at [OF assms(1,2) ahead_le [OF assms(3)]] by auto
  have "z < vn (rbsp_nal r1)" using r1(2,3) z15 assms(6) len vn_depleted [of inp e lo r1 p] by auto
  then obtain r2 where r2: "rbsp_zeros r1 0 = Some (of_nat z, r2)" "rbsp_at inp e lo r2 (p + z + 1)"
    "vn (rbsp_nal r2) = vn (rbsp_nal r1) - z - 1" "vl_data (rbsp_nal r2) = vl_data (rbsp_nal r1)"
    "vl_input (rbsp_nal r2) = vl_input (rbsp_nal r)"
    using zeros_at [OF r1(2) rd(1), of 0] z15 r1(4) by auto
  have b31: "of_nat z < (31 :: u32)" "unat (of_nat z :: u32) = z"
    using z15 by (simp_all add: word_less_nat_alt unat_of_nat_small)
  have val: "push_bit z 1 - 1 + of_nat (n + 1 - 2 ^ z) = (of_nat n :: u32)"
    using z(2) by (simp add: push_bit_eq_mult of_nat_diff)
  show ?thesis
  proof (cases "z = 0")
    case True
    then have "n = 0" using z(3) by simp
    then show ?thesis
      using r1 r2 True len by (auto simp: vl_rbsp_ue_def vl_rbsp_u_def rbsp_to_def)
  next
    case False
    have h: "ahead hi e (p + z + 1)" "p + z + 1 + z \<le> 8 * e" using ahead_le [OF assms(3)] assms(6) len by auto
    have "seg inp (p + z + 1) z = enc_u z (n + 1)" using rd(2) by (simp add: reads_def)
    with z(5) have v: "bits_val (seg inp (p + z + 1) z) = n + 1 - 2 ^ z" by simp
    obtain r3 where "vl_rbsp_u r2 (of_nat z) = Some (of_nat (n + 1 - 2 ^ z), r3)"
        "rbsp_to inp e lo r2 r3 (p + z + 1 + z)"
      using u_at_val [OF r2(2) assms(2) h(1) _ h(2)] z15 False unfolding v by auto
    then show ?thesis
      using r1(1) r2(1,5) val b31 len by (simp add: vl_rbsp_ue_def rbsp_to_def add.assoc)
  qed
qed


section \<open>The start of the input\<close>

lemma seg_byte_plus: "bits_val (seg inp (8 * j + 8 * i) 8) = unat (inp ! (j + i))"
  using seg_byte [of inp "j + i"] by simp

lemma seg_bytes_3:
  "bits_val (seg inp (8 * j) 24) = unat (inp ! j) * 65536 + unat (inp ! (j + 1)) * 256 + unat (inp ! (j + 2))"
proof -
  have "seg inp (8 * j) (8 + (8 + 8)) = seg inp (8 * j) 8 @ seg inp (8 * j + 8) 8 @ seg inp (8 * j + 8 + 8) 8"
    by (simp only: seg_add)
  then show ?thesis
    using seg_byte_plus [of inp j 1] seg_byte_plus [of inp j 2]
    by (simp add: bits_val_append seg_byte add.commute)
qed

lemma seg_bytes_4:
  "bits_val (seg inp (8 * j) 32) = unat (inp ! j) * 16777216 + unat (inp ! (j + 1)) * 65536 +
     unat (inp ! (j + 2)) * 256 + unat (inp ! (j + 3))"
proof -
  have "seg inp (8 * j) (8 + (8 + (8 + 8))) =
      seg inp (8 * j) 8 @ seg inp (8 * j + 8) 8 @ seg inp (8 * j + 8 + 8) 8 @ seg inp (8 * j + 8 + 8 + 8) 8"
    by (simp only: seg_add)
  then show ?thesis
    using seg_byte_plus [of inp j 1] seg_byte_plus [of inp j 2] seg_byte_plus [of inp j 3]
    by (simp add: bits_val_append seg_byte add.commute)
qed

lemma of_nat_eq_1_u32: "n < 2 ^ 32 \<Longrightarrow> (of_nat n :: u32) = 1 \<longleftrightarrow> n = 1"
proof
  assume "n < 2 ^ 32" "(of_nat n :: u32) = 1"
  then have "unat (1 :: u32) = n" using unat_of_nat_small [of n, where 'a = 32] by simp
  then show "n = 1" by simp
qed simp

lemma zero_weights:
  "unat (a :: u8) * 65536 + unat (b :: u8) * 256 + unat (c :: u8) = 1 \<longleftrightarrow> a = 0 \<and> b = 0 \<and> c = 1"
proof -
  have "unat c = 1 \<longleftrightarrow> c = 1" by (metis unat_1 word_unat_eq_iff)
  moreover have "unat b = 0 \<longleftrightarrow> b = 0" "unat a = 0 \<longleftrightarrow> a = 0" by (simp_all add: unat_eq_zero)
  moreover have "unat c < 256" using unat_lt_exp [of c] by simp
  ultimately show ?thesis by (auto simp: add_is_1)
qed

lemma init_at:
  assumes "length inp = unat sz" "length inp < 2 ^ 26"
  shows "\<exists>v. vl_vlc_init addr inp sz = Some v \<and> vlc_at inp (length inp) v 0 \<and> vl_input v = inp \<and>
    vl_bytes_left v = sz"
proof -
  let ?v = "\<lparr>vl_buffer = 0, invalid_bits = 32, vl_data = 0, vl_end = unat sz, vl_input = inp, vl_addr = addr,
    vl_size = sz, vl_bytes_left = sz\<rparr>"
  have "vlc_at inp (length inp) ?v 0" using assms by (simp add: vlc_at_def vn_def)
  moreover have "vn ?v + 8 * ((4 - (vl_addr ?v + vl_data ?v) mod 4) mod 4) \<le> 64"
    using mod_less_divisor [of 4 "4 - (addr + 0) mod 4"] by (simp add: vn_def)
  ultimately obtain v1 where v1: "vl_vlc_align_data_ptr ?v = Some v1" "vlc_at inp (length inp) v1 0" "same_input ?v v1"
    using align_at by blast
  obtain v2 where "vl_vlc_fillbits v1 = Some v2" "vlc_at inp (length inp) v2 0" "same_input v1 v2"
    using fillbits_at [OF v1(2)] by blast
  then show ?thesis using v1 by (auto simp: vl_vlc_init_def same_input_def)
qed

lemma vn_end: "vlc_at inp e v p \<Longrightarrow> vl_data v = e \<Longrightarrow> vn v + p = 8 * e"
  by (simp add: vlc_at_def)

lemma skip_startcode_at:
  assumes "vlc_at inp e v 0" "4 \<le> e" "inp ! 0 = 0" "inp ! 1 = 0" "inp ! 2 = 0" "inp ! 3 = 1"
  shows "\<exists>v'. skip_startcode v = Some (True, v') \<and> vlc_at inp e v' 32 \<and> same_input v v' \<and>
    (32 \<le> vn v' \<or> vl_data v' = e)"
proof -
  obtain v1 where v1: "vl_vlc_fillbits v = Some v1" "vlc_at inp e v1 0" "32 \<le> vn v1 \<or> vl_data v1 = e" "same_input v v1"
    using fillbits_at [OF assms(1)] by blast
  then have n: "32 \<le> vn v1" using assms(2) vn_end [OF v1(2)] by auto
  have "bits_val (seg inp 0 32) = 1" using seg_bytes_4 [of inp 0] assms(3-6) by (simp add: numeral_2_eq_2)
  then have pk: "vl_vlc_peekbits v1 32 = Some 1" using peekbits_at [OF v1(2) _ _ n] by simp
  then have loop: "startcode_loop 64 v1 = Some v1" by (simp add: eval_nat_numeral)
  obtain v2 where v2: "vl_vlc_eatbits v1 32 = Some v2" "vlc_at inp e v2 32" "same_input v1 v2"
    using eatbits_at [OF v1(2) n] by auto
  obtain v3 where "vl_vlc_fillbits v2 = Some v3" "vlc_at inp e v3 32" "same_input v2 v3" "32 \<le> vn v3 \<or> vl_data v3 = e"
    using fillbits_at [OF v2(2)] by blast
  then show ?thesis using v1 v2 pk loop by (auto simp: skip_startcode_def intro: same_input_trans)
qed

lemma nal_h265_at:
  assumes "vlc_at inp e v 32" "6 \<le> e" "inp ! 4 = 2" "32 \<le> vn v \<or> vl_data v = e"
  shows "\<exists>v'. nal_h265 v = Some (1, v') \<and> vlc_at inp e v' 48 \<and> same_input v v'"
proof -
  have n: "16 \<le> vn v" using assms(2,4) vn_end [OF assms(1)] by auto
  obtain v1 where v1: "vl_vlc_eatbits v 1 = Some v1" "vlc_at inp e v1 33" "same_input v v1" "vn v1 = vn v - 1"
    using eatbits_at [OF assms(1), of 1] n by auto
  have "seg inp 33 6 = [False, False, False, False, False, True]"
    using assms(3) by (simp add: seg_def upt_rec sbit_def)
  then have b: "bits_val (seg inp 33 6) = 1" by (simp add: bits_val_def)
  have m: "6 \<le> vn v1" "6 \<le> vn v1 - 6" "3 \<le> vn v1 - 6 - 6" using n v1(4) by simp_all
  obtain v2 where v2: "vl_vlc_get_uimsbf v1 6 = Some (1, v2)" "vlc_at inp e v2 39" "same_input v1 v2" "vn v2 = vn v1 - 6"
    using get_at [OF v1(2), of 6] b m(1) by auto
  obtain v3 where v3: "vl_vlc_eatbits v2 6 = Some v3" "vlc_at inp e v3 45" "same_input v2 v3" "vn v3 = vn v2 - 6"
    using eatbits_at [OF v2(2), of 6] m(2) v2(4) by auto
  obtain v4 where "vl_vlc_eatbits v3 3 = Some v4" "vlc_at inp e v4 48" "same_input v3 v4"
    using eatbits_at [OF v3(2), of 3] m(3) v2(4) v3(4) by auto
  then show ?thesis using v1 v2 v3 by (auto simp: nal_h265_def intro: same_input_trans)
qed


section \<open>The end of the NAL unit\<close>

definition start_code :: "bytes \<Rightarrow> nat \<Rightarrow> nat \<Rightarrow> bool" where
  "start_code inp e k \<longleftrightarrow>
     inp ! k = 0 \<and> inp ! (k + 1) = 0 \<and>
     (k + 2 < e \<and> inp ! (k + 2) = 1 \<or> k + 3 < e \<and> inp ! (k + 2) = 0 \<and> inp ! (k + 3) = 1)"

text \<open>The unit ends with the input or, after at least eight bytes, at the first start code.\<close>

definition nal_end :: "bytes \<Rightarrow> nat \<Rightarrow> nat \<Rightarrow> nat \<Rightarrow> bool" where
  "nal_end inp lo e k \<longleftrightarrow>
     (\<forall>j. lo \<le> j \<and> j < k \<longrightarrow> \<not> start_code inp e j) \<and> (k = e \<or> start_code inp e k \<and> k < e \<and> lo + 8 \<le> k)"

lemma vlc_at_step:
  assumes "vlc_at inp e v (8 * d)" "vn v = 0" "d < e"
  shows "vlc_at inp e (v\<lparr>vl_data := vl_data v + 1\<rparr>) (8 * (d + 1))"
  using assms by (auto simp: vlc_at_def vn_def)

lemma ucast_nonzero: "(x :: u8) \<noteq> 0 \<Longrightarrow> (ucast x :: u32) \<noteq> 0"
proof
  assume x: "x \<noteq> 0" "(ucast x :: u32) = 0"
  have "unat (ucast x :: u32) = unat x"
    using unat_lt_exp [of x] by (simp add: unsigned_ucast_eq take_bit_nat_eq_self)
  with x show False by (simp add: unat_eq_zero)
qed

definition no_zero :: "bytes \<Rightarrow> nat \<Rightarrow> nat \<Rightarrow> bool" where
  "no_zero inp q m \<longleftrightarrow> (\<forall>k. q \<le> k \<and> k < m \<longrightarrow> inp ! k \<noteq> 0)"

definition next_zero :: "bytes \<Rightarrow> nat \<Rightarrow> nat \<Rightarrow> vl_vlc \<Rightarrow> bool" where
  "next_zero inp e q v \<longleftrightarrow> (\<exists>j. q \<le> j \<and> j < e \<and> inp ! j = 0 \<and> no_zero inp q j \<and> vlc_at inp e v (8 * j) \<and>
     (32 \<le> vn v \<or> vl_data v = e))"

lemma no_zero_empty [simp]: "no_zero inp q q"
  by (auto simp: no_zero_def)

lemma no_zero_step: "inp ! q \<noteq> 0 \<Longrightarrow> no_zero inp (q + 1) m \<Longrightarrow> no_zero inp q m"
  by (metis Suc_eq_plus1 le_eq_less_or_eq less_eq_Suc_le no_zero_def)

lemma next_zero_step: "inp ! q \<noteq> 0 \<Longrightarrow> next_zero inp e (q + 1) v \<Longrightarrow> next_zero inp e q v"
  unfolding next_zero_def by (meson Suc_leD add_leD1 no_zero_step)

lemma next_zero_here:
  "inp ! q = 0 \<Longrightarrow> q < e \<Longrightarrow> vlc_at inp e v (8 * q) \<Longrightarrow> 32 \<le> vn v \<or> vl_data v = e \<Longrightarrow> next_zero inp e q v"
  unfolding next_zero_def by (intro exI [of _ q]) simp

lemma peek_byte_at:
  assumes "vlc_at inp e v (8 * q)" "8 \<le> vn v"
  shows "vl_vlc_peekbits v 8 = Some (ucast (inp ! q))"
  using peekbits_at [OF assms(1), of 8] assms(2) seg_byte [of inp q] by (simp add: of_nat_unat)

lemma search_buffer_at:
  assumes "vlc_at inp e v (8 * q)"
  shows "\<exists>f v'. search_buffer v (- 1) 0 = Some (f, - 1, v') \<and> same_input v v' \<and>
    (f = Some True \<and> next_zero inp e q v' \<or>
     f = None \<and> no_zero inp q (vl_data v) \<and> vlc_at inp e v' (8 * vl_data v) \<and> vn v' = 0)"
  using assms
proof (induction "vn v" arbitrary: v q rule: less_induct)
  case less
  have d: "8 * vl_data v = 8 * q + vn v" "vl_data v \<le> e" using less.prems by (auto simp: vlc_at_def)
  show ?case
  proof (cases "vn v = 0")
    case True
    then have "\<not> 0 < vl_vlc_valid_bits v" using unat_valid [OF less.prems] by (simp add: word_less_nat_alt)
    then show ?thesis using True d less.prems by (subst search_buffer.simps) auto
  next
    case False
    then have n8: "8 \<le> vn v" "q < vl_data v" using d(1) by presburger+
    have pos: "0 < vl_vlc_valid_bits v" using False unat_valid [OF less.prems] by (simp add: word_less_nat_alt)
    note pk = peek_byte_at [OF less.prems n8(1)]
    show ?thesis
    proof (cases "inp ! q = 0")
      case True
      obtain v' where v': "vl_vlc_fillbits v = Some v'" "vlc_at inp e v' (8 * q)" "same_input v v'"
        "32 \<le> vn v' \<or> vl_data v' = e"
        using fillbits_at [OF less.prems] by blast
      have "next_zero inp e q v'" using next_zero_here [OF True _ v'(2,4)] d(2) n8(2) by simp
      then show ?thesis using True pk pos v'(1,3) by (subst search_buffer.simps) simp
    next
      case nz: False
      obtain v1 where v1: "vl_vlc_eatbits v 8 = Some v1" "vlc_at inp e v1 (8 * (q + 1))" "vn v1 = vn v - 8"
        "vl_data v1 = vl_data v" "same_input v v1"
        using eatbits_at [OF less.prems, of 8] n8(1) by (auto simp: add.commute)
      have "(ucast (inp ! q) :: u32) \<noteq> 0" using nz by (rule ucast_nonzero)
      then have e: "search_buffer v (- 1) 0 = search_buffer v1 (- 1) 0"
        using pk pos v1(1) by (subst search_buffer.simps) (simp add: search_step_def)
      obtain f v' where "search_buffer v1 (- 1) 0 = Some (f, - 1, v')" "same_input v1 v'"
        "f = Some True \<and> next_zero inp e (q + 1) v' \<or>
         f = None \<and> no_zero inp (q + 1) (vl_data v1) \<and> vlc_at inp e v' (8 * vl_data v1) \<and> vn v' = 0"
        using less.hyps [OF _ v1(2)] v1(3) n8(1) by (elim meta_impE exE conjE) auto
      then show ?thesis
        unfolding e using v1(4,5) next_zero_step [OF nz] no_zero_step [OF nz] by (auto intro: same_input_trans)
    qed
  qed
qed

lemma search_data_at:
  assumes "vlc_at inp e v (8 * d)" "vn v = 0"
  shows "\<exists>f v'. search_data (e - d) v (- 1) 0 = Some (f, v') \<and>
    (if f then next_zero inp e d v' \<and> same_input v v' else no_zero inp d e)"
  using assms
proof (induction "e - d" arbitrary: v d)
  case 0
  then have "e = d" using vlc_at_fields(1,2) [OF 0(2)] by simp
  then show ?case by auto
next
  case (Suc n)
  have d: "d < e" "vl_data v = d" using Suc.hyps(2) Suc.prems(2) vlc_at_fields(1) [OF Suc.prems(1)] by simp_all
  have x: "rd8 (vl_input v) (vl_data v) = Some (inp ! d)"
    using vlc_at_fields(2-5) [OF Suc.prems(1)] d by (simp add: rd8_def)
  show ?case
  proof (cases "inp ! d = 0")
    case True
    have "vn v + 8 * ((4 - (vl_addr v + vl_data v) mod 4) mod 4) \<le> 64"
      using mod_less_divisor [of 4 "4 - (vl_addr v + vl_data v) mod 4"] Suc.prems(2) by simp
    then obtain v1 where v1: "vl_vlc_align_data_ptr v = Some v1" "vlc_at inp e v1 (8 * d)" "same_input v v1"
      using align_at [OF Suc.prems(1)] by blast
    obtain v2 where v2: "vl_vlc_fillbits v1 = Some v2" "vlc_at inp e v2 (8 * d)" "32 \<le> vn v2 \<or> vl_data v2 = e"
      "same_input v1 v2"
      using fillbits_at [OF v1(2)] by blast
    have "next_zero inp e d v2" by (rule next_zero_here [OF True d(1) v2(2,3)])
    moreover have "same_input v v2" by (rule same_input_trans [OF v1(3) v2(4)])
    ultimately show ?thesis
      unfolding Suc.hyps(2) [symmetric] using True x v1(1) v2(1) by auto
  next
    case False
    let ?v = "v\<lparr>vl_data := vl_data v + 1\<rparr>"
    have at: "vlc_at inp e ?v (8 * (d + 1))" by (rule vlc_at_step [OF Suc.prems d(1)])
    have e: "search_data (Suc n) v (- 1) 0 = search_data n ?v (- 1) 0"
      using x False by (simp add: search_step_def)
    have n: "n = e - (d + 1)" using Suc.hyps(2) by simp
    have vn: "vn ?v = 0" using Suc.prems(2) by (simp add: vn_def)
    obtain f v' where "search_data n ?v (- 1) 0 = Some (f, v')"
      "if f then next_zero inp e (d + 1) v' \<and> same_input ?v v' else no_zero inp (d + 1) e"
      using Suc.hyps(1) [OF n at vn] unfolding n [symmetric] by (elim exE conjE) (rule that)
    moreover have "same_input ?v v' \<Longrightarrow> same_input v v'" by (simp add: same_input_def)
    ultimately show ?thesis
      unfolding Suc.hyps(2) [symmetric] e using next_zero_step [OF False] no_zero_step [OF False]
      by (cases f) auto
  qed
qed


lemma search_byte_at:
  assumes "vlc_at inp e v (8 * q)"
  shows "\<exists>f v'. vl_vlc_search_byte v (- 1) 0 = Some (f, v') \<and>
    (if f then next_zero inp e q v' \<and> same_input v v' else no_zero inp q e)"
proof -
  have f: "8 * vl_data v = 8 * q + vn v" "vl_data v \<le> e" "vl_end v = e" using vlc_at_fields [OF assms] by auto
  have "unat (vl_vlc_valid_bits v mod 8) = 0" using unat_valid [OF assms] f(1) by (simp add: unat_mod) presburger
  then have m: "vl_vlc_valid_bits v mod 8 = 0" by (simp add: unat_eq_zero)
  obtain g v1 where v1: "search_buffer v (- 1) 0 = Some (g, - 1, v1)" "same_input v v1"
    "g = Some True \<and> next_zero inp e q v1 \<or>
     g = None \<and> no_zero inp q (vl_data v) \<and> vlc_at inp e v1 (8 * vl_data v) \<and> vn v1 = 0"
    using search_buffer_at [OF assms] by (elim exE conjE) (rule that)
  from v1(3) show ?thesis
  proof (elim disjE conjE)
    assume "g = Some True" "next_zero inp e q v1"
    then show ?thesis using v1(1,2) m by (auto simp: vl_vlc_search_byte_def)
  next
    assume g: "g = None" "no_zero inp q (vl_data v)" "vlc_at inp e v1 (8 * vl_data v)" "vn v1 = 0"
    then have d: "vl_end v1 - vl_data v1 = e - vl_data v" using vlc_at_fields [OF g(3)] by simp
    obtain h v2 where v2: "search_data (e - vl_data v) v1 (- 1) 0 = Some (h, v2)"
      "if h then next_zero inp e (vl_data v) v2 \<and> same_input v1 v2 else no_zero inp (vl_data v) e"
      using search_data_at [OF g(3,4)] by (elim exE conjE) (rule that)
    have "q \<le> vl_data v" using f(1) by simp
    then have "no_zero inp (vl_data v) m \<Longrightarrow> no_zero inp q m" for m
      using g(2) unfolding no_zero_def by (meson le_less_linear)
    then have "next_zero inp e (vl_data v) v2 \<Longrightarrow> next_zero inp e q v2"
      using \<open>q \<le> vl_data v\<close> unfolding next_zero_def by (meson le_trans)
    then show ?thesis
      using v1(1,2) v2 g(1) m d \<open>\<And>m. no_zero inp (vl_data v) m \<Longrightarrow> no_zero inp q m\<close>
      by (cases h) (auto simp: vl_vlc_search_byte_def same_input_def)
  qed
qed

lemma limit_at:
  assumes "vlc_at inp e v (8 * lo)" "unat (vl_bytes_left v) \<le> length inp" "8 \<le> n" "lo + n < e" "unat w = 8 * n"
  shows "\<exists>v'. vl_vlc_limit v w = Some v' \<and> vlc_at inp (lo + n) v' (8 * lo) \<and> vl_input v' = vl_input v"
proof -
  obtain v1 where v1: "vl_vlc_fillbits v = Some v1" "vlc_at inp e v1 (8 * lo)" "same_input v v1"
    using fillbits_at [OF assms(1)] by blast
  note f = vlc_at_fields [OF v1(2)]
  have le: "w \<le> vl_vlc_bits_left v"
    using bits_left_at [OF assms(1,2)] f(3,6) assms(4,5) by (simp add: word_le_nat_alt)
  have vn: "unat (vl_vlc_valid_bits v1) = vn v1" "vn v1 \<le> 8 * n"
    using unat_valid [OF v1(2)] vn_le [OF v1(2)] assms(3) by simp_all
  then have ge: "\<not> w < vl_vlc_valid_bits v1" by (simp add: word_less_nat_alt assms(5))
  have u: "unat (w - vl_vlc_valid_bits v1) = 8 * n - vn v1" using vn by (simp add: unat_minus_small assms(5))
  have d: "8 * n - vn v1 = 8 * (lo + n - vl_data v1)" "vl_data v1 \<le> lo + n" using f(1) vn(2) by simp_all
  have m: "(w - vl_vlc_valid_bits v1) mod 8 = 0" by (simp only: unat_eq_zero [symmetric] unat_mod u d(1)) simp
  have q: "unat ((w - vl_vlc_valid_bits v1) div 8) = lo + n - vl_data v1" by (simp only: unat_div u d(1)) simp
  have "vlc_at inp (lo + n) (v1\<lparr>vl_end := lo + n, vl_bytes_left := 0\<rparr>) (8 * lo)"
    using v1(2) d(2) assms(4) by (simp add: vlc_at_def vn_def)
  moreover have "lo + n - vl_data v1 < e - vl_data v1" using d(2) assms(4) by simp
  ultimately show ?thesis
    using le v1(1,3) ge m q d(2) f(7) by (simp add: vl_vlc_limit_def same_input_def Let_def)
qed

text \<open>A start code is seen in the bits ahead, also where fewer than four bytes are left.\<close>

lemma peek_pad:
  assumes "vlc_at inp e v p" "vl_data v = e" "vn v < n" "n \<le> 32"
  shows "\<exists>x. vl_vlc_peekbits v (of_nat n) = Some x \<and> x \<noteq> 1"
proof -
  have n: "uint (of_nat n :: u32) = int n" using assms(4) by (simp add: uint_of_nat_u32)
  have e: "64 - int n = int (64 - n)" using assms(4) by simp
  have sh: "shr64 (vl_buffer v) (64 - int n) = Some (drop_bit (64 - n) (vl_buffer v))"
    unfolding e by (rule shr64_nat) (use assms(3) in simp)
  have "\<not> bit (vl_buffer v) (63 - (n - 1))" 
    using vlc_at_bit [OF assms(1), of "n - 1"] assms(3,4) by auto
  moreover have "63 - (n - 1) = 64 - n" using assms(3) by simp
  ultimately have "\<not> bit (ucast (drop_bit (64 - n) (vl_buffer v)) :: u32) 0"
    by (simp add: bit_ucast_iff bit_drop_bit_eq)
  then have "ucast (drop_bit (64 - n) (vl_buffer v)) \<noteq> (1 :: u32)" by (metis bit_1_0)
  then show ?thesis unfolding vl_vlc_peekbits_def n sh using assms(2) vlc_at_fields(7) [OF assms(1)] by simp
qed

lemma peek_start:
  assumes "vlc_at inp e v (8 * j)" "32 \<le> vn v \<or> vl_data v = e" "j < e" "inp ! j = 0"
  shows "\<exists>x y. vl_vlc_peekbits v 24 = Some x \<and> vl_vlc_peekbits v 32 = Some y \<and>
    (x = 1 \<or> y = 1 \<longleftrightarrow> start_code inp e j)"
proof -
  have vn: "vn v + 8 * j = 8 * e" if "vl_data v = e" using vn_end [OF assms(1) that] by simp
  note f = vlc_at_fields [OF assms(1)]
  obtain x where x: "vl_vlc_peekbits v 24 = Some x"
    "x = 1 \<longleftrightarrow> j + 2 < e \<and> inp ! (j + 1) = 0 \<and> inp ! (j + 2) = 1"
  proof (cases "24 \<le> vn v")
    case True
    then have "j + 2 < e" using f(1,2) by simp
    moreover have "bits_val (seg inp (8 * j) 24) < 2 ^ 32" using bits_val_less [of "seg inp (8 * j) 24"] by simp
    ultimately show ?thesis
      using that peekbits_at [OF assms(1) _ _ True] of_nat_eq_1_u32 [of "bits_val (seg inp (8 * j) 24)"]
        seg_bytes_3 [of inp j] zero_weights [of "inp ! j" "inp ! (j + 1)" "inp ! (j + 2)"] assms(4) by simp
  next
    case False
    then have d: "vl_data v = e" "\<not> j + 2 < e" using assms(2) vn by auto
    then show ?thesis using that peek_pad [OF assms(1) d(1), of 24] False by auto
  qed
  obtain y where y: "vl_vlc_peekbits v 32 = Some y"
    "y = 1 \<longleftrightarrow> j + 3 < e \<and> inp ! (j + 1) = 0 \<and> inp ! (j + 2) = 0 \<and> inp ! (j + 3) = 1"
  proof (cases "32 \<le> vn v")
    case True
    then have "j + 3 < e" using f(1,2) by simp
    moreover have "bits_val (seg inp (8 * j) 32) < 2 ^ 32" using bits_val_less [of "seg inp (8 * j) 32"] by simp
    ultimately show ?thesis
      using that peekbits_at [OF assms(1) _ _ True] of_nat_eq_1_u32 [of "bits_val (seg inp (8 * j) 32)"]
        seg_bytes_4 [of inp j] zero_weights [of "inp ! (j + 1)" "inp ! (j + 2)" "inp ! (j + 3)"] assms(4) by simp
  next
    case False
    then have d: "vl_data v = e" "\<not> j + 3 < e" using assms(2) vn by auto
    then show ?thesis using that peek_pad [OF assms(1) d(1), of 32] False by auto
  qed
  show ?thesis using x y assms(4) by (auto simp: start_code_def)
qed


lemma no_code_step:
  assumes "no_zero inp q j" "\<forall>i. lo \<le> i \<and> i < q \<longrightarrow> \<not> start_code inp e i"
  shows "\<forall>i. lo \<le> i \<and> i < j \<longrightarrow> \<not> start_code inp e i"
  using assms unfolding no_zero_def start_code_def by (meson not_le)

lemma nal_end_unique:
  "nal_end inp lo e k \<Longrightarrow> \<forall>i. lo \<le> i \<and> i < j \<longrightarrow> \<not> start_code inp e i \<Longrightarrow> start_code inp e j \<Longrightarrow> lo \<le> j \<Longrightarrow>
   j < e \<Longrightarrow> k = j"
  unfolding nal_end_def by (metis add_leD1 linorder_neqE_nat)

lemma nal_end_none:
  "nal_end inp lo e k \<Longrightarrow> \<forall>i. lo \<le> i \<and> i < e \<longrightarrow> \<not> start_code inp e i \<Longrightarrow> k = e"
  unfolding nal_end_def by (metis add_leD1)

lemma find_end_at:
  assumes start: "vlc_at inp e start (8 * lo)" "unat (vl_bytes_left start) \<le> length inp" and k: "nal_end inp lo e k"
    and "vlc_at inp e nal (8 * q)" "same_input start nal" "lo \<le> q"
    "\<forall>i. lo \<le> i \<and> i < q \<longrightarrow> \<not> start_code inp e i"
  shows "\<exists>v'. rbsp_find_end start nal (- 1) (vl_vlc_bits_left start) = Some v' \<and> vlc_at inp k v' (8 * lo) \<and>
    vl_input v' = vl_input start"
  using assms(4-7)
proof (induction "e - q" arbitrary: nal q rule: less_induct)
  case less
  obtain f v where v: "vl_vlc_search_byte nal (- 1) 0 = Some (f, v)"
    "if f then next_zero inp e q v \<and> same_input nal v else no_zero inp q e"
    using search_byte_at [OF less.prems(1)] by (elim exE conjE) (rule that)
  show ?case
  proof (cases f)
    case False
    then have "no_zero inp q e" using v(2) by simp
    then have "k = e" using nal_end_none [OF k] no_code_step [OF _ less.prems(4)] by blast
    then show ?thesis using v(1) False start(1) by (subst rbsp_find_end.simps) simp
  next
    case True
    then have "next_zero inp e q v" and same: "same_input start v"
      using v(2) same_input_trans [OF less.prems(2)] by simp_all
    then obtain j where j: "q \<le> j" "j < e" "inp ! j = 0" "no_zero inp q j" "vlc_at inp e v (8 * j)"
      "32 \<le> vn v \<or> vl_data v = e"
      unfolding next_zero_def by blast
    obtain x y where xy: "vl_vlc_peekbits v 24 = Some x" "vl_vlc_peekbits v 32 = Some y"
      "x = 1 \<or> y = 1 \<longleftrightarrow> start_code inp e j"
      using peek_start [OF j(5,6,2,3)] by blast
    have none: "\<forall>i. lo \<le> i \<and> i < j \<longrightarrow> \<not> start_code inp e i" by (rule no_code_step [OF j(4) less.prems(4)])
    have bl: "vl_bytes_left v = vl_bytes_left start" using same by (simp add: same_input_def)
    show ?thesis
    proof (cases "start_code inp e j")
      case code: True
      then have kj: "k = j" using nal_end_unique [OF k none] less.prems(3) j(1,2) by simp
      have n: "8 \<le> j - lo" "lo + (j - lo) < e" using k j(2) less.prems(3) j(1) unfolding nal_end_def kj by auto
      have "unat (vl_vlc_bits_left start) + 8 * lo = unat (vl_vlc_bits_left v) + 8 * j"
        using bits_left_at [OF start] bits_left_at [OF j(5)] start(2) bl by simp
      then have "unat (vl_vlc_bits_left start - vl_vlc_bits_left v) = 8 * (j - lo)"
        using n(1) by (simp add: unat_minus_small)
      from limit_at [OF start n this] show ?thesis
        using v(1) True xy code kj n(1) by (subst rbsp_find_end.simps) auto
    next
      case no: False
      have "8 \<le> vn v" using j(2,6) vn_end [OF j(5)] by auto
      then obtain v1 where v1: "vl_vlc_eatbits v 8 = Some v1" "vlc_at inp e v1 (8 * (j + 1))" "same_input v v1"
        using eatbits_at [OF j(5), of 8] by (auto simp: add.commute)
      have "\<forall>i. lo \<le> i \<and> i < j + 1 \<longrightarrow> \<not> start_code inp e i" using none no by (metis less_Suc_eq Suc_eq_plus1)
      from less.hyps [OF _ v1(2) same_input_trans [OF same v1(3)] _ this] show ?thesis
        using v(1) True xy no v1(1) j(1,2) less.prems(3) by (subst rbsp_find_end.simps) auto
    qed
  qed
qed

lemma init_escape_none:
  assumes "vlc_at inp e v p" "8 \<le> i" "i < 100" "p + i = 8 * j + 8" "lo \<le> j"
    "\<And>k. lo \<le> k \<Longrightarrow> 8 * k + 8 \<le> p + vn v \<Longrightarrow> inp ! k \<noteq> 3"
  shows "rbsp_init_escape v (of_nat (vn v)) (of_nat i) = Some v"
  using assms(2-5)
proof (induction "100 - i" arbitrary: i j rule: less_induct)
  case less
  have n: "vn v \<le> 64" by (rule vn_le [OF assms(1)])
  have c: "of_nat i \<le> (of_nat (vn v) :: u32) \<longleftrightarrow> i \<le> vn v"
    using n less.prems by (simp add: word_le_nat_alt unat_of_nat_small)
  show ?case
  proof (cases "i \<le> vn v")
    case False
    then show ?thesis by (subst rbsp_init_escape.simps) (simp only: c if_False)
  next
    case True
    obtain x where "vl_vlc_peekbits v (of_nat i) = Some x" "x AND 0xffffff \<noteq> 3"
      using peekbits_byte [OF assms(1), of i j] assms(6) [of j] less.prems True by auto
    moreover have "rbsp_init_escape v (of_nat (vn v)) (of_nat (i + 8)) = Some v"
      by (rule less.hyps [where j = "j + 1"]) (use less.prems True n in simp_all)
    ultimately show ?thesis by (subst rbsp_init_escape.simps) (simp add: c True)
  qed
qed

lemma rbsp_init_at:
  assumes "vlc_at inp e v (8 * lo)" "unat (vl_bytes_left v) \<le> length inp" "nal_end inp lo e k" "calm inp lo hi"
    "ahead hi k (8 * lo)"
  shows "\<exists>r. vl_rbsp_init v (- 1) = Some r \<and> rbsp_at inp k lo r (8 * lo) \<and> vl_input (rbsp_nal r) = vl_input v"
proof -
  have "\<forall>i. lo \<le> i \<and> i < lo \<longrightarrow> \<not> start_code inp e i" by auto
  then obtain v' where v': "rbsp_find_end v v (- 1) (vl_vlc_bits_left v) = Some v'" "vlc_at inp k v' (8 * lo)"
    "vl_input v' = vl_input v"
    using find_end_at [OF assms(1-3,1)] \<open>\<forall>i. lo \<le> i \<and> i < lo \<longrightarrow> \<not> start_code inp e i\<close> by auto
  have nal: "vl_vlc_valid_bits v' = of_nat (vn v')" using unat_valid [OF v'(2)] by (metis of_nat_unat ucast_id)
  have "rbsp_init_escape v' (of_nat (vn v')) (of_nat 24) = Some v'"
  proof (rule init_escape_none [OF v'(2), where j = "lo + 2" and lo = lo])
    fix j assume j: "lo \<le> j" "8 * j + 8 \<le> 8 * lo + vn v'"
    then have "j < hi" using assms(5) vlc_at_fields(1,2) [OF v'(2)] vn_le [OF v'(2)] by (auto simp: ahead_def)
    then show "inp ! j \<noteq> 3" using assms(4) j(1) by (simp add: calm_def)
  qed simp_all
  then show ?thesis using v' by (simp add: vl_rbsp_init_def nal rbsp_at_def Let_def)
qed

end
