(* ===== verification/Slice_Props.thy ===== *)
theory Slice_Props
  imports Bitstream_Props
begin

text \<open>
  What the parser of H.265 slices and the change of the reference frame do with a slice that is
  written as the standard says. The header of a slice is given as the list of its bits; the
  bytes behind it are arbitrary.
\<close>

declare skip_ue.simps [simp del] skip_u.simps [simp del]

section \<open>Reading ahead of a list of bits\<close>

definition head_at :: "bytes \<Rightarrow> nat \<Rightarrow> nat \<Rightarrow> nat \<Rightarrow> vl_rbsp \<Rightarrow> nat \<Rightarrow> bool list \<Rightarrow> bool" where
  "head_at inp e lo hi r p xs \<longleftrightarrow> rbsp_at inp e lo r p \<and> reads inp p xs \<and> p + length xs \<le> 8 * e \<and>
     ahead hi e (p + length xs) \<and> calm inp lo hi"

text \<open>The reader moved on; the memory it reads from is the same, and a bit is in the buffer.\<close>

definition moved :: "nat \<Rightarrow> vl_rbsp \<Rightarrow> vl_rbsp \<Rightarrow> bool" where
  "moved e r r' \<longleftrightarrow> vl_input (rbsp_nal r') = vl_input (rbsp_nal r) \<and>
     (1 \<le> vn (rbsp_nal r') \<or> vl_data (rbsp_nal r') = e)"

lemma head_at_step:
  assumes "head_at inp e lo hi r p (xs @ ys)" "rbsp_to inp e lo r r' (p + length xs)"
  shows "head_at inp e lo hi r' (p + length xs) ys \<and> moved e r r'"
  using assms by (simp add: head_at_def rbsp_to_def moved_def reads_append add.assoc)

lemma head_ue:
  assumes "head_at inp e lo hi r p (enc_ue n @ xs)" "n < 65535"
  shows "\<exists>r'. vl_rbsp_ue r = Some (of_nat n, r') \<and> head_at inp e lo hi r' (p + length (enc_ue n)) xs \<and> moved e r r'"
proof -
  have h: "rbsp_at inp e lo r p" "calm inp lo hi" "reads inp p (enc_ue n)" "p + length (enc_ue n) \<le> 8 * e"
    "ahead hi e (p + length (enc_ue n))"
    using assms(1) ahead_le [of hi e "p + length (enc_ue n @ xs)" "p + length (enc_ue n)"]
    by (auto simp: head_at_def reads_append)
  show ?thesis using ue_at [OF h(1,2,5,3) assms(2) h(4)] head_at_step [OF assms(1)] by blast
qed

lemma head_u:
  assumes "head_at inp e lo hi r p (enc_u n w @ xs)" "w < 2 ^ n" "n < 32" "0 < n"
  shows "\<exists>r'. vl_rbsp_u r (of_nat n) = Some (of_nat w, r') \<and> head_at inp e lo hi r' (p + n) xs \<and> moved e r r'"
proof -
  have h: "rbsp_at inp e lo r p" "calm inp lo hi" "reads inp p (enc_u n w)" "p + n \<le> 8 * e" "ahead hi e p"
    using assms(1) ahead_le [of hi e "p + length (enc_u n w @ xs)" p]
    by (auto simp: head_at_def reads_append)
  have "length (enc_u n w) = n" by simp
  then show ?thesis
    using u_at [OF h(1,2,5,3) assms(2,3) h(4) assms(4)] head_at_step [OF assms(1)] by metis
qed

lemma head_flag:
  assumes "head_at inp e lo hi r p (b # xs)"
  shows "\<exists>r'. vl_rbsp_u r 1 = Some (of_bool b, r') \<and> head_at inp e lo hi r' (p + 1) xs \<and> moved e r r'"
proof -
  have h: "rbsp_at inp e lo r p" "calm inp lo hi" "reads inp p [b]" "p < 8 * e" "ahead hi e p"
    using assms ahead_le [of hi e "p + length (b # xs)" p] reads_Cons [of inp p b xs]
    by (auto simp: head_at_def)
  show ?thesis
    using flag_at [OF h(1,2,5,3,4)] head_at_step [of inp e lo hi r p "[b]" xs] assms by auto
qed

lemma head_skip_ue:
  assumes "head_at inp e lo hi r p (enc_ue n @ xs)" "n < 65535"
  shows "\<exists>r'. skip_ue 1 r = Some r' \<and> head_at inp e lo hi r' (p + length (enc_ue n)) xs \<and> moved e r r'"
  using head_ue [OF assms] by (auto simp: skip_ue.simps)

section \<open>The header of a slice\<close>

record h265_slice =
  first_slice :: bool
  pps_id :: nat
  segment_address :: nat
  poc_lsb :: nat
  positive_pics :: nat
  negative_pics :: "(nat \<times> bool) list"

definition pics_bits :: "(nat \<times> bool) list \<Rightarrow> bool list" where
  "pics_bits ps = concat (map (\<lambda>(d, u). enc_ue d @ [u]) ps)"

definition slice_start_bits :: "h265_slice \<Rightarrow> bool list" where
  "slice_start_bits s =
     first_slice s # enc_ue (pps_id s) @ (if first_slice s then [] else enc_ue (segment_address s))"

definition slice_bits :: "bitstream \<Rightarrow> h265_slice \<Rightarrow> bool list" where
  "slice_bits bs s =
     slice_start_bits s @ enc_ue 1 @ enc_u (unat (bs_sps bs) + 4) (poc_lsb s) @ False #
     enc_ue (length (negative_pics s)) @ enc_ue (positive_pics s) @ pics_bits (negative_pics s)"

definition slice_ok :: "bitstream \<Rightarrow> h265_slice \<Rightarrow> bool" where
  "slice_ok bs s \<longleftrightarrow> bs_sps bs \<le> 12 \<and> pps_id s < 65535 \<and> segment_address s < 65535 \<and>
     poc_lsb s < 2 ^ (unat (bs_sps bs) + 4) \<and> length (negative_pics s) \<le> 16 \<and> positive_pics s < 65535 \<and>
     (\<forall>(d, u) \<in> set (negative_pics s). d < 65535)"

text \<open>The first picture that is used.\<close>

fun first_used :: "(nat \<times> bool) list \<Rightarrow> nat option" where
  "first_used [] = None"
| "first_used ((d, u) # ps) = (if u then Some 0 else map_option Suc (first_used ps))"

text \<open>
  The bytes of a slice with \<open>n\<close> bits of header: a start code and the type of a trailing picture in
  front; the unit reaches to \<open>k\<close>, and no byte that the reader sees is an emulation prevention
  byte.
\<close>

definition clean_slice :: "bytes \<Rightarrow> nat \<Rightarrow> bool" where
  "clean_slice inp n \<longleftrightarrow> length inp < 2 ^ 26 \<and> 6 \<le> length inp \<and> take 5 inp = [0, 0, 0, 1, 2] \<and>
     (\<exists>k hi. nal_end inp 6 (length inp) k \<and> calm inp 6 hi \<and> ahead hi k (48 + n) \<and> 48 + n \<le> 8 * k)"

lemma pics_bits_simps [simp]:
  "pics_bits [] = []" "pics_bits ((d, u) # ps) = enc_ue d @ u # pics_bits ps"
  by (simp_all add: pics_bits_def)

lemma used_pic_loop_at:
  assumes "head_at inp e lo hi r p (pics_bits ps)" "\<forall>(d, u) \<in> set ps. d < 65535"
  shows "used_pic_loop (length ps) (of_nat i) r sl =
    Some (case first_used ps of None \<Rightarrow> sl | Some k \<Rightarrow> sl\<lparr>reference_frame := of_nat (i + k)\<rparr>)"
  using assms
proof (induction ps arbitrary: r p i)
  case (Cons x ps)
  obtain d u where x: "x = (d, u)" by (cases x)
  obtain r1 where r1: "skip_ue 1 r = Some r1" "head_at inp e lo hi r1 (p + length (enc_ue d)) (u # pics_bits ps)"
    using head_skip_ue [of inp e lo hi r p d "u # pics_bits ps"] Cons.prems x by auto
  obtain r2 where r2: "vl_rbsp_u r1 1 = Some (of_bool u, r2)"
    "head_at inp e lo hi r2 (p + length (enc_ue d) + 1) (pics_bits ps)"
    using head_flag [OF r1(2)] by blast
  have "of_nat i + 1 = (of_nat (i + 1) :: u32)" by simp
  then show ?case
    using Cons.IH [OF r2(2), of "i + 1"] Cons.prems(2) r1(1) r2(1) x by (simp add: add.commute [of 1] split: option.split)
qed simp

lemma slice_start_at:
  assumes "head_at inp e lo hi r p (slice_start_bits s @ xs)" "slice_ok bs s"
  shows "\<exists>r'. slice_start_h265 1 r = Some r' \<and> head_at inp e lo hi r' (p + length (slice_start_bits s)) xs \<and>
    moved e r r'"
proof -
  let ?ys = "(if first_slice s then [] else enc_ue (segment_address s)) @ xs"
  obtain r1 where r1: "vl_rbsp_u r 1 = Some (of_bool (first_slice s), r1)"
    "head_at inp e lo hi r1 (p + 1) (enc_ue (pps_id s) @ ?ys)" "moved e r r1"
    using head_flag [of inp e lo hi r p "first_slice s"] assms(1) by (auto simp: slice_start_bits_def)
  obtain r2 where r2: "skip_ue 1 r1 = Some r2" "head_at inp e lo hi r2 (p + 1 + length (enc_ue (pps_id s))) ?ys"
    "moved e r1 r2"
    using head_skip_ue [OF r1(2)] assms(2) by (auto simp: slice_ok_def)
  show ?thesis
  proof (cases "first_slice s")
    case True
    then show ?thesis
      using r1 r2 by (auto simp: slice_start_h265_def slice_start_bits_def moved_def)
  next
    case False
    obtain r3 where "skip_ue 1 r2 = Some r3"
      "head_at inp e lo hi r3 (p + 1 + length (enc_ue (pps_id s)) + length (enc_ue (segment_address s))) xs"
      "moved e r2 r3"
      using head_skip_ue [of inp e lo hi r2 "p + 1 + length (enc_ue (pps_id s))" "segment_address s" xs] r2(2) False
        assms(2) by (auto simp: slice_ok_def)
    then show ?thesis
      using r1 r2 False by (auto simp: slice_start_h265_def slice_start_bits_def moved_def add.assoc)
  qed
qed


text \<open>What both functions read in front of the pictures.\<close>

lemma slice_prefix_at:
  assumes "head_at inp e lo hi r p (slice_bits bs s)" "slice_ok bs s"
  obtains r1 r2 r3 r4 r5 r6 where
    "slice_start_h265 1 r = Some r1" "vl_rbsp_ue r1 = Some (1, r2)" "skip_u [bs_sps bs + 4] r2 = Some r3"
    "vl_rbsp_u r3 1 = Some (0, r4)" "vl_rbsp_ue r4 = Some (of_nat (length (negative_pics s)), r5)"
    "skip_ue 1 r5 = Some r6" "vl_input (rbsp_nal r6) = vl_input (rbsp_nal r)"
    "head_at inp e lo hi r6 (p + length (slice_bits bs s) - length (pics_bits (negative_pics s)))
       (pics_bits (negative_pics s))"
proof -
  note ok = assms(2) [unfolded slice_ok_def]
  obtain r1 where r1: "slice_start_h265 1 r = Some r1" "moved e r r1"
    "head_at inp e lo hi r1 (p + length (slice_start_bits s)) (enc_ue 1 @ enc_u (unat (bs_sps bs) + 4) (poc_lsb s) @
       False # enc_ue (length (negative_pics s)) @ enc_ue (positive_pics s) @ pics_bits (negative_pics s))"
    using slice_start_at [OF assms(1) [unfolded slice_bits_def] assms(2)] by blast
  obtain r2 where r2: "vl_rbsp_ue r1 = Some (1, r2)" "moved e r1 r2"
    "head_at inp e lo hi r2 (p + length (slice_start_bits s) + length (enc_ue 1))
      (enc_u (unat (bs_sps bs) + 4) (poc_lsb s) @
       False # enc_ue (length (negative_pics s)) @ enc_ue (positive_pics s) @ pics_bits (negative_pics s))"
    using head_ue [OF r1(3)] by auto
  have sps: "unat (bs_sps bs) + 4 < 32" using ok by (simp add: word_le_nat_alt)
  have "(of_nat (unat (bs_sps bs) + 4) :: u32) = bs_sps bs + 4" by (simp add: of_nat_unat)
  then obtain r3 where r3: "skip_u [bs_sps bs + 4] r2 = Some r3" "moved e r2 r3"
    "head_at inp e lo hi r3 (p + length (slice_start_bits s) + length (enc_ue 1) + (unat (bs_sps bs) + 4))
      (False # enc_ue (length (negative_pics s)) @ enc_ue (positive_pics s) @ pics_bits (negative_pics s))"
    using head_u [OF r2(3)] ok sps by (auto simp: skip_u.simps)
  obtain r4 where r4: "vl_rbsp_u r3 1 = Some (0, r4)" "moved e r3 r4"
    "head_at inp e lo hi r4 (p + length (slice_start_bits s) + length (enc_ue 1) + (unat (bs_sps bs) + 4) + 1)
      (enc_ue (length (negative_pics s)) @ enc_ue (positive_pics s) @ pics_bits (negative_pics s))"
    using head_flag [OF r3(3)] by auto
  obtain r5 where r5: "vl_rbsp_ue r4 = Some (of_nat (length (negative_pics s)), r5)" "moved e r4 r5"
    "head_at inp e lo hi r5 (p + length (slice_start_bits s) + length (enc_ue 1) + (unat (bs_sps bs) + 4) + 1 +
      length (enc_ue (length (negative_pics s)))) (enc_ue (positive_pics s) @ pics_bits (negative_pics s))"
    using head_ue [OF r4(3)] ok by auto
  obtain r6 where r6: "skip_ue 1 r5 = Some r6" "moved e r5 r6"
    "head_at inp e lo hi r6 (p + length (slice_start_bits s) + length (enc_ue 1) + (unat (bs_sps bs) + 4) + 1 +
      length (enc_ue (length (negative_pics s))) + length (enc_ue (positive_pics s))) (pics_bits (negative_pics s))"
    using head_skip_ue [OF r5(3)] ok by auto
  have "p + length (slice_bits bs s) - length (pics_bits (negative_pics s)) =
      p + length (slice_start_bits s) + length (enc_ue 1) + (unat (bs_sps bs) + 4) + 1 +
      length (enc_ue (length (negative_pics s))) + length (enc_ue (positive_pics s))"
    by (simp add: slice_bits_def)
  then show thesis
    using that [OF r1(1) r2(1) r3(1) r4(1) r5(1) r6(1)] r6(3) r1(2) r2(2) r3(2) r4(2) r5(2) r6(2)
    by (simp add: moved_def)
qed

lemma slice_h265_rbsp_at:
  assumes "head_at inp e lo hi r p (slice_bits bs s)" "slice_ok bs s"
  shows "slice_h265_rbsp bs 1 r sl = Some (True, sl\<lparr>slice_type := CHIAKI_BITSTREAM_SLICE_P,
    reference_frame := (case first_used (negative_pics s) of None \<Rightarrow> 0xff | Some k \<Rightarrow> of_nat k)\<rparr>)"
proof (rule slice_prefix_at [OF assms])
  fix r1 r2 r3 r4 r5 r6
  assume r: "slice_start_h265 1 r = Some r1" "vl_rbsp_ue r1 = Some (1, r2)" "skip_u [bs_sps bs + 4] r2 = Some r3"
    "vl_rbsp_u r3 1 = Some (0, r4)" "vl_rbsp_ue r4 = Some (of_nat (length (negative_pics s)), r5)"
    "skip_ue 1 r5 = Some r6"
    and h: "head_at inp e lo hi r6 (p + length (slice_bits bs s) - length (pics_bits (negative_pics s)))
       (pics_bits (negative_pics s))"
  have n: "unat (of_nat (length (negative_pics s)) :: u32) = length (negative_pics s)"
    "\<not> (of_nat (length (negative_pics s)) :: u32) > 16"
    using assms(2) by (simp_all add: slice_ok_def unat_of_nat_small word_less_nat_alt)
  have "\<forall>(d, u) \<in> set (negative_pics s). d < 65535" using assms(2) by (simp add: slice_ok_def)
  from used_pic_loop_at [OF h this, of 0] show ?thesis
    using r n by (simp add: slice_h265_rbsp_def split: option.split)
qed

lemma slice_reader:
  assumes "clean_slice inp (length xs)" "reads inp 48 xs"
  obtains v0 v1 v2 r e hi where "vl_vlc_init addr inp (of_nat (length inp)) = Some v0" "skip_startcode v0 = Some (True, v1)"
    "nal_h265 v1 = Some (1, v2)" "vl_rbsp_init v2 (- 1) = Some r" "head_at inp e 6 hi r 48 xs"
    "vl_input (rbsp_nal r) = inp" "e \<le> length inp"
proof -
  obtain k hi where c: "length inp < 2 ^ 26" "6 \<le> length inp" "take 5 inp = [0, 0, 0, 1, 2]"
    "nal_end inp 6 (length inp) k" "calm inp 6 hi" "ahead hi k (48 + length xs)" "48 + length xs \<le> 8 * k"
    using assms(1) by (auto simp: clean_slice_def)
  have "inp ! i = take 5 inp ! i" if "i < 5" for i using that by simp
  then have b: "inp ! 0 = 0" "inp ! 1 = 0" "inp ! 2 = 0" "inp ! 3 = 1" "inp ! 4 = 2"
    by (simp_all add: c(3))
  have sz: "length inp = unat (of_nat (length inp) :: u32)" using c(1) by (simp add: unat_of_nat_small)
  obtain v0 where v0: "vl_vlc_init addr inp (of_nat (length inp)) = Some v0" "vlc_at inp (length inp) v0 0"
    "vl_input v0 = inp" "vl_bytes_left v0 = of_nat (length inp)"
    using init_at [OF sz c(1)] by blast
  obtain v1 where v1: "skip_startcode v0 = Some (True, v1)" "vlc_at inp (length inp) v1 32" "same_input v0 v1"
    "32 \<le> vn v1 \<or> vl_data v1 = length inp"
    using skip_startcode_at [OF v0(2) _ b(1-4)] c(2) by auto
  obtain v2 where v2: "nal_h265 v1 = Some (1, v2)" "vlc_at inp (length inp) v2 48" "same_input v1 v2"
    using nal_h265_at [OF v1(2) c(2) b(5) v1(4)] by blast
  have bl: "unat (vl_bytes_left v2) \<le> length inp" "vl_input v2 = inp"
    using v0(3,4) v1(3) v2(3) sz by (simp_all add: same_input_def)
  have a: "ahead hi k 48" by (rule ahead_le [OF c(6)]) simp
  obtain r where r: "vl_rbsp_init v2 (- 1) = Some r" "rbsp_at inp k 6 r 48" "vl_input (rbsp_nal r) = inp"
    using rbsp_init_at [of inp "length inp" v2 6 k hi] v2(2) bl c(4,5) a by auto
  moreover have "head_at inp k 6 hi r 48 xs" using r(2) assms(2) c(5-7) by (simp add: head_at_def)
  moreover have "k \<le> length inp" using c(4) by (auto simp: nal_end_def)
  ultimately show thesis using that v0(1) v1(1) v2(1) by blast
qed

lemma slice_h265_at:
  assumes "clean_slice inp (length (slice_bits bs s))" "reads inp 48 (slice_bits bs s)" "slice_ok bs s"
  shows "slice_h265 addr bs inp (of_nat (length inp)) sl = Some (True, sl\<lparr>slice_type := CHIAKI_BITSTREAM_SLICE_P,
    reference_frame := (case first_used (negative_pics s) of None \<Rightarrow> 0xff | Some k \<Rightarrow> of_nat k)\<rparr>)"
proof (rule slice_reader [OF assms(1,2)])
  fix v0 v1 v2 r e hi
  assume "vl_vlc_init addr inp (of_nat (length inp)) = Some v0" "skip_startcode v0 = Some (True, v1)"
    "nal_h265 v1 = Some (1, v2)" "vl_rbsp_init v2 (- 1) = Some r" and h: "head_at inp e 6 hi r 48 (slice_bits bs s)"
  then show ?thesis
    using slice_h265_rbsp_at [OF h assms(3)] by (simp add: slice_h265_def)
qed


section \<open>Setting a flag in the input\<close>

lemma be32_bit: "i < 4 \<Longrightarrow> c < 8 \<Longrightarrow> bit (be32 w ! i) (7 - c) = bit w (31 - (8 * i + c))"
proof -
  assume i: "i < 4" and c: "c < 8"
  from i have "i = 0 \<or> i = 1 \<or> i = 2 \<or> i = 3" by auto
  then show ?thesis using c
    by (elim disjE) (auto simp: bit_ucast_iff bit_drop_bit_eq)
qed

lemma rd32_be32: "rd32 b i = Some w \<Longrightarrow> k < 4 \<Longrightarrow> b ! (i + k) = be32 w ! k"
proof -
  assume r: "rd32 b i = Some w" and k: "k < 4"
  then have l: "i + 3 < length b"
    by (auto simp: rd32_def rd16_def rd8_def split: Option.bind_splits if_splits)
  then have w: "w = join32 (join16 (b ! i) (b ! (i + 1))) (join16 (b ! (i + 2)) (b ! (i + 3)))"
    using r by (simp add: rd32_Some)
  from k have "k = 0 \<or> k = 1 \<or> k = 2 \<or> k = 3" by auto
  then show ?thesis unfolding w by (elim disjE) (simp_all add: be32_def)
qed

lemma rd32_sbit:
  assumes "rd32 b i = Some w" "t < 32"
  shows "sbit b (8 * i + t) = bit w (31 - t)"
proof -
  have t: "t = 8 * (t div 8) + t mod 8" "t div 8 < 4" "t mod 8 < 8" using assms(2) by auto
  have "sbit b (8 * (i + t div 8) + t mod 8) = bit (b ! (i + t div 8)) (7 - t mod 8)"
    by (rule sbit_byte) simp
  also have "\<dots> = bit w (31 - (8 * (t div 8) + t mod 8))"
    by (simp only: rd32_be32 [OF assms(1) t(2)] be32_bit [OF t(2,3)])
  finally show ?thesis using t(1) by (simp only: add_mult_distrib2 add.assoc)
qed

lemma sbit_upd_other:
  assumes "i + length s \<le> length b" "q div 8 < i \<or> i + length s \<le> q div 8" "q div 8 < length b"
  shows "sbit (upd b i s) q = sbit b q"
  using assms by (auto simp: sbit_def nth_upd)

text \<open>Two words in a row as one, read and written.\<close>

lemma rd64_sbit:
  assumes "rd32 m i = Some hi" "rd32 m (i + 4) = Some lo" "t < 64"
  shows "sbit m (8 * i + t) = bit ((ucast lo :: u64) OR push_bit 32 (ucast hi)) (63 - t)"
proof (cases "t < 32")
  case True
  then show ?thesis
    by (subst rd32_sbit [OF assms(1) True])
      (auto simp: bit_or_iff bit_push_bit_iff bit_ucast_iff dest: bit_imp_le_length)
next
  case False
  have "8 * i + t = 8 * (i + 4) + (t - 32)" using False by simp
  moreover have "sbit m (8 * (i + 4) + (t - 32)) = bit lo (31 - (t - 32))"
    by (rule rd32_sbit [OF assms(2)]) (use assms(3) in simp)
  ultimately show ?thesis using False assms(3)
    by (auto simp: bit_or_iff bit_push_bit_iff bit_ucast_iff)
qed

definition wr64 :: "bytes \<Rightarrow> nat \<Rightarrow> u64 \<Rightarrow> bytes" where
  "wr64 m i x = upd (upd m i (be32 (ucast (drop_bit 32 x)))) (i + 4) (be32 (ucast x))"

lemma length_wr64 [simp]: "i + 8 \<le> length m \<Longrightarrow> length (wr64 m i x) = length m"
  by (simp add: wr64_def)

lemma wr64_sbit:
  assumes "i + 8 \<le> length m" "q < 8 * length m"
  shows "sbit (wr64 m i x) q = (if 8 * i \<le> q \<and> q < 8 * i + 64 then bit x (63 - (q - 8 * i)) else sbit m q)"
proof -
  let ?m = "upd m i (be32 (ucast (drop_bit 32 x)))"
  have l: "length ?m = length m" using assms(1) by simp
  consider "8 * i \<le> q" "q < 8 * i + 32" | "8 * i + 32 \<le> q" "q < 8 * i + 64" | "q < 8 * i \<or> 8 * i + 64 \<le> q"
    by linarith
  then show ?thesis
  proof cases
    case 1
    then obtain t where t: "q = 8 * i + t" "t < 32" by (metis le_Suc_ex nat_add_left_cancel_less)
    have "sbit (wr64 m i x) q = sbit ?m q"
      unfolding wr64_def by (rule sbit_upd_other) (use 1 l assms in auto)
    also have "\<dots> = bit (ucast (drop_bit 32 x) :: u32) (31 - t)"
      unfolding t(1) by (rule rd32_sbit [OF rd32_upd_same t(2)]) (use assms(1) in simp)
    finally show ?thesis using t by (auto simp: bit_ucast_iff bit_drop_bit_eq)
  next
    case 2
    obtain t where t: "q = 8 * (i + 4) + t" "t < 32"
      using 2 that [of "q - 8 * (i + 4)"] by auto
    have "sbit (wr64 m i x) q = bit (ucast x :: u32) (31 - t)"
      unfolding t(1) wr64_def by (rule rd32_sbit [OF rd32_upd_same t(2)]) (use assms(1) in simp)
    then show ?thesis using t by (auto simp: bit_ucast_iff)
  next
    case 3
    have "sbit (wr64 m i x) q = sbit ?m q"
      unfolding wr64_def by (rule sbit_upd_other) (use 3 l assms in auto)
    also have "\<dots> = sbit m q" by (rule sbit_upd_other) (use 3 assms in auto)
    finally show ?thesis using 3 by auto
  qed
qed

lemma put_flag_at:
  assumes "vlc_at inp e (rbsp_nal r) p" "1 \<le> vn (rbsp_nal r)" "8 \<le> vl_data (rbsp_nal r)"
  shows "\<exists>m. put_flag r b = Some (r\<lparr>rbsp_nal := rbsp_nal r\<lparr>vl_input := m\<rparr>\<rparr>) \<and>
    length m = length inp \<and> vlc_at inp e (rbsp_nal r\<lparr>vl_input := m\<rparr>) p \<and>
    (\<forall>q. q < 8 * length inp \<longrightarrow> sbit m q = (if q = p then b else sbit (vl_input (rbsp_nal r)) q))"
proof -
  let ?v = "rbsp_nal r"
  let ?d = "vl_data ?v" and ?m = "vl_input ?v" and ?o = "vn ?v - 1" and ?i = "vl_data ?v - 8"
  note f = vlc_at_fields [OF assms(1)]
  have d: "?i + 8 \<le> length ?m" "?i + 8 = ?d" "?i + 4 = ?d - 4" "8 * ?i + 64 = p + vn ?v"
    using f(1-4) assms(3) by auto
  obtain hi lo where hl: "rd32 ?m ?i = Some hi" "rd32 ?m (?i + 4) = Some lo"
    using d(1) by (simp add: rd32_Some)
  define w where "w = (ucast lo :: u64) OR push_bit 32 (ucast hi)"
  define x where "x = (if b then w OR push_bit ?o 1 else w AND NOT (push_bit ?o 1))"
  have "64 - 1 - (64 - (32 - invalid_bits ?v)) = int ?o" "?o < 64"
    using invalid_vn [OF assms(1)] vn_le [OF assms(1)] assms(2) by auto
  then have mask: "shl64 1 (64 - 1 - (64 - (32 - invalid_bits ?v))) = Some (push_bit ?o 1)"
    by (simp add: shl64_def)
  have put: "put_flag r b = Some (r\<lparr>rbsp_nal := ?v\<lparr>vl_input := wr64 ?m ?i x\<rparr>\<rparr>)"
  proof -
    have "put_flag r b = (if ?d < 8 then None else do {
        input \<leftarrow> wr ?m ?i (be32 (ucast (drop_bit 32 x)));
        input \<leftarrow> wr input (?i + 4) (be32 (ucast x));
        Some (r\<lparr>rbsp_nal := ?v\<lparr>vl_input := input\<rparr>\<rparr>) })"
      unfolding put_flag_def Let_def d(3) [symmetric] hl mask bind.bind_lunit x_def w_def ..
    then show ?thesis using assms(3) d by (simp add: wr_Some wr64_def)
  qed
  have bits: "sbit (wr64 ?m ?i x) q = (if q = p then b else sbit ?m q)" if q: "q < 8 * length inp" for q
  proof (cases "8 * ?i \<le> q \<and> q < 8 * ?i + 64")
    case True
    then have t: "8 * ?i + (q - 8 * ?i) = q" "q - 8 * ?i < 64" by auto
    have "q = p \<longleftrightarrow> 63 - (q - 8 * ?i) = ?o" using t d(4) assms(2) vn_le [OF assms(1)] by auto
    then show ?thesis
      using t(2) rd64_sbit [OF hl t(2)] wr64_sbit [OF d(1), of q x] q f(4) True
      unfolding t(1) w_def [symmetric] x_def
      by (auto simp: bit_or_iff bit_and_iff bit_not_iff bit_push_bit_iff bit_exp_iff)
  next
    case False
    then have "p \<noteq> q" using d(4) assms(2) vn_le [OF assms(1)] by auto
    then show ?thesis using wr64_sbit [OF d(1), of q x] q f(4) False by auto
  qed
  have "wr64 ?m ?i x ! j = inp ! j" if "?d \<le> j" "j < e" for j
    unfolding wr64_def using that f(2-5) d assms(3) by (auto simp: nth_upd)
  then have "vlc_at inp e (?v\<lparr>vl_input := wr64 ?m ?i x\<rparr>) p"
    using assms(1) d(1) by (simp add: vlc_at_def vn_def)
  then show ?thesis using put d(1) f(4) bits by auto
qed


section \<open>Changing the reference frame\<close>

text \<open>The first \<open>k\<close> pictures are not used any more, and the next one is.\<close>

fun mark_used :: "nat \<Rightarrow> (nat \<times> bool) list \<Rightarrow> (nat \<times> bool) list" where
  "mark_used k [] = []"
| "mark_used 0 ((d, u) # ps) = (d, True) # ps"
| "mark_used (Suc k) ((d, u) # ps) = (d, False) # mark_used k ps"

lemma first_used_mark: "k < length ps \<Longrightarrow> first_used (mark_used k ps) = Some k"
  by (induction k ps rule: mark_used.induct) auto

lemma length_mark_used [simp]: "length (mark_used k ps) = length ps"
  by (induction k ps rule: mark_used.induct) auto

lemma length_pics_mark [simp]: "length (pics_bits (mark_used k ps)) = length (pics_bits ps)"
  by (induction k ps rule: mark_used.induct) auto

lemma mark_used_deltas: "\<forall>(d, u) \<in> set ps. d < n \<Longrightarrow> \<forall>(d, u) \<in> set (mark_used k ps). d < n"
  by (induction k ps rule: mark_used.induct) auto

lemma reads_cong:
  assumes "\<And>q. p \<le> q \<Longrightarrow> q < p + length xs \<Longrightarrow> sbit m q = sbit m' q"
  shows "reads m p xs = reads m' p xs"
proof -
  have "seg m p (length xs) = seg m' p (length xs)" unfolding seg_def by (rule map_cong [OF refl]) (use assms in auto)
  then show ?thesis by (simp add: reads_def)
qed

lemma put_flag_step:
  assumes "head_at inp e lo hi r p (b # xs)" "1 \<le> vn (rbsp_nal r) \<or> vl_data (rbsp_nal r) = e" "63 \<le> p"
  shows "\<exists>m r'. put_flag r c = Some r' \<and> vl_input (rbsp_nal r') = m \<and> length m = length inp \<and>
    head_at inp e lo hi r' p (b # xs) \<and>
    (\<forall>q < 8 * length inp. sbit m q = (if q = p then c else sbit (vl_input (rbsp_nal r)) q))"
proof -
  have v: "vlc_at inp e (rbsp_nal r) p" "p < 8 * e" using assms(1) by (auto simp: head_at_def rbsp_at_def)
  have n: "1 \<le> vn (rbsp_nal r)" using assms(2) vn_end [OF v(1)] v(2) by auto
  then have d: "8 \<le> vl_data (rbsp_nal r)" using vlc_at_fields(1) [OF v(1)] assms(3) by simp
  obtain m where "put_flag r c = Some (r\<lparr>rbsp_nal := rbsp_nal r\<lparr>vl_input := m\<rparr>\<rparr>)" "length m = length inp"
    "vlc_at inp e (rbsp_nal r\<lparr>vl_input := m\<rparr>) p"
    "\<forall>q. q < 8 * length inp \<longrightarrow> sbit m q = (if q = p then c else sbit (vl_input (rbsp_nal r)) q)"
    using put_flag_at [OF v(1) n d] by blast
  then show ?thesis using assms(1) by (simp add: head_at_def rbsp_at_def)
qed

text \<open>The pictures behind a flag that is written, and the code in front of it, are read as before.\<close>

lemma flag_written_reads:
  assumes "\<forall>q < 8 * n. sbit m q = (if q = p + length xs then c else sbit m0 q)" "p + length (xs @ b # ys) \<le> 8 * n"
    "reads m0 p (xs @ b # ys)"
  shows "reads m p (xs @ [c])" "reads m (p + length xs + 1) ys"
proof -
  have old: "reads m0 p xs" "reads m0 (p + length xs + 1) ys"
    using assms(3) reads_Cons [of m0 "p + length xs" b ys] by (simp_all add: reads_append)
  have "reads m0 p xs = reads m p xs" by (rule reads_cong) (use assms(1,2) in auto)
  moreover have "reads m (p + length xs) [c]" using assms(1,2) by (simp add: reads_single)
  ultimately show "reads m p (xs @ [c])" using old(1) by (simp add: reads_append)
  have "reads m0 (p + length xs + 1) ys = reads m (p + length xs + 1) ys"
    by (rule reads_cong) (use assms(1,2) in auto)
  then show "reads m (p + length xs + 1) ys" using old(2) by simp
qed

lemma set_ref_loop_at:
  assumes "head_at inp e lo hi r p (pics_bits ps)" "\<forall>(d, u) \<in> set ps. d < 65535" "62 \<le> p"
    "reads (vl_input (rbsp_nal r)) p (pics_bits ps)" "k < length ps" "i + length ps < 2 ^ 32"
  shows "\<exists>m. set_ref_loop (length ps) (of_nat i) (of_nat (i + k)) r = Some (True, m) \<and> length m = length inp \<and>
    reads m p (pics_bits (mark_used k ps)) \<and>
    (\<forall>q < 8 * length inp. q < p \<or> p + length (pics_bits ps) \<le> q \<longrightarrow> sbit m q = sbit (vl_input (rbsp_nal r)) q)"
  using assms
proof (induction ps arbitrary: r p i k)
  case (Cons x ps)
  obtain d u where x: "x = (d, u)" by (cases x)
  let ?f = "p + length (enc_ue d)"
  have d: "0 < length (enc_ue d)" by (simp add: length_enc_ue)
  obtain r1 where r1: "skip_ue 1 r = Some r1" "head_at inp e lo hi r1 ?f (u # pics_bits ps)" "moved e r r1"
    using head_skip_ue [of inp e lo hi r p d "u # pics_bits ps"] Cons.prems(1,2) x by auto
  have "1 \<le> vn (rbsp_nal r1) \<or> vl_data (rbsp_nal r1) = e" using r1(3) by (simp add: moved_def)
  moreover have "63 \<le> ?f" using Cons.prems(3) d by linarith
  moreover have mem: "vl_input (rbsp_nal r1) = vl_input (rbsp_nal r)" using r1(3) by (simp add: moved_def)
  ultimately obtain m r2 where m: "put_flag r1 (k = 0) = Some r2" "vl_input (rbsp_nal r2) = m" "length m = length inp"
    "head_at inp e lo hi r2 ?f (u # pics_bits ps)"
    "\<forall>q < 8 * length inp. sbit m q = (if q = ?f then k = 0 else sbit (vl_input (rbsp_nal r)) q)"
    using put_flag_step [OF r1(2)] unfolding mem by blast
  have eq: "of_nat i = (of_nat (i + k) :: u32) \<longleftrightarrow> k = 0"
  proof -
    have "unat (of_nat i :: u32) = i" "unat (of_nat (i + k) :: u32) = i + k"
      by (rule unat_of_nat_small, use Cons.prems(5,6) in simp)+
    then show ?thesis by (metis add_eq_self_zero add_0_right)
  qed
  have in_range: "p + length (pics_bits (x # ps)) \<le> 8 * length inp"
    using Cons.prems(1) vlc_at_fields(3) [of inp e "rbsp_nal r" p] by (auto simp: head_at_def rbsp_at_def)
  note rd = flag_written_reads [OF m(5), of u "pics_bits ps"]
  have rd: "reads m p (enc_ue d @ [k = 0])" "reads m (?f + 1) (pics_bits ps)"
    using rd in_range Cons.prems(4) x by simp_all
  show ?case
  proof (cases k)
    case 0
    have "reads m p (pics_bits (mark_used k (x # ps)))"
      using rd 0 x reads_append [of m p "enc_ue d @ [True]" "pics_bits ps"] by simp
    then show ?thesis using 0 r1(1) m x eq by (intro exI [of _ m]) auto
  next
    case (Suc k')
    obtain r3 where r3: "vl_rbsp_u r2 1 = Some (of_bool u, r3)" "head_at inp e lo hi r3 (?f + 1) (pics_bits ps)"
      "vl_input (rbsp_nal r3) = m"
      using head_flag [OF m(4)] m(2) by (auto simp: moved_def)
    obtain m' where m': "set_ref_loop (length ps) (of_nat (i + 1)) (of_nat (i + 1 + k')) r3 = Some (True, m')"
      "length m' = length inp" "reads m' (?f + 1) (pics_bits (mark_used k' ps))"
      "\<forall>q < 8 * length inp. q < ?f + 1 \<or> ?f + 1 + length (pics_bits ps) \<le> q \<longrightarrow> sbit m' q = sbit m q"
      using Cons.IH [OF r3(2), of k' "i + 1"] Cons.prems(2,3,5,6) rd(2) Suc x r3(3) by auto
    have "reads m p (enc_ue d @ [False]) = reads m' p (enc_ue d @ [False])"
      by (rule reads_cong) (use m'(4) in_range x in auto)
    then have "reads m' p (pics_bits (mark_used k (x # ps)))"
      using rd(1) m'(3) Suc x reads_append [of m' p "enc_ue d @ [False]"] by simp
    moreover have "set_ref_loop (length (x # ps)) (of_nat i) (of_nat (i + k)) r = Some (True, m')"
      using r1(1) m(1) r3(1) m'(1) eq Suc by (simp add: skip_u.simps add.commute [of 1])
    moreover have "sbit m' q = sbit (vl_input (rbsp_nal r)) q"
      if "q < 8 * length inp" "q < p \<or> p + length (pics_bits (x # ps)) \<le> q" for q
      using m'(4) m(5) that x by auto
    ultimately show ?thesis using m'(2) by blast
  qed
qed simp

lemma slice_ok_mark: "slice_ok bs s \<Longrightarrow> slice_ok bs (s\<lparr>negative_pics := mark_used k (negative_pics s)\<rparr>)"
  using mark_used_deltas [of "negative_pics s" 65535 k] by (simp add: slice_ok_def)

definition slice_front :: "bitstream \<Rightarrow> h265_slice \<Rightarrow> bool list" where
  "slice_front bs s = slice_start_bits s @ enc_ue 1 @ enc_u (unat (bs_sps bs) + 4) (poc_lsb s) @ False #
     enc_ue (length (negative_pics s)) @ enc_ue (positive_pics s)"

lemma slice_bits_front: "slice_bits bs s = slice_front bs s @ pics_bits (negative_pics s)"
  by (simp add: slice_bits_def slice_front_def)

lemma slice_front_mark:
  "slice_front bs (s\<lparr>negative_pics := mark_used k (negative_pics s)\<rparr>) = slice_front bs s"
  by (simp add: slice_front_def slice_start_bits_def)

lemma length_slice_front: "negative_pics s \<noteq> [] \<Longrightarrow> 14 \<le> length (slice_front bs s)"
proof -
  assume "negative_pics s \<noteq> []"
  then have "2 ^ 1 \<le> length (negative_pics s) + 1" by (cases "negative_pics s") auto
  then have "0 < ue_len (length (negative_pics s) + 1)"
    using ue_len_bounds [of "length (negative_pics s) + 1"] by (cases "ue_len (length (negative_pics s) + 1)") auto
  moreover have "length (enc_ue 1) = 3" by (simp add: length_enc_ue ue_len.simps)
  ultimately show ?thesis by (simp add: slice_front_def slice_start_bits_def length_enc_ue)
qed

lemma set_ref_h265_rbsp_at:
  assumes "head_at inp e lo hi r 48 (slice_bits bs s)" "slice_ok bs s" "vl_input (rbsp_nal r) = inp"
    "k < length (negative_pics s)"
  shows "\<exists>m. set_ref_h265_rbsp bs data (of_nat k) r = Some (True, m) \<and> length m = length inp \<and>
    reads m 48 (slice_bits bs (s\<lparr>negative_pics := mark_used k (negative_pics s)\<rparr>))"
proof (rule slice_prefix_at [OF assms(1,2)])
  let ?ps = "negative_pics s" and ?p = "48 + length (slice_front bs s)"
  fix r1 r2 r3 r4 r5 r6
  assume r: "slice_start_h265 1 r = Some r1" "vl_rbsp_ue r1 = Some (1, r2)" "skip_u [bs_sps bs + 4] r2 = Some r3"
    "vl_rbsp_u r3 1 = Some (0, r4)" "vl_rbsp_ue r4 = Some (of_nat (length ?ps), r5)"
    "skip_ue 1 r5 = Some r6" and i: "vl_input (rbsp_nal r6) = vl_input (rbsp_nal r)"
    and "head_at inp e lo hi r6 (48 + length (slice_bits bs s) - length (pics_bits ?ps)) (pics_bits ?ps)"
  then have h: "head_at inp e lo hi r6 ?p (pics_bits ?ps)" by (simp add: slice_bits_front)
  have n: "unat (of_nat (length ?ps) :: u32) = length ?ps" "\<not> (of_nat (length ?ps) :: u32) > 16"
    using assms(2) by (simp_all add: slice_ok_def unat_of_nat_small word_less_nat_alt)
  have old: "reads inp 48 (slice_front bs s)" "reads inp ?p (pics_bits ?ps)"
    using assms(1) by (simp_all add: head_at_def slice_bits_front reads_append)
  have "?ps \<noteq> []" using assms(4) by auto
  then have "62 \<le> ?p" using length_slice_front [of s bs] by simp
  then obtain m where m: "set_ref_loop (length ?ps) 0 (of_nat k) r6 = Some (True, m)" "length m = length inp"
    "reads m ?p (pics_bits (mark_used k ?ps))"
    "\<forall>q < 8 * length inp. q < ?p \<or> ?p + length (pics_bits ?ps) \<le> q \<longrightarrow> sbit m q = sbit inp q"
    using set_ref_loop_at [OF h, of k 0] old(2) assms(2,4) i assms(3) by (auto simp: slice_ok_def)
  have "?p \<le> 8 * length inp"
    using h vlc_at_fields(3) [of inp e "rbsp_nal r6" ?p] by (auto simp: head_at_def rbsp_at_def)
  then have "reads inp 48 (slice_front bs s) = reads m 48 (slice_front bs s)"
    by (intro reads_cong) (use m(4) in auto)
  then have "reads m 48 (slice_bits bs (s\<lparr>negative_pics := mark_used k ?ps\<rparr>))"
    using old(1) m(3) by (simp add: slice_bits_front slice_front_mark reads_append)
  then show ?thesis using r m(1,2) n by (simp add: set_ref_h265_rbsp_def)
qed

text \<open>
  C8: A P slice is written with its list of pictures. When the reference frame is set to the picture
  \<open>ref\<close> of that list, the bytes keep their number and are again a slice with the same header
  except for the marks: picture \<open>ref\<close> is used and those in front of it are not. When no emulation
  prevention byte and no start code arises in the changed bytes, the parser returns \<open>ref\<close>.
\<close>

theorem slice_reference_frame_set:
  assumes "clean_slice inp (length (slice_bits bs s))" "reads inp 48 (slice_bits bs s)" "slice_ok bs s"
    "bs_codec bs \<noteq> CHIAKI_CODEC_H264" "ref < length (negative_pics s)"
    "marked = s\<lparr>negative_pics := mark_used ref (negative_pics s)\<rparr>"
  shows "\<exists>inp'. chiaki_bitstream_slice_set_reference_frame addr bs inp (of_nat (length inp)) (of_nat ref) =
      Some (True, inp') \<and> length inp' = length inp \<and> reads inp' 48 (slice_bits bs marked) \<and>
    (clean_slice inp' (length (slice_bits bs marked)) \<longrightarrow>
     chiaki_bitstream_slice addr' bs inp' (of_nat (length inp')) sl =
       Some (True, \<lparr>slice_type = CHIAKI_BITSTREAM_SLICE_P, reference_frame = of_nat ref\<rparr>))"
proof (rule slice_reader [OF assms(1,2)])
  fix v0 v1 v2 r e hi
  assume a: "vl_vlc_init addr inp (of_nat (length inp)) = Some v0" "skip_startcode v0 = Some (True, v1)"
    "nal_h265 v1 = Some (1, v2)" "vl_rbsp_init v2 (- 1) = Some r" and i: "vl_input (rbsp_nal r) = inp"
    and h: "head_at inp e 6 hi r 48 (slice_bits bs s)"
  obtain m where m: "set_ref_h265_rbsp bs inp (of_nat ref) r = Some (True, m)" "length m = length inp"
    "reads m 48 (slice_bits bs marked)"
    using set_ref_h265_rbsp_at [OF h assms(3) i assms(5)] assms(6) by blast
  have "chiaki_bitstream_slice_set_reference_frame addr bs inp (of_nat (length inp)) (of_nat ref) = Some (True, m)"
    using a m(1) assms(4) by (simp add: chiaki_bitstream_slice_set_reference_frame_def slice_set_reference_frame_h265_def)
  moreover have "chiaki_bitstream_slice addr' bs m (of_nat (length m)) sl =
      Some (True, \<lparr>slice_type = CHIAKI_BITSTREAM_SLICE_P, reference_frame = of_nat ref\<rparr>)"
    if "clean_slice m (length (slice_bits bs marked))"
    using slice_h265_at [OF that m(3)] slice_ok_mark [OF assms(3)] first_used_mark [OF assms(5)] assms(4,6)
    by (simp add: chiaki_bitstream_slice_def)
  ultimately show ?thesis using m(2,3) by blast
qed


text \<open>A slice with nine pictures, from the tests of the code.\<close>

definition sample_h265_frame :: bytes where
  "sample_h265_frame =
     [0x00, 0x00, 0x00, 0x01, 0x02, 0x01, 0xd2, 0x85, 0x7a, 0xaa, 0xa6, 0x08, 0x60, 0x13, 0x55, 0x17,
      0x6b, 0x71, 0x72, 0xf9, 0x6e, 0xd4, 0xf2, 0x66, 0x78, 0x0c, 0x12, 0xe7, 0x79, 0xf0, 0xbc, 0xc9]"

definition sample_h265_slice :: h265_slice where
  "sample_h265_slice = \<lparr>first_slice = True, pps_id = 0, segment_address = 0, poc_lsb = 5, positive_pics = 0,
     negative_pics = [(0, True), (0, False), (0, False), (0, False), (0, False), (0, False), (0, False), (0, False),
       (0, False)]\<rparr>"

definition sample_h265 :: bitstream where
  "sample_h265 = \<lparr>bs_codec = CHIAKI_CODEC_H265, bs_sps = 0\<rparr>"

lemma sample_h265_clean: "clean_slice sample_h265_frame 36"
proof -
  have b: "\<forall>j \<in> set [6..<32]. sample_h265_frame ! j \<noteq> 0 \<and> sample_h265_frame ! j \<noteq> 3" by code_simp
  have "\<not> start_code sample_h265_frame e j" "sample_h265_frame ! j \<noteq> 3" if "6 \<le> j" "j < 32" for e j
  proof -
    have "j \<in> set [6..<32]" unfolding set_upt using that by simp
    with b have "sample_h265_frame ! j \<noteq> 0" "sample_h265_frame ! j \<noteq> 3" by blast+
    then show "\<not> start_code sample_h265_frame e j" "sample_h265_frame ! j \<noteq> 3" by (simp_all add: start_code_def)
  qed
  moreover have "length sample_h265_frame = 32" "take 5 sample_h265_frame = [0, 0, 0, 1, 2]"
    by (simp_all add: sample_h265_frame_def)
  ultimately show ?thesis
    unfolding clean_slice_def nal_end_def calm_def ahead_def by (intro conjI exI [of _ 32]) auto
qed

lemma sample_h265_bits:
  "slice_bits sample_h265 sample_h265_slice =
    [True, True, False, True, False, False, True, False, True, False, False, False, False, True, False, True, False, True,
     True, True, True, False, True, False, True, False, True, False, True, False, True, False, True, False, True, False]"
  by (simp add: slice_bits_def slice_start_bits_def sample_h265_def sample_h265_slice_def enc_ue_def enc_u_def
      ue_len.simps upt_rec) code_simp

lemma sample_h265_length: "length (slice_bits sample_h265 sample_h265_slice) = 36"
  unfolding sample_h265_bits by simp

lemma sample_h265_reads: "reads sample_h265_frame 48 (slice_bits sample_h265 sample_h265_slice)"
proof -
  have "seg sample_h265_frame 48 36 =
    [True, True, False, True, False, False, True, False, True, False, False, False, False, True, False, True, False, True,
     True, True, True, False, True, False, True, False, True, False, True, False, True, False, True, False, True, False]"
    by (simp add: seg_def upt_rec sbit_def sample_h265_frame_def)
  then show ?thesis unfolding reads_def sample_h265_length unfolding sample_h265_bits .
qed

theorem slice_reference_frame_set_witness:
  "\<exists>inp'. chiaki_bitstream_slice_set_reference_frame 0 sample_h265 sample_h265_frame
      (of_nat (length sample_h265_frame)) (of_nat 5) = Some (True, inp') \<and> length inp' = length sample_h265_frame"
proof -
  have ok: "slice_ok sample_h265 sample_h265_slice"
    by (simp add: slice_ok_def sample_h265_def sample_h265_slice_def)
  have "bs_codec sample_h265 \<noteq> CHIAKI_CODEC_H264" "5 < length (negative_pics sample_h265_slice)"
    by (simp_all add: sample_h265_def sample_h265_slice_def)
  from slice_reference_frame_set [OF _ sample_h265_reads ok this refl] show ?thesis
    using sample_h265_clean unfolding sample_h265_length by blast
qed

text \<open>
  A frame of fewer than 68 bytes without a start code fails an assertion, because the number of
  bits left counts the bytes of the input a second time.
\<close>

lemma short_frame_aborts:
  "chiaki_bitstream_slice 0 sample_h265 [1, 2, 3, 4, 5, 6, 7, 8] 8 sl = None"
proof -
  have "vl_vlc_init 0 [1, 2, 3, 4, 5, 6, 7, 8] 8 \<bind> skip_startcode = None" by code_simp
  then show ?thesis
    by (auto simp: chiaki_bitstream_slice_def slice_h265_def sample_h265_def split: Option.bind_splits)
qed

text \<open>A header that is rejected leaves its number behind, and the next slice fails an assertion.\<close>

definition rejected_header :: bytes where
  "rejected_header = [0, 0, 0, 1, 0x67, 0x42, 0xc0, 0x1e, 0x83, 0xdf, 0xff, 0xff, 0xff, 0xff, 0xff, 0xff]"

lemma rejected_header_kept:
  "chiaki_bitstream_header 0 \<lparr>bs_codec = CHIAKI_CODEC_H264, bs_sps = 0\<rparr> rejected_header 16 =
     Some (False, \<lparr>bs_codec = CHIAKI_CODEC_H264, bs_sps = 60\<rparr>)"
  "chiaki_bitstream_slice 0 \<lparr>bs_codec = CHIAKI_CODEC_H264, bs_sps = 60\<rparr>
     [0, 0, 0, 1, 0x41, 0xff, 0xff, 0xff, 0xff, 0xff, 0xff, 0xff, 0xff, 0xff, 0xff, 0xff] 16
     \<lparr>slice_type = CHIAKI_BITSTREAM_SLICE_UNKNOWN, reference_frame = 0\<rparr> = None"
  by code_simp+

end
