(* ===== verification/Frame_Processor.thy ===== *)
theory Frame_Processor
  imports Av_Packet Packet_Stats
begin

text \<open>
  The assembly of video frames (\<^verbatim>\<open>lib/src/frameprocessor.c\<close>) and its calls into the erasure code
  (\<^verbatim>\<open>lib/src/fec.c\<close>). A frame is a number of source units and parity units of one size. Each unit
  has a slot in the frame buffer; the first two bytes of a source unit say how much shorter it
  is than the others. The erasure code itself is the library jerasure and is a parameter:
  \<open>dec k m erasures units\<close> returns all units, or \<open>None\<close> when it fails.
\<close>

section \<open>The erasure code\<close>

type_synonym fec_decoder = "nat \<Rightarrow> nat \<Rightarrow> nat list \<Rightarrow> bytes list \<Rightarrow> bytes list option"

text \<open>The units at \<open>stride * i\<close>, and their replacement.\<close>

fun fec_gather :: "bytes \<Rightarrow> nat \<Rightarrow> nat \<Rightarrow> nat \<Rightarrow> nat \<Rightarrow> bytes list option" where
  "fec_gather buf unit_size stride i 0 = Some []"
| "fec_gather buf unit_size stride i (Suc n) = do {
     u \<leftarrow> rd_n buf (stride * i) unit_size;
     us \<leftarrow> fec_gather buf unit_size stride (i + 1) n;
     Some (u # us)
   }"

fun fec_scatter :: "bytes \<Rightarrow> nat \<Rightarrow> nat \<Rightarrow> bytes list \<Rightarrow> bytes option" where
  "fec_scatter buf stride i [] = Some buf"
| "fec_scatter buf stride i (u # us) = do {
     buf \<leftarrow> wr buf (stride * i) u;
     fec_scatter buf stride (i + 1) us
   }"

text \<open>\<open>alloc\<close>: whether the coding matrix and the arrays of pointers are allocated.\<close>

definition chiaki_fec_decode ::
  "fec_decoder \<Rightarrow> bool \<Rightarrow> bytes \<Rightarrow> nat \<Rightarrow> nat \<Rightarrow> nat \<Rightarrow> nat \<Rightarrow> nat list \<Rightarrow> (bytes \<times> ChiakiErrorCode) option" where
  "chiaki_fec_decode dec alloc frame_buf unit_size stride k m erasures =
     (if stride < unit_size then Some (frame_buf, CHIAKI_ERR_INVALID_DATA)
      else if \<not> alloc then Some (frame_buf, CHIAKI_ERR_MEMORY)
      else do {
        us \<leftarrow> fec_gather frame_buf unit_size stride 0 (k + m);
        (case dec k m erasures us of
           None \<Rightarrow> Some (frame_buf, CHIAKI_ERR_FEC_FAILED)
         | Some us' \<Rightarrow> do {
             frame_buf \<leftarrow> fec_scatter frame_buf stride 0 us';
             Some (frame_buf, CHIAKI_ERR_SUCCESS)
           })
      })"

text \<open>
  \<open>enc k m units\<close> are the \<open>m\<close> parity units. \<open>alloc\<close>: whether the matrix and the arrays of
  pointers are allocated; \<open>alloc_units\<close>: whether the parity units are. The parity units are
  copied behind \<open>k * unit_size\<close>, whatever the stride.
\<close>

definition chiaki_fec_encode ::
  "(nat \<Rightarrow> nat \<Rightarrow> bytes list \<Rightarrow> bytes list) \<Rightarrow> bool \<Rightarrow> bool \<Rightarrow> bytes \<Rightarrow> nat \<Rightarrow> nat \<Rightarrow> nat \<Rightarrow> nat \<Rightarrow>
   (bytes \<times> ChiakiErrorCode) option" where
  "chiaki_fec_encode enc alloc alloc_units frame_buf unit_size stride k m =
     (if stride < unit_size then Some (frame_buf, CHIAKI_ERR_INVALID_DATA)
      else if \<not> alloc then Some (frame_buf, CHIAKI_ERR_MEMORY)
      else if \<not> alloc_units then Some (frame_buf, CHIAKI_ERR_SUCCESS)
      else do {
        us \<leftarrow> fec_gather frame_buf unit_size stride 0 k;
        frame_buf \<leftarrow> fec_scatter frame_buf unit_size k (enc k m us);
        Some (frame_buf, CHIAKI_ERR_SUCCESS)
      })"

section \<open>Stream statistics\<close>

record stream_stats =
  stats_frames :: u64
  stats_bytes :: u64

definition chiaki_stream_stats_reset :: stream_stats where
  "chiaki_stream_stats_reset = \<lparr>stats_frames = 0, stats_bytes = 0\<rparr>"

definition chiaki_stream_stats_frame :: "stream_stats \<Rightarrow> u64 \<Rightarrow> stream_stats" where
  "chiaki_stream_stats_frame st sz = st\<lparr>stats_frames := stats_frames st + 1, stats_bytes := stats_bytes st + sz\<rparr>"

definition chiaki_stream_stats_bitrate :: "stream_stats \<Rightarrow> u64 \<Rightarrow> u64" where
  "chiaki_stream_stats_bitrate st framerate =
     (if stats_frames st = 0 then 0 else (stats_bytes st * 8 * framerate) div stats_frames st)"

section \<open>The frame processor\<close>

abbreviation (input) UNIT_SLOTS_MAX :: nat where "UNIT_SLOTS_MAX \<equiv> 256"
abbreviation (input) CHIAKI_VIDEO_BUFFER_PADDING_SIZE :: nat where "CHIAKI_VIDEO_BUFFER_PADDING_SIZE \<equiv> 64"

datatype flush_result =
    CHIAKI_FRAME_PROCESSOR_FLUSH_RESULT_SUCCESS
  | CHIAKI_FRAME_PROCESSOR_FLUSH_RESULT_FEC_SUCCESS
  | CHIAKI_FRAME_PROCESSOR_FLUSH_RESULT_FEC_FAILED
  | CHIAKI_FRAME_PROCESSOR_FLUSH_RESULT_FAILED

record frame_processor =
  frame_buf :: "bytes option"
  frame_buf_size :: nat
  buf_size_per_unit :: nat
  buf_stride_per_unit :: nat
  units_source_expected :: u32
  units_fec_expected :: u32
  units_source_received :: u32
  units_fec_received :: u32
  unit_slots :: "nat list option" \<comment> \<open>the \<^verbatim>\<open>data_size\<close> of each slot\<close>
  unit_slots_size :: nat
  flushed :: bool
  fp_stream_stats :: stream_stats

definition chiaki_frame_processor_init :: frame_processor where
  "chiaki_frame_processor_init = \<lparr>frame_buf = None, frame_buf_size = 0, buf_size_per_unit = 0, buf_stride_per_unit = 0,
     units_source_expected = 0, units_fec_expected = 0, units_source_received = 0, units_fec_received = 0,
     unit_slots = None, unit_slots_size = 0, flushed = True, fp_stream_stats = chiaki_stream_stats_reset\<rparr>"

text \<open>The size of a unit: that of the packet and, for a source unit, the padding it announces.\<close>

definition unit_size_of :: "av_packet \<Rightarrow> u32 \<Rightarrow> (ChiakiErrorCode + nat) option" where
  "unit_size_of packet source_expected =
     (if is_video packet \<and> ucast (unit_index packet) < source_expected
      then if av_data_size packet < 2 then Some (Inl CHIAKI_ERR_BUF_TOO_SMALL)
           else do { ext \<leftarrow> rd16 (av_data packet) 0; Some (Inr (unat (av_data_size packet) + unat ext)) }
      else Some (Inr (unat (av_data_size packet))))"

text \<open>The last part of \<open>alloc_frame\<close>: the slots and the buffer. \<open>malloc_buf\<close>: the new buffer, of any contents.\<close>

definition alloc_frame_buf ::
  "bool \<Rightarrow> (nat \<Rightarrow> bytes option) \<Rightarrow> frame_processor \<Rightarrow> (frame_processor \<times> ChiakiErrorCode) option" where
  "alloc_frame_buf alloc_slots malloc_buf fp =
     (let required = unat (units_source_expected fp + units_fec_expected fp)
      in if required > UNIT_SLOTS_MAX then Some (fp, CHIAKI_ERR_INVALID_DATA)
         else if required \<noteq> unit_slots_size fp \<and> \<not> alloc_slots
         then Some (fp\<lparr>unit_slots := None, unit_slots_size := 0\<rparr>, CHIAKI_ERR_MEMORY)
         else if required = unit_slots_size fp \<and> unit_slots fp = None \<and> 0 < required then None
         else
           let fp = fp\<lparr>unit_slots := Some (replicate required 0), unit_slots_size := required\<rparr>
           in if buf_stride_per_unit fp = 0 then None
              else if required > (2 ^ 64 - 1) div buf_stride_per_unit fp then Some (fp, CHIAKI_ERR_OVERFLOW)
              else
                let buf_required = required * buf_stride_per_unit fp;
                    zeros = replicate (buf_required + CHIAKI_VIDEO_BUFFER_PADDING_SIZE) 0
                in if frame_buf_size fp < buf_required
                   then (case malloc_buf (buf_required + CHIAKI_VIDEO_BUFFER_PADDING_SIZE) of
                           None \<Rightarrow> Some (fp\<lparr>frame_buf := None, frame_buf_size := 0\<rparr>, CHIAKI_ERR_MEMORY)
                         | Some b \<Rightarrow> do {
                             b \<leftarrow> wr b 0 zeros;
                             Some (fp\<lparr>frame_buf := Some b, frame_buf_size := buf_required\<rparr>, CHIAKI_ERR_SUCCESS)
                           })
                   else do {
                     b \<leftarrow> frame_buf fp;
                     b \<leftarrow> wr b 0 zeros;
                     Some (fp\<lparr>frame_buf := Some b\<rparr>, CHIAKI_ERR_SUCCESS)
                   })"

definition chiaki_frame_processor_alloc_frame ::
  "bool \<Rightarrow> (nat \<Rightarrow> bytes option) \<Rightarrow> frame_processor \<Rightarrow> av_packet \<Rightarrow> (frame_processor \<times> ChiakiErrorCode) option" where
  "chiaki_frame_processor_alloc_frame alloc_slots malloc_buf fp packet =
     (if units_in_frame_total packet < units_in_frame_fec packet then Some (fp, CHIAKI_ERR_INVALID_DATA)
      else
        let source = ucast (units_in_frame_total packet) - ucast (units_in_frame_fec packet);
            fec = (if units_in_frame_fec packet < 1 then 1 else ucast (units_in_frame_fec packet));
            fp = fp\<lparr>flushed := False, units_source_expected := source, units_fec_expected := fec,
                    buf_size_per_unit := unat (av_data_size packet)\<rparr>
        in do {
          r \<leftarrow> unit_size_of packet source;
          (case r of Inl err \<Rightarrow> Some (fp, err)
           | Inr n \<Rightarrow>
               let fp = fp\<lparr>buf_size_per_unit := n, buf_stride_per_unit := ((n + 0xf) div 0x10) * 0x10\<rparr>
               in if n = 0 then Some (fp, CHIAKI_ERR_BUF_TOO_SMALL)
                  else alloc_frame_buf alloc_slots malloc_buf
                    (fp\<lparr>units_source_received := 0, units_fec_received := 0\<rparr>))
        })"

definition chiaki_frame_processor_put_unit ::
  "frame_processor \<Rightarrow> av_packet \<Rightarrow> (frame_processor \<times> ChiakiErrorCode) option" where
  "chiaki_frame_processor_put_unit fp packet =
     (let i = unat (unit_index packet); data_size = unat (av_data_size packet)
      in if i > unit_slots_size fp then Some (fp, CHIAKI_ERR_INVALID_DATA)
         else if data_size = 0 then Some (fp, CHIAKI_ERR_INVALID_DATA)
         else if data_size > buf_size_per_unit fp then Some (fp, CHIAKI_ERR_INVALID_DATA)
         else do {
           slots \<leftarrow> unit_slots fp;
           if i \<ge> length slots then None
           else if slots ! i \<noteq> 0 then Some (fp, CHIAKI_ERR_INVALID_DATA)
           else do {
             let fp = fp\<lparr>unit_slots := Some (slots[i := data_size])\<rparr>;
             fp \<leftarrow> (if \<not> flushed fp then do {
                      b \<leftarrow> frame_buf fp;
                      d \<leftarrow> rd_n (av_data packet) 0 data_size;
                      b \<leftarrow> wr b (i * buf_stride_per_unit fp) d;
                      Some (fp\<lparr>frame_buf := Some b\<rparr>)
                    }
                    else Some fp);
             Some (if ucast (unit_index packet) < units_source_expected fp
                   then fp\<lparr>units_source_received := units_source_received fp + 1\<rparr>
                   else fp\<lparr>units_fec_received := units_fec_received fp + 1\<rparr>, CHIAKI_ERR_SUCCESS)
           }
         })"

definition chiaki_frame_processor_report_packet_stats ::
  "frame_processor \<Rightarrow> packet_stats \<Rightarrow> packet_stats" where
  "chiaki_frame_processor_report_packet_stats fp stats =
     (let received = ucast (units_source_received fp + units_fec_received fp);
          expected = ucast (units_source_expected fp + units_fec_expected fp)
      in chiaki_packet_stats_push_generation stats received (expected - received))"

definition chiaki_frame_processor_flush_possible :: "frame_processor \<Rightarrow> bool" where
  "chiaki_frame_processor_flush_possible fp \<longleftrightarrow>
     units_source_received fp + units_fec_received fp \<ge> units_source_expected fp"

text \<open>The indices of the empty ones among the first \<open>n\<close> slots; more than \<open>count\<close> fail the assertion.\<close>

fun fec_erasures :: "nat list \<Rightarrow> nat \<Rightarrow> nat \<Rightarrow> nat \<Rightarrow> nat list option" where
  "fec_erasures slots i 0 count = (if count = 0 then Some [] else None)"
| "fec_erasures slots i (Suc n) count =
     (if i \<ge> length slots then None
      else if slots ! i \<noteq> 0 then fec_erasures slots (i + 1) n count
      else if count = 0 then None
      else do { rest \<leftarrow> fec_erasures slots (i + 1) n (count - 1); Some (i # rest) })"

text \<open>The sizes of the source units after decoding, from the padding in their first two bytes.\<close>

fun fec_restore :: "bytes \<Rightarrow> nat \<Rightarrow> nat \<Rightarrow> nat list \<Rightarrow> nat \<Rightarrow> nat \<Rightarrow> nat list option" where
  "fec_restore b unit_size stride slots i 0 = Some slots"
| "fec_restore b unit_size stride slots i (Suc n) = do {
     padding \<leftarrow> rd16 b (stride * i);
     if unat padding \<ge> unit_size then fec_restore b unit_size stride slots (i + 1) n
     else if i \<ge> length slots then None
     else fec_restore b unit_size stride (slots[i := unit_size - unat padding]) (i + 1) n
   }"

definition chiaki_frame_processor_fec ::
  "fec_decoder \<Rightarrow> bool \<Rightarrow> bool \<Rightarrow> frame_processor \<Rightarrow> (frame_processor \<times> ChiakiErrorCode) option" where
  "chiaki_frame_processor_fec dec alloc_erasures alloc_fec fp =
     (let k = unat (units_source_expected fp); total = unat (units_source_expected fp + units_fec_expected fp);
          erasures_count = unat ((units_source_expected fp + units_fec_expected fp)
            - (units_source_received fp + units_fec_received fp))
      in if \<not> alloc_erasures then Some (fp, CHIAKI_ERR_MEMORY)
         else do {
           slots \<leftarrow> unit_slots fp;
           erasures \<leftarrow> fec_erasures slots 0 total erasures_count;
           b \<leftarrow> frame_buf fp;
           (b, err) \<leftarrow> chiaki_fec_decode dec alloc_fec b (buf_size_per_unit fp) (buf_stride_per_unit fp)
             k (unat (units_fec_expected fp)) erasures;
           if err \<noteq> CHIAKI_ERR_SUCCESS then Some (fp\<lparr>frame_buf := Some b\<rparr>, CHIAKI_ERR_FEC_FAILED)
           else do {
             slots \<leftarrow> fec_restore b (buf_size_per_unit fp) (buf_stride_per_unit fp) slots 0 k;
             Some (fp\<lparr>frame_buf := Some b, unit_slots := Some slots\<rparr>, CHIAKI_ERR_SUCCESS)
           }
         })"

text \<open>The loop of \<open>flush\<close>: the payloads are moved together at the start of the buffer.\<close>

fun flush_loop :: "nat list \<Rightarrow> nat \<Rightarrow> bytes \<Rightarrow> nat \<Rightarrow> nat \<Rightarrow> nat \<Rightarrow> (bytes \<times> nat) option" where
  "flush_loop slots stride b cur i 0 = Some (b, cur)"
| "flush_loop slots stride b cur i (Suc n) =
     (if i \<ge> length slots then None
      else if slots ! i < 2 then flush_loop slots stride b cur (i + 1) n
      else do {
        part \<leftarrow> rd_n b (i * stride + 2) (slots ! i - 2);
        b \<leftarrow> wr b cur part;
        flush_loop slots stride b (cur + (slots ! i - 2)) (i + 1) n
      })"

definition chiaki_frame_processor_flush ::
  "fec_decoder \<Rightarrow> bool \<Rightarrow> bool \<Rightarrow> frame_processor \<Rightarrow> (frame_processor \<times> flush_result \<times> bytes) option" where
  "chiaki_frame_processor_flush dec alloc_erasures alloc_fec fp =
     (if units_source_expected fp = 0 \<or> flushed fp then Some (fp, CHIAKI_FRAME_PROCESSOR_FLUSH_RESULT_FAILED, [])
      else do {
        (fp, result) \<leftarrow>
          (if units_source_received fp < units_source_expected fp then do {
             (fp, err) \<leftarrow> chiaki_frame_processor_fec dec alloc_erasures alloc_fec fp;
             Some (fp, if err = CHIAKI_ERR_SUCCESS then CHIAKI_FRAME_PROCESSOR_FLUSH_RESULT_FEC_SUCCESS
                       else CHIAKI_FRAME_PROCESSOR_FLUSH_RESULT_FEC_FAILED)
           }
           else Some (fp, CHIAKI_FRAME_PROCESSOR_FLUSH_RESULT_SUCCESS));
        slots \<leftarrow> unit_slots fp;
        b \<leftarrow> frame_buf fp;
        (b, cur) \<leftarrow> flush_loop slots (buf_stride_per_unit fp) b 0 0 (unat (units_source_expected fp));
        Some (fp\<lparr>frame_buf := Some b, fp_stream_stats := chiaki_stream_stats_frame (fp_stream_stats fp) (of_nat cur)\<rparr>,
              result, take cur b)
      })"

end
