(* ===== verification/Video_Receiver.thy ===== *)
theory Video_Receiver
  imports Frame_Processor Bitstream Seq_Num
begin

text \<open>
  The video receiver (\<^verbatim>\<open>lib/src/videoreceiver.c\<close>): it collects the units of a frame, flushes the
  frame when it can be completed, checks that the frame it refers to is one the decoder has, and
  hands it to the callback of the session.

  What comes from outside is in the environment: the erasure code and the allocations of the frame
  processor, the addresses of the buffers that the bit reader sees, the memory of the local variable
  \<^verbatim>\<open>slice\<close>, and the callback (\<^term>\<open>None\<close> when the session has none) with its result. The calls that
  leave the receiver are recorded in \<open>vr_events\<close>, the last one first.
\<close>

record video_profile =
  profile_width :: u32
  profile_height :: u32
  profile_header :: bytes

text \<open>
  \<open>VideoSample i frame lost recovered\<close>: the call of the callback; \<open>i\<close> is \<^verbatim>\<open>frame_index_cur\<close>, which
  the callback is not given. \<open>CorruptFrame a b\<close>: the call of \<^verbatim>\<open>stream_connection_send_corrupt_frame\<close>.
\<close>

datatype video_event =
    VideoHeader bytes
  | VideoSample int bytes int bool
  | CorruptFrame u16 u16

record video_env =
  ve_dec :: fec_decoder
  ve_alloc_slots :: bool
  ve_malloc_buf :: "nat \<Rightarrow> bytes option"
  ve_alloc_erasures :: bool
  ve_alloc_fec :: bool
  ve_frame_addr :: nat
  ve_header_addr :: nat
  ve_slice :: bitstream_slice
  ve_video_sample_cb :: "(bytes \<Rightarrow> bool) option"

text \<open>
  \<open>frames_lost\<close> is an \<^verbatim>\<open>int32_t\<close>; each frame adds less than \<open>2 ^ 17\<close> to it and a delivery resets it, so
  it stays in its range for the first \<open>2 ^ 14\<close> frames after a delivery, and here it is an integer.
\<close>

record video_receiver =
  vr_profiles :: "video_profile list"
  profile_cur :: int
  frame_index_cur :: int
  frame_index_prev :: int
  frame_index_prev_complete :: int
  vr_frame_processor :: frame_processor
  vr_packet_stats :: "packet_stats option"
  frames_lost :: int
  reference_frames :: "int list"
  vr_bitstream :: bitstream
  vr_events :: "video_event list"

text \<open>The union of the bit stream is not initialised: \<open>bs\<close> is what the memory holds.\<close>

definition chiaki_video_receiver_init :: "bitstream \<Rightarrow> ChiakiCodec \<Rightarrow> packet_stats option \<Rightarrow> video_receiver" where
  "chiaki_video_receiver_init bs codec stats = \<lparr>vr_profiles = [], profile_cur = - 1,
     frame_index_cur = - 1, frame_index_prev = - 1, frame_index_prev_complete = 0,
     vr_frame_processor = chiaki_frame_processor_init, vr_packet_stats = stats, frames_lost = 0,
     reference_frames = replicate 16 (- 1), vr_bitstream = chiaki_bitstream_init bs codec, vr_events = []\<rparr>"

definition chiaki_video_receiver_stream_info :: "video_receiver \<Rightarrow> video_profile list \<Rightarrow> video_receiver" where
  "chiaki_video_receiver_stream_info vr ps =
     (if length (vr_profiles vr) > 0 then vr else vr\<lparr>vr_profiles := ps\<rparr>)"

section \<open>Reference frames\<close>

text \<open>The last free slot, from the end of the list.\<close>

fun last_free :: "int list \<Rightarrow> nat \<Rightarrow> nat option" where
  "last_free fs 0 = None"
| "last_free fs (Suc i) = (if fs ! i = - 1 then Some i else last_free fs i)"

definition add_ref_frame :: "video_receiver \<Rightarrow> int \<Rightarrow> video_receiver" where
  "add_ref_frame vr frame =
     (let fs = reference_frames vr
      in if fs ! 0 \<noteq> - 1 then vr\<lparr>reference_frames := frame # take 15 fs\<rparr>
         else (case last_free fs 16 of
                 Some i \<Rightarrow> vr\<lparr>reference_frames := fs[i := frame]\<rparr>
               | None \<Rightarrow> vr))"

definition have_ref_frame :: "video_receiver \<Rightarrow> u16 \<Rightarrow> bool" where
  "have_ref_frame vr frame = list_ex (\<lambda>f. f = uint frame) (reference_frames vr)"

section \<open>Flushing a frame\<close>

definition vr_event :: "video_event \<Rightarrow> video_receiver \<Rightarrow> video_receiver" where
  "vr_event e vr = vr\<lparr>vr_events := e # vr_events vr\<rparr>"

text \<open>The number of the frame that is \<open>i + 1\<close> in front of the current one.\<close>

definition ref_index :: "video_receiver \<Rightarrow> u32 \<Rightarrow> u16" where
  "ref_index vr i = of_int (frame_index_cur vr) - ucast i - 1"

definition next_frame_expected :: "video_receiver \<Rightarrow> u16" where
  "next_frame_expected vr = of_int (frame_index_prev_complete vr + 1)"

text \<open>
  The check of the reference frame: whether the frame can be decoded, whether it was changed for
  that, and its bytes. The frame lies at the start of the frame buffer.
\<close>

definition change_reference ::
  "video_env \<Rightarrow> video_receiver \<Rightarrow> bitstream_slice \<Rightarrow> bytes \<Rightarrow> (bool \<times> bytes) option" where
  "change_reference env vr sl frame =
     (case List.find (\<lambda>i. have_ref_frame vr (ref_index vr (of_nat i))) [unat (reference_frame sl + 1)..<16] of
        None \<Rightarrow> Some (False, frame)
      | Some i \<Rightarrow> chiaki_bitstream_slice_set_reference_frame (ve_frame_addr env) (vr_bitstream vr) frame
          (of_nat (length frame)) (of_nat i))"

definition check_reference ::
  "video_env \<Rightarrow> video_receiver \<Rightarrow> bytes \<Rightarrow> (bool \<times> bool \<times> bytes) option" where
  "check_reference env vr frame = do {
     (ok, sl) \<leftarrow> chiaki_bitstream_slice (ve_frame_addr env) (vr_bitstream vr) frame (of_nat (length frame)) (ve_slice env);
     if ok \<and> slice_type sl = CHIAKI_BITSTREAM_SLICE_P \<and> reference_frame sl \<noteq> 0xff \<and>
        \<not> have_ref_frame vr (ref_index vr (reference_frame sl))
     then do {
       (recovered, frame) \<leftarrow> change_reference env vr sl frame;
       Some (recovered, recovered, frame)
     }
     else Some (True, False, frame)
   }"

text \<open>The call of the callback, when there is one.\<close>

definition deliver_frame :: "video_env \<Rightarrow> video_receiver \<Rightarrow> bytes \<Rightarrow> bool \<Rightarrow> bool \<times> video_receiver" where
  "deliver_frame env vr frame recovered =
     (case ve_video_sample_cb env of
        None \<Rightarrow> (True, vr)
      | Some cb \<Rightarrow>
          let vr = (vr_event (VideoSample (frame_index_cur vr) frame (frames_lost vr) recovered) vr)\<lparr>frames_lost := 0\<rparr>
          in if cb frame then (True, add_ref_frame vr (frame_index_cur vr)) else (False, vr))"

definition chiaki_video_receiver_flush_frame ::
  "video_env \<Rightarrow> video_receiver \<Rightarrow> (video_receiver \<times> ChiakiErrorCode) option" where
  "chiaki_video_receiver_flush_frame env vr = do {
     (fp, result, frame) \<leftarrow> chiaki_frame_processor_flush (ve_dec env) (ve_alloc_erasures env) (ve_alloc_fec env)
       (vr_frame_processor vr);
     let vr = vr\<lparr>vr_frame_processor := fp\<rparr>;
     if result = CHIAKI_FRAME_PROCESSOR_FLUSH_RESULT_FEC_FAILED then
       let next = next_frame_expected vr;
           vr = vr_event (CorruptFrame next (of_int (frame_index_cur vr))) vr
       in Some (vr\<lparr>frames_lost := frames_lost vr + (frame_index_cur vr - uint next + 1),
                   frame_index_prev := frame_index_cur vr\<rparr>, CHIAKI_ERR_UNKNOWN)
     else if result = CHIAKI_FRAME_PROCESSOR_FLUSH_RESULT_FAILED then Some (vr, CHIAKI_ERR_UNKNOWN)
     else do {
       (succ, recovered, frame) \<leftarrow> check_reference env vr frame;
       buf \<leftarrow> frame_buf fp;
       buf \<leftarrow> wr buf 0 frame;
       let vr = vr\<lparr>vr_frame_processor := fp\<lparr>frame_buf := Some buf\<rparr>\<rparr>;
       let vr = (if succ then vr else vr\<lparr>frames_lost := frames_lost vr + 1\<rparr>);
       let (succ, vr) = (if succ then deliver_frame env vr frame recovered else (succ, vr));
       let vr = vr\<lparr>frame_index_prev := frame_index_cur vr\<rparr>;
       Some (if succ then vr\<lparr>frame_index_prev_complete := frame_index_cur vr\<rparr> else vr, CHIAKI_ERR_SUCCESS)
     }
   }"

section \<open>A packet\<close>

text \<open>The switch to another profile: \<^term>\<open>None\<close> inside when there is no such profile.\<close>

definition switch_profile :: "video_env \<Rightarrow> video_receiver \<Rightarrow> av_packet \<Rightarrow> video_receiver option option" where
  "switch_profile env vr packet =
     (let i = adaptive_stream_index packet
      in if profile_cur vr < 0 \<or> profile_cur vr \<noteq> uint i then
           if unat i \<ge> length (vr_profiles vr) then Some None
           else
             let vr = vr\<lparr>profile_cur := uint i\<rparr>;
                 header = profile_header (vr_profiles vr ! unat i);
                 vr = (if ve_video_sample_cb env \<noteq> None then vr_event (VideoHeader header) vr else vr)
             in do {
               (_, bs) \<leftarrow> chiaki_bitstream_header (ve_header_addr env) (vr_bitstream vr) header (of_nat (length header));
               Some (Some (vr\<lparr>vr_bitstream := bs\<rparr>))
             }
         else Some (Some vr))"

text \<open>The frame before that was not flushed yet.\<close>

definition flush_pending :: "video_env \<Rightarrow> video_receiver \<Rightarrow> video_receiver option" where
  "flush_pending env vr =
     (if frame_index_cur vr \<ge> 0 \<and> frame_index_prev vr \<noteq> frame_index_cur vr
      then map_option fst (chiaki_video_receiver_flush_frame env vr) else Some vr)"

text \<open>The report of missing frames, and the buffers of the new frame.\<close>

definition report_missing :: "video_receiver \<Rightarrow> u16 \<Rightarrow> video_receiver" where
  "report_missing vr frame_index =
     (let next = next_frame_expected vr
      in if chiaki_seq_num_16_gt frame_index next \<and> \<not> (frame_index = 1 \<and> frame_index_cur vr < 0)
         then vr_event (CorruptFrame next (frame_index - 1)) vr else vr)"

definition open_frame :: "video_env \<Rightarrow> video_receiver \<Rightarrow> av_packet \<Rightarrow> video_receiver option" where
  "open_frame env vr packet =
     (let vr = (report_missing vr (av_frame_index packet))\<lparr>frame_index_cur := uint (av_frame_index packet)\<rparr>
      in do {
        (fp, _) \<leftarrow> chiaki_frame_processor_alloc_frame (ve_alloc_slots env) (ve_malloc_buf env)
          (vr_frame_processor vr) packet;
        Some (vr\<lparr>vr_frame_processor := fp\<rparr>)
      })"

definition start_frame :: "video_env \<Rightarrow> video_receiver \<Rightarrow> av_packet \<Rightarrow> video_receiver option" where
  "start_frame env vr packet = do {
     vr \<leftarrow> flush_pending env (vr\<lparr>vr_packet_stats :=
       map_option (chiaki_frame_processor_report_packet_stats (vr_frame_processor vr)) (vr_packet_stats vr)\<rparr>);
     open_frame env vr packet
   }"

definition put_and_flush :: "video_env \<Rightarrow> video_receiver \<Rightarrow> av_packet \<Rightarrow> video_receiver option" where
  "put_and_flush env vr packet = do {
     (fp, _) \<leftarrow> chiaki_frame_processor_put_unit (vr_frame_processor vr) packet;
     let vr = vr\<lparr>vr_frame_processor := fp\<rparr>;
     if frame_index_cur vr \<noteq> frame_index_prev vr \<and>
        (chiaki_frame_processor_flush_possible fp \<or>
         int (unat (unit_index packet)) = int (unat (units_in_frame_total packet)) - 1)
     then map_option fst (chiaki_video_receiver_flush_frame env vr)
     else Some vr
   }"

definition chiaki_video_receiver_av_packet ::
  "video_env \<Rightarrow> video_receiver \<Rightarrow> av_packet \<Rightarrow> video_receiver option" where
  "chiaki_video_receiver_av_packet env vr packet =
     (let frame_index = av_frame_index packet; cur = (of_int (frame_index_cur vr) :: u16)
      in if frame_index_cur vr \<ge> 0 \<and> chiaki_seq_num_16_lt frame_index cur then Some vr
         else do {
           switched \<leftarrow> switch_profile env vr packet;
           (case switched of
              None \<Rightarrow> Some vr
            | Some vr \<Rightarrow> do {
                vr \<leftarrow> (if frame_index_cur vr < 0 \<or> chiaki_seq_num_16_gt frame_index cur
                       then start_frame env vr packet else Some vr);
                put_and_flush env vr packet
              })
         })"

end
