(* ===== verification/Frame_Processor_Props.thy ===== *)
theory Frame_Processor_Props
  imports Frame_Processor "HOL-Library.Code_Target_Nat"
begin

text \<open>
  The frame processor implements a list of optional units: \<open>fp_rep fp us\<close> relates the buffer, the
  slots and the counters to the units received so far. From it follow the contents of a
  flushed frame, in whatever order the units arrive and whichever of them the erasure code
  restores, and the two ways in which the code leaves its buffers.
\<close>

section \<open>Regions of the frame buffer\<close>

definition unit_at :: "bytes \<Rightarrow> nat \<Rightarrow> nat \<Rightarrow> bytes" where
  "unit_at b S i = take S (drop (i * S) b)"

definition pad_unit :: "nat \<Rightarrow> bytes option \<Rightarrow> bytes" where
  "pad_unit S u = (case u of None \<Rightarrow> replicate S 0 | Some d \<Rightarrow> d @ replicate (S - length d) 0)"

definition payload :: "bytes option \<Rightarrow> bytes" where
  "payload u = (case u of None \<Rightarrow> [] | Some d \<Rightarrow> drop 2 d)"

definition data_size_of :: "bytes option \<Rightarrow> nat" where
  "data_size_of u = (case u of None \<Rightarrow> 0 | Some d \<Rightarrow> length d)"

lemma region_less: "(i::nat) < n \<Longrightarrow> i * S + S \<le> n * S"
proof -
  assume "i < n"
  then have "Suc i * S \<le> n * S" by (intro mult_le_mono1) simp
  then show ?thesis by simp
qed

lemma drop_upd_after: "i + length s \<le> j \<Longrightarrow> i + length s \<le> length b \<Longrightarrow> drop j (upd b i s) = drop j b"
  by (rule nth_equalityI) (auto simp: nth_upd)

lemma take_upd_before: "j \<le> i \<Longrightarrow> i + length s \<le> length b \<Longrightarrow> take j (upd b i s) = take j b"
  by (rule nth_equalityI) (auto simp: nth_upd)

lemma take_upd_end: "i + length s \<le> length b \<Longrightarrow> take (i + length s) (upd b i s) = take i b @ s"
  by (simp add: upd_def)

lemma unit_at_upd:
  assumes "i * S + length d \<le> length b" "length d \<le> S" "j * S + S \<le> length b" "i * S + S \<le> length b"
  shows "unit_at (upd b (i * S) d) S j = (if j = i then d @ drop (length d) (unit_at b S i) else unit_at b S j)"
proof (cases "j = i")
  case True
  show ?thesis
    using True assms by (intro nth_equalityI) (auto simp: unit_at_def nth_upd nth_append)
next
  case False
  show ?thesis
  proof (cases "j < i")
    case True
    then have "j * S + S \<le> i * S" by (rule region_less)
    then show ?thesis
      using False assms by (intro nth_equalityI) (auto simp: unit_at_def nth_upd)
  next
    case jl: False
    then have "i * S + S \<le> j * S" using False by (intro region_less) simp
    then show ?thesis
      using False assms by (intro nth_equalityI) (auto simp: unit_at_def nth_upd)
  qed
qed

section \<open>The units received so far\<close>

definition fp_counts :: "nat \<Rightarrow> bytes option list \<Rightarrow> nat" where
  "fp_counts k us = length (filter (\<lambda>u. u \<noteq> None) (take k us))"

definition fp_rep :: "frame_processor \<Rightarrow> bytes option list \<Rightarrow> bool" where
  "fp_rep fp us \<longleftrightarrow>
     unat (units_source_expected fp) + unat (units_fec_expected fp) = length us \<and> length us \<le> 256 \<and>
     unit_slots_size fp = length us \<and> \<not> flushed fp \<and>
     unit_slots fp = Some (map data_size_of us) \<and>
     0 < buf_size_per_unit fp \<and> buf_size_per_unit fp \<le> buf_stride_per_unit fp \<and>
     (\<exists>b. frame_buf fp = Some b \<and> length us * buf_stride_per_unit fp + 64 \<le> length b \<and>
       (\<forall>i < length us. unit_at b (buf_stride_per_unit fp) i = pad_unit (buf_stride_per_unit fp) (us ! i))) \<and>
     (\<forall>d. Some d \<in> set us \<longrightarrow> 0 < length d \<and> length d \<le> buf_size_per_unit fp) \<and>
     unat (units_source_received fp) = fp_counts (unat (units_source_expected fp)) us \<and>
     unat (units_source_received fp) + unat (units_fec_received fp) = fp_counts (length us) us"

lemma fp_counts_le: "fp_counts k us \<le> k"
  unfolding fp_counts_def by (rule order_trans [OF length_filter_le]) simp

lemma fp_counts_update:
  assumes "i < length us" "us ! i = None"
  shows "fp_counts k (us[i := Some d]) = (if i < k then fp_counts k us + 1 else fp_counts k us)"
proof (cases "i < k")
  case True
  then obtain xs ys where "take k us = xs @ None # ys" "length xs = i"
    using assms id_take_nth_drop [of i "take k us"] by fastforce
  moreover have "take k (us[i := Some d]) = (take k us)[i := Some d]" using True by (simp add: take_update_swap)
  ultimately show ?thesis using True by (simp add: fp_counts_def list_update_append)
qed (simp add: fp_counts_def)

lemma put_unit_new:
  assumes rep: "fp_rep fp us" and i: "unat (unit_index p) < length us" "us ! unat (unit_index p) = None"
    and d: "unat (av_data_size p) \<le> length (av_data p)" "0 < unat (av_data_size p)"
      "unat (av_data_size p) \<le> buf_size_per_unit fp"
  shows "\<exists>fp'. chiaki_frame_processor_put_unit fp p = Some (fp', CHIAKI_ERR_SUCCESS) \<and>
    fp_rep fp' (us[unat (unit_index p) := Some (take (unat (av_data_size p)) (av_data p))]) \<and>
    units_source_expected fp' = units_source_expected fp \<and> units_fec_expected fp' = units_fec_expected fp \<and>
    buf_size_per_unit fp' = buf_size_per_unit fp \<and> buf_stride_per_unit fp' = buf_stride_per_unit fp"
proof -
  let ?i = "unat (unit_index p)" and ?n = "unat (av_data_size p)" and ?S = "buf_stride_per_unit fp"
  let ?d = "take ?n (av_data p)" and ?us = "us[?i := Some (take ?n (av_data p))]"
  obtain b where b: "frame_buf fp = Some b" "length us * ?S + 64 \<le> length b"
      "\<forall>j < length us. unit_at b ?S j = pad_unit ?S (us ! j)"
    using rep by (auto simp: fp_rep_def)
  have S: "?n \<le> ?S" using rep d(3) by (simp add: fp_rep_def)
  have ld: "length ?d = ?n" using d(1) by simp
  have reg: "?i * ?S + ?S \<le> length us * ?S" using i(1) by (rule region_less)
  let ?b = "upd b (?i * ?S) ?d"
  have wr: "wr b (?i * ?S) ?d = Some ?b" using reg b(2) S ld by (intro wr_Some) simp
  have slots: "unit_slots fp = Some (map data_size_of us)" "\<not> flushed fp" "unit_slots_size fp = length us"
    using rep by (simp_all add: fp_rep_def)
  define fp1 where "fp1 = fp\<lparr>unit_slots := Some ((map data_size_of us)[?i := ?n]), frame_buf := Some ?b\<rparr>"
  let ?fp = "if ucast (unit_index p) < units_source_expected fp
    then fp1\<lparr>units_source_received := units_source_received fp + 1\<rparr>
    else fp1\<lparr>units_fec_received := units_fec_received fp + 1\<rparr>"
  have put: "chiaki_frame_processor_put_unit fp p = Some (?fp, CHIAKI_ERR_SUCCESS)"
    using slots i d wr b(1)
    by (simp add: chiaki_frame_processor_put_unit_def Let_def data_size_of_def rd_n_def fp1_def)
  have units: "unit_at ?b ?S j = pad_unit ?S (?us ! j)" if "j < length us" for j
  proof -
    have "j * ?S + ?S \<le> length b" using region_less [OF that, of ?S] b(2) by simp
    then have "unit_at ?b ?S j = (if j = ?i then ?d @ drop (length ?d) (unit_at b ?S ?i) else unit_at b ?S j)"
      using reg b(2) S ld by (intro unit_at_upd) simp_all
    then show ?thesis using b(3) that i ld by (auto simp: pad_unit_def)
  qed
  have lt: "ucast (unit_index p) < units_source_expected fp \<longleftrightarrow> ?i < unat (units_source_expected fp)"
  proof -
    have "unat (ucast (unit_index p) :: u32) = ?i"
      using unat_lt_exp [of "unit_index p"] by (simp add: unsigned_ucast_eq take_bit_nat_eq_self)
    then show ?thesis by (simp add: word_less_nat_alt)
  qed
  have small: "fp_counts (unat (units_source_expected fp)) us \<le> 256" "fp_counts (length us) us \<le> 256"
    using fp_counts_le [of "unat (units_source_expected fp)" us] fp_counts_le [of "length us" us] rep
    by (simp_all add: fp_rep_def)
  have cnt: "unat (units_source_received ?fp) = fp_counts (unat (units_source_expected fp)) ?us"
    "unat (units_source_received ?fp) + unat (units_fec_received ?fp) = fp_counts (length us) ?us"
    using rep small lt i unat_plus1_small [of "units_source_received fp"] unat_plus1_small [of "units_fec_received fp"]
    by (auto simp: fp_rep_def fp_counts_update fp1_def)
  have "fp_rep ?fp ?us"
  proof -
    have "map data_size_of ?us = (map data_size_of us)[?i := ?n]" using ld by (simp add: map_update data_size_of_def)
    moreover have "0 < length e \<and> length e \<le> buf_size_per_unit fp" if "Some e \<in> set ?us" for e
    proof -
      have "Some e \<in> insert (Some ?d) (set us)" using that set_update_subset_insert by fast
      then show ?thesis using rep d ld by (auto simp: fp_rep_def)
    qed
    ultimately show ?thesis
      using rep cnt units b(2) reg S ld by (auto simp: fp_rep_def fp1_def)
  qed
  then show ?thesis using put by (auto simp: fp1_def)
qed

lemma put_unit_duplicate:
  assumes rep: "fp_rep fp us" and i: "unat (unit_index p) < length us" "us ! unat (unit_index p) = Some e"
  shows "chiaki_frame_processor_put_unit fp p = Some (fp, CHIAKI_ERR_INVALID_DATA)"
proof -
  have "Some e \<in> set us" using i by (metis nth_mem)
  then have "0 < length e" using rep by (simp add: fp_rep_def)
  then have "data_size_of (us ! unat (unit_index p)) \<noteq> 0" using i(2) by (simp add: data_size_of_def)
  then show ?thesis
    using rep i by (auto simp: chiaki_frame_processor_put_unit_def Let_def fp_rep_def)
qed

text \<open>A frame that was allocated without an error has no units yet.\<close>

lemma alloc_frame_buf_rep:
  assumes "alloc_frame_buf as mb fp = Some (fp', CHIAKI_ERR_SUCCESS)" "\<not> flushed fp"
    and "0 < buf_size_per_unit fp" "buf_size_per_unit fp \<le> buf_stride_per_unit fp"
    and "unat (units_source_expected fp) + unat (units_fec_expected fp) < 2 ^ 32"
    and "units_source_received fp = 0" "units_fec_received fp = 0"
  shows "fp_rep fp' (replicate (unat (units_source_expected fp) + unat (units_fec_expected fp)) None) \<and>
    units_source_expected fp' = units_source_expected fp \<and> units_fec_expected fp' = units_fec_expected fp \<and>
    buf_size_per_unit fp' = buf_size_per_unit fp \<and> buf_stride_per_unit fp' = buf_stride_per_unit fp"
proof -
  let ?n = "unat (units_source_expected fp) + unat (units_fec_expected fp)" and ?S = "buf_stride_per_unit fp"
  have n: "unat (units_source_expected fp + units_fec_expected fp) = ?n"
    using assms(5) by (intro unat_plus_small) simp
  have le: "?n \<le> 256"
    using assms(1) n by (auto simp: alloc_frame_buf_def Let_def split: if_splits)
  obtain b0 where b0: "wr b0 0 (replicate (?n * ?S + 64) 0) = frame_buf fp'"
    and fp': "frame_buf fp' \<noteq> None" "unit_slots fp' = Some (replicate ?n 0)" "unit_slots_size fp' = ?n" "\<not> flushed fp'"
      "units_source_expected fp' = units_source_expected fp" "units_fec_expected fp' = units_fec_expected fp"
      "buf_size_per_unit fp' = buf_size_per_unit fp" "buf_stride_per_unit fp' = ?S"
      "units_source_received fp' = 0" "units_fec_received fp' = 0"
    using assms n le by (auto simp: alloc_frame_buf_def Let_def split: if_splits option.splits bind_splits)
  then obtain b where b: "frame_buf fp' = Some b" "b = upd b0 0 (replicate (?n * ?S + 64) 0)"
      "?n * ?S + 64 \<le> length b0"
    using wr_eq_Some_iff by (metis add_0 length_replicate not_None_eq)
  have "unit_at b ?S i = replicate ?S 0" if "i < ?n" for i
    using region_less [OF that, of ?S] b(2,3) by (intro nth_equalityI) (simp_all add: unit_at_def nth_upd)
  then show ?thesis
    using b le fp' assms by (auto simp: fp_rep_def pad_unit_def data_size_of_def fp_counts_def)
qed

lemma alloc_frame_rep:
  assumes "chiaki_frame_processor_alloc_frame as mb fp p = Some (fp', CHIAKI_ERR_SUCCESS)"
  shows "fp_rep fp' (replicate (unat (units_source_expected fp') + unat (units_fec_expected fp')) None) \<and>
    unat (units_source_expected fp') = unat (units_in_frame_total p) - unat (units_in_frame_fec p) \<and>
    unat (units_fec_expected fp') = max 1 (unat (units_in_frame_fec p)) \<and>
    unit_size_of p (units_source_expected fp') = Some (Inr (buf_size_per_unit fp'))"
proof -
  let ?t = "units_in_frame_total p" and ?f = "units_in_frame_fec p"
  define F where "F = (if ?f < 1 then 1 else ucast ?f :: u32)"
  define N where "N = (ucast ?t - ucast ?f :: u32)"
  have u: "unat (ucast x :: u32) = unat x" for x :: u16
    using unat_lt_exp [of x] by (simp add: unsigned_ucast_eq take_bit_nat_eq_self)
  have le: "unat ?f \<le> unat ?t" using assms
    by (auto simp: chiaki_frame_processor_alloc_frame_def word_less_nat_alt split: if_splits)
  then have src: "unat N = unat ?t - unat ?f" using u by (simp add: unat_minus_small N_def)
  have fec: "unat F = max 1 (unat ?f)" using u [of ?f] by (auto simp: word_less_nat_alt max_def F_def)
  define fp1 where "fp1 = fp\<lparr>flushed := False, units_source_expected := N, units_fec_expected := F\<rparr>"
  obtain n where n: "unit_size_of p N = Some (Inr n)" "n \<noteq> 0"
      "alloc_frame_buf as mb (fp1\<lparr>buf_size_per_unit := n, buf_stride_per_unit := ((n + 15) div 16) * 16,
         units_source_received := 0, units_fec_received := 0\<rparr>) = Some (fp', CHIAKI_ERR_SUCCESS)"
    using assms le unfolding chiaki_frame_processor_alloc_frame_def Let_def F_def [symmetric] N_def [symmetric]
    by (auto simp: unit_size_of_def word_less_nat_alt fp1_def split: if_splits bind_splits sum.splits)
  have stride: "n \<le> ((n + 15) div 16) * 16" by presburger
  have "unat N + unat F < 2 ^ 32"
    using src fec unat_lt_exp [of ?t] unat_lt_exp [of ?f] by simp
  then show ?thesis
    using alloc_frame_buf_rep [OF n(3)] n(1,2) src fec stride by (simp add: fp1_def)
qed

section \<open>Moving the payloads together\<close>

lemma flush_loop_spec:
  assumes "i + n \<le> length slots" "(i + n) * S \<le> length b" "\<And>j. j < i + n \<Longrightarrow> slots ! j \<le> S" "cur \<le> i * S"
  shows "\<exists>b'. flush_loop slots S b cur i n =
      Some (b', cur + length (concat (map (\<lambda>j. drop 2 (take (slots ! j) (drop (j * S) b))) [i..<i + n]))) \<and>
    length b' = length b \<and>
    take (cur + length (concat (map (\<lambda>j. drop 2 (take (slots ! j) (drop (j * S) b))) [i..<i + n]))) b' =
      take cur b @ concat (map (\<lambda>j. drop 2 (take (slots ! j) (drop (j * S) b))) [i..<i + n])"
  using assms
proof (induction n arbitrary: i cur b)
  case (Suc n)
  let ?s = "slots ! i"
  let ?P = "\<lambda>b j. drop 2 (take (slots ! j) (drop (j * S) b))"
  have upt: "[i..<i + Suc n] = i # [Suc i..<Suc i + n]" by (simp add: upt_conv_Cons)
  have reg: "i * S + S \<le> length b"
    by (rule order_trans [OF region_less Suc.prems(2)]) simp
  have s: "?s \<le> S" "i < length slots" using Suc.prems(1,3) by simp_all
  show ?case
  proof (cases "?s < 2")
    case True
    then have e: "?P b i = []" by simp
    show ?thesis
      using Suc.IH [of "Suc i" b cur] Suc.prems True s(2) e unfolding upt by simp
  next
    case False
    let ?part = "?P b i"
    have lp: "length ?part = ?s - 2" using s reg by simp
    have part: "rd_n b (i * S + 2) (?s - 2) = Some ?part"
      using s reg False by (simp add: rd_n_def drop_take add.commute)
    let ?b = "upd b cur ?part"
    have room: "cur + length ?part \<le> i * S + S" "cur + length ?part \<le> length b"
      using lp s Suc.prems(4) reg by linarith+
    have wr: "wr b cur ?part = Some ?b" using room(2) by (rule wr_Some)
    have keep: "?P ?b j = ?P b j" if "Suc i \<le> j" for j
    proof -
      have "i * S + S \<le> j * S" using that by (intro region_less) simp
      then have "drop (j * S) ?b = drop (j * S) b" using room by (intro drop_upd_after) linarith+
      then show ?thesis by simp
    qed
    then have same: "map (?P ?b) [Suc i..<Suc i + n] = map (?P b) [Suc i..<Suc i + n]"
      by (intro map_cong refl keep) auto
    let ?Q = "concat (map (?P b) [Suc i..<Suc i + n])"
    have "cur + length ?part \<le> Suc i * S" using room(1) by simp
    then obtain b' where b': "flush_loop slots S ?b (cur + length ?part) (Suc i) n = Some (b', cur + length ?part + length ?Q)"
        "length b' = length b" "take (cur + length ?part + length ?Q) b' = take (cur + length ?part) ?b @ ?Q"
      using Suc.IH [of "Suc i" ?b "cur + length ?part"] Suc.prems room(2) unfolding same by auto
    have "take (cur + length ?part) ?b = take cur b @ ?part" using room(2) by (rule take_upd_end)
    then show ?thesis
      using b' False s part wr lp unfolding upt by (intro exI [of _ b']) (simp add: add.assoc)
  qed
qed simp

section \<open>Flushing\<close>

lemma rep_slot_data:
  assumes "fp_rep fp us" "frame_buf fp = Some b" "j < length us"
  shows "drop 2 (take (map data_size_of us ! j) (drop (j * buf_stride_per_unit fp) b)) = payload (us ! j)"
proof (cases "us ! j")
  case None
  then show ?thesis using assms by (simp add: data_size_of_def payload_def)
next
  case (Some d)
  let ?S = "buf_stride_per_unit fp"
  have "length d \<le> ?S" using assms Some by (metis fp_rep_def nth_mem order_trans)
  moreover have "unit_at b ?S j = d @ replicate (?S - length d) 0"
    using assms Some by (simp add: fp_rep_def pad_unit_def)
  ultimately have "take (length d) (drop (j * ?S) b) = d"
    by (metis append_eq_conv_conj min.absorb1 take_take unit_at_def)
  then show ?thesis using Some assms(3) by (simp add: data_size_of_def payload_def)
qed

lemma rep_flush_loop:
  assumes "fp_rep fp us" "frame_buf fp = Some b" "k \<le> length us"
  shows "\<exists>b'. flush_loop (map data_size_of us) (buf_stride_per_unit fp) b 0 0 k =
      Some (b', length (concat (map payload (take k us)))) \<and>
    take (length (concat (map payload (take k us)))) b' = concat (map payload (take k us))"
proof -
  let ?S = "buf_stride_per_unit fp"
  let ?P = "\<lambda>j. drop 2 (take (map data_size_of us ! j) (drop (j * ?S) b))"
  have "map ?P [0..<0 + k] = map payload (take k us)"
    using rep_slot_data [OF assms(1,2)] assms(3) by (intro nth_equalityI) simp_all
  moreover have "(0 + k) * ?S \<le> length b"
  proof -
    have "length us * ?S + 64 \<le> length b" using assms(1,2) by (auto simp: fp_rep_def)
    moreover have "(0 + k) * ?S \<le> length us * ?S" using assms(3) by (intro mult_le_mono1) simp
    ultimately show ?thesis by linarith
  qed
  moreover have "map data_size_of us ! j \<le> ?S" if "j < 0 + k" for j
  proof (cases "us ! j")
    case (Some d)
    then have "Some d \<in> set us" using that assms(3) by (metis add_0 nth_mem order_less_le_trans)
    then have "length d \<le> ?S" using assms(1) by (metis fp_rep_def order_trans)
    then show ?thesis using Some that assms(3) by (simp add: data_size_of_def)
  qed (use that assms(3) in \<open>simp add: data_size_of_def\<close>)
  ultimately show ?thesis
    using flush_loop_spec [of 0 k "map data_size_of us" ?S b 0] assms(3) by auto
qed

lemma flush_all_received:
  assumes rep: "fp_rep fp us" and k: "unat (units_source_expected fp) = k" "0 < k"
    and all: "\<forall>i < k. us ! i \<noteq> None"
  shows "\<exists>fp'. chiaki_frame_processor_flush dec ae af fp =
    Some (fp', CHIAKI_FRAME_PROCESSOR_FLUSH_RESULT_SUCCESS, concat (map payload (take k us)))"
proof -
  have le: "k \<le> length us" using rep k by (auto simp: fp_rep_def)
  have "filter (\<lambda>u. u \<noteq> None) (take k us) = take k us"
    using all by (auto simp: filter_id_conv in_set_conv_nth)
  then have "unat (units_source_received fp) = k" using rep k le by (simp add: fp_rep_def fp_counts_def)
  then have "\<not> units_source_received fp < units_source_expected fp" using k by (simp add: word_less_nat_alt)
  moreover have "units_source_expected fp \<noteq> 0" using k by (auto simp: unat_gt_0)
  moreover obtain b where b: "frame_buf fp = Some b" using rep by (auto simp: fp_rep_def)
  moreover have "\<not> flushed fp" "unit_slots fp = Some (map data_size_of us)" using rep by (simp_all add: fp_rep_def)
  ultimately show ?thesis
    using rep_flush_loop [OF rep b le] k by (auto simp: chiaki_frame_processor_flush_def)
qed

section \<open>Recovering lost units\<close>

lemma fec_erasures_spec:
  assumes "i + n \<le> length slots" "count = length (filter (\<lambda>j. slots ! j = 0) [i..<i + n])"
  shows "fec_erasures slots i n count = Some (filter (\<lambda>j. slots ! j = 0) [i..<i + n])"
  using assms
proof (induction n arbitrary: i count)
  case (Suc n)
  have "[i..<i + Suc n] = i # [Suc i..<Suc i + n]" by (simp add: upt_conv_Cons)
  then show ?case using Suc.IH [of "Suc i"] Suc.prems by simp
qed simp

lemma fec_gather_spec:
  assumes "N \<le> S" "(i + n) * S \<le> length b"
  shows "fec_gather b N S i n = Some (map (\<lambda>j. take N (unit_at b S j)) [i..<i + n])"
  using assms(2)
proof (induction n arbitrary: i)
  case (Suc n)
  have "i * S + S \<le> length b" by (rule order_trans [OF region_less Suc.prems]) simp
  moreover have "[i..<i + Suc n] = i # [Suc i..<Suc i + n]" by (simp add: upt_conv_Cons)
  ultimately show ?case
    using Suc.IH [of "Suc i"] Suc.prems assms(1)
    by (simp add: rd_n_def unit_at_def mult.commute min_absorb1 add_mult_distrib)
qed simp

lemma fec_scatter_spec:
  assumes "\<forall>u \<in> set us. length u \<le> S" "(i + length us) * S \<le> length b"
  shows "\<exists>b'. fec_scatter b S i us = Some b' \<and> length b' = length b \<and>
    (\<forall>j. j * S + S \<le> length b \<longrightarrow> unit_at b' S j =
      (if i \<le> j \<and> j < i + length us then us ! (j - i) @ drop (length (us ! (j - i))) (unit_at b S j)
       else unit_at b S j))"
  using assms
proof (induction us arbitrary: i b)
  case (Cons u us)
  have reg: "i * S + S \<le> length b" by (rule order_trans [OF region_less Cons.prems(2)]) simp
  have u: "length u \<le> S" using Cons.prems(1) by simp
  let ?b = "upd b (i * S) u"
  have lb: "length ?b = length b" and wr: "wr b (S * i) u = Some ?b"
    using reg u by (simp_all add: wr_Some mult.commute)
  obtain b' where b': "fec_scatter ?b S (Suc i) us = Some b'" "length b' = length ?b"
      "\<forall>j. j * S + S \<le> length ?b \<longrightarrow> unit_at b' S j =
        (if Suc i \<le> j \<and> j < Suc i + length us then us ! (j - Suc i) @ drop (length (us ! (j - Suc i))) (unit_at ?b S j)
         else unit_at ?b S j)"
    using Cons.IH [of "Suc i" ?b] Cons.prems lb by auto
  have "unit_at b' S j =
      (if i \<le> j \<and> j < i + length (u # us) then (u # us) ! (j - i) @ drop (length ((u # us) ! (j - i))) (unit_at b S j)
       else unit_at b S j)" if j: "j * S + S \<le> length b" for j
  proof -
    have at: "unit_at ?b S j = (if j = i then u @ drop (length u) (unit_at b S i) else unit_at b S j)"
      using reg u j by (intro unit_at_upd) simp_all
    have b: "unit_at b' S j = (if Suc i \<le> j \<and> j < Suc i + length us
        then us ! (j - Suc i) @ drop (length (us ! (j - Suc i))) (unit_at ?b S j) else unit_at ?b S j)"
      using b'(3) j lb by simp
    show ?thesis
    proof (cases "Suc i \<le> j")
      case True
      then have "(u # us) ! (j - i) = us ! (j - Suc i)" by (simp add: Suc_diff_Suc nth_Cons')
      then show ?thesis unfolding b at using True by simp
    next
      case False
      then show ?thesis using b at by (cases "j = i") auto
    qed
  qed
  then show ?case using b'(1,2) lb wr by auto
qed auto

text \<open>The padding that the first two bytes of a full unit announce, and the unit without it.\<close>

definition unit_padding :: "bytes \<Rightarrow> nat" where
  "unit_padding u = unat (join16 (u ! 0) (u ! 1))"

definition unit_data :: "bytes \<Rightarrow> bytes" where
  "unit_data u = take (length u - unit_padding u) u"

lemma fec_restore_spec:
  assumes "\<And>j. j < i + n \<Longrightarrow> 2 \<le> length (us ! j) \<and> length (us ! j) = N \<and> N \<le> S \<and> take N (unit_at b S j) = us ! j \<and>
      unit_padding (us ! j) < N"
    and "i + n \<le> length slots" "(i + n) * S \<le> length b"
  shows "\<exists>slots'. fec_restore b N S slots i n = Some slots' \<and> length slots' = length slots \<and>
    (\<forall>j. slots' ! j = (if i \<le> j \<and> j < i + n then N - unit_padding (us ! j) else slots ! j))"
  using assms
proof (induction n arbitrary: i slots)
  case (Suc n)
  have reg: "i * S + S \<le> length b" by (rule order_trans [OF region_less Suc.prems(3)]) simp
  have u: "2 \<le> N" "N \<le> S" "take N (unit_at b S i) = us ! i" "unit_padding (us ! i) < N"
    using Suc.prems(1) [of i] by auto
  have "us ! i ! 0 = b ! (S * i)" "us ! i ! 1 = b ! (S * i + 1)"
    using u(1,2) reg unfolding u(3) [symmetric] by (simp_all add: unit_at_def mult.commute)
  then have rd: "rd16 b (S * i) = Some (join16 (us ! i ! 0) (us ! i ! 1))"
    using reg u(1,2) by (simp add: rd16_Some mult.commute)
  let ?slots = "slots[i := N - unit_padding (us ! i)]"
  obtain slots' where "fec_restore b N S ?slots (Suc i) n = Some slots'" "length slots' = length ?slots"
      "\<forall>j. slots' ! j = (if Suc i \<le> j \<and> j < Suc i + n then N - unit_padding (us ! j) else ?slots ! j)"
    using Suc.IH [of "Suc i" ?slots] Suc.prems by auto
  then show ?case
    using rd u(4) Suc.prems(2) by (intro exI [of _ slots']) (auto simp: unit_padding_def nth_list_update)
qed simp

lemma rep_missing:
  assumes "fp_rep fp us"
  shows "filter (\<lambda>j. map data_size_of us ! j = 0) [0..<0 + length us] = filter (\<lambda>j. us ! j = None) [0..<length us]"
    and "length (filter (\<lambda>j. us ! j = None) [0..<length us]) + fp_counts (length us) us = length us"
proof -
  have "map data_size_of us ! j = 0 \<longleftrightarrow> us ! j = None" if "j < length us" for j
  proof (cases "us ! j")
    case (Some d)
    then have "0 < length d" using assms that by (metis fp_rep_def nth_mem)
    then show ?thesis using Some that by (simp add: data_size_of_def)
  qed (use that in \<open>simp add: data_size_of_def\<close>)
  then show "filter (\<lambda>j. map data_size_of us ! j = 0) [0..<0 + length us] = filter (\<lambda>j. us ! j = None) [0..<length us]"
    by (intro filter_cong) auto
  have "filter (\<lambda>u. u = None) us = map ((!) us) (filter (\<lambda>j. us ! j = None) [0..<length us])"
    using filter_map [of "\<lambda>u. u = None" "(!) us" "[0..<length us]"] by (simp add: map_nth comp_def)
  then have "length (filter (\<lambda>j. us ! j = None) [0..<length us]) = length (filter (\<lambda>u. u = None) us)" by simp
  then show "length (filter (\<lambda>j. us ! j = None) [0..<length us]) + fp_counts (length us) us = length us"
    using sum_length_filter_compl [of "\<lambda>u. u = None" us] by (simp add: fp_counts_def)
qed

text \<open>
  The decoder is called with all units, padded with zeros to the unit size, and the indices of
  the missing ones. When it returns the original source units, each flushed frame consists of
  their payloads.
\<close>

lemma fec_recovers:
  fixes fp us
  defines "N \<equiv> buf_size_per_unit fp" and "k \<equiv> unat (units_source_expected fp)" and "m \<equiv> unat (units_fec_expected fp)"
  assumes rep: "fp_rep fp us" and "2 \<le> N"
    and dec: "dec k m (filter (\<lambda>j. us ! j = None) [0..<length us]) (map (\<lambda>u. take N (pad_unit N u)) us) = Some vs"
      "length vs = length us" "\<forall>v \<in> set vs. length v = N" "\<forall>i < k. unit_padding (vs ! i) < N"
  shows "\<exists>b slots. chiaki_frame_processor_fec dec True True fp =
      Some (fp\<lparr>frame_buf := Some b, unit_slots := Some slots\<rparr>, CHIAKI_ERR_SUCCESS) \<and> length slots = length us \<and>
    length us * buf_stride_per_unit fp \<le> length b \<and>
    (\<forall>i < k. slots ! i = N - unit_padding (vs ! i) \<and> take N (unit_at b (buf_stride_per_unit fp) i) = vs ! i)"
proof -
  let ?S = "buf_stride_per_unit fp" and ?n = "length us"
  obtain b where b: "frame_buf fp = Some b" "?n * ?S + 64 \<le> length b" "\<forall>i < ?n. unit_at b ?S i = pad_unit ?S (us ! i)"
    using rep by (auto simp: fp_rep_def)
  have f: "N \<le> ?S" "k + m = ?n" "?n \<le> 256" "unit_slots fp = Some (map data_size_of us)"
    using rep by (simp_all add: fp_rep_def N_def k_def m_def)
  have tot: "unat (units_source_expected fp + units_fec_expected fp) = ?n"
    using f unat_plus_small [of "units_source_expected fp" "units_fec_expected fp"] by (simp add: k_def m_def)
  have cnt: "fp_counts ?n us \<le> 256" using fp_counts_le [of ?n us] f(3) by simp
  then have rec: "unat (units_source_received fp + units_fec_received fp) = fp_counts ?n us"
    using rep unat_plus_small [of "units_source_received fp" "units_fec_received fp"] by (simp add: fp_rep_def)
  have "fp_counts ?n us \<le> ?n" by (rule fp_counts_le)
  then have er: "unat ((units_source_expected fp + units_fec_expected fp) - (units_source_received fp + units_fec_received fp)) =
      ?n - fp_counts ?n us"
    using tot rec unat_minus_small [of "units_source_received fp + units_fec_received fp"] by simp
  have erasures: "fec_erasures (map data_size_of us) 0 ?n (?n - fp_counts ?n us) = Some (filter (\<lambda>j. us ! j = None) [0..<?n])"
  proof -
    have "?n - fp_counts ?n us = length (filter (\<lambda>j. us ! j = None) [0..<?n])"
      using rep_missing(2) [OF rep] by linarith
    then show ?thesis
      using fec_erasures_spec [of 0 ?n "map data_size_of us" "?n - fp_counts ?n us"]
      unfolding rep_missing(1) [OF rep] by simp
  qed
  have g: "map (\<lambda>j. take N (unit_at b ?S j)) [0..<0 + (k + m)] = map (\<lambda>u. take N (pad_unit N u)) us"
  proof (rule nth_equalityI)
    fix j assume "j < length (map (\<lambda>j. take N (unit_at b ?S j)) [0..<0 + (k + m)])"
    then have j: "j < ?n" using f(2) by simp
    have "length d \<le> N" if "us ! j = Some d" for d
      using rep j that by (metis N_def fp_rep_def nth_mem)
    then have "take N (pad_unit ?S (us ! j)) = take N (pad_unit N (us ! j))"
      using f(1) by (cases "us ! j") (simp_all add: pad_unit_def min_def)
    then show "map (\<lambda>j. take N (unit_at b ?S j)) [0..<0 + (k + m)] ! j = map (\<lambda>u. take N (pad_unit N u)) us ! j"
      using j b(3) f(2) by simp
  qed (simp add: f(2))
  have gather: "fec_gather b N ?S 0 (k + m) = Some (map (\<lambda>u. take N (pad_unit N u)) us)"
    using fec_gather_spec [of N ?S 0 "k + m" b] f b(2) unfolding g by simp
  obtain b' where b': "fec_scatter b ?S 0 vs = Some b'" "length b' = length b"
      "\<forall>j. j * ?S + ?S \<le> length b \<longrightarrow> unit_at b' ?S j =
        (if 0 \<le> j \<and> j < 0 + length vs then vs ! (j - 0) @ drop (length (vs ! (j - 0))) (unit_at b ?S j) else unit_at b ?S j)"
    using fec_scatter_spec [of vs ?S 0 b] dec f b(2) by auto
  have fecd: "chiaki_fec_decode dec True b N ?S k m (filter (\<lambda>j. us ! j = None) [0..<?n]) = Some (b', CHIAKI_ERR_SUCCESS)"
    using gather b'(1) dec(1) f(1) by (simp add: chiaki_fec_decode_def)
  have at: "take N (unit_at b' ?S j) = vs ! j" "length (vs ! j) = N" if "j < k" for j
  proof -
    have j: "j < ?n" using that f(2) by simp
    then have "j * ?S + ?S \<le> length b" using region_less [of j ?n ?S] b(2) by simp
    moreover show "length (vs ! j) = N" using dec(2,3) j by simp
    ultimately show "take N (unit_at b' ?S j) = vs ! j" using b'(3) j dec(2) by simp
  qed
  have kS: "(0 + k) * ?S \<le> length b'"
  proof -
    have "(0 + k) * ?S \<le> ?n * ?S" using f(2) by (intro mult_le_mono1) simp
    then show ?thesis using b(2) b'(2) by linarith
  qed
  obtain slots where slots: "fec_restore b' N ?S (map data_size_of us) 0 k = Some slots" "length slots = ?n"
      "\<forall>j. slots ! j = (if 0 \<le> j \<and> j < 0 + k then N - unit_padding (vs ! j) else map data_size_of us ! j)"
    using fec_restore_spec [of 0 k vs N ?S b' "map data_size_of us"] at assms(5) dec(4) f kS by auto
  have "chiaki_frame_processor_fec dec True True fp =
      Some (fp\<lparr>frame_buf := Some b', unit_slots := Some slots\<rparr>, CHIAKI_ERR_SUCCESS)"
    using f(4) tot er erasures b(1) fecd slots(1)
    by (simp add: chiaki_frame_processor_fec_def Let_def N_def k_def m_def)
  moreover have "?n * ?S \<le> length b'" using b(2) b'(2) by simp
  ultimately show ?thesis using slots at by (intro exI [of _ b'] exI [of _ slots]) simp
qed

lemma flush_recovered:
  fixes fp us
  defines "N \<equiv> buf_size_per_unit fp" and "k \<equiv> unat (units_source_expected fp)" and "m \<equiv> unat (units_fec_expected fp)"
  assumes rep: "fp_rep fp us" and "2 \<le> N" and lost: "\<exists>i < k. us ! i = None"
    and dec: "dec k m (filter (\<lambda>j. us ! j = None) [0..<length us]) (map (\<lambda>u. take N (pad_unit N u)) us) = Some vs"
      "length vs = length us" "\<forall>v \<in> set vs. length v = N" "\<forall>i < k. unit_padding (vs ! i) < N"
  shows "\<exists>fp'. chiaki_frame_processor_flush dec True True fp =
    Some (fp', CHIAKI_FRAME_PROCESSOR_FLUSH_RESULT_FEC_SUCCESS, concat (map (\<lambda>v. drop 2 (unit_data v)) (take k vs)))"
proof -
  let ?S = "buf_stride_per_unit fp"
  obtain b slots where fec: "chiaki_frame_processor_fec dec True True fp =
        Some (fp\<lparr>frame_buf := Some b, unit_slots := Some slots\<rparr>, CHIAKI_ERR_SUCCESS)"
      "length slots = length us" "length us * ?S \<le> length b"
      "\<forall>i < k. slots ! i = N - unit_padding (vs ! i) \<and> take N (unit_at b ?S i) = vs ! i"
    using fec_recovers [where fp = fp and us = us and dec = dec and vs = vs] assms by blast
  have kl: "k \<le> length us" "N \<le> ?S" "\<not> flushed fp" using rep by (auto simp: fp_rep_def k_def N_def)
  have "0 < k" using lost by auto
  then have ne: "units_source_expected fp \<noteq> 0" by (auto simp: k_def)
  have "fp_counts k us < k"
  proof -
    obtain i where i: "i < k" "us ! i = None" using lost by blast
    have "filter (\<lambda>u. u \<noteq> None) (take k us) \<noteq> take k us"
    proof
      assume "filter (\<lambda>u. u \<noteq> None) (take k us) = take k us"
      moreover have "None \<in> set (take k us)"
        using i kl(1) by (metis in_set_conv_nth length_take min.absorb2 nth_take)
      ultimately show False by (metis (mono_tags, lifting) filter_id_conv)
    qed
    then have "length (filter (\<lambda>u. u \<noteq> None) (take k us)) < length (take k us)"
      by (metis (no_types, lifting) filter_True filter_id_conv length_filter_less)
    then show ?thesis using kl(1) by (simp add: fp_counts_def)
  qed
  then have lt: "units_source_received fp < units_source_expected fp"
    using rep by (simp add: fp_rep_def k_def word_less_nat_alt)
  let ?P = "\<lambda>j. drop 2 (take (slots ! j) (drop (j * ?S) b))"
  have P: "map ?P [0..<0 + k] = map (\<lambda>v. drop 2 (unit_data v)) (take k vs)"
  proof (rule nth_equalityI)
    fix j assume "j < length (map ?P [0..<0 + k])"
    then have j: "j < k" by simp
    have v: "vs ! j = take N (unit_at b ?S j)" and sl: "slots ! j \<le> N" using fec(4) j by simp_all
    have "take (slots ! j) (drop (j * ?S) b) = take (slots ! j) (vs ! j)"
      unfolding v using sl kl(2) by (simp add: unit_at_def min_def)
    then have "?P j = drop 2 (unit_data (vs ! j))"
      using fec(4) j dec(2,3) kl(1) by (simp add: unit_data_def)
    then show "map ?P [0..<0 + k] ! j = map (\<lambda>v. drop 2 (unit_data v)) (take k vs) ! j"
      using j kl(1) dec(2) by simp
  qed (use kl(1) dec(2) in simp)
  have "(0 + k) * ?S \<le> length b"
  proof -
    have "(0 + k) * ?S \<le> length us * ?S" using kl(1) by (intro mult_le_mono1) simp
    then show ?thesis using fec(3) by linarith
  qed
  moreover have "slots ! j \<le> ?S" if "j < 0 + k" for j using fec(4) that kl(2) by (simp add: trans_le_add1)
  ultimately obtain b' where "flush_loop slots ?S b 0 0 k = Some (b', length (concat (map ?P [0..<0 + k])))"
      "take (length (concat (map ?P [0..<0 + k]))) b' = concat (map ?P [0..<0 + k])"
    using flush_loop_spec [of 0 k slots ?S b 0] fec(2) kl(1) by auto
  then show ?thesis
    using fec(1) lt ne kl(3) unfolding P
    by (simp add: chiaki_frame_processor_flush_def k_def)
qed

section \<open>Any order of arrival\<close>

fun put_units :: "frame_processor \<Rightarrow> av_packet list \<Rightarrow> frame_processor option" where
  "put_units fp [] = Some fp"
| "put_units fp (p # ps) = do { (fp, err) \<leftarrow> chiaki_frame_processor_put_unit fp p; put_units fp ps }"

definition packet_data :: "av_packet \<Rightarrow> bytes" where
  "packet_data p = take (unat (av_data_size p)) (av_data p)"

definition packet_ok :: "frame_processor \<Rightarrow> av_packet \<Rightarrow> bool" where
  "packet_ok fp p \<longleftrightarrow> unat (unit_index p) < unit_slots_size fp \<and> unat (av_data_size p) \<le> length (av_data p) \<and>
     0 < unat (av_data_size p) \<and> unat (av_data_size p) \<le> buf_size_per_unit fp"

text \<open>Later packets with the index of an earlier one are ignored.\<close>

fun units_after :: "bytes option list \<Rightarrow> av_packet list \<Rightarrow> bytes option list" where
  "units_after us [] = us"
| "units_after us (p # ps) =
     units_after (if us ! unat (unit_index p) = None then us[unat (unit_index p) := Some (packet_data p)] else us) ps"

lemma put_units_rep:
  assumes "fp_rep fp us" "\<forall>p \<in> set ps. packet_ok fp p"
  shows "\<exists>fp'. put_units fp ps = Some fp' \<and> fp_rep fp' (units_after us ps) \<and>
    units_source_expected fp' = units_source_expected fp \<and> units_fec_expected fp' = units_fec_expected fp \<and>
    buf_size_per_unit fp' = buf_size_per_unit fp"
  using assms
proof (induction ps arbitrary: fp us)
  case (Cons p ps)
  have ok: "packet_ok fp p" and n: "unit_slots_size fp = length us" using Cons.prems by (simp_all add: fp_rep_def)
  show ?case
  proof (cases "us ! unat (unit_index p)")
    case None
    then obtain fp' where fp': "chiaki_frame_processor_put_unit fp p = Some (fp', CHIAKI_ERR_SUCCESS)"
        "fp_rep fp' (us[unat (unit_index p) := Some (packet_data p)])"
        "units_source_expected fp' = units_source_expected fp" "units_fec_expected fp' = units_fec_expected fp"
        "buf_size_per_unit fp' = buf_size_per_unit fp"
      using put_unit_new [OF Cons.prems(1), of p] ok n by (auto simp: packet_ok_def packet_data_def)
    then have "\<forall>q \<in> set ps. packet_ok fp' q"
      using Cons.prems(2) n by (auto simp: packet_ok_def fp_rep_def)
    then show ?thesis using Cons.IH [OF fp'(2)] fp' None by simp
  next
    case (Some e)
    then have "chiaki_frame_processor_put_unit fp p = Some (fp, CHIAKI_ERR_INVALID_DATA)"
      using put_unit_duplicate [OF Cons.prems(1)] ok n by (simp add: packet_ok_def)
    then show ?thesis using Cons.IH [OF Cons.prems(1)] Cons.prems(2) Some by simp
  qed
qed simp

lemma units_after_keep: "us ! i = Some d \<Longrightarrow> units_after us ps ! i = Some d"
proof (induction ps arbitrary: us)
  case (Cons p ps)
  then show ?case by (cases "i = unat (unit_index p)") (simp_all add: Cons.IH)
qed simp

lemma units_after_nth:
  assumes "\<forall>p \<in> set ps. unat (unit_index p) < length us"
    and "\<forall>p \<in> set ps. \<forall>q \<in> set ps. unit_index p = unit_index q \<longrightarrow> packet_data p = packet_data q"
    and "\<forall>p \<in> set ps. us ! unat (unit_index p) = None \<or> us ! unat (unit_index p) = Some (packet_data p)"
    and "p \<in> set ps"
  shows "units_after us ps ! unat (unit_index p) = Some (packet_data p)"
  using assms
proof (induction ps arbitrary: us)
  case (Cons q ps)
  let ?i = "unat (unit_index q)"
  let ?us = "if us ! ?i = None then us[?i := Some (packet_data q)] else us"
  have qi: "?i < length us" "us ! ?i = None \<or> us ! ?i = Some (packet_data q)" using Cons.prems(1,3) by simp_all
  then have q: "?us ! ?i = Some (packet_data q)" by auto
  show ?case
  proof (cases "p \<in> set ps")
    case True
    have inv: "?us ! unat (unit_index r) = None \<or> ?us ! unat (unit_index r) = Some (packet_data r)" if r: "r \<in> set ps" for r
    proof (cases "unit_index r = unit_index q")
      case True
      moreover have "packet_data r = packet_data q" using Cons.prems(2) r True by (meson list.set_intros)
      ultimately show ?thesis using q by metis
    next
      case False
      then have "unat (unit_index r) \<noteq> ?i" by (simp add: word_unat_eq_iff)
      then have "?us ! unat (unit_index r) = us ! unat (unit_index r)" by simp
      then show ?thesis using Cons.prems(3) r by (metis list.set_intros(2))
    qed
    have "units_after ?us ps ! unat (unit_index p) = Some (packet_data p)"
    proof (rule Cons.IH)
      show "\<forall>p \<in> set ps. unat (unit_index p) < length ?us" using Cons.prems(1) by simp
      show "\<forall>p \<in> set ps. \<forall>q \<in> set ps. unit_index p = unit_index q \<longrightarrow> packet_data p = packet_data q"
        using Cons.prems(2) by (meson list.set_intros(2))
      show "\<forall>p \<in> set ps. ?us ! unat (unit_index p) = None \<or> ?us ! unat (unit_index p) = Some (packet_data p)"
        using inv by blast
      show "p \<in> set ps" by (rule True)
    qed
    then show ?thesis by (simp only: units_after.simps)
  next
    case False
    then have "p = q" using Cons.prems(4) by simp
    then show ?thesis using units_after_keep [OF q] by (simp only: units_after.simps)
  qed
qed simp

lemma length_units_after [simp]: "length (units_after us ps) = length us"
  by (induction us ps rule: units_after.induct) auto

lemma units_after_other: "i \<notin> (\<lambda>p. unat (unit_index p)) ` set ps \<Longrightarrow> units_after us ps ! i = us ! i"
  by (induction ps arbitrary: us) auto

lemma units_after_empty:
  assumes "\<forall>p \<in> set ps. unat (unit_index p) < n" "\<forall>p \<in> set ps. packet_data p = data (unat (unit_index p))" "i < n"
  shows "units_after (replicate n None) ps ! i =
    (if i \<in> (\<lambda>p. unat (unit_index p)) ` set ps then Some (data i) else None)"
proof (cases "i \<in> (\<lambda>p. unat (unit_index p)) ` set ps")
  case True
  then obtain p where p: "p \<in> set ps" "unat (unit_index p) = i" by blast
  have "units_after (replicate n None) ps ! unat (unit_index p) = Some (packet_data p)"
  proof (rule units_after_nth [OF _ _ _ p(1)])
    show "\<forall>p \<in> set ps. unat (unit_index p) < length (replicate n None)" using assms(1) by simp
    show "\<forall>p \<in> set ps. \<forall>q \<in> set ps. unit_index p = unit_index q \<longrightarrow> packet_data p = packet_data q"
      using assms(2) by metis
    show "\<forall>p \<in> set ps. replicate n None ! unat (unit_index p) = None \<or>
        replicate n None ! unat (unit_index p) = Some (packet_data p)"
      using assms(1) by simp
  qed
  then show ?thesis using p assms(2) True by metis
next
  case False
  then show ?thesis using units_after_other [OF False, of "replicate n None"] assms(3) by simp
qed

text \<open>The contract of the erasure code: any \<open>m\<close> lost units of the \<open>k + m\<close> are restored.\<close>

definition fec_contract :: "fec_decoder \<Rightarrow> nat \<Rightarrow> nat \<Rightarrow> bytes list \<Rightarrow> bool" where
  "fec_contract dec k m orig \<longleftrightarrow> (\<forall>es us. length es \<le> m \<and> length us = k + m \<and>
     (\<forall>j < k + m. j \<notin> set es \<longrightarrow> us ! j = orig ! j) \<longrightarrow> dec k m es us = Some orig)"

text \<open>A unit as the sender encodes it: \<open>N\<close> bytes that end in the announced number of zeros.\<close>

definition fec_unit :: "nat \<Rightarrow> bytes \<Rightarrow> bool" where
  "fec_unit N u \<longleftrightarrow> length u = N \<and> unit_padding u < N \<and> u = unit_data u @ replicate (unit_padding u) 0"

text \<open>What a packet carries of the original unit \<open>i\<close>: source units come without their padding.\<close>

definition unit_sent :: "bytes list \<Rightarrow> nat \<Rightarrow> nat \<Rightarrow> bytes" where
  "unit_sent orig k i = (if i < k then unit_data (orig ! i) else orig ! i)"

lemma unit_sent_pad:
  assumes "\<forall>i < k. fec_unit N (orig ! i)" "\<forall>i < n. length (orig ! i) = N" "i < n"
  shows "take N (pad_unit N (Some (unit_sent orig k i))) = orig ! i"
proof (cases "i < k")
  case True
  then have u: "fec_unit N (orig ! i)" using assms(1) by simp
  then have "length (unit_data (orig ! i)) = N - unit_padding (orig ! i)" by (simp add: fec_unit_def unit_data_def)
  then have "N - length (unit_data (orig ! i)) = unit_padding (orig ! i)" using u by (simp add: fec_unit_def)
  then have "pad_unit N (Some (unit_data (orig ! i))) = orig ! i" using u by (simp add: pad_unit_def fec_unit_def)
  then show ?thesis using True assms(2,3) by (simp add: unit_sent_def)
qed (use assms(2,3) in \<open>simp add: unit_sent_def pad_unit_def\<close>)

lemma flush_contract:
  assumes rep: "fp_rep fp us" "unat (units_source_expected fp) = k" "unat (units_fec_expected fp) = m"
      "buf_size_per_unit fp = N" "2 \<le> N"
    and orig: "length orig = k + m" "\<forall>i < k. fec_unit N (orig ! i)" "\<forall>i < k + m. length (orig ! i) = N"
    and us: "\<forall>i < k + m. us ! i = (if i \<in> I then Some (unit_sent orig k i) else None)" "I \<subseteq> {..<k + m}" "k \<le> card I"
    and lost: "\<exists>i < k. i \<notin> I" and contract: "fec_contract dec k m orig"
  shows "\<exists>fp'. chiaki_frame_processor_flush dec True True fp =
    Some (fp', CHIAKI_FRAME_PROCESSOR_FLUSH_RESULT_FEC_SUCCESS, concat (map (\<lambda>v. drop 2 (unit_data v)) (take k orig)))"
proof -
  have n: "length us = k + m" using rep(1-3) by (simp add: fp_rep_def)
  let ?es = "filter (\<lambda>j. us ! j = None) [0..<length us]"
  let ?vs = "map (\<lambda>u. take N (pad_unit N u)) us"
  have none: "us ! j = None \<longleftrightarrow> j \<notin> I" if "j < k + m" for j
    using us(1) [rule_format, OF that] by (simp split: if_splits)
  have mem: "j \<in> set ?es \<longleftrightarrow> j < k + m \<and> us ! j = None" for j by (simp add: n)
  have es: "set ?es = {..<k + m} - I"
    unfolding set_eq_iff mem using none by blast
  have "card ({..<k + m} - I) = k + m - card I"
    using us(2) by (subst card_Diff_subset) (auto intro: finite_subset)
  moreover have "length ?es = card (set ?es)" by (rule distinct_card [symmetric]) simp
  ultimately have few: "length ?es \<le> m" using es us(3) by (simp del: set_filter)
  have agree: "?vs ! j = orig ! j" if j: "j < k + m" "j \<notin> set ?es" for j
  proof -
    have "j \<in> I" using j es by blast
    then have "us ! j = Some (unit_sent orig k j)" using us(1) [rule_format, OF j(1)] by simp
    then show ?thesis using unit_sent_pad [OF orig(2,3) j(1)] j(1) n by simp
  qed
  have dec: "dec k m ?es ?vs = Some orig"
  proof -
    have "length ?vs = k + m" using n by simp
    then show ?thesis using contract [unfolded fec_contract_def, rule_format, of ?es ?vs] few agree by blast
  qed
  have len: "\<forall>v \<in> set orig. length v = N" using orig(1,3) by (auto simp: in_set_conv_nth)
  have pad: "\<forall>i < k. unit_padding (orig ! i) < N" using orig(2) by (simp add: fec_unit_def)
  have "\<exists>i < k. us ! i = None" using lost none by (metis trans_less_add1)
  then show ?thesis
    using flush_recovered [where fp = fp and us = us and dec = dec and vs = orig, unfolded rep(2-4)]
      rep(1,5) dec orig(1) n len pad by simp
qed

section \<open>Properties\<close>

text \<open>
  C12: once a frame is allocated, its units may arrive in any order, more than once, and with or
  without parity units: as soon as all source units are there, \<open>flush\<close> returns the
  concatenation of their payloads (each unit without its first two bytes) in the order of the
  units.
\<close>

theorem frame_any_order:
  assumes "chiaki_frame_processor_alloc_frame as mb fp p0 = Some (fp1, CHIAKI_ERR_SUCCESS)"
    and "unat (units_source_expected fp1) = k" "0 < k"
    and "\<forall>p \<in> set ps. packet_ok fp1 p \<and> packet_data p = data (unat (unit_index p))"
    and "\<forall>i < k. \<exists>p \<in> set ps. unat (unit_index p) = i"
  shows "\<exists>fp2 fp3. put_units fp1 ps = Some fp2 \<and>
    chiaki_frame_processor_flush dec ae af fp2 =
      Some (fp3, CHIAKI_FRAME_PROCESSOR_FLUSH_RESULT_SUCCESS, concat (map (\<lambda>i. drop 2 (data i)) [0..<k]))"
proof -
  let ?empty = "replicate (unat (units_source_expected fp1) + unat (units_fec_expected fp1)) None :: bytes option list"
  let ?us = "units_after ?empty ps"
  have rep0: "fp_rep fp1 ?empty" using alloc_frame_rep [OF assms(1)] by blast
  obtain fp2 where fp2: "put_units fp1 ps = Some fp2" "fp_rep fp2 ?us" "units_source_expected fp2 = units_source_expected fp1"
    using put_units_rep [OF rep0, of ps] assms(4) by auto
  have idx: "\<forall>p \<in> set ps. unat (unit_index p) < length ?empty"
    using assms(4) rep0 by (auto simp: packet_ok_def fp_rep_def)
  have unit: "?us ! i = Some (data i)" if i: "i < k" for i
  proof -
    obtain p where p: "p \<in> set ps" "unat (unit_index p) = i" using assms(5) i by blast
    have "?us ! unat (unit_index p) = Some (packet_data p)"
      by (rule units_after_nth [OF idx _ _ p(1)]) (use assms(4) idx in \<open>auto simp: nth_replicate\<close>)
    then show ?thesis using p assms(4) by simp
  qed
  have kl: "k \<le> length ?us" using assms(2) by simp
  have "map payload (take k ?us) = map (\<lambda>i. drop 2 (data i)) [0..<k]"
    using unit kl by (intro nth_equalityI) (simp_all add: payload_def)
  then show ?thesis
    using flush_all_received [OF fp2(2), of k dec ae af] fp2 assms(2,3) unit by auto
qed

definition sample_unit :: "u16 \<Rightarrow> bytes \<Rightarrow> av_packet" where
  "sample_unit i d = av_packet_zero\<lparr>is_video := True, unit_index := i, units_in_frame_total := 3, units_in_frame_fec := 1,
     av_data := d, av_data_size := of_nat (length d)\<rparr>"

definition sample_frame :: frame_processor where
  "sample_frame = fst (the (chiaki_frame_processor_alloc_frame True (\<lambda>n. Some (replicate n 0xff))
     chiaki_frame_processor_init (sample_unit 0 [0, 2, 7])))"

lemma sample_frame_alloc:
  "chiaki_frame_processor_alloc_frame True (\<lambda>n. Some (replicate n 0xff)) chiaki_frame_processor_init
     (sample_unit 0 [0, 2, 7]) = Some (sample_frame, CHIAKI_ERR_SUCCESS)"
  by code_simp

lemma sample_frame_fields:
  "unat (units_source_expected sample_frame) = 2" "unat (units_fec_expected sample_frame) = 1"
  "buf_size_per_unit sample_frame = 5" "unit_slots_size sample_frame = 3"
  by code_simp+

theorem frame_any_order_witness:
  "\<exists>fp2 fp3. put_units sample_frame [sample_unit 1 [0, 0, 4, 5, 6], sample_unit 0 [0, 2, 7], sample_unit 1 [0, 0, 4, 5, 6]] =
      Some fp2 \<and>
    chiaki_frame_processor_flush (\<lambda>k m es us. None) True True fp2 =
      Some (fp3, CHIAKI_FRAME_PROCESSOR_FLUSH_RESULT_SUCCESS, [7, 4, 5, 6])"
proof -
  let ?data = "\<lambda>i. if i = 0 then [0, 2, 7] else [0, 0, 4, 5, 6 :: u8]"
  have "concat (map (\<lambda>i. drop 2 (?data i)) [0..<2]) = [7, 4, 5, 6]" by (simp add: upt_rec)
  then show ?thesis
    using frame_any_order [OF sample_frame_alloc sample_frame_fields(1), where data = ?data and ae = True and af = True
        and dec = "\<lambda>k m es us. None"
        and ps = "[sample_unit 1 [0, 0, 4, 5, 6], sample_unit 0 [0, 2, 7], sample_unit 1 [0, 0, 4, 5, 6]]"]
    by (simp add: packet_ok_def packet_data_def sample_frame_fields sample_unit_def less_2_cases_iff)
qed

text \<open>
  C7: when source units are lost and at least as many units as there are source units have
  arrived, \<open>flush\<close> calls the erasure code with the missing indices and the received units in
  their places, and returns the payloads of all original source units, the lost ones with
  their true sizes.
\<close>

theorem frame_fec_recovers:
  assumes "chiaki_frame_processor_alloc_frame as mb fp p0 = Some (fp1, CHIAKI_ERR_SUCCESS)"
    and "unat (units_source_expected fp1) = k" "unat (units_fec_expected fp1) = m" "buf_size_per_unit fp1 = N" "2 \<le> N"
    and "\<forall>p \<in> set ps. packet_ok fp1 p \<and> packet_data p = unit_sent orig k (unat (unit_index p))"
    and "length orig = k + m" "\<forall>i < k. fec_unit N (orig ! i)" "\<forall>i < k + m. length (orig ! i) = N"
    and "fec_contract dec k m orig"
    and "\<exists>i < k. i \<notin> (\<lambda>p. unat (unit_index p)) ` set ps"
    and "k \<le> card ((\<lambda>p. unat (unit_index p)) ` set ps)"
  shows "\<exists>fp2 fp3. put_units fp1 ps = Some fp2 \<and>
    chiaki_frame_processor_flush dec True True fp2 =
      Some (fp3, CHIAKI_FRAME_PROCESSOR_FLUSH_RESULT_FEC_SUCCESS, concat (map (\<lambda>v. drop 2 (unit_data v)) (take k orig)))"
proof -
  let ?empty = "replicate (k + m) None :: bytes option list"
  let ?I = "(\<lambda>p. unat (unit_index p)) ` set ps"
  have rep0: "fp_rep fp1 ?empty" using alloc_frame_rep [OF assms(1)] unfolding assms(2,3) by blast
  obtain fp2 where fp2: "put_units fp1 ps = Some fp2" "fp_rep fp2 (units_after ?empty ps)"
      "units_source_expected fp2 = units_source_expected fp1"
      "units_fec_expected fp2 = units_fec_expected fp1" "buf_size_per_unit fp2 = buf_size_per_unit fp1"
    using put_units_rep [OF rep0, of ps] assms(6) by blast
  have slots: "unit_slots_size fp1 = k + m" using rep0 by (simp add: fp_rep_def)
  then have idx: "\<forall>p \<in> set ps. unat (unit_index p) < k + m" using assms(6) by (simp add: packet_ok_def)
  have data: "\<forall>p \<in> set ps. packet_data p = unit_sent orig k (unat (unit_index p))" using assms(6) by blast
  have units: "\<forall>i < k + m. units_after ?empty ps ! i = (if i \<in> ?I then Some (unit_sent orig k i) else None)"
    using units_after_empty [OF idx data] by blast
  have "?I \<subseteq> {..<k + m}" using idx by auto
  then show ?thesis
    using flush_contract [OF fp2(2) _ _ _ assms(5,7-9) units _ assms(12,11,10)] fp2(1,3-5) assms(2-4) by auto
qed

text \<open>A code with one parity unit, the exclusive or of two source units.\<close>

definition xor_dec :: fec_decoder where
  "xor_dec k m es us = (case es of [] \<Rightarrow> Some us
     | e # _ \<Rightarrow> Some (if e = 0 then us[0 := map2 (XOR) (us ! 1) (us ! 2)]
         else if e = 1 then us[1 := map2 (XOR) (us ! 0) (us ! 2)]
         else if e = 2 then us[2 := map2 (XOR) (us ! 0) (us ! 1)] else us))"

definition sample_orig :: "bytes list" where
  "sample_orig = [[0, 2, 7, 0, 0], [0, 0, 4, 5, 6], [0, 2, 3, 5, 6]]"

lemma xor_dec_parity:
  assumes "map2 (XOR) b c = a" "map2 (XOR) a c = b" "map2 (XOR) a b = c"
  shows "fec_contract xor_dec 2 1 [a, b, c]"
  unfolding fec_contract_def
proof (intro allI impI)
  fix es :: "nat list" and us :: "bytes list"
  assume asm: "length es \<le> 1 \<and> length us = 2 + 1 \<and> (\<forall>j < 2 + 1. j \<notin> set es \<longrightarrow> us ! j = [a, b, c] ! j)"
  then obtain x y z where us: "us = [x, y, z]" by (auto simp: length_Suc_conv numeral_3_eq_3)
  have agree: "j < 3 \<Longrightarrow> j \<notin> set es \<Longrightarrow> us ! j = [a, b, c] ! j" for j using asm by simp
  have eq: "0 \<notin> set es \<Longrightarrow> x = a" "1 \<notin> set es \<Longrightarrow> y = b" "2 \<notin> set es \<Longrightarrow> z = c"
    using agree [of 0] agree [of 1] agree [of 2] us by simp_all
  consider "es = []" | e where "es = [e]" using asm by (cases es) auto
  then show "xor_dec 2 1 es us = Some [a, b, c]"
  proof cases
    case 1
    then show ?thesis using eq us by (simp add: xor_dec_def sample_orig_def)
  next
    case 2
    then show ?thesis using eq us by (auto simp: xor_dec_def assms numeral_2_eq_2)
  qed
qed

lemma xor_dec_contract: "fec_contract xor_dec 2 1 sample_orig"
  unfolding sample_orig_def by (rule xor_dec_parity) simp_all

theorem frame_fec_recovers_witness:
  "\<exists>fp2 fp3. put_units sample_frame [sample_unit 2 [0, 2, 3, 5, 6], sample_unit 1 [0, 0, 4, 5, 6]] = Some fp2 \<and>
    chiaki_frame_processor_flush xor_dec True True fp2 =
      Some (fp3, CHIAKI_FRAME_PROCESSOR_FLUSH_RESULT_FEC_SUCCESS, [7, 4, 5, 6])"
proof -
  let ?ps = "[sample_unit 2 [0, 2, 3, 5, 6], sample_unit 1 [0, 0, 4, 5, 6]]"
  have "\<forall>p \<in> set ?ps. packet_ok sample_frame p \<and> packet_data p = unit_sent sample_orig 2 (unat (unit_index p))"
    by (simp add: packet_ok_def packet_data_def sample_frame_fields sample_unit_def unit_sent_def sample_orig_def
        unit_data_def unit_padding_def join16_def)
  moreover have "fec_unit 5 (sample_orig ! 0)" "fec_unit 5 (sample_orig ! 1)" by code_simp+
  then have "\<forall>i < 2. fec_unit 5 (sample_orig ! i)" by (auto simp: less_2_cases_iff)
  moreover have "\<forall>i < 2 + 1. length (sample_orig ! i) = 5" "length sample_orig = 2 + 1"
    by (auto simp: less_Suc_eq numeral_3_eq_3 sample_orig_def)
  moreover have "(\<lambda>p. unat (unit_index p)) ` set ?ps = {2, 1}" by (simp add: sample_unit_def)
  moreover have "\<exists>i < 2. i \<notin> (\<lambda>p. unat (unit_index p)) ` set ?ps"
    by (intro exI [of _ 0]) (simp add: sample_unit_def)
  moreover have "concat (map (\<lambda>v. drop 2 (unit_data v)) (take 2 sample_orig)) = [7, 4, 5, 6]"
    by (simp add: sample_orig_def unit_data_def unit_padding_def join16_def)
  ultimately show ?thesis
    using frame_fec_recovers [OF sample_frame_alloc sample_frame_fields(1-3), of ?ps sample_orig xor_dec] xor_dec_contract
    by auto
qed

text \<open>
  \<^verbatim>\<open>put_unit\<close> checks the index of a unit against the number of slots with \<open>>\<close>. A packet
  whose index is the number of slots passes the check and reads and writes the slot behind the
  array; one above it is rejected.
\<close>

theorem put_unit_index_off_by_one:
  assumes "fp_rep fp us" "0 < unat (av_data_size p)" "unat (av_data_size p) \<le> buf_size_per_unit fp"
  shows "(unat (unit_index p) = length us \<longrightarrow> chiaki_frame_processor_put_unit fp p = None) \<and>
    (length us < unat (unit_index p) \<longrightarrow> chiaki_frame_processor_put_unit fp p = Some (fp, CHIAKI_ERR_INVALID_DATA))"
  using assms by (auto simp: chiaki_frame_processor_put_unit_def Let_def fp_rep_def)

theorem put_unit_index_off_by_one_witness:
  "chiaki_frame_processor_put_unit sample_frame (sample_unit 3 [1]) = None"
proof -
  have rep: "fp_rep sample_frame (replicate 3 None)"
  proof -
    have "(2 :: nat) + 1 = 3" by simp
    then show ?thesis
      using alloc_frame_rep [OF sample_frame_alloc, unfolded sample_frame_fields] by metis
  qed
  show ?thesis
    using put_unit_index_off_by_one [OF rep, of "sample_unit 3 [1]"]
    by (simp add: sample_unit_def sample_frame_fields)
qed

text \<open>
  \<^verbatim>\<open>alloc_frame\<close> stores the new unit size before it rejects a frame of more than 256 units.
  The video receiver ignores the error and calls \<^verbatim>\<open>put_unit\<close> with the same packet, which then
  copies the unit past the end of the old buffer.
\<close>

theorem alloc_error_then_put_overflows:
  "let big = av_packet_zero\<lparr>is_video := True, unit_index := 1, units_in_frame_total := 300,
       av_data := replicate 200 0, av_data_size := 200\<rparr>;
     fp = fst (the (chiaki_frame_processor_alloc_frame True (\<lambda>n. Some (replicate n 0xff)) sample_frame big))
   in map_option snd (chiaki_frame_processor_alloc_frame True (\<lambda>n. Some (replicate n 0xff)) sample_frame big) =
        Some CHIAKI_ERR_INVALID_DATA \<and> chiaki_frame_processor_put_unit fp big = None"
  by code_simp

end
