(* ===== verification/Video_Receiver_Props.thy ===== *)
theory Video_Receiver_Props
  imports Video_Receiver Bitstream_Props Frame_Processor_Props
begin

text \<open>
  The video receiver: the reference frames it keeps are the last sixteen frames that the callback
  took, a frame is delivered only when the frame it refers to is one of them, and a frame whose
  units arrive is delivered.
\<close>

section \<open>The reference frames\<close>

text \<open>The slots fill up from the end and then move on by one.\<close>

definition ref_slots :: "int list \<Rightarrow> int list" where
  "ref_slots h = replicate (16 - length h) (- 1) @ take 16 h"

text \<open>The numbers of the frames that the callback took, the last one first.\<close>

fun accepted :: "(bytes \<Rightarrow> bool) option \<Rightarrow> video_event list \<Rightarrow> int list" where
  "accepted cb [] = []"
| "accepted cb (e # es) = (case (e, cb) of
     (VideoSample i f l r, Some g) \<Rightarrow> if g f then i # accepted cb es else accepted cb es
   | _ \<Rightarrow> accepted cb es)"

lemma length_ref_slots [simp]: "length (ref_slots h) = 16"
  by (auto simp: ref_slots_def)

lemma last_free_slots:
  "\<forall>x \<in> set xs. x \<noteq> - 1 \<Longrightarrow> n \<le> length xs \<Longrightarrow>
   last_free (replicate (Suc m) (- 1) @ xs) (Suc m + n) = Some m"
proof (induction n)
  case 0
  then show ?case by (simp add: nth_append del: replicate.simps)
next
  case (Suc n)
  then have "xs ! n \<noteq> - 1" by simp
  then show ?case using Suc by (simp add: nth_append del: replicate.simps)
qed

lemma replicate_update_last: "(replicate (Suc m) a @ h)[m := f] = replicate m a @ f # h"
  by (induction m) simp_all

lemma add_ref_frame_slots:
  assumes "reference_frames vr = ref_slots h" "\<forall>i \<in> set h. 0 \<le> i"
  shows "add_ref_frame vr f = vr\<lparr>reference_frames := ref_slots (f # h)\<rparr>"
proof (cases "length h < 16")
  case True
  then obtain m where m: "16 - length h = Suc m" "15 - length h = m" "Suc m + length h = 16"
    using that [of "15 - length h"] by simp
  have s: "ref_slots h = replicate (Suc m) (- 1) @ h" using True m by (simp add: ref_slots_def)
  have "\<forall>x \<in> set h. x \<noteq> - 1" using assms(2) by force
  then have "last_free (replicate (Suc m) (- 1) @ h) (Suc m + length h) = Some m" by (rule last_free_slots) simp
  then have "last_free (ref_slots h) 16 = Some m" by (simp only: s m(3))
  moreover have "ref_slots h ! 0 = - 1" by (simp add: s)
  moreover have "(ref_slots h)[m := f] = ref_slots (f # h)"
  proof -
    have "take 16 (f # h) = f # h" "16 - length (f # h) = m" using m by simp_all
    then show ?thesis unfolding s replicate_update_last by (simp only: ref_slots_def)
  qed
  ultimately show ?thesis using assms(1) by (simp add: add_ref_frame_def)
next
  case False
  then have s: "ref_slots h = take 16 h" by (simp add: ref_slots_def)
  moreover have "take 16 h ! 0 \<noteq> - 1"
  proof -
    have "h ! 0 \<in> set h" using False by (intro nth_mem) auto
    then show ?thesis using assms(2) by force
  qed
  moreover have "f # take 15 (take 16 h) = ref_slots (f # h)"
    using False by (simp add: ref_slots_def take_Cons')
  ultimately show ?thesis using assms(1) by (simp add: add_ref_frame_def)
qed

lemma have_ref_frame_slots:
  assumes "reference_frames vr = ref_slots h"
  shows "have_ref_frame vr x \<longleftrightarrow> uint x \<in> set (take 16 h)"
proof -
  have "uint x \<noteq> - 1" using uint_ge_0 [of x] by linarith
  then show ?thesis unfolding have_ref_frame_def assms by (auto simp: list_ex_iff ref_slots_def)
qed


section \<open>What the calls keep\<close>

definition vr_inv :: "(bytes \<Rightarrow> bool) option \<Rightarrow> video_receiver \<Rightarrow> bool" where
  "vr_inv cb vr \<longleftrightarrow> reference_frames vr = ref_slots (accepted cb (vr_events vr)) \<and>
     (\<forall>i \<in> set (accepted cb (vr_events vr)). 0 \<le> i)"

lemma vr_event_fields [simp]:
  "frame_index_cur (vr_event e vr) = frame_index_cur vr" "reference_frames (vr_event e vr) = reference_frames vr"
  "vr_events (vr_event e vr) = e # vr_events vr" "frame_index_prev_complete (vr_event e vr) = frame_index_prev_complete vr"
  "frame_index_prev (vr_event e vr) = frame_index_prev vr" "vr_frame_processor (vr_event e vr) = vr_frame_processor vr"
  "vr_bitstream (vr_event e vr) = vr_bitstream vr" "profile_cur (vr_event e vr) = profile_cur vr"
  "vr_profiles (vr_event e vr) = vr_profiles vr"
  by (simp_all add: vr_event_def)

lemma vr_inv_event:
  "vr_inv cb vr \<Longrightarrow> (\<And>i f l r. e \<noteq> VideoSample i f l r) \<Longrightarrow> vr_inv cb (vr_event e vr)"
  by (cases e) (auto simp: vr_inv_def vr_event_def split: option.splits)

lemma vr_inv_cong:
  "vr_inv cb vr \<Longrightarrow> vr_events vr' = vr_events vr \<Longrightarrow> reference_frames vr' = reference_frames vr \<Longrightarrow> vr_inv cb vr'"
  by (simp add: vr_inv_def)

lemma vr_inv_deliver:
  assumes "vr_inv cb vr" "ve_video_sample_cb env = cb" "0 \<le> frame_index_cur vr" "deliver_frame env vr f r = (s, vr')"
  shows "vr_inv cb vr'"
proof (cases cb)
  case None
  then show ?thesis using assms by (simp add: deliver_frame_def)
next
  case (Some g)
  let ?vr = "(vr_event (VideoSample (frame_index_cur vr) f (frames_lost vr) r) vr)\<lparr>frames_lost := 0\<rparr>"
  have slots: "reference_frames ?vr = ref_slots (accepted cb (vr_events vr))" "\<forall>i \<in> set (accepted cb (vr_events vr)). 0 \<le> i"
    using assms(1) by (simp_all add: vr_inv_def vr_event_def)
  have "vr' = (if g f then ?vr\<lparr>reference_frames := ref_slots (frame_index_cur vr # accepted cb (vr_events vr))\<rparr> else ?vr)"
    using assms(2,4) Some add_ref_frame_slots [OF slots, of "frame_index_cur vr"]
    by (auto simp: deliver_frame_def Let_def split: if_splits)
  then show ?thesis using assms(3) Some slots by (simp add: vr_inv_def vr_event_def)
qed

lemma add_ref_frame_fields [simp]:
  "frame_index_cur (add_ref_frame vr i) = frame_index_cur vr" "vr_events (add_ref_frame vr i) = vr_events vr"
  "vr_frame_processor (add_ref_frame vr i) = vr_frame_processor vr" "vr_bitstream (add_ref_frame vr i) = vr_bitstream vr"
  by (simp_all add: add_ref_frame_def Let_def split: option.split)

lemma deliver_fields:
  assumes "deliver_frame env vr f r = (s, vr')"
  shows "frame_index_cur vr' = frame_index_cur vr" "vr_frame_processor vr' = vr_frame_processor vr"
  using assms by (auto simp: deliver_frame_def Let_def split: option.splits if_splits)

lemma check_reference_fp:
  "check_reference env (vr\<lparr>vr_frame_processor := fp\<rparr>) frame = check_reference env vr frame"
  by (simp add: check_reference_def change_reference_def have_ref_frame_def ref_index_def cong: if_cong option.case_cong)

text \<open>What \<open>flush_frame\<close> does: nothing, the report of a corrupt frame, or a frame that is complete.\<close>

lemma flush_frame_cases:
  assumes "chiaki_video_receiver_flush_frame env vr = Some (vr', err)"
  obtains
    (failed) fp frame where
      "chiaki_frame_processor_flush (ve_dec env) (ve_alloc_erasures env) (ve_alloc_fec env) (vr_frame_processor vr) =
         Some (fp, CHIAKI_FRAME_PROCESSOR_FLUSH_RESULT_FAILED, frame)" "vr' = vr\<lparr>vr_frame_processor := fp\<rparr>"
  | (corrupt) fp frame where
      "chiaki_frame_processor_flush (ve_dec env) (ve_alloc_erasures env) (ve_alloc_fec env) (vr_frame_processor vr) =
         Some (fp, CHIAKI_FRAME_PROCESSOR_FLUSH_RESULT_FEC_FAILED, frame)"
      "vr' = (vr_event (CorruptFrame (next_frame_expected vr) (of_int (frame_index_cur vr))) vr)\<lparr>
         vr_frame_processor := fp, frames_lost := frames_lost vr + (frame_index_cur vr - uint (next_frame_expected vr) + 1),
         frame_index_prev := frame_index_cur vr\<rparr>"
  | (frame) fp result frame succ rec frame' fp' s vr1 where
      "chiaki_frame_processor_flush (ve_dec env) (ve_alloc_erasures env) (ve_alloc_fec env) (vr_frame_processor vr) =
         Some (fp, result, frame)"
      "check_reference env vr frame = Some (succ, rec, frame')"
      "if succ then deliver_frame env (vr\<lparr>vr_frame_processor := fp'\<rparr>) frame' rec = (s, vr1)
       else s = False \<and> vr1 = vr\<lparr>vr_frame_processor := fp', frames_lost := frames_lost vr + 1\<rparr>"
      "vr' = (let vr = vr1\<lparr>frame_index_prev := frame_index_cur vr1\<rparr>
        in if s then vr\<lparr>frame_index_prev_complete := frame_index_cur vr1\<rparr> else vr)"
proof -
  obtain fp result frame where f: "chiaki_frame_processor_flush (ve_dec env) (ve_alloc_erasures env) (ve_alloc_fec env)
      (vr_frame_processor vr) = Some (fp, result, frame)"
    using assms by (auto simp: chiaki_video_receiver_flush_frame_def bind_eq_Some_conv)
  note r = assms [unfolded chiaki_video_receiver_flush_frame_def f bind.bind_lunit split Let_def]
  consider "result = CHIAKI_FRAME_PROCESSOR_FLUSH_RESULT_FEC_FAILED" |
    "result = CHIAKI_FRAME_PROCESSOR_FLUSH_RESULT_FAILED" |
    "result \<noteq> CHIAKI_FRAME_PROCESSOR_FLUSH_RESULT_FEC_FAILED" "result \<noteq> CHIAKI_FRAME_PROCESSOR_FLUSH_RESULT_FAILED"
    by blast
  then show thesis
  proof cases
    case 1
    then show thesis using corrupt [of fp frame] f r by (auto simp: vr_event_def next_frame_expected_def)
  next
    case 2
    then show thesis using failed [of fp frame] f r by auto
  next
    case 3
    obtain succ rec frame' b b' where c: "check_reference env (vr\<lparr>vr_frame_processor := fp\<rparr>) frame = Some (succ, rec, frame')"
      "frame_buf fp = Some b" "wr b 0 frame' = Some b'"
      using r 3 by (auto simp: bind_eq_Some_conv)
    let ?fp = "fp\<lparr>frame_buf := Some b'\<rparr>"
    obtain s vr1 where d: "(if succ then deliver_frame env (vr\<lparr>vr_frame_processor := ?fp\<rparr>) frame' rec
        else (False, vr\<lparr>vr_frame_processor := ?fp, frames_lost := frames_lost vr + 1\<rparr>)) = (s, vr1)"
      by (metis surj_pair)
    show thesis
      by (rule frame [where fp' = ?fp and s = s and ?vr1.0 = vr1, OF f c(1) [unfolded check_reference_fp]])
        (use r 3 c d in \<open>auto simp: Let_def split: if_splits\<close>)
  qed
qed

lemma flush_frame_inv:
  assumes "vr_inv cb vr" "ve_video_sample_cb env = cb" "0 \<le> frame_index_cur vr"
    "chiaki_video_receiver_flush_frame env vr = Some (vr', err)"
  shows "vr_inv cb vr' \<and> frame_index_cur vr' = frame_index_cur vr"
  using assms(4)
proof (cases rule: flush_frame_cases)
  case failed
  then show ?thesis using vr_inv_cong [OF assms(1)] by simp
next
  case corrupt
  then show ?thesis
    using vr_inv_cong [OF vr_inv_event [OF assms(1), of "CorruptFrame (next_frame_expected vr) (of_int (frame_index_cur vr))"]]
    by simp
next
  case (frame fp result f succ rec f' fp' s vr1)
  have "vr_inv cb vr1 \<and> frame_index_cur vr1 = frame_index_cur vr"
  proof (cases succ)
    case True
    let ?vr = "vr\<lparr>vr_frame_processor := fp'\<rparr>"
    have d: "deliver_frame env ?vr f' rec = (s, vr1)" using frame(3) True by simp
    have "vr_inv cb ?vr" by (rule vr_inv_cong [OF assms(1)]) simp_all
    then show ?thesis using vr_inv_deliver [OF _ assms(2) _ d] deliver_fields [OF d] assms(3) by simp
  next
    case False
    then show ?thesis using frame(3) vr_inv_cong [OF assms(1)] by simp
  qed
  moreover have "vr_inv cb vr'" if "vr_inv cb vr1"
    using frame(4) vr_inv_cong [OF that] by (auto simp: Let_def split: if_splits)
  ultimately show ?thesis using frame(4) by (auto simp: Let_def)
qed


lemma switch_profile_inv:
  assumes "vr_inv cb vr" "switch_profile env vr p = Some (Some vr')"
  shows "vr_inv cb vr' \<and> frame_index_cur vr' = frame_index_cur vr"
proof -
  let ?vr = "vr_event (VideoHeader (profile_header (vr_profiles vr ! unat (adaptive_stream_index p))))
    (vr\<lparr>profile_cur := uint (adaptive_stream_index p)\<rparr>)"
  have "vr_inv cb ?vr" by (rule vr_inv_event [OF vr_inv_cong [OF assms(1)]]) simp_all
  then show ?thesis
    using assms vr_inv_cong [OF assms(1), of vr'] vr_inv_cong [of cb ?vr vr']
    by (auto simp: switch_profile_def Let_def bind_eq_Some_conv split: if_splits)
qed

lemma flush_pending_inv:
  assumes "vr_inv cb vr" "ve_video_sample_cb env = cb" "flush_pending env vr = Some vr'"
  shows "vr_inv cb vr'"
  using assms(1,3) flush_frame_inv [OF assms(1,2)]
  by (auto simp: flush_pending_def split: if_splits)

lemma open_frame_inv:
  assumes "vr_inv cb vr" "open_frame env vr p = Some vr'"
  shows "vr_inv cb vr' \<and> frame_index_cur vr' = uint (av_frame_index p)"
proof -
  have "vr_inv cb (report_missing vr (av_frame_index p))"
    using assms(1) vr_inv_event [OF assms(1)] by (simp add: report_missing_def Let_def)
  then show ?thesis
    using assms(2) vr_inv_cong [of cb "report_missing vr (av_frame_index p)" vr']
    by (auto simp: open_frame_def Let_def bind_eq_Some_conv)
qed

lemma start_frame_inv:
  assumes "vr_inv cb vr" "ve_video_sample_cb env = cb" "start_frame env vr p = Some vr'"
  shows "vr_inv cb vr' \<and> frame_index_cur vr' = uint (av_frame_index p)"
proof -
  let ?vr = "vr\<lparr>vr_packet_stats := map_option (chiaki_frame_processor_report_packet_stats (vr_frame_processor vr))
    (vr_packet_stats vr)\<rparr>"
  obtain vr1 where v1: "flush_pending env ?vr = Some vr1" "open_frame env vr1 p = Some vr'"
    using assms(3) by (auto simp: start_frame_def bind_eq_Some_conv)
  have "vr_inv cb ?vr" by (rule vr_inv_cong [OF assms(1)]) simp_all
  then show ?thesis using flush_pending_inv [OF _ assms(2) v1(1)] open_frame_inv [OF _ v1(2)] by blast
qed

lemma put_and_flush_result:
  assumes "put_and_flush env vr p = Some vr'" "chiaki_frame_processor_put_unit (vr_frame_processor vr) p = Some (fp, e)"
  shows "vr' = vr\<lparr>vr_frame_processor := fp\<rparr> \<or>
    (\<exists>e. chiaki_video_receiver_flush_frame env (vr\<lparr>vr_frame_processor := fp\<rparr>) = Some (vr', e))"
proof -
  show ?thesis
    using assms(1) unfolding put_and_flush_def assms(2) Let_def by (simp split: if_splits)
qed

lemma put_and_flush_inv:
  assumes "vr_inv cb vr" "ve_video_sample_cb env = cb" "put_and_flush env vr p = Some vr'" "0 \<le> frame_index_cur vr"
  shows "vr_inv cb vr'"
proof -
  obtain fp e where p: "chiaki_frame_processor_put_unit (vr_frame_processor vr) p = Some (fp, e)"
    using assms(3) by (auto simp: put_and_flush_def bind_eq_Some_conv)
  have i: "vr_inv cb (vr\<lparr>vr_frame_processor := fp\<rparr>)" by (rule vr_inv_cong [OF assms(1)]) simp_all
  from put_and_flush_result [OF assms(3) p] show ?thesis
  proof (elim disjE exE)
    fix e'
    assume "chiaki_video_receiver_flush_frame env (vr\<lparr>vr_frame_processor := fp\<rparr>) = Some (vr', e')"
    from flush_frame_inv [OF i assms(2) _ this] show ?thesis using assms(4) by simp
  qed (use i in blast)
qed

lemma av_packet_cases:
  assumes "chiaki_video_receiver_av_packet env vr p = Some vr'"
  obtains "vr' = vr"
  | vr1 where "switch_profile env vr p = Some (Some vr1)" "frame_index_cur vr1 = frame_index_cur vr" "0 \<le> frame_index_cur vr"
      "put_and_flush env vr1 p = Some vr'"
  | vr1 vr2 where "switch_profile env vr p = Some (Some vr1)" "start_frame env vr1 p = Some vr2"
      "put_and_flush env vr2 p = Some vr'"
proof -
  have s: "frame_index_cur vr1 = frame_index_cur vr" if "switch_profile env vr p = Some (Some vr1)" for vr1
    using that by (auto simp: switch_profile_def Let_def bind_eq_Some_conv split: if_splits)
  let ?c = "of_int (frame_index_cur vr) :: u16"
  show thesis
  proof (cases "frame_index_cur vr \<ge> 0 \<and> chiaki_seq_num_16_lt (av_frame_index p) ?c")
    case True
    then show thesis using assms that(1) by (simp add: chiaki_video_receiver_av_packet_def)
  next
    case False
    then have "(do {
        switched \<leftarrow> switch_profile env vr p;
        (case switched of
           None \<Rightarrow> Some vr
         | Some vr1 \<Rightarrow> do {
             vr2 \<leftarrow> (if frame_index_cur vr1 < 0 \<or> chiaki_seq_num_16_gt (av_frame_index p) ?c
                    then start_frame env vr1 p else Some vr1);
             put_and_flush env vr2 p })}) = Some vr'"
      using assms unfolding chiaki_video_receiver_av_packet_def Let_def by (simp only: if_False)
    then obtain w where w: "switch_profile env vr p = Some w" "(case w of
           None \<Rightarrow> Some vr
         | Some vr1 \<Rightarrow> do {
             vr2 \<leftarrow> (if frame_index_cur vr1 < 0 \<or> chiaki_seq_num_16_gt (av_frame_index p) ?c
                    then start_frame env vr1 p else Some vr1);
             put_and_flush env vr2 p }) = Some vr'"
      by (auto simp: bind_eq_Some_conv)
    show thesis
    proof (cases w)
      case None
      then show thesis using w(2) that(1) by simp
    next
      case (Some vr1)
      then obtain vr2 where "(if frame_index_cur vr1 < 0 \<or> chiaki_seq_num_16_gt (av_frame_index p) ?c
          then start_frame env vr1 p else Some vr1) = Some vr2" "put_and_flush env vr2 p = Some vr'"
        using w(2) by (auto simp: bind_eq_Some_conv)
      then show thesis
        using that(2) [of vr1] that(3) [of vr1 vr2] w(1) Some s [of vr1] by (simp split: if_splits)
    qed
  qed
qed

lemma av_packet_inv:
  assumes "vr_inv cb vr" "ve_video_sample_cb env = cb" "chiaki_video_receiver_av_packet env vr p = Some vr'"
  shows "vr_inv cb vr'"
  using assms(3)
proof (cases rule: av_packet_cases)
  case 1
  then show ?thesis using assms(1) by simp
next
  case (2 vr1)
  then show ?thesis using switch_profile_inv [OF assms(1) 2(1)] put_and_flush_inv [OF _ assms(2) 2(4)] by simp
next
  case (3 vr1 vr2)
  then show ?thesis
    using switch_profile_inv [OF assms(1) 3(1)] start_frame_inv [OF _ assms(2) 3(2)]
      put_and_flush_inv [OF _ assms(2) 3(3)] by simp
qed

section \<open>Properties\<close>

text \<open>The states of a receiver that is given profiles and packets, in any environment with one callback.\<close>

inductive video_reach :: "(bytes \<Rightarrow> bool) option \<Rightarrow> video_receiver \<Rightarrow> bool" for cb where
  init: "video_reach cb (chiaki_video_receiver_init bs codec stats)"
| info: "video_reach cb vr \<Longrightarrow> video_reach cb (chiaki_video_receiver_stream_info vr ps)"
| packet: "video_reach cb vr \<Longrightarrow> ve_video_sample_cb env = cb \<Longrightarrow>
    chiaki_video_receiver_av_packet env vr p = Some vr' \<Longrightarrow> video_reach cb vr'"

lemma reach_inv: "video_reach cb vr \<Longrightarrow> vr_inv cb vr"
proof (induction rule: video_reach.induct)
  case (init bs codec stats)
  then show ?case by (simp add: vr_inv_def chiaki_video_receiver_init_def ref_slots_def)
next
  case (info vr ps)
  then show ?case by (simp add: vr_inv_def chiaki_video_receiver_stream_info_def)
next
  case (packet vr env p vr')
  then show ?case using av_packet_inv by blast
qed


text \<open>
  C39: In every reachable state the sixteen slots hold the numbers of the last frames that the
  callback took, the latest in front, behind as many free slots as are left.
\<close>

theorem video_reference_frames:
  assumes "video_reach cb vr"
  shows "reference_frames vr = replicate (16 - length (accepted cb (vr_events vr))) (- 1) @
      take 16 (accepted cb (vr_events vr)) \<and>
    (have_ref_frame vr x \<longleftrightarrow> uint x \<in> set (take 16 (accepted cb (vr_events vr))))"
  using reach_inv [OF assms] have_ref_frame_slots [of vr] by (simp add: vr_inv_def ref_slots_def)

text \<open>
  A frame with number \<open>i\<close> that is delivered: when it was changed, it is set to a reference that the
  decoder has; otherwise, when the parser finds a reference, the decoder has that. \<open>acc\<close> are the
  frames that the callback took before.
\<close>

definition known_reference :: "video_env \<Rightarrow> bitstream \<Rightarrow> int list \<Rightarrow> int \<Rightarrow> bytes \<Rightarrow> bool \<Rightarrow> bool" where
  "known_reference env bs acc i f recovered \<longleftrightarrow>
     (if recovered then
        \<exists>frame. \<exists>k<16. chiaki_bitstream_slice_set_reference_frame (ve_frame_addr env) bs frame (of_nat (length frame))
          (of_nat k) = Some (True, f) \<and> uint (of_int i - of_nat k - 1 :: u16) \<in> set (take 16 acc)
      else
        \<forall>sl. chiaki_bitstream_slice (ve_frame_addr env) bs f (of_nat (length f)) (ve_slice env) = Some (True, sl) \<longrightarrow>
          slice_type sl = CHIAKI_BITSTREAM_SLICE_P \<longrightarrow> reference_frame sl \<noteq> 0xff \<longrightarrow>
          uint (of_int i - ucast (reference_frame sl) - 1 :: u16) \<in> set (take 16 acc))"

text \<open>The calls extend \<open>base\<close>, and every frame that was delivered since has a known reference.\<close>

inductive known_since ::
  "video_env \<Rightarrow> (bytes \<Rightarrow> bool) option \<Rightarrow> bitstream \<Rightarrow> video_event list \<Rightarrow> video_event list \<Rightarrow> bool"
  for env cb bs base where
  base: "known_since env cb bs base base"
| sample: "known_since env cb bs base es \<Longrightarrow> known_reference env bs (accepted cb es) i f r \<Longrightarrow>
    known_since env cb bs base (VideoSample i f l r # es)"
| other: "known_since env cb bs base es \<Longrightarrow> (\<And>i f l r. e \<noteq> VideoSample i f l r) \<Longrightarrow>
    known_since env cb bs base (e # es)"

lemma check_reference_known:
  assumes "check_reference env vr frame = Some (True, rec, f)" "vr_inv cb vr"
  shows "known_reference env (vr_bitstream vr) (accepted cb (vr_events vr)) (frame_index_cur vr) f rec"
proof -
  let ?acc = "accepted cb (vr_events vr)"
  have mem: "have_ref_frame vr x \<longleftrightarrow> uint x \<in> set (take 16 ?acc)" for x
    using assms(2) have_ref_frame_slots [of vr] by (simp add: vr_inv_def)
  obtain ok sl where sl: "chiaki_bitstream_slice (ve_frame_addr env) (vr_bitstream vr) frame (of_nat (length frame))
      (ve_slice env) = Some (ok, sl)"
    using assms(1) by (auto simp: check_reference_def bind_eq_Some_conv)
  show ?thesis
  proof (cases rec)
    case False
    then have "f = frame" "ok \<and> slice_type sl = CHIAKI_BITSTREAM_SLICE_P \<and> reference_frame sl \<noteq> 0xff \<longrightarrow>
        have_ref_frame vr (ref_index vr (reference_frame sl))"
      using assms(1) sl by (auto simp: check_reference_def bind_eq_Some_conv split: if_splits)
    then show ?thesis using False sl by (simp add: known_reference_def mem ref_index_def)
  next
    case True
    then have "change_reference env vr sl frame = Some (True, f)"
      using assms(1) sl by (auto simp: check_reference_def bind_eq_Some_conv split: if_splits)
    then obtain k where k: "List.find (\<lambda>i. have_ref_frame vr (ref_index vr (of_nat i))) [unat (reference_frame sl + 1)..<16] =
        Some k"
      and set: "chiaki_bitstream_slice_set_reference_frame (ve_frame_addr env) (vr_bitstream vr) frame
        (of_nat (length frame)) (of_nat k) = Some (True, f)"
      by (auto simp: change_reference_def split: option.splits)
    then have "k < 16" "have_ref_frame vr (ref_index vr (of_nat k))"
      using k by (auto simp: find_Some_iff dest: nth_mem)
    moreover from this have "ucast (of_nat k :: u32) = (of_nat k :: u16)"
      by (simp add: unsigned_of_nat take_bit_nat_eq_self)
    ultimately show ?thesis using True set by (auto simp: known_reference_def mem ref_index_def)
  qed
qed


definition since :: "video_env \<Rightarrow> (bytes \<Rightarrow> bool) option \<Rightarrow> bitstream \<Rightarrow> video_event list \<Rightarrow> video_receiver \<Rightarrow> bool" where
  "since env cb bs base vr \<longleftrightarrow> vr_inv cb vr \<and> vr_bitstream vr = bs \<and> known_since env cb bs base (vr_events vr)"

lemma since_cong:
  "since env cb bs base vr \<Longrightarrow> vr_events vr' = vr_events vr \<Longrightarrow> reference_frames vr' = reference_frames vr \<Longrightarrow>
   vr_bitstream vr' = vr_bitstream vr \<Longrightarrow> since env cb bs base vr'"
  using vr_inv_cong [of cb vr vr'] by (simp add: since_def)

lemma since_event:
  assumes "since env cb bs base vr" "\<And>i f l r. e \<noteq> VideoSample i f l r"
  shows "since env cb bs base (vr_event e vr)"
  using assms(1) vr_inv_event [of cb vr e, OF _ assms(2)] known_since.other [of env cb bs base "vr_events vr" e] assms(2)
  by (simp add: since_def)

lemma deliver_since:
  assumes "since env cb bs base vr" "ve_video_sample_cb env = cb" "0 \<le> frame_index_cur vr"
    "deliver_frame env vr f r = (s, vr')" "known_reference env bs (accepted cb (vr_events vr)) (frame_index_cur vr) f r"
  shows "since env cb bs base vr'"
proof -
  have "vr_inv cb vr'" using vr_inv_deliver [OF _ assms(2,3,4)] assms(1) by (simp add: since_def)
  moreover have "vr_events vr' = vr_events vr \<or>
      vr_events vr' = VideoSample (frame_index_cur vr) f (frames_lost vr) r # vr_events vr"
    "vr_bitstream vr' = vr_bitstream vr"
    using assms(4) by (auto simp: deliver_frame_def Let_def split: option.splits if_splits)
  ultimately show ?thesis
    using assms(1) known_since.sample [OF _ assms(5), of base] by (auto simp: since_def)
qed

lemma flush_frame_since:
  assumes "since env cb bs base vr" "ve_video_sample_cb env = cb" "0 \<le> frame_index_cur vr"
    "chiaki_video_receiver_flush_frame env vr = Some (vr', err)"
  shows "since env cb bs base vr'"
  using assms(4)
proof (cases rule: flush_frame_cases)
  case failed
  then show ?thesis using since_cong [OF assms(1)] by simp
next
  case corrupt
  then show ?thesis
    using since_cong [OF since_event [OF assms(1), of "CorruptFrame (next_frame_expected vr) (of_int (frame_index_cur vr))"]]
    by simp
next
  case (frame fp result f succ rec f' fp' s vr1)
  have "since env cb bs base vr1"
  proof (cases succ)
    case True
    let ?vr = "vr\<lparr>vr_frame_processor := fp'\<rparr>"
    have d: "deliver_frame env ?vr f' rec = (s, vr1)" using frame(3) True by simp
    have i: "since env cb bs base ?vr" by (rule since_cong [OF assms(1)]) simp_all
    have "known_reference env bs (accepted cb (vr_events vr)) (frame_index_cur vr) f' rec"
      using check_reference_known [of env vr f rec f' cb] frame(2) True assms(1) by (simp add: since_def)
    then show ?thesis using deliver_since [OF i assms(2) _ d] assms(3) by simp
  next
    case False
    then show ?thesis using frame(3) since_cong [OF assms(1)] by simp
  qed
  then show ?thesis using frame(4) since_cong [of env cb bs base vr1 vr'] by (simp add: Let_def split: if_splits)
qed

lemma start_frame_since:
  assumes "since env cb bs base vr" "ve_video_sample_cb env = cb" "start_frame env vr p = Some vr'"
  shows "since env cb bs base vr'"
proof -
  let ?vr = "vr\<lparr>vr_packet_stats := map_option (chiaki_frame_processor_report_packet_stats (vr_frame_processor vr))
    (vr_packet_stats vr)\<rparr>"
  obtain vr1 where v1: "flush_pending env ?vr = Some vr1" "open_frame env vr1 p = Some vr'"
    using assms(3) by (auto simp: start_frame_def bind_eq_Some_conv)
  have i: "since env cb bs base ?vr" by (rule since_cong [OF assms(1)]) simp_all
  have i1: "since env cb bs base vr1"
    using v1(1) i flush_frame_since [OF i assms(2)] by (auto simp: flush_pending_def split: if_splits)
  have "since env cb bs base (report_missing vr1 (av_frame_index p))"
    using i1 since_event [OF i1] by (simp add: report_missing_def Let_def)
  then show ?thesis
    using v1(2) since_cong [of env cb bs base "report_missing vr1 (av_frame_index p)" vr']
    by (auto simp: open_frame_def Let_def bind_eq_Some_conv)
qed

lemma put_and_flush_since:
  assumes "since env cb bs base vr" "ve_video_sample_cb env = cb" "put_and_flush env vr p = Some vr'" "0 \<le> frame_index_cur vr"
  shows "since env cb bs base vr'"
proof -
  obtain fp e where p: "chiaki_frame_processor_put_unit (vr_frame_processor vr) p = Some (fp, e)"
    using assms(3) by (auto simp: put_and_flush_def bind_eq_Some_conv)
  have i: "since env cb bs base (vr\<lparr>vr_frame_processor := fp\<rparr>)" by (rule since_cong [OF assms(1)]) simp_all
  from put_and_flush_result [OF assms(3) p] show ?thesis
  proof (elim disjE exE)
    fix e'
    assume "chiaki_video_receiver_flush_frame env (vr\<lparr>vr_frame_processor := fp\<rparr>) = Some (vr', e')"
    from flush_frame_since [OF i assms(2) _ this] show ?thesis using assms(4) by simp
  qed (use i in blast)
qed

lemma switch_profile_since:
  assumes "vr_inv cb vr" "switch_profile env vr p = Some (Some vr1)"
  shows "since env cb (vr_bitstream vr1) (vr_events vr) vr1"
proof -
  have "vr_events vr1 = vr_events vr \<or> (\<exists>h. vr_events vr1 = VideoHeader h # vr_events vr)"
    using assms(2) by (auto simp: switch_profile_def Let_def bind_eq_Some_conv split: if_splits)
  then show ?thesis
    using switch_profile_inv [OF assms] known_since.base [of env cb "vr_bitstream vr1" "vr_events vr"]
      known_since.other [of env cb "vr_bitstream vr1" "vr_events vr" "vr_events vr"]
    by (auto simp: since_def)
qed

text \<open>
  C11: Whatever packet arrives in a reachable state, every frame that is delivered then either
  refers to one of the last sixteen frames that the callback took before it, as far as the parser
  finds a reference, or was set to refer to one of them.
\<close>

theorem video_references_known:
  assumes "video_reach cb vr" "ve_video_sample_cb env = cb" "chiaki_video_receiver_av_packet env vr p = Some vr'"
  shows "known_since env cb (vr_bitstream vr') (vr_events vr) (vr_events vr')"
  using assms(3)
proof (cases rule: av_packet_cases)
  case 1
  then show ?thesis by (simp add: known_since.base)
next
  case (2 vr1)
  note i = switch_profile_since [OF reach_inv [OF assms(1)] 2(1)]
  show ?thesis using put_and_flush_since [OF i assms(2) 2(4)] 2(2,3) by (simp add: since_def)
next
  case (3 vr1 vr2)
  note i = start_frame_since [OF switch_profile_since [OF reach_inv [OF assms(1)] 3(1)] assms(2) 3(2)]
  have "0 \<le> frame_index_cur vr2"
    using start_frame_inv [OF _ assms(2) 3(2)] switch_profile_inv [OF reach_inv [OF assms(1)] 3(1)] by simp
  then show ?thesis using put_and_flush_since [OF i assms(2) 3(3)] by (simp add: since_def)
qed

text \<open>
  C40: When a frame cannot be restored, the frames from the one behind the last complete frame to
  the current one are reported as corrupt, and as many are added to the frames that are lost,
  except that 65536 are missing when the numbers wrapped around in between.
\<close>

theorem video_corrupt_frames_lost:
  assumes "chiaki_frame_processor_flush (ve_dec env) (ve_alloc_erasures env) (ve_alloc_fec env) (vr_frame_processor vr) =
      Some (fp, CHIAKI_FRAME_PROCESSOR_FLUSH_RESULT_FEC_FAILED, frame)"
    "frame_index_cur vr = uint cur" "frame_index_prev_complete vr = uint prev"
  shows "\<exists>vr'. chiaki_video_receiver_flush_frame env vr = Some (vr', CHIAKI_ERR_UNKNOWN) \<and>
    vr_events vr' = CorruptFrame (prev + 1) cur # vr_events vr \<and>
    frames_lost vr' = frames_lost vr + int (seq_dist (prev + 1) cur) + 1 - (if cur < prev + 1 then 65536 else 0)"
proof -
  have n: "next_frame_expected (vr\<lparr>vr_frame_processor := fp\<rparr>) = prev + 1"
    by (simp add: next_frame_expected_def assms(3))
  have d: "uint cur - uint (prev + 1) = int (seq_dist (prev + 1) cur) - (if cur < prev + 1 then 65536 else 0)"
    by (simp only: seq_dist_int word_less_def) simp
  show ?thesis
    using d by (simp add: chiaki_video_receiver_flush_frame_def assms(1,2) n Let_def vr_event_def)
qed

section \<open>A receiver with a frame\<close>

text \<open>An access unit delimiter is neither a parameter set nor a slice.\<close>

lemma delimiter_at:
  assumes "vlc_at inp e v 32" "6 \<le> e" "inp ! 4 = 9" "32 \<le> vn v \<or> vl_data v = e"
  shows "\<exists>v'. nal_h264 v = Some (9, v')"
proof -
  have n: "16 \<le> vn v" using assms(2,4) vn_end [OF assms(1)] by auto
  obtain v1 where v1: "vl_vlc_eatbits v 1 = Some v1" "vlc_at inp e v1 33" "vn v1 = vn v - 1"
    using eatbits_at [OF assms(1), of 1] n by auto
  have n2: "2 \<le> vn v1" using v1(3) n by simp
  obtain v2 where v2: "vl_vlc_eatbits v1 2 = Some v2" "vlc_at inp e v2 35" "vn v2 = vn v1 - 2"
    using eatbits_at [OF v1(2), of 2] n2 by (auto simp: diff_diff_left)
  have "seg inp 35 5 = [False, True, False, False, True]"
    using assms(3) by (simp add: seg_def upt_rec sbit_def)
  then have "bits_val (seg inp 35 5) = 9" by (simp add: bits_val_def)
  moreover have "5 \<le> vn v2" using v1(3) v2(3) n by simp
  ultimately show ?thesis using get_at [OF v2(2), of 5] v1(1) v2(1) by (auto simp: nal_h264_def)
qed

lemma delimiter_passed:
  assumes "bs_codec bs = CHIAKI_CODEC_H264" "take 5 inp = [0, 0, 0, 1, 9]" "6 \<le> length inp" "length inp = unat sz"
    "length inp < 2 ^ 26"
  shows "chiaki_bitstream_header addr bs inp sz = Some (False, bs\<lparr>bs_sps := 0\<rparr>)"
    "chiaki_bitstream_slice addr bs inp sz sl = Some (False, sl)"
proof -
  have i: "inp ! j = [0, 0, 0, 1, 9] ! j" if "j < 5" for j using that assms(2) by (metis nth_take)
  obtain v where v: "vl_vlc_init addr inp sz = Some v" "vlc_at inp (length inp) v 0"
    using init_at [OF assms(4,5)] by blast
  obtain v1 where v1: "skip_startcode v = Some (True, v1)" "vlc_at inp (length inp) v1 32"
      "32 \<le> vn v1 \<or> vl_data v1 = length inp"
    using skip_startcode_at [OF v(2)] i [of 0] i [of 1] i [of 2] i [of 3] assms(3) by auto
  obtain v2 where "nal_h264 v1 = Some (9, v2)"
    using delimiter_at [OF v1(2) assms(3) _ v1(3)] i [of 4] by auto
  then show "chiaki_bitstream_header addr bs inp sz = Some (False, bs\<lparr>bs_sps := 0\<rparr>)"
    "chiaki_bitstream_slice addr bs inp sz sl = Some (False, sl)"
    using v v1 assms(1) by (simp_all add: chiaki_bitstream_header_def chiaki_bitstream_slice_def header_h264_def slice_h264_def)
qed

definition sample_bitstream :: bitstream where
  "sample_bitstream = \<lparr>bs_codec = CHIAKI_CODEC_H264, bs_sps = 0\<rparr>"

definition sample_slice :: bitstream_slice where
  "sample_slice = \<lparr>slice_type = CHIAKI_BITSTREAM_SLICE_UNKNOWN, reference_frame = 0\<rparr>"

definition sample_video_env :: video_env where
  "sample_video_env = \<lparr>ve_dec = (\<lambda>k m es us. None), ve_alloc_slots = True, ve_malloc_buf = (\<lambda>n. Some (replicate n 0xff)),
     ve_alloc_erasures = True, ve_alloc_fec = True, ve_frame_addr = 0, ve_header_addr = 0,
     ve_slice = sample_slice, ve_video_sample_cb = Some (\<lambda>f. True)\<rparr>"

definition sample_receiver :: video_receiver where
  "sample_receiver = chiaki_video_receiver_stream_info
     (chiaki_video_receiver_init sample_bitstream CHIAKI_CODEC_H264 None)
     [\<lparr>profile_width = 1280, profile_height = 720, profile_header = [0, 0, 0, 1, 9, 0, 0, 0]\<rparr>]"

definition sample_video_packet :: av_packet where
  "sample_video_packet = av_packet_zero\<lparr>is_video := True, av_frame_index := 1, unit_index := 0, units_in_frame_total := 1,
     av_data := [0, 0, 0, 0, 0, 1, 9, 16, 0, 0], av_data_size := 10\<rparr>"

definition sample_fp :: frame_processor where
  "sample_fp = fst (the (chiaki_frame_processor_alloc_frame True (\<lambda>n. Some (replicate n 0xff)) chiaki_frame_processor_init
   sample_video_packet \<bind> (\<lambda>(fp, _). chiaki_frame_processor_put_unit fp sample_video_packet)))"

lemma sample_fp_put:
  "\<exists>fp. chiaki_frame_processor_alloc_frame True (\<lambda>n. Some (replicate n 0xff)) chiaki_frame_processor_init
     sample_video_packet = Some (fp, CHIAKI_ERR_SUCCESS) \<and>
   chiaki_frame_processor_put_unit fp sample_video_packet = Some (sample_fp, CHIAKI_ERR_SUCCESS)"
proof -
  have "chiaki_frame_processor_alloc_frame True (\<lambda>n. Some (replicate n 0xff)) chiaki_frame_processor_init
     sample_video_packet \<bind> (\<lambda>(fp, e). if e = CHIAKI_ERR_SUCCESS then chiaki_frame_processor_put_unit fp sample_video_packet else None) =
     Some (sample_fp, CHIAKI_ERR_SUCCESS)" by code_simp
  then show ?thesis by (auto simp: bind_eq_Some_conv split: if_splits)
qed


lemma sample_fp_flush:
  "\<exists>fp. chiaki_frame_processor_flush (\<lambda>k m es us. None) True True sample_fp =
     Some (fp, CHIAKI_FRAME_PROCESSOR_FLUSH_RESULT_SUCCESS, [0, 0, 0, 1, 9, 16, 0, 0]) \<and>
     frame_buf fp \<bind> (\<lambda>b. wr b 0 [0, 0, 0, 1, 9, 16, 0, 0]) \<noteq> None"
proof -
  have "chiaki_frame_processor_flush (\<lambda>k m es us. None) True True sample_fp \<bind>
      (\<lambda>(fp, r, f). frame_buf fp \<bind> (\<lambda>b. wr b 0 [0, 0, 0, 1, 9, 16, 0, 0]) \<bind> (\<lambda>b. Some (r, f))) =
    Some (CHIAKI_FRAME_PROCESSOR_FLUSH_RESULT_SUCCESS, [0, 0, 0, 1, 9, 16, 0, 0])"
    by code_simp
  then show ?thesis by (auto simp: bind_eq_Some_conv)
qed

lemma sample_fp_possible: "chiaki_frame_processor_flush_possible sample_fp"
  by code_simp

lemma sample_received:
  "\<exists>vr. chiaki_video_receiver_av_packet sample_video_env sample_receiver sample_video_packet = Some vr \<and>
     vr_events vr = [VideoSample 1 [0, 0, 0, 1, 9, 16, 0, 0] 0 False, VideoHeader [0, 0, 0, 1, 9, 0, 0, 0]]"
proof -
  obtain fp1 where fp1: "chiaki_frame_processor_alloc_frame True (\<lambda>n. Some (replicate n 0xff)) chiaki_frame_processor_init
      sample_video_packet = Some (fp1, CHIAKI_ERR_SUCCESS)"
      "chiaki_frame_processor_put_unit fp1 sample_video_packet = Some (sample_fp, CHIAKI_ERR_SUCCESS)"
    using sample_fp_put by blast
  obtain fp2 buf buf' where fp2: "chiaki_frame_processor_flush (\<lambda>k m es us. None) True True sample_fp =
      Some (fp2, CHIAKI_FRAME_PROCESSOR_FLUSH_RESULT_SUCCESS, [0, 0, 0, 1, 9, 16, 0, 0])"
      "frame_buf fp2 = Some buf" "wr buf 0 [0, 0, 0, 1, 9, 16, 0, 0] = Some buf'"
    using sample_fp_flush by (auto simp: bind_eq_Some_conv)
  have h: "chiaki_bitstream_header 0 sample_bitstream [0, 0, 0, 1, 9, 0, 0, 0] 8 = Some (False, sample_bitstream)"
    "chiaki_bitstream_slice 0 sample_bitstream [0, 0, 0, 1, 9, 16, 0, 0] 8 sample_slice = Some (False, sample_slice)"
    by (subst delimiter_passed; simp add: sample_bitstream_def)+
  have f: "last_free (replicate 16 (- 1)) 16 = Some 15" by code_simp
  have p: "av_frame_index sample_video_packet = 1" "unit_index sample_video_packet = 0"
    "adaptive_stream_index sample_video_packet = 0" "chiaki_bitstream_init sample_bitstream CHIAKI_CODEC_H264 = sample_bitstream"
    by (simp_all add: sample_video_packet_def av_packet_zero_def sample_bitstream_def chiaki_bitstream_init_def)
  show ?thesis
    using fp1 fp2 sample_fp_possible
    by (simp add: chiaki_video_receiver_av_packet_def sample_receiver_def chiaki_video_receiver_stream_info_def
        chiaki_video_receiver_init_def sample_video_env_def p h f switch_profile_def start_frame_def flush_pending_def
        open_frame_def report_missing_def next_frame_expected_def seq_num_gt_def put_and_flush_def vr_event_def
        chiaki_video_receiver_flush_frame_def check_reference_def deliver_frame_def add_ref_frame_def Let_def split: option.split)
qed
lemma sample_receiver_events: "vr_events sample_receiver = []"
  by (simp add: sample_receiver_def chiaki_video_receiver_stream_info_def chiaki_video_receiver_init_def)

lemma sample_reach: "video_reach (ve_video_sample_cb sample_video_env) sample_receiver"
  unfolding sample_receiver_def by (intro video_reach.intros)

theorem video_reference_frames_witness:
  "\<exists>vr. vr_events vr = [VideoSample 1 [0, 0, 0, 1, 9, 16, 0, 0] 0 False, VideoHeader [0, 0, 0, 1, 9, 0, 0, 0]] \<and>
     reference_frames vr = replicate 15 (- 1) @ [1] \<and> have_ref_frame vr 1 \<and> \<not> have_ref_frame vr 2"
proof -
  obtain vr where vr: "chiaki_video_receiver_av_packet sample_video_env sample_receiver sample_video_packet = Some vr"
    "vr_events vr = [VideoSample 1 [0, 0, 0, 1, 9, 16, 0, 0] 0 False, VideoHeader [0, 0, 0, 1, 9, 0, 0, 0]]"
    using sample_received by blast
  have "accepted (ve_video_sample_cb sample_video_env) (vr_events vr) = [1]"
    by (simp add: vr(2) sample_video_env_def)
  then show ?thesis
    using video_reference_frames [OF video_reach.packet [OF sample_reach refl vr(1)], of 1]
      video_reference_frames [OF video_reach.packet [OF sample_reach refl vr(1)], of 2] vr(2)
    by (intro exI [of _ vr]) simp
qed

theorem video_references_known_witness:
  "\<exists>vr :: video_receiver. known_since sample_video_env (ve_video_sample_cb sample_video_env) (vr_bitstream vr) []
     [VideoSample 1 [0, 0, 0, 1, 9, 16, 0, 0] 0 False, VideoHeader [0, 0, 0, 1, 9, 0, 0, 0]]"
proof -
  obtain vr where vr: "chiaki_video_receiver_av_packet sample_video_env sample_receiver sample_video_packet = Some vr"
    "vr_events vr = [VideoSample 1 [0, 0, 0, 1, 9, 16, 0, 0] 0 False, VideoHeader [0, 0, 0, 1, 9, 0, 0, 0]]"
    using sample_received by blast
  from video_references_known [OF sample_reach refl vr(1)] show ?thesis
    unfolding vr(2) sample_receiver_events by (rule exI)
qed

text \<open>Of a frame of two source units, only one arrives, and the erasure code has no unit to add.\<close>

lemma sample_frame_lost:
  "\<exists>fp fp'. chiaki_frame_processor_put_unit sample_frame (sample_unit 0 [0, 2, 7]) = Some (fp, CHIAKI_ERR_SUCCESS) \<and>
     chiaki_frame_processor_flush (\<lambda>k m es us. None) True True fp =
       Some (fp', CHIAKI_FRAME_PROCESSOR_FLUSH_RESULT_FEC_FAILED, [7])"
proof -
  have "chiaki_frame_processor_put_unit sample_frame (sample_unit 0 [0, 2, 7]) \<bind>
      (\<lambda>(fp, e). chiaki_frame_processor_flush (\<lambda>k m es us. None) True True fp \<bind> (\<lambda>(fp', r, f). Some (e, r, f))) =
    Some (CHIAKI_ERR_SUCCESS, CHIAKI_FRAME_PROCESSOR_FLUSH_RESULT_FEC_FAILED, [7])"
    by code_simp
  then show ?thesis by (auto simp: bind_eq_Some_conv)
qed

theorem video_corrupt_frames_lost_witness:
  "\<exists>fp vr'. chiaki_video_receiver_flush_frame sample_video_env
      (sample_receiver\<lparr>vr_frame_processor := fp, frame_index_cur := 2, frame_index_prev_complete := 65533\<rparr>) =
        Some (vr', CHIAKI_ERR_UNKNOWN) \<and>
    vr_events vr' = [CorruptFrame 65534 2] \<and> frames_lost vr' = 5 - 65536"
proof -
  obtain fp fp' where fp: "chiaki_frame_processor_flush (\<lambda>k m es us. None) True True fp =
      Some (fp', CHIAKI_FRAME_PROCESSOR_FLUSH_RESULT_FEC_FAILED, [7])"
    using sample_frame_lost by blast
  let ?vr = "sample_receiver\<lparr>vr_frame_processor := fp, frame_index_cur := 2, frame_index_prev_complete := 65533\<rparr>"
  have "chiaki_frame_processor_flush (ve_dec sample_video_env) (ve_alloc_erasures sample_video_env)
      (ve_alloc_fec sample_video_env) (vr_frame_processor ?vr) =
    Some (fp', CHIAKI_FRAME_PROCESSOR_FLUSH_RESULT_FEC_FAILED, [7])"
    using fp by (simp add: sample_video_env_def)
  from video_corrupt_frames_lost [OF this, of 2 65533] show ?thesis
    by (auto simp: sample_receiver_events seq_dist_def sample_receiver_def chiaki_video_receiver_stream_info_def
      chiaki_video_receiver_init_def intro!: exI [of _ fp])
qed

end
