(* ===== verification/Video_Delivery.thy ===== *)
theory Video_Delivery
  imports Video_Receiver_Props
begin

text \<open>
  The video receiver and the frame processor together: the packets of a frame, in any order and
  with some of them lost, lead to one call of the callback with the frame.
\<close>

fun av_packets :: "video_env \<Rightarrow> video_receiver \<Rightarrow> av_packet list \<Rightarrow> video_receiver option" where
  "av_packets env vr [] = Some vr"
| "av_packets env vr (p # ps) = do { vr \<leftarrow> chiaki_video_receiver_av_packet env vr p; av_packets env vr ps }"

lemma av_packets_append:
  "av_packets env vr (ps @ qs) = do { vr \<leftarrow> av_packets env vr ps; av_packets env vr qs }"
  by (induction ps arbitrary: vr) simp_all

lemma put_units_append: "put_units fp (ps @ qs) = do { fp \<leftarrow> put_units fp ps; put_units fp qs }"
  by (induction ps arbitrary: fp) (auto intro!: Option.bind_cong)

section \<open>The units that arrived\<close>

abbreviation unit_indices :: "av_packet list \<Rightarrow> nat set" where
  "unit_indices ps \<equiv> (\<lambda>p. unat (unit_index p)) ` set ps"

lemma flush_possible_rep:
  assumes "fp_rep fp us"
  shows "chiaki_frame_processor_flush_possible fp \<longleftrightarrow> unat (units_source_expected fp) \<le> fp_counts (length us) us"
proof -
  have n: "unat (units_source_received fp) + unat (units_fec_received fp) = fp_counts (length us) us" "length us \<le> 256"
    using assms by (simp_all add: fp_rep_def)
  then have "unat (units_source_received fp) + unat (units_fec_received fp) < 2 ^ 32"
    using fp_counts_le [of "length us" us] by simp
  then have "unat (units_source_received fp + units_fec_received fp) = fp_counts (length us) us"
    using n(1) by (simp add: unat_word_ariths)
  then show ?thesis by (simp add: chiaki_frame_processor_flush_possible_def word_le_nat_alt)
qed

lemma units_after_counts:
  assumes "\<forall>p \<in> set ps. unat (unit_index p) < n" "\<forall>p \<in> set ps. packet_data p = data (unat (unit_index p))"
  shows "fp_counts n (units_after (replicate n None) ps) = card (unit_indices ps)"
proof -
  have "{i. i < n \<and> units_after (replicate n None) ps ! i \<noteq> None} = unit_indices ps"
    using assms(1) by (auto simp: units_after_empty [OF assms] split: if_splits)
  then show ?thesis by (simp add: fp_counts_def length_filter_conv_card)
qed

lemma flush_complete:
  assumes rep: "fp_rep fp us" "unat (units_source_expected fp) = k" "unat (units_fec_expected fp) = m"
      "buf_size_per_unit fp = N" "2 \<le> N" "0 < k"
    and orig: "length orig = k + m" "\<forall>i < k. fec_unit N (orig ! i)" "\<forall>i < k + m. length (orig ! i) = N"
    and us: "\<forall>i < k + m. us ! i = (if i \<in> I then Some (unit_sent orig k i) else None)" "I \<subseteq> {..<k + m}" "k \<le> card I"
    and contract: "fec_contract dec k m orig"
  shows "\<exists>fp' r. chiaki_frame_processor_flush dec True True fp =
      Some (fp', r, concat (map (\<lambda>v. drop 2 (unit_data v)) (take k orig))) \<and>
    r \<noteq> CHIAKI_FRAME_PROCESSOR_FLUSH_RESULT_FEC_FAILED \<and> r \<noteq> CHIAKI_FRAME_PROCESSOR_FLUSH_RESULT_FAILED"
proof (cases "\<exists>i < k. i \<notin> I")
  case True
  show ?thesis using flush_contract [OF rep(1-5) orig us True contract] by auto
next
  case False
  have u: "us ! i = Some (unit_data (orig ! i))" if "i < k" for i
    using us(1) [rule_format, of i] False that by (simp add: unit_sent_def)
  have n: "length us = k + m" using rep(1-3) by (simp add: fp_rep_def)
  have e: "map payload (take k us) = map (\<lambda>v. drop 2 (unit_data v)) (take k orig)"
    using u n orig(1) by (intro nth_equalityI) (simp_all add: payload_def)
  have "\<exists>fp'. chiaki_frame_processor_flush dec True True fp = Some (fp', CHIAKI_FRAME_PROCESSOR_FLUSH_RESULT_SUCCESS,
      concat (map (\<lambda>v. drop 2 (unit_data v)) (take k orig)))"
    using flush_all_received [OF rep(1,2,6), of dec True True] u unfolding e by simp
  then show ?thesis by auto
qed

lemma flush_within_buffer:
  assumes "chiaki_frame_processor_flush dec ae af fp = Some (fp', r, frame)"
    "r \<noteq> CHIAKI_FRAME_PROCESSOR_FLUSH_RESULT_FAILED"
  shows "\<exists>b b'. frame_buf fp' = Some b \<and> wr b 0 frame = Some b'"
proof -
  from assms obtain b cur where "frame_buf fp' = Some b" "frame = take cur b"
    by (auto simp: chiaki_frame_processor_flush_def bind_eq_Some_conv Let_def split: if_splits)
  then show ?thesis by (auto simp: wr_def)
qed


section \<open>The packets of one frame\<close>

text \<open>A packet of the frame \<open>f\<close> of the profile that is set.\<close>

definition of_frame :: "video_receiver \<Rightarrow> u16 \<Rightarrow> av_packet \<Rightarrow> bool" where
  "of_frame vr f p \<longleftrightarrow> av_frame_index p = f \<and> profile_cur vr = uint (adaptive_stream_index p)"

text \<open>The receiver waits for the units of the frame \<open>f\<close>.\<close>

definition waiting :: "video_receiver \<Rightarrow> u16 \<Rightarrow> bool" where
  "waiting vr f \<longleftrightarrow> frame_index_cur vr = uint f \<and> frame_index_prev vr \<noteq> uint f"

lemma of_int_uint_u16 [simp]: "(of_int (uint (f :: u16)) :: u16) = f"
  by simp

lemma av_packet_waiting:
  assumes "waiting vr f" "of_frame vr f p"
  shows "chiaki_video_receiver_av_packet env vr p = put_and_flush env vr p"
  using assms seq_num_gt_dist [of f f] seq_num_gt_lt [of f f]
  by (simp add: waiting_def of_frame_def chiaki_video_receiver_av_packet_def Let_def switch_profile_def)

lemma put_early:
  assumes "waiting vr f" "chiaki_frame_processor_put_unit (vr_frame_processor vr) p = Some (fp, e)"
    "\<not> chiaki_frame_processor_flush_possible fp"
    "int (unat (unit_index p)) \<noteq> int (unat (units_in_frame_total p)) - 1"
  shows "put_and_flush env vr p = Some (vr\<lparr>vr_frame_processor := fp\<rparr>)"
  using assms by (simp add: put_and_flush_def Let_def)

definition unit_packet :: "frame_processor \<Rightarrow> bytes list \<Rightarrow> nat \<Rightarrow> av_packet \<Rightarrow> bool" where
  "unit_packet fp orig k p \<longleftrightarrow> packet_ok fp p \<and> packet_data p = unit_sent orig k (unat (unit_index p))"

lemma packets_before:
  assumes "waiting vr f" "fp_rep (vr_frame_processor vr) (replicate n None)"
    "\<forall>p \<in> set ps. of_frame vr f p \<and> unit_packet (vr_frame_processor vr) orig k p \<and>
       int (unat (unit_index p)) \<noteq> int (unat (units_in_frame_total p)) - 1"
    "card (unit_indices ps) < unat (units_source_expected (vr_frame_processor vr))"
  shows "\<exists>fp. put_units (vr_frame_processor vr) ps = Some fp \<and>
    av_packets env vr ps = Some (vr\<lparr>vr_frame_processor := fp\<rparr>)"
  using assms(3,4)
proof (induction ps rule: rev_induct)
  case (snoc p ps)
  let ?fp = "vr_frame_processor vr"
  have "card (unit_indices ps) \<le> card (unit_indices (ps @ [p]))" by (rule card_mono) auto
  then obtain fp where fp: "put_units ?fp ps = Some fp" "av_packets env vr ps = Some (vr\<lparr>vr_frame_processor := fp\<rparr>)"
    using snoc by auto
  have ok: "\<forall>q \<in> set (ps @ [p]). packet_ok ?fp q" "\<forall>q \<in> set (ps @ [p]). packet_data q = unit_sent orig k (unat (unit_index q))"
    using snoc.prems(1) by (simp_all add: unit_packet_def)
  have idx: "\<forall>q \<in> set (ps @ [p]). unat (unit_index q) < n"
    using ok(1) assms(2) by (simp add: packet_ok_def fp_rep_def)
  obtain fp' where fp': "put_units ?fp (ps @ [p]) = Some fp'" "fp_rep fp' (units_after (replicate n None) (ps @ [p]))"
      "units_source_expected fp' = units_source_expected ?fp"
    using put_units_rep [OF assms(2) ok(1)] by blast
  then obtain e where e: "chiaki_frame_processor_put_unit fp p = Some (fp', e)"
    using fp(1) by (auto simp: put_units_append bind_eq_Some_conv)
  have "\<not> chiaki_frame_processor_flush_possible fp'"
    using flush_possible_rep [OF fp'(2)] units_after_counts [OF idx ok(2)] fp'(3) snoc.prems(2) by simp
  then have "put_and_flush env (vr\<lparr>vr_frame_processor := fp\<rparr>) p = Some (vr\<lparr>vr_frame_processor := fp'\<rparr>)"
    using put_early [of "vr\<lparr>vr_frame_processor := fp\<rparr>" f p fp' e env] assms(1) e snoc.prems(1)
    by (simp add: waiting_def)
  moreover have "chiaki_video_receiver_av_packet env (vr\<lparr>vr_frame_processor := fp\<rparr>) p =
      put_and_flush env (vr\<lparr>vr_frame_processor := fp\<rparr>) p"
    by (rule av_packet_waiting [where f = f]) (use assms(1) snoc.prems(1) in \<open>simp_all add: waiting_def of_frame_def\<close>)
  ultimately show ?case using fp(2) fp'(1) by (simp add: av_packets_append)
qed simp

lemma check_reference_cong:
  assumes "vr_bitstream vr' = vr_bitstream vr" "reference_frames vr' = reference_frames vr"
    "frame_index_cur vr' = frame_index_cur vr"
  shows "check_reference env vr' frame = check_reference env vr frame"
proof -
  have r: "have_ref_frame vr' x = have_ref_frame vr x" "ref_index vr' i = ref_index vr i" for x i
    using assms by (simp_all add: have_ref_frame_def ref_index_def)
  then have "change_reference env vr' sl frame = change_reference env vr sl frame" for sl frame
    using assms by (simp add: change_reference_def cong: option.case_cong)
  then show ?thesis using r assms by (simp add: check_reference_def cong: if_cong)
qed

lemma flush_frame_delivers:
  assumes "chiaki_frame_processor_flush (ve_dec env) (ve_alloc_erasures env) (ve_alloc_fec env) (vr_frame_processor vr) =
      Some (fp, r, frame)" "r \<noteq> CHIAKI_FRAME_PROCESSOR_FLUSH_RESULT_FEC_FAILED"
      "r \<noteq> CHIAKI_FRAME_PROCESSOR_FLUSH_RESULT_FAILED"
    and "check_reference env vr frame = Some (True, rec, frame)" "ve_video_sample_cb env = Some g"
  shows "\<exists>vr'. chiaki_video_receiver_flush_frame env vr = Some (vr', CHIAKI_ERR_SUCCESS) \<and>
    vr_events vr' = VideoSample (frame_index_cur vr) frame (frames_lost vr) rec # vr_events vr \<and>
    frame_index_prev vr' = frame_index_cur vr \<and> frame_index_cur vr' = frame_index_cur vr \<and>
    (g frame \<longrightarrow> frame_index_prev_complete vr' = frame_index_cur vr \<and>
       reference_frames vr' = reference_frames (add_ref_frame vr (frame_index_cur vr)))"
proof -
  obtain b b' where b: "frame_buf fp = Some b" "wr b 0 frame = Some b'" using flush_within_buffer [OF assms(1,3)] by blast
  have c: "check_reference env (vr\<lparr>vr_frame_processor := fp\<rparr>) frame = Some (True, rec, frame)"
    using check_reference_cong [of "vr\<lparr>vr_frame_processor := fp\<rparr>" vr] assms(4) by simp
  show ?thesis
    using assms(1-3,5) b c
    by (simp add: chiaki_video_receiver_flush_frame_def deliver_frame_def Let_def vr_event_def add_ref_frame_def
        split: option.split)
qed


text \<open>The first packet of a frame, after the frame before it was flushed.\<close>

definition next_frame_is :: "video_receiver \<Rightarrow> u16 \<Rightarrow> bool" where
  "next_frame_is vr f \<longleftrightarrow> frame_index_prev vr = frame_index_cur vr \<and>
     (frame_index_cur vr < 0 \<or> chiaki_seq_num_16_gt f (of_int (frame_index_cur vr)))"

lemma report_missing_fields:
  "vr_frame_processor (report_missing vr f) = vr_frame_processor vr" "profile_cur (report_missing vr f) = profile_cur vr"
  "frame_index_prev (report_missing vr f) = frame_index_prev vr" "frames_lost (report_missing vr f) = frames_lost vr"
  "reference_frames (report_missing vr f) = reference_frames vr" "vr_bitstream (report_missing vr f) = vr_bitstream vr"
  "accepted cb (vr_events (report_missing vr f)) = accepted cb (vr_events vr)"
  by (simp_all add: report_missing_def Let_def vr_event_def)

lemma start_frame_opens:
  assumes "next_frame_is vr f" "of_frame vr f p"
    "chiaki_frame_processor_alloc_frame (ve_alloc_slots env) (ve_malloc_buf env) (vr_frame_processor vr) p =
       Some (fp, CHIAKI_ERR_SUCCESS)"
  obtains vr1 where "chiaki_video_receiver_av_packet env vr p = put_and_flush env vr1 p" "waiting vr1 f"
    "vr_frame_processor vr1 = fp" "profile_cur vr1 = profile_cur vr" "frames_lost vr1 = frames_lost vr"
    "reference_frames vr1 = reference_frames vr" "vr_bitstream vr1 = vr_bitstream vr"
proof -
  let ?vr = "vr\<lparr>vr_packet_stats := map_option (chiaki_frame_processor_report_packet_stats (vr_frame_processor vr))
    (vr_packet_stats vr)\<rparr>"
  let ?vr1 = "report_missing ?vr f\<lparr>frame_index_cur := uint f, vr_frame_processor := fp\<rparr>"
  have "frame_index_cur vr \<noteq> uint f"
    using assms(1) seq_num_gt_dist [of f f] uint_ge_0 [of f] by (auto simp: next_frame_is_def)
  then have "waiting ?vr1 f" using assms(1) by (simp add: waiting_def next_frame_is_def report_missing_fields)
  moreover have "start_frame env vr p = Some ?vr1"
    using assms by (simp add: start_frame_def flush_pending_def next_frame_is_def open_frame_def of_frame_def Let_def
        report_missing_fields)
  then have "chiaki_video_receiver_av_packet env vr p = put_and_flush env ?vr1 p"
    using assms(1,2) seq_num_lt_asym [of f "of_int (frame_index_cur vr)"]
    by (auto simp: chiaki_video_receiver_av_packet_def Let_def switch_profile_def of_frame_def next_frame_is_def seq_num_gt_lt)
  ultimately show ?thesis using that [of ?vr1] by (simp add: report_missing_fields)
qed

lemma av_packets_start:
  assumes "next_frame_is vr f" "of_frame vr f (hd ps)" "ps \<noteq> []"
    "chiaki_frame_processor_alloc_frame (ve_alloc_slots env) (ve_malloc_buf env) (vr_frame_processor vr) (hd ps) =
       Some (fp, CHIAKI_ERR_SUCCESS)"
  obtains vr1 where "av_packets env vr ps = av_packets env vr1 ps" "waiting vr1 f"
    "vr_frame_processor vr1 = fp" "profile_cur vr1 = profile_cur vr" "frames_lost vr1 = frames_lost vr"
    "reference_frames vr1 = reference_frames vr" "vr_bitstream vr1 = vr_bitstream vr"
proof -
  obtain q qs where ps: "ps = q # qs" using assms(3) by (cases ps) auto
  have q: "of_frame vr f q" "chiaki_frame_processor_alloc_frame (ve_alloc_slots env) (ve_malloc_buf env)
      (vr_frame_processor vr) q = Some (fp, CHIAKI_ERR_SUCCESS)"
    using assms(2,4) ps by simp_all
  obtain vr1 where v: "chiaki_video_receiver_av_packet env vr q = put_and_flush env vr1 q" "waiting vr1 f"
    "vr_frame_processor vr1 = fp" "profile_cur vr1 = profile_cur vr" "frames_lost vr1 = frames_lost vr"
    "reference_frames vr1 = reference_frames vr" "vr_bitstream vr1 = vr_bitstream vr"
    using start_frame_opens [OF assms(1) q] by blast
  have "chiaki_video_receiver_av_packet env vr1 q = put_and_flush env vr1 q"
    using av_packet_waiting [OF v(2)] q(1) v(4) by (simp add: of_frame_def)
  then show ?thesis using that [of vr1] v ps by simp
qed

section \<open>A frame is delivered\<close>

lemma flush_frame_references:
  assumes "chiaki_frame_processor_flush (ve_dec env) (ve_alloc_erasures env) (ve_alloc_fec env) (vr_frame_processor vr) =
      Some (fp, r, frame)" "r \<noteq> CHIAKI_FRAME_PROCESSOR_FLUSH_RESULT_FEC_FAILED"
      "r \<noteq> CHIAKI_FRAME_PROCESSOR_FLUSH_RESULT_FAILED"
    and "check_reference env vr frame = Some (True, rec, frame)" "ve_video_sample_cb env = Some g" "g frame"
    and "frame_index_cur vr = uint f" "reference_frames vr = ref_slots h" "\<forall>i \<in> set h. 0 \<le> i"
  shows "\<exists>vr'. chiaki_video_receiver_flush_frame env vr = Some (vr', CHIAKI_ERR_SUCCESS) \<and>
    hd (vr_events vr') = VideoSample (uint f) frame (frames_lost vr) rec \<and>
    frame_index_prev_complete vr' = uint f \<and> next_frame_is vr' (f + 1) \<and> have_ref_frame vr' f"
proof -
  obtain vr' where vr': "chiaki_video_receiver_flush_frame env vr = Some (vr', CHIAKI_ERR_SUCCESS)"
      "vr_events vr' = VideoSample (uint f) frame (frames_lost vr) rec # vr_events vr"
      "frame_index_prev vr' = uint f" "frame_index_cur vr' = uint f" "frame_index_prev_complete vr' = uint f"
      "reference_frames vr' = reference_frames (add_ref_frame vr (uint f))"
    using flush_frame_delivers [OF assms(1-5)] assms(6,7) by auto
  have "reference_frames vr' = ref_slots (uint f # h)"
    using vr'(6) add_ref_frame_slots [OF assms(8,9)] by simp
  then have "have_ref_frame vr' f" using have_ref_frame_slots by simp
  moreover have "next_frame_is vr' (f + 1)"
    using vr'(3,4) by (simp add: next_frame_is_def seq_num_gt_dist seq_dist_def)
  ultimately show ?thesis using vr'(1,2,5) by simp
qed

text \<open>
  C4: When packets of a new frame arrive, with some units missing or repeated and in any order but
  one, and as many different units arrive as the frame has source units, the packet with the last of
  them delivers the frame: the callback is called with the payloads of all source units in their
  order. When the callback takes the frame, it is the last complete frame and a reference for the
  frames after it. The exception to the order is the unit with the last index of all: the receiver
  flushes the frame when it arrives, complete or not, so here it comes at the end or not at all. It is
  also assumed that the buffers could be allocated, that the erasure code meets its contract, and that
  the frame refers to a frame that the decoder has.
\<close>

theorem video_frame_delivered:
  assumes "vr_inv (Some g) vr" "ve_video_sample_cb env = Some g" "next_frame_is vr f"
    and "chiaki_frame_processor_alloc_frame (ve_alloc_slots env) (ve_malloc_buf env) (vr_frame_processor vr) (hd (ps @ [p])) =
      Some (fp, CHIAKI_ERR_SUCCESS)"
    and "unat (units_source_expected fp) = k" "unat (units_fec_expected fp) = m" "buf_size_per_unit fp = N" "2 \<le> N" "0 < k"
    and "\<forall>q \<in> set (ps @ [p]). of_frame vr f q \<and> unit_packet fp orig k q"
    and "\<forall>q \<in> set ps. int (unat (unit_index q)) \<noteq> int (unat (units_in_frame_total q)) - 1"
    and "length orig = k + m" "\<forall>i < k. fec_unit N (orig ! i)" "\<forall>i < k + m. length (orig ! i) = N"
    and "fec_contract (ve_dec env) k m orig" "ve_alloc_erasures env" "ve_alloc_fec env"
    and "card (unit_indices ps) < k" "k \<le> card (unit_indices (ps @ [p]))"
    and "frame = concat (map (\<lambda>v. drop 2 (unit_data v)) (take k orig))"
    and "check_reference env (vr\<lparr>frame_index_cur := uint f\<rparr>) frame = Some (True, False, frame)" "g frame"
  shows "\<exists>vr'. av_packets env vr (ps @ [p]) = Some vr' \<and>
    hd (vr_events vr') = VideoSample (uint f) frame (frames_lost vr) False \<and>
    frame_index_prev_complete vr' = uint f \<and> next_frame_is vr' (f + 1) \<and> have_ref_frame vr' f"
proof -
  let ?empty = "replicate (k + m) None :: bytes option list"
  have h: "of_frame vr f (hd (ps @ [p]))" "ps @ [p] \<noteq> []" using assms(10) hd_in_set [of "ps @ [p]"] by blast+
  obtain vr1 where v: "av_packets env vr (ps @ [p]) = av_packets env vr1 (ps @ [p])" "waiting vr1 f"
    "vr_frame_processor vr1 = fp" "profile_cur vr1 = profile_cur vr" "frames_lost vr1 = frames_lost vr"
    "reference_frames vr1 = reference_frames vr" "vr_bitstream vr1 = vr_bitstream vr"
    using av_packets_start [OF assms(3) h assms(4)] by blast
  have rep0: "fp_rep (vr_frame_processor vr1) ?empty" using alloc_frame_rep [OF assms(4)] unfolding v(3) assms(5,6) by blast
  have ok: "\<forall>q \<in> set (ps @ [p]). packet_ok fp q" "\<forall>q \<in> set (ps @ [p]). packet_data q = unit_sent orig k (unat (unit_index q))"
    using assms(10) by (simp_all add: unit_packet_def)
  have idx: "\<forall>q \<in> set (ps @ [p]). unat (unit_index q) < k + m"
    using ok(1) rep0 v(3) by (simp add: packet_ok_def fp_rep_def)
  obtain fp1 where fp1: "put_units fp ps = Some fp1" "av_packets env vr1 ps = Some (vr1\<lparr>vr_frame_processor := fp1\<rparr>)"
    using packets_before [OF v(2) rep0, of ps orig k env] v(3,4) assms(5,10,11,18) by (auto simp: of_frame_def)
  obtain fp2 where fp2: "put_units fp (ps @ [p]) = Some fp2" "fp_rep fp2 (units_after ?empty (ps @ [p]))"
      "units_source_expected fp2 = units_source_expected fp" "units_fec_expected fp2 = units_fec_expected fp"
      "buf_size_per_unit fp2 = buf_size_per_unit fp"
    using put_units_rep [OF rep0, of "ps @ [p]"] ok(1) v(3) by auto
  obtain e where put: "chiaki_frame_processor_put_unit fp1 p = Some (fp2, e)"
    using fp1(1) fp2(1) by (auto simp: put_units_append bind_eq_Some_conv)
  have possible: "chiaki_frame_processor_flush_possible fp2"
    using flush_possible_rep [OF fp2(2)] units_after_counts [OF idx ok(2)] fp2(3) assms(5,19) by simp
  have us: "\<forall>i < k + m. units_after ?empty (ps @ [p]) ! i =
      (if i \<in> unit_indices (ps @ [p]) then Some (unit_sent orig k i) else None)"
    using units_after_empty [OF idx ok(2)] by blast
  have "unit_indices (ps @ [p]) \<subseteq> {..<k + m}" using idx by auto
  then obtain fp3 r where fl: "chiaki_frame_processor_flush (ve_dec env) True True fp2 = Some (fp3, r, frame)"
      "r \<noteq> CHIAKI_FRAME_PROCESSOR_FLUSH_RESULT_FEC_FAILED" "r \<noteq> CHIAKI_FRAME_PROCESSOR_FLUSH_RESULT_FAILED"
    using flush_complete [OF fp2(2) _ _ _ assms(8,9,12-14) us _ assms(19,15)] fp2(3-5) assms(5-7,20) by auto
  let ?vr2 = "vr1\<lparr>vr_frame_processor := fp2\<rparr>"
  have cur: "frame_index_cur vr1 = uint f" "frame_index_prev vr1 \<noteq> uint f" using v(2) by (simp_all add: waiting_def)
  have "check_reference env ?vr2 frame = Some (True, False, frame)"
    using check_reference_cong [of ?vr2 "vr\<lparr>frame_index_cur := uint f\<rparr>"] v(6,7) cur assms(21) by simp
  then obtain vr' where vr': "chiaki_video_receiver_flush_frame env ?vr2 = Some (vr', CHIAKI_ERR_SUCCESS)"
      "hd (vr_events vr') = VideoSample (uint f) frame (frames_lost vr) False \<and>
       frame_index_prev_complete vr' = uint f \<and> next_frame_is vr' (f + 1) \<and> have_ref_frame vr' f"
    using flush_frame_references [of env ?vr2 fp3 r frame False g f "accepted (Some g) (vr_events vr)"]
      fl assms(1,2,16,17,22) v(5,6) cur by (auto simp: vr_inv_def)
  have "chiaki_video_receiver_av_packet env (vr1\<lparr>vr_frame_processor := fp1\<rparr>) p = Some vr'"
    using av_packet_waiting [of "vr1\<lparr>vr_frame_processor := fp1\<rparr>" f p env] v(2,4) assms(10) put possible vr'(1) cur
    by (simp add: waiting_def of_frame_def put_and_flush_def Let_def)
  then show ?thesis using v(1) fp1(2) vr'(2) by (simp add: av_packets_append)
qed


text \<open>The second of two source units is lost and restored from the parity unit.\<close>

definition sample_frame_packet :: "u16 \<Rightarrow> bytes \<Rightarrow> av_packet" where
  "sample_frame_packet i d = av_packet_zero\<lparr>is_video := True, av_frame_index := 2, unit_index := i,
     units_in_frame_total := 3, units_in_frame_fec := 1, av_data := d, av_data_size := of_nat (length d)\<rparr>"

definition delimiter_orig :: "bytes list" where
  "delimiter_orig = [[0, 0, 0, 0, 0, 1, 9], [0, 2, 16, 0, 0, 0, 0], [0, 2, 16, 0, 0, 1, 9]]"

definition delimiter_fp :: frame_processor where
  "delimiter_fp = fst (the (chiaki_frame_processor_alloc_frame True (\<lambda>n. Some (replicate n 0xff))
     chiaki_frame_processor_init (sample_frame_packet 0 [0, 0, 0, 0, 0, 1, 9])))"

definition delimiter_receiver :: video_receiver where
  "delimiter_receiver = sample_receiver\<lparr>profile_cur := 0\<rparr>"

definition delimiter_env :: video_env where
  "delimiter_env = sample_video_env\<lparr>ve_dec := xor_dec\<rparr>"

lemma delimiter_fp_alloc:
  "chiaki_frame_processor_alloc_frame True (\<lambda>n. Some (replicate n 0xff)) chiaki_frame_processor_init
     (sample_frame_packet 0 [0, 0, 0, 0, 0, 1, 9]) = Some (delimiter_fp, CHIAKI_ERR_SUCCESS)"
  by code_simp

lemma delimiter_fp_fields:
  "unat (units_source_expected delimiter_fp) = 2" "unat (units_fec_expected delimiter_fp) = 1"
  "buf_size_per_unit delimiter_fp = 7" "unit_slots_size delimiter_fp = 3"
  by code_simp+


lemma delimiter_contract: "fec_contract xor_dec 2 1 delimiter_orig"
  unfolding delimiter_orig_def by (rule xor_dec_parity) simp_all

lemma delimiter_check:
  "check_reference delimiter_env (delimiter_receiver\<lparr>frame_index_cur := 2\<rparr>) [0, 0, 0, 1, 9, 16, 0, 0] =
     Some (True, False, [0, 0, 0, 1, 9, 16, 0, 0])"
proof -
  have "chiaki_bitstream_slice 0 sample_bitstream [0, 0, 0, 1, 9, 16, 0, 0] 8 sample_slice = Some (False, sample_slice)"
    by (subst delimiter_passed) (simp_all add: sample_bitstream_def)
  then show ?thesis
    by (simp add: check_reference_def delimiter_env_def sample_video_env_def delimiter_receiver_def sample_receiver_def
        chiaki_video_receiver_stream_info_def chiaki_video_receiver_init_def chiaki_bitstream_init_def sample_bitstream_def)
qed

theorem video_frame_delivered_witness:
  "\<exists>vr'. av_packets delimiter_env delimiter_receiver
      [sample_frame_packet 0 [0, 0, 0, 0, 0, 1, 9], sample_frame_packet 2 [0, 2, 16, 0, 0, 1, 9]] = Some vr' \<and>
    hd (vr_events vr') = VideoSample 2 [0, 0, 0, 1, 9, 16, 0, 0] 0 False \<and> have_ref_frame vr' 2"
proof -
  let ?p = "sample_frame_packet 0 [0, 0, 0, 0, 0, 1, 9]" and ?q = "sample_frame_packet 2 [0, 2, 16, 0, 0, 1, 9]"
  note receiver = delimiter_receiver_def sample_receiver_def chiaki_video_receiver_stream_info_def chiaki_video_receiver_init_def
  have inv: "vr_inv (Some (\<lambda>f. True)) delimiter_receiver"
    by (simp add: vr_inv_def receiver ref_slots_def)
  have next_frame: "next_frame_is delimiter_receiver 2" by (simp add: next_frame_is_def receiver)
  have packets: "\<forall>q \<in> set ([?p] @ [?q]). of_frame delimiter_receiver 2 q \<and> unit_packet delimiter_fp delimiter_orig 2 q"
    by (simp add: of_frame_def receiver unit_packet_def packet_ok_def packet_data_def delimiter_fp_fields
        sample_frame_packet_def delimiter_orig_def unit_sent_def unit_data_def unit_padding_def join16_def av_packet_zero_def)
  have "fec_unit 7 (delimiter_orig ! 0)" "fec_unit 7 (delimiter_orig ! 1)" by code_simp+
  then have units: "\<forall>i < 2. fec_unit 7 (delimiter_orig ! i)" by (auto simp: less_2_cases_iff)
  have len: "length delimiter_orig = 2 + 1" "\<forall>i < 2 + 1. length (delimiter_orig ! i) = 7"
    by (auto simp: less_Suc_eq numeral_3_eq_3 delimiter_orig_def)
  have frame: "[0, 0, 0, 1, 9, 16, 0, 0] = concat (map (\<lambda>v. drop 2 (unit_data v)) (take 2 delimiter_orig))"
    by (simp add: delimiter_orig_def unit_data_def unit_padding_def join16_def)
  have idx: "unit_indices [?p] = {0}" "unit_indices ([?p] @ [?q]) = {0, 2}" by (simp_all add: sample_frame_packet_def)
  have env: "ve_dec delimiter_env = xor_dec" "ve_alloc_slots delimiter_env" "ve_alloc_erasures delimiter_env"
    "ve_alloc_fec delimiter_env" "ve_malloc_buf delimiter_env = (\<lambda>n. Some (replicate n 0xff))"
    "ve_video_sample_cb delimiter_env = Some (\<lambda>f. True)"
    by (simp_all add: delimiter_env_def sample_video_env_def)
  have alloc: "chiaki_frame_processor_alloc_frame (ve_alloc_slots delimiter_env) (ve_malloc_buf delimiter_env)
      (vr_frame_processor delimiter_receiver) (hd ([?p] @ [?q])) = Some (delimiter_fp, CHIAKI_ERR_SUCCESS)"
    using delimiter_fp_alloc env by (simp add: receiver)
  have early: "\<forall>q \<in> set [?p]. int (unat (unit_index q)) \<noteq> int (unat (units_in_frame_total q)) - 1"
    by (simp add: sample_frame_packet_def)
  have "frames_lost delimiter_receiver = 0" by (simp add: receiver)
  then show ?thesis
    using video_frame_delivered [OF inv env(6) next_frame alloc delimiter_fp_fields(1-3) _ _ packets early len(1) units len(2) _ _ _ _ _ frame]
      delimiter_contract delimiter_check env idx by auto
qed

end
