(* ===== verification/RPCrypt.thy ===== *)
theory RPCrypt
  imports RPCrypt_Tables Utils
begin

text \<open>
  The encryption of the control connection (\<^verbatim>\<open>lib/src/rpcrypt.c\<close>, in its build with OpenSSL). Both
  ends derive a key \<open>bright\<close> and a seed \<open>ambassador\<close> from a nonce and a secret, \<open>morning\<close>; every
  message is encrypted with AES in the CFB mode under an initialisation vector that is an HMAC of the
  seed and a counter. \<open>None\<close> stands for an access outside of an array or a failed assertion.
\<close>

section \<open>Targets\<close>

datatype ChiakiTarget =
    CHIAKI_TARGET_PS4_UNKNOWN
  | CHIAKI_TARGET_PS4_8
  | CHIAKI_TARGET_PS4_9
  | CHIAKI_TARGET_PS4_10
  | CHIAKI_TARGET_PS5_UNKNOWN
  | CHIAKI_TARGET_PS5_1

fun target_value :: "ChiakiTarget \<Rightarrow> int" where
  "target_value CHIAKI_TARGET_PS4_UNKNOWN = 0"
| "target_value CHIAKI_TARGET_PS4_8 = 800"
| "target_value CHIAKI_TARGET_PS4_9 = 900"
| "target_value CHIAKI_TARGET_PS4_10 = 1000"
| "target_value CHIAKI_TARGET_PS5_UNKNOWN = 1000000"
| "target_value CHIAKI_TARGET_PS5_1 = 1000100"

text \<open>The targets are compared by their values.\<close>

definition target_lt :: "ChiakiTarget \<Rightarrow> ChiakiTarget \<Rightarrow> bool" where
  "target_lt a b \<longleftrightarrow> target_value a < target_value b"

definition chiaki_target_is_unknown :: "ChiakiTarget \<Rightarrow> bool" where
  "chiaki_target_is_unknown target \<longleftrightarrow> target = CHIAKI_TARGET_PS5_UNKNOWN \<or> target = CHIAKI_TARGET_PS4_UNKNOWN"

definition chiaki_target_is_ps5 :: "ChiakiTarget \<Rightarrow> bool" where
  "chiaki_target_is_ps5 target \<longleftrightarrow> \<not> target_lt target CHIAKI_TARGET_PS5_UNKNOWN"

section \<open>Key and seed\<close>

definition CHIAKI_RPCRYPT_KEY_SIZE :: nat where
  "CHIAKI_RPCRYPT_KEY_SIZE = 0x10"

text \<open>A loop that computes the bytes of a key one by one.\<close>

fun key_loop :: "(nat \<Rightarrow> u8 option) \<Rightarrow> nat \<Rightarrow> nat \<Rightarrow> bytes option" where
  "key_loop f i 0 = Some []"
| "key_loop f i (Suc n) = do { x \<leftarrow> f i; xs \<leftarrow> key_loop f (i + 1) n; Some (x # xs) }"

abbreviation key_bytes :: "(nat \<Rightarrow> u8 option) \<Rightarrow> bytes option" where
  "key_bytes f \<equiv> key_loop f 0 CHIAKI_RPCRYPT_KEY_SIZE"

record rpcrypt =
  rc_target :: ChiakiTarget
  rc_bright :: bytes
  rc_ambassador :: bytes

text \<open>The results are the key and the seed.\<close>

definition bright_ambassador_ps4_pre10 :: "bytes \<Rightarrow> bytes \<Rightarrow> (bytes \<times> bytes) option" where
  "bright_ambassador_ps4_pre10 nonce morning = do {
     ambassador \<leftarrow> key_bytes (\<lambda>i. do {
       v \<leftarrow> rd8 nonce i;
       a \<leftarrow> rd8 echo_a i;
       Some ((v - of_nat i - 0x27) XOR a)
     });
     bright \<leftarrow> key_bytes (\<lambda>i. do {
       v \<leftarrow> rd8 morning i;
       b \<leftarrow> rd8 echo_b i;
       n \<leftarrow> rd8 nonce i;
       Some ((v - of_nat i + 0x34) XOR b XOR n)
     });
     Some (bright, ambassador)
   }"

definition bright_ambassador :: "ChiakiTarget \<Rightarrow> bytes \<Rightarrow> bytes \<Rightarrow> (ChiakiErrorCode + bytes \<times> bytes) option" where
  "bright_ambassador target nonce morning =
     (if target_lt target CHIAKI_TARGET_PS4_10 then Some (Inl CHIAKI_ERR_INVALID_DATA)
      else
        let ps5 = chiaki_target_is_ps5 target;
            keys_a = (if ps5 then keys_a_ps5 else keys_a_ps4);
            keys_b = (if ps5 then keys_b_ps5 else keys_b_ps4)
        in do {
          n0 \<leftarrow> rd8 nonce 0;
          let key = unat (drop_bit 3 n0) * 0x70;
          ambassador \<leftarrow> key_bytes (\<lambda>i. do {
            v \<leftarrow> rd8 nonce i;
            k \<leftarrow> rd8 keys_a (key + i);
            Some ((if ps5 then v - 0x2d - of_nat i else v + 0x36 + of_nat i) XOR k)
          });
          n7 \<leftarrow> rd8 nonce 7;
          let key = unat (drop_bit 3 n7) * 0x70;
          bright \<leftarrow> key_bytes (\<lambda>i. do {
            v \<leftarrow> rd8 morning i;
            n \<leftarrow> rd8 nonce i;
            k \<leftarrow> rd8 keys_b (key + i);
            Some (if ps5 then (v + 0x18 + of_nat i) XOR n XOR k else ((k XOR v) + 0x21 + of_nat i) XOR n)
          });
          Some (Inr (bright, ambassador))
        })"

text \<open>The assertion that no error comes back.\<close>

definition chiaki_rpcrypt_bright_ambassador :: "ChiakiTarget \<Rightarrow> bytes \<Rightarrow> bytes \<Rightarrow> (bytes \<times> bytes) option" where
  "chiaki_rpcrypt_bright_ambassador target nonce morning =
     (if target = CHIAKI_TARGET_PS4_8 \<or> target = CHIAKI_TARGET_PS4_9 then bright_ambassador_ps4_pre10 nonce morning
      else (case bright_ambassador target nonce morning of Some (Inr r) \<Rightarrow> Some r | _ \<Rightarrow> None))"

section \<open>The seed in the request of the registration\<close>

definition chiaki_rpcrypt_aeropause_ps4_pre10 :: "bytes \<Rightarrow> bytes option" where
  "chiaki_rpcrypt_aeropause_ps4_pre10 ambassador = key_bytes (\<lambda>i. do {
     v \<leftarrow> rd8 ambassador i;
     b \<leftarrow> rd8 echo_b i;
     Some ((v - of_nat i - 0x29) XOR b)
   })"

definition keys_1_of :: "ChiakiTarget \<Rightarrow> bytes" where
  "keys_1_of target = (if chiaki_target_is_ps5 target then ps5_keys_1 else ps4_keys_1)"

definition keys_0_of :: "ChiakiTarget \<Rightarrow> bytes" where
  "keys_0_of target = (if chiaki_target_is_ps5 target then ps5_keys_0 else ps4_keys_0)"

definition chiaki_rpcrypt_aeropause :: "ChiakiTarget \<Rightarrow> nat \<Rightarrow> bytes \<Rightarrow> (ChiakiErrorCode + bytes) option" where
  "chiaki_rpcrypt_aeropause target key_1_off ambassador =
     (if target_lt target CHIAKI_TARGET_PS4_10 then Some (Inl CHIAKI_ERR_INVALID_DATA)
      else
        let wurzelbert = (if chiaki_target_is_ps5 target then - 0x2d else 0x29)
        in map_option Inr (key_bytes (\<lambda>i. do {
          k \<leftarrow> rd8 (keys_1_of target) (i * 0x20 + key_1_off);
          a \<leftarrow> rd8 ambassador i;
          Some ((a XOR k) + wurzelbert + of_nat i)
        })))"

definition chiaki_rpcrypt_aeropause_psn :: "ChiakiTarget \<Rightarrow> nat \<Rightarrow> bytes \<Rightarrow> (ChiakiErrorCode + bytes) option" where
  "chiaki_rpcrypt_aeropause_psn target key_1_off ambassador =
     (if target_lt target CHIAKI_TARGET_PS4_10 then Some (Inl CHIAKI_ERR_INVALID_DATA)
      else
        let wurzelbert = (if chiaki_target_is_ps5 target then 0x2b else - 0x29)
        in map_option Inr (key_bytes (\<lambda>i. do {
          k \<leftarrow> rd8 (keys_1_of target) (i * 0x20 + key_1_off);
          a \<leftarrow> rd8 ambassador i;
          Some ((a - of_nat i + wurzelbert) XOR k)
        })))"

definition chiaki_rpcrypt_ambassador_from_aeropause ::
  "ChiakiTarget \<Rightarrow> nat \<Rightarrow> bytes \<Rightarrow> (ChiakiErrorCode + bytes) option" where
  "chiaki_rpcrypt_ambassador_from_aeropause target key_1_off aeropause =
     (if target_lt target CHIAKI_TARGET_PS4_10 then Some (Inl CHIAKI_ERR_INVALID_DATA)
      else
        let wurzelbert = (if chiaki_target_is_ps5 target then 0x2b else - 0x29)
        in map_option Inr (key_bytes (\<lambda>i. do {
          k \<leftarrow> rd8 (keys_1_of target) (i * 0x20 + key_1_off);
          a \<leftarrow> rd8 aeropause i;
          Some ((a XOR k) + of_nat i - wurzelbert)
        })))"

section \<open>Encryption\<close>

text \<open>
  The calls into OpenSSL: \<open>hmac_sha256\<close> of a key and a message, \<open>cipher_ctx\<close>: a context could be
  allocated, and \<open>cfb128 encrypt key iv\<close>, the bytes that the update of a context returns, \<open>None\<close> when
  one of the calls fails.
\<close>

record rpcrypt_platform =
  hmac_sha256 :: "bytes \<Rightarrow> bytes \<Rightarrow> bytes option"
  cipher_ctx :: bool
  cfb128 :: "bool \<Rightarrow> bytes \<Rightarrow> bytes \<Rightarrow> bytes \<Rightarrow> bytes option"

definition rpcrypt_hmac_key :: "rpcrypt \<Rightarrow> bytes" where
  "rpcrypt_hmac_key rc =
     (if rc_target rc = CHIAKI_TARGET_PS5_1 then hmac_key_ps5
      else if rc_target rc = CHIAKI_TARGET_PS4_8 \<or> rc_target rc = CHIAKI_TARGET_PS4_9 then hmac_key_ps4_pre10
      else hmac_key_ps4)"

text \<open>The counter as it is appended to the seed.\<close>

definition counter_bytes :: "u64 \<Rightarrow> bytes" where
  "counter_bytes counter =
     [ucast (drop_bit 0x38 counter AND 0xff), ucast (drop_bit 0x30 counter AND 0xff),
      ucast (drop_bit 0x28 counter AND 0xff), ucast (drop_bit 0x20 counter AND 0xff),
      ucast (drop_bit 0x18 counter AND 0xff), ucast (drop_bit 0x10 counter AND 0xff),
      ucast (drop_bit 0x08 counter AND 0xff), ucast (counter AND 0xff)]"

definition chiaki_rpcrypt_generate_iv :: "rpcrypt_platform \<Rightarrow> rpcrypt \<Rightarrow> u64 \<Rightarrow> ChiakiErrorCode + bytes" where
  "chiaki_rpcrypt_generate_iv pf rc counter =
     (case hmac_sha256 pf (rpcrypt_hmac_key rc) (rc_ambassador rc @ counter_bytes counter) of
        None \<Rightarrow> Inl CHIAKI_ERR_UNKNOWN
      | Some hmac \<Rightarrow>
          if length hmac < CHIAKI_RPCRYPT_KEY_SIZE then Inl CHIAKI_ERR_UNKNOWN
          else Inr (take CHIAKI_RPCRYPT_KEY_SIZE hmac))"

text \<open>
  The size as it is passed on, cast to \<^verbatim>\<open>int\<close>. The update of a context refuses a negative one with an
  error, whatever the other arguments.
\<close>

definition crypt_size :: "nat \<Rightarrow> int" where
  "crypt_size sz = sint (of_nat sz :: 32 word)"

text \<open>The result are the bytes that are written; the sizes are compared as \<^verbatim>\<open>int\<close>.\<close>

definition chiaki_rpcrypt_crypt ::
  "rpcrypt_platform \<Rightarrow> rpcrypt \<Rightarrow> u64 \<Rightarrow> bytes \<Rightarrow> bool \<Rightarrow> ChiakiErrorCode + bytes" where
  "chiaki_rpcrypt_crypt pf rc counter inp encrypt =
     (if \<not> cipher_ctx pf then Inl CHIAKI_ERR_UNKNOWN
      else
        (case chiaki_rpcrypt_generate_iv pf rc counter of
           Inl err \<Rightarrow> Inl err
         | Inr iv \<Rightarrow>
             let sz = crypt_size (length inp)
             in if sz < 0 then Inl CHIAKI_ERR_UNKNOWN
                else
                  (case cfb128 pf encrypt (rc_bright rc) iv (take (nat sz) inp) of
                     None \<Rightarrow> Inl CHIAKI_ERR_UNKNOWN
                   | Some out \<Rightarrow> if int (length out) \<noteq> sz then Inl CHIAKI_ERR_UNKNOWN else Inr out)))"

definition chiaki_rpcrypt_encrypt :: "rpcrypt_platform \<Rightarrow> rpcrypt \<Rightarrow> u64 \<Rightarrow> bytes \<Rightarrow> ChiakiErrorCode + bytes" where
  "chiaki_rpcrypt_encrypt pf rc counter inp = chiaki_rpcrypt_crypt pf rc counter inp True"

definition chiaki_rpcrypt_decrypt :: "rpcrypt_platform \<Rightarrow> rpcrypt \<Rightarrow> u64 \<Rightarrow> bytes \<Rightarrow> ChiakiErrorCode + bytes" where
  "chiaki_rpcrypt_decrypt pf rc counter inp = chiaki_rpcrypt_crypt pf rc counter inp False"

section \<open>Initialisation\<close>

definition chiaki_rpcrypt_init_auth :: "ChiakiTarget \<Rightarrow> bytes \<Rightarrow> bytes \<Rightarrow> rpcrypt option" where
  "chiaki_rpcrypt_init_auth target nonce morning = do {
     (bright, ambassador) \<leftarrow> chiaki_rpcrypt_bright_ambassador target nonce morning;
     Some \<lparr>rc_target = target, rc_bright = bright, rc_ambassador = ambassador\<rparr>
   }"

text \<open>The pin goes into the four bytes from \<open>i\<close> on.\<close>

definition xor_pin :: "bytes \<Rightarrow> nat \<Rightarrow> u32 \<Rightarrow> bytes" where
  "xor_pin key i pin = key
     [i := key ! i XOR ucast (drop_bit 0x18 pin AND 0xff),
      i + 1 := key ! (i + 1) XOR ucast (drop_bit 0x10 pin AND 0xff),
      i + 2 := key ! (i + 2) XOR ucast (drop_bit 0x08 pin AND 0xff),
      i + 3 := key ! (i + 3) XOR ucast (pin AND 0xff)]"

definition chiaki_rpcrypt_init_regist_ps4_pre10 :: "bytes \<Rightarrow> u32 \<Rightarrow> rpcrypt option" where
  "chiaki_rpcrypt_init_regist_ps4_pre10 ambassador pin = do {
     ambassador \<leftarrow> rd_n ambassador 0 CHIAKI_RPCRYPT_KEY_SIZE;
     Some \<lparr>rc_target = CHIAKI_TARGET_PS4_9, rc_bright = xor_pin regist_aes_key 0 pin, rc_ambassador = ambassador\<rparr>
   }"

definition chiaki_rpcrypt_init_regist ::
  "ChiakiTarget \<Rightarrow> bytes \<Rightarrow> nat \<Rightarrow> u32 \<Rightarrow> (ChiakiErrorCode + rpcrypt) option" where
  "chiaki_rpcrypt_init_regist target ambassador key_0_off pin =
     (if target_lt target CHIAKI_TARGET_PS4_10 then Some (Inl CHIAKI_ERR_INVALID_DATA)
      else if key_0_off \<ge> 0x20 then Some (Inl CHIAKI_ERR_INVALID_DATA)
      else do {
        ambassador \<leftarrow> rd_n ambassador 0 CHIAKI_RPCRYPT_KEY_SIZE;
        bright \<leftarrow> key_bytes (\<lambda>i. rd8 (keys_0_of target) (i * 0x20 + key_0_off));
        Some (Inr \<lparr>rc_target = target, rc_bright = xor_pin bright 0xc pin, rc_ambassador = ambassador\<rparr>)
      })"

definition chiaki_rpcrypt_init_regist_psn ::
  "rpcrypt_platform \<Rightarrow> ChiakiTarget \<Rightarrow> bytes \<Rightarrow> nat \<Rightarrow> bytes \<Rightarrow> bytes \<Rightarrow> bytes \<Rightarrow> (ChiakiErrorCode + rpcrypt) option" where
  "chiaki_rpcrypt_init_regist_psn pf target ambassador key_0_off custom_data1 data1 data2 = do {
     seed \<leftarrow> rd_n data2 0 CHIAKI_RPCRYPT_KEY_SIZE;
     key \<leftarrow> rd_n data1 0 CHIAKI_RPCRYPT_KEY_SIZE;
     custom \<leftarrow> rd_n custom_data1 0 CHIAKI_RPCRYPT_KEY_SIZE;
     (case chiaki_rpcrypt_encrypt pf \<lparr>rc_target = target, rc_bright = key, rc_ambassador = seed\<rparr> 0 custom of
        Inl err \<Rightarrow> Some (Inl err)
      | Inr encrypted_custom_data1 \<Rightarrow>
          if target_lt target CHIAKI_TARGET_PS4_10 then Some (Inl CHIAKI_ERR_INVALID_DATA)
          else if key_0_off \<ge> 0x20 then Some (Inl CHIAKI_ERR_INVALID_DATA)
          else do {
            ambassador \<leftarrow> rd_n ambassador 0 CHIAKI_RPCRYPT_KEY_SIZE;
            bright \<leftarrow> key_bytes (\<lambda>i. do {
              k \<leftarrow> rd8 (keys_0_of target) (i * 0x20 + key_0_off);
              c \<leftarrow> rd8 encrypted_custom_data1 i;
              Some (k XOR c)
            });
            Some (Inr \<lparr>rc_target = target, rc_bright = bright, rc_ambassador = ambassador\<rparr>)
          })
   }"

end
