(* ===== verification/RPCrypt_Props.thy ===== *)
theory RPCrypt_Props
  imports RPCrypt
begin

text \<open>
  Properties of the encryption of the control connection: the accesses to the key tables, the inverse
  of the scrambled seed, the key as a function of the secret, and decryption.
\<close>

section \<open>Keys byte by byte\<close>

lemma key_loop_Some_iff:
  "key_loop f i n = Some xs \<longleftrightarrow> length xs = n \<and> (\<forall>j < n. f (i + j) = Some (xs ! j))"
proof (induction n arbitrary: i xs)
  case (Suc n)
  show ?case
  proof (cases xs)
    case (Cons y ys)
    then show ?thesis using Suc.IH [of "i + 1" ys] by (auto simp: bind_eq_Some_conv All_less_Suc2)
  qed (auto simp: bind_eq_Some_conv)
qed auto

lemma key_loop_map: "\<forall>j < n. f (i + j) = Some (g j) \<Longrightarrow> key_loop f i n = Some (map g [0..<n])"
  by (simp add: key_loop_Some_iff)

lemma key_loop_None: "j < n \<Longrightarrow> f (i + j) = None \<Longrightarrow> key_loop f i n = None"
proof (rule ccontr)
  assume a: "j < n" "f (i + j) = None" "key_loop f i n \<noteq> None"
  then obtain xs where "key_loop f i n = Some xs" by blast
  then show False using a(1,2) by (simp add: key_loop_Some_iff)
qed

lemma target_lt_ps4_10:
  "target_lt t CHIAKI_TARGET_PS4_10 \<longleftrightarrow>
     t = CHIAKI_TARGET_PS4_UNKNOWN \<or> t = CHIAKI_TARGET_PS4_8 \<or> t = CHIAKI_TARGET_PS4_9"
  by (cases t) (simp_all add: target_lt_def)

text \<open>The accesses to the tables.\<close>

lemma key_row_bound:
  assumes "i < 16"
  shows "unat (drop_bit 3 (n :: u8)) * 0x70 + i < 3584"
proof -
  have "unat (drop_bit 3 n) = unat n div 8" by (simp add: drop_bit_eq_div unat_div)
  moreover have "unat n < 256" using unat_lt_exp [of n] by simp
  ultimately have "unat (drop_bit 3 n) \<le> 31" by simp
  then show ?thesis using assms by linarith
qed

lemma length_keys_1_of [simp]: "length (keys_1_of t) = 512" and length_keys_0_of [simp]: "length (keys_0_of t) = 512"
  by (simp_all add: keys_1_of_def keys_0_of_def)

lemma bright_ambassador_ps4_pre10_eq:
  assumes "length nonce = 16" "length morning = 16"
  shows "bright_ambassador_ps4_pre10 nonce morning =
    Some (map (\<lambda>i. (morning ! i - of_nat i + 0x34) XOR echo_b ! i XOR nonce ! i) [0..<16],
          map (\<lambda>i. (nonce ! i - of_nat i - 0x27) XOR echo_a ! i) [0..<16])"
proof -
  have "key_bytes (\<lambda>i. do { v \<leftarrow> rd8 nonce i; a \<leftarrow> rd8 echo_a i; Some ((v - of_nat i - 0x27) XOR a) }) =
      Some (map (\<lambda>i. (nonce ! i - of_nat i - 0x27) XOR echo_a ! i) [0..<16])"
    unfolding CHIAKI_RPCRYPT_KEY_SIZE_def by (rule key_loop_map) (simp add: assms buf_simps)
  moreover have "key_bytes (\<lambda>i. do { v \<leftarrow> rd8 morning i; b \<leftarrow> rd8 echo_b i; n \<leftarrow> rd8 nonce i;
        Some ((v - of_nat i + 0x34) XOR b XOR n) }) =
      Some (map (\<lambda>i. (morning ! i - of_nat i + 0x34) XOR echo_b ! i XOR nonce ! i) [0..<16])"
    unfolding CHIAKI_RPCRYPT_KEY_SIZE_def by (rule key_loop_map) (simp add: assms buf_simps)
  ultimately show ?thesis by (simp add: bright_ambassador_ps4_pre10_def)
qed

definition bright_byte :: "ChiakiTarget \<Rightarrow> bytes \<Rightarrow> nat \<Rightarrow> u8 \<Rightarrow> u8" where
  "bright_byte t nonce i v =
     (let ps5 = chiaki_target_is_ps5 t;
          k = (if ps5 then keys_b_ps5 else keys_b_ps4) ! (unat (drop_bit 3 (nonce ! 7)) * 0x70 + i)
      in if ps5 then (v + 0x18 + of_nat i) XOR nonce ! i XOR k else ((k XOR v) + 0x21 + of_nat i) XOR nonce ! i)"

definition seed_byte :: "ChiakiTarget \<Rightarrow> bytes \<Rightarrow> nat \<Rightarrow> u8" where
  "seed_byte t nonce i =
     (let ps5 = chiaki_target_is_ps5 t;
          k = (if ps5 then keys_a_ps5 else keys_a_ps4) ! (unat (drop_bit 3 (nonce ! 0)) * 0x70 + i)
      in (if ps5 then nonce ! i - 0x2d - of_nat i else nonce ! i + 0x36 + of_nat i) XOR k)"

lemma bright_ambassador_eq:
  assumes "\<not> target_lt t CHIAKI_TARGET_PS4_10" "length nonce = 16" "length morning = 16"
  shows "bright_ambassador t nonce morning =
    Some (Inr (map (\<lambda>i. bright_byte t nonce i (morning ! i)) [0..<16], map (seed_byte t nonce) [0..<16]))"
proof -
  let ?ps5 = "chiaki_target_is_ps5 t"
  have "key_bytes (\<lambda>i. do { v \<leftarrow> rd8 nonce i;
        k \<leftarrow> rd8 (if ?ps5 then keys_a_ps5 else keys_a_ps4) (unat (drop_bit 3 (nonce ! 0)) * 0x70 + i);
        Some ((if ?ps5 then v - 0x2d - of_nat i else v + 0x36 + of_nat i) XOR k) }) = Some (map (seed_byte t nonce) [0..<16])"
    unfolding CHIAKI_RPCRYPT_KEY_SIZE_def
    by (rule key_loop_map) (use key_row_bound [of _ "nonce ! 0"] in \<open>simp add: assms buf_simps seed_byte_def Let_def\<close>)
  moreover have "key_bytes (\<lambda>i. do { v \<leftarrow> rd8 morning i; n \<leftarrow> rd8 nonce i;
        k \<leftarrow> rd8 (if ?ps5 then keys_b_ps5 else keys_b_ps4) (unat (drop_bit 3 (nonce ! 7)) * 0x70 + i);
        Some (if ?ps5 then (v + 0x18 + of_nat i) XOR n XOR k else ((k XOR v) + 0x21 + of_nat i) XOR n) }) =
      Some (map (\<lambda>i. bright_byte t nonce i (morning ! i)) [0..<16])"
    unfolding CHIAKI_RPCRYPT_KEY_SIZE_def
    by (rule key_loop_map) (use key_row_bound [of _ "nonce ! 7"] in \<open>simp add: assms buf_simps bright_byte_def Let_def\<close>)
  ultimately show ?thesis using assms by (simp add: bright_ambassador_def Let_def buf_simps)
qed

lemma xor_cancel: "(a XOR k = b XOR k) \<longleftrightarrow> a = (b :: u8)" "(k XOR a = k XOR b) \<longleftrightarrow> a = (b :: u8)"
  by (metis xor.assoc xor.commute xor_self_eq xor.right_neutral)+

lemma bright_byte_inj: "bright_byte t nonce i v = bright_byte t nonce i w \<longleftrightarrow> v = w"
  by (simp add: bright_byte_def Let_def xor.assoc [symmetric] xor_cancel)

lemma map_upt_eq_iff:
  "map f [0..<n] = map g [0..<n] \<longleftrightarrow> (\<forall>i < n. f i = g i)"
  by auto

text \<open>
  C17: For every console whose kind is known, the key and the seed are computed from a nonce and a
  secret of sixteen bytes without an access outside of the tables and have sixteen bytes; for one
  nonce, different secrets never give the same key. When the kind is unknown, the assertion fails.
\<close>

theorem rpcrypt_key_of_secret:
  assumes "length nonce = 16" "length morning = 16"
  shows "(t = CHIAKI_TARGET_PS4_UNKNOWN \<longrightarrow> chiaki_rpcrypt_bright_ambassador t nonce morning = None) \<and>
    (t \<noteq> CHIAKI_TARGET_PS4_UNKNOWN \<longrightarrow>
      (\<exists>key seed. chiaki_rpcrypt_bright_ambassador t nonce morning = Some (key, seed) \<and> length key = 16 \<and> length seed = 16 \<and>
        (\<forall>morning' seed'. length morning' = 16 \<longrightarrow>
           chiaki_rpcrypt_bright_ambassador t nonce morning' = Some (key, seed') \<longrightarrow> morning' = morning)))"
proof (cases "target_lt t CHIAKI_TARGET_PS4_10")
  case True
  then consider "t = CHIAKI_TARGET_PS4_UNKNOWN" | "t = CHIAKI_TARGET_PS4_8 \<or> t = CHIAKI_TARGET_PS4_9"
    unfolding target_lt_ps4_10 by blast
  then show ?thesis
  proof cases
    case 1
    then show ?thesis using True by (simp add: chiaki_rpcrypt_bright_ambassador_def bright_ambassador_def)
  next
    case 2
    then have e: "chiaki_rpcrypt_bright_ambassador t nonce m = bright_ambassador_ps4_pre10 nonce m" for m
      by (simp add: chiaki_rpcrypt_bright_ambassador_def)
    have "m = morning" if "length m = 16" "bright_ambassador_ps4_pre10 nonce m =
        Some (map (\<lambda>i. (morning ! i - of_nat i + 0x34) XOR echo_b ! i XOR nonce ! i) [0..<16], s)" for m s
    proof (rule nth_equalityI)
      fix i assume "i < length m"
      then show "m ! i = morning ! i"
        using that by (auto simp: bright_ambassador_ps4_pre10_eq assms map_upt_eq_iff xor.assoc xor_cancel)
    qed (simp add: that assms)
    then show ?thesis using 2 e bright_ambassador_ps4_pre10_eq [OF assms] by auto
  qed
next
  case False
  then have t: "t \<noteq> CHIAKI_TARGET_PS4_8" "t \<noteq> CHIAKI_TARGET_PS4_9" "t \<noteq> CHIAKI_TARGET_PS4_UNKNOWN"
    by (auto simp: target_lt_ps4_10)
  have e: "\<exists>a. chiaki_rpcrypt_bright_ambassador t nonce m = Some (map (\<lambda>i. bright_byte t nonce i (m ! i)) [0..<16], a) \<and>
      length a = 16" if "length m = 16" for m
    using bright_ambassador_eq [OF False assms(1) that] t by (auto simp: chiaki_rpcrypt_bright_ambassador_def)
  have "m = morning" if m: "length m = 16" "chiaki_rpcrypt_bright_ambassador t nonce m =
      Some (map (\<lambda>i. bright_byte t nonce i (morning ! i)) [0..<16], s)" for m s
  proof (rule nth_equalityI)
    fix i assume "i < length m"
    then show "m ! i = morning ! i" using m e [OF m(1)] by (auto simp: map_upt_eq_iff bright_byte_inj)
  qed (simp add: m assms)
  then show ?thesis using t e [OF assms(2)] by auto
qed

section \<open>The seed of the registration\<close>

definition psn_byte :: "ChiakiTarget \<Rightarrow> nat \<Rightarrow> nat \<Rightarrow> u8 \<Rightarrow> u8" where
  "psn_byte t off i a =
     (a - of_nat i + (if chiaki_target_is_ps5 t then 0x2b else - 0x29)) XOR keys_1_of t ! (i * 0x20 + off)"

lemma psn_byte_inverse:
  "(psn_byte t off i a XOR keys_1_of t ! (i * 0x20 + off)) + of_nat i - (if chiaki_target_is_ps5 t then 0x2b else - 0x29) = a"
  by (simp add: psn_byte_def xor.assoc)

text \<open>
  What \<^verbatim>\<open>ambassador_from_aeropause\<close> computes from the scrambled seed is the seed, for an offset
  below 32. The offset is not checked: with a greater one all of these functions read behind the
  table.
\<close>

theorem rpcrypt_aeropause_inverse:
  assumes "\<not> target_lt t CHIAKI_TARGET_PS4_10" "length ambassador = 16"
  shows "(off < 0x20 \<longrightarrow> (\<exists>aeropause. chiaki_rpcrypt_aeropause_psn t off ambassador = Some (Inr aeropause) \<and>
      length aeropause = 16 \<and> chiaki_rpcrypt_ambassador_from_aeropause t off aeropause = Some (Inr ambassador))) \<and>
    (0x20 \<le> off \<longrightarrow> chiaki_rpcrypt_aeropause_psn t off ambassador = None \<and> chiaki_rpcrypt_aeropause t off ambassador = None \<and>
      chiaki_rpcrypt_ambassador_from_aeropause t off ambassador = None)"
proof (intro conjI impI)
  let ?w = "if chiaki_target_is_ps5 t then 0x2b else - 0x29 :: u8"
  assume off: "off < 0x20"
  let ?p = "map (\<lambda>i. psn_byte t off i (ambassador ! i)) [0..<16]"
  have "key_loop (\<lambda>i. do { k \<leftarrow> rd8 (keys_1_of t) (i * 0x20 + off); a \<leftarrow> rd8 ambassador i; Some ((a - of_nat i + ?w) XOR k) }) 0 16 =
      Some ?p"
    by (rule key_loop_map) (use off in \<open>simp add: assms(2) buf_simps psn_byte_def\<close>)
  moreover have "key_loop (\<lambda>i. do { k \<leftarrow> rd8 (keys_1_of t) (i * 0x20 + off); a \<leftarrow> rd8 ?p i; Some ((a XOR k) + of_nat i - ?w) }) 0 16 =
      Some ambassador"
    unfolding key_loop_Some_iff using off psn_byte_inverse [of t off] by (simp add: assms(2) buf_simps)
  ultimately show "\<exists>aeropause. chiaki_rpcrypt_aeropause_psn t off ambassador = Some (Inr aeropause) \<and>
      length aeropause = 16 \<and> chiaki_rpcrypt_ambassador_from_aeropause t off aeropause = Some (Inr ambassador)"
    using assms(1)
    by (intro exI [of _ ?p]) (simp add: chiaki_rpcrypt_aeropause_psn_def chiaki_rpcrypt_ambassador_from_aeropause_def
        CHIAKI_RPCRYPT_KEY_SIZE_def Let_def)
next
  assume "0x20 \<le> off"
  then have n: "rd8 (keys_1_of t) (15 * 0x20 + off) = None" by (simp add: rd8_def)
  have none: "key_loop (\<lambda>i. rd8 (keys_1_of t) (i * 0x20 + off) \<bind> g i) 0 16 = None" for g :: "nat \<Rightarrow> u8 \<Rightarrow> u8 option"
    by (rule key_loop_None [where j = 15]) (use n in simp_all)
  show "chiaki_rpcrypt_aeropause_psn t off ambassador = None" "chiaki_rpcrypt_aeropause t off ambassador = None"
    "chiaki_rpcrypt_ambassador_from_aeropause t off ambassador = None"
    using assms(1) by (simp_all add: chiaki_rpcrypt_aeropause_psn_def chiaki_rpcrypt_aeropause_def none
        chiaki_rpcrypt_ambassador_from_aeropause_def CHIAKI_RPCRYPT_KEY_SIZE_def Let_def)
qed

section \<open>Messages\<close>

text \<open>Under one seed, different counters are authenticated as different messages.\<close>

lemma counter_bytes_inj:
  assumes "counter_bytes c = counter_bytes d"
  shows "c = d"
proof (rule bit_word_eqI)
  fix n assume n: "n < LENGTH(64)"
  define q r where "q = n div 8" and "r = n mod 8"
  have q: "q < 8" "r < 8" "n = 8 * q + r" using n by (simp_all add: q_def r_def)
  have m: "(0xff :: u64) = mask 8" by (simp add: mask_eq_exp_minus_1)
  have b: "bit (counter_bytes x ! (7 - q)) r \<longleftrightarrow> bit x n" for x
  proof -
    have "q \<in> {0, 1, 2, 3, 4, 5, 6, 7}" using q(1) by auto
    then have "counter_bytes x ! (7 - q) = ucast (drop_bit (8 * q) x AND mask 8)"
      unfolding m [symmetric] by (auto simp: counter_bytes_def)
    then show ?thesis using q by (simp add: bit_simps)
  qed
  show "bit c n = bit d n" using b [of c] b [of d] assms by simp
qed

text \<open>What the code relies on: decryption undoes encryption with the same key and vector.\<close>

definition cfb_contract :: "rpcrypt_platform \<Rightarrow> bool" where
  "cfb_contract pf \<longleftrightarrow> (\<forall>key iv x y. cfb128 pf True key iv x = Some y \<longrightarrow> cfb128 pf False key iv y = Some x)"

text \<open>Below \<open>2 ^ 31\<close> bytes the size keeps its value.\<close>

lemma crypt_size_small: "n < 2 ^ 31 \<Longrightarrow> crypt_size n = int n"
  by (simp add: crypt_size_def signed_of_nat signed_take_bit_int_eq_self)

lemma crypt_small:
  assumes "length inp < 2 ^ 31"
  shows "chiaki_rpcrypt_crypt pf rc counter inp encrypt =
    (if \<not> cipher_ctx pf then Inl CHIAKI_ERR_UNKNOWN
     else (case chiaki_rpcrypt_generate_iv pf rc counter of Inl err \<Rightarrow> Inl err
       | Inr iv \<Rightarrow> (case cfb128 pf encrypt (rc_bright rc) iv inp of None \<Rightarrow> Inl CHIAKI_ERR_UNKNOWN
           | Some out \<Rightarrow> if length out \<noteq> length inp then Inl CHIAKI_ERR_UNKNOWN else Inr out)))"
  by (cases "chiaki_rpcrypt_generate_iv pf rc counter") (simp_all add: chiaki_rpcrypt_crypt_def crypt_size_small [OF assms] split: option.split)

lemma encrypt_decrypt:
  assumes "cfb_contract pf" "length p < 2 ^ 31" "chiaki_rpcrypt_encrypt pf rc k p = Inr e"
  shows "chiaki_rpcrypt_decrypt pf rc k e = Inr p" "length e = length p"
proof -
  obtain iv where iv: "cipher_ctx pf" "chiaki_rpcrypt_generate_iv pf rc k = Inr iv"
      "cfb128 pf True (rc_bright rc) iv p = Some e" "length e = length p"
    using assms(3) by (simp add: chiaki_rpcrypt_encrypt_def crypt_small [OF assms(2)] split: sum.splits option.splits if_splits)
  then have "cfb128 pf False (rc_bright rc) iv e = Some p" using assms(1) by (simp add: cfb_contract_def)
  then show "chiaki_rpcrypt_decrypt pf rc k e = Inr p" "length e = length p"
    using iv assms(2) by (simp_all add: chiaki_rpcrypt_decrypt_def crypt_small)
qed

text \<open>
  The other end, from the formulas of the protocol: the key and the seed of a console byte by byte, and
  the vector for a counter, from a hash under the key of the kind of console.
\<close>

definition old_console :: "ChiakiTarget \<Rightarrow> bool" where
  "old_console t \<longleftrightarrow> t = CHIAKI_TARGET_PS4_8 \<or> t = CHIAKI_TARGET_PS4_9"

definition console_key :: "ChiakiTarget \<Rightarrow> bytes \<Rightarrow> bytes \<Rightarrow> bytes" where
  "console_key t nonce morning =
     (let row = unat (nonce ! 7) div 8 * 112
      in map (\<lambda>i. if old_console t then (morning ! i - of_nat i + 52) XOR echo_b ! i XOR nonce ! i
           else if chiaki_target_is_ps5 t then (morning ! i + 24 + of_nat i) XOR nonce ! i XOR keys_b_ps5 ! (row + i)
           else ((keys_b_ps4 ! (row + i) XOR morning ! i) + 33 + of_nat i) XOR nonce ! i) [0..<16])"

definition console_seed :: "ChiakiTarget \<Rightarrow> bytes \<Rightarrow> bytes" where
  "console_seed t nonce =
     (let row = unat (nonce ! 0) div 8 * 112
      in map (\<lambda>i. if old_console t then (nonce ! i - of_nat i - 39) XOR echo_a ! i
           else if chiaki_target_is_ps5 t then (nonce ! i - 45 - of_nat i) XOR keys_a_ps5 ! (row + i)
           else (nonce ! i + 54 + of_nat i) XOR keys_a_ps4 ! (row + i)) [0..<16])"

definition big_endian :: "u64 \<Rightarrow> bytes" where
  "big_endian counter = map (\<lambda>i. of_nat (unat counter div 256 ^ (7 - i))) [0..<8]"

definition console_iv :: "rpcrypt_platform \<Rightarrow> ChiakiTarget \<Rightarrow> bytes \<Rightarrow> u64 \<Rightarrow> bytes" where
  "console_iv pf t seed counter =
     take 16 (the (hmac_sha256 pf (if chiaki_target_is_ps5 t then hmac_key_ps5 else if old_console t then hmac_key_ps4_pre10
        else hmac_key_ps4) (seed @ big_endian counter)))"

lemma counter_byte: "(ucast (drop_bit k c AND 0xff) :: u8) = of_nat (unat (c :: u64) div 2 ^ k)"
proof -
  have m: "(0xff :: u64) = mask 8" by (simp add: mask_eq_exp_minus_1)
  have "(ucast (drop_bit k c AND 0xff) :: u8) = ucast (drop_bit k c)"
    unfolding m by (rule bit_word_eqI) (simp add: bit_simps)
  also have "\<dots> = of_nat (unat (drop_bit k c))" by (rule of_nat_unat [symmetric])
  also have "unat (drop_bit k c) = unat c div 2 ^ k"
    unfolding unat_drop_bit_eq drop_bit_eq_div [where 'a = nat] ..
  finally show ?thesis .
qed

lemma counter_bytes_eq: "counter_bytes c = big_endian c"
proof -
  have "counter_bytes c = map (\<lambda>k. of_nat (unat c div 2 ^ k)) [56, 48, 40, 32, 24, 16, 8, 0]"
    unfolding counter_byte [symmetric] by (simp add: counter_bytes_def)
  then show ?thesis by (simp add: big_endian_def upt_rec)
qed

text \<open>What is encrypted is decrypted with the vector of the console.\<close>

lemma console_vector:
  assumes "rc_target rc \<noteq> CHIAKI_TARGET_PS5_UNKNOWN" "rc_target rc \<noteq> CHIAKI_TARGET_PS4_UNKNOWN"
    and "chiaki_rpcrypt_generate_iv pf rc counter = Inr iv"
  shows "iv = console_iv pf (rc_target rc) (rc_ambassador rc) counter"
proof -
  have "rpcrypt_hmac_key rc = (if chiaki_target_is_ps5 (rc_target rc) then hmac_key_ps5
      else if old_console (rc_target rc) then hmac_key_ps4_pre10 else hmac_key_ps4)"
    using assms(1,2) by (cases "rc_target rc") (simp_all add: rpcrypt_hmac_key_def old_console_def chiaki_target_is_ps5_def target_lt_def)
  then show ?thesis
    using assms(3)
    by (auto simp: chiaki_rpcrypt_generate_iv_def counter_bytes_eq console_iv_def CHIAKI_RPCRYPT_KEY_SIZE_def
        split: option.splits if_splits)
qed

lemma encrypt_console:
  assumes "cfb_contract pf" "length p < 2 ^ 31" "chiaki_rpcrypt_encrypt pf rc k p = Inr e"
    and "rc_target rc \<noteq> CHIAKI_TARGET_PS5_UNKNOWN" "rc_target rc \<noteq> CHIAKI_TARGET_PS4_UNKNOWN"
  shows "cfb128 pf False (rc_bright rc) (console_iv pf (rc_target rc) (rc_ambassador rc) k) e = Some p" "length e = length p"
proof -
  obtain iv where iv: "chiaki_rpcrypt_generate_iv pf rc k = Inr iv" "cfb128 pf True (rc_bright rc) iv p = Some e" "length e = length p"
    using assms(3) by (simp add: chiaki_rpcrypt_encrypt_def crypt_small [OF assms(2)] split: sum.splits option.splits if_splits)
  then show "cfb128 pf False (rc_bright rc) (console_iv pf (rc_target rc) (rc_ambassador rc) k) e = Some p" "length e = length p"
    using assms(1) console_vector [OF assms(4,5) iv(1)] by (simp_all add: cfb_contract_def)
qed

lemma console_keys_eq:
  assumes "\<not> chiaki_target_is_unknown t" "length nonce = 16" "length morning = 16"
  shows "chiaki_rpcrypt_bright_ambassador t nonce morning = Some (console_key t nonce morning, console_seed t nonce)"
proof (cases "old_console t")
  case True
  then show ?thesis
    using assms(2,3)
    by (simp add: old_console_def chiaki_rpcrypt_bright_ambassador_def bright_ambassador_ps4_pre10_eq console_key_def
        console_seed_def Let_def)
next
  case False
  then have "\<not> target_lt t CHIAKI_TARGET_PS4_10"
    using assms(1) by (cases t) (simp_all add: old_console_def chiaki_target_is_unknown_def target_lt_def)
  moreover have "unat (drop_bit 3 n) = unat n div 8" for n :: u8 by (simp add: drop_bit_eq_div unat_div)
  ultimately show ?thesis
    using assms(2,3) False
    by (simp add: old_console_def chiaki_rpcrypt_bright_ambassador_def bright_ambassador_eq console_key_def
        console_seed_def bright_byte_def seed_byte_def [abs_def] Let_def)
qed

text \<open>
  C16: For every kind of console that is known, the client derives from a nonce and the secret of the
  registration the key and, for each counter, the vector of the console, so that the console gets back
  what the client encrypts and the client what the console encrypts. For different counters the
  vectors are hashes of different messages.
\<close>

theorem rpcrypt_roundtrip:
  assumes "cfb_contract pf" "cipher_ctx pf" "\<forall>k m. \<exists>h. hmac_sha256 pf k m = Some h \<and> length h = 32"
    and "\<forall>key iv x. \<exists>y. cfb128 pf True key iv x = Some y \<and> length y = length x"
    and "\<not> chiaki_target_is_unknown t" "length nonce = 16" "length morning = 16" "length inp < 2 ^ 31"
    and "key = console_key t nonce morning" "seed = console_seed t nonce" "iv = console_iv pf t seed counter"
  shows "\<exists>client out enc. chiaki_rpcrypt_init_auth t nonce morning = Some client \<and>
    chiaki_rpcrypt_encrypt pf client counter inp = Inr out \<and> length out = length inp \<and>
    cfb128 pf False key iv out = Some inp \<and>
    cfb128 pf True key iv inp = Some enc \<and> chiaki_rpcrypt_decrypt pf client counter enc = Inr inp \<and>
    (\<forall>counter'. big_endian counter' = big_endian counter \<longrightarrow> counter' = counter)"
proof -
  let ?client = "\<lparr>rc_target = t, rc_bright = key, rc_ambassador = seed\<rparr>"
  have init: "chiaki_rpcrypt_init_auth t nonce morning = Some ?client"
    using console_keys_eq [OF assms(5-7)] assms(9,10) by (simp add: chiaki_rpcrypt_init_auth_def)
  have "rpcrypt_hmac_key ?client =
      (if chiaki_target_is_ps5 t then hmac_key_ps5 else if old_console t then hmac_key_ps4_pre10 else hmac_key_ps4)"
    using assms(5) by (cases t) (simp_all add: rpcrypt_hmac_key_def old_console_def chiaki_target_is_ps5_def
        chiaki_target_is_unknown_def target_lt_def)
  moreover obtain h where "hmac_sha256 pf (rpcrypt_hmac_key ?client) (seed @ big_endian counter) = Some h" "length h = 32"
    using assms(3) by blast
  ultimately have iv: "chiaki_rpcrypt_generate_iv pf ?client counter = Inr iv"
    using assms(11) by (simp add: chiaki_rpcrypt_generate_iv_def counter_bytes_eq console_iv_def CHIAKI_RPCRYPT_KEY_SIZE_def)
  obtain out where out: "cfb128 pf True key iv inp = Some out" "length out = length inp" using assms(4) by blast
  have e: "chiaki_rpcrypt_encrypt pf ?client counter inp = Inr out"
    using iv out assms(2,8) by (simp add: chiaki_rpcrypt_encrypt_def crypt_small)
  have "cfb128 pf False key iv out = Some inp" using assms(1) out(1) by (simp add: cfb_contract_def)
  moreover have "counter' = counter" if "big_endian counter' = big_endian counter" for counter'
    using counter_bytes_inj that by (simp add: counter_bytes_eq)
  ultimately show ?thesis using init e out encrypt_decrypt(1) [OF assms(1,8) e] by blast
qed

text \<open>A stream cipher in the place of AES.\<close>

definition sample_cipher :: rpcrypt_platform where
  "sample_cipher = \<lparr>hmac_sha256 = (\<lambda>key m. Some (replicate 32 7)), cipher_ctx = True,
     cfb128 = (\<lambda>enc key iv x. Some (map (\<lambda>b. b XOR hd iv) x))\<rparr>"

lemma sample_cipher_contract: "cfb_contract sample_cipher"
  by (auto simp: cfb_contract_def sample_cipher_def xor.assoc o_def)

theorem rpcrypt_roundtrip_witness:
  "\<exists>client out. chiaki_rpcrypt_init_auth CHIAKI_TARGET_PS5_1 (replicate 16 1) (replicate 16 2) = Some client \<and>
     chiaki_rpcrypt_encrypt sample_cipher client 5 [1, 2, 3] = Inr out \<and>
     cfb128 sample_cipher False (console_key CHIAKI_TARGET_PS5_1 (replicate 16 1) (replicate 16 2))
       (console_iv sample_cipher CHIAKI_TARGET_PS5_1 (console_seed CHIAKI_TARGET_PS5_1 (replicate 16 1)) 5) out = Some [1, 2, 3]"
proof -
  have "\<forall>k m. \<exists>h. hmac_sha256 sample_cipher k m = Some h \<and> length h = 32"
    "\<forall>key iv x. \<exists>y. cfb128 sample_cipher True key iv x = Some y \<and> length y = length x" "cipher_ctx sample_cipher"
    by (simp_all add: sample_cipher_def)
  moreover have "\<not> chiaki_target_is_unknown CHIAKI_TARGET_PS5_1" by (simp add: chiaki_target_is_unknown_def)
  ultimately show ?thesis
    using rpcrypt_roundtrip [OF sample_cipher_contract _ _ _ _ _ _ _ refl refl refl,
        of CHIAKI_TARGET_PS5_1 "replicate 16 1" "replicate 16 2" "[1, 2, 3]" 5] by auto
qed

theorem rpcrypt_key_of_secret_witness:
  "\<exists>key seed. chiaki_rpcrypt_bright_ambassador CHIAKI_TARGET_PS4_10 (replicate 16 1) (replicate 16 2) = Some (key, seed) \<and>
     length key = 16"
  using rpcrypt_key_of_secret [of "replicate 16 1" "replicate 16 2" CHIAKI_TARGET_PS4_10] by auto

theorem rpcrypt_aeropause_inverse_witness:
  "\<exists>a. chiaki_rpcrypt_aeropause_psn CHIAKI_TARGET_PS5_1 3 (replicate 16 1) = Some (Inr a) \<and>
     chiaki_rpcrypt_ambassador_from_aeropause CHIAKI_TARGET_PS5_1 3 a = Some (Inr (replicate 16 1))"
  using rpcrypt_aeropause_inverse [of CHIAKI_TARGET_PS5_1 "replicate 16 1" 3] by (auto simp: target_lt_def)

section \<open>The values of the tests\<close>

text \<open>
  What \<^verbatim>\<open>test/rpcrypt.c\<close> and \<^verbatim>\<open>test/regist.c\<close> expect of the functions without a library, for
  a console before version 10 and for the registration.
\<close>

lemma rpcrypt_test_vectors_auth:
  "chiaki_rpcrypt_bright_ambassador CHIAKI_TARGET_PS4_9
     [0x43, 0x9, 0x67, 0xae, 0x36, 0x4b, 0x1c, 0x45, 0x26, 0x62, 0x37, 0x7a, 0xbf, 0x3f, 0xe9, 0x39]
     [0xd2, 0x78, 0x9f, 0x51, 0x85, 0xa7, 0x99, 0xa2, 0x44, 0x52, 0x77, 0x9c, 0x2b, 0x83, 0xcf, 0x7] =
   Some ([0xa4, 0x4e, 0x2a, 0x16, 0x5e, 0x20, 0xd3, 0xf, 0xaa, 0x11, 0x8b, 0xc7, 0x7c, 0xa7, 0xdc, 0x11],
     [0x1d, 0xa8, 0xb9, 0x1f, 0x6e, 0x26, 0x64, 0x2e, 0xbc, 0x8, 0x8b, 0x0, 0x4f, 0x1, 0x5b, 0x52])"
  by code_simp

lemma rpcrypt_test_vectors_regist:
  "map_option (map_sum id rc_bright) (chiaki_rpcrypt_init_regist CHIAKI_TARGET_PS4_10 (replicate 16 0) 0x1e 78703893) =
     Some (Inr [0xed, 0xfc, 0x1d, 0xc5, 0xa2, 0xfe, 0x2d, 0x7f, 0x09, 0x19, 0x85, 0x75, 0x33, 0x6c, 0x13, 0x16])"
  "map_option (map_sum id rc_bright) (chiaki_rpcrypt_init_regist CHIAKI_TARGET_PS5_1 (replicate 16 0) 0x1e 78703893) =
     Some (Inr [0xe2, 0x9d, 0x64, 0x4c, 0x14, 0x1b, 0x9d, 0x61, 0x74, 0x31, 0xa5, 0x6d, 0x34, 0xcf, 0xc1, 0x7f])"
  by code_simp+

lemma rpcrypt_test_vectors_regist_pre10:
  "chiaki_rpcrypt_aeropause_ps4_pre10 
    [0x13, 0x37, 0xde, 0xad, 0xbe, 0xef, 0xc0, 0xff, 0xee, 0x42, 0x63, 0x68, 0x69, 0x61, 0x6b, 0x69] =
   Some [0x0b, 0xe1, 0x2f, 0xbb, 0x4c, 0x7c, 0x99, 0x4a, 0x41, 0x1e, 0x2d, 0x4c, 0xa4, 0x19, 0xf4, 0x35]"
  "map_option rc_bright (chiaki_rpcrypt_init_regist_ps4_pre10 (replicate 16 0) 13374201) =
   Some [0x3f, 0xd0, 0xd6, 0x4f, 0xdc, 0xbb, 0x3e, 0xcc, 0x50, 0xba, 0xed, 0xef, 0x97, 0x34, 0xc7, 0xc9]"
  by code_simp+

end
