(* ===== verification/Rudp.thy ===== *)
theory Rudp
  imports Send_Buffer
begin

text \<open>
  The reliable UDP of the remote connection (\<^verbatim>\<open>lib/src/remote/rudp.c\<close>,
  \<^verbatim>\<open>lib/src/remote/rudpsendbuffer.c\<close>): the format of its messages, which nest, the messages that are
  sent, the exchange of a request and its answer, and the buffer of messages that are not acknowledged.
\<close>

section \<open>Send buffer\<close>

text \<open>
  The send buffer has the code of that of Takion with sequence numbers of 16 bits; the field
  \<^term>\<open>sb_takion\<close> is its pointer to the instance. Only \<^verbatim>\<open>resend\<close> differs: it waits longer, and
  reads the type of the packet for the log.
\<close>

type_synonym rudp_packet = "u16 sb_packet_of"
type_synonym rudp_send_buffer = "u16 send_buffer_of"

definition RUDP_DATA_RESEND_TIMEOUT_MS :: u64 where
  "RUDP_DATA_RESEND_TIMEOUT_MS = 400"

definition RUDP_DATA_RESEND_TRIES_MAX :: u64 where
  "RUDP_DATA_RESEND_TRIES_MAX = 10"

definition chiaki_rudp_send_buffer_init ::
  "rudp_packet \<Rightarrow> bool \<Rightarrow> ChiakiErrorCode \<Rightarrow> ChiakiErrorCode \<Rightarrow> ChiakiErrorCode \<Rightarrow> bool \<Rightarrow> nat \<Rightarrow>
   rudp_send_buffer option \<times> ChiakiErrorCode" where
  "chiaki_rudp_send_buffer_init = chiaki_takion_send_buffer_init"

definition chiaki_rudp_send_buffer_fini :: "rudp_send_buffer \<Rightarrow> rudp_send_buffer \<times> bytes list" where
  "chiaki_rudp_send_buffer_fini = chiaki_takion_send_buffer_fini"

definition chiaki_rudp_send_buffer_push ::
  "rudp_send_buffer \<Rightarrow> u64 \<Rightarrow> u16 \<Rightarrow> bytes \<Rightarrow> (rudp_send_buffer \<times> ChiakiErrorCode \<times> bytes list \<times> bool) option" where
  "chiaki_rudp_send_buffer_push = chiaki_takion_send_buffer_push"

definition chiaki_rudp_send_buffer_ack ::
  "rudp_send_buffer \<Rightarrow> u16 \<Rightarrow> nat option \<Rightarrow> (rudp_send_buffer \<times> u16 list \<times> bytes list) option" where
  "chiaki_rudp_send_buffer_ack = chiaki_takion_send_buffer_ack"

datatype RudpPacketType =
    INIT_REQUEST | INIT_RESPONSE | COOKIE_REQUEST | COOKIE_RESPONSE | SESSION_MESSAGE
  | STREAM_CONNECTION_SWITCH_ACK | ACK | CTRL_MESSAGE | UNKNOWN | OFFSET8 | OFFSET10 | FINISH

fun rudp_type :: "RudpPacketType \<Rightarrow> u16" where
  "rudp_type INIT_REQUEST = 0x8030"
| "rudp_type INIT_RESPONSE = 0xD000"
| "rudp_type COOKIE_REQUEST = 0x9030"
| "rudp_type COOKIE_RESPONSE = 0xA030"
| "rudp_type SESSION_MESSAGE = 0x2030"
| "rudp_type STREAM_CONNECTION_SWITCH_ACK = 0x242E"
| "rudp_type ACK = 0x2430"
| "rudp_type CTRL_MESSAGE = 0x0230"
| "rudp_type UNKNOWN = 0x022F"
| "rudp_type OFFSET8 = 0x1230"
| "rudp_type OFFSET10 = 0x2630"
| "rudp_type FINISH = 0xC000"

definition hex_digit :: "nat \<Rightarrow> char" where
  "hex_digit n = ''0123456789abcdef'' ! n"

text \<open>\<^verbatim>\<open>%04x\<close>\<close>

definition hex4 :: "u16 \<Rightarrow> string" where
  "hex4 w = map (\<lambda>i. hex_digit (unat (drop_bit i w AND 0xf))) [12, 8, 4, 0]"

definition GetRudpPacketType :: "u16 \<Rightarrow> string" where
  "GetRudpPacketType type =
     (if type = rudp_type INIT_REQUEST then ''Init Request''
      else if type = rudp_type INIT_RESPONSE then ''Init Response''
      else if type = rudp_type COOKIE_REQUEST then ''Cookie Request''
      else if type = rudp_type COOKIE_RESPONSE then ''Cookie Response''
      else if type = rudp_type SESSION_MESSAGE then ''Session Message''
      else if type = rudp_type STREAM_CONNECTION_SWITCH_ACK then ''Takion Switch Ack''
      else if type = rudp_type ACK then ''Ack''
      else if type = rudp_type CTRL_MESSAGE then ''Ctrl Message''
      else if type = rudp_type UNKNOWN then ''Unknown''
      else if type = rudp_type FINISH then ''Finish''
      else ''Undefined packet type 0x'' @ hex4 type)"

text \<open>The name goes to an array of 29 characters, with its terminator.\<close>

definition packet_type_fits :: "u16 \<Rightarrow> bool" where
  "packet_type_fits type \<longleftrightarrow> length (GetRudpPacketType type) + 1 \<le> 29"

text \<open>
  The loop of \<^verbatim>\<open>resend\<close> while it holds the mutex and the steps of a pass, as in \<^verbatim>\<open>Send_Buffer\<close>.
\<close>

function rudp_resend_from ::
  "u64 \<Rightarrow> nat \<Rightarrow> rudp_send_buffer \<Rightarrow> bytes list \<Rightarrow> (rudp_send_buffer \<times> bytes list \<times> nat option) option" where
  "rudp_resend_from now_ms i sb sent =
     (if i \<ge> packets_count sb then Some (sb, sent, None)
      else if i \<ge> length (packets sb) then None
      else let packet = packets sb ! i in
        if now_ms - sb_last_send_ms packet > RUDP_DATA_RESEND_TIMEOUT_MS then
          if sb_tries packet \<ge> RUDP_DATA_RESEND_TRIES_MAX then Some (sb, sent, Some i)
          else
            (case rd16 (sb_buf packet) 6 of
               None \<Rightarrow> None
             | Some type \<Rightarrow>
                 if \<not> packet_type_fits type then None
                 else rudp_resend_from now_ms (i + 1)
                   (sb\<lparr>packets := (packets sb)[i := packet\<lparr>sb_last_send_ms := now_ms, sb_tries := sb_tries packet + 1\<rparr>]\<rparr>)
                   (sent @ [sb_buf packet]))
        else rudp_resend_from now_ms (i + 1) sb sent)"
  by auto
termination
  by (relation "measure (\<lambda>(_, i, sb, _). packets_count sb - i)") auto

declare rudp_resend_from.simps [simp del]

definition rudp_resend_locked ::
  "u64 \<Rightarrow> nat \<Rightarrow> rudp_send_buffer \<Rightarrow> (rudp_send_buffer \<times> bytes list \<times> u16 resend_point) option" where
  "rudp_resend_locked now_ms i sb = do {
     (sb, sent, stop) \<leftarrow> rudp_resend_from now_ms i sb [];
     Some (sb, sent, case stop of None \<Rightarrow> Waiting | Some i \<Rightarrow> Released now_ms i)
   }"

definition rudp_send_buffer_resend ::
  "rudp_send_buffer \<Rightarrow> u64 \<Rightarrow> (rudp_send_buffer \<times> bytes list \<times> u16 resend_point) option" where
  "rudp_send_buffer_resend sb now_ms =
     (if \<not> sb_takion sb then Some (sb, [], Waiting) else rudp_resend_locked now_ms 0 sb)"

fun rudp_resend_continue ::
  "rudp_send_buffer \<Rightarrow> u16 resend_point \<Rightarrow> (rudp_send_buffer \<times> bytes list \<times> u16 resend_point) option" where
  "rudp_resend_continue sb Waiting = Some (sb, [], Waiting)"
| "rudp_resend_continue sb (Released now_ms i) =
     (if i \<ge> length (packets sb) then None else Some (sb, [], Acking now_ms i (sb_seq_num (packets sb ! i))))"
| "rudp_resend_continue sb (Acking now_ms i seq_num) = do {
     (sb, acked, freed) \<leftarrow> chiaki_rudp_send_buffer_ack sb seq_num (Some 1);
     Some (sb, [], Returning now_ms i)
   }"
| "rudp_resend_continue sb (Returning now_ms i) = rudp_resend_locked now_ms i sb"

section \<open>Messages\<close>

datatype rudp_message = RudpMessage
  (rm_subtype: u8)
  (rm_type: u16)
  (rm_size: u16)
  (rm_data: "bytes option")
  (rm_data_size: nat)
  (rm_remote_counter: u16)
  (rm_sub: "rudp_message option")
  (rm_sub_size: u16)

definition RUDP_CONSTANT :: u32 where
  "RUDP_CONSTANT = 0x244F244F"

text \<open>The bytes that are written; the data of a message that is sent are never null.\<close>

fun rudp_message_serialize :: "rudp_message \<Rightarrow> bytes option" where
  "rudp_message_serialize (RudpMessage st t sz d n rc sub ssz) = do {
     d \<leftarrow> d;
     d \<leftarrow> rd_n d 0 n;
     rest \<leftarrow> (case sub of None \<Rightarrow> Some [] | Some m \<Rightarrow> rudp_message_serialize m);
     Some (be16 sz @ be32 RUDP_CONSTANT @ be16 t @ d @ rest)
   }"

text \<open>The fields of a received message: its length, the size of its data, the data and their counter.\<close>

definition message_length :: "u16 \<Rightarrow> nat" where
  "message_length sz = unat (sz AND 0x0fff)"

definition received_data_size :: "u16 \<Rightarrow> bytes \<Rightarrow> nat" where
  "received_data_size sz msg =
     (if message_length sz > 8 then min (message_length sz - 8) (length msg - 8) else 0)"

definition received_data :: "u16 \<Rightarrow> bytes \<Rightarrow> nat \<Rightarrow> bytes option option" where
  "received_data sz msg n = (if message_length sz > 8 then map_option Some (rd_n msg 8 n) else Some None)"

definition received_counter :: "bytes \<Rightarrow> nat \<Rightarrow> u16 option" where
  "received_counter msg n = (if n \<ge> 2 then map_option (\<lambda>c. c + 1) (rd16 msg 8) else Some 0)"

text \<open>
  \<open>alloc n\<close>: whether \<^verbatim>\<open>malloc\<close> of \<open>n\<close> bytes succeeds.
  On an error the message that was parsed so far is returned with it. A nested message whose
  structure was allocated is null in the result only when it was not parsed.
\<close>

definition sub_message_size :: nat where
  "sub_message_size = 56"

function chiaki_rudp_message_parse :: "(nat \<Rightarrow> bool) \<Rightarrow> bytes \<Rightarrow> (ChiakiErrorCode \<times> rudp_message) option" where
  "chiaki_rudp_message_parse alloc msg = do {
     sz \<leftarrow> rd16 msg 0;
     t \<leftarrow> rd16 msg 6;
     st \<leftarrow> rd8 msg 6;
     let n = received_data_size sz msg;
     if message_length sz > 8 \<and> \<not> alloc n then Some (CHIAKI_ERR_MEMORY, RudpMessage st t sz None n 0 None 0)
     else do {
       data \<leftarrow> received_data sz msg n;
       rc \<leftarrow> received_counter msg n;
       let remaining = length msg - 8 - n;
       if remaining \<ge> 8 then
         if \<not> alloc sub_message_size then Some (CHIAKI_ERR_MEMORY, RudpMessage st t sz data n rc None 0)
         else do {
           (err, sub) \<leftarrow> chiaki_rudp_message_parse alloc (drop (8 + n) msg);
           Some (err, RudpMessage st t sz data n rc (Some sub) (of_nat remaining))
         }
       else Some (CHIAKI_ERR_SUCCESS, RudpMessage st t sz data n rc None 0)
     }
   }"
  by pat_completeness auto
termination by (relation "measure (\<lambda>(_, msg). length msg)") (auto simp: rd16_def rd8_def split: if_splits)

declare chiaki_rudp_message_parse.simps [simp del]

section \<open>Sending\<close>

record rudp =
  rudp_counter :: u16
  rudp_header :: u32
  rudp_sock :: bool \<comment> \<open>whether the socket is valid\<close>
  rudp_buffer :: rudp_send_buffer
  rudp_sent :: "bytes list" \<comment> \<open>what was sent, the last message first\<close>

text \<open>The environment: the results of \<^verbatim>\<open>send\<close>, the clock and the allocations.\<close>

record rudp_platform =
  rp_send :: "bytes list \<Rightarrow> bool"
  rp_now :: "bytes list \<Rightarrow> u64"
  rp_alloc :: "nat \<Rightarrow> bool"

definition RUDP_SEND_BUFFER_SIZE :: nat where
  "RUDP_SEND_BUFFER_SIZE = 16"

definition chiaki_rudp_reset_counter_header :: "u32 \<Rightarrow> u32 \<Rightarrow> rudp \<Rightarrow> rudp" where
  "chiaki_rudp_reset_counter_header random1 random2 r =
     r\<lparr>rudp_counter := ucast (random1 mod 0x5e00 + 0x1ff), rudp_header := random2 + 0x8000\<rparr>"

definition get_then_increase_counter :: "rudp \<Rightarrow> u16 \<times> rudp" where
  "get_then_increase_counter r =
     (rudp_counter r, r\<lparr>rudp_counter := if rudp_counter r \<ge> 0xffff then 0 else rudp_counter r + 1\<rparr>)"

definition chiaki_rudp_get_local_counter :: "rudp \<Rightarrow> u16" where
  "chiaki_rudp_get_local_counter r = rudp_counter r"

definition chiaki_rudp_send_raw :: "rudp_platform \<Rightarrow> rudp \<Rightarrow> bytes \<Rightarrow> rudp \<times> ChiakiErrorCode" where
  "chiaki_rudp_send_raw pf r buf =
     (if \<not> rudp_sock r then (r, CHIAKI_ERR_DISCONNECTED)
      else let r = r\<lparr>rudp_sent := buf # rudp_sent r\<rparr>
        in (r, if rp_send pf (rudp_sent r) then CHIAKI_ERR_SUCCESS else CHIAKI_ERR_NETWORK))"

text \<open>The size of a message with the marker in front; the fields that are not sent are zero.\<close>

definition marked_size :: "nat \<Rightarrow> u16" where
  "marked_size n = of_nat (0xC000 OR n)"

definition message_of :: "RudpPacketType \<Rightarrow> nat \<Rightarrow> bytes \<Rightarrow> rudp_message option \<Rightarrow> rudp_message" where
  "message_of t alloc_size data sub =
     RudpMessage 0 (rudp_type t) (marked_size alloc_size) (Some data) (length data) 0 sub 0"

text \<open>A message of \<open>alloc_size\<close> bytes is serialised into its buffer and sent.\<close>

definition serialize_into :: "nat \<Rightarrow> rudp_message \<Rightarrow> bytes option" where
  "serialize_into alloc_size m = do {
     msg \<leftarrow> rudp_message_serialize m;
     if length msg \<le> alloc_size then Some msg else None
   }"

definition send_message ::
  "rudp_platform \<Rightarrow> rudp \<Rightarrow> nat \<Rightarrow> rudp_message \<Rightarrow> (rudp \<times> ChiakiErrorCode) option" where
  "send_message pf r alloc_size m =
     (if \<not> rp_alloc pf alloc_size then Some (r, CHIAKI_ERR_MEMORY)
      else map_option (chiaki_rudp_send_raw pf r) (serialize_into alloc_size m))"

text \<open>A message that is kept in the send buffer under \<open>counter_ack\<close> until it is acknowledged.\<close>

definition send_buffered ::
  "rudp_platform \<Rightarrow> rudp \<Rightarrow> nat \<Rightarrow> u16 \<Rightarrow> rudp_message \<Rightarrow> (rudp \<times> ChiakiErrorCode) option" where
  "send_buffered pf r alloc_size counter_ack m =
     (if \<not> rp_alloc pf alloc_size then Some (r, CHIAKI_ERR_MEMORY)
      else do {
        msg \<leftarrow> serialize_into alloc_size m;
        let (r, err) = chiaki_rudp_send_raw pf r msg;
        if err \<noteq> CHIAKI_ERR_SUCCESS then Some (r, err)
        else do {
          (sb, err, _) \<leftarrow> chiaki_rudp_send_buffer_push (rudp_buffer r) (rp_now pf (rudp_sent r)) counter_ack msg;
          Some (r\<lparr>rudp_buffer := sb\<rparr>, err)
        }
      })"

definition init_data :: "rudp \<Rightarrow> u16 \<Rightarrow> bytes" where
  "init_data r local_counter =
     be16 local_counter @ [0x0b, 0x01, 0x01, 0x00, 0x01, 0x00] @ be32 (rudp_header r) @ [0x05, 0x82]"

definition chiaki_rudp_send_init_message :: "rudp_platform \<Rightarrow> rudp \<Rightarrow> (rudp \<times> ChiakiErrorCode) option" where
  "chiaki_rudp_send_init_message pf r =
     (let (local_counter, r) = get_then_increase_counter r; alloc_size = 8 + 14
      in send_message pf r alloc_size (message_of INIT_REQUEST alloc_size (init_data r local_counter) None))"

definition chiaki_rudp_send_cookie_message ::
  "rudp_platform \<Rightarrow> rudp \<Rightarrow> bytes \<Rightarrow> (rudp \<times> ChiakiErrorCode) option" where
  "chiaki_rudp_send_cookie_message pf r response_buf =
     (let (local_counter, r) = get_then_increase_counter r; alloc_size = 8 + (14 + length response_buf)
      in send_message pf r alloc_size
        (message_of COOKIE_REQUEST alloc_size (init_data r local_counter @ response_buf) None))"

definition chiaki_rudp_send_session_message ::
  "rudp_platform \<Rightarrow> rudp \<Rightarrow> u16 \<Rightarrow> bytes \<Rightarrow> (rudp \<times> ChiakiErrorCode) option" where
  "chiaki_rudp_send_session_message pf r remote_counter session_msg =
     (let (local_counter, r) = get_then_increase_counter r;
          sub_size = 2 + length session_msg;
          sub = message_of CTRL_MESSAGE (8 + sub_size) (be16 local_counter @ session_msg) None
      in send_message pf r (8 + 4 + 8 + sub_size)
        (message_of SESSION_MESSAGE (8 + 4) (be16 local_counter @ be16 remote_counter) (Some sub)))"

definition chiaki_rudp_send_ack_message :: "rudp_platform \<Rightarrow> rudp \<Rightarrow> u16 \<Rightarrow> (rudp \<times> ChiakiErrorCode) option" where
  "chiaki_rudp_send_ack_message pf r remote_counter =
     (let alloc_size = 8 + 6
      in send_message pf r alloc_size
        (message_of ACK alloc_size (be16 (rudp_counter r) @ be16 remote_counter @ [0x00, 0x92]) None))"

definition chiaki_rudp_send_ctrl_message :: "rudp_platform \<Rightarrow> rudp \<Rightarrow> bytes \<Rightarrow> (rudp \<times> ChiakiErrorCode) option" where
  "chiaki_rudp_send_ctrl_message pf r ctrl_message =
     (let (counter, r) = get_then_increase_counter r; counter_ack = rudp_counter r;
          alloc_size = 8 + (2 + length ctrl_message)
      in send_buffered pf r alloc_size counter_ack
        (message_of CTRL_MESSAGE alloc_size (be16 counter @ ctrl_message) None))"

text \<open>\<open>buf\<close>: sixteen random bytes.\<close>

definition chiaki_rudp_send_switch_to_stream_connection_message ::
  "rudp_platform \<Rightarrow> bytes \<Rightarrow> rudp \<Rightarrow> (rudp \<times> ChiakiErrorCode) option" where
  "chiaki_rudp_send_switch_to_stream_connection_message pf buf r =
     (let (counter, r) = get_then_increase_counter r; counter_ack = rudp_counter r; alloc_size = 8 + 26
      in send_buffered pf r alloc_size counter_ack
        (message_of CTRL_MESSAGE alloc_size
          (be16 counter @ [0x00, 0x00, 0x00, 0x10, 0x00, 0x0d, 0x00, 0x00] @ buf) None))"

section \<open>Receiving\<close>

text \<open>
  What one call of select and \<^verbatim>\<open>recv\<close> gives: an error of select, an error of \<^verbatim>\<open>recv\<close>, or bytes, at
  most as many as the buffer holds.
\<close>

datatype rudp_input = SelectError ChiakiErrorCode | RecvError | Received bytes

definition chiaki_rudp_recv_only ::
  "rudp_platform \<Rightarrow> nat \<Rightarrow> rudp_input \<Rightarrow> (ChiakiErrorCode \<times> rudp_message option) option" where
  "chiaki_rudp_recv_only pf buf_size inp =
     (case inp of
        Received msg \<Rightarrow>
          let msg = take buf_size msg
          in if length msg \<le> 8 then Some (CHIAKI_ERR_NETWORK, None)
             else map_option (\<lambda>(err, m). (err, Some m)) (chiaki_rudp_message_parse (rp_alloc pf) msg)
      | _ \<Rightarrow> Some (CHIAKI_ERR_NETWORK, None))"

definition chiaki_rudp_select_recv ::
  "rudp_platform \<Rightarrow> nat \<Rightarrow> rudp_input \<Rightarrow> (ChiakiErrorCode \<times> rudp_message option) option" where
  "chiaki_rudp_select_recv pf buf_size inp =
     (case inp of SelectError err \<Rightarrow> Some (err, None) | _ \<Rightarrow> chiaki_rudp_recv_only pf buf_size inp)"

text \<open>Whether a message has the subtype that is waited for; \<^term>\<open>None\<close>: not supported.\<close>

definition wanted_subtype :: "RudpPacketType \<Rightarrow> u8 \<Rightarrow> bool option" where
  "wanted_subtype recv_type st =
     (case recv_type of
        INIT_RESPONSE \<Rightarrow> Some (st = 0xd0)
      | COOKIE_RESPONSE \<Rightarrow> Some (st = 0xa0)
      | CTRL_MESSAGE \<Rightarrow> Some (st AND 0x0f = 0x2 \<or> st AND 0x0f = 0x6)
      | FINISH \<Rightarrow> Some (st = 0xc0)
      | _ \<Rightarrow> None)"

text \<open>The search through the nested messages: the message found, if any.\<close>

fun find_message :: "(u8 \<Rightarrow> bool) \<Rightarrow> rudp_message \<Rightarrow> rudp_message option" where
  "find_message want (RudpMessage st t sz d n rc sub ssz) =
     (if want st then Some (RudpMessage st t sz d n rc sub ssz)
      else (case sub of Some m \<Rightarrow> find_message want m | None \<Rightarrow> None))"

definition send_request ::
  "rudp_platform \<Rightarrow> rudp \<Rightarrow> bytes \<Rightarrow> u16 \<Rightarrow> RudpPacketType \<Rightarrow> (rudp \<times> bool) option" where
  "send_request pf r buf remote_counter send_type =
     (case send_type of
        INIT_REQUEST \<Rightarrow> map_option (\<lambda>(r, _). (r, True)) (chiaki_rudp_send_init_message pf r)
      | COOKIE_REQUEST \<Rightarrow> map_option (\<lambda>(r, _). (r, True)) (chiaki_rudp_send_cookie_message pf r buf)
      | ACK \<Rightarrow> map_option (\<lambda>(r, _). (r, True)) (chiaki_rudp_send_ack_message pf r remote_counter)
      | SESSION_MESSAGE \<Rightarrow> map_option (\<lambda>(r, _). (r, True)) (chiaki_rudp_send_session_message pf r remote_counter buf)
      | _ \<Rightarrow> Some (r, False))"

text \<open>The rounds; the list holds what is received in each, and \<open>tries\<close> are left.\<close>

fun send_recv_loop ::
  "rudp_platform \<Rightarrow> bytes \<Rightarrow> u16 \<Rightarrow> RudpPacketType \<Rightarrow> RudpPacketType \<Rightarrow> nat \<Rightarrow> nat \<Rightarrow> rudp \<Rightarrow> rudp_input list \<Rightarrow>
   (rudp \<times> ChiakiErrorCode \<times> rudp_message option) option" where
  "send_recv_loop pf buf rc send_type recv_type min_size 0 r inps = Some (r, CHIAKI_ERR_INVALID_RESPONSE, None)"
| "send_recv_loop pf buf rc send_type recv_type min_size (Suc tries) r inps = do {
     (r, supported) \<leftarrow> send_request pf r buf rc send_type;
     if \<not> supported then Some (r, CHIAKI_ERR_INVALID_DATA, None)
     else
       let (inp, inps) = (case inps of [] \<Rightarrow> (SelectError CHIAKI_ERR_TIMEOUT, []) | i # is \<Rightarrow> (i, is))
       in do {
         (err, message) \<leftarrow> chiaki_rudp_select_recv pf 1500 inp;
         if err = CHIAKI_ERR_TIMEOUT then send_recv_loop pf buf rc send_type recv_type min_size tries r inps
         else if err \<noteq> CHIAKI_ERR_SUCCESS then Some (r, err, message)
         else do {
           m \<leftarrow> message;
           (case wanted_subtype recv_type (rm_subtype m) of
              None \<Rightarrow> Some (r, CHIAKI_ERR_INVALID_DATA, None)
            | Some _ \<Rightarrow>
                (case find_message (\<lambda>st. wanted_subtype recv_type st = Some True) m of
                   None \<Rightarrow> send_recv_loop pf buf rc send_type recv_type min_size tries r inps
                 | Some m \<Rightarrow>
                     if rm_data_size m < min_size
                     then send_recv_loop pf buf rc send_type recv_type min_size tries r inps
                     else Some (r, CHIAKI_ERR_SUCCESS, Some m)))
         }
       }
   }"

definition chiaki_rudp_send_recv ::
  "rudp_platform \<Rightarrow> rudp \<Rightarrow> bytes \<Rightarrow> u16 \<Rightarrow> RudpPacketType \<Rightarrow> RudpPacketType \<Rightarrow> nat \<Rightarrow> nat \<Rightarrow> rudp_input list \<Rightarrow>
   (rudp \<times> ChiakiErrorCode \<times> rudp_message option) option" where
  "chiaki_rudp_send_recv pf r buf remote_counter send_type recv_type min_data_size tries inps =
     send_recv_loop pf buf remote_counter send_type recv_type min_data_size tries r inps"

definition chiaki_rudp_ack_packet :: "rudp \<Rightarrow> u16 \<Rightarrow> rudp option" where
  "chiaki_rudp_ack_packet r counter_to_ack = do {
     (sb, _, _) \<leftarrow> chiaki_rudp_send_buffer_ack (rudp_buffer r) counter_to_ack (Some RUDP_SEND_BUFFER_SIZE);
     Some (r\<lparr>rudp_buffer := sb\<rparr>)
   }"

text \<open>\<open>zero\<close>: what \<^verbatim>\<open>calloc\<close> puts into the slots; the other parameters are the results of the calls.\<close>

definition chiaki_rudp_init ::
  "bool \<Rightarrow> ChiakiErrorCode \<Rightarrow> rudp_packet \<Rightarrow> bool \<Rightarrow> ChiakiErrorCode \<Rightarrow> ChiakiErrorCode \<Rightarrow> ChiakiErrorCode \<Rightarrow>
   u32 \<Rightarrow> u32 \<Rightarrow> bool \<Rightarrow> rudp option" where
  "chiaki_rudp_init calloc_ok pipe_err zero sb_alloc mutex_err cond_err thread_err random1 random2 sock =
     (if \<not> calloc_ok then None
      else if pipe_err \<noteq> CHIAKI_ERR_SUCCESS then None
      else
        (case chiaki_rudp_send_buffer_init zero sb_alloc mutex_err cond_err thread_err True RUDP_SEND_BUFFER_SIZE of
           (Some sb, _) \<Rightarrow> Some (chiaki_rudp_reset_counter_header random1 random2
             \<lparr>rudp_counter = 0, rudp_header = 0, rudp_sock = sock, rudp_buffer = sb, rudp_sent = []\<rparr>)
         | (None, _) \<Rightarrow> None))"

text \<open>The socket is closed; the buffers of the packets that wait are freed.\<close>

definition chiaki_rudp_fini :: "rudp \<Rightarrow> rudp \<times> bytes list" where
  "chiaki_rudp_fini r =
     (let (sb, freed) = chiaki_rudp_send_buffer_fini (rudp_buffer r)
      in (r\<lparr>rudp_buffer := sb, rudp_sock := False\<rparr>, freed))"

end
