(* ===== verification/Rudp_Props.thy ===== *)
theory Rudp_Props
  imports Rudp
begin

text \<open>
  Properties of the reliable UDP: nested messages are read back as they were written, the parser
  stays inside of its input, and an exchange returns only a message of the kind that was asked for.
\<close>

section \<open>Parsing what was serialised\<close>

text \<open>A message as the senders build it: its size counts the header and the data, in twelve bits.\<close>

fun regular :: "rudp_message \<Rightarrow> bool" where
  "regular (RudpMessage st t sz d n rc sub ssz) \<longleftrightarrow>
     (\<exists>x. d = Some x \<and> n = length x) \<and> 8 + n < 0x1000 \<and> sz = marked_size (8 + n) \<and>
     (case sub of None \<Rightarrow> True | Some m \<Rightarrow> regular m)"

text \<open>What the parser finds of it.\<close>

fun as_received :: "rudp_message \<Rightarrow> rudp_message" where
  "as_received (RudpMessage st t sz d n rc sub ssz) =
     RudpMessage (ucast (drop_bit 8 t)) t sz (if n = 0 then None else d) n
       (if n \<ge> 2 then join16 (the d ! 0) (the d ! 1) + 1 else 0) (map_option as_received sub)
       (case sub of None \<Rightarrow> 0 | Some m \<Rightarrow> of_nat (length (the (rudp_message_serialize m))))"

lemma marked_size_mask: "n < 0x1000 \<Longrightarrow> message_length (marked_size n) = n"
proof -
  assume n: "n < 0x1000"
  have "(0xC000 :: u16) AND 0x0fff = 0" by simp
  then have "marked_size n AND 0x0fff = of_nat n AND 0x0fff"
    by (simp add: marked_size_def of_nat_or_eq bit.conj_disj_distrib2)
  also have "\<dots> = take_bit 12 (of_nat n)" by (simp add: take_bit_eq_mask mask_eq_exp_minus_1)
  finally show ?thesis using n by (simp add: message_length_def unsigned_take_bit_eq unat_of_nat_small take_bit_nat_eq_self)
qed

lemma serialize_length:
  "rudp_message_serialize (RudpMessage st t sz d n rc sub ssz) = Some msg \<Longrightarrow> 8 + n \<le> length msg"
  by (auto simp: bind_eq_Some_conv rd_n_def split: if_splits)

lemma regular_serialize:
  "regular m \<Longrightarrow> \<exists>msg. rudp_message_serialize m = Some msg \<and> 8 \<le> length msg"
proof (induction m rule: regular.induct)
  case (1 st t sz d n rc sub ssz)
  then show ?case
    by (cases sub) (auto simp: rd_n_def)
qed

lemma parse_serialized:
  assumes "regular m" "rudp_message_serialize m = Some msg" "\<And>n. alloc n"
  shows "chiaki_rudp_message_parse alloc msg = Some (CHIAKI_ERR_SUCCESS, as_received m)"
  using assms(1,2)
proof (induction m arbitrary: msg rule: regular.induct)
  case (1 st t sz d n rc sub ssz)
  obtain x where x: "d = Some x" "n = length x" "8 + n < 0x1000" "sz = marked_size (8 + n)" using 1(2) by auto
  obtain rest where rest: "msg = be16 sz @ be32 RUDP_CONSTANT @ be16 t @ x @ rest"
    "(case sub of None \<Rightarrow> rest = [] | Some m \<Rightarrow> rudp_message_serialize m = Some rest)"
    using 1(3) x by (cases sub) (auto simp: rd_n_def bind_eq_Some_conv)
  have len: "length msg = 8 + n + length rest" "drop (8 + n) msg = rest" using rest(1) x(2) by simp_all
  have rd: "rd16 msg 0 = Some sz" "rd16 msg 6 = Some t" "rd8 msg 6 = Some (ucast (drop_bit 8 t))" "rd_n msg 8 n = Some x"
    "2 \<le> n \<Longrightarrow> rd16 msg 8 = Some (join16 (x ! 0) (x ! 1))"
    using rest(1) x(2) by (auto simp: rd16_def rd8_def rd_n_def nth_append be16_def be32_def)
  have sub: "if 8 \<le> length rest then \<exists>m. sub = Some m \<and> regular m \<and> rudp_message_serialize m = Some rest \<and>
      chiaki_rudp_message_parse alloc rest = Some (CHIAKI_ERR_SUCCESS, as_received m) else sub = None"
  proof (cases sub)
    case (Some m)
    then have "regular m" "rudp_message_serialize m = Some rest" using 1(2) rest(2) by auto
    then show ?thesis using 1(1) [OF Some] regular_serialize [of m] Some by auto
  qed (use rest(2) in simp)
  have n: "message_length sz = 8 + n" using marked_size_mask x(3,4) by simp
  obtain dt c where dc: "dt = (if n = 0 then None else Some x)"
    "c = (if n \<ge> 2 then join16 (x ! 0) (x ! 1) + 1 else 0)" by blast
  have f: "received_data_size sz msg = n" "received_data sz msg n = Some dt" "received_counter msg n = Some c"
    "length msg - (8 + n) = length rest"
    using rd(4,5) len n dc by (simp_all add: received_data_size_def received_data_def received_counter_def)
  have recv: "as_received (RudpMessage st t sz d n rc sub ssz) =
     RudpMessage (ucast (drop_bit 8 t)) t sz dt n c (map_option as_received sub)
       (case sub of None \<Rightarrow> 0 | Some m \<Rightarrow> of_nat (length (the (rudp_message_serialize m))))"
    using x(1) dc by simp
  show ?case
  proof (cases "8 \<le> length rest")
    case True
    then obtain m where m: "sub = Some m" "rudp_message_serialize m = Some rest"
      "chiaki_rudp_message_parse alloc rest = Some (CHIAKI_ERR_SUCCESS, as_received m)"
      using sub by auto
    show ?thesis
      by (subst chiaki_rudp_message_parse.simps) (simp add: recv [unfolded m(1)] rd(1-3) f assms(3) True m len(2) Let_def del: as_received.simps)
  next
    case False
    then have "sub = None" using sub by simp
    then show ?thesis
      by (subst chiaki_rudp_message_parse.simps) (simp add: recv [unfolded \<open>sub = None\<close>] rd(1-3) f assms(3) False Let_def del: as_received.simps)
  qed
qed

text \<open>The parser reads its input only.\<close>

lemma received_fields:
  assumes "8 \<le> length msg"
  shows "\<exists>sz t st. rd16 msg 0 = Some sz \<and> rd16 msg 6 = Some t \<and> rd8 msg 6 = Some st"
    "received_data_size sz msg \<le> length msg - 8"
    "\<exists>d. received_data sz msg (received_data_size sz msg) = Some d"
    "\<exists>c. received_counter msg (received_data_size sz msg) = Some c"
  using assms by (auto simp: rd16_def rd8_def rd_n_def received_data_size_def received_data_def received_counter_def)

lemma parse_total: "8 \<le> length msg \<Longrightarrow> chiaki_rudp_message_parse alloc msg \<noteq> None"
proof (induction "length msg" arbitrary: msg rule: less_induct)
  case less
  obtain sz t st where r: "rd16 msg 0 = Some sz" "rd16 msg 6 = Some t" "rd8 msg 6 = Some st"
    using received_fields(1) less(2) by blast
  define n where "n = received_data_size sz msg"
  obtain d c where dc: "received_data sz msg n = Some d" "received_counter msg n = Some c"
    using received_fields(3,4) [OF less(2)] n_def by metis
  have sub: "chiaki_rudp_message_parse alloc (drop (8 + n) msg) \<noteq> None" if "8 \<le> length msg - 8 - n"
    using less(1) [of "drop (8 + n) msg"] less(2) that by simp
  show ?case
  proof (cases "8 \<le> length msg - 8 - n")
    case True
    then obtain e m where "chiaki_rudp_message_parse alloc (drop (8 + n) msg) = Some (e, m)" using sub by auto
    then show ?thesis
      by (subst chiaki_rudp_message_parse.simps) (simp add: r n_def [symmetric] dc Let_def)
  qed (subst chiaki_rudp_message_parse.simps, simp add: r n_def [symmetric] dc Let_def)
qed

text \<open>
  C18: every message that the senders build, with messages nested to any depth, is read back by the
  parser as it was written: type, data, counter and the nested messages, and nothing else.
\<close>

theorem rudp_message_roundtrip:
  assumes "regular m" "\<And>n. alloc n"
  shows "\<exists>msg. rudp_message_serialize m = Some msg \<and>
    chiaki_rudp_message_parse alloc msg = Some (CHIAKI_ERR_SUCCESS, as_received m)"
proof -
  obtain msg where "rudp_message_serialize m = Some msg" using regular_serialize [OF assms(1)] by blast
  then show ?thesis using parse_serialized [OF assms(1)] assms(2) by blast
qed

lemma rudp_message_roundtrip_witness:
  "\<exists>msg. rudp_message_serialize (message_of SESSION_MESSAGE 12 [0, 7, 0, 9]
      (Some (message_of CTRL_MESSAGE 11 [0, 7, 5] None))) = Some msg \<and>
    chiaki_rudp_message_parse (\<lambda>_. True) msg = Some (CHIAKI_ERR_SUCCESS,
      as_received (message_of SESSION_MESSAGE 12 [0, 7, 0, 9] (Some (message_of CTRL_MESSAGE 11 [0, 7, 5] None))))"
  by (rule rudp_message_roundtrip) (simp_all add: message_of_def)

section \<open>Requests and answers\<close>

text \<open>At most one message is sent by a request, and no buffer is written behind its end.\<close>

definition one_sent :: "rudp \<Rightarrow> (rudp \<times> 'a) option \<Rightarrow> bool" where
  "one_sent r res \<longleftrightarrow> (\<exists>r' e. res = Some (r', e) \<and> length (rudp_sent r') \<le> length (rudp_sent r) + 1)"

lemma serialize_message_of:
  "rudp_message_serialize (message_of t a d None) = Some (be16 (marked_size a) @ be32 RUDP_CONSTANT @ be16 (rudp_type t) @ d)"
  "rudp_message_serialize (message_of t a d (Some m)) =
     map_option (\<lambda>rest. be16 (marked_size a) @ be32 RUDP_CONSTANT @ be16 (rudp_type t) @ d @ rest) (rudp_message_serialize m)"
  by (auto simp: message_of_def rd_n_def map_option_case split: option.splits)

lemma send_raw_one: "length (rudp_sent (fst (chiaki_rudp_send_raw pf r buf))) \<le> length (rudp_sent r) + 1"
  by (simp add: chiaki_rudp_send_raw_def Let_def)

lemma send_message_one:
  assumes "rudp_message_serialize m = Some msg" "length msg \<le> a" "rudp_sent r = rudp_sent r0"
  shows "one_sent r0 (send_message pf r a m)"
  using send_raw_one [of pf r msg] assms
  by (cases "chiaki_rudp_send_raw pf r msg") (simp add: one_sent_def send_message_def serialize_into_def)

lemma counter_sent: "get_then_increase_counter r = (c, r') \<Longrightarrow> rudp_sent r' = rudp_sent r"
  by (auto simp: get_then_increase_counter_def)

lemma send_init_one: "one_sent r (chiaki_rudp_send_init_message pf r)"
  unfolding chiaki_rudp_send_init_message_def Let_def
  by (auto split: prod.split intro!: send_message_one dest!: counter_sent simp: serialize_message_of init_data_def)

lemma send_cookie_one: "one_sent r (chiaki_rudp_send_cookie_message pf r buf)"
  unfolding chiaki_rudp_send_cookie_message_def Let_def
  by (auto split: prod.split intro!: send_message_one dest!: counter_sent simp: serialize_message_of init_data_def)

lemma send_ack_one: "one_sent r (chiaki_rudp_send_ack_message pf r rc)"
  unfolding chiaki_rudp_send_ack_message_def Let_def
  by (auto intro!: send_message_one simp: serialize_message_of)

lemma send_session_one: "one_sent r (chiaki_rudp_send_session_message pf r rc buf)"
  unfolding chiaki_rudp_send_session_message_def Let_def
  by (auto split: prod.split intro!: send_message_one dest!: counter_sent simp: serialize_message_of)

lemma send_request_one: "one_sent r (send_request pf r buf rc t)"
  using send_init_one [of r pf] send_cookie_one [of r pf buf] send_ack_one [of r pf rc] send_session_one [of r pf rc buf]
  by (cases t) (auto simp: send_request_def one_sent_def)

lemma parse_message: "8 \<le> length msg \<Longrightarrow> \<exists>e m. chiaki_rudp_message_parse alloc msg = Some (e, m)"
  using parse_total [of msg alloc] by auto

lemma select_recv_result:
  assumes "inp \<noteq> SelectError CHIAKI_ERR_SUCCESS"
  shows "\<exists>e m. chiaki_rudp_select_recv pf k inp = Some (e, m) \<and> (e = CHIAKI_ERR_SUCCESS \<longrightarrow> m \<noteq> None)"
proof (cases inp)
  case (Received msg)
  show ?thesis
  proof (cases "length (take k msg) \<le> 8")
    case False
    then obtain e m where "chiaki_rudp_message_parse (rp_alloc pf) (take k msg) = Some (e, m)"
      using parse_message [of "take k msg" "rp_alloc pf"] by fastforce
    then show ?thesis
      using Received False by (simp add: chiaki_rudp_select_recv_def chiaki_rudp_recv_only_def)
  qed (simp add: Received chiaki_rudp_select_recv_def chiaki_rudp_recv_only_def)
qed (use assms in \<open>simp_all add: chiaki_rudp_select_recv_def chiaki_rudp_recv_only_def\<close>)

lemma find_message_wanted: "find_message want m = Some m' \<Longrightarrow> want (rm_subtype m')"
  by (induction want m rule: find_message.induct) (auto split: if_splits option.splits)

text \<open>What the loop may return: at most one message sent in each round, and a message that was asked for.\<close>

definition answered ::
  "RudpPacketType \<Rightarrow> nat \<Rightarrow> nat \<Rightarrow> (rudp \<times> ChiakiErrorCode \<times> rudp_message option) option \<Rightarrow> bool" where
  "answered recv_type min_size n res \<longleftrightarrow>
     (\<exists>r e m. res = Some (r, e, m) \<and> length (rudp_sent r) \<le> n \<and>
       (e = CHIAKI_ERR_SUCCESS \<longrightarrow>
         (\<exists>x. m = Some x \<and> wanted_subtype recv_type (rm_subtype x) = Some True \<and> min_size \<le> rm_data_size x)))"

lemma answered_error: "e \<noteq> CHIAKI_ERR_SUCCESS \<Longrightarrow> length (rudp_sent r) \<le> n \<Longrightarrow> answered t k n (Some (r, e, m))"
  by (simp add: answered_def)

lemma answered_mono: "answered t k n res \<Longrightarrow> n \<le> n' \<Longrightarrow> answered t k n' res"
  by (cases res) (fastforce simp: answered_def)+

lemma send_recv_loop_answered:
  assumes "SelectError CHIAKI_ERR_SUCCESS \<notin> set inps"
  shows "answered recv_type min_size (length (rudp_sent r) + tries)
    (send_recv_loop pf buf rc send_type recv_type min_size tries r inps)"
  using assms
proof (induction tries arbitrary: r inps)
  case (Suc tries)
  obtain r1 ok where q: "send_request pf r buf rc send_type = Some (r1, ok)"
    "length (rudp_sent r1) \<le> length (rudp_sent r) + 1"
    using send_request_one [of r pf buf rc send_type] by (auto simp: one_sent_def)
  obtain inp rest where i: "(case inps of [] \<Rightarrow> (SelectError CHIAKI_ERR_TIMEOUT, []) | i # is \<Rightarrow> (i, is)) = (inp, rest)"
    "inp \<noteq> SelectError CHIAKI_ERR_SUCCESS" "SelectError CHIAKI_ERR_SUCCESS \<notin> set rest"
    using Suc.prems by (cases inps) auto
  obtain e m where m: "chiaki_rudp_select_recv pf 1500 inp = Some (e, m)" "e = CHIAKI_ERR_SUCCESS \<longrightarrow> m \<noteq> None"
    using select_recv_result [OF i(2)] by blast
  have again: "answered recv_type min_size (length (rudp_sent r) + Suc tries)
      (send_recv_loop pf buf rc send_type recv_type min_size tries r1 rest)"
    using Suc.IH [OF i(3), of r1] q(2) answered_mono by fastforce
  have err: "answered recv_type min_size (length (rudp_sent r) + Suc tries) (Some (r1, e', m'))"
    if "e' \<noteq> CHIAKI_ERR_SUCCESS" for e' m' using that q(2) by (simp add: answered_error)
  show ?case
  proof (cases "ok \<and> e = CHIAKI_ERR_SUCCESS")
    case False
    then show ?thesis using again err by (auto simp: q(1) i(1) m(1))
  next
    case True
    then obtain x where x: "m = Some x" using m(2) by blast
    show ?thesis
    proof (cases "wanted_subtype recv_type (rm_subtype x)")
      case (Some w)
      then show ?thesis
      proof (cases "find_message (\<lambda>st. wanted_subtype recv_type st = Some True) x")
        case (Some y)
        then have "wanted_subtype recv_type (rm_subtype y) = Some True" using find_message_wanted by blast
        then show ?thesis using True again Some \<open>wanted_subtype recv_type (rm_subtype x) = Some w\<close> q(2)
          by (auto simp: q(1) i(1) m(1) x answered_def)
      qed (use True again in \<open>simp add: q(1) i(1) m(1) x\<close>)
    qed (use True err in \<open>simp add: q(1) i(1) m(1) x\<close>)
  qed
qed (simp add: answered_def)

text \<open>
  C19: whatever arrives, an exchange of a request and its answer ends without an access outside of a
  buffer, sends at most one message for each try, and reports success only with a message of the kind
  that was waited for, found at any depth of the nested messages, that holds the least size of data.
\<close>

theorem rudp_send_recv_answer:
  assumes "SelectError CHIAKI_ERR_SUCCESS \<notin> set inps"
  shows "\<exists>r' err m. chiaki_rudp_send_recv pf r buf rc send_type recv_type min_size tries inps = Some (r', err, m) \<and>
    length (rudp_sent r') \<le> length (rudp_sent r) + tries \<and>
    (err = CHIAKI_ERR_SUCCESS \<longrightarrow>
      (\<exists>x. m = Some x \<and> wanted_subtype recv_type (rm_subtype x) = Some True \<and> min_size \<le> rm_data_size x))"
  using send_recv_loop_answered [OF assms, of recv_type min_size r tries pf buf rc send_type]
  by (simp add: chiaki_rudp_send_recv_def answered_def)

lemma rudp_send_recv_answer_witness:
  "\<exists>r' err m. chiaki_rudp_send_recv \<lparr>rp_send = \<lambda>_. True, rp_now = \<lambda>_. 0, rp_alloc = \<lambda>_. True\<rparr>
      \<lparr>rudp_counter = 5, rudp_header = 0x8001, rudp_sock = True,
       rudp_buffer = \<lparr>sb_takion = True, packets = [], packets_size = 0, packets_count = 0, sb_should_stop = False\<rparr>, rudp_sent = []\<rparr>
      [] 0 INIT_REQUEST INIT_RESPONSE 2 3
      [SelectError CHIAKI_ERR_TIMEOUT, Received [0xc0, 0x0a, 0x24, 0x4f, 0x24, 0x4f, 0xd0, 0, 0, 9]] = Some (r', err, m) \<and>
    length (rudp_sent r') \<le> length ([] :: bytes list) + 3 \<and>
    (err = CHIAKI_ERR_SUCCESS \<longrightarrow>
      (\<exists>x. m = Some x \<and> wanted_subtype INIT_RESPONSE (rm_subtype x) = Some True \<and> 2 \<le> rm_data_size x))"
  using rudp_send_recv_answer [of "[SelectError CHIAKI_ERR_TIMEOUT, Received [0xc0, 0x0a, 0x24, 0x4f, 0x24, 0x4f, 0xd0, 0, 0, 9]]"
    "\<lparr>rp_send = \<lambda>_. True, rp_now = \<lambda>_. 0, rp_alloc = \<lambda>_. True\<rparr>"
    "\<lparr>rudp_counter = 5, rudp_header = 0x8001, rudp_sock = True,
       rudp_buffer = \<lparr>sb_takion = True, packets = [], packets_size = 0, packets_count = 0, sb_should_stop = False\<rparr>, rudp_sent = []\<rparr>"
    "[]" 0 INIT_REQUEST INIT_RESPONSE 2 3]
  by simp

end
