(* ===== verification/Session_Types.thy ===== *)
theory Session_Types
  imports Bitstream Http Rudp RPCrypt
begin

text \<open>
  What the parts of a session share (\<^verbatim>\<open>lib/include/chiaki/session.h\<close>, \<^verbatim>\<open>lib/src/session.c\<close>):
  its state with the operations that other threads call, its events, the versions and reasons of the
  protocol as text, and a header that is requested over the reliable UDP (\<^verbatim>\<open>lib/src/http.c\<close>).
\<close>

section \<open>Numbers as text\<close>

text \<open>\<^verbatim>\<open>%d\<close> of a number that is not negative.\<close>

fun decimal :: "nat \<Rightarrow> bytes" where
  "decimal n = (if n < 10 then [of_nat (48 + n)] else decimal (n div 10) @ [of_nat (48 + n mod 10)])"

declare decimal.simps [simp del]

text \<open>The value of a character as a digit, 99 when it is none.\<close>

definition digit_value :: "u8 \<Rightarrow> nat" where
  "digit_value c =
     (if 48 \<le> c \<and> c \<le> 57 then unat c - 48
      else if 97 \<le> c \<and> c \<le> 122 then unat c - 87
      else if 65 \<le> c \<and> c \<le> 90 then unat c - 55
      else 99)"

definition number_value :: "nat \<Rightarrow> bytes \<Rightarrow> nat" where
  "number_value base ds = fold (\<lambda>c v. base * v + digit_value c) ds 0"

text \<open>
  \<^verbatim>\<open>strtoul(s, NULL, base)\<close> and \<^verbatim>\<open>strtoull\<close>, which have 64 bits both: spaces, a sign, a prefix
  \<open>0x\<close> in front of a digit for the bases 16 and 0, and for the base 0 a prefix \<open>0\<close> of octal numbers.
\<close>

definition strtoul :: "nat \<Rightarrow> bytes \<Rightarrow> u64" where
  "strtoul base s =
     (let s = dropWhile is_space s;
          neg = (s \<noteq> [] \<and> hd s = of_char (CHR ''-''));
          s = (if s \<noteq> [] \<and> (hd s = of_char (CHR ''-'') \<or> hd s = of_char (CHR ''+'')) then tl s else s);
          prefixed = ((base = 0 \<or> base = 16) \<and> length s > 2 \<and> s ! 0 = of_char (CHR ''0'') \<and>
            (s ! 1 = of_char (CHR ''x'') \<or> s ! 1 = of_char (CHR ''X'')) \<and> digit_value (s ! 2) < 16);
          b = (if base \<noteq> 0 then base else if prefixed then 16
               else if s \<noteq> [] \<and> hd s = of_char (CHR ''0'') then 8 else 10);
          s = (if prefixed then drop 2 s else s);
          v = number_value b (takeWhile (\<lambda>c. digit_value c < b) s)
      in if v \<ge> 2 ^ 64 then - 1 else if neg then - of_nat v else of_nat v)"

section \<open>Versions and reasons\<close>

definition CHIAKI_RP_APPLICATION_REASON_REGIST_FAILED :: u32 where
  "CHIAKI_RP_APPLICATION_REASON_REGIST_FAILED = 0x80108b09"
definition CHIAKI_RP_APPLICATION_REASON_INVALID_PSN_ID :: u32 where
  "CHIAKI_RP_APPLICATION_REASON_INVALID_PSN_ID = 0x80108b02"
definition CHIAKI_RP_APPLICATION_REASON_IN_USE :: u32 where
  "CHIAKI_RP_APPLICATION_REASON_IN_USE = 0x80108b10"
definition CHIAKI_RP_APPLICATION_REASON_CRASH :: u32 where
  "CHIAKI_RP_APPLICATION_REASON_CRASH = 0x80108b15"
definition CHIAKI_RP_APPLICATION_REASON_RP_VERSION :: u32 where
  "CHIAKI_RP_APPLICATION_REASON_RP_VERSION = 0x80108b11"
definition CHIAKI_RP_APPLICATION_REASON_UNKNOWN :: u32 where
  "CHIAKI_RP_APPLICATION_REASON_UNKNOWN = 0x80108bff"

definition chiaki_rp_application_reason_string :: "u32 \<Rightarrow> string" where
  "chiaki_rp_application_reason_string reason =
     (if reason = CHIAKI_RP_APPLICATION_REASON_REGIST_FAILED then ''Regist failed, probably invalid PIN''
      else if reason = CHIAKI_RP_APPLICATION_REASON_INVALID_PSN_ID then ''Invalid PSN ID''
      else if reason = CHIAKI_RP_APPLICATION_REASON_IN_USE then ''Remote is already in use''
      else if reason = CHIAKI_RP_APPLICATION_REASON_CRASH then ''Remote Play on Console crashed''
      else if reason = CHIAKI_RP_APPLICATION_REASON_RP_VERSION then ''RP-Version mismatch''
      else ''unknown'')"

fun chiaki_rp_version_string :: "ChiakiTarget \<Rightarrow> bytes option" where
  "chiaki_rp_version_string CHIAKI_TARGET_PS4_8 = Some (text_bytes ''8.0'')"
| "chiaki_rp_version_string CHIAKI_TARGET_PS4_9 = Some (text_bytes ''9.0'')"
| "chiaki_rp_version_string CHIAKI_TARGET_PS4_10 = Some (text_bytes ''10.0'')"
| "chiaki_rp_version_string CHIAKI_TARGET_PS5_1 = Some (text_bytes ''1.0'')"
| "chiaki_rp_version_string _ = None"

definition chiaki_rp_version_parse :: "bytes \<Rightarrow> bool \<Rightarrow> ChiakiTarget" where
  "chiaki_rp_version_parse s is_ps5 =
     (if is_ps5 then
        if s = text_bytes ''1.0'' then CHIAKI_TARGET_PS5_1 else CHIAKI_TARGET_PS5_UNKNOWN
      else if s = text_bytes ''8.0'' then CHIAKI_TARGET_PS4_8
      else if s = text_bytes ''9.0'' then CHIAKI_TARGET_PS4_9
      else if s = text_bytes ''10.0'' then CHIAKI_TARGET_PS4_10
      else CHIAKI_TARGET_PS4_UNKNOWN)"

datatype ChiakiQuitReason =
    CHIAKI_QUIT_REASON_NONE
  | CHIAKI_QUIT_REASON_STOPPED
  | CHIAKI_QUIT_REASON_SESSION_REQUEST_UNKNOWN
  | CHIAKI_QUIT_REASON_SESSION_REQUEST_CONNECTION_REFUSED
  | CHIAKI_QUIT_REASON_SESSION_REQUEST_RP_IN_USE
  | CHIAKI_QUIT_REASON_SESSION_REQUEST_RP_CRASH
  | CHIAKI_QUIT_REASON_SESSION_REQUEST_RP_VERSION_MISMATCH
  | CHIAKI_QUIT_REASON_CTRL_UNKNOWN
  | CHIAKI_QUIT_REASON_CTRL_CONNECT_FAILED
  | CHIAKI_QUIT_REASON_CTRL_CONNECTION_REFUSED
  | CHIAKI_QUIT_REASON_STREAM_CONNECTION_UNKNOWN
  | CHIAKI_QUIT_REASON_STREAM_CONNECTION_REMOTE_DISCONNECTED
  | CHIAKI_QUIT_REASON_STREAM_CONNECTION_REMOTE_SHUTDOWN
  | CHIAKI_QUIT_REASON_PSN_REGIST_FAILED

fun chiaki_quit_reason_string :: "ChiakiQuitReason \<Rightarrow> string" where
  "chiaki_quit_reason_string CHIAKI_QUIT_REASON_STOPPED = ''Stopped''"
| "chiaki_quit_reason_string CHIAKI_QUIT_REASON_SESSION_REQUEST_UNKNOWN = ''Unknown Session Request Error''"
| "chiaki_quit_reason_string CHIAKI_QUIT_REASON_SESSION_REQUEST_CONNECTION_REFUSED =
     ''Connection Refused in Session Request''"
| "chiaki_quit_reason_string CHIAKI_QUIT_REASON_SESSION_REQUEST_RP_IN_USE =
     ''Remote Play on Console is already in use''"
| "chiaki_quit_reason_string CHIAKI_QUIT_REASON_SESSION_REQUEST_RP_CRASH =
     ''Remote Play on Console has crashed''"
| "chiaki_quit_reason_string CHIAKI_QUIT_REASON_SESSION_REQUEST_RP_VERSION_MISMATCH = ''RP-Version mismatch''"
| "chiaki_quit_reason_string CHIAKI_QUIT_REASON_CTRL_UNKNOWN = ''Unknown Ctrl Error''"
| "chiaki_quit_reason_string CHIAKI_QUIT_REASON_CTRL_CONNECTION_REFUSED = ''Connection Refused in Ctrl''"
| "chiaki_quit_reason_string CHIAKI_QUIT_REASON_CTRL_CONNECT_FAILED = ''Ctrl failed to connect''"
| "chiaki_quit_reason_string CHIAKI_QUIT_REASON_STREAM_CONNECTION_UNKNOWN =
     ''Unknown Error in Stream Connection''"
| "chiaki_quit_reason_string CHIAKI_QUIT_REASON_STREAM_CONNECTION_REMOTE_DISCONNECTED =
     ''Remote has disconnected from Stream Connection''"
| "chiaki_quit_reason_string CHIAKI_QUIT_REASON_STREAM_CONNECTION_REMOTE_SHUTDOWN =
     ''Remote has disconnected from Stream Connection the because Server shut down''"
| "chiaki_quit_reason_string CHIAKI_QUIT_REASON_PSN_REGIST_FAILED =
     ''The Console Registration using PSN has failed''"
| "chiaki_quit_reason_string CHIAKI_QUIT_REASON_NONE = ''Unknown''"

definition chiaki_quit_reason_is_error :: "ChiakiQuitReason \<Rightarrow> bool" where
  "chiaki_quit_reason_is_error reason \<longleftrightarrow>
     reason \<noteq> CHIAKI_QUIT_REASON_STOPPED \<and> reason \<noteq> CHIAKI_QUIT_REASON_STREAM_CONNECTION_REMOTE_SHUTDOWN"

section \<open>Video profile\<close>

record connect_video_profile =
  vp_width :: u32
  vp_height :: u32
  vp_max_fps :: u32
  vp_bitrate :: u32
  vp_codec :: ChiakiCodec

text \<open>The enumerations by their values, so that other values can be given.\<close>

definition CHIAKI_VIDEO_RESOLUTION_PRESET_360p :: u32 where "CHIAKI_VIDEO_RESOLUTION_PRESET_360p = 1"
definition CHIAKI_VIDEO_RESOLUTION_PRESET_540p :: u32 where "CHIAKI_VIDEO_RESOLUTION_PRESET_540p = 2"
definition CHIAKI_VIDEO_RESOLUTION_PRESET_720p :: u32 where "CHIAKI_VIDEO_RESOLUTION_PRESET_720p = 3"
definition CHIAKI_VIDEO_RESOLUTION_PRESET_1080p :: u32 where "CHIAKI_VIDEO_RESOLUTION_PRESET_1080p = 4"
definition CHIAKI_VIDEO_FPS_PRESET_30 :: u32 where "CHIAKI_VIDEO_FPS_PRESET_30 = 30"
definition CHIAKI_VIDEO_FPS_PRESET_60 :: u32 where "CHIAKI_VIDEO_FPS_PRESET_60 = 60"

definition chiaki_connect_video_profile_preset :: "u32 \<Rightarrow> u32 \<Rightarrow> connect_video_profile" where
  "chiaki_connect_video_profile_preset resolution fps =
     (let (w, h, b) =
        (if resolution = CHIAKI_VIDEO_RESOLUTION_PRESET_360p then (640, 360, 2000)
         else if resolution = CHIAKI_VIDEO_RESOLUTION_PRESET_540p then (960, 540, 6000)
         else if resolution = CHIAKI_VIDEO_RESOLUTION_PRESET_720p then (1280, 720, 10000)
         else if resolution = CHIAKI_VIDEO_RESOLUTION_PRESET_1080p then (1920, 1080, 30000)
         else (0, 0, 0))
      in \<lparr>vp_width = w, vp_height = h,
          vp_max_fps = (if fps = CHIAKI_VIDEO_FPS_PRESET_30 then 30 else if fps = CHIAKI_VIDEO_FPS_PRESET_60 then 60 else 0),
          vp_bitrate = b, vp_codec = CHIAKI_CODEC_H264\<rparr>)"

section \<open>State of a session\<close>

text \<open>The events that a session or its control connection sends; a text may be null.\<close>

datatype ChiakiEvent =
    EVENT_LOGIN_PIN_REQUEST bool
  | EVENT_HOLEPUNCH bool
  | EVENT_NICKNAME_RECEIVED bytes
  | EVENT_KEYBOARD_OPEN "bytes option"
  | EVENT_KEYBOARD_TEXT_CHANGE "bytes option"
  | EVENT_KEYBOARD_REMOTE_CLOSE
  | EVENT_QUIT ChiakiQuitReason "bytes option"

text \<open>
  The fields that the session thread, the control connection and the registration use. The callbacks
  are recorded: \<open>ss_events\<close> has the events and \<open>ss_display\<close> the arguments of \<^verbatim>\<open>cantdisplay_cb\<close>.
  The length of a login pin is that of its bytes.
\<close>

record session =
  ss_ps5 :: bool
  ss_hostname :: bytes
  ss_regist_key :: bytes
  ss_morning :: bytes
  ss_did :: bytes
  ss_video_profile :: connect_video_profile
  ss_auto_downgrade :: bool
  ss_enable_keyboard :: bool
  ss_enable_dualsense :: bool
  ss_target :: ChiakiTarget
  ss_nonce :: bytes
  ss_rpcrypt :: rpcrypt
  ss_session_id :: bytes
  ss_quit_reason :: ChiakiQuitReason
  ss_event_cb :: bool
  ss_should_stop :: bool
  ss_ctrl_failed :: bool
  ss_ctrl_session_id_received :: bool
  ss_ctrl_login_pin_requested :: bool
  ss_login_pin_entered :: bool
  ss_psn_regist_succeeded :: bool
  ss_stream_connection_switch_received :: bool
  ss_login_pin :: "bytes option"
  ss_rudp :: "rudp option"
  ss_events :: "ChiakiEvent list"
  ss_display :: "bool list"

definition chiaki_session_send_event :: "'a session_scheme \<Rightarrow> ChiakiEvent \<Rightarrow> 'a session_scheme" where
  "chiaki_session_send_event s event = (if \<not> ss_event_cb s then s else s\<lparr>ss_events := ss_events s @ [event]\<rparr>)"

text \<open>\<open>alloc\<close>: whether \<^verbatim>\<open>malloc\<close> succeeds.\<close>

definition chiaki_session_set_login_pin ::
  "(nat \<Rightarrow> bool) \<Rightarrow> 'a session_scheme \<Rightarrow> bytes \<Rightarrow> 'a session_scheme \<times> ChiakiErrorCode" where
  "chiaki_session_set_login_pin alloc s pin =
     (if \<not> alloc (length pin) then (s, CHIAKI_ERR_MEMORY)
      else (s\<lparr>ss_login_pin_entered := True, ss_login_pin := Some pin\<rparr>, CHIAKI_ERR_SUCCESS))"

definition chiaki_session_set_stream_connection_switch_received :: "'a session_scheme \<Rightarrow> 'a session_scheme" where
  "chiaki_session_set_stream_connection_switch_received s = s\<lparr>ss_stream_connection_switch_received := True\<rparr>"

text \<open>What the session thread waits for.\<close>

definition session_check_state_pred :: "'a session_scheme \<Rightarrow> bool" where
  "session_check_state_pred s \<longleftrightarrow> ss_should_stop s \<or> ss_ctrl_failed s"

definition session_check_state_pred_ctrl_start :: "'a session_scheme \<Rightarrow> bool" where
  "session_check_state_pred_ctrl_start s \<longleftrightarrow>
     ss_should_stop s \<or> ss_ctrl_failed s \<or> ss_ctrl_session_id_received s \<or> ss_ctrl_login_pin_requested s"

definition session_check_state_pred_pin :: "'a session_scheme \<Rightarrow> bool" where
  "session_check_state_pred_pin s \<longleftrightarrow> ss_should_stop s \<or> ss_ctrl_failed s \<or> ss_login_pin_entered s"

definition session_check_state_pred_stream_connection_switch :: "'a session_scheme \<Rightarrow> bool" where
  "session_check_state_pred_stream_connection_switch s \<longleftrightarrow>
     ss_should_stop s \<or> ss_ctrl_failed s \<or> ss_stream_connection_switch_received s"

definition session_check_state_pred_regist :: "'a session_scheme \<Rightarrow> bool" where
  "session_check_state_pred_regist s \<longleftrightarrow> ss_should_stop s \<or> ss_ctrl_failed s \<or> ss_psn_regist_succeeded s"

section \<open>A header over the reliable UDP\<close>

text \<open>
  The memory of the caller, the remote counter, and the header size and received size of the result;
  the header size is \<^term>\<open>None\<close> when it is left unset.
\<close>

definition chiaki_send_recv_http_header_psn ::
  "rudp_platform \<Rightarrow> rudp \<Rightarrow> u16 \<Rightarrow> bytes \<Rightarrow> bytes \<Rightarrow> rudp_input list \<Rightarrow>
   (rudp \<times> u16 \<times> bytes \<times> (ChiakiErrorCode + nat option \<times> nat)) option" where
  "chiaki_send_recv_http_header_psn pf r remote_counter send_buf mem inps = do {
     (r, err, message) \<leftarrow> chiaki_rudp_send_recv pf r send_buf remote_counter SESSION_MESSAGE CTRL_MESSAGE 2 3 inps;
     if err \<noteq> CHIAKI_ERR_SUCCESS then Some (r, remote_counter, mem, Inl err)
     else do {
       m \<leftarrow> message;
       d \<leftarrow> rm_data m;
       data \<leftarrow> rd_n d 2 (rm_data_size m - 2);
       mem \<leftarrow> wr mem 0 data;
       let received = length data;
       if received = 0 then Some (r, rm_remote_counter m, mem, Inl CHIAKI_ERR_DISCONNECTED)
       else
         let (nl_state, left) = nl_scan 0 data
         in Some (r, rm_remote_counter m, mem,
              Inr (if nl_state = 4 then Some (received - left) else None, received))
     }
   }"

end
