(* ===== verification/Ctrl.thy ===== *)
theory Ctrl
  imports Session_Types
begin

text \<open>
  The control connection (\<^verbatim>\<open>lib/include/chiaki/ctrl.h\<close>, \<^verbatim>\<open>lib/src/ctrl.c\<close>): messages of a
  size, a type and an encrypted payload over TCP, or inside of the messages of the reliable UDP. A
  thread handles what the console sends; other threads queue messages for it.
\<close>

section \<open>State\<close>

definition CTRL_MESSAGE_TYPE_SESSION_ID :: u16 where "CTRL_MESSAGE_TYPE_SESSION_ID = 0x33"
definition CTRL_MESSAGE_TYPE_HEARTBEAT_REQ :: u16 where "CTRL_MESSAGE_TYPE_HEARTBEAT_REQ = 0xfe"
definition CTRL_MESSAGE_TYPE_HEARTBEAT_REP :: u16 where "CTRL_MESSAGE_TYPE_HEARTBEAT_REP = 0x1fe"
definition CTRL_MESSAGE_TYPE_LOGIN_PIN_REQ :: u16 where "CTRL_MESSAGE_TYPE_LOGIN_PIN_REQ = 0x4"
definition CTRL_MESSAGE_TYPE_LOGIN_PIN_REP :: u16 where "CTRL_MESSAGE_TYPE_LOGIN_PIN_REP = 0x8004"
definition CTRL_MESSAGE_TYPE_LOGIN :: u16 where "CTRL_MESSAGE_TYPE_LOGIN = 0x5"
definition CTRL_MESSAGE_TYPE_GOTO_BED :: u16 where "CTRL_MESSAGE_TYPE_GOTO_BED = 0x50"
definition CTRL_MESSAGE_TYPE_KEYBOARD_ENABLE :: u16 where "CTRL_MESSAGE_TYPE_KEYBOARD_ENABLE = 0xd"
definition CTRL_MESSAGE_TYPE_KEYBOARD_ENABLE_TOGGLE :: u16 where "CTRL_MESSAGE_TYPE_KEYBOARD_ENABLE_TOGGLE = 0x20"
definition CTRL_MESSAGE_TYPE_KEYBOARD_OPEN :: u16 where "CTRL_MESSAGE_TYPE_KEYBOARD_OPEN = 0x21"
definition CTRL_MESSAGE_TYPE_KEYBOARD_CLOSE_REMOTE :: u16 where "CTRL_MESSAGE_TYPE_KEYBOARD_CLOSE_REMOTE = 0x22"
definition CTRL_MESSAGE_TYPE_KEYBOARD_TEXT_CHANGE_REQ :: u16 where "CTRL_MESSAGE_TYPE_KEYBOARD_TEXT_CHANGE_REQ = 0x23"
definition CTRL_MESSAGE_TYPE_KEYBOARD_TEXT_CHANGE_RES :: u16 where "CTRL_MESSAGE_TYPE_KEYBOARD_TEXT_CHANGE_RES = 0x24"
definition CTRL_MESSAGE_TYPE_KEYBOARD_CLOSE_REQ :: u16 where "CTRL_MESSAGE_TYPE_KEYBOARD_CLOSE_REQ = 0x25"
definition CTRL_MESSAGE_TYPE_ENABLE_DUALSENSE_FEATURES :: u16 where "CTRL_MESSAGE_TYPE_ENABLE_DUALSENSE_FEATURES = 0x13"
definition CTRL_MESSAGE_TYPE_GO_HOME :: u16 where "CTRL_MESSAGE_TYPE_GO_HOME = 0x14"
definition CTRL_MESSAGE_TYPE_DISPLAYA :: u16 where "CTRL_MESSAGE_TYPE_DISPLAYA = 0x1"
definition CTRL_MESSAGE_TYPE_DISPLAYB :: u16 where "CTRL_MESSAGE_TYPE_DISPLAYB = 0x16"
definition CTRL_MESSAGE_TYPE_MIC_CONNECT :: u16 where "CTRL_MESSAGE_TYPE_MIC_CONNECT = 0x30"
definition CTRL_MESSAGE_TYPE_MIC_TOGGLE :: u16 where "CTRL_MESSAGE_TYPE_MIC_TOGGLE = 0x36"
definition CTRL_MESSAGE_TYPE_DISPLAY_DEVICES :: u16 where "CTRL_MESSAGE_TYPE_DISPLAY_DEVICES = 0x910"
definition CTRL_MESSAGE_TYPE_SWITCH_TO_STREAM_CONNECTION :: u16 where
  "CTRL_MESSAGE_TYPE_SWITCH_TO_STREAM_CONNECTION = 0x34"

lemmas ctrl_message_types = CTRL_MESSAGE_TYPE_SESSION_ID_def CTRL_MESSAGE_TYPE_HEARTBEAT_REQ_def
  CTRL_MESSAGE_TYPE_HEARTBEAT_REP_def CTRL_MESSAGE_TYPE_LOGIN_PIN_REQ_def CTRL_MESSAGE_TYPE_LOGIN_PIN_REP_def
  CTRL_MESSAGE_TYPE_LOGIN_def CTRL_MESSAGE_TYPE_GOTO_BED_def CTRL_MESSAGE_TYPE_KEYBOARD_ENABLE_def
  CTRL_MESSAGE_TYPE_KEYBOARD_ENABLE_TOGGLE_def CTRL_MESSAGE_TYPE_KEYBOARD_OPEN_def
  CTRL_MESSAGE_TYPE_KEYBOARD_CLOSE_REMOTE_def CTRL_MESSAGE_TYPE_KEYBOARD_TEXT_CHANGE_REQ_def
  CTRL_MESSAGE_TYPE_KEYBOARD_TEXT_CHANGE_RES_def CTRL_MESSAGE_TYPE_KEYBOARD_CLOSE_REQ_def
  CTRL_MESSAGE_TYPE_ENABLE_DUALSENSE_FEATURES_def CTRL_MESSAGE_TYPE_GO_HOME_def CTRL_MESSAGE_TYPE_DISPLAYA_def
  CTRL_MESSAGE_TYPE_DISPLAYB_def CTRL_MESSAGE_TYPE_MIC_CONNECT_def CTRL_MESSAGE_TYPE_MIC_TOGGLE_def
  CTRL_MESSAGE_TYPE_DISPLAY_DEVICES_def CTRL_MESSAGE_TYPE_SWITCH_TO_STREAM_CONNECTION_def

text \<open>
  The control connection is a part of its session and changes the session's state, so its state
  extends that of the session. A queued message has its type and its payload, null or not.
  \<open>ct_notified\<close>: whether the pipe is signalled. \<open>ct_recv_buf\<close> has \<open>512\<close> bytes, of which
  \<open>ct_recv_buf_size\<close> are filled. \<open>ct_sent\<close>: what was sent over TCP, in order.
\<close>

record ctrl = session +
  ct_should_stop :: bool
  ct_login_pin_entered :: bool
  ct_login_pin :: "bytes option"
  ct_msg_queue :: "(u16 \<times> bytes option) list"
  ct_notified :: bool
  ct_login_pin_requested :: bool
  ct_cant_displaya :: bool
  ct_cant_displayb :: bool
  ct_recv_buf :: bytes
  ct_recv_buf_size :: nat
  ct_crypt_counter_local :: u64
  ct_crypt_counter_remote :: u64
  ct_keyboard_text_counter :: u32
  ct_sent :: "bytes list"

text \<open>
  The environment: allocations, the encryption library, the reliable UDP, the result of \<^verbatim>\<open>send\<close>
  after what was sent before, the seconds of the monotonic clock, and random bytes. The socket is not
  blocking, so \<^verbatim>\<open>send\<close> may take fewer bytes than it is given; \<^term>\<open>None\<close> is an error.
\<close>

record ctrl_platform =
  cp_alloc :: "nat \<Rightarrow> bool"
  cp_crypt :: rpcrypt_platform
  cp_rudp :: rudp_platform
  cp_send :: "bytes list \<Rightarrow> bytes \<Rightarrow> nat option"
  cp_seconds :: nat
  cp_random :: "ChiakiErrorCode + bytes"

section \<open>Operations of other threads\<close>

definition chiaki_ctrl_stop :: "ctrl \<Rightarrow> ctrl" where
  "chiaki_ctrl_stop c = c\<lparr>ct_should_stop := True, ct_notified := True\<rparr>"

text \<open>\<open>queue_size\<close>: the bytes of an element of the queue.\<close>

definition queue_size :: nat where
  "queue_size = 32"

definition chiaki_ctrl_send_message ::
  "ctrl_platform \<Rightarrow> ctrl \<Rightarrow> u16 \<Rightarrow> bytes option \<Rightarrow> ctrl \<times> ChiakiErrorCode" where
  "chiaki_ctrl_send_message pf c type payload =
     (if \<not> cp_alloc pf queue_size then (c, CHIAKI_ERR_MEMORY)
      else if (case payload of Some p \<Rightarrow> \<not> cp_alloc pf (length p) | None \<Rightarrow> False) then (c, CHIAKI_ERR_MEMORY)
      else (c\<lparr>ct_msg_queue := ct_msg_queue c @ [(type, payload)], ct_notified := True\<rparr>, CHIAKI_ERR_SUCCESS))"

definition chiaki_ctrl_set_login_pin :: "ctrl_platform \<Rightarrow> ctrl \<Rightarrow> bytes \<Rightarrow> ctrl" where
  "chiaki_ctrl_set_login_pin pf c pin =
     (if \<not> cp_alloc pf (length pin) then c
      else c\<lparr>ct_login_pin_entered := True, ct_login_pin := Some pin, ct_notified := True\<rparr>)"

definition chiaki_ctrl_goto_bed :: "ctrl_platform \<Rightarrow> ctrl \<Rightarrow> ctrl \<times> ChiakiErrorCode" where
  "chiaki_ctrl_goto_bed pf c = chiaki_ctrl_send_message pf c CTRL_MESSAGE_TYPE_GOTO_BED None"

text \<open>The structure \<^verbatim>\<open>CtrlKeyboardTextRequestMessage\<close> of 36 bytes and the text behind it.\<close>

definition keyboard_text_request :: "u32 \<Rightarrow> bytes \<Rightarrow> bytes" where
  "keyboard_text_request counter text_str =
     be32 counter @ be32 (of_nat (length text_str)) @ replicate 24 0 @ be32 (of_nat (length text_str)) @ text_str"

definition chiaki_ctrl_keyboard_set_text :: "ctrl_platform \<Rightarrow> ctrl \<Rightarrow> bytes \<Rightarrow> ctrl \<times> ChiakiErrorCode" where
  "chiaki_ctrl_keyboard_set_text pf c text_str =
     (if \<not> cp_alloc pf (36 + length text_str) then (c, CHIAKI_ERR_MEMORY)
      else
        let counter = ct_keyboard_text_counter c + 1; c = c\<lparr>ct_keyboard_text_counter := counter\<rparr>
        in chiaki_ctrl_send_message pf c CTRL_MESSAGE_TYPE_KEYBOARD_TEXT_CHANGE_REQ
             (Some (keyboard_text_request counter text_str)))"

definition chiaki_ctrl_keyboard_accept :: "ctrl_platform \<Rightarrow> ctrl \<Rightarrow> ctrl \<times> ChiakiErrorCode" where
  "chiaki_ctrl_keyboard_accept pf c =
     chiaki_ctrl_send_message pf c CTRL_MESSAGE_TYPE_KEYBOARD_CLOSE_REQ (Some [0x00, 0x00, 0x00, 0x00])"

definition chiaki_ctrl_keyboard_reject :: "ctrl_platform \<Rightarrow> ctrl \<Rightarrow> ctrl \<times> ChiakiErrorCode" where
  "chiaki_ctrl_keyboard_reject pf c =
     chiaki_ctrl_send_message pf c CTRL_MESSAGE_TYPE_KEYBOARD_CLOSE_REQ (Some [0x00, 0x00, 0x00, 0x01])"

definition ctrl_failed :: "ctrl \<Rightarrow> ChiakiQuitReason \<Rightarrow> ctrl" where
  "ctrl_failed c reason = c\<lparr>ss_quit_reason := reason, ss_ctrl_failed := True\<rparr>"

section \<open>Sending\<close>

text \<open>
  The counter under which a payload is encrypted. Over the reliable UDP a login pin is encrypted under
  the counter before, computed in \<^verbatim>\<open>int\<close> from the low 16 bits.
\<close>

definition payload_counter :: "ctrl \<Rightarrow> u16 \<Rightarrow> u64" where
  "payload_counter c type =
     (if ss_rudp c \<noteq> None \<and> type = CTRL_MESSAGE_TYPE_LOGIN_PIN_REP
      then of_int (uint (ucast (ct_crypt_counter_local c) :: u16) - 1)
      else ct_crypt_counter_local c)"

definition ctrl_header :: "nat \<Rightarrow> u16 \<Rightarrow> bytes" where
  "ctrl_header payload_size type = be32 (of_nat payload_size) @ be16 type @ [0, 0]"

text \<open>A call of \<^verbatim>\<open>send\<close>: whether it failed. How much was taken is not looked at.\<close>

definition ctrl_tcp_send :: "ctrl_platform \<Rightarrow> ctrl \<Rightarrow> bytes \<Rightarrow> ctrl \<times> bool" where
  "ctrl_tcp_send pf c bs =
     (case cp_send pf (ct_sent c) bs of
        None \<Rightarrow> (c, False)
      | Some n \<Rightarrow> (c\<lparr>ct_sent := ct_sent c @ [take n bs]\<rparr>, True))"

text \<open>The encrypted message is sent; \<open>enc\<close> is empty when there is no payload.\<close>

definition ctrl_message_transmit :: "ctrl_platform \<Rightarrow> ctrl \<Rightarrow> u16 \<Rightarrow> bytes \<Rightarrow> (ctrl \<times> ChiakiErrorCode) option" where
  "ctrl_message_transmit pf c type enc =
     (let header = ctrl_header (length enc) type
      in case ss_rudp c of
        Some r \<Rightarrow>
          let buf_size = (of_nat (8 + length enc) :: u8)
          in if unat buf_size < 8 + length enc then None
             else do {
               (r, err) \<leftarrow> chiaki_rudp_send_ctrl_message (cp_rudp pf) r (header @ enc);
               Some (c\<lparr>ss_rudp := Some r\<rparr>, err)
             }
      | None \<Rightarrow>
          let (c, sent) = ctrl_tcp_send pf c header
          in if \<not> sent then Some (c, CHIAKI_ERR_NETWORK)
             else if enc = [] then Some (c, CHIAKI_ERR_SUCCESS)
             else
               let (c, sent) = ctrl_tcp_send pf c enc
               in Some (c, if sent then CHIAKI_ERR_SUCCESS else CHIAKI_ERR_NETWORK))"

definition ctrl_message_send :: "ctrl_platform \<Rightarrow> ctrl \<Rightarrow> u16 \<Rightarrow> bytes option \<Rightarrow> (ctrl \<times> ChiakiErrorCode) option" where
  "ctrl_message_send pf c type payload =
     (case payload of
        Some (p # ps) \<Rightarrow>
          if \<not> cp_alloc pf (length (p # ps)) then Some (c, CHIAKI_ERR_MEMORY)
          else
            let counter = payload_counter c type;
                c = c\<lparr>ct_crypt_counter_local := ct_crypt_counter_local c + 1\<rparr>
            in (case chiaki_rpcrypt_encrypt (cp_crypt pf) (ss_rpcrypt c) counter (p # ps) of
                  Inl err \<Rightarrow> Some (c, err)
                | Inr enc \<Rightarrow> ctrl_message_transmit pf c type enc)
      | _ \<Rightarrow> ctrl_message_transmit pf c type [])"

definition ctrl_message_go_home :: "ctrl_platform \<Rightarrow> ctrl \<Rightarrow> (ctrl \<times> ChiakiErrorCode) option" where
  "ctrl_message_go_home pf c =
     ctrl_message_send pf c CTRL_MESSAGE_TYPE_GO_HOME (Some ([0x00, 0xff] @ replicate 14 0x00))"

definition ctrl_message_connect_microphone :: "ctrl_platform \<Rightarrow> ctrl \<Rightarrow> (ctrl \<times> ChiakiErrorCode) option" where
  "ctrl_message_connect_microphone pf c =
     ctrl_message_send pf c CTRL_MESSAGE_TYPE_MIC_CONNECT (Some [0x00, 0x00])"

definition ctrl_message_toggle_microphone :: "ctrl_platform \<Rightarrow> ctrl \<Rightarrow> bool \<Rightarrow> (ctrl \<times> ChiakiErrorCode) option" where
  "ctrl_message_toggle_microphone pf c muted =
     ctrl_message_send pf c CTRL_MESSAGE_TYPE_MIC_TOGGLE (Some [0, 1, if muted then 0 else 1, 89])"

text \<open>
  The results of the sends are not used.
\<close>

fun send_all :: "ctrl_platform \<Rightarrow> ctrl \<Rightarrow> (u16 \<times> bytes option) list \<Rightarrow> ctrl option" where
  "send_all pf c [] = Some c"
| "send_all pf c ((type, payload) # ms) = do {
     (c, _) \<leftarrow> ctrl_message_send pf c type payload;
     send_all pf c ms
   }"

definition feature_messages :: "ctrl \<Rightarrow> (u16 \<times> bytes option) list" where
  "feature_messages c =
     (if ss_enable_dualsense c then
        [(CTRL_MESSAGE_TYPE_ENABLE_DUALSENSE_FEATURES, Some [0x00, 0x40, 0x00]),
         (0x11, Some [0xa0, 0xab, 0x51, 0xbd, 0xd1, 0x7e, 0x00, 0x00, 0xff, 0xff, 0xff, 0xff, 0xff, 0x00, 0x00, 0x00])]
      else []) @
     (if ss_enable_keyboard c then
        [(CTRL_MESSAGE_TYPE_KEYBOARD_ENABLE,
           Some [0x00, 0x00, 0x00, 0x01, 0x00, 0x00, 0x05, 0xAE, 0x00, 0x00, 0x00, 0x00, 0x00, 0x00, 0x00, 0x00]),
         (CTRL_MESSAGE_TYPE_KEYBOARD_ENABLE_TOGGLE, Some [1])]
      else []) @
     [(CTRL_MESSAGE_TYPE_MIC_TOGGLE, Some [0, 1, 1, 89]), (CTRL_MESSAGE_TYPE_MIC_TOGGLE, Some [0, 1, 1, 89]),
      (CTRL_MESSAGE_TYPE_DISPLAY_DEVICES, Some [0x00, 0x00, 0x00, 0x00])]"

definition ctrl_enable_features :: "ctrl_platform \<Rightarrow> ctrl \<Rightarrow> ctrl option" where
  "ctrl_enable_features pf c = send_all pf c (feature_messages c)"

section \<open>Session id\<close>

text \<open>
  The array has 80 bytes. At most 15 digits of the seconds are written, but \<open>len\<close> counts all of them,
  and the encoded random bytes take up to 65 bytes from \<open>len\<close> on.
\<close>

definition fallback_id :: "nat \<Rightarrow> bytes \<Rightarrow> (ChiakiErrorCode + bytes) option" where
  "fallback_id seconds rand_bytes =
     (let digits = decimal seconds; len = length digits
      in case chiaki_base64_encode rand_bytes 65 of
           Inl err \<Rightarrow> Some (Inl err)
         | Inr b64 \<Rightarrow> if len + length b64 > 80 \<or> len > 15 then None else Some (Inr (digits @ b64)))"

definition ctrl_message_set_fallback_session_id :: "ctrl_platform \<Rightarrow> ctrl \<Rightarrow> (ctrl \<times> ChiakiErrorCode) option" where
  "ctrl_message_set_fallback_session_id pf c =
     (case cp_random pf of
        Inl err \<Rightarrow> Some (c, err)
      | Inr rand_bytes \<Rightarrow> do {
          r \<leftarrow> fallback_id (cp_seconds pf) rand_bytes;
          (case r of
             Inl err \<Rightarrow> Some (c, err)
           | Inr id_str \<Rightarrow>
               if ss_ctrl_session_id_received c then Some (c, CHIAKI_ERR_SUCCESS)
               else Some (c\<lparr>ss_session_id := id_str, ss_ctrl_session_id_received := True\<rparr>, CHIAKI_ERR_SUCCESS))
        })"

definition session_id_char :: "u8 \<Rightarrow> bool" where
  "session_id_char ch \<longleftrightarrow>
     of_char (CHR ''a'') \<le> ch \<and> ch \<le> of_char (CHR ''z'') \<or>
     of_char (CHR ''A'') \<le> ch \<and> ch \<le> of_char (CHR ''Z'') \<or>
     of_char (CHR ''0'') \<le> ch \<and> ch \<le> of_char (CHR ''9'')"

definition CHIAKI_SESSION_ID_SIZE_MAX :: nat where
  "CHIAKI_SESSION_ID_SIZE_MAX = 80"

section \<open>Handlers\<close>

text \<open>
  A handler gets the buffer from the payload on, which has more bytes than the payload, and the size
  of the payload.
\<close>

definition ctrl_message_received_session_id :: "ctrl_platform \<Rightarrow> ctrl \<Rightarrow> bytes \<Rightarrow> nat \<Rightarrow> ctrl option" where
  "ctrl_message_received_session_id pf c payload payload_size =
     (let fallback = map_option fst (ctrl_message_set_fallback_session_id pf c)
      in if ss_ctrl_session_id_received c then Some c
         else if payload_size < 2 then fallback
         else do {
           id_str \<leftarrow> rd_n payload 1 (payload_size - 1);
           if payload_size - 1 \<ge> CHIAKI_SESSION_ID_SIZE_MAX - 1 then fallback
           else if payload_size - 1 < 24 then fallback
           else if \<not> list_all session_id_char id_str then fallback
           else Some (c\<lparr>ss_session_id := id_str @ [0], ss_ctrl_session_id_received := True\<rparr>)
         })"

definition ctrl_message_received_heartbeat_req :: "ctrl_platform \<Rightarrow> ctrl \<Rightarrow> ctrl option" where
  "ctrl_message_received_heartbeat_req pf c =
     map_option fst (ctrl_message_send pf c CTRL_MESSAGE_TYPE_HEARTBEAT_REP None)"

definition ctrl_message_received_switch_to_stream_connection :: "ctrl \<Rightarrow> ctrl" where
  "ctrl_message_received_switch_to_stream_connection c =
     (if \<not> ss_stream_connection_switch_received c then chiaki_session_set_stream_connection_switch_received c else c)"

definition ctrl_message_received_login_pin_req :: "ctrl \<Rightarrow> ctrl" where
  "ctrl_message_received_login_pin_req c = c\<lparr>ct_login_pin_requested := True, ss_ctrl_login_pin_requested := True\<rparr>"

definition cantdisplay_cb :: "ctrl \<Rightarrow> bool \<Rightarrow> ctrl" where
  "cantdisplay_cb c cant_display = c\<lparr>ss_display := ss_display c @ [cant_display]\<rparr>"

definition ctrl_message_received_displaya :: "ctrl \<Rightarrow> bytes \<Rightarrow> ctrl option" where
  "ctrl_message_received_displaya c payload = do {
     p \<leftarrow> rd8 payload 0;
     if p = 0x1 then Some (c\<lparr>ct_cant_displaya := True\<rparr>)
     else if p = 0x0 \<and> \<not> ct_cant_displayb c then Some (cantdisplay_cb (c\<lparr>ct_cant_displaya := False\<rparr>) False)
     else Some c
   }"

definition ctrl_message_received_displayb :: "ctrl \<Rightarrow> bytes \<Rightarrow> ctrl option" where
  "ctrl_message_received_displayb c payload = do {
     p0 \<leftarrow> rd8 payload 0;
     p1 \<leftarrow> rd8 payload 1;
     let c = (if ct_cant_displaya c \<and> p0 = 0x00 \<and> p1 = 0x00 \<and> \<not> ct_cant_displayb c
              then (cantdisplay_cb c True)\<lparr>ct_cant_displayb := True\<rparr> else c);
     Some (if ct_cant_displayb c \<and> p0 = 0x01 \<and> p1 = 0xff then c\<lparr>ct_cant_displayb := False\<rparr> else c)
   }"

definition ctrl_message_received_login :: "ctrl \<Rightarrow> bytes \<Rightarrow> nat \<Rightarrow> ctrl option" where
  "ctrl_message_received_login c payload payload_size =
     (if payload_size < 1 then Some c
      else do {
        state \<leftarrow> rd8 payload 0;
        if state = 0x0 then Some (c\<lparr>ct_login_pin_requested := False\<rparr>)
        else if state = 0x1 then
          Some (if ct_login_pin_requested c then c\<lparr>ss_ctrl_login_pin_requested := True\<rparr> else c)
        else Some c
      })"

text \<open>
  The text behind a structure of \<open>struct_size\<close> bytes whose length is at \<open>off\<close>; a failed assertion is
  \<^term>\<open>None\<close>. The text is null when it is empty or when \<^verbatim>\<open>malloc\<close> fails.
\<close>

definition keyboard_text :: "ctrl_platform \<Rightarrow> nat \<Rightarrow> nat \<Rightarrow> bytes \<Rightarrow> nat \<Rightarrow> bytes option option" where
  "keyboard_text pf struct_size off payload payload_size =
     (if payload_size < struct_size then None
      else do {
        text_length \<leftarrow> rd32 payload off;
        if payload_size \<noteq> struct_size + unat text_length then None
        else if text_length > 0 \<and> cp_alloc pf (unat text_length + 1)
        then map_option Some (rd_n payload struct_size (unat text_length))
        else Some None
      })"

definition ctrl_message_received_keyboard_open :: "ctrl_platform \<Rightarrow> ctrl \<Rightarrow> bytes \<Rightarrow> nat \<Rightarrow> ctrl option" where
  "ctrl_message_received_keyboard_open pf c payload payload_size = do {
     text_str \<leftarrow> keyboard_text pf 32 28 payload payload_size;
     Some (chiaki_session_send_event c (EVENT_KEYBOARD_OPEN text_str))
   }"

definition ctrl_message_received_keyboard_close :: "ctrl \<Rightarrow> ctrl" where
  "ctrl_message_received_keyboard_close c = chiaki_session_send_event c EVENT_KEYBOARD_REMOTE_CLOSE"

definition ctrl_message_received_keyboard_text_change :: "ctrl_platform \<Rightarrow> ctrl \<Rightarrow> bytes \<Rightarrow> nat \<Rightarrow> ctrl option" where
  "ctrl_message_received_keyboard_text_change pf c payload payload_size = do {
     text_str \<leftarrow> keyboard_text pf 40 8 payload payload_size;
     Some (chiaki_session_send_event c (EVENT_KEYBOARD_TEXT_CHANGE text_str))
   }"

text \<open>The dispatch of a decrypted message.\<close>

definition ctrl_message_handle :: "ctrl_platform \<Rightarrow> ctrl \<Rightarrow> u16 \<Rightarrow> bytes \<Rightarrow> nat \<Rightarrow> ctrl option" where
  "ctrl_message_handle pf c msg_type payload payload_size =
     (if msg_type = CTRL_MESSAGE_TYPE_SESSION_ID then do {
        c \<leftarrow> ctrl_message_received_session_id pf c payload payload_size;
        ctrl_enable_features pf c
      }
      else if msg_type = CTRL_MESSAGE_TYPE_HEARTBEAT_REQ then ctrl_message_received_heartbeat_req pf c
      else if msg_type = CTRL_MESSAGE_TYPE_LOGIN_PIN_REQ then Some (ctrl_message_received_login_pin_req c)
      else if msg_type = CTRL_MESSAGE_TYPE_LOGIN then ctrl_message_received_login c payload payload_size
      else if msg_type = CTRL_MESSAGE_TYPE_KEYBOARD_OPEN
      then ctrl_message_received_keyboard_open pf c payload payload_size
      else if msg_type = CTRL_MESSAGE_TYPE_KEYBOARD_TEXT_CHANGE_RES
      then ctrl_message_received_keyboard_text_change pf c payload payload_size
      else if msg_type = CTRL_MESSAGE_TYPE_KEYBOARD_CLOSE_REMOTE then Some (ctrl_message_received_keyboard_close c)
      else if msg_type = CTRL_MESSAGE_TYPE_DISPLAYA then ctrl_message_received_displaya c payload
      else if msg_type = CTRL_MESSAGE_TYPE_DISPLAYB then ctrl_message_received_displayb c payload
      else if msg_type = CTRL_MESSAGE_TYPE_SWITCH_TO_STREAM_CONNECTION
      then Some (ctrl_message_received_switch_to_stream_connection c)
      else Some c)"

text \<open>
  The payload, at offset 8 of the receive buffer, is decrypted in place. A size that is negative as an
  \<^verbatim>\<open>int\<close> makes the decryption fail before it reads the payload; otherwise a payload that does not lie
  inside of the buffer is \<^term>\<open>None\<close>.
\<close>

definition ctrl_message_received :: "ctrl_platform \<Rightarrow> ctrl \<Rightarrow> u16 \<Rightarrow> nat \<Rightarrow> ctrl option" where
  "ctrl_message_received pf c msg_type payload_size =
     (if payload_size > 0 then
        let counter = ct_crypt_counter_remote c; c = c\<lparr>ct_crypt_counter_remote := counter + 1\<rparr>
        in if crypt_size payload_size < 0 then Some c
           else do {
             payload \<leftarrow> rd_n (ct_recv_buf c) 8 payload_size;
             (case chiaki_rpcrypt_decrypt (cp_crypt pf) (ss_rpcrypt c) counter payload of
                Inl err \<Rightarrow> Some c
              | Inr dec \<Rightarrow> do {
                  buf \<leftarrow> wr (ct_recv_buf c) 8 dec;
                  ctrl_message_handle pf (c\<lparr>ct_recv_buf := buf\<rparr>) msg_type (drop 8 buf) payload_size
                })
           }
      else ctrl_message_handle pf c msg_type (drop 8 (ct_recv_buf c)) payload_size)"

section \<open>The thread\<close>

text \<open>
  \<^verbatim>\<open>memmove(recv_buf, recv_buf + n, left)\<close>.
\<close>

definition shift_buf :: "bytes \<Rightarrow> nat \<Rightarrow> nat \<Rightarrow> bytes option" where
  "shift_buf buf n left = do { moved \<leftarrow> rd_n buf n left; wr buf 0 moved }"

text \<open>
  The messages in the buffer are handled; the result says whether the buffer is too small for the next
  one. The size with the header is computed in 32 bits, but the address of the rest of the buffer is not:
  the size of the payload is added to a pointer.
\<close>

partial_function (option) ctrl_messages :: "ctrl_platform \<Rightarrow> ctrl \<Rightarrow> (ctrl \<times> bool) option" where
  [code]: "ctrl_messages pf c =
     (if ct_recv_buf_size c < 8 then Some (c, False)
      else do {
        payload_size \<leftarrow> rd32 (ct_recv_buf c) 0;
        let total = unat (8 + payload_size);
        if ct_recv_buf_size c < total then Some (c, total > length (ct_recv_buf c))
        else do {
          msg_type \<leftarrow> rd16 (ct_recv_buf c) 4;
          c \<leftarrow> ctrl_message_received pf c msg_type (unat payload_size);
          let left = ct_recv_buf_size c - total;
          buf \<leftarrow> (if left > 0 then shift_buf (ct_recv_buf c) (8 + unat payload_size) left else Some (ct_recv_buf c));
          ctrl_messages pf (c\<lparr>ct_recv_buf := buf, ct_recv_buf_size := left\<rparr>)
        }
      })"

text \<open>
  What happens after the wait: the pipe was signalled, the wait failed, or \<^verbatim>\<open>recv\<close> failed or
  gave bytes, none when the peer closed the connection.
\<close>

datatype ctrl_input =
    Ctrl_Notified
  | Ctrl_Select_Error ChiakiErrorCode
  | Ctrl_Recv_Error
  | Ctrl_Received bytes

text \<open>The pipe was signalled: whether the thread goes on.\<close>

definition ctrl_notified :: "ctrl_platform \<Rightarrow> ctrl \<Rightarrow> (ctrl \<times> bool) option" where
  "ctrl_notified pf c = do {
     let msg_queue_updated = (ct_msg_queue c \<noteq> []);
     c \<leftarrow> send_all pf c (ct_msg_queue c);
     let c = c\<lparr>ct_msg_queue := []\<rparr>;
     if ct_login_pin_entered c then do {
       (c, _) \<leftarrow> ctrl_message_send pf c CTRL_MESSAGE_TYPE_LOGIN_PIN_REP (ct_login_pin c);
       Some (c\<lparr>ct_login_pin_entered := False, ct_login_pin := None, ct_notified := False\<rparr>, True)
     }
     else if ct_should_stop c then Some (c, False)
     else Some (if msg_queue_updated then c\<lparr>ct_notified := False\<rparr> else c, True)
   }"

text \<open>The bytes of \<^verbatim>\<open>recv\<close> go behind those that are there.\<close>

definition ctrl_append :: "ctrl \<Rightarrow> bytes \<Rightarrow> ctrl option" where
  "ctrl_append c bs = do {
     buf \<leftarrow> wr (ct_recv_buf c) (ct_recv_buf_size c) bs;
     Some (c\<lparr>ct_recv_buf := buf, ct_recv_buf_size := ct_recv_buf_size c + length bs\<rparr>)
   }"

definition rudp_packet_type_data_offset :: "u8 \<Rightarrow> nat" where
  "rudp_packet_type_data_offset subtype = (if subtype = 0x12 then 8 else if subtype = 0x26 then 6 else 2)"

definition with_rudp :: "ctrl \<Rightarrow> (rudp \<Rightarrow> (rudp \<times> 'a) option) \<Rightarrow> ctrl option" where
  "with_rudp c f = do { r \<leftarrow> ss_rudp c; (r, _) \<leftarrow> f r; Some (c\<lparr>ss_rudp := Some r\<rparr>) }"

definition ack_packet :: "ctrl \<Rightarrow> u16 \<Rightarrow> ctrl option" where
  "ack_packet c counter = with_rudp c (\<lambda>r. map_option (\<lambda>r. (r, ())) (chiaki_rudp_ack_packet r counter))"

definition send_ack :: "ctrl_platform \<Rightarrow> ctrl \<Rightarrow> u16 \<Rightarrow> ctrl option" where
  "send_ack pf c counter = with_rudp c (\<lambda>r. chiaki_rudp_send_ack_message (cp_rudp pf) r counter)"

text \<open>
  The data of a message from an offset on, when they are one control message. The size of the data
  minus the offset is computed in \<^verbatim>\<open>size_t\<close>, so it is huge when the data are shorter.
\<close>

definition take_ctrl_message :: "ctrl \<Rightarrow> bytes \<Rightarrow> nat \<Rightarrow> ctrl option" where
  "take_ctrl_message c data offset =
     (if offset \<le> length data \<and> length data - offset < 8 then Some c
      else do {
        payload_size \<leftarrow> rd32 data offset;
        if offset + 8 + unat payload_size = length data then ctrl_append c (drop offset data) else Some c
      })"

text \<open>
  A received message and the ones that are nested in it. Data that are null are \<^term>\<open>None\<close>. The
  counter of the first message is acknowledged for all of them; \<open>ack_counter\<close> keeps its value.
\<close>

fun ctrl_rudp_messages :: "ctrl_platform \<Rightarrow> ctrl \<Rightarrow> u16 \<Rightarrow> u16 \<Rightarrow> rudp_message \<Rightarrow> ctrl option" where
  "ctrl_rudp_messages pf c remote_counter ack_counter (RudpMessage st t sz d n rc sub ssz) = do {
     (c, ack_counter) \<leftarrow>
       (if st = 0x02 \<or> st = 0x12 \<or> st = 0x26 \<or> st = 0x36 then do {
          data \<leftarrow> d;
          ack_counter \<leftarrow> rd16 data 2;
          c \<leftarrow> ack_packet c ack_counter;
          c \<leftarrow> send_ack pf c remote_counter;
          c \<leftarrow> take_ctrl_message c data (rudp_packet_type_data_offset st);
          Some (c, ack_counter)
        }
        else if st = 0x24 then do {
          data \<leftarrow> d;
          ack_counter \<leftarrow> rd16 data 2;
          c \<leftarrow> ack_packet c ack_counter;
          Some (c, ack_counter)
        }
        else if st = 0xC0 then Some (ctrl_failed c CHIAKI_QUIT_REASON_CTRL_UNKNOWN, ack_counter)
        else do {
          c \<leftarrow> ack_packet c ack_counter;
          c \<leftarrow> send_ack pf c remote_counter;
          data \<leftarrow> d;
          c \<leftarrow> take_ctrl_message c data 4;
          Some (c, ack_counter)
        });
     (case sub of None \<Rightarrow> Some c | Some m \<Rightarrow> ctrl_rudp_messages pf c remote_counter ack_counter m)
   }"

text \<open>What is received: whether the thread goes on.\<close>

definition ctrl_receive :: "ctrl_platform \<Rightarrow> ctrl \<Rightarrow> rudp_input \<Rightarrow> (ctrl \<times> bool) option" where
  "ctrl_receive pf c inp =
     (if ss_rudp c \<noteq> None then do {
        (err, message) \<leftarrow> chiaki_rudp_recv_only (cp_rudp pf) (520 - ct_recv_buf_size c) inp;
        if err \<noteq> CHIAKI_ERR_SUCCESS then Some (ctrl_failed c CHIAKI_QUIT_REASON_CTRL_UNKNOWN, False)
        else do {
          m \<leftarrow> message;
          if rm_data_size m < 4 then Some (ctrl_failed c CHIAKI_QUIT_REASON_CTRL_UNKNOWN, False)
          else map_option (\<lambda>c. (c, True)) (ctrl_rudp_messages pf c (rm_remote_counter m) 0 m)
        }
      }
      else
        (case inp of
           Received bs \<Rightarrow>
             let bs = take (length (ct_recv_buf c) - ct_recv_buf_size c) bs
             in if bs = [] then Some (c, False) else map_option (\<lambda>c. (c, True)) (ctrl_append c bs)
         | _ \<Rightarrow> Some (ctrl_failed c CHIAKI_QUIT_REASON_CTRL_UNKNOWN, False)))"

text \<open>A round of the thread: it handles the messages in the buffer, waits, and handles what happened.\<close>

definition ctrl_round :: "ctrl_platform \<Rightarrow> ctrl \<Rightarrow> ctrl_input \<Rightarrow> (ctrl \<times> bool) option" where
  "ctrl_round pf c inp = do {
     (c, overflow) \<leftarrow> ctrl_messages pf c;
     if overflow then Some (ctrl_failed c CHIAKI_QUIT_REASON_CTRL_UNKNOWN, False)
     else
       (case inp of
          Ctrl_Notified \<Rightarrow> ctrl_notified pf c
        | Ctrl_Select_Error err \<Rightarrow> Some (c, False)
        | Ctrl_Recv_Error \<Rightarrow> ctrl_receive pf c RecvError
        | Ctrl_Received bs \<Rightarrow> ctrl_receive pf c (Received bs))
   }"

text \<open>The rounds until the thread ends or there is no more input.\<close>

fun ctrl_rounds :: "ctrl_platform \<Rightarrow> ctrl \<Rightarrow> ctrl_input list \<Rightarrow> (ctrl \<times> bool) option" where
  "ctrl_rounds pf c [] = Some (c, True)"
| "ctrl_rounds pf c (inp # inps) = do {
     (c, on) \<leftarrow> ctrl_round pf c inp;
     if on then ctrl_rounds pf c inps else Some (c, False)
   }"

end
