(* ===== verification/Ctrl_Props.thy ===== *)
theory Ctrl_Props
  imports Ctrl RPCrypt_Props
begin

text \<open>
  Properties of the control connection: the messages of a stream are handled one by one however the
  stream is cut into pieces, and what is sent is decrypted by the console message by message.
\<close>

section \<open>Handlers do not depend on the buffer\<close>

definition with_buf :: "bytes \<Rightarrow> nat \<Rightarrow> ctrl \<Rightarrow> ctrl" where
  "with_buf b n c = c\<lparr>ct_recv_buf := b, ct_recv_buf_size := n\<rparr>"

lemma with_buf_sel [simp]:
  "ct_recv_buf (with_buf b n c) = b" "ct_recv_buf_size (with_buf b n c) = n"
  "ss_rudp (with_buf b n c) = ss_rudp c" "ct_crypt_counter_remote (with_buf b n c) = ct_crypt_counter_remote c"
  "ss_rpcrypt (with_buf b n c) = ss_rpcrypt c" "ct_crypt_counter_local (with_buf b n c) = ct_crypt_counter_local c"
  "with_buf b' n' (with_buf b n c) = with_buf b' n' c"
  by (simp_all add: with_buf_def)

lemma transmit_with_buf:
  "ctrl_message_transmit pf (with_buf b n c) t enc = map_option (map_prod (with_buf b n) id) (ctrl_message_transmit pf c t enc)"
proof (cases "ss_rudp c")
  case (Some r)
  then show ?thesis
    by (cases "chiaki_rudp_send_ctrl_message (cp_rudp pf) r (ctrl_header (length enc) t @ enc)")
      (auto simp: ctrl_message_transmit_def with_buf_def Let_def)
qed (auto simp: ctrl_message_transmit_def ctrl_tcp_send_def with_buf_def Let_def split: option.splits)

lemma send_with_buf:
  "ctrl_message_send pf (with_buf b n c) t p = map_option (map_prod (with_buf b n) id) (ctrl_message_send pf c t p)"
proof -
  have "with_buf b n c\<lparr>ct_crypt_counter_local := k\<rparr> = with_buf b n (c\<lparr>ct_crypt_counter_local := k\<rparr>)" for k
    by (simp add: with_buf_def)
  moreover have "payload_counter (with_buf b n c) t = payload_counter c t" by (simp add: payload_counter_def with_buf_def)
  ultimately show ?thesis
    by (auto simp: ctrl_message_send_def transmit_with_buf Let_def split: option.split list.split sum.split)
qed

lemma send_all_with_buf: "send_all pf (with_buf b n c) ms = map_option (with_buf b n) (send_all pf c ms)"
proof (induction ms arbitrary: c)
  case (Cons m ms)
  obtain t p where m: "m = (t, p)" by (cases m)
  show ?case
    using Cons.IH by (cases "ctrl_message_send pf c t p") (auto simp: m send_with_buf)
qed simp


lemma fallback_with_buf:
  "ctrl_message_set_fallback_session_id pf (with_buf b n c) =
     map_option (map_prod (with_buf b n) id) (ctrl_message_set_fallback_session_id pf c)"
proof (cases "cp_random pf")
  case (Inr r)
  then show ?thesis
    by (cases "fallback_id (cp_seconds pf) r")
      (auto simp: ctrl_message_set_fallback_session_id_def with_buf_def split: sum.split)
qed (simp add: ctrl_message_set_fallback_session_id_def)

lemma session_id_with_buf:
  "ctrl_message_received_session_id pf (with_buf b n c) p k =
     map_option (with_buf b n) (ctrl_message_received_session_id pf c p k)"
proof -
  have [simp]: "ss_ctrl_session_id_received (with_buf b n c) = ss_ctrl_session_id_received c"
    "with_buf b n (c\<lparr>ss_session_id := i, ss_ctrl_session_id_received := True\<rparr>) =
      with_buf b n c\<lparr>ss_session_id := i, ss_ctrl_session_id_received := True\<rparr>" for i
    by (simp_all add: with_buf_def)
  show ?thesis
    by (cases "rd_n p 1 (k - 1)")
      (simp_all add: ctrl_message_received_session_id_def fallback_with_buf option.map_comp comp_def Let_def)
qed

lemma enable_with_buf:
  "ctrl_enable_features pf (with_buf b n c) = map_option (with_buf b n) (ctrl_enable_features pf c)"
proof -
  have "feature_messages (with_buf b n c) = feature_messages c"
    by (simp add: feature_messages_def with_buf_def)
  then show ?thesis by (simp add: ctrl_enable_features_def send_all_with_buf)
qed

lemma with_buf_flags:
  "ct_cant_displaya (with_buf b n c) = ct_cant_displaya c" "ct_cant_displayb (with_buf b n c) = ct_cant_displayb c"
  "ct_login_pin_requested (with_buf b n c) = ct_login_pin_requested c"
  "(with_buf b n c)\<lparr>ct_cant_displaya := v\<rparr> = with_buf b n (c\<lparr>ct_cant_displaya := v\<rparr>)"
  "(with_buf b n c)\<lparr>ct_cant_displayb := v\<rparr> = with_buf b n (c\<lparr>ct_cant_displayb := v\<rparr>)"
  "(with_buf b n c)\<lparr>ct_login_pin_requested := v\<rparr> = with_buf b n (c\<lparr>ct_login_pin_requested := v\<rparr>)"
  "(with_buf b n c)\<lparr>ss_ctrl_login_pin_requested := v\<rparr> = with_buf b n (c\<lparr>ss_ctrl_login_pin_requested := v\<rparr>)"
  "cantdisplay_cb (with_buf b n c) v = with_buf b n (cantdisplay_cb c v)"
  by (simp_all add: with_buf_def cantdisplay_cb_def)

lemma login_with_buf:
  "ctrl_message_received_login (with_buf b n c) p k = map_option (with_buf b n) (ctrl_message_received_login c p k)"
proof (cases "rd8 p 0")
  case (Some x)
  show ?thesis
    by (simp only: ctrl_message_received_login_def Some bind.bind_lunit with_buf_flags
        if_distrib [of "with_buf b n"] if_distrib [of "map_option (with_buf b n)"] option.map cong: if_cong)
qed (simp add: ctrl_message_received_login_def)

lemma displaya_with_buf:
  "ctrl_message_received_displaya (with_buf b n c) p = map_option (with_buf b n) (ctrl_message_received_displaya c p)"
proof (cases "rd8 p 0")
  case (Some x)
  show ?thesis
    by (simp only: ctrl_message_received_displaya_def Some bind.bind_lunit with_buf_flags
        if_distrib [of "with_buf b n"] if_distrib [of "map_option (with_buf b n)"] option.map cong: if_cong)
qed (simp add: ctrl_message_received_displaya_def)

lemma displayb_with_buf:
  "ctrl_message_received_displayb (with_buf b n c) p = map_option (with_buf b n) (ctrl_message_received_displayb c p)"
proof (cases "rd8 p 0")
  case x: (Some x)
  show ?thesis
  proof (cases "rd8 p 1")
    case (Some y)
    define d where "d = (if ct_cant_displaya c \<and> x = 0x00 \<and> y = 0x00 \<and> \<not> ct_cant_displayb c
              then (cantdisplay_cb c True)\<lparr>ct_cant_displayb := True\<rparr> else c)"
    have "(if ct_cant_displaya (with_buf b n c) \<and> x = 0x00 \<and> y = 0x00 \<and> \<not> ct_cant_displayb (with_buf b n c)
              then (cantdisplay_cb (with_buf b n c) True)\<lparr>ct_cant_displayb := True\<rparr> else with_buf b n c) = with_buf b n d"
      by (simp only: d_def with_buf_flags if_distrib [of "with_buf b n"])
    then show ?thesis
      by (simp only: ctrl_message_received_displayb_def x Some bind.bind_lunit Let_def d_def [symmetric] with_buf_flags
          if_distrib [of "with_buf b n"] if_distrib [of "map_option (with_buf b n)"] option.map)
  qed (simp add: ctrl_message_received_displayb_def x)
qed (simp add: ctrl_message_received_displayb_def)

lemma event_with_buf: "chiaki_session_send_event (with_buf b n c) e = with_buf b n (chiaki_session_send_event c e)"
  by (simp add: chiaki_session_send_event_def with_buf_def)

lemma keyboard_with_buf:
  "ctrl_message_received_keyboard_open pf (with_buf b n c) p k =
     map_option (with_buf b n) (ctrl_message_received_keyboard_open pf c p k)"
  "ctrl_message_received_keyboard_text_change pf (with_buf b n c) p k =
     map_option (with_buf b n) (ctrl_message_received_keyboard_text_change pf c p k)"
  "ctrl_message_received_keyboard_close (with_buf b n c) = with_buf b n (ctrl_message_received_keyboard_close c)"
  by (cases "keyboard_text pf 32 28 p k"; simp add: ctrl_message_received_keyboard_open_def event_with_buf)
    (cases "keyboard_text pf 40 8 p k"; simp add: ctrl_message_received_keyboard_text_change_def
      ctrl_message_received_keyboard_close_def event_with_buf)+

lemma flags_with_buf:
  "ctrl_message_received_login_pin_req (with_buf b n c) = with_buf b n (ctrl_message_received_login_pin_req c)"
  "ctrl_message_received_switch_to_stream_connection (with_buf b n c) =
     with_buf b n (ctrl_message_received_switch_to_stream_connection c)"
  by (simp_all add: ctrl_message_received_login_pin_req_def ctrl_message_received_switch_to_stream_connection_def
      chiaki_session_set_stream_connection_switch_received_def with_buf_def)

lemma heartbeat_with_buf:
  "ctrl_message_received_heartbeat_req pf (with_buf b n c) = map_option (with_buf b n) (ctrl_message_received_heartbeat_req pf c)"
  by (simp add: ctrl_message_received_heartbeat_req_def send_with_buf option.map_comp comp_def)

lemma handle_with_buf:
  "ctrl_message_handle pf (with_buf b n c) t p k = map_option (with_buf b n) (ctrl_message_handle pf c t p k)"
proof -
  have enable: "map_option (with_buf b n) x \<bind> ctrl_enable_features pf =
      map_option (with_buf b n) (x \<bind> ctrl_enable_features pf)" for x
    by (cases x) (simp_all add: enable_with_buf)
  show ?thesis
    unfolding ctrl_message_handle_def
    by (simp only: session_id_with_buf login_with_buf displaya_with_buf displayb_with_buf keyboard_with_buf
        flags_with_buf heartbeat_with_buf enable option.map if_distrib [of "map_option (with_buf b n)"])
qed

text \<open>What is behind the payload is not read when the payload is complete.\<close>

definition complete_payload :: "u16 \<Rightarrow> nat \<Rightarrow> bool" where
  "complete_payload t n \<longleftrightarrow>
     (t = CTRL_MESSAGE_TYPE_DISPLAYA \<longrightarrow> 1 \<le> n) \<and> (t = CTRL_MESSAGE_TYPE_DISPLAYB \<longrightarrow> 2 \<le> n)"

lemma keyboard_text_tail:
  assumes "off + 4 \<le> struct_size"
  shows "keyboard_text pf struct_size off (p @ tail) (length p) = keyboard_text pf struct_size off p (length p)"
  using assms by (auto simp: keyboard_text_def rd32_def rd16_def rd8_def rd_n_def nth_append split: bind_split)

lemma handle_tail:
  assumes "complete_payload t (length p)"
  shows "ctrl_message_handle pf c t (p @ tail) (length p) = ctrl_message_handle pf c t p (length p)"
proof -
  have "ctrl_message_received_session_id pf c (p @ tail) (length p) = ctrl_message_received_session_id pf c p (length p)"
    by (auto simp: ctrl_message_received_session_id_def rd_n_def Let_def)
  moreover have "ctrl_message_received_login c (p @ tail) (length p) = ctrl_message_received_login c p (length p)"
    by (auto simp: ctrl_message_received_login_def rd8_def nth_append Suc_le_eq)
  moreover have "t = CTRL_MESSAGE_TYPE_DISPLAYA \<Longrightarrow> ctrl_message_received_displaya c (p @ tail) = ctrl_message_received_displaya c p"
    "t = CTRL_MESSAGE_TYPE_DISPLAYB \<Longrightarrow> ctrl_message_received_displayb c (p @ tail) = ctrl_message_received_displayb c p"
    using assms by (auto simp: ctrl_message_received_displaya_def ctrl_message_received_displayb_def
        complete_payload_def rd8_def nth_append ctrl_message_types)
  ultimately show ?thesis
    by (auto simp: ctrl_message_handle_def ctrl_message_received_keyboard_open_def
        ctrl_message_received_keyboard_text_change_def keyboard_text_tail)
qed

section \<open>The messages of a stream\<close>

text \<open>The complete messages of a stream, with their types and encrypted payloads, and what is left.\<close>

function frames :: "bytes \<Rightarrow> (u16 \<times> bytes) list \<times> bytes" where
  "frames bs =
     (if length bs < 8 then ([], bs)
      else let n = unat (the (rd32 bs 0))
        in if length bs < 8 + n then ([], bs)
           else let (ms, r) = frames (drop (8 + n) bs) in ((the (rd16 bs 4), take n (drop 8 bs)) # ms, r))"
  by pat_completeness auto
termination by (relation "measure length") auto

declare frames.simps [simp del]

text \<open>Every message that is announced fits into the buffer, and those about the display are complete.\<close>

function frames_fit :: "bytes \<Rightarrow> bool" where
  "frames_fit bs =
     (if length bs < 8 then True
      else let n = unat (the (rd32 bs 0))
        in if n > 504 then False
           else if length bs < 8 + n then True
           else if \<not> complete_payload (the (rd16 bs 4)) n then False
           else frames_fit (drop (8 + n) bs))"
  by pat_completeness auto
termination by (relation "measure length") auto

declare frames_fit.simps [simp del]

lemma frames_fit_short: "length bs < 8 \<Longrightarrow> frames_fit bs"
  by (subst frames_fit.simps) simp

lemma frames_fit_long:
  "8 \<le> length bs \<Longrightarrow> n = unat (the (rd32 bs 0)) \<Longrightarrow> frames_fit bs \<longleftrightarrow>
     n \<le> 504 \<and> (length bs < 8 + n \<or> complete_payload (the (rd16 bs 4)) n \<and> frames_fit (drop (8 + n) bs))"
  by (subst frames_fit.simps) (simp add: Let_def)

text \<open>What the protocol does with one message, and with the messages of a stream one by one.\<close>

definition frame_step :: "ctrl_platform \<Rightarrow> ctrl \<Rightarrow> u16 \<times> bytes \<Rightarrow> ctrl option" where
  "frame_step pf c m =
     (case m of (t, p) \<Rightarrow>
        if p = [] then ctrl_message_handle pf c t [] 0
        else
          let counter = ct_crypt_counter_remote c; c = c\<lparr>ct_crypt_counter_remote := counter + 1\<rparr>
          in case chiaki_rpcrypt_decrypt (cp_crypt pf) (ss_rpcrypt c) counter p of
               Inl err \<Rightarrow> Some c
             | Inr dec \<Rightarrow> ctrl_message_handle pf c t dec (length dec))"

fun frames_run :: "ctrl_platform \<Rightarrow> ctrl \<Rightarrow> (u16 \<times> bytes) list \<Rightarrow> ctrl option" where
  "frames_run pf c [] = Some c"
| "frames_run pf c (m # ms) = do { c \<leftarrow> frame_step pf c m; frames_run pf c ms }"

lemma rd_prefix:
  "i + 4 \<le> length a \<Longrightarrow> rd32 (a @ b) i = rd32 a i"
  "i + 2 \<le> length a \<Longrightarrow> rd16 (a @ b) i = rd16 a i"
  by (simp_all add: rd32_def rd16_def rd8_def nth_append)

lemma frames_append:
  "frames (a @ b) = (fst (frames a) @ fst (frames (snd (frames a) @ b)), snd (frames (snd (frames a) @ b)))"
proof (induction a rule: frames.induct)
  case (1 a)
  define n where "n = unat (the (rd32 a 0))"
  show ?case
  proof (cases "length a < 8 + n")
    case True
    then have "frames a = ([], a)" by (subst frames.simps) (simp add: n_def Let_def)
    then show ?thesis by simp
  next
    case False
    then have l: "8 \<le> length a" by simp
    obtain ms r where f: "frames (drop (8 + n) a) = (ms, r)" by (cases "frames (drop (8 + n) a)")
    have fa: "frames a = ((the (rd16 a 4), take n (drop 8 a)) # ms, r)"
      using False l f by (subst frames.simps) (simp add: n_def [symmetric])
    have "frames (a @ b) = (let (ms, r) = frames (drop (8 + n) a @ b) in ((the (rd16 a 4), take n (drop 8 a)) # ms, r))"
      using False l by (subst frames.simps) (simp add: rd_prefix n_def [symmetric])
    moreover have "frames (drop (8 + n) a @ b) = (ms @ fst (frames (r @ b)), snd (frames (r @ b)))"
      using 1 [OF _ n_def] l False f by (simp add: not_less)
    ultimately show ?thesis using fa by simp
  qed
qed

lemma frames_fit_append:
  "frames_fit (a @ b) \<Longrightarrow> frames_fit a \<and> frames_fit (snd (frames a) @ b)"
proof (induction a rule: frames.induct)
  case (1 a)
  define n where "n = unat (the (rd32 a 0))"
  show ?case
  proof (cases "length a < 8 + n")
    case True
    then have "frames a = ([], a)" by (subst frames.simps) (simp add: n_def Let_def)
    moreover have "frames_fit a"
    proof (cases "length a < 8")
      case False
      then have "n \<le> 504" using 1(2) frames_fit_long [of "a @ b" n] by (simp add: rd_prefix n_def)
      then show ?thesis using True False frames_fit_long [OF _ n_def] by simp
    qed (simp add: frames_fit_short)
    ultimately show ?thesis using 1(2) by simp
  next
    case False
    then have l: "8 \<le> length a" by simp
    have fit: "n \<le> 504" "complete_payload (the (rd16 a 4)) n" "frames_fit (drop (8 + n) a @ b)"
      using 1(2) False l frames_fit_long [of "a @ b" n] by (simp_all add: rd_prefix n_def [symmetric])
    have "snd (frames a) = snd (frames (drop (8 + n) a))"
      using False l by (subst frames.simps) (simp add: n_def [symmetric] split: prod.split)
    moreover have "frames_fit (drop (8 + n) a) \<and> frames_fit (snd (frames (drop (8 + n) a)) @ b)"
      using 1(1) [OF _ n_def] l False fit(3) by (simp add: not_less)
    ultimately show ?thesis
      using fit l frames_fit_long [OF _ n_def] by simp
  qed
qed

lemma frame_step_with_buf: "frame_step pf (with_buf b n c) m = map_option (with_buf b n) (frame_step pf c m)"
proof -
  have "(with_buf b n c)\<lparr>ct_crypt_counter_remote := k\<rparr> = with_buf b n (c\<lparr>ct_crypt_counter_remote := k\<rparr>)" for k
    by (simp add: with_buf_def)
  then show ?thesis
    by (simp add: frame_step_def handle_with_buf Let_def split: prod.split sum.split)
qed

lemma frames_run_with_buf: "frames_run pf (with_buf b n c) ms = map_option (with_buf b n) (frames_run pf c ms)"
proof (induction ms arbitrary: c)
  case (Cons m ms)
  then show ?case by (cases "frame_step pf c m") (simp_all add: frame_step_with_buf)
qed simp

lemma decrypt_length: "length p < 2 ^ 31 \<Longrightarrow> chiaki_rpcrypt_decrypt pf rc k p = Inr d \<Longrightarrow> length d = length p"
  by (auto simp: chiaki_rpcrypt_decrypt_def crypt_small split: if_splits sum.splits option.splits)

lemma handle_keeps_buf:
  assumes "ctrl_message_handle pf c t p k = Some c'"
  shows "with_buf (ct_recv_buf c) (ct_recv_buf_size c) c' = c'"
proof -
  have "with_buf (ct_recv_buf c) (ct_recv_buf_size c) c = c" by (simp add: with_buf_def)
  then show ?thesis using handle_with_buf [of pf "ct_recv_buf c" "ct_recv_buf_size c" c t p k] assms by simp
qed

text \<open>One message at the start of the buffer.\<close>

lemma received_frame:
  assumes n: "8 + n \<le> length (ct_recv_buf c)" "length (ct_recv_buf c) = 512" and t: "complete_payload t n"
    and step: "frame_step pf c (t, take n (drop 8 (ct_recv_buf c))) = Some c'"
  shows "\<exists>b. ctrl_message_received pf c t n = Some (with_buf b (ct_recv_buf_size c) c') \<and>
    length b = length (ct_recv_buf c) \<and> drop (8 + n) b = drop (8 + n) (ct_recv_buf c)"
proof -
  define buf where "buf = ct_recv_buf c"
  define p where "p = take n (drop 8 buf)"
  have lp: "length p = n" using n by (simp add: p_def buf_def)
  show ?thesis
  proof (cases "n = 0")
    case True
    then have "ctrl_message_handle pf c t ([] @ drop 8 buf) (length ([] :: bytes)) = ctrl_message_handle pf c t [] 0"
      using t by (subst handle_tail) simp_all
    moreover have "ctrl_message_handle pf c t [] 0 = Some c'" using True step by (simp add: frame_step_def)
    ultimately have "ctrl_message_handle pf c t (drop 8 buf) 0 = Some c'" by simp
    then have "ctrl_message_received pf c t n = Some c'" using True by (simp add: ctrl_message_received_def buf_def)
    moreover have "with_buf buf (ct_recv_buf_size c) c' = c'"
      using handle_keeps_buf calculation True by (simp add: ctrl_message_received_def buf_def)
    ultimately show ?thesis by (intro exI [of _ buf]) (simp add: buf_def)
  next
    case False
    then have pn: "p \<noteq> []" using lp by auto
    define d where "d = c\<lparr>ct_crypt_counter_remote := ct_crypt_counter_remote c + 1\<rparr>"
    have rd: "rd_n buf 8 n = Some p" using n by (simp add: rd_n_def p_def buf_def)
    have small: "n < 2 ^ 31" "\<not> crypt_size n < 0" using n crypt_size_small [of n] by simp_all
    show ?thesis
    proof (cases "chiaki_rpcrypt_decrypt (cp_crypt pf) (ss_rpcrypt c) (ct_crypt_counter_remote c) p")
      case (Inl err)
      then have "c' = d" using step pn by (simp add: frame_step_def d_def Let_def p_def buf_def)
      moreover have "ctrl_message_received pf c t n = Some d"
        using False rd small Inl by (simp add: ctrl_message_received_def d_def Let_def buf_def)
      moreover have "with_buf buf (ct_recv_buf_size c) d = d" by (simp add: with_buf_def d_def buf_def)
      ultimately show ?thesis by (intro exI [of _ buf]) (simp add: buf_def)
    next
      case (Inr dec)
      then have ld: "length dec = n" using decrypt_length lp small(1) by metis
      have h: "ctrl_message_handle pf d t dec (length dec) = Some c'"
        using step pn Inr by (simp add: frame_step_def d_def Let_def p_def buf_def)
      obtain b where b: "wr buf 8 dec = Some b" "b = take 8 buf @ dec @ drop (8 + n) buf"
        using n ld by (auto simp: wr_def upd_def buf_def)
      have "with_buf b (ct_recv_buf_size c) d = d\<lparr>ct_recv_buf := b\<rparr>" by (simp add: with_buf_def d_def)
      then have "ctrl_message_received pf c t n =
          ctrl_message_handle pf (with_buf b (ct_recv_buf_size c) d) t (dec @ drop (8 + n) buf) (length dec)"
        using False rd small Inr b n ld by (simp add: ctrl_message_received_def d_def Let_def buf_def)
      also have "\<dots> = Some (with_buf b (ct_recv_buf_size c) c')"
        using handle_tail [of t dec pf d "drop (8 + n) buf"] t ld h by (simp add: handle_with_buf)
      finally show ?thesis using b(2) n ld by (intro exI [of _ b]) (simp add: buf_def)
    qed
  qed
qed

text \<open>All complete messages in the buffer.\<close>

lemma ctrl_messages_frames:
  assumes "ct_recv_buf_size c \<le> length (ct_recv_buf c)" "length (ct_recv_buf c) = 512"
    and "bs = take (ct_recv_buf_size c) (ct_recv_buf c)" "frames_fit bs" "frames_run pf c (fst (frames bs)) = Some c'"
  shows "\<exists>b. ctrl_messages pf c = Some (with_buf b (length (snd (frames bs))) c', False) \<and>
    length b = 512 \<and> take (length (snd (frames bs))) b = snd (frames bs)"
  using assms
proof (induction "length bs" arbitrary: bs c c' rule: less_induct)
  case less
  define n where "n = unat (the (rd32 bs 0))"
  have len: "length bs = ct_recv_buf_size c" using less.prems(1,3) by simp
  have self: "with_buf (ct_recv_buf c) (ct_recv_buf_size c) c = c" by (simp add: with_buf_def)
  show ?case
  proof (cases "length bs < 8")
    case True
    then have "frames bs = ([], bs)" by (subst frames.simps) simp
    then show ?thesis
      using less.prems True len self
      by (subst ctrl_messages.simps) (intro exI [of _ "ct_recv_buf c"], simp)
  next
    case False
    have pre: "ct_recv_buf c = bs @ drop (length bs) (ct_recv_buf c)"
      using less.prems(3) len by (metis append_take_drop_id)
    have rd: "rd32 (ct_recv_buf c) 0 = Some (the (rd32 bs 0))" "rd16 (ct_recv_buf c) 4 = Some (the (rd16 bs 4))"
      using False rd_prefix(1) [of 0 bs "drop (length bs) (ct_recv_buf c)"]
        rd_prefix(2) [of 4 bs "drop (length bs) (ct_recv_buf c)"] pre
      by (auto simp: rd32_def rd16_def rd8_def)
    have fit: "n \<le> 504" "length bs < 8 + n \<or> complete_payload (the (rd16 bs 4)) n \<and> frames_fit (drop (8 + n) bs)"
      using less.prems(4) False frames_fit_long [of bs n] n_def by simp_all
    have total: "unat (8 + the (rd32 bs 0)) = 8 + n"
      using fit(1) unat_plus_small [of "8 :: u32" "the (rd32 bs 0)"] by (simp add: n_def)
    show ?thesis
    proof (cases "length bs < 8 + n")
      case True
      then have "frames bs = ([], bs)" by (subst frames.simps) (simp add: n_def Let_def)
      then show ?thesis
        using less.prems True False len self rd total fit(1)
        by (subst ctrl_messages.simps) (intro exI [of _ "ct_recv_buf c"], simp add: Let_def)
    next
      case long: False
      define rest where "rest = drop (8 + n) bs"
      obtain ms r where mr: "frames rest = (ms, r)" by (cases "frames rest")
      have fr: "frames bs = ((the (rd16 bs 4), take n (drop 8 bs)) # ms, r)"
        using False long mr by (subst frames.simps) (simp add: n_def [symmetric] rest_def Let_def)
      obtain d where d: "frame_step pf c (the (rd16 bs 4), take n (drop 8 bs)) = Some d" "frames_run pf d ms = Some c'"
        using less.prems(5) fr by (cases "frame_step pf c (the (rd16 bs 4), take n (drop 8 bs))") auto
      have "take n (drop 8 (ct_recv_buf c)) = take n (drop 8 bs)" using pre long by (metis (no_types) rd_append_skip less.prems(3) min.absorb1 take_drop take_take len not_less add.commute)
      then obtain b where b: "ctrl_message_received pf c (the (rd16 bs 4)) n = Some (with_buf b (ct_recv_buf_size c) d)"
        "length b = 512" "drop (8 + n) b = drop (8 + n) (ct_recv_buf c)"
        using received_frame [of n c "the (rd16 bs 4)" pf d] d(1) fit long less.prems(1,2) len by auto
      define k where "k = ct_recv_buf_size c - (8 + n)"
      define b' where "b' = (if k > 0 then rest @ drop k b else b)"
      have rest: "length rest = k" "rest = take k (drop (8 + n) b)"
        using len long b(3) less.prems(3) by (simp_all add: rest_def k_def drop_take)
      have shift: "(if k > 0 then shift_buf b (8 + n) k else Some b) = Some b'"
        using rest long len less.prems(1,2) b(2) by (auto simp: shift_buf_def b'_def rd_n_def wr_def k_def)
      have lb: "length b' = 512" "take k b' = rest" using rest b(2) less.prems(1,2) len long by (auto simp: b'_def k_def)
      have loop: "ctrl_messages pf c = ctrl_messages pf (with_buf b' k d)"
      proof (cases "8 + n < ct_recv_buf_size c")
        case True
        then show ?thesis using False long len rd total b(1) shift
          by (subst ctrl_messages.simps) (simp add: k_def n_def [symmetric] Let_def with_buf_def)
      next
        case end_of: False
        then show ?thesis using False long len rd total b(1) shift
          by (subst ctrl_messages.simps) (simp add: k_def n_def [symmetric] Let_def with_buf_def)
      qed
      have small: "ct_recv_buf_size c - (8 + n) \<le> 512" using less.prems(1,2) by simp
      have "length rest < length bs" using long False by (simp add: rest_def)
      moreover have "frames_run pf (with_buf b' k d) (fst (frames rest)) = Some (with_buf b' k c')"
        using d(2) mr by (simp add: frames_run_with_buf)
      ultimately obtain b'' where "ctrl_messages pf (with_buf b' k d) =
          Some (with_buf b'' (length (snd (frames rest))) (with_buf b' k c'), False)" "length b'' = 512"
          "take (length (snd (frames rest))) b'' = snd (frames rest)"
        using less.hyps [of rest "with_buf b' k d" "with_buf b' k c'"] lb rest(1) fit long rest_def len less.prems(1,2) k_def small
        by (auto simp: not_less)
      then show ?thesis using loop fr mr by auto
    qed
  qed
qed

section \<open>However the stream is cut\<close>

text \<open>A connection over TCP stays one.\<close>

lemma send_tcp:
  assumes "ctrl_message_send pf c t p = Some (c', e)" "ss_rudp c = None"
  shows "ss_rudp c' = None"
  using assms
  by (auto simp: ctrl_message_send_def ctrl_message_transmit_def ctrl_tcp_send_def Let_def
      split: option.splits list.splits sum.splits if_splits)

lemma send_all_tcp: "send_all pf c ms = Some c' \<Longrightarrow> ss_rudp c = None \<Longrightarrow> ss_rudp c' = None"
proof (induction ms arbitrary: c)
  case (Cons m ms)
  obtain t p where m: "m = (t, p)" by (cases m)
  then obtain d e where "ctrl_message_send pf c t p = Some (d, e)" "send_all pf d ms = Some c'"
    using Cons.prems(1) by (auto simp: bind_eq_Some_conv)
  then show ?case using Cons.IH send_tcp Cons.prems(2) by blast
qed simp

lemma session_id_tcp:
  assumes "ctrl_message_received_session_id pf c p k = Some c'" "ss_rudp c = None"
  shows "ss_rudp c' = None"
proof -
  have "ss_rudp d = None" if h: "ctrl_message_set_fallback_session_id pf c = Some (d, e)" for d e
  proof (cases "cp_random pf")
    case (Inr r)
    then obtain y where y: "fallback_id (cp_seconds pf) r = Some y"
      using h by (auto simp: ctrl_message_set_fallback_session_id_def bind_eq_Some_conv)
    then show ?thesis
      using h Inr assms(2) by (cases y) (auto simp: ctrl_message_set_fallback_session_id_def split: if_splits)
  qed (use h assms(2) in \<open>simp add: ctrl_message_set_fallback_session_id_def\<close>)
  then show ?thesis
    using assms by (auto simp: ctrl_message_received_session_id_def Let_def bind_eq_Some_conv split: if_splits)
qed

lemma handle_tcp:
  assumes "ctrl_message_handle pf c t p k = Some c'" "ss_rudp c = None"
  shows "ss_rudp c' = None"
proof -
  have "ctrl_enable_features pf d = Some c' \<Longrightarrow> ss_rudp d = None \<Longrightarrow> ss_rudp c' = None" for d
    by (auto simp: ctrl_enable_features_def dest: send_all_tcp)
  moreover have "ctrl_message_received_heartbeat_req pf c = Some c' \<Longrightarrow> ss_rudp c' = None"
    using send_tcp assms(2) by (auto simp: ctrl_message_received_heartbeat_req_def)
  moreover have "ctrl_message_received_login c p k = Some c' \<Longrightarrow> ss_rudp c' = None"
    "ctrl_message_received_displaya c p = Some c' \<Longrightarrow> ss_rudp c' = None"
    "ctrl_message_received_displayb c p = Some c' \<Longrightarrow> ss_rudp c' = None"
    using assms(2)
    by (auto simp: ctrl_message_received_login_def ctrl_message_received_displaya_def
        ctrl_message_received_displayb_def cantdisplay_cb_def bind_eq_Some_conv Let_def split: if_splits)
  moreover have "ctrl_message_received_keyboard_open pf c p k = Some c' \<Longrightarrow> ss_rudp c' = None"
    "ctrl_message_received_keyboard_text_change pf c p k = Some c' \<Longrightarrow> ss_rudp c' = None"
    using assms(2)
    by (auto simp: ctrl_message_received_keyboard_open_def ctrl_message_received_keyboard_text_change_def
        chiaki_session_send_event_def bind_eq_Some_conv split: if_splits)
  moreover have "ss_rudp (ctrl_message_received_login_pin_req c) = None" "ss_rudp (ctrl_message_received_keyboard_close c) = None"
    "ss_rudp (ctrl_message_received_switch_to_stream_connection c) = None"
    using assms(2)
    by (simp_all add: ctrl_message_received_login_pin_req_def ctrl_message_received_keyboard_close_def
        ctrl_message_received_switch_to_stream_connection_def chiaki_session_send_event_def
        chiaki_session_set_stream_connection_switch_received_def)
  ultimately show ?thesis
    using assms session_id_tcp [of pf c p k]
    by (auto simp: ctrl_message_handle_def bind_eq_Some_conv split: if_splits)
qed

lemma frames_run_tcp: "frames_run pf c ms = Some c' \<Longrightarrow> ss_rudp c = None \<Longrightarrow> ss_rudp c' = None"
proof (induction ms arbitrary: c)
  case (Cons m ms)
  then obtain d where d: "frame_step pf c m = Some d" "frames_run pf d ms = Some c'"
    by (auto simp: bind_eq_Some_conv)
  have "ss_rudp d = None"
    using d(1) Cons.prems(2)
    by (auto simp: frame_step_def Let_def dest!: handle_tcp split: prod.splits if_splits sum.splits)
  then show ?case using Cons.IH d(2) by blast
qed simp

lemma frames_run_append:
  "frames_run pf c (xs @ ys) = Some c' \<longleftrightarrow> (\<exists>d. frames_run pf c xs = Some d \<and> frames_run pf d ys = Some c')"
  by (induction xs arbitrary: c) (auto simp: bind_eq_Some_conv)

text \<open>The pieces that \<^verbatim>\<open>recv\<close> gives: not empty, and at most as long as the buffer has room.\<close>

fun pieces_fit :: "bytes \<Rightarrow> bytes list \<Rightarrow> bool" where
  "pieces_fit pending [] = True"
| "pieces_fit pending (p # ps) \<longleftrightarrow>
     p \<noteq> [] \<and> length (snd (frames pending)) + length p \<le> 512 \<and> pieces_fit (snd (frames pending) @ p) ps"

lemma ctrl_round_received:
  assumes "ctrl_messages pf c = Some (with_buf b k c', False)" "ss_rudp c' = None" "length b = 512"
    and "p \<noteq> []" "k + length p \<le> 512"
  shows "\<exists>b'. ctrl_round pf c (Ctrl_Received p) = Some (with_buf b' (k + length p) c', True) \<and>
    length b' = 512 \<and> take (k + length p) b' = take k b @ p"
proof -
  have "\<exists>b'. wr b k p = Some b' \<and> length b' = 512 \<and> take (k + length p) b' = take k b @ p"
    using assms(3,5) by (simp add: wr_def)
  then obtain b' where b': "wr b k p = Some b'" "length b' = 512" "take (k + length p) b' = take k b @ p" by blast
  have "ctrl_append (with_buf b k c') p = Some (with_buf b' (k + length p) c')"
    using b'(1) by (simp add: ctrl_append_def) (simp add: with_buf_def)
  then have "ctrl_receive pf (with_buf b k c') (Received p) = Some (with_buf b' (k + length p) c', True)"
    using assms by (simp add: ctrl_receive_def)
  then show ?thesis using assms(1) b' by (intro exI [of _ b']) (simp add: ctrl_round_def)
qed

lemma ctrl_rounds_frames:
  assumes "ss_rudp c = None" "length (ct_recv_buf c) = 512" "ct_recv_buf_size c \<le> 512"
    and "pending = take (ct_recv_buf_size c) (ct_recv_buf c)" "pieces_fit pending ps" "frames_fit (pending @ concat ps)"
    and "frames_run pf c (fst (frames (pending @ concat ps))) = Some c'"
  shows "\<exists>c1 b. ctrl_rounds pf c (map Ctrl_Received ps) = Some (c1, True) \<and>
    ctrl_messages pf c1 = Some (with_buf b (length (snd (frames (pending @ concat ps)))) c', False) \<and>
    take (length (snd (frames (pending @ concat ps)))) b = snd (frames (pending @ concat ps))"
  using assms
proof (induction ps arbitrary: c pending c')
  case Nil
  then show ?case using ctrl_messages_frames [of c pending pf c'] by auto
next
  case (Cons p ps)
  define r where "r = snd (frames pending)"
  have split: "frames (pending @ concat (p # ps)) =
      (fst (frames pending) @ fst (frames ((r @ p) @ concat ps)), snd (frames ((r @ p) @ concat ps)))"
    using frames_append [of pending "p @ concat ps"] by (simp add: r_def)
  obtain d where d: "frames_run pf c (fst (frames pending)) = Some d"
    "frames_run pf d (fst (frames ((r @ p) @ concat ps))) = Some c'"
    using Cons.prems(7) split by (auto simp: frames_run_append)
  have fit: "frames_fit pending" "frames_fit ((r @ p) @ concat ps)"
    using frames_fit_append [of pending "p @ concat ps"] Cons.prems(6) by (simp_all add: r_def)
  obtain b where b: "ctrl_messages pf c = Some (with_buf b (length r) d, False)" "length b = 512" "take (length r) b = r"
    using ctrl_messages_frames [of c pending pf d] Cons.prems(2-4) fit(1) d(1) by (auto simp: r_def)
  have tcp: "ss_rudp d = None" using frames_run_tcp d(1) Cons.prems(1) by blast
  obtain b' where b': "ctrl_round pf c (Ctrl_Received p) = Some (with_buf b' (length r + length p) d, True)"
    "length b' = 512" "take (length r + length p) b' = r @ p"
    using ctrl_round_received [OF b(1) tcp b(2)] Cons.prems(5) b(3) by (auto simp: r_def)
  let ?c = "with_buf b' (length r + length p) d"
  have "frames_run pf ?c (fst (frames ((r @ p) @ concat ps))) = Some (with_buf b' (length r + length p) c')"
    using d(2) by (simp add: frames_run_with_buf)
  then have "\<exists>c1 b. ctrl_rounds pf ?c (map Ctrl_Received ps) = Some (c1, True) \<and>
    ctrl_messages pf c1 = Some (with_buf b (length (snd (frames ((r @ p) @ concat ps)))) c', False) \<and>
    take (length (snd (frames ((r @ p) @ concat ps)))) b = snd (frames ((r @ p) @ concat ps))"
    using Cons.IH [of ?c "r @ p" "with_buf b' (length r + length p) c'"] tcp b' fit(2) Cons.prems(5)
    by (simp add: r_def)
  then show ?case using split b'(1) by simp
qed

text \<open>
  C9: However the bytes that the console sends over TCP are cut into pieces, as long as no message
  is too long, the thread goes on, and when it has looked at the last piece it has handled exactly the
  complete messages of the stream, each once and in order, and keeps the incomplete rest.
\<close>

theorem ctrl_stream_framing:
  assumes "ss_rudp c = None" "length (ct_recv_buf c) = 512" "ct_recv_buf_size c = 0"
    and "pieces_fit [] ps" "frames_fit (concat ps)" "frames (concat ps) = (ms, rest)"
    and "frames_run pf c ms = Some c'"
  shows "\<exists>c1 buf. ctrl_rounds pf c (map Ctrl_Received ps) = Some (c1, True) \<and>
    ctrl_messages pf c1 = Some (c'\<lparr>ct_recv_buf := buf, ct_recv_buf_size := length rest\<rparr>, False) \<and>
    take (length rest) buf = rest"
  using ctrl_rounds_frames [of c "[]" ps pf c'] assms by (simp add: with_buf_def)

section \<open>What the console reads\<close>

text \<open>The console decrypts the messages of the stream with a counter of its own.\<close>

fun console_read :: "rpcrypt_platform \<Rightarrow> rpcrypt \<Rightarrow> u64 \<Rightarrow> (u16 \<times> bytes) list \<Rightarrow> (u16 \<times> bytes) list option" where
  "console_read pf rc k [] = Some []"
| "console_read pf rc k ((t, p) # fs) =
     (if p = [] then map_option (Cons (t, [])) (console_read pf rc k fs)
      else case chiaki_rpcrypt_decrypt pf rc k p of
        Inl err \<Rightarrow> None
      | Inr d \<Rightarrow> map_option (Cons (t, d)) (console_read pf rc (k + 1) fs))"

definition plain :: "u16 \<times> bytes option \<Rightarrow> u16 \<times> bytes" where
  "plain m = (fst m, case snd m of Some p \<Rightarrow> p | None \<Rightarrow> [])"

text \<open>A connection over TCP, in which nothing fails and \<^verbatim>\<open>send\<close> takes all the bytes.\<close>

definition working :: "ctrl_platform \<Rightarrow> ctrl \<Rightarrow> bool" where
  "working pf c \<longleftrightarrow> ss_rudp c = None \<and> (\<forall>n. cp_alloc pf n) \<and> (\<forall>sent m. cp_send pf sent m = Some (length m)) \<and>
     cfb_contract (cp_crypt pf) \<and> (\<forall>rc k p. length p < 2 ^ 31 \<longrightarrow> (\<exists>e. chiaki_rpcrypt_encrypt (cp_crypt pf) rc k p = Inr e))"

lemma frames_message:
  assumes "length enc < 2 ^ 32"
  shows "frames (ctrl_header (length enc) t @ enc @ rest) = ((t, enc) # fst (frames rest), snd (frames rest))"
proof -
  let ?bs = "ctrl_header (length enc) t @ enc @ rest"
  have h: "length (ctrl_header (length enc) t) = 8" by (simp add: ctrl_header_def)
  have "rd32 (be32 (of_nat (length enc)) @ be16 t @ [0, 0] @ enc @ rest) 0 = Some (of_nat (length enc))"
    "rd16 (be32 (of_nat (length enc)) @ be16 t @ [0, 0] @ enc @ rest) 4 = Some t"
    by (simp_all add: msg_simps)
  then have "rd32 ?bs 0 = Some (of_nat (length enc))" "rd16 ?bs 4 = Some t" by (simp_all add: ctrl_header_def)
  then show ?thesis
    using h assms by (subst frames.simps) (simp add: unat_of_nat_small split: prod.split)
qed

lemma send_working:
  assumes "working pf c" "length (snd (plain (t, p))) < 2 ^ 31"
  shows "\<exists>d out. ctrl_message_send pf c t p = Some (d, CHIAKI_ERR_SUCCESS) \<and> working pf d \<and>
    ss_rpcrypt d = ss_rpcrypt c \<and> ct_sent d = ct_sent c @ out \<and>
    ct_should_stop d = ct_should_stop c \<and> ct_login_pin_entered d = ct_login_pin_entered c \<and> ct_login_pin d = ct_login_pin c \<and>
    (\<forall>rest ms r. console_read (cp_crypt pf) (ss_rpcrypt d) (ct_crypt_counter_local d) (fst (frames rest)) = Some ms \<longrightarrow>
       console_read (cp_crypt pf) (ss_rpcrypt c) (ct_crypt_counter_local c) (fst (frames (concat out @ rest))) = Some (plain (t, p) # ms)) \<and>
    (\<forall>rest. snd (frames (concat out @ rest)) = snd (frames rest))"
proof -
  have w: "ss_rudp c = None" "\<And>n. cp_alloc pf n" "\<And>sent m. cp_send pf sent m = Some (length m)" using assms(1) by (simp_all add: working_def)
  show ?thesis
  proof (cases "snd (plain (t, p)) = []")
    case True
    let ?out = "[ctrl_header 0 t]"
    have "ctrl_message_send pf c t p = Some (c\<lparr>ct_sent := ct_sent c @ ?out\<rparr>, CHIAKI_ERR_SUCCESS)"
      using True w by (auto simp: plain_def ctrl_message_send_def ctrl_message_transmit_def ctrl_tcp_send_def Let_def split: option.splits)
    moreover have "frames (concat ?out @ rest) = ((t, []) # fst (frames rest), snd (frames rest))" for rest
      using frames_message [of "[]" t rest] by simp
    ultimately show ?thesis
      using True assms(1) by (intro exI [of _ "c\<lparr>ct_sent := ct_sent c @ ?out\<rparr>"] exI [of _ ?out]) (simp add: working_def plain_def)
  next
    case False
    then obtain x xs where p: "p = Some (x # xs)" by (cases p; cases "the p") (auto simp: plain_def)
    obtain enc where e: "chiaki_rpcrypt_encrypt (cp_crypt pf) (ss_rpcrypt c) (ct_crypt_counter_local c) (x # xs) = Inr enc"
      using assms p by (fastforce simp: working_def plain_def)
    have cc: "cfb_contract (cp_crypt pf)" using assms(1) by (simp add: working_def)
    have small: "length (x # xs) < 2 ^ 31" using assms(2) p by (simp add: plain_def)
    note dec = encrypt_decrypt [OF cc small e]
    then have ne: "enc \<noteq> []" by auto
    let ?out = "[ctrl_header (length enc) t, enc]"
    let ?d = "c\<lparr>ct_crypt_counter_local := ct_crypt_counter_local c + 1, ct_sent := ct_sent c @ ?out\<rparr>"
    have "ctrl_message_send pf c t p = Some (?d, CHIAKI_ERR_SUCCESS)"
      using w e ne by (simp add: p ctrl_message_send_def ctrl_message_transmit_def ctrl_tcp_send_def payload_counter_def Let_def)
    moreover have "frames (concat ?out @ rest) = ((t, enc) # fst (frames rest), snd (frames rest))" for rest
      using frames_message [of enc t rest] assms(2) dec(2) by (simp add: p plain_def)
    ultimately show ?thesis
      using assms(1) dec ne by (intro exI [of _ ?d] exI [of _ ?out]) (simp add: working_def p plain_def)
  qed
qed

lemma send_all_working:
  assumes "working pf c" "\<forall>m \<in> set ms. length (snd (plain m)) < 2 ^ 31"
  shows "\<exists>d out. send_all pf c ms = Some d \<and> working pf d \<and> ss_rpcrypt d = ss_rpcrypt c \<and> ct_sent d = ct_sent c @ out \<and>
    ct_should_stop d = ct_should_stop c \<and> ct_login_pin_entered d = ct_login_pin_entered c \<and> ct_login_pin d = ct_login_pin c \<and>
    (\<forall>rest xs. console_read (cp_crypt pf) (ss_rpcrypt d) (ct_crypt_counter_local d) (fst (frames rest)) = Some xs \<longrightarrow>
       console_read (cp_crypt pf) (ss_rpcrypt c) (ct_crypt_counter_local c) (fst (frames (concat out @ rest))) =
         Some (map plain ms @ xs)) \<and>
    (\<forall>rest. snd (frames (concat out @ rest)) = snd (frames rest))"
  using assms
proof (induction ms arbitrary: c)
  case Nil
  then show ?case by (intro exI [of _ c] exI [of _ "[]"]) simp
next
  case (Cons m ms)
  obtain t p where m: "m = (t, p)" by (cases m)
  obtain d out where d: "ctrl_message_send pf c t p = Some (d, CHIAKI_ERR_SUCCESS)" "working pf d"
    "ss_rpcrypt d = ss_rpcrypt c" "ct_sent d = ct_sent c @ out" "ct_should_stop d = ct_should_stop c"
    "ct_login_pin_entered d = ct_login_pin_entered c" "ct_login_pin d = ct_login_pin c"
    "\<And>rest xs. console_read (cp_crypt pf) (ss_rpcrypt d) (ct_crypt_counter_local d) (fst (frames rest)) = Some xs \<Longrightarrow>
       console_read (cp_crypt pf) (ss_rpcrypt c) (ct_crypt_counter_local c) (fst (frames (concat out @ rest))) = Some (plain (t, p) # xs)"
    "\<And>rest. snd (frames (concat out @ rest)) = snd (frames rest)"
    using send_working [OF Cons.prems(1), of t p] Cons.prems(2) m by auto
  obtain e out' where e: "send_all pf d ms = Some e" "working pf e" "ss_rpcrypt e = ss_rpcrypt d" "ct_sent e = ct_sent d @ out'"
    "ct_should_stop e = ct_should_stop d" "ct_login_pin_entered e = ct_login_pin_entered d" "ct_login_pin e = ct_login_pin d"
    "\<And>rest xs. console_read (cp_crypt pf) (ss_rpcrypt e) (ct_crypt_counter_local e) (fst (frames rest)) = Some xs \<Longrightarrow>
       console_read (cp_crypt pf) (ss_rpcrypt d) (ct_crypt_counter_local d) (fst (frames (concat out' @ rest))) = Some (map plain ms @ xs)"
    "\<And>rest. snd (frames (concat out' @ rest)) = snd (frames rest)"
    using Cons.IH [OF d(2)] Cons.prems(2) by auto
  show ?case
    using d e by (intro exI [of _ e] exI [of _ "out @ out'"]) (simp add: m)
qed

text \<open>What waits to be sent: the queue, and the login pin behind it.\<close>

definition waiting :: "ctrl \<Rightarrow> (u16 \<times> bytes option) list" where
  "waiting c = ct_msg_queue c @ (if ct_login_pin_entered c then [(CTRL_MESSAGE_TYPE_LOGIN_PIN_REP, ct_login_pin c)] else [])"

lemma frames_nil: "frames [] = ([], [])"
  by (subst frames.simps) simp

lemma pin_sent:
  assumes "working pf d" "length (snd (plain (t, p))) < 2 ^ 31"
  shows "\<exists>f out. ctrl_message_send pf (d\<lparr>ct_msg_queue := []\<rparr>) t p = Some (f, CHIAKI_ERR_SUCCESS) \<and>
    ct_sent f = ct_sent d @ out \<and> ct_msg_queue f = [] \<and> snd (frames (concat out)) = [] \<and>
    console_read (cp_crypt pf) (ss_rpcrypt d) (ct_crypt_counter_local d) (fst (frames (concat out))) = Some [plain (t, p)]"
proof -
  let ?e = "d\<lparr>ct_msg_queue := []\<rparr>"
  have "working pf ?e" using assms(1) by (simp add: working_def)
  then obtain f out where f: "ctrl_message_send pf ?e t p = Some (f, CHIAKI_ERR_SUCCESS)" "ct_sent f = ct_sent d @ out"
    "\<And>rest xs. console_read (cp_crypt pf) (ss_rpcrypt f) (ct_crypt_counter_local f) (fst (frames rest)) = Some xs \<Longrightarrow>
      console_read (cp_crypt pf) (ss_rpcrypt ?e) (ct_crypt_counter_local ?e) (fst (frames (concat out @ rest))) =
        Some (plain (t, p) # xs)"
    "\<And>rest. snd (frames (concat out @ rest)) = snd (frames rest)"
    using send_working [of pf ?e t p] assms(2) by auto
  have "ct_msg_queue f = []"
    using f(1) assms(1) by (auto simp: ctrl_message_send_def ctrl_message_transmit_def ctrl_tcp_send_def working_def Let_def
        split: option.splits list.splits sum.splits if_splits)
  then show ?thesis using f(1,2) f(3) [of "[]" "[]"] f(4) [of "[]"] frames_nil by auto
qed

text \<open>
  C10: When the thread of a connection over TCP is notified, no call fails and \<^verbatim>\<open>send\<close> takes all the bytes
  it is given, it empties the queue and sends the messages that were queued in their order, with an entered
  pin behind them, in such a way that a console that counts the messages with a payload as the client
  does cuts the stream into the same messages and decrypts them to what was queued.
\<close>

theorem ctrl_queue_delivered:
  assumes "working pf c" "\<forall>m \<in> set (waiting c). length (snd (plain m)) < 2 ^ 31"
  shows "\<exists>c' on out. ctrl_notified pf c = Some (c', on) \<and> ct_msg_queue c' = [] \<and> ct_sent c' = ct_sent c @ out \<and>
    snd (frames (concat out)) = [] \<and>
    console_read (cp_crypt pf) (ss_rpcrypt c) (ct_crypt_counter_local c) (fst (frames (concat out))) =
      Some (map plain (waiting c)) \<and>
    (on \<longleftrightarrow> ct_login_pin_entered c \<or> \<not> ct_should_stop c)"
proof -
  have queue: "\<forall>m \<in> set (ct_msg_queue c). length (snd (plain m)) < 2 ^ 31" using assms(2) by (simp add: waiting_def)
  obtain d out where d: "send_all pf c (ct_msg_queue c) = Some d" "working pf d"
    "ct_sent d = ct_sent c @ out" "ct_should_stop d = ct_should_stop c"
    "ct_login_pin_entered d = ct_login_pin_entered c" "ct_login_pin d = ct_login_pin c"
    "\<And>rest xs. console_read (cp_crypt pf) (ss_rpcrypt d) (ct_crypt_counter_local d) (fst (frames rest)) = Some xs \<Longrightarrow>
       console_read (cp_crypt pf) (ss_rpcrypt c) (ct_crypt_counter_local c) (fst (frames (concat out @ rest))) =
         Some (map plain (ct_msg_queue c) @ xs)"
    "\<And>rest. snd (frames (concat out @ rest)) = snd (frames rest)"
    using send_all_working [OF assms(1) queue] by blast
  show ?thesis
  proof (cases "ct_login_pin_entered c")
    case False
    then show ?thesis
      using d(1,3-6) d(7) [of "[]" "[]"] d(8) [of "[]"] frames_nil by (auto simp: ctrl_notified_def waiting_def Let_def)
  next
    case True
    let ?pin = "(CTRL_MESSAGE_TYPE_LOGIN_PIN_REP, ct_login_pin c)"
    have "length (snd (plain ?pin)) < 2 ^ 31" using assms(2) True by (simp add: waiting_def)
    from pin_sent [OF d(2) this] obtain f out' where f:
      "ctrl_message_send pf (d\<lparr>ct_msg_queue := []\<rparr>) CTRL_MESSAGE_TYPE_LOGIN_PIN_REP (ct_login_pin c) = Some (f, CHIAKI_ERR_SUCCESS)"
      "ct_sent f = ct_sent d @ out'" "ct_msg_queue f = []" "snd (frames (concat out')) = []"
      "console_read (cp_crypt pf) (ss_rpcrypt d) (ct_crypt_counter_local d) (fst (frames (concat out'))) = Some [plain ?pin]"
      by blast
    have "console_read (cp_crypt pf) (ss_rpcrypt c) (ct_crypt_counter_local c) (fst (frames (concat (out @ out')))) =
        Some (map plain (waiting c))" "snd (frames (concat (out @ out'))) = []"
      using d(7) [OF f(5)] d(8) f(4) True by (simp_all add: waiting_def)
    then show ?thesis
      using True d f by (intro exI [of _ "f\<lparr>ct_login_pin_entered := False, ct_login_pin := None, ct_notified := False\<rparr>"]
          exI [of _ True] exI [of _ "out @ out'"]) (simp add: ctrl_notified_def)
  qed
qed

text \<open>
  When \<^verbatim>\<open>send\<close> takes only a part of a payload, the client reports success, and the console waits for
  the rest of the message, into which it would take whatever is sent next.
\<close>

theorem ctrl_short_send:
  assumes "ss_rudp c = None" "cp_alloc pf (length p)" "chiaki_rpcrypt_encrypt (cp_crypt pf) (ss_rpcrypt c) (ct_crypt_counter_local c) p = Inr enc"
    and "p \<noteq> []" "enc \<noteq> []" "length enc < 2 ^ 32" "\<forall>sent m. cp_send pf sent m = Some (if length m = 8 then 8 else n)" "n < length enc" "length enc \<noteq> 8"
  shows "\<exists>d. ctrl_message_send pf c t (Some p) = Some (d, CHIAKI_ERR_SUCCESS) \<and>
    ct_sent d = ct_sent c @ [ctrl_header (length enc) t, take n enc] \<and>
    frames (concat [ctrl_header (length enc) t, take n enc]) = ([], ctrl_header (length enc) t @ take n enc)"
proof -
  let ?h = "ctrl_header (length enc) t"
  obtain x xs where p: "p = x # xs" using assms(4) by (cases p) auto
  have h: "length ?h = 8" by (simp add: ctrl_header_def)
  have "rd32 (be32 (of_nat (length enc)) @ be16 t @ [0, 0] @ take n enc) 0 = Some (of_nat (length enc))"
    by (simp add: msg_simps)
  then have "rd32 (?h @ take n enc) 0 = Some (of_nat (length enc))" by (simp add: ctrl_header_def)
  then have "frames (?h @ take n enc) = ([], ?h @ take n enc)"
    using h assms(6,8) by (subst frames.simps) (simp add: unat_of_nat_small)
  then show ?thesis
    using assms h by (simp add: ctrl_message_send_def ctrl_message_transmit_def ctrl_tcp_send_def payload_counter_def p Let_def)
qed

section \<open>Sizes\<close>



text \<open>
  Over the reliable UDP the size of a message is kept in eight bits: a queued message with a
  payload of more than 247 bytes, as a text of 212 characters from the keyboard is, writes behind the
  buffer on the stack when it is sent.
\<close>

theorem ctrl_rudp_text_overflows:
  assumes "ss_rudp c = Some r" "\<forall>n. cp_alloc pf n" "\<forall>rc k p. length p < 2 ^ 31 \<longrightarrow> (\<exists>e. chiaki_rpcrypt_encrypt (cp_crypt pf) rc k p = Inr e)"
    and "ct_msg_queue c = []" "212 \<le> length text_str" "length text_str < 2 ^ 30"
  shows "\<exists>c'. chiaki_ctrl_keyboard_set_text pf c text_str = (c', CHIAKI_ERR_SUCCESS) \<and> ctrl_notified pf c' = None"
proof -
  define req where "req = keyboard_text_request (ct_keyboard_text_counter c + 1) text_str"
  have l: "248 \<le> length req" "length req < 2 ^ 31" using assms(5,6) by (simp_all add: req_def keyboard_text_request_def)
  obtain x xs where req: "req = x # xs" using l(1) by (cases req) auto
  define c' where "c' = c\<lparr>ct_keyboard_text_counter := ct_keyboard_text_counter c + 1,
    ct_msg_queue := [(CTRL_MESSAGE_TYPE_KEYBOARD_TEXT_CHANGE_REQ, Some req)], ct_notified := True\<rparr>"
  have set: "chiaki_ctrl_keyboard_set_text pf c text_str = (c', CHIAKI_ERR_SUCCESS)"
    using assms(2,4) by (simp add: chiaki_ctrl_keyboard_set_text_def chiaki_ctrl_send_message_def c'_def req_def Let_def)
  obtain enc where e: "chiaki_rpcrypt_encrypt (cp_crypt pf) (ss_rpcrypt c) (ct_crypt_counter_local c) req = Inr enc"
    using assms(3) l(2) by meson
  then have "length enc = length req"
    using l(2) by (auto simp: chiaki_rpcrypt_encrypt_def crypt_small split: if_splits sum.splits option.splits)
  moreover have "unat (of_nat (8 + length enc) :: u8) < 256" using unat_lt_exp [of "of_nat (8 + length enc) :: u8"] by simp
  ultimately have "unat (of_nat (8 + length enc) :: u8) < 8 + length enc" using l(1) by linarith
  then have "ctrl_message_transmit pf d t enc = None" if "ss_rudp d = Some r" for d t
    using that by (simp add: ctrl_message_transmit_def Let_def)
  then have "ctrl_message_send pf c' CTRL_MESSAGE_TYPE_KEYBOARD_TEXT_CHANGE_REQ (Some req) = None"
    using assms(1,2) e
    by (simp add: ctrl_message_send_def c'_def req payload_counter_def ctrl_message_types Let_def)
  then have "ctrl_notified pf c' = None" by (simp add: ctrl_notified_def c'_def)
  then show ?thesis using set by blast
qed

section \<open>Concrete connections\<close>

definition sample_ctrl :: ctrl where
  "sample_ctrl = \<lparr>ss_ps5 = True, ss_hostname = [], ss_regist_key = replicate 16 1, ss_morning = replicate 16 2,
     ss_did = replicate 32 0,
     ss_video_profile = chiaki_connect_video_profile_preset CHIAKI_VIDEO_RESOLUTION_PRESET_720p CHIAKI_VIDEO_FPS_PRESET_60,
     ss_auto_downgrade = False, ss_enable_keyboard = True, ss_enable_dualsense = True, ss_target = CHIAKI_TARGET_PS5_1,
     ss_nonce = replicate 16 3,
     ss_rpcrypt = \<lparr>rc_target = CHIAKI_TARGET_PS5_1, rc_bright = replicate 16 4, rc_ambassador = replicate 16 5\<rparr>,
     ss_session_id = [], ss_quit_reason = CHIAKI_QUIT_REASON_NONE, ss_event_cb = True, ss_should_stop = False,
     ss_ctrl_failed = False, ss_ctrl_session_id_received = False, ss_ctrl_login_pin_requested = False,
     ss_login_pin_entered = False, ss_psn_regist_succeeded = False, ss_stream_connection_switch_received = False,
     ss_login_pin = None, ss_rudp = None, ss_events = [], ss_display = [],
     ct_should_stop = False, ct_login_pin_entered = False, ct_login_pin = None, ct_msg_queue = [], ct_notified = False,
     ct_login_pin_requested = False, ct_cant_displaya = False, ct_cant_displayb = False,
     ct_recv_buf = replicate 512 0, ct_recv_buf_size = 0, ct_crypt_counter_local = 0, ct_crypt_counter_remote = 0,
     ct_keyboard_text_counter = 0, ct_sent = []\<rparr>"

definition sample_rudp :: rudp where
  "sample_rudp = \<lparr>rudp_counter = 5, rudp_header = 0x8001, rudp_sock = True,
     rudp_buffer = \<lparr>sb_takion = True, packets = [], packets_size = 0, packets_count = 0, sb_should_stop = False\<rparr>,
     rudp_sent = []\<rparr>"

definition sample_ctrl_platform :: ctrl_platform where
  "sample_ctrl_platform = \<lparr>cp_alloc = \<lambda>_. True, cp_crypt = sample_cipher,
     cp_rudp = \<lparr>rp_send = \<lambda>_. True, rp_now = \<lambda>_. 0, rp_alloc = \<lambda>_. True\<rparr>,
     cp_send = \<lambda>_ bs. Some (length bs), cp_seconds = 1, cp_random = Inr (replicate 48 0)\<rparr>"

lemma sample_encrypts: "length p < 2 ^ 31 \<Longrightarrow> \<exists>e. chiaki_rpcrypt_encrypt sample_cipher rc k p = Inr e"
  by (simp add: chiaki_rpcrypt_encrypt_def crypt_small chiaki_rpcrypt_generate_iv_def sample_cipher_def
      CHIAKI_RPCRYPT_KEY_SIZE_def)

lemma sample_frames: "frames [0, 0, 0, 0, 0, 4, 0, 0, 9] = ([(4, [])], [9])"
  by (subst frames.simps, subst frames.simps) (simp add: rd32_def rd16_def rd8_def join16_def join32_def)

text \<open>A request for the login pin in two pieces, with the first byte of another message.\<close>

theorem ctrl_stream_framing_witness:
  "\<exists>c1 buf. ctrl_rounds sample_ctrl_platform sample_ctrl (map Ctrl_Received [[0, 0, 0], [0, 0, 4, 0, 0, 9]]) = Some (c1, True) \<and>
     ctrl_messages sample_ctrl_platform c1 =
       Some ((ctrl_message_received_login_pin_req sample_ctrl)\<lparr>ct_recv_buf := buf, ct_recv_buf_size := length [9 :: u8]\<rparr>, False) \<and>
     take (length [9 :: u8]) buf = [9]"
proof (rule ctrl_stream_framing)
  have short: "frames bs = ([], bs)" if "length bs < 8" for bs using that by (subst frames.simps) simp
  show "pieces_fit [] [[0, 0, 0], [0, 0, 4, 0, 0, 9]]" by (simp add: short)
  show "frames (concat [[0, 0, 0], [0, 0, 4, 0, 0, 9]]) = ([(4, [])], [9])" using sample_frames by simp
  show "frames_fit (concat [[0, 0, 0], [0, 0, 4, 0, 0, 9]])"
    by (subst frames_fit.simps, subst frames_fit.simps)
      (simp add: rd32_def rd16_def rd8_def join16_def join32_def complete_payload_def ctrl_message_types)
  show "frames_run sample_ctrl_platform sample_ctrl [(4, [])] = Some (ctrl_message_received_login_pin_req sample_ctrl)"
    by (simp add: frame_step_def ctrl_message_handle_def ctrl_message_types)
qed (simp_all add: sample_ctrl_def)

theorem ctrl_queue_delivered_witness:
  "\<exists>c' on out. ctrl_notified sample_ctrl_platform (sample_ctrl\<lparr>ct_msg_queue := [(0x50, None), (0x25, Some [0, 0, 0, 1])]\<rparr>) = Some (c', on) \<and>
     ct_sent c' = out \<and>
     console_read sample_cipher (ss_rpcrypt sample_ctrl) 0 (fst (frames (concat out))) = Some [(0x50, []), (0x25, [0, 0, 0, 1])]"
  using ctrl_queue_delivered [of sample_ctrl_platform "sample_ctrl\<lparr>ct_msg_queue := [(0x50, None), (0x25, Some [0, 0, 0, 1])]\<rparr>"]
    sample_encrypts sample_cipher_contract
  by (fastforce simp: working_def sample_ctrl_platform_def sample_ctrl_def waiting_def plain_def)


theorem ctrl_rudp_text_overflows_witness:
  "\<exists>c'. chiaki_ctrl_keyboard_set_text sample_ctrl_platform (sample_ctrl\<lparr>ss_rudp := Some sample_rudp\<rparr>) (replicate 212 97) =
       (c', CHIAKI_ERR_SUCCESS) \<and> ctrl_notified sample_ctrl_platform c' = None"
  by (rule ctrl_rudp_text_overflows [where r = sample_rudp])
    (simp_all add: sample_ctrl_def sample_ctrl_platform_def sample_encrypts)

end
