(* ===== verification/Ctrl_Connect.thy ===== *)
theory Ctrl_Connect
  imports Ctrl
begin

text \<open>
  How the control connection is set up (\<^verbatim>\<open>ctrl_connect\<close> and \<^verbatim>\<open>ctrl_thread_func\<close> of
  \<^verbatim>\<open>lib/src/ctrl.c\<close>): the request with its encrypted fields, the response of the console, and
  the start of the thread.
\<close>

section \<open>The response\<close>

record ctrl_response =
  cr_server_type_valid :: bool
  cr_rp_server_type :: bytes
  cr_rp_prohibit :: bool
  cr_success :: bool

text \<open>
  A decoder of base 64 that fails has written the bytes of the characters before: what it returns
  for the longest prefix that does not fail.
\<close>

fun written_before :: "nat \<Rightarrow> bytes \<Rightarrow> nat \<Rightarrow> bytes" where
  "written_before cap inp 0 = []"
| "written_before cap inp (Suc k) =
     (case b64_decode_loop cap (take (Suc k) inp) 0 0 [] of
        Some (Inr (_, _, out)) \<Rightarrow> out
      | _ \<Rightarrow> written_before cap inp k)"

text \<open>
  \<^verbatim>\<open>chiaki_base64_decode(in, out, &size)\<close> on a buffer: on an error the size keeps its value, which is
  the capacity.
\<close>

definition decode_into :: "bytes \<Rightarrow> bytes \<Rightarrow> (bytes \<times> nat) option" where
  "decode_into inp buf = do {
     r \<leftarrow> chiaki_base64_decode inp (length buf);
     (case r of
        Inl err \<Rightarrow> do { buf' \<leftarrow> wr buf 0 (written_before (length buf) inp (length inp)); Some (buf', length buf) }
      | Inr out \<Rightarrow> do { buf' \<leftarrow> wr buf 0 out; Some (buf', length out) })
   }"

text \<open>The headers as keys and values, in the order of the list.\<close>

fun ctrl_response_headers :: "(bytes \<times> bytes) list \<Rightarrow> ctrl_response \<Rightarrow> ctrl_response option" where
  "ctrl_response_headers [] resp = Some resp"
| "ctrl_response_headers ((key, val) # hs) resp =
     (if key = text_bytes ''RP-Server-Type'' then do {
        (buf, size_out) \<leftarrow> decode_into (val @ [0]) (cr_rp_server_type resp);
        ctrl_response_headers hs
          (resp\<lparr>cr_rp_server_type := buf, cr_server_type_valid := size_out = length (cr_rp_server_type resp)\<rparr>)
      }
      else if key = text_bytes ''RP-Prohibit''
      then ctrl_response_headers hs (resp\<lparr>cr_rp_prohibit := int_of_long (strtol10 val) = 1\<rparr>)
      else ctrl_response_headers hs resp)"

definition parse_ctrl_response :: "int \<Rightarrow> (bytes \<times> bytes) list \<Rightarrow> ctrl_response option" where
  "parse_ctrl_response code hs =
     (let zero = \<lparr>cr_server_type_valid = False, cr_rp_server_type = replicate 16 0, cr_rp_prohibit = False, cr_success = False\<rparr>
      in if code \<noteq> 200 then Some zero else ctrl_response_headers hs (zero\<lparr>cr_success := True\<rparr>))"

definition header_strings_of :: "bytes \<Rightarrow> (nat \<times> nat) list \<Rightarrow> (bytes \<times> bytes) list" where
  "header_strings_of buf hs = map (\<lambda>(k, v). (c_string buf k, c_string buf v)) hs"

section \<open>The request\<close>

definition SESSION_CTRL_PORT :: nat where
  "SESSION_CTRL_PORT = 9295"

definition SESSION_OSTYPE :: bytes where
  "SESSION_OSTYPE = text_bytes ''Win10.0.0''"

text \<open>A field of the request: encrypted under the next counter, and encoded.\<close>

definition request_field :: "ctrl_platform \<Rightarrow> ctrl \<Rightarrow> bytes \<Rightarrow> nat \<Rightarrow> ctrl \<times> (ChiakiErrorCode + bytes)" where
  "request_field pf c plain cap =
     (let counter = ct_crypt_counter_local c; c = c\<lparr>ct_crypt_counter_local := counter + 1\<rparr>
      in case chiaki_rpcrypt_encrypt (cp_crypt pf) (ss_rpcrypt c) counter plain of
           Inl err \<Rightarrow> (c, Inl err)
         | Inr enc \<Rightarrow>
             (case chiaki_base64_encode enc cap of
                Inl err \<Rightarrow> (c, Inl err)
              | Inr b64 \<Rightarrow> (c, Inr (c_string b64 0))))"

text \<open>The fields in their order; one that is not sent stays empty.\<close>

fun request_fields :: "ctrl_platform \<Rightarrow> ctrl \<Rightarrow> (bool \<times> bytes \<times> nat) list \<Rightarrow> ctrl \<times> (ChiakiErrorCode + bytes list)" where
  "request_fields pf c [] = (c, Inr [])"
| "request_fields pf c ((present, plain, cap) # fs) =
     (case (if present then request_field pf c plain cap else (c, Inr [])) of
        (c, Inl err) \<Rightarrow> (c, Inl err)
      | (c, Inr b) \<Rightarrow>
          (case request_fields pf c fs of
             (c, Inl err) \<Rightarrow> (c, Inl err)
           | (c, Inr bs) \<Rightarrow> (c, Inr (b # bs))))"

definition have_bitrate :: "ctrl \<Rightarrow> bool" where
  "have_bitrate c \<longleftrightarrow> \<not> target_lt (ss_target c) CHIAKI_TARGET_PS4_10"

definition have_streaming_type :: "ctrl \<Rightarrow> bool" where
  "have_streaming_type c \<longleftrightarrow> chiaki_target_is_ps5 (ss_target c)"

definition streaming_type :: "ctrl \<Rightarrow> u32" where
  "streaming_type c =
     (case vp_codec (ss_video_profile c) of
        CHIAKI_CODEC_H265 \<Rightarrow> 2 | CHIAKI_CODEC_H265_HDR \<Rightarrow> 3 | _ \<Rightarrow> 1)"

definition field_list :: "ctrl \<Rightarrow> (bool \<times> bytes \<times> nat) list" where
  "field_list c =
     [(True, ss_regist_key c, CHIAKI_RPCRYPT_KEY_SIZE * 2), (True, ss_did c, 32 * 2), (True, SESSION_OSTYPE @ [0], 256),
      (have_bitrate c, [0, 0, 0, 0], 256), (have_streaming_type c, le32 (streaming_type c), 256)]"

definition ctrl_path :: "ctrl \<Rightarrow> bytes" where
  "ctrl_path c =
     (if ss_target c = CHIAKI_TARGET_PS4_8 \<or> ss_target c = CHIAKI_TARGET_PS4_9 then text_bytes ''/sce/rp/session/ctrl''
      else if chiaki_target_is_ps5 (ss_target c) then text_bytes ''/sie/ps5/rp/sess/ctrl''
      else text_bytes ''/sie/ps4/rp/sess/ctrl'')"

definition crlf :: bytes where
  "crlf = [CR, LF]"

text \<open>The request for the fields \<open>[auth, did, ostype, bitrate, streaming_type]\<close>.\<close>

definition ctrl_request :: "ctrl \<Rightarrow> nat \<Rightarrow> bytes list \<Rightarrow> bytes" where
  "ctrl_request c port fs =
     text_bytes ''GET '' @ ctrl_path c @ text_bytes '' HTTP/1.1'' @ crlf @
     text_bytes ''Host: '' @ ss_hostname c @ text_bytes '':'' @ decimal port @ crlf @
     text_bytes ''User-Agent: remoteplay Windows'' @ crlf @
     text_bytes ''Connection: keep-alive'' @ crlf @
     text_bytes ''Content-Length: 0'' @ crlf @
     text_bytes ''RP-Auth: '' @ fs ! 0 @ crlf @
     text_bytes ''RP-Version: '' @ (case chiaki_rp_version_string (ss_target c) of Some v \<Rightarrow> v | None \<Rightarrow> []) @ crlf @
     text_bytes ''RP-Did: '' @ fs ! 1 @ crlf @
     text_bytes ''RP-ControllerType: 3'' @ crlf @
     text_bytes ''RP-ClientType: 11'' @ crlf @
     text_bytes ''RP-OSType: '' @ fs ! 2 @ crlf @
     text_bytes ''RP-ConPath: 1'' @ crlf @
     (if have_bitrate c then text_bytes ''RP-StartBitrate: '' @ fs ! 3 @ crlf else []) @
     (if have_streaming_type c then text_bytes ''RP-StreamingType: '' @ fs ! 4 @ crlf else []) @
     crlf"

section \<open>Connecting\<close>

text \<open>
  The environment of one attempt: whether the address could be copied, is one of the internet, and a
  socket could be made for it; the result of \<^verbatim>\<open>connect\<close>; the port and the inputs of the three
  exchanges over the reliable UDP; the uninitialised buffer of 512 bytes, what arrives over TCP, and
  the allocations of the parser.
\<close>

record connect_env =
  ce_addr_alloc :: bool
  ce_addr_internet :: bool
  ce_socket :: bool
  ce_connect :: ChiakiErrorCode
  ce_port :: nat
  ce_init :: "rudp_input list"
  ce_cookie :: "rudp_input list"
  ce_http_psn :: "rudp_input list"
  ce_buf :: bytes
  ce_http :: "http_input list"
  ce_header_alloc :: "nat \<Rightarrow> bool"

text \<open>
  The handshake of the reliable UDP: the remote counter, when it succeeds. The error is kept in a
  variable of the inner block, which hides the one that the function returns.
\<close>

definition rudp_handshake ::
  "rudp_platform \<Rightarrow> rudp_input list \<Rightarrow> rudp_input list \<Rightarrow> rudp \<Rightarrow> (rudp \<times> (ChiakiErrorCode + u16)) option" where
  "rudp_handshake pf init_inps cookie_inps r = do {
     (r, err, message) \<leftarrow> chiaki_rudp_send_recv pf r [] 0 INIT_REQUEST INIT_RESPONSE 8 3 init_inps;
     if err \<noteq> CHIAKI_ERR_SUCCESS then Some (r, Inl err)
     else do {
       m \<leftarrow> message;
       d \<leftarrow> rm_data m;
       init_response \<leftarrow> rd_n d 8 (rm_data_size m - 8);
       (r, err, message) \<leftarrow> chiaki_rudp_send_recv pf r init_response 0 COOKIE_REQUEST COOKIE_RESPONSE 2 3 cookie_inps;
       if err \<noteq> CHIAKI_ERR_SUCCESS then Some (r, Inl err)
       else do { m \<leftarrow> message; Some (r, Inr (rm_remote_counter m)) }
     }
   }"

text \<open>The first step: \<^term>\<open>Inl\<close> when the function returns, with the code that it returns.\<close>

definition ctrl_open :: "ctrl_platform \<Rightarrow> connect_env \<Rightarrow> ctrl \<Rightarrow> (ctrl \<times> (ChiakiErrorCode + u16)) option" where
  "ctrl_open pf env c =
     (case ss_rudp c of
        Some r \<Rightarrow> do {
          (r, res) \<leftarrow> rudp_handshake (cp_rudp pf) (ce_init env) (ce_cookie env) r;
          Some (c\<lparr>ss_rudp := Some r\<rparr>, (case res of Inl err \<Rightarrow> Inl CHIAKI_ERR_SUCCESS | Inr k \<Rightarrow> Inr k))
        }
      | None \<Rightarrow>
          if \<not> ce_addr_alloc env then Some (c, Inl CHIAKI_ERR_MEMORY)
          else if \<not> ce_addr_internet env then Some (c, Inl CHIAKI_ERR_INVALID_DATA)
          else if \<not> ce_socket env then Some (ctrl_failed c CHIAKI_QUIT_REASON_CTRL_UNKNOWN, Inl CHIAKI_ERR_NETWORK)
          else if ce_connect env = CHIAKI_ERR_SUCCESS then Some (c, Inr 0)
          else if ce_connect env = CHIAKI_ERR_CANCELED then Some (c, Inl CHIAKI_ERR_CANCELED)
          else Some (ctrl_failed c
            (if ce_connect env = CHIAKI_ERR_CONNECTION_REFUSED then CHIAKI_QUIT_REASON_CTRL_CONNECTION_REFUSED
             else CHIAKI_QUIT_REASON_CTRL_UNKNOWN), Inl (ce_connect env)))"

text \<open>
  The request is sent and the header of the response received: the header size, when it was set, and
  the received size, with the buffer.
\<close>

definition ctrl_exchange ::
  "ctrl_platform \<Rightarrow> connect_env \<Rightarrow> ctrl \<Rightarrow> u16 \<Rightarrow> bytes \<Rightarrow>
   (ctrl \<times> (ChiakiErrorCode + bytes \<times> nat option \<times> nat)) option" where
  "ctrl_exchange pf env c remote_counter request =
     (case ss_rudp c of
        Some r \<Rightarrow>
          let c = (if chiaki_target_is_ps5 (ss_target c)
                   then c\<lparr>ct_crypt_counter_local := ct_crypt_counter_local c + 1\<rparr> else c)
          in do {
            (r, remote_counter, buf, res) \<leftarrow>
              chiaki_send_recv_http_header_psn (cp_rudp pf) r remote_counter request (ce_buf env) (ce_http_psn env);
            (case res of
               Inl err \<Rightarrow> Some (c\<lparr>ss_rudp := Some r\<rparr>, Inl err)
             | Inr (header_size, received_size) \<Rightarrow> do {
                 (r, err) \<leftarrow> chiaki_rudp_send_ack_message (cp_rudp pf) r remote_counter;
                 let c = c\<lparr>ss_rudp := Some r\<rparr>;
                 if err \<noteq> CHIAKI_ERR_SUCCESS
                 then Some (c\<lparr>ss_quit_reason := CHIAKI_QUIT_REASON_SESSION_REQUEST_UNKNOWN\<rparr>, Inl err)
                 else Some (c, Inr (buf, header_size, received_size))
               })
          }
      | None \<Rightarrow>
          let (c, sent) = ctrl_tcp_send pf c request
          in if \<not> sent then Some (c, Inl CHIAKI_ERR_SUCCESS)
             else do {
               (buf, res) \<leftarrow> chiaki_recv_http_header (ce_buf env) (ce_http env);
               (case res of
                  Inl err \<Rightarrow> Some (c, Inl err)
                | Inr (header_size, received_size) \<Rightarrow> Some (c, Inr (buf, Some header_size, received_size)))
             })"

text \<open>What the server type changes in the video profile: 0 is a PS4, 1 a PS4 Pro.\<close>

definition downgrade :: "u8 \<Rightarrow> bool \<Rightarrow> connect_video_profile \<Rightarrow> connect_video_profile" where
  "downgrade server_type auto_downgrade vp =
     (let vp = (if server_type = 0 \<and> auto_downgrade \<and> vp_height vp = 1080
                then chiaki_connect_video_profile_preset CHIAKI_VIDEO_RESOLUTION_PRESET_720p
                  (if vp_max_fps vp = 60 then CHIAKI_VIDEO_FPS_PRESET_60 else CHIAKI_VIDEO_FPS_PRESET_30)
                else vp)
      in if (server_type = 0 \<or> server_type = 1) \<and> vp_codec vp \<noteq> CHIAKI_CODEC_H264
         then vp\<lparr>vp_codec := CHIAKI_CODEC_H264\<rparr> else vp)"

definition apply_server_type :: "ctrl_platform \<Rightarrow> ctrl \<Rightarrow> ctrl_response \<Rightarrow> ctrl option" where
  "apply_server_type pf c resp =
     (if \<not> cr_server_type_valid resp then Some c
      else
        let counter = ct_crypt_counter_remote c; c = c\<lparr>ct_crypt_counter_remote := counter + 1\<rparr>
        in (case chiaki_rpcrypt_decrypt (cp_crypt pf) (ss_rpcrypt c) counter (cr_rp_server_type resp) of
              Inl err \<Rightarrow> Some c
            | Inr server_type \<Rightarrow> do {
                st \<leftarrow> rd8 server_type 0;
                Some (c\<lparr>ss_video_profile := downgrade st (ss_auto_downgrade c) (ss_video_profile c)\<rparr>)
              }))"

text \<open>The response; what came behind the header goes into the receive buffer.\<close>

definition ctrl_accept ::
  "ctrl_platform \<Rightarrow> connect_env \<Rightarrow> ctrl \<Rightarrow> bytes \<Rightarrow> nat \<Rightarrow> nat \<Rightarrow> (ctrl \<times> ChiakiErrorCode) option" where
  "ctrl_accept pf env c buf header_size received_size = do {
     header \<leftarrow> rd_n buf 0 header_size;
     let (header, res) = chiaki_http_response_parse (ce_header_alloc env) header;
     (case res of
        Inl err \<Rightarrow> Some (c, err)
      | Inr (code, hs) \<Rightarrow> do {
          resp \<leftarrow> parse_ctrl_response code (header_strings_of header hs);
          if \<not> cr_success resp then Some (c, CHIAKI_ERR_UNKNOWN)
          else do {
            c \<leftarrow> apply_server_type pf c resp;
            let c = (if cr_rp_prohibit resp then cantdisplay_cb c True else c);
            rest \<leftarrow> rd_n buf header_size (received_size - header_size);
            recv_buf \<leftarrow> wr (ct_recv_buf c) 0 rest;
            Some (c\<lparr>ct_recv_buf := recv_buf, ct_recv_buf_size := length rest\<rparr>, CHIAKI_ERR_SUCCESS)
          }
        })
   }"

definition ctrl_connect :: "ctrl_platform \<Rightarrow> connect_env \<Rightarrow> ctrl \<Rightarrow> (ctrl \<times> ChiakiErrorCode) option" where
  "ctrl_connect pf env c = do {
     let c = c\<lparr>ct_crypt_counter_local := 0, ct_crypt_counter_remote := 0\<rparr>;
     (c, res) \<leftarrow> ctrl_open pf env c;
     (case res of
        Inl err \<Rightarrow> Some (c, err)
      | Inr remote_counter \<Rightarrow>
          (case request_fields pf c (field_list c) of
             (c, Inl err) \<Rightarrow> Some (c, err)
           | (c, Inr fs) \<Rightarrow>
               let request = ctrl_request c (ce_port env) fs
               in if length request \<ge> 512 then Some (c, CHIAKI_ERR_SUCCESS)
                  else do {
                    (c, res) \<leftarrow> ctrl_exchange pf env c remote_counter request;
                    (case res of
                       Inl err \<Rightarrow> Some (c, err)
                     | Inr (buf, header_size, received_size) \<Rightarrow> do {
                         header_size \<leftarrow> header_size;
                         ctrl_accept pf env c buf header_size received_size
                       })
                  }))
   }"

text \<open>The thread: it connects and goes through its rounds.\<close>

definition ctrl_thread_func :: "ctrl_platform \<Rightarrow> connect_env \<Rightarrow> ctrl_input list \<Rightarrow> ctrl \<Rightarrow> (ctrl \<times> bool) option" where
  "ctrl_thread_func pf env inps c = do {
     (c, err) \<leftarrow> ctrl_connect pf env c;
     if err \<noteq> CHIAKI_ERR_SUCCESS then Some (ctrl_failed c CHIAKI_QUIT_REASON_CTRL_CONNECT_FAILED, False)
     else ctrl_rounds pf c inps
   }"

end
