(* ===== verification/Ctrl_Connect_Props.thy ===== *)
theory Ctrl_Connect_Props
  imports Ctrl_Connect Ctrl_Props Http_Props
begin

text \<open>
  Properties of the set-up of the control connection: the console reads the fields of the request, and
  errors that the set-up does not report.
\<close>

section \<open>The fields of the request\<close>

lemma b64_char_nonzero: "b64_char n s \<noteq> 0"
proof -
  have "list_all (\<lambda>c. c \<noteq> 0) base64chars \<and> length base64chars = 64" by code_simp
  moreover have "unat ((ucast (drop_bit s n) :: u8) AND 63) < 64"
  proof -
    have "(ucast (drop_bit s n) :: u8) AND 63 \<le> 63" by (rule word_and_le1)
    then show ?thesis by (simp add: word_le_nat_alt)
  qed
  ultimately show ?thesis by (simp add: b64_char_def list_all_length)
qed

lemma b64_text_nonzero: "0 \<notin> set (b64_text xs)"
  by (induction xs rule: b64_text.induct) (auto simp: Let_def dest!: sym [of 0] simp: b64_char_nonzero)

lemma c_string_b64: "c_string (b64_text xs @ b64_padding (length xs) @ [0]) 0 = b64_text xs @ b64_padding (length xs)"
proof -
  have "\<forall>x \<in> set (b64_text xs @ b64_padding (length xs)). x \<noteq> 0"
    using b64_text_nonzero [of xs] by (auto simp: b64_padding_def)
  then show ?thesis by (simp add: c_string_def takeWhile_append2)
qed

text \<open>The console decodes and decrypts the fields that are sent, with a counter of its own.\<close>

fun console_fields :: "rpcrypt_platform \<Rightarrow> rpcrypt \<Rightarrow> u64 \<Rightarrow> (bool \<times> bytes \<times> nat) list \<Rightarrow> bytes list \<Rightarrow> bool" where
  "console_fields pf rc k ((present, field, cap) # ps) (f # fs) \<longleftrightarrow>
     (if present
      then (\<exists>enc. chiaki_base64_decode f cap = Some (Inr enc) \<and> chiaki_rpcrypt_decrypt pf rc k enc = Inr field) \<and>
        console_fields pf rc (k + 1) ps fs
      else f = [] \<and> console_fields pf rc k ps fs)"
| "console_fields pf rc k ps fs \<longleftrightarrow> ps = [] \<and> fs = []"

definition encrypts :: "ctrl_platform \<Rightarrow> bool" where
  "encrypts pf \<longleftrightarrow> cfb_contract (cp_crypt pf) \<and> (\<forall>rc k p. length p < 2 ^ 31 \<longrightarrow> (\<exists>e. chiaki_rpcrypt_encrypt (cp_crypt pf) rc k p = Inr e))"

lemma request_fields_ok:
  assumes "encrypts pf" "\<forall>(present, field, cap) \<in> set ps. 4 * ((length field + 2) div 3) < cap \<and> cap < 2 ^ 31"
  shows "\<exists>c' fs. request_fields pf c ps = (c', Inr fs) \<and> length fs = length ps \<and>
    console_fields (cp_crypt pf) (ss_rpcrypt c) (ct_crypt_counter_local c) ps fs \<and>
    c' = c\<lparr>ct_crypt_counter_local := ct_crypt_counter_local c + of_nat (length (filter fst ps))\<rparr>"
  using assms
proof (induction ps arbitrary: c)
  case (Cons f ps)
  obtain present field cap where f: "f = (present, field, cap)" by (cases f)
  have ps: "\<forall>(present, field, cap) \<in> set ps. 4 * ((length field + 2) div 3) < cap \<and> cap < 2 ^ 31" using Cons.prems(2) by simp
  show ?case
  proof (cases present)
    case True
    have small: "length field < 2 ^ 31" using Cons.prems(2) f by auto
    then obtain enc where e: "chiaki_rpcrypt_encrypt (cp_crypt pf) (ss_rpcrypt c) (ct_crypt_counter_local c) field = Inr enc"
      using Cons.prems(1) by (meson encrypts_def)
    have cc: "cfb_contract (cp_crypt pf)" using Cons.prems(1) by (simp add: encrypts_def)
    note dec = encrypt_decrypt [OF cc small e]
    let ?d = "c\<lparr>ct_crypt_counter_local := ct_crypt_counter_local c + 1\<rparr>"
    have cap: "4 * ((length enc + 2) div 3) < cap" using Cons.prems(2) dec(2) f by simp
    then have "request_field pf c field cap = (?d, Inr (b64_text enc @ b64_padding (length enc)))"
      using e by (simp add: request_field_def base64_encode_eq c_string_b64 Let_def)
    moreover have "chiaki_base64_decode (b64_text enc @ b64_padding (length enc)) cap = Some (Inr enc)"
      using cap by (intro base64_decode_eq) simp
    ultimately show ?thesis
      using Cons.IH [OF Cons.prems(1) ps, of ?d] dec(1) True f by (auto simp: algebra_simps)
  next
    case False
    then show ?thesis using Cons.IH [OF Cons.prems(1) ps, of c] f by auto
  qed
qed simp

text \<open>
  C21: The request to the console carries the registration key, the device id, the type of the
  operating system and, where the console expects them, the bitrate and the type of the stream, each
  encrypted under the next counter and encoded so that the console gets it back.
\<close>

theorem ctrl_request_fields_decrypt:
  assumes "encrypts pf" "length (ss_regist_key c) = 16" "length (ss_did c) = 32"
  shows "\<exists>c' fs. request_fields pf c (field_list c) = (c', Inr fs) \<and> length fs = 5 \<and>
    console_fields (cp_crypt pf) (ss_rpcrypt c) (ct_crypt_counter_local c)
      [(True, ss_regist_key c, 32), (True, ss_did c, 64), (True, SESSION_OSTYPE @ [0], 256),
       (have_bitrate c, [0, 0, 0, 0], 256), (have_streaming_type c, le32 (streaming_type c), 256)] fs"
proof -
  have "\<forall>(present, field, cap) \<in> set (field_list c). 4 * ((length field + 2) div 3) < cap \<and> cap < 2 ^ 31"
    using assms(2,3) by (simp add: field_list_def CHIAKI_RPCRYPT_KEY_SIZE_def SESSION_OSTYPE_def text_bytes_def le32_def)
  then show ?thesis
    using request_fields_ok [OF assms(1), of "field_list c" c]
    by (auto simp: field_list_def CHIAKI_RPCRYPT_KEY_SIZE_def)
qed

section \<open>Errors that are not reported\<close>

text \<open>
  C22: The set-up returns success although nothing was set up: when the handshake of the reliable UDP
  fails, when the request is too long for its buffer, and when the request cannot be sent. The control
  connection is not marked as failed, and the thread goes on.
\<close>

theorem ctrl_connect_hides_errors:
  assumes "encrypts pf" "length (ss_regist_key c) = 16" "length (ss_did c) = 32"
    and "case ss_rudp c of
      Some r \<Rightarrow> rudp_handshake (cp_rudp pf) (ce_init env) (ce_cookie env) r = Some (r', Inl err)
    | None \<Rightarrow> ce_addr_alloc env \<and> ce_addr_internet env \<and> ce_socket env \<and> ce_connect env = CHIAKI_ERR_SUCCESS \<and>
        ((\<forall>fs. length (ctrl_request c (ce_port env) fs) \<ge> 512) \<or> (\<forall>request. cp_send pf (ct_sent c) request = None))"
  shows "\<exists>c'. ctrl_connect pf env c = Some (c', CHIAKI_ERR_SUCCESS) \<and> ss_ctrl_failed c' = ss_ctrl_failed c \<and>
    ct_recv_buf_size c' = ct_recv_buf_size c"
proof (cases "ss_rudp c")
  case (Some r)
  then show ?thesis using assms(4) by (simp add: ctrl_connect_def ctrl_open_def)
next
  case None
  define d where "d = c\<lparr>ct_crypt_counter_local := 0, ct_crypt_counter_remote := 0\<rparr>"
  have fields: "\<forall>(present, field, cap) \<in> set (field_list d). 4 * ((length field + 2) div 3) < cap \<and> cap < 2 ^ 31"
    using assms(2,3)
    by (simp add: d_def field_list_def CHIAKI_RPCRYPT_KEY_SIZE_def SESSION_OSTYPE_def text_bytes_def le32_def)
  obtain e fs where e: "request_fields pf d (field_list d) = (e, Inr fs)"
    "e = d\<lparr>ct_crypt_counter_local := ct_crypt_counter_local d + of_nat (length (filter fst (field_list d)))\<rparr>"
    using request_fields_ok [OF assms(1) fields] by blast
  have same: "ss_rudp e = None" "ct_sent e = ct_sent c" "ss_ctrl_failed e = ss_ctrl_failed c"
    "ct_recv_buf_size e = ct_recv_buf_size c"
    using e(2) None by (simp_all add: d_def)
  have request: "ctrl_request e = ctrl_request c"
    using e(2) by (auto simp: ctrl_request_def ctrl_path_def have_bitrate_def have_streaming_type_def d_def fun_eq_iff)
  have "ctrl_open pf env d = Some (d, Inr 0)" using assms(4) None by (simp add: ctrl_open_def d_def)
  then show ?thesis
    using assms(4) None e(1) same request
    by (auto simp: ctrl_connect_def d_def [symmetric] ctrl_exchange_def ctrl_tcp_send_def Let_def)
qed

section \<open>Concrete connections\<close>

lemma sample_encrypts_all: "encrypts (sample_ctrl_platform\<lparr>cp_send := f\<rparr>)"
  by (simp add: encrypts_def sample_ctrl_platform_def sample_cipher_contract sample_encrypts)

theorem ctrl_request_fields_decrypt_witness:
  "\<exists>c' fs. request_fields (sample_ctrl_platform\<lparr>cp_send := \<lambda>_ bs. Some (length bs)\<rparr>) sample_ctrl (field_list sample_ctrl) = (c', Inr fs) \<and>
     length fs = 5 \<and>
     console_fields sample_cipher (ss_rpcrypt sample_ctrl) 0
       [(True, replicate 16 1, 32), (True, replicate 32 0, 64), (True, SESSION_OSTYPE @ [0], 256),
        (True, [0, 0, 0, 0], 256), (True, [1, 0, 0, 0], 256)] fs"
proof -
  have "have_bitrate sample_ctrl" "have_streaming_type sample_ctrl" "le32 (streaming_type sample_ctrl) = [1, 0, 0, 0]"
    by (simp_all add: have_bitrate_def have_streaming_type_def streaming_type_def sample_ctrl_def target_lt_def
        chiaki_target_is_ps5_def chiaki_connect_video_profile_preset_def le32_def be32_def be16_def Let_def)
  then show ?thesis
    using ctrl_request_fields_decrypt [of "sample_ctrl_platform\<lparr>cp_send := \<lambda>_ bs. Some (length bs)\<rparr>" sample_ctrl]
      sample_encrypts_all [of "\<lambda>_ bs. Some (length bs)"]
    by (simp add: sample_ctrl_def sample_ctrl_platform_def)
qed

definition sample_connect_env :: connect_env where
  "sample_connect_env = \<lparr>ce_addr_alloc = True, ce_addr_internet = True, ce_socket = True, ce_connect = CHIAKI_ERR_SUCCESS,
     ce_port = SESSION_CTRL_PORT, ce_init = [], ce_cookie = [], ce_http_psn = [], ce_buf = replicate 512 0, ce_http = [],
     ce_header_alloc = \<lambda>_. True\<rparr>"

theorem ctrl_connect_hides_errors_witness:
  "\<exists>c'. ctrl_connect (sample_ctrl_platform\<lparr>cp_send := \<lambda>_ _. None\<rparr>) sample_connect_env sample_ctrl =
       Some (c', CHIAKI_ERR_SUCCESS) \<and> \<not> ss_ctrl_failed c'"
  using ctrl_connect_hides_errors [OF sample_encrypts_all [of "\<lambda>_ _. None"], of sample_ctrl sample_connect_env]
  by (auto simp: sample_ctrl_def sample_connect_env_def sample_ctrl_platform_def)

end
