(* ===== verification/Regist.thy ===== *)
theory Regist
  imports Ctrl_Connect
begin

text \<open>
  The registration of a client at a console (\<^verbatim>\<open>lib/include/chiaki/regist.h\<close>,
  \<^verbatim>\<open>lib/src/regist.c\<close>): the request with its encrypted payload, the search for the console, the
  response and the thread that goes through these steps.
\<close>

section \<open>Data\<close>

definition CHIAKI_PSN_ACCOUNT_ID_SIZE :: nat where
  "CHIAKI_PSN_ACCOUNT_ID_SIZE = 8"

record holepunch_regist_info =
  hi_data1 :: bytes
  hi_data2 :: bytes
  hi_custom_data1 :: bytes
  hi_regist_local_ip :: bytes

text \<open>The host is not used by the model; a pointer that may be null is an option.\<close>

record regist_info =
  ri_target :: ChiakiTarget
  ri_psn_online_id :: "bytes option"
  ri_psn_account_id :: bytes
  ri_pin :: u32
  ri_console_pin :: u32
  ri_holepunch_info :: "holepunch_regist_info option"
  ri_rudp :: "rudp option"

text \<open>The arrays of characters that end with a null byte are strings.\<close>

record registered_host =
  rh_target :: ChiakiTarget
  rh_ap_ssid :: bytes
  rh_ap_bssid :: bytes
  rh_ap_key :: bytes
  rh_ap_name :: bytes
  rh_server_mac :: bytes
  rh_server_nickname :: bytes
  rh_rp_regist_key :: bytes
  rh_rp_key_type :: u32
  rh_rp_key :: bytes
  rh_console_pin :: u32

datatype regist_event =
    REGIST_EVENT_FINISHED_CANCELED
  | REGIST_EVENT_FINISHED_FAILED
  | REGIST_EVENT_FINISHED_SUCCESS registered_host

section \<open>The request\<close>

fun request_path :: "ChiakiTarget \<Rightarrow> bytes" where
  "request_path CHIAKI_TARGET_PS5_UNKNOWN = text_bytes ''/sie/ps5/rp/sess/rgst''"
| "request_path CHIAKI_TARGET_PS5_1 = text_bytes ''/sie/ps5/rp/sess/rgst''"
| "request_path CHIAKI_TARGET_PS4_8 = text_bytes ''/sce/rp/regist''"
| "request_path CHIAKI_TARGET_PS4_9 = text_bytes ''/sce/rp/regist''"
| "request_path _ = text_bytes ''/sie/ps4/rp/sess/rgst''"

definition request_head :: "ChiakiTarget \<Rightarrow> bytes \<Rightarrow> nat \<Rightarrow> bytes" where
  "request_head target local_addr payload_size =
     text_bytes ''POST '' @ request_path target @ text_bytes '' HTTP/1.1'' @ crlf @ text_bytes '' HTTP/1.1'' @ crlf @
     text_bytes ''HOST: '' @ local_addr @ crlf @
     text_bytes ''User-Agent: remoteplay Windows'' @ crlf @
     text_bytes ''Connection: close'' @ crlf @
     text_bytes ''Content-Length: '' @ decimal payload_size @ crlf"

text \<open>
  The header in a buffer of \<open>buf_size\<close> bytes: \<^term>\<open>Inl\<close> of the result \<open>-1\<close>. The checks of the first
  part and the end are against the size of the payload; a write behind the buffer is \<^term>\<open>None\<close>, as
  is a version that is null.
\<close>

definition request_header_format :: "nat \<Rightarrow> nat \<Rightarrow> ChiakiTarget \<Rightarrow> bytes \<Rightarrow> (unit + bytes) option" where
  "request_header_format buf_size payload_size target local_addr =
     (let head = request_head target local_addr payload_size
      in if length head \<ge> payload_size then Some (Inl ())
         else do {
           version \<leftarrow>
             (if target_lt target CHIAKI_TARGET_PS4_9 then Some (Inr [])
              else do {
                v \<leftarrow> chiaki_rp_version_string target;
                let line = text_bytes ''RP-Version: '' @ v @ crlf;
                if length head > buf_size then None
                else Some (if length line \<ge> buf_size - length head then Inl () else Inr line)
              });
           (case version of
              Inl _ \<Rightarrow> Some (Inl ())
            | Inr line \<Rightarrow>
                let cur = length head + length line
                in if cur + 3 > payload_size then Some (Inl ())
                   else if cur + 3 > buf_size then None
                   else Some (Inr (head @ line @ crlf)))
         })"

definition client_type :: bytes where
  "client_type = text_bytes ''dabfa2ec873de5839bee8d3f4c0239c4282c07c25c6077a2931afcf0adc0d34f''"

definition client_type_ps4_pre10 :: bytes where
  "client_type_ps4_pre10 = text_bytes ''Windows''"

definition inner_header_off :: nat where
  "inner_header_off = 0x1e0"

text \<open>
  The keys and the first part of the payload, which hides the scrambled seed; \<open>buf\<close> is filled with
  the letter A.
\<close>

definition regist_keys ::
  "rpcrypt_platform \<Rightarrow> ChiakiTarget \<Rightarrow> bytes \<Rightarrow> bytes \<Rightarrow> u32 \<Rightarrow> holepunch_regist_info option \<Rightarrow>
   (ChiakiErrorCode + rpcrypt \<times> bytes) option" where
  "regist_keys pf target ambassador buf pin hinfo =
     (if target_lt target CHIAKI_TARGET_PS4_10 then do {
        crypt \<leftarrow> chiaki_rpcrypt_init_regist_ps4_pre10 ambassador pin;
        aeropause \<leftarrow> chiaki_rpcrypt_aeropause_ps4_pre10 (rc_ambassador crypt);
        buf \<leftarrow> wr buf 0x11c aeropause;
        Some (Inr (crypt, buf))
      }
      else do {
        b0 \<leftarrow> rd8 buf 0x18D;
        b1 \<leftarrow> rd8 buf 0;
        let key_0_off = unat (b0 AND 0x1F);
        let key_1_off = unat (drop_bit 3 b1);
        r \<leftarrow> (case hinfo of
               Some h \<Rightarrow> chiaki_rpcrypt_init_regist_psn pf target ambassador key_0_off (hi_custom_data1 h) (hi_data1 h) (hi_data2 h)
             | None \<Rightarrow> chiaki_rpcrypt_init_regist target ambassador key_0_off pin);
        (case r of
           Inl err \<Rightarrow> Some (Inl err)
         | Inr crypt \<Rightarrow> do {
             r \<leftarrow> (case hinfo of
                    Some h \<Rightarrow> chiaki_rpcrypt_aeropause_psn target key_1_off (rc_ambassador crypt)
                  | None \<Rightarrow> chiaki_rpcrypt_aeropause target key_1_off (rc_ambassador crypt));
             (case r of
                Inl err \<Rightarrow> Some (Inl err)
              | Inr aeropause \<Rightarrow> do {
                  buf \<leftarrow> wr buf 0xc7 (drop 8 aeropause);
                  buf \<leftarrow> wr buf 0x191 (take 8 aeropause);
                  Some (Inr (crypt, buf))
                })
           })
      })"

definition inner_header :: "ChiakiTarget \<Rightarrow> bytes option \<Rightarrow> bytes option \<Rightarrow> ChiakiErrorCode + bytes" where
  "inner_header target psn_online_id psn_account_id =
     (case psn_online_id of
        Some online_id \<Rightarrow>
          Inr (text_bytes ''Client-Type: Windows'' @ crlf @ text_bytes ''Np-Online-Id: '' @ online_id @ crlf)
      | None \<Rightarrow>
          (case psn_account_id of
             None \<Rightarrow> Inl CHIAKI_ERR_INVALID_DATA
           | Some account_id \<Rightarrow>
               (case chiaki_base64_encode (take CHIAKI_PSN_ACCOUNT_ID_SIZE account_id) (CHIAKI_PSN_ACCOUNT_ID_SIZE * 2) of
                  Inl err \<Rightarrow> Inl err
                | Inr b64 \<Rightarrow>
                    Inr (text_bytes ''Client-Type: '' @
                      (if target_lt target CHIAKI_TARGET_PS4_10 then client_type_ps4_pre10 else client_type) @ crlf @
                      text_bytes ''Np-AccountId: '' @ c_string b64 0 @ crlf))))"

text \<open>The payload in a buffer of \<open>buf_size\<close> bytes, with the keys.\<close>

definition chiaki_regist_request_payload_format ::
  "rpcrypt_platform \<Rightarrow> ChiakiTarget \<Rightarrow> bytes \<Rightarrow> nat \<Rightarrow> bytes option \<Rightarrow> bytes option \<Rightarrow> u32 \<Rightarrow>
   holepunch_regist_info option \<Rightarrow> (ChiakiErrorCode + bytes \<times> rpcrypt) option" where
  "chiaki_regist_request_payload_format pf target ambassador buf_size psn_online_id psn_account_id pin hinfo =
     (if buf_size < inner_header_off then Some (Inl CHIAKI_ERR_BUF_TOO_SMALL)
      else do {
        r \<leftarrow> regist_keys pf target ambassador (replicate inner_header_off (of_char (CHR ''A''))) pin hinfo;
        (case r of
           Inl err \<Rightarrow> Some (Inl err)
         | Inr (crypt, buf) \<Rightarrow>
             let psn_online_id = (if target_lt target CHIAKI_TARGET_PS4_10 then psn_online_id else None)
             in (case inner_header target psn_online_id psn_account_id of
                   Inl err \<Rightarrow> Some (Inl err)
                 | Inr inner \<Rightarrow>
                     if length inner \<ge> buf_size - inner_header_off then Some (Inl CHIAKI_ERR_BUF_TOO_SMALL)
                     else
                       (case chiaki_rpcrypt_encrypt pf crypt 0 inner of
                          Inl err \<Rightarrow> Some (Inl err)
                        | Inr enc \<Rightarrow> Some (Inr (buf @ enc, crypt)))))
      })"

section \<open>Search\<close>

text \<open>Whether a packet is the answer of the console; the buffer of \<^verbatim>\<open>recvfrom\<close> has 255 bytes.\<close>

definition search_answer :: "ChiakiTarget \<Rightarrow> bytes" where
  "search_answer target = text_bytes (if chiaki_target_is_ps5 target then ''RES3'' else ''RES2'')"

text \<open>When there is no more input the wait times out.\<close>

fun regist_search_loop :: "ChiakiTarget \<Rightarrow> http_input list \<Rightarrow> ChiakiErrorCode" where
  "regist_search_loop target [] = CHIAKI_ERR_TIMEOUT"
| "regist_search_loop target (Wait_Error err # ins) = err"
| "regist_search_loop target (Http_Recv_Error # ins) = CHIAKI_ERR_NETWORK"
| "regist_search_loop target (Http_Received bs # ins) =
     (let buf = take 255 bs; res = search_answer target
      in if buf = [] then CHIAKI_ERR_NETWORK
         else if length buf \<ge> length res \<and> take (length res) buf = res then CHIAKI_ERR_SUCCESS
         else regist_search_loop target ins)"

text \<open>\<open>sock_ok\<close> and \<open>send_ok\<close>: a socket could be connected, and the search packet sent.\<close>

definition regist_search :: "ChiakiTarget \<Rightarrow> bool \<Rightarrow> bool \<Rightarrow> http_input list \<Rightarrow> ChiakiErrorCode" where
  "regist_search target sock_ok send_ok ins =
     (if \<not> sock_ok then CHIAKI_ERR_NETWORK
      else if \<not> send_ok then CHIAKI_ERR_NETWORK
      else regist_search_loop target ins)"

section \<open>The response\<close>

record found =
  mac_found :: bool
  regist_key_found :: bool
  key_found :: bool

definition zero_host :: "ChiakiTarget \<Rightarrow> registered_host" where
  "zero_host target = \<lparr>rh_target = target, rh_ap_ssid = [], rh_ap_bssid = [], rh_ap_key = [], rh_ap_name = [],
     rh_server_mac = replicate 6 0, rh_server_nickname = [], rh_rp_regist_key = replicate 16 0, rh_rp_key_type = 0,
     rh_rp_key = replicate 16 0, rh_console_pin = 0\<rparr>"

definition console_header :: "bool \<Rightarrow> string \<Rightarrow> bytes" where
  "console_header ps5 name = text_bytes ((if ps5 then ''PS5-'' else ''PS4-'') @ name)"

text \<open>
  One header of the answer. A string that does not fit with its null byte is skipped; the registration
  key is cleared before it is parsed, so that a shorter key is followed by null bytes.
\<close>

definition regist_header :: "bool \<Rightarrow> bytes \<Rightarrow> bytes \<Rightarrow> registered_host \<times> found \<Rightarrow> registered_host \<times> found" where
  "regist_header ps5 key val hf =
     (case hf of (h, f) \<Rightarrow>
        if key = text_bytes ''AP-Ssid'' then (if length val \<ge> 0x30 then h else h\<lparr>rh_ap_ssid := val\<rparr>, f)
        else if key = text_bytes ''AP-Bssid'' then (if length val \<ge> 0x20 then h else h\<lparr>rh_ap_bssid := val\<rparr>, f)
        else if key = text_bytes ''AP-Key'' then (if length val \<ge> 0x50 then h else h\<lparr>rh_ap_key := val\<rparr>, f)
        else if key = text_bytes ''AP-Name'' then (if length val \<ge> 0x20 then h else h\<lparr>rh_ap_name := val\<rparr>, f)
        else if key = console_header ps5 ''Nickname''
        then (if length val \<ge> 0x20 then h else h\<lparr>rh_server_nickname := val\<rparr>, f)
        else if key = console_header ps5 ''RegistKey'' then
          (case parse_hex 16 val of
             Inl err \<Rightarrow> (h\<lparr>rh_rp_regist_key := replicate 16 0\<rparr>, f)
           | Inr bs \<Rightarrow> (h\<lparr>rh_rp_regist_key := bs @ replicate (16 - length bs) 0\<rparr>, f\<lparr>regist_key_found := True\<rparr>))
        else if key = text_bytes ''RP-KeyType'' then (h\<lparr>rh_rp_key_type := ucast (strtoul 0 val)\<rparr>, f)
        else if key = text_bytes ''RP-Key'' then
          (case parse_hex 16 val of
             Inl err \<Rightarrow> (h\<lparr>rh_rp_key := replicate 16 0\<rparr>, f)
           | Inr bs \<Rightarrow>
               if length bs \<noteq> 16 then (h\<lparr>rh_rp_key := replicate 16 0\<rparr>, f)
               else (h\<lparr>rh_rp_key := bs\<rparr>, f\<lparr>key_found := True\<rparr>))
        else if key = console_header ps5 ''Mac'' then
          (case parse_hex 6 val of
             Inl err \<Rightarrow> (h\<lparr>rh_server_mac := replicate 6 0\<rparr>, f)
           | Inr bs \<Rightarrow>
               if length bs \<noteq> 6 then (h\<lparr>rh_server_mac := replicate 6 0\<rparr>, f)
               else (h\<lparr>rh_server_mac := bs\<rparr>, f\<lparr>mac_found := True\<rparr>))
        else (h, f))"

fun regist_headers :: "bool \<Rightarrow> (bytes \<times> bytes) list \<Rightarrow> registered_host \<times> found \<Rightarrow> registered_host \<times> found" where
  "regist_headers ps5 [] hf = hf"
| "regist_headers ps5 ((key, val) # hs) hf = regist_headers ps5 hs (regist_header ps5 key val hf)"

text \<open>The headers in the order of the list.\<close>

definition regist_parse_headers :: "ChiakiTarget \<Rightarrow> (bytes \<times> bytes) list \<Rightarrow> ChiakiErrorCode + registered_host" where
  "regist_parse_headers target hs =
     (let (h, f) = regist_headers (chiaki_target_is_ps5 target) hs
            (zero_host target, \<lparr>mac_found = False, regist_key_found = False, key_found = False\<rparr>)
      in if \<not> regist_key_found f then Inl CHIAKI_ERR_INVALID_RESPONSE
         else if \<not> key_found f then Inl CHIAKI_ERR_INVALID_RESPONSE
         else if \<not> mac_found f then Inl CHIAKI_ERR_INVALID_RESPONSE
         else Inr h)"

definition regist_parse_response_payload ::
  "(nat \<Rightarrow> bool) \<Rightarrow> ChiakiTarget \<Rightarrow> bytes \<Rightarrow> ChiakiErrorCode + registered_host" where
  "regist_parse_response_payload alloc target buf =
     (case chiaki_http_header_parse alloc buf of
        (buf, Inl err) \<Rightarrow> Inl err
      | (buf, Inr hs) \<Rightarrow> regist_parse_headers target (header_strings_of buf hs))"

text \<open>
  The environment of a registration: the encryption library, the reliable UDP, the allocations of the
  parser, the uninitialised buffer for the response, and what happens in each step: the random seed,
  whether the address was resolved, the search, the wait after it, the connection, the two sends, what
  arrives over TCP, first for the header and then for the rest, and in each exchange over the
  reliable UDP.
\<close>

record regist_env =
  re_crypt :: rpcrypt_platform
  re_rudp :: rudp_platform
  re_alloc :: "nat \<Rightarrow> bool"
  re_buf :: bytes
  re_random :: "ChiakiErrorCode + bytes"
  re_addrinfo :: bool
  re_search_sock :: bool
  re_search_send :: bool
  re_search :: "http_input list"
  re_sleep :: ChiakiErrorCode
  re_connect :: bool
  re_send_header :: bool
  re_send_payload :: bool
  re_http :: "http_input list"
  re_content :: "http_input list"
  re_init :: "rudp_input list"
  re_cookie :: "rudp_input list"
  re_http_psn :: "rudp_input list"
  re_finish :: "rudp_input list"

text \<open>
  The header: the buffer, the size of the header and what was received. Over the reliable UDP the
  connection is closed by another exchange.
\<close>

definition regist_recv_header ::
  "regist_env \<Rightarrow> rudp option \<Rightarrow> u16 \<Rightarrow> bytes \<Rightarrow>
   (rudp option \<times> (ChiakiErrorCode + bytes \<times> nat \<times> nat)) option" where
  "regist_recv_header env rudp remote_counter send_buf =
     (case rudp of
        Some r \<Rightarrow> do {
          (r, remote_counter, buf, res) \<leftarrow>
            chiaki_send_recv_http_header_psn (re_rudp env) r remote_counter send_buf (re_buf env) (re_http_psn env);
          (case res of
             Inl err \<Rightarrow> Some (Some r, Inl err)
           | Inr (header_size, filled) \<Rightarrow> do {
               (r, err, _) \<leftarrow> chiaki_rudp_send_recv (re_rudp env) r [] remote_counter ACK FINISH 0 3 (re_finish env);
               if err \<noteq> CHIAKI_ERR_SUCCESS then Some (Some r, Inl err)
               else do { header_size \<leftarrow> header_size; Some (Some r, Inr (buf, header_size, filled)) }
             })
        }
      | None \<Rightarrow> do {
          (buf, res) \<leftarrow> chiaki_recv_http_header (re_buf env) (re_http env);
          (case res of
             Inl err \<Rightarrow> Some (None, Inl err)
           | Inr (header_size, filled) \<Rightarrow> Some (None, Inr (buf, header_size, filled)))
        })"

definition content_length :: "(bytes \<times> bytes) list \<Rightarrow> u64" where
  "content_length hs =
     fold (\<lambda>(key, val) n. if key = text_bytes ''Content-Length'' then strtoul 0 val else n) hs 0"

text \<open>The rest of the content, up to the size \<open>whole\<close>.\<close>

fun recv_content :: "bytes \<Rightarrow> nat \<Rightarrow> nat \<Rightarrow> http_input list \<Rightarrow> (bytes \<times> (ChiakiErrorCode + nat)) option" where
  "recv_content buf filled whole ins =
     (if filled \<ge> whole then Some (buf, Inr filled)
      else
        (case ins of
           [] \<Rightarrow> Some (buf, Inl CHIAKI_ERR_TIMEOUT)
         | Wait_Error err # _ \<Rightarrow> Some (buf, Inl err)
         | Http_Recv_Error # _ \<Rightarrow> Some (buf, Inl CHIAKI_ERR_NETWORK)
         | Http_Received bs # ins \<Rightarrow>
             let bs = take (whole - filled) bs
             in if bs = [] then Some (buf, Inl CHIAKI_ERR_NETWORK)
                else do { buf \<leftarrow> wr buf filled bs; recv_content buf (filled + length bs) whole ins }))"

declare recv_content.simps [simp del]

text \<open>The size of the whole response is computed in 64 bits; a payload that cannot be decrypted is parsed as it is.\<close>

definition regist_recv_response ::
  "regist_env \<Rightarrow> ChiakiTarget \<Rightarrow> rpcrypt \<Rightarrow> rudp option \<Rightarrow> u16 \<Rightarrow> bytes \<Rightarrow>
   (rudp option \<times> (ChiakiErrorCode + registered_host)) option" where
  "regist_recv_response env target crypt rudp remote_counter send_buf = do {
     (rudp, res) \<leftarrow> regist_recv_header env rudp remote_counter send_buf;
     (case res of
        Inl err \<Rightarrow> Some (rudp, Inl err)
      | Inr (buf, header_size, filled) \<Rightarrow> do {
          header \<leftarrow> rd_n buf 0 header_size;
          let (header, res) = chiaki_http_response_parse (re_alloc env) header;
          (case res of
             Inl err \<Rightarrow> Some (rudp, Inl err)
           | Inr (code, hs) \<Rightarrow>
               if code \<noteq> 200 then Some (rudp, Inl CHIAKI_ERR_UNKNOWN)
               else
                 let content_size = content_length (header_strings_of header hs);
                     whole = unat (content_size + of_nat header_size)
                 in if content_size = 0 then Some (rudp, Inl CHIAKI_ERR_INVALID_RESPONSE)
                    else if whole > length buf then Some (rudp, Inl CHIAKI_ERR_BUF_TOO_SMALL)
                    else do {
                      (buf, res) \<leftarrow>
                        (if rudp \<noteq> None
                         then Some (buf, if filled < whole then Inl CHIAKI_ERR_NETWORK else Inr filled)
                         else recv_content buf filled whole (re_content env));
                      (case res of
                         Inl err \<Rightarrow> Some (rudp, Inl err)
                       | Inr filled \<Rightarrow> do {
                           payload \<leftarrow> rd_n buf header_size (filled - header_size);
                           let payload = (case chiaki_rpcrypt_decrypt (re_crypt env) crypt 0 payload of
                               Inl err \<Rightarrow> payload | Inr dec \<Rightarrow> dec);
                           Some (rudp, regist_parse_response_payload (re_alloc env) target payload)
                         })
                    })
        })
   }"

section \<open>The thread\<close>

text \<open>
  The address of the client in the request: that of the hole punching, or a constant; in an array of 46
  bytes.
\<close>

definition local_addr_of :: "regist_info \<Rightarrow> bytes" where
  "local_addr_of info =
     (case ri_holepunch_info info of Some h \<Rightarrow> c_string (hi_regist_local_ip h) 0 | None \<Rightarrow> text_bytes ''10.0.2.15'')"

text \<open>The steps up to the request: \<^term>\<open>Inl\<close> of the event that ends the thread.\<close>

definition regist_reach ::
  "regist_env \<Rightarrow> regist_info \<Rightarrow> (rudp option \<times> (regist_event + u16)) option" where
  "regist_reach env info =
     (case ri_holepunch_info info of
        Some _ \<Rightarrow> do {
          r \<leftarrow> ri_rudp info;
          (r, res) \<leftarrow> rudp_handshake (re_rudp env) (re_init env) (re_cookie env) r;
          Some (Some r, (case res of Inl err \<Rightarrow> Inl REGIST_EVENT_FINISHED_FAILED | Inr k \<Rightarrow> Inr k))
        }
      | None \<Rightarrow>
          if \<not> re_addrinfo env then Some (None, Inl REGIST_EVENT_FINISHED_FAILED)
          else
            let err = regist_search (ri_target info) (re_search_sock env) (re_search_send env) (re_search env)
            in if err = CHIAKI_ERR_CANCELED then Some (None, Inl REGIST_EVENT_FINISHED_CANCELED)
               else if err \<noteq> CHIAKI_ERR_SUCCESS then Some (None, Inl REGIST_EVENT_FINISHED_FAILED)
               else if re_sleep env \<noteq> CHIAKI_ERR_TIMEOUT then Some (None, Inl REGIST_EVENT_FINISHED_CANCELED)
               else if \<not> re_connect env then Some (None, Inl REGIST_EVENT_FINISHED_FAILED)
               else if \<not> re_send_header env then Some (None, Inl REGIST_EVENT_FINISHED_FAILED)
               else if \<not> re_send_payload env then Some (None, Inl REGIST_EVENT_FINISHED_FAILED)
               else Some (None, Inr 0))"

text \<open>The whole thread: the state of the reliable UDP and the event that is sent.\<close>

definition regist_thread_func :: "regist_env \<Rightarrow> regist_info \<Rightarrow> (rudp option \<times> regist_event) option" where
  "regist_thread_func env info =
     (case re_random env of
        Inl err \<Rightarrow> Some (ri_rudp info, REGIST_EVENT_FINISHED_FAILED)
      | Inr ambassador \<Rightarrow> do {
          r \<leftarrow> chiaki_regist_request_payload_format (re_crypt env) (ri_target info) ambassador 0x400
                 (ri_psn_online_id info) (Some (ri_psn_account_id info)) (ri_pin info) (ri_holepunch_info info);
          (case r of
             Inl err \<Rightarrow> Some (ri_rudp info, REGIST_EVENT_FINISHED_FAILED)
           | Inr (payload, crypt) \<Rightarrow> do {
               h \<leftarrow> request_header_format 0x100 (length payload) (ri_target info) (local_addr_of info);
               (case h of
                  Inl _ \<Rightarrow> Some (ri_rudp info, REGIST_EVENT_FINISHED_FAILED)
                | Inr header \<Rightarrow>
                    if length header \<ge> 0x100 then Some (ri_rudp info, REGIST_EVENT_FINISHED_FAILED)
                    else do {
                      (rudp, res) \<leftarrow> regist_reach env info;
                      (case res of
                         Inl event \<Rightarrow> Some (rudp, event)
                       | Inr remote_counter \<Rightarrow> do {
                           (rudp, res) \<leftarrow> regist_recv_response env (ri_target info) crypt rudp remote_counter (header @ payload);
                           Some (rudp,
                             (case res of
                                Inl err \<Rightarrow> if err = CHIAKI_ERR_CANCELED then REGIST_EVENT_FINISHED_CANCELED
                                           else REGIST_EVENT_FINISHED_FAILED
                              | Inr host \<Rightarrow> REGIST_EVENT_FINISHED_SUCCESS (host\<lparr>rh_console_pin := ri_console_pin info\<rparr>)))
                         })
                    })
             })
        })"

section \<open>Its effect on the session\<close>

definition regist_cb :: "'a session_scheme \<Rightarrow> regist_event \<Rightarrow> 'a session_scheme" where
  "regist_cb s event =
     (case event of
        REGIST_EVENT_FINISHED_SUCCESS host \<Rightarrow>
          let s = s\<lparr>ss_morning := rh_rp_key host, ss_regist_key := rh_rp_regist_key host\<rparr>;
              s = (if \<not> ss_ps5 s then chiaki_session_send_event s (EVENT_NICKNAME_RECEIVED (rh_server_nickname host)) else s)
          in s\<lparr>ss_psn_regist_succeeded := True\<rparr>
      | _ \<Rightarrow> s\<lparr>ss_quit_reason := CHIAKI_QUIT_REASON_PSN_REGIST_FAILED, ss_should_stop := True\<rparr>)"

end
