(* ===== verification/Regist_Props.thy ===== *)
theory Regist_Props
  imports Regist Ctrl_Connect_Props
begin

text \<open>
  Properties of the registration: the console reads the payload of the request, and the response gives
  the keys that the console put into it.
\<close>

section \<open>The request\<close>

text \<open>
  The console, from the formulas of the protocol. It finds the seed in the first part of the payload,
  where the bytes at 0 and 0x18d say which columns of the tables are used, and mixes the pin that it shows
  into its key.
\<close>

definition console_request_seed :: "ChiakiTarget \<Rightarrow> bytes \<Rightarrow> bytes" where
  "console_request_seed t payload =
     (if target_lt t CHIAKI_TARGET_PS4_10
      then map (\<lambda>i. (payload ! (284 + i) XOR echo_b ! i) + of_nat i + 41) [0..<16]
      else
        let column = unat (payload ! 0) div 8;
            hidden = (\<lambda>i. payload ! (if i < 8 then 401 + i else 191 + i))
        in map (\<lambda>i. if chiaki_target_is_ps5 t then (hidden i + 45 - of_nat i) XOR ps5_keys_1 ! (32 * i + column)
             else (hidden i - 41 - of_nat i) XOR ps4_keys_1 ! (32 * i + column)) [0..<16])"

definition pin_byte :: "u32 \<Rightarrow> nat \<Rightarrow> u8" where
  "pin_byte pin i = of_nat (unat pin div 256 ^ (3 - i))"

definition console_request_key :: "ChiakiTarget \<Rightarrow> bytes \<Rightarrow> u32 \<Rightarrow> bytes" where
  "console_request_key t payload pin =
     (if target_lt t CHIAKI_TARGET_PS4_10
      then map (\<lambda>i. regist_aes_key ! i XOR (if i < 4 then pin_byte pin i else 0)) [0..<16]
      else
        let column = unat (payload ! 397) mod 32; keys = (if chiaki_target_is_ps5 t then ps5_keys_0 else ps4_keys_0)
        in map (\<lambda>i. keys ! (32 * i + column) XOR (if i < 12 then 0 else pin_byte pin (i - 12))) [0..<16])"

text \<open>All consoles before version 10 use the hash of version 9.\<close>

definition console_request_iv :: "rpcrypt_platform \<Rightarrow> ChiakiTarget \<Rightarrow> bytes \<Rightarrow> bytes" where
  "console_request_iv pf t payload =
     console_iv pf (if target_lt t CHIAKI_TARGET_PS4_10 then CHIAKI_TARGET_PS4_9 else t) (console_request_seed t payload) 0"

lemma pin_bytes_eq:
  "ucast (drop_bit 0x18 pin AND 0xff) = pin_byte pin 0" "ucast (drop_bit 0x10 pin AND 0xff) = pin_byte pin (Suc 0)"
  "ucast (drop_bit 0x08 pin AND 0xff) = pin_byte pin 2" "ucast (pin AND 0xff) = pin_byte pin 3"
proof -
  have m: "(0xff :: u32) = mask 8" by (simp add: mask_eq_exp_minus_1)
  have b: "(ucast (drop_bit k pin AND 0xff) :: u8) = of_nat (unat pin div 2 ^ k)" for k
  proof -
    have "(ucast (drop_bit k pin AND 0xff) :: u8) = ucast (drop_bit k pin)"
      unfolding m by (rule bit_word_eqI) (simp add: bit_simps)
    also have "\<dots> = of_nat (unat (drop_bit k pin))" by (rule of_nat_unat [symmetric])
    also have "unat (drop_bit k pin) = unat pin div 2 ^ k"
      unfolding unat_drop_bit_eq drop_bit_eq_div [where 'a = nat] ..
    finally show ?thesis .
  qed
  show "ucast (drop_bit 0x18 pin AND 0xff) = pin_byte pin 0" "ucast (drop_bit 0x10 pin AND 0xff) = pin_byte pin (Suc 0)"
    "ucast (drop_bit 0x08 pin AND 0xff) = pin_byte pin 2" "ucast (pin AND 0xff) = pin_byte pin 3"
    using b [of 24] b [of 16] b [of 8] b [of 0] by (simp_all add: pin_byte_def)
qed

lemma xor_pin_nth:
  assumes "length key = 16" "k \<le> 12" "i < 16"
  shows "xor_pin key k pin ! i = key ! i XOR (if k \<le> i \<and> i < k + 4 then pin_byte pin (i - k) else 0)"
proof -
  consider "i = k" | "i = Suc k" | "i = k + 2" | "i = k + 3" | "i < k \<or> k + 4 \<le> i" by linarith
  then show ?thesis
    unfolding xor_pin_def unfolding pin_bytes_eq(1-3) unfolding pin_bytes_eq(4)
    by cases (use assms in \<open>auto simp: nth_list_update\<close>)
qed

lemma length_xor_pin [simp]: "length (xor_pin key k pin) = length key"
  by (simp add: xor_pin_def)

text \<open>The client puts into the request what the console finds there.\<close>

lemma regist_keys_pre10:
  assumes "length ambassador = 16" "target_lt t CHIAKI_TARGET_PS4_10"
  shows "\<exists>crypt buf. regist_keys pf t ambassador (replicate inner_header_off (of_char (CHR ''A''))) pin None =
    Some (Inr (crypt, buf)) \<and> length buf = inner_header_off \<and> rc_target crypt = CHIAKI_TARGET_PS4_9 \<and>
    console_request_seed t (buf @ enc) = rc_ambassador crypt \<and> console_request_key t (buf @ enc) pin = rc_bright crypt"
proof -
  let ?a = "map (\<lambda>i. (ambassador ! i - of_nat i - 0x29) XOR echo_b ! i) [0..<16]"
  let ?buf = "upd (replicate inner_header_off (of_char (CHR ''A''))) 0x11c ?a"
  have key: "length regist_aes_key = 16" by simp
  have "key_bytes (\<lambda>i. do { v \<leftarrow> rd8 ambassador i; b \<leftarrow> rd8 echo_b i; Some ((v - of_nat i - 0x29) XOR b) }) = Some ?a"
    unfolding CHIAKI_RPCRYPT_KEY_SIZE_def by (rule key_loop_map) (simp add: assms buf_simps)
  then have "regist_keys pf t ambassador (replicate inner_header_off (of_char (CHR ''A''))) pin None =
      Some (Inr (\<lparr>rc_target = CHIAKI_TARGET_PS4_9, rc_bright = xor_pin regist_aes_key 0 pin, rc_ambassador = ambassador\<rparr>, ?buf))"
    using assms
    by (simp add: regist_keys_def chiaki_rpcrypt_init_regist_ps4_pre10_def chiaki_rpcrypt_aeropause_ps4_pre10_def
        CHIAKI_RPCRYPT_KEY_SIZE_def inner_header_off_def buf_simps)
  moreover have "console_request_seed t (?buf @ enc) = ambassador"
    by (rule nth_equalityI) (use assms in \<open>simp_all add: console_request_seed_def inner_header_off_def nth_append nth_upd xor.assoc\<close>)
  moreover have "console_request_key t (?buf @ enc) pin = xor_pin regist_aes_key 0 pin"
    by (rule nth_equalityI) (use assms xor_pin_nth [OF key] in \<open>simp_all add: console_request_key_def\<close>)
  ultimately show ?thesis by (simp add: inner_header_off_def)
qed

lemma regist_keys_10:
  assumes "length ambassador = 16" "\<not> target_lt t CHIAKI_TARGET_PS4_10"
  shows "\<exists>crypt buf. regist_keys pf t ambassador (replicate inner_header_off (of_char (CHR ''A''))) pin None =
    Some (Inr (crypt, buf)) \<and> length buf = inner_header_off \<and> rc_target crypt = t \<and>
    console_request_seed t (buf @ enc) = rc_ambassador crypt \<and> console_request_key t (buf @ enc) pin = rc_bright crypt"
proof -
  let ?w = "if chiaki_target_is_ps5 t then - 0x2d else 0x29 :: u8"
  let ?A = "replicate inner_header_off (0x41 :: u8)"
  let ?key = "map (\<lambda>i. keys_0_of t ! (i * 0x20 + 1)) [0..<16]"
  let ?a = "map (\<lambda>i. (ambassador ! i XOR keys_1_of t ! (i * 0x20 + 8)) + ?w + of_nat i) [0..<16]"
  let ?buf = "upd (upd ?A 0xc7 (drop 8 ?a)) 0x191 (take 8 ?a)"
  have A: "(of_char (CHR ''A'') :: u8) = 0x41" by simp
  have k0: "key_bytes (\<lambda>i. rd8 (keys_0_of t) (i * 0x20 + 1)) = Some ?key"
    unfolding CHIAKI_RPCRYPT_KEY_SIZE_def by (rule key_loop_map) (simp add: buf_simps)
  have k1: "key_bytes (\<lambda>i. do { k \<leftarrow> rd8 (keys_1_of t) (i * 0x20 + 8); a \<leftarrow> rd8 ambassador i; Some ((a XOR k) + ?w + of_nat i) }) =
      Some ?a"
    unfolding CHIAKI_RPCRYPT_KEY_SIZE_def by (rule key_loop_map) (simp add: assms buf_simps)
  have r: "rd8 ?A 0x18D = Some 0x41" "rd8 ?A 0 = Some 0x41" by (simp_all add: inner_header_off_def buf_simps)
  have offs: "unat ((0x41 :: u8) AND 0x1F) = 1" "unat (drop_bit 3 (0x41 :: u8)) = 8"
    by code_simp+
  have keys: "regist_keys pf t ambassador (replicate inner_header_off (of_char (CHR ''A''))) pin None =
      Some (Inr (\<lparr>rc_target = t, rc_bright = xor_pin ?key 0xc pin, rc_ambassador = ambassador\<rparr>, ?buf))"
    using assms k0 k1
    unfolding A
    by (simp add: regist_keys_def r offs chiaki_rpcrypt_init_regist_def chiaki_rpcrypt_aeropause_def Let_def
        CHIAKI_RPCRYPT_KEY_SIZE_def buf_simps)
      (simp add: inner_header_off_def buf_simps)
  have buf: "length ?buf = 480" by (simp add: inner_header_off_def)
  define payload where "payload = ?buf @ enc"
  have columns: "payload ! 0 = 0x41" "payload ! 397 = 0x41"
    by (simp_all add: payload_def nth_append buf nth_upd inner_header_off_def)
  have hidden: "payload ! (if i < 8 then 401 + i else 191 + i) =
      (ambassador ! i XOR keys_1_of t ! (32 * i + 8)) + ?w + of_nat i" if "i < 16" for i
    using that by (simp add: payload_def nth_append buf nth_upd inner_header_off_def mult.commute del: upt_Suc upt_rec_numeral)
  have "console_request_seed t payload = ambassador"
  proof (rule nth_equalityI)
    fix i assume "i < length (console_request_seed t payload)"
    then have i: "i < 16" using assms(2) by (simp add: console_request_seed_def Let_def)
    then have "console_request_seed t payload ! i =
        (if chiaki_target_is_ps5 t then (payload ! (if i < 8 then 401 + i else 191 + i) + 45 - of_nat i) XOR ps5_keys_1 ! (32 * i + 8)
         else (payload ! (if i < 8 then 401 + i else 191 + i) - 41 - of_nat i) XOR ps4_keys_1 ! (32 * i + 8))"
      using assms(2) by (simp add: console_request_seed_def Let_def columns)
    then show "console_request_seed t payload ! i = ambassador ! i"
      unfolding hidden [OF i] by (simp add: keys_1_of_def xor.assoc)
  qed (use assms in \<open>simp add: console_request_seed_def Let_def\<close>)
  moreover have "console_request_key t payload pin = xor_pin ?key 0xc pin"
    by (rule nth_equalityI)
      (use assms xor_pin_nth [of ?key 12] in \<open>simp_all add: console_request_key_def Let_def columns keys_0_of_def mult.commute\<close>)
  ultimately show ?thesis using keys buf by (simp add: inner_header_off_def payload_def)
qed

lemmas regist_keys_ok =
  regist_keys_pre10 regist_keys_10

text \<open>What an account is called in the payload: by its online name, before version 10, or by its number.\<close>

definition online_header :: "bytes \<Rightarrow> bytes" where
  "online_header online_id =
     text_bytes ''Client-Type: Windows'' @ crlf @ text_bytes ''Np-Online-Id: '' @ online_id @ crlf"

definition account_header :: "ChiakiTarget \<Rightarrow> bytes \<Rightarrow> bytes" where
  "account_header t account_id =
     text_bytes ''Client-Type: '' @
     text_bytes (if target_lt t CHIAKI_TARGET_PS4_10 then ''Windows''
       else ''dabfa2ec873de5839bee8d3f4c0239c4282c07c25c6077a2931afcf0adc0d34f'') @ crlf @
     text_bytes ''Np-AccountId: '' @ b64_text account_id @ b64_padding (length account_id) @ crlf"

definition request_name :: "ChiakiTarget \<Rightarrow> bytes option \<Rightarrow> bytes \<Rightarrow> bytes" where
  "request_name t online_id account_id =
     (case online_id of
        Some name \<Rightarrow> if target_lt t CHIAKI_TARGET_PS4_10 then online_header name else account_header t account_id
      | None \<Rightarrow> account_header t account_id)"

lemma inner_header_name:
  assumes "length account_id = 8"
  shows "inner_header t (if target_lt t CHIAKI_TARGET_PS4_10 then online_id else None) (Some account_id) =
    Inr (request_name t online_id account_id)"
  using assms c_string_b64 [of account_id]
  by (auto simp: inner_header_def account_header_def request_name_def online_header_def CHIAKI_PSN_ACCOUNT_ID_SIZE_def
      base64_encode_eq client_type_def client_type_ps4_pre10_def split: option.splits)

lemma length_request_name:
  assumes "length account_id = 8" "\<forall>name. online_id = Some name \<longrightarrow> length name \<le> 505"
  shows "38 \<le> length (request_name t online_id account_id)" "length (request_name t online_id account_id) < 544"
  using length_b64 [of account_id] assms
  by (auto simp: request_name_def account_header_def online_header_def crlf_def text_bytes_def split: option.split)

lemma request_payload_ok:
  assumes "encrypts pf" "length ambassador = 16" "length account_id = 8" "\<forall>name. online_id = Some name \<longrightarrow> length name \<le> 505"
    and "t \<noteq> CHIAKI_TARGET_PS5_UNKNOWN"
  shows "\<exists>payload crypt. chiaki_regist_request_payload_format (cp_crypt pf) t ambassador 0x400 online_id (Some account_id) pin None =
      Some (Inr (payload, crypt)) \<and>
    length payload = inner_header_off + length (request_name t online_id account_id) \<and>
    rc_bright crypt = console_request_key t payload pin \<and> rc_ambassador crypt = console_request_seed t payload \<and>
    cfb128 (cp_crypt pf) False (console_request_key t payload pin) (console_request_iv (cp_crypt pf) t payload)
      (drop inner_header_off payload) = Some (request_name t online_id account_id)"
proof -
  let ?name = "request_name t online_id account_id" and ?t = "if target_lt t CHIAKI_TARGET_PS4_10 then CHIAKI_TARGET_PS4_9 else t"
  have keys: "\<exists>crypt buf. regist_keys (cp_crypt pf) t ambassador (replicate inner_header_off (of_char (CHR ''A''))) pin None =
      Some (Inr (crypt, buf)) \<and> length buf = inner_header_off \<and> rc_target crypt = ?t \<and>
      console_request_seed t (buf @ enc) = rc_ambassador crypt \<and> console_request_key t (buf @ enc) pin = rc_bright crypt" for enc
    using regist_keys_ok [OF assms(2)] by (cases "target_lt t CHIAKI_TARGET_PS4_10") auto
  obtain crypt buf where k: "regist_keys (cp_crypt pf) t ambassador (replicate inner_header_off (of_char (CHR ''A''))) pin None =
      Some (Inr (crypt, buf))" "length buf = inner_header_off" "rc_target crypt = ?t"
    using keys by blast
  have same: "console_request_seed t (buf @ enc) = rc_ambassador crypt \<and> console_request_key t (buf @ enc) pin = rc_bright crypt" for enc
    using keys [of enc] k(1) by auto
  have len: "length ?name < 544" "length ?name < 2 ^ 31" using length_request_name(2) [OF assms(3,4), of t] by simp_all
  obtain enc where e: "chiaki_rpcrypt_encrypt (cp_crypt pf) crypt 0 ?name = Inr enc"
    using assms(1) len(2) by (meson encrypts_def)
  have c: "cfb_contract (cp_crypt pf)" using assms(1) by (simp add: encrypts_def)
  have "rc_target crypt \<noteq> CHIAKI_TARGET_PS5_UNKNOWN" "rc_target crypt \<noteq> CHIAKI_TARGET_PS4_UNKNOWN"
    using k(3) assms(5) by (auto simp: target_lt_def)
  note iv = encrypt_console [OF c len(2) e this]
  have "chiaki_regist_request_payload_format (cp_crypt pf) t ambassador 0x400 online_id (Some account_id) pin None =
      Some (Inr (buf @ enc, crypt))"
    using k(1) e inner_header_name [OF assms(3), of t online_id] len(1)
    by (simp add: chiaki_regist_request_payload_format_def Let_def inner_header_off_def)
  moreover have "console_iv (cp_crypt pf) ?t (rc_ambassador crypt) 0 = console_iv (cp_crypt pf) (rc_target crypt) (rc_ambassador crypt) 0"
    using k(3) by simp
  ultimately show ?thesis
    using same [of enc] iv k(2,3) by (auto simp: console_request_iv_def)
qed

lemma length_decimal: "n < 10000 \<Longrightarrow> length (decimal n) \<le> 4"
  by (simp add: decimal.simps [of n] decimal.simps [of "n div 10"] decimal.simps [of "n div 10 div 10"]
      decimal.simps [of "n div 10 div 10 div 10"])

lemma request_header_ok:
  assumes "t \<noteq> CHIAKI_TARGET_PS5_UNKNOWN" "length addr \<le> 45" "256 \<le> n" "n < 10000"
  shows "\<exists>header. request_header_format 0x100 n t addr = Some (Inr header) \<and> length header < 0x100"
  using assms length_decimal [OF assms(4)]
  by (cases t) (simp_all add: request_header_format_def request_head_def target_lt_def crlf_def text_bytes_def Let_def)

text \<open>
  C23: For every console but a PlayStation 5 of unknown version, the request of a registration with a
  pin is formed without an access outside of a buffer. A console that shows the pin finds the seed in
  the payload and decrypts the name of the account: the online name for a console before version 10,
  when there is one, and the number otherwise. The client keeps the key and the seed of the console for
  the response, and the header for this payload fits into its buffer. An online name has at most 505
  characters, and an address at most 45.
\<close>

theorem regist_request:
  assumes "encrypts pf" "length ambassador = 16" "length account_id = 8" "\<forall>name. online_id = Some name \<longrightarrow> length name \<le> 505"
    and "t \<noteq> CHIAKI_TARGET_PS5_UNKNOWN" "length addr \<le> 45"
  shows "\<exists>payload crypt header.
    chiaki_regist_request_payload_format (cp_crypt pf) t ambassador 0x400 online_id (Some account_id) pin None =
      Some (Inr (payload, crypt)) \<and>
    rc_bright crypt = console_request_key t payload pin \<and> rc_ambassador crypt = console_request_seed t payload \<and>
    cfb128 (cp_crypt pf) False (console_request_key t payload pin) (console_request_iv (cp_crypt pf) t payload)
      (drop 480 payload) = Some (request_name t online_id account_id) \<and>
    request_header_format 0x100 (length payload) t addr = Some (Inr header) \<and> length header < 0x100"
proof -
  obtain payload crypt where p:
    "chiaki_regist_request_payload_format (cp_crypt pf) t ambassador 0x400 online_id (Some account_id) pin None = Some (Inr (payload, crypt))"
    "length payload = inner_header_off + length (request_name t online_id account_id)"
    "rc_bright crypt = console_request_key t payload pin" "rc_ambassador crypt = console_request_seed t payload"
    "cfb128 (cp_crypt pf) False (console_request_key t payload pin) (console_request_iv (cp_crypt pf) t payload)
      (drop inner_header_off payload) = Some (request_name t online_id account_id)"
    using request_payload_ok [OF assms(1-5), of pin] by blast
  have "256 \<le> length payload" "length payload < 10000"
    using p(2) length_request_name [OF assms(3,4), of t] by (simp_all add: inner_header_off_def)
  then obtain header where "request_header_format 0x100 (length payload) t addr = Some (Inr header)" "length header < 0x100"
    using request_header_ok [OF assms(5,6)] by blast
  then show ?thesis using p(1,3-5) by (auto simp: inner_header_off_def)
qed

theorem regist_request_witness:
  "\<exists>payload crypt header.
    chiaki_regist_request_payload_format (cp_crypt sample_ctrl_platform) CHIAKI_TARGET_PS4_9 (replicate 16 1) 0x400
      (Some (text_bytes ''nanami'')) (Some (replicate 8 2)) 1234 None = Some (Inr (payload, crypt)) \<and>
    rc_bright crypt = console_request_key CHIAKI_TARGET_PS4_9 payload 1234 \<and>
    rc_ambassador crypt = console_request_seed CHIAKI_TARGET_PS4_9 payload \<and>
    cfb128 (cp_crypt sample_ctrl_platform) False (console_request_key CHIAKI_TARGET_PS4_9 payload 1234)
      (console_request_iv (cp_crypt sample_ctrl_platform) CHIAKI_TARGET_PS4_9 payload) (drop 480 payload) =
      Some (text_bytes ''Client-Type: Windows'' @ crlf @ text_bytes ''Np-Online-Id: nanami'' @ crlf) \<and>
    request_header_format 0x100 (length payload) CHIAKI_TARGET_PS4_9 (text_bytes ''10.0.2.15'') = Some (Inr header) \<and>
    length header < 0x100"
proof -
  have e: "encrypts sample_ctrl_platform" using sample_encrypts_all [of "cp_send sample_ctrl_platform"] by simp
  have "request_name CHIAKI_TARGET_PS4_9 (Some (text_bytes ''nanami'')) (replicate 8 2) =
      text_bytes ''Client-Type: Windows'' @ crlf @ text_bytes ''Np-Online-Id: nanami'' @ crlf"
    by (simp add: request_name_def online_header_def target_lt_def text_bytes_def)
  then show ?thesis
    using regist_request [OF e, of "replicate 16 1" "replicate 8 2" "Some (text_bytes ''nanami'')" CHIAKI_TARGET_PS4_9
        "text_bytes ''10.0.2.15''" 1234]
    by (simp add: text_bytes_def)
qed

text \<open>A console of version 10 or later is never told the online name; without a number there is no request.\<close>

lemma regist_request_without_number:
  assumes "length ambassador = 16" "\<not> target_lt t CHIAKI_TARGET_PS4_10"
  shows "chiaki_regist_request_payload_format pf t ambassador 0x400 online_id None pin None = Some (Inl CHIAKI_ERR_INVALID_DATA)"
  using regist_keys_10 [OF assms, of pf pin "[]"] assms(2)
  by (auto simp: chiaki_regist_request_payload_format_def inner_header_def inner_header_off_def)

section \<open>The response\<close>

text \<open>
  A part \<open>g\<close> of the state that only headers with the key \<open>K\<close> change, by \<open>s\<close>: when \<open>s\<close> does not look at
  what was there before, the last of these headers decides.
\<close>

lemma regist_headers_append:
  "regist_headers ps5 (hs @ [(k, v)]) hf = regist_header ps5 k v (regist_headers ps5 hs hf)"
  by (induction ps5 hs hf rule: regist_headers.induct) simp_all

lemma regist_headers_last:
  assumes "\<And>k v hf. g (regist_header ps5 k v hf) = (if k = K then s v (g hf) else g hf)"
    and "map_of (rev hs) K = Some v" "\<And>p. s v p = r"
  shows "g (regist_headers ps5 hs hf) = r"
  using assms(2)
proof (induction hs rule: rev_induct)
  case (snoc kv hs)
  then show ?case
    using assms(1) [of "fst kv" "snd kv"] assms(3)
    by (cases kv) (auto simp: regist_headers_append split: if_splits)
qed simp

lemma regist_headers_absent:
  assumes "\<And>k v hf. g (regist_header ps5 k v hf) = (if k = K then s v (g hf) else g hf)" "map_of hs K = None"
  shows "g (regist_headers ps5 hs hf) = g hf"
  using assms(2)
proof (induction hs arbitrary: hf)
  case (Cons kv hs)
  then show ?case using assms(1) [of "fst kv" "snd kv" hf] by (cases kv) (simp split: if_splits)
qed simp

definition put_regist_key :: "bytes \<Rightarrow> bytes \<times> bool \<Rightarrow> bytes \<times> bool" where
  "put_regist_key v p = (case parse_hex 16 v of Inl _ \<Rightarrow> (replicate 16 0, snd p)
     | Inr bs \<Rightarrow> (bs @ replicate (16 - length bs) 0, True))"

definition put_exact :: "nat \<Rightarrow> bytes \<Rightarrow> bytes \<times> bool \<Rightarrow> bytes \<times> bool" where
  "put_exact n v p = (case parse_hex n v of Inl _ \<Rightarrow> (replicate n 0, snd p)
     | Inr bs \<Rightarrow> if length bs \<noteq> n then (replicate n 0, snd p) else (bs, True))"

lemma regist_header_parts:
  "(rh_rp_regist_key (fst (regist_header ps5 k v hf)), regist_key_found (snd (regist_header ps5 k v hf))) =
    (if k = console_header ps5 ''RegistKey'' then put_regist_key v (rh_rp_regist_key (fst hf), regist_key_found (snd hf))
     else (rh_rp_regist_key (fst hf), regist_key_found (snd hf)))"
  "(rh_rp_key (fst (regist_header ps5 k v hf)), key_found (snd (regist_header ps5 k v hf))) =
    (if k = text_bytes ''RP-Key'' then put_exact 16 v (rh_rp_key (fst hf), key_found (snd hf))
     else (rh_rp_key (fst hf), key_found (snd hf)))"
  "(rh_server_mac (fst (regist_header ps5 k v hf)), mac_found (snd (regist_header ps5 k v hf))) =
    (if k = console_header ps5 ''Mac'' then put_exact 6 v (rh_server_mac (fst hf), mac_found (snd hf))
     else (rh_server_mac (fst hf), mac_found (snd hf)))"
  "rh_target (fst (regist_header ps5 k v hf)) = rh_target (fst hf)"
  by (cases ps5; cases hf; simp add: regist_header_def console_header_def text_bytes_def put_regist_key_def put_exact_def split: sum.split)+

lemma regist_headers_target: "rh_target (fst (regist_headers ps5 hs hf)) = rh_target (fst hf)"
  by (induction ps5 hs hf rule: regist_headers.induct) (simp_all add: regist_header_parts)

lemmas regist_last =
  regist_headers_last [where g = "\<lambda>hf. (rh_rp_regist_key (fst hf), regist_key_found (snd hf))", OF regist_header_parts(1)]
  regist_headers_last [where g = "\<lambda>hf. (rh_rp_key (fst hf), key_found (snd hf))", OF regist_header_parts(2)]
  regist_headers_last [where g = "\<lambda>hf. (rh_server_mac (fst hf), mac_found (snd hf))", OF regist_header_parts(3)]

lemmas regist_absent =
  regist_headers_absent [where g = "\<lambda>hf. (rh_rp_regist_key (fst hf), regist_key_found (snd hf))", OF regist_header_parts(1)]
  regist_headers_absent [where g = "\<lambda>hf. (rh_rp_key (fst hf), key_found (snd hf))", OF regist_header_parts(2)]
  regist_headers_absent [where g = "\<lambda>hf. (rh_server_mac (fst hf), mac_found (snd hf))", OF regist_header_parts(3)]

text \<open>
  C24: The client takes exactly the registration key, the session key and the hardware address that the
  console wrote into the last header of each kind, whatever came before, and whether it could be parsed
  or not: of a shorter registration key nothing of an earlier, longer one remains.
\<close>

theorem regist_response_parsed:
  assumes "map_of (rev hs) (console_header (chiaki_target_is_ps5 t) ''RegistKey'') = Some (hex_text regist_key)"
      "length regist_key \<le> 16"
    and "map_of (rev hs) (text_bytes ''RP-Key'') = Some (hex_text key)" "length key = 16"
    and "map_of (rev hs) (console_header (chiaki_target_is_ps5 t) ''Mac'') = Some (hex_text mac)" "length mac = 6"
  shows "\<exists>h. regist_parse_headers t hs = Inr h \<and> rh_target h = t \<and> rh_rp_key h = key \<and> rh_server_mac h = mac \<and>
    rh_rp_regist_key h = regist_key @ replicate (16 - length regist_key) 0"
proof -
  let ?z = "(zero_host t, \<lparr>mac_found = False, regist_key_found = False, key_found = False\<rparr>)"
  obtain h f where hf: "regist_headers (chiaki_target_is_ps5 t) hs ?z = (h, f)" by fastforce
  have "(rh_rp_regist_key h, regist_key_found f) = (regist_key @ replicate (16 - length regist_key) 0, True)"
    using regist_last(1) [OF assms(1), of "(regist_key @ replicate (16 - length regist_key) 0, True)" ?z] hf assms(2)
    by (simp add: put_regist_key_def parse_hex_text)
  moreover have "(rh_rp_key h, key_found f) = (key, True)"
    using regist_last(2) [OF assms(3), of "(key, True)" "chiaki_target_is_ps5 t" ?z] hf assms(4)
    by (simp add: put_exact_def parse_hex_text)
  moreover have "(rh_server_mac h, mac_found f) = (mac, True)"
    using regist_last(3) [OF assms(5), of "(mac, True)" ?z] hf assms(6)
    by (simp add: put_exact_def parse_hex_text)
  moreover have "rh_target h = t"
    using regist_headers_target [of "chiaki_target_is_ps5 t" hs ?z] hf
    by (simp add: zero_host_def)
  ultimately show ?thesis by (simp add: regist_parse_headers_def hf Let_def)
qed

lemma regist_response_incomplete:
  assumes "map_of hs (console_header (chiaki_target_is_ps5 t) ''RegistKey'') = None \<or> map_of hs (text_bytes ''RP-Key'') = None \<or>
    map_of hs (console_header (chiaki_target_is_ps5 t) ''Mac'') = None"
  shows "regist_parse_headers t hs = Inl CHIAKI_ERR_INVALID_RESPONSE"
proof -
  let ?z = "(zero_host t, \<lparr>mac_found = False, regist_key_found = False, key_found = False\<rparr>)"
  obtain h f where hf: "regist_headers (chiaki_target_is_ps5 t) hs ?z = (h, f)" by fastforce
  have "\<not> regist_key_found f \<or> \<not> key_found f \<or> \<not> mac_found f"
    using assms regist_absent [of hs "chiaki_target_is_ps5 t" ?z] hf by auto
  then show ?thesis by (auto simp: regist_parse_headers_def hf Let_def)
qed

theorem regist_response_parsed_witness:
  "\<exists>h. regist_parse_headers CHIAKI_TARGET_PS5_1
      [(text_bytes ''PS5-RegistKey'', hex_text (replicate 16 9)), (text_bytes ''PS5-Mac'', hex_text [1, 2, 3, 4, 5, 6]),
       (text_bytes ''RP-Key'', text_bytes ''none''), (text_bytes ''PS5-RegistKey'', hex_text [0x61, 0x62]),
       (text_bytes ''RP-Key'', hex_text (replicate 16 7))] = Inr h \<and>
    rh_target h = CHIAKI_TARGET_PS5_1 \<and> rh_rp_key h = replicate 16 7 \<and> rh_server_mac h = [1, 2, 3, 4, 5, 6] \<and>
    rh_rp_regist_key h = [0x61, 0x62] @ replicate 14 0"
proof -
  let ?hs = "[(text_bytes ''PS5-RegistKey'', hex_text (replicate 16 9)), (text_bytes ''PS5-Mac'', hex_text [1, 2, 3, 4, 5, 6]),
       (text_bytes ''RP-Key'', text_bytes ''none''), (text_bytes ''PS5-RegistKey'', hex_text [0x61, 0x62]),
       (text_bytes ''RP-Key'', hex_text (replicate 16 7))]"
  have ps5: "chiaki_target_is_ps5 CHIAKI_TARGET_PS5_1" by (simp add: chiaki_target_is_ps5_def target_lt_def)
  have hs: "map_of (rev ?hs) (console_header True ''RegistKey'') = Some (hex_text [0x61, 0x62])"
    "map_of (rev ?hs) (text_bytes ''RP-Key'') = Some (hex_text (replicate 16 7))"
    "map_of (rev ?hs) (console_header True ''Mac'') = Some (hex_text [1, 2, 3, 4, 5, 6])"
    by (simp_all add: text_bytes_def console_header_def)
  show ?thesis
    using regist_response_parsed [of ?hs CHIAKI_TARGET_PS5_1 "[0x61, 0x62]" "replicate 16 7" "[1, 2, 3, 4, 5, 6]"] hs
    by (simp add: ps5 del: rev.simps)
qed

end
