(* ===== verification/Spec2Isabelle.thy ===== *)
theory Spec2Isabelle
  imports Takion_Delivery Utils Audio_Props Feedback_Props Http_Props Slice_Props Video_Delivery RPCrypt_Props Rudp_Props Ctrl_Props Ctrl_Connect_Props Regist_Props
begin

text \<open>
  This development models the protocol core of chiaki4deck, a client of the PlayStation
  Remote Play protocol: the C library under \<^verbatim>\<open>lib/\<close>. A session receives video, audio and
  messages over Takion, a transport over UDP, and sends messages, microphone data and the state
  of the controllers over it.

  \<^bold>\<open>Parts and theories.\<close>
  \<^item> \<^verbatim>\<open>Chiaki_Prelude\<close>: words and byte buffers, the error codes (\<^verbatim>\<open>common.h\<close>,
    \<^verbatim>\<open>common.c\<close>), generic lemmas and the collections \<^verbatim>\<open>buf_simps\<close> and \<^verbatim>\<open>msg_simps\<close>.
  \<^item> \<^verbatim>\<open>Seq_Num\<close>: serial numbers (\<^verbatim>\<open>seqnum.h\<close>) and the distance between them.
  \<^item> \<^verbatim>\<open>Reorder_Queue\<close>, \<^verbatim>\<open>Reorder_Queue_Refine\<close> (\<^verbatim>\<open>reorderqueue.c\<close>): a ring of slots
    under function pointers for the sequence numbers. The locale \<^verbatim>\<open>seq_num_ops\<close> states the laws
    of these pointers; under them the ring implements a window of optional elements
    (\<^verbatim>\<open>push_spec\<close>, \<^verbatim>\<open>pull_spec\<close>), and the locale is interpreted on the 32 bit operations.
  \<^item> \<^verbatim>\<open>Send_Buffer\<close> (\<^verbatim>\<open>takionsendbuffer.c\<close>): packets that wait for their acknowledgement.
    The loop of \<^verbatim>\<open>ack\<close>, which moves packets gap by gap, is a filter. A pass of the thread
    that sends packets again releases the mutex to acknowledge a packet that it gives up, so it is a
    series of steps (\<^verbatim>\<open>resend_point\<close>) between which others push and acknowledge; an invariant
    holds in every state that all these steps reach.
  \<^item> \<^verbatim>\<open>Packet_Stats\<close> (\<^verbatim>\<open>packetstats.c\<close>), \<^verbatim>\<open>Utils\<close> (\<^verbatim>\<open>utils.h\<close>): counters of
    received and lost packets; exclusive or and hexadecimal text.
  \<^item> \<^verbatim>\<open>GK_Crypt\<close>, \<^verbatim>\<open>GK_Crypt_Props\<close> (\<^verbatim>\<open>gkcrypt.c\<close>): the key stream in counter mode,
    the ring buffer in which a thread generates it ahead, the authentication keys that change every
    45000 bytes, and the recovery of a 64 bit key position from its low half. The invariant
    \<^verbatim>\<open>gk_inv\<close> says that the ring holds the stream; it is kept by every step of the thread and of
    the users, so decryption gives the same bytes however the thread is scheduled.
  \<^item> \<^verbatim>\<open>Av_Packet\<close>, \<^verbatim>\<open>Frame_Processor\<close>, \<^verbatim>\<open>Frame_Processor_Props\<close>
    (\<^verbatim>\<open>frameprocessor.c\<close>, \<^verbatim>\<open>fec.c\<close>): the units of a video frame, their reconstruction by
    forward error correction and the frame that is flushed to the decoder.
  \<^item> \<^verbatim>\<open>Takion_Packets\<close>, \<^verbatim>\<open>Takion_Packets_Props\<close>: the formats of all packets and their
    authentication codes. \<^verbatim>\<open>Takion\<close>: the state of a connection, what it sends, the
    handshake. \<^verbatim>\<open>Takion_Receive\<close>: the receiving thread. \<^verbatim>\<open>Takion_Props\<close>: key positions,
    authentication, handshake, errors. \<^verbatim>\<open>Takion_Delivery\<close>: the delivery of messages to the
    client (all \<^verbatim>\<open>takion.c\<close>). The locale \<^verbatim>\<open>takion_client\<close> is the contract of the
    client's callback; it is interpreted on a client that makes the calls that the stream connection
    makes.
  \<^item> \<^verbatim>\<open>Controller\<close> (\<^verbatim>\<open>controller.c\<close>), \<^verbatim>\<open>Feedback\<close> (\<^verbatim>\<open>feedback.c\<close>),
    \<^verbatim>\<open>Feedback_Sender\<close>, \<^verbatim>\<open>Feedback_Props\<close> (\<^verbatim>\<open>feedbacksender.c\<close>,
    \<^verbatim>\<open>congestioncontrol.c\<close>): the state of the controllers, how it is put into packets, and the
    thread that sends changes as events; the events lead a console from the old state to the new.
  \<^item> \<^verbatim>\<open>Audio\<close>, \<^verbatim>\<open>Audio_Props\<close> (\<^verbatim>\<open>audio.c\<close>,
    \<^verbatim>\<open>audioreceiver.c\<close>, \<^verbatim>\<open>audiosender.c\<close>): frames of sound and their repetitions.
  \<^item> \<^verbatim>\<open>Bitstream\<close>, \<^verbatim>\<open>Bitstream_Props\<close>, \<^verbatim>\<open>Slice_Props\<close>
    (\<^verbatim>\<open>vl_rbsp.h\<close>, \<^verbatim>\<open>bitstream.c\<close>): a reader of bits with its buffer of 64 bits,
    and the parsers of H.264 and H.265. The invariant \<^verbatim>\<open>vlc_at\<close> ties a reader to a bit position of
    the input; with it the parser reads a header that is given as a list of bits.
  \<^item> \<^verbatim>\<open>Video_Receiver\<close>, \<^verbatim>\<open>Video_Receiver_Props\<close>, \<^verbatim>\<open>Video_Delivery\<close>
    (\<^verbatim>\<open>videoreceiver.c\<close>): frames, the frames the decoder has and the frame a new one refers
    to; on top of the frame processor, the delivery of a frame from its packets.
  \<^item> \<^verbatim>\<open>Http\<close>, \<^verbatim>\<open>Http_Props\<close> (\<^verbatim>\<open>http.c\<close>, \<^verbatim>\<open>base64.c\<close>): responses, their
    headers, receiving a header piece by piece, and base 64.
  \<^item> \<^verbatim>\<open>RPCrypt_Tables\<close>, \<^verbatim>\<open>RPCrypt\<close>, \<^verbatim>\<open>RPCrypt_Props\<close>
    (\<^verbatim>\<open>rpcrypt.c\<close>): the keys of the control connection and the registration from the key
    tables of the consoles (large tables are kept in pieces), nonces and encryption. The other end is
    described by formulas of its own (\<^verbatim>\<open>console_key\<close>, \<^verbatim>\<open>console_seed\<close>,
    \<^verbatim>\<open>console_iv\<close>), and some values of the tests of the repository are checked.
  \<^item> \<^verbatim>\<open>Rudp\<close>, \<^verbatim>\<open>Rudp_Props\<close> (\<^verbatim>\<open>remote/rudp.c\<close>,
    \<^verbatim>\<open>remote/rudpsendbuffer.c\<close>): the reliable UDP of connections over the internet. Its send buffer
    is the one of \<^verbatim>\<open>Send_Buffer\<close>, whose records and lemmas are generic in the width of the
    sequence numbers, with numbers of 16 bits. Messages nest; the parser inverts the serialiser.
  \<^item> \<^verbatim>\<open>Session_Types\<close> (\<^verbatim>\<open>session.h\<close>, \<^verbatim>\<open>session.c\<close>): versions,
    reasons to quit, the state that the threads of a session share, its predicates and setters, and
    the header of an HTTP response over the reliable UDP.
  \<^item> \<^verbatim>\<open>Ctrl\<close>, \<^verbatim>\<open>Ctrl_Props\<close>, \<^verbatim>\<open>Ctrl_Connect\<close>, \<^verbatim>\<open>Ctrl_Connect_Props\<close>
    (\<^verbatim>\<open>ctrl.c\<close>): the control connection. Its record extends that of the session. The queue of
    other threads, sending, the framing of the stream, every handler, the rounds of the thread over
    TCP and the reliable UDP; then the request that sets the connection up and its answer. A list of
    whole messages (\<^verbatim>\<open>frames\<close>) is the reference for the framing, a console that reads them
    (\<^verbatim>\<open>console_read\<close>) that for sending.
  \<^item> \<^verbatim>\<open>Regist\<close>, \<^verbatim>\<open>Regist_Props\<close> (\<^verbatim>\<open>regist.c\<close>): the registration at a console:
    the encrypted request, which a console described by formulas of its own
    (\<^verbatim>\<open>console_request_seed\<close>, \<^verbatim>\<open>console_request_key\<close>) reads, the search, the response
    with its headers and the thread; and what its result does to the session.

  \<^bold>\<open>Conventions.\<close> Integers are words of their width; a \<^verbatim>\<open>size_t\<close> that only counts bytes of one
  buffer is a natural number. A buffer is a list of bytes; \<^verbatim>\<open>rd8\<close>, \<^verbatim>\<open>rd_n\<close>, \<^verbatim>\<open>wr\<close>
  give \<open>None\<close> outside of it. The value \<open>None\<close> of an operation always stands for undefined
  behaviour or a failed assertion, so the theorems that give \<open>Some\<close> say that there is none; error
  codes are values. State is a record that is passed on; a stretch that a
  thread runs under a mutex is one step, and where a function releases the mutex in between it is
  several. The count of lost frames that the video receiver adds up, an \<^verbatim>\<open>int32_t\<close>, is an
  integer, as it stays in its range for \<open>2 ^ 14\<close> frames after a delivery.
  System calls, allocations, AES, SHA-256, HMAC, GCM and the erasure code are parameters (the record
  \<^verbatim>\<open>platform\<close> of \<^verbatim>\<open>Takion\<close>), with their documented lengths as hypotheses where a
  theorem needs them. Frees of received buffers are not tracked. Packets that are sent and events
  that are raised are appended to the trace \<^verbatim>\<open>tk_out\<close>.

  \<^bold>\<open>Loops.\<close> Loops over arrays recurse on a count of rounds, taken from the bound in the code.
  The loops of the queue (\<^verbatim>\<open>drop_first\<close>, \<^verbatim>\<open>move_end\<close>, \<^verbatim>\<open>flush_data_loop\<close>,
  \<^verbatim>\<open>takion_recheck_macs\<close>) are partial functions, and the theorems about them state that they
  return. The loops of the threads recurse on the list of inputs.

  \<^bold>\<open>Not modelled.\<close> The threads of the session and of the stream connection and the network
  test, whose messages are encoded by generated code, and the discovery. The wrappers of the operating
  system, the codecs, the key exchange (calls of a library), the orientation filter (floating point
  throughout), the hole punching (web requests and JSON) and the clients in C++, Java and QML.
\<close>

end
